(* ===== verification/Nt_Prelude.thy ===== *)
theory Nt_Prelude
  imports Main "HOL-Library.Word" "HOL-Library.State_Monad"
begin

unbundle bit_operations_syntax

text \<open>
  Shared vocabulary of the development: machine words, \<open>NTSTATUS\<close> codes, bytes in memory,
  and a small Hoare calculus over the library's state monad.

  \<^item> Machine integers keep their width (\<open>ULONG\<close> is \<open>32 word\<close>, so \<open>+\<close> wraps).
  \<^item> A handler of the drivers is a program of type \<open>('w, 'a) state\<close>; \<open>triple P m Q\<close> says
    that \<open>m\<close>, started where \<open>P\<close> holds, ends with a result and a state that satisfy \<open>Q\<close>,
    and \<open>keeps I m\<close> that it preserves \<open>I\<close>. The rules are collected in \<open>wp\<close> and \<open>keep\<close>.
\<close>

named_theorems wp \<open>Hoare rules for the state monad, used backwards\<close>
named_theorems keep \<open>preservation rules for the state monad\<close>
named_theorems run \<open>equations that execute one operation of the model\<close>

section \<open>Machine types and status codes\<close>

type_synonym u8 = "8 word"
type_synonym u16 = "16 word"
type_synonym u32 = "32 word"
type_synonym u64 = "64 word"
type_synonym handle = nat
type_synonym ntstatus = "32 word"

text \<open>Status codes of \<open>ntstatus.h\<close>; \<open>NT_SUCCESS\<close> tests the sign bit.\<close>

abbreviation (input) STATUS_SUCCESS :: ntstatus where "STATUS_SUCCESS \<equiv> 0"
abbreviation (input) STATUS_WAIT_0 :: ntstatus where "STATUS_WAIT_0 \<equiv> 0"
abbreviation (input) STATUS_WAIT_1 :: ntstatus where "STATUS_WAIT_1 \<equiv> 1"
abbreviation (input) STATUS_TIMEOUT :: ntstatus where "STATUS_TIMEOUT \<equiv> 0x102"
abbreviation (input) STATUS_BUFFER_OVERFLOW :: ntstatus where "STATUS_BUFFER_OVERFLOW \<equiv> 0x80000005"
abbreviation (input) STATUS_OBJECT_NAME_NOT_FOUND :: ntstatus where "STATUS_OBJECT_NAME_NOT_FOUND \<equiv> 0xC0000034"
abbreviation (input) STATUS_NO_MORE_FILES :: ntstatus where "STATUS_NO_MORE_FILES \<equiv> 0x80000006"
abbreviation (input) STATUS_NO_MORE_ENTRIES :: ntstatus where "STATUS_NO_MORE_ENTRIES \<equiv> 0x8000001A"
abbreviation (input) STATUS_UNSUCCESSFUL :: ntstatus where "STATUS_UNSUCCESSFUL \<equiv> 0xC0000001"
abbreviation (input) STATUS_INVALID_PARAMETER :: ntstatus where "STATUS_INVALID_PARAMETER \<equiv> 0xC000000D"
abbreviation (input) STATUS_BUFFER_TOO_SMALL :: ntstatus where "STATUS_BUFFER_TOO_SMALL \<equiv> 0xC0000023"
abbreviation (input) STATUS_INSUFFICIENT_RESOURCES :: ntstatus where
  "STATUS_INSUFFICIENT_RESOURCES \<equiv> 0xC000009A"
abbreviation (input) STATUS_DEVICE_NOT_READY :: ntstatus where "STATUS_DEVICE_NOT_READY \<equiv> 0xC00000A3"
abbreviation (input) STATUS_IO_TIMEOUT :: ntstatus where "STATUS_IO_TIMEOUT \<equiv> 0xC00000B5"
abbreviation (input) STATUS_NOT_SUPPORTED :: ntstatus where "STATUS_NOT_SUPPORTED \<equiv> 0xC00000BB"
abbreviation (input) STATUS_INTERNAL_ERROR :: ntstatus where "STATUS_INTERNAL_ERROR \<equiv> 0xC00000E5"
abbreviation (input) STATUS_PENDING :: ntstatus where "STATUS_PENDING \<equiv> 0x103"
abbreviation (input) STATUS_MORE_PROCESSING_REQUIRED :: ntstatus where "STATUS_MORE_PROCESSING_REQUIRED \<equiv> 0xC0000016"
abbreviation (input) STATUS_NOT_IMPLEMENTED :: ntstatus where "STATUS_NOT_IMPLEMENTED \<equiv> 0xC0000002"
abbreviation (input) STATUS_CRC_ERROR :: ntstatus where "STATUS_CRC_ERROR \<equiv> 0xC000003F"
abbreviation (input) STATUS_DEVICE_DATA_ERROR :: ntstatus where "STATUS_DEVICE_DATA_ERROR \<equiv> 0xC000009C"
abbreviation (input) STATUS_DEVICE_POWER_FAILURE :: ntstatus where "STATUS_DEVICE_POWER_FAILURE \<equiv> 0xC000009E"
abbreviation (input) STATUS_IO_DEVICE_ERROR :: ntstatus where "STATUS_IO_DEVICE_ERROR \<equiv> 0xC0000185"
abbreviation (input) STATUS_DEVICE_PROTOCOL_ERROR :: ntstatus where "STATUS_DEVICE_PROTOCOL_ERROR \<equiv> 0xC0000186"
abbreviation (input) STATUS_RESOURCE_TYPE_NOT_FOUND :: ntstatus where "STATUS_RESOURCE_TYPE_NOT_FOUND \<equiv> 0xC000008A"
abbreviation (input) STATUS_INVALID_BUFFER_SIZE :: ntstatus where "STATUS_INVALID_BUFFER_SIZE \<equiv> 0xC0000206"
abbreviation (input) STATUS_TRANSACTION_TIMED_OUT :: ntstatus where "STATUS_TRANSACTION_TIMED_OUT \<equiv> 0xC0000210"
abbreviation (input) STATUS_NOT_FOUND :: ntstatus where "STATUS_NOT_FOUND \<equiv> 0xC0000225"

definition NT_SUCCESS :: "ntstatus \<Rightarrow> bool" where
  "NT_SUCCESS st \<longleftrightarrow> \<not> bit st 31"

lemma NT_SUCCESS_numeral [simp]:
  "NT_SUCCESS 0" "NT_SUCCESS 1" "NT_SUCCESS 0x102" "NT_SUCCESS 0x103"
  "\<not> NT_SUCCESS 0xC0000016" "\<not> NT_SUCCESS 0xC0000002" "\<not> NT_SUCCESS 0xC000003F" "\<not> NT_SUCCESS 0xC000009C"
  "\<not> NT_SUCCESS 0xC000009E" "\<not> NT_SUCCESS 0xC0000185" "\<not> NT_SUCCESS 0xC0000186"
  "\<not> NT_SUCCESS 0x80000005" "\<not> NT_SUCCESS 0xC0000034" "\<not> NT_SUCCESS 0x80000006" "\<not> NT_SUCCESS 0x8000001A"
  "\<not> NT_SUCCESS 0xC0000001" "\<not> NT_SUCCESS 0xC000000D" "\<not> NT_SUCCESS 0xC0000023"
  "\<not> NT_SUCCESS 0xC000009A" "\<not> NT_SUCCESS 0xC00000A3" "\<not> NT_SUCCESS 0xC00000B5"
  "\<not> NT_SUCCESS 0xC00000BB" "\<not> NT_SUCCESS 0xC00000E5" "\<not> NT_SUCCESS 0xC0000225"
  "\<not> NT_SUCCESS 0xC000008A" "\<not> NT_SUCCESS 0xC0000206" "\<not> NT_SUCCESS 0xC0000210"
  by (simp_all add: NT_SUCCESS_def)

text \<open>Bounds of a \<open>ULONG\<close> as a natural number.\<close>

lemma unat_u32_less: "unat (x :: u32) < 4294967296"
proof -
  have "unat x < 2 ^ LENGTH(32)" by (rule unsigned_less)
  then show ?thesis by simp
qed

lemma unat_u16_less: "unat (x :: u16) < 65536"
proof -
  have "unat x < 2 ^ LENGTH(16)" by (rule unsigned_less)
  then show ?thesis by simp
qed

lemma unat_widen: "unat (ucast (x :: u16) :: u32) = unat x"
  using unat_u16_less [of x] by (simp add: unsigned_ucast_eq take_bit_nat_eq_self)

lemma unat_of_nat_small: "k < 4294967296 \<Longrightarrow> unat (of_nat k :: u32) = k"
  by (simp only: unsigned_of_nat) (simp add: take_bit_nat_eq_self)

lemma uint_pos_sint:
  fixes x :: "'a :: len word"
  assumes "0 \<le> sint x"
  shows "uint x = sint x"
proof -
  have "sint x < 2 ^ (LENGTH('a) - 1)" by (rule sint_lt)
  also have "\<dots> \<le> (2 :: int) ^ LENGTH('a)" by (rule power_increasing) simp_all
  finally show ?thesis using assms by (simp add: uint_sint take_bit_int_eq_self)
qed

lemma unat_pos_sint:
  fixes x :: "'a :: len word"
  shows "0 \<le> sint x \<Longrightarrow> unat x < 2 ^ (LENGTH('a) - 1)"
  using uint_pos_sint [of x] sint_lt [of x] by (simp add: unat_eq_nat_uint nat_less_iff)

lemma sint_pos:
  assumes "unat (x :: u32) < 2147483648"
  shows "sint x = int (unat x)"
proof -
  have small: "signed_take_bit 31 (int n) = int n" if "n < 2147483648" for n
    using that by (simp add: signed_take_bit_int_eq_self)
  have "sint x = signed_take_bit 31 (uint x)" by (simp add: sint_uint)
  also have "uint x = int (unat x)" by simp
  also have "signed_take_bit 31 (int (unat x)) = int (unat x)" using assms by (rule small)
  finally show ?thesis .
qed

lemma unat_of_nat_mod: "n \<noteq> 0 \<Longrightarrow> unat (of_nat (k mod unat n) :: u32) = k mod unat (n :: u32)"
  by (rule unat_of_nat_small) (metis less_trans mod_less_divisor unat_gt_0 unat_u32_less)

section \<open>Bytes in memory\<close>

definition le32 :: "u32 \<Rightarrow> u8 list" where
  "le32 x = [ucast x, ucast (drop_bit 8 x), ucast (drop_bit 16 x), ucast (drop_bit 24 x)]"

definition from_le32 :: "u8 list \<Rightarrow> u32" where
  "from_le32 bs = (case bs of
      [a, b, c, d] \<Rightarrow> ucast a OR push_bit 8 (ucast b) OR push_bit 16 (ucast c) OR push_bit 24 (ucast d)
    | _ \<Rightarrow> 0)"

lemma length_le32 [simp]: "length (le32 x) = 4"
  by (simp add: le32_def)

lemma from_le32_le32 [simp]: "from_le32 (le32 x) = x"
proof (rule bit_word_eqI)
  fix n assume "n < LENGTH(32)"
  then have "n < 32" by simp
  then consider "n < 8" | "8 \<le> n" "n < 16" | "16 \<le> n" "n < 24" | "24 \<le> n" "n < 32"
    by linarith
  then show "bit (from_le32 (le32 x)) n = bit x n"
    by cases (auto simp: from_le32_def le32_def bit_simps)
qed

definition store_bytes :: "nat \<Rightarrow> u8 list \<Rightarrow> (nat \<Rightarrow> u8) \<Rightarrow> (nat \<Rightarrow> u8)" where
  "store_bytes a bs m = (\<lambda>x. if a \<le> x \<and> x < a + length bs then bs ! (x - a) else m x)"

definition load_bytes :: "nat \<Rightarrow> nat \<Rightarrow> (nat \<Rightarrow> u8) \<Rightarrow> u8 list" where
  "load_bytes a n m = map m [a ..< a + n]"

definition load32 :: "nat \<Rightarrow> (nat \<Rightarrow> u8) \<Rightarrow> u32" where
  "load32 a m = from_le32 (load_bytes a 4 m)"

lemma length_load_bytes [simp]: "length (load_bytes a n m) = n"
  by (simp add: load_bytes_def)

lemma store_bytes_Nil [simp]: "store_bytes a [] m = m"
  by (rule ext) (auto simp: store_bytes_def)

lemma store_bytes_outside: "x < a \<or> a + length bs \<le> x \<Longrightarrow> store_bytes a bs m x = m x"
  by (auto simp: store_bytes_def)

lemma load_store_same [simp]: "n = length bs \<Longrightarrow> load_bytes a n (store_bytes a bs m) = bs"
  by (rule nth_equalityI) (auto simp: load_bytes_def store_bytes_def)

lemma load_store_disjoint:
  "a + n \<le> b \<or> b + length bs \<le> a \<Longrightarrow> load_bytes a n (store_bytes b bs m) = load_bytes a n m"
  by (auto simp: load_bytes_def store_bytes_def)

lemma load_bytes_append:
  "load_bytes a (n + k) m = load_bytes a n m @ load_bytes (a + n) k m"
  by (simp add: load_bytes_def upt_add_eq_append [of a "a + n" k] flip: map_append add.assoc)

lemma load_bytes_cong: "(\<And>x. a \<le> x \<Longrightarrow> x < a + n \<Longrightarrow> m' x = m x) \<Longrightarrow> load_bytes a n m' = load_bytes a n m"
  by (simp add: load_bytes_def)

lemma load_store_prefix:
  "n = length bs \<Longrightarrow> load_bytes a n (store_bytes a (bs @ cs) m) = bs"
  by (rule nth_equalityI) (auto simp: load_bytes_def store_bytes_def nth_append)

lemma load_store_suffix:
  "b = a + length bs \<Longrightarrow> n = length cs \<Longrightarrow> load_bytes b n (store_bytes a (bs @ cs) m) = cs"
  by (rule nth_equalityI) (auto simp: load_bytes_def store_bytes_def nth_append)

lemma store_bytes_append:
  "store_bytes a (bs @ cs) m = store_bytes (a + length bs) cs (store_bytes a bs m)"
  by (rule ext) (auto simp: store_bytes_def nth_append diff_diff_left)

section \<open>A Hoare calculus for the state monad\<close>

abbreviation return :: "'a \<Rightarrow> ('s, 'a) state" where "return \<equiv> State_Monad.return"
abbreviation get :: "('s, 's) state" where "get \<equiv> State_Monad.get"
abbreviation update :: "('s \<Rightarrow> 's) \<Rightarrow> ('s, unit) state" where "update \<equiv> State_Monad.update"

definition gets :: "('s \<Rightarrow> 'a) \<Rightarrow> ('s, 'a) state" where
  "gets f = State (\<lambda>s. (f s, s))"

definition do_when :: "bool \<Rightarrow> ('s, unit) state \<Rightarrow> ('s, unit) state" where
  "do_when b m = (if b then m else return ())"

lemma run_gets [simp, run]: "run_state (gets f) s = (f s, s)"
  by (simp add: gets_def)

lemma run_update [simp, run]: "run_state (update f) s = ((), f s)"
  by (simp add: State_Monad.update_def)

lemma run_when [simp, run]: "run_state (do_when b m) s = (if b then run_state m s else ((), s))"
  by (simp add: do_when_def)

definition triple :: "('s \<Rightarrow> bool) \<Rightarrow> ('s, 'a) state \<Rightarrow> ('a \<Rightarrow> 's \<Rightarrow> bool) \<Rightarrow> bool" where
  "triple P m Q \<longleftrightarrow> (\<forall>s. P s \<longrightarrow> (case run_state m s of (a, s') \<Rightarrow> Q a s'))"

lemma tripleI: "(\<And>s a s'. P s \<Longrightarrow> run_state m s = (a, s') \<Longrightarrow> Q a s') \<Longrightarrow> triple P m Q"
  by (auto simp: triple_def split: prod.split)

lemma tripleD: "triple P m Q \<Longrightarrow> P s \<Longrightarrow> run_state m s = (a, s') \<Longrightarrow> Q a s'"
  by (auto simp: triple_def split: prod.splits)

lemma triple_fst_snd:
  "triple P m Q \<Longrightarrow> P s \<Longrightarrow> Q (fst (run_state m s)) (snd (run_state m s))"
  by (auto simp: triple_def split: prod.splits)

lemma triple_pre: "triple P' m Q \<Longrightarrow> (\<And>s. P s \<Longrightarrow> P' s) \<Longrightarrow> triple P m Q"
  by (auto simp: triple_def)

lemma triple_post: "triple P m Q' \<Longrightarrow> (\<And>a s. Q' a s \<Longrightarrow> Q a s) \<Longrightarrow> triple P m Q"
  by (fastforce simp: triple_def split: prod.splits)

lemma triple_bind:
  "triple P m R \<Longrightarrow> (\<And>a. triple (R a) (f a) Q) \<Longrightarrow> triple P (m \<bind> f) Q"
  by (fastforce simp: triple_def split: prod.splits)

lemma triple_bind_wp [wp]:
  "(\<And>a. triple (R a) (f a) Q) \<Longrightarrow> triple P m R \<Longrightarrow> triple P (m \<bind> f) Q"
  by (rule triple_bind)

lemma triple_return [wp]: "triple (Q x) (return x) Q"
  by (simp add: triple_def)

lemma triple_get [wp]: "triple (\<lambda>s. Q s s) get Q"
  by (simp add: triple_def)

lemma triple_gets [wp]: "triple (\<lambda>s. Q (f s) s) (gets f) Q"
  by (simp add: triple_def)

lemma triple_update [wp]: "triple (\<lambda>s. Q () (f s)) (update f) Q"
  by (simp add: triple_def)

lemma triple_when [wp]:
  "triple P m Q \<Longrightarrow> triple (\<lambda>s. (b \<longrightarrow> P s) \<and> (\<not> b \<longrightarrow> Q () s)) (do_when b m) Q"
  by (simp add: triple_def do_when_def)

lemma triple_if [wp]:
  "triple P m Q \<Longrightarrow> triple P' m' Q \<Longrightarrow>
   triple (\<lambda>s. (b \<longrightarrow> P s) \<and> (\<not> b \<longrightarrow> P' s)) (if b then m else m') Q"
  by (simp add: triple_def)

lemma triple_case_option [wp]:
  "triple P m Q \<Longrightarrow> (\<And>x. triple (P' x) (m' x) Q) \<Longrightarrow>
   triple (\<lambda>s. case v of None \<Rightarrow> P s | Some x \<Rightarrow> P' x s) (case v of None \<Rightarrow> m | Some x \<Rightarrow> m' x) Q"
  by (auto simp: triple_def split: option.splits)

definition keeps :: "('s \<Rightarrow> bool) \<Rightarrow> ('s, 'a) state \<Rightarrow> bool" where
  "keeps I m \<longleftrightarrow> (\<forall>s. I s \<longrightarrow> I (snd (run_state m s)))"

lemma keepsI: "(\<And>s. I s \<Longrightarrow> I (snd (run_state m s))) \<Longrightarrow> keeps I m"
  by (simp add: keeps_def)

lemma keepsD: "keeps I m \<Longrightarrow> I s \<Longrightarrow> I (snd (run_state m s))"
  by (simp add: keeps_def)

lemma keeps_triple: "keeps I m \<longleftrightarrow> triple I m (\<lambda>_. I)"
  by (simp add: keeps_def triple_def case_prod_unfold)

lemma keeps_bind [keep]: "keeps I m \<Longrightarrow> (\<And>a. keeps I (f a)) \<Longrightarrow> keeps I (m \<bind> f)"
  by (simp add: keeps_def case_prod_unfold)

lemma keeps_return [keep]: "keeps I (return x)"
  by (simp add: keeps_def)

lemma keeps_get [keep]: "keeps I get"
  by (simp add: keeps_def)

lemma keeps_gets [keep]: "keeps I (gets f)"
  by (simp add: keeps_def)

lemma keeps_when [keep]: "keeps I m \<Longrightarrow> keeps I (do_when b m)"
  by (simp add: keeps_def)

lemma keeps_if [keep]: "keeps I m \<Longrightarrow> keeps I m' \<Longrightarrow> keeps I (if b then m else m')"
  by simp

lemma keeps_case_option [keep]:
  "keeps I m \<Longrightarrow> (\<And>x. keeps I (m' x)) \<Longrightarrow> keeps I (case v of None \<Rightarrow> m | Some x \<Rightarrow> m' x)"
  by (simp split: option.splits)

lemma keeps_case_prod [keep]: "(\<And>a b. keeps I (f a b)) \<Longrightarrow> keeps I (case p of (a, b) \<Rightarrow> f a b)"
  by (simp split: prod.splits)

lemma keeps_update: "(\<And>s. I s \<Longrightarrow> I (f s)) \<Longrightarrow> keeps I (update f)"
  by (simp add: keeps_def)

text \<open>
  Rules for walking through a program from the front: a step that keeps the current
  assertion, a reading step, and a step that establishes the next assertion.
\<close>

lemma keeps_then: "keeps P m \<Longrightarrow> (\<And>a. triple P (f a) Q) \<Longrightarrow> triple P (m \<bind> f) Q"
  by (auto simp: keeps_triple intro: triple_bind)

lemma get_then: "(\<And>w. P w \<Longrightarrow> triple (\<lambda>s. s = w) (f w) Q) \<Longrightarrow> triple P (get \<bind> f) Q"
  by (auto simp: triple_def)

lemma update_then:
  "(\<And>w. P w \<Longrightarrow> P' (g w)) \<Longrightarrow> triple P' (f ()) Q \<Longrightarrow> triple P (update g \<bind> f) Q"
  by (auto simp: triple_def)

lemma step_then: "triple P m R \<Longrightarrow> (\<And>a. triple (R a) (f a) Q) \<Longrightarrow> triple P (m \<bind> f) Q"
  by (rule triple_bind)

lemma triple_if_cases:
  "(b \<Longrightarrow> triple P m Q) \<Longrightarrow> (\<not> b \<Longrightarrow> triple P m' Q) \<Longrightarrow> triple P (if b then m else m') Q"
  by simp

lemma triple_when_cases:
  "(b \<Longrightarrow> triple P m (\<lambda>_. Q)) \<Longrightarrow> (\<not> b \<Longrightarrow> (\<And>s. P s \<Longrightarrow> Q s)) \<Longrightarrow> triple P (do_when b m) (\<lambda>_. Q)"
  by (auto simp: triple_def do_when_def)

lemma triple_done: "(\<And>s. P s \<Longrightarrow> Q x s) \<Longrightarrow> triple P (return x) Q"
  by (simp add: triple_def)

lemma triple_keeps: "keeps P m \<Longrightarrow> triple P m (\<lambda>_. P)"
  by (simp add: keeps_triple)

lemma keeps_run: "keeps I m \<Longrightarrow> run_state m s = (a, s') \<Longrightarrow> I s \<Longrightarrow> I s'"
  by (metis keepsD snd_conv)

lemma triple_conj:
  "triple P m Q \<Longrightarrow> triple P' m Q' \<Longrightarrow> triple (\<lambda>s. P s \<and> P' s) m (\<lambda>a s. Q a s \<and> Q' a s)"
  by (fastforce simp: triple_def split: prod.splits)

lemma triple_const: "(c \<Longrightarrow> triple P m Q) \<Longrightarrow> triple (\<lambda>s. P s \<and> c) m Q"
  by (auto simp: triple_def)

lemma keeps_conj: "keeps I m \<Longrightarrow> keeps J m \<Longrightarrow> keeps (\<lambda>s. I s \<and> J s) m"
  by (simp add: keeps_def)

lemma keeps_get_with: "(\<And>v. I v \<Longrightarrow> keeps I (f v)) \<Longrightarrow> keeps I (get \<bind> f)"
  by (simp add: keeps_def)

lemma keeps_when_never: "\<not> b \<Longrightarrow> keeps I (do_when b m)"
  by (simp add: keeps_def)

lemma triple_ex: "(\<And>x. triple (P x) m Q) \<Longrightarrow> triple (\<lambda>s. \<exists>x. P x s) m Q"
  by (rule tripleI, elim exE, rule tripleD)

lemma triple_case_prod:
  "(\<And>a b. triple P (f a b) Q) \<Longrightarrow> triple P (case p of (a, b) \<Rightarrow> f a b) Q"
  by (simp split: prod.split)

end
