(* ===== verification/Kernel.thy ===== *)
theory Kernel
  imports Nt_Prelude
begin

text \<open>
  The operating system as the drivers see it. None of the kernel and framework routines is
  under \<open>src/\<close>, so their results are a parameter of the model: an \<open>os\<close> maps the calls made
  so far and the call being made to a reply, and every call is recorded with its reply in
  \<open>trace\<close>. An arbitrary \<open>os\<close> covers every behaviour of the system; what a property needs of
  the documented behaviour of a routine is a named predicate over \<open>os\<close>.

  The second half reads facts off a trace: the count of the transmit semaphore, the mutexes
  held, the requests the driver owns, and the common buffers it has allocated.
\<close>

section \<open>Calls and replies\<close>

datatype bulk_type = MSG_BULK_TX | MSG_BULK_RX

datatype mutex =
    TxSlotMutex
  | RecycleSlotMutex
  | PendingDataMsgMutex handle
  | PendingBulkMsgMutex handle bulk_type
  | PendingVchiMsgMutex handle
  | WriteLock
  | InterruptLock
  | AdapterLock
  | BounceBufferLock

datatype kobject =
    AvailableTxSlotObj
  | FileEventStopObj handle
  | VchiqThreadEventObj nat
  | VchiqThreadEventStopObj

text \<open>
  One constructor per kernel or framework routine the drivers call, in families: memory and
  registers, the kernel's synchronisation and threads, requests and their queues, framework
  objects, DMA, the registry, the port driver of SD hosts,
  the network adapter, the neighbours of the DMA filter, and the timers and deferred routines of
  the serial driver. Memory that is shared with the firmware and not cached is read and written by
  \<open>ReadShared\<close> and \<open>WriteShared\<close>, as the registers are.
\<close>

datatype mm_call =
    MmAllocateContiguousNodeMemory u32
  | MmAllocateContiguousMemorySpecifyCache u32
  | MmBuildMdlForNonPagedPool handle
  | MmFreeContiguousMemory handle
  | MmGetPhysicalAddress handle
  | MmMapIoSpaceEx u64 u32
  | MmUnmapIoSpace handle u32
  | MmGetMdlByteCount handle
  | WriteRegister nat u32
  | ReadRegister nat
  | ReadShared handle nat
  | WriteShared handle "u8 list"
  | ExAllocatePoolZero u32
  | ExFreePool handle

datatype ke_call =
    KeInitializeSemaphore u32 u32
  | KeReleaseSemaphore
  | KeInitializeEvent kobject
  | KeSetEvent kobject
  | KeWaitForMultipleObjects kobject kobject bool
  | KeWaitForSingleObject handle
  | KeDelayExecutionThread
  | KeStallExecutionProcessor nat
  | KeFlushQueuedDpcs
  | PsCreateSystemThread nat
  | ObReferenceObjectByHandle handle
  | ObDereferenceObject handle
  | ZwClose handle
  | ExAcquireMutex mutex
  | ExReleaseMutex mutex

datatype req_call =
    WdfIoQueueRetrieveNextRequest handle
  | WdfIoQueueRetrieveFoundRequest handle handle
  | WdfIoQueuePurge handle
  | WdfIoQueuePurgeSynchronously handle
  | WdfRequestForwardToIoQueue handle handle
  | WdfRequestRequeue handle
  | WdfRequestComplete handle ntstatus
  | WdfRequestCompleteWithInformation handle ntstatus nat
  | WdfRequestRetrieveInputBuffer handle nat
  | WdfRequestRetrieveOutputBuffer handle nat
  | WdfRequestRetrieveInputWdmMdl handle
  | WdfRequestRetrieveOutputWdmMdl handle
  | WdfRequestGetFileObject handle
  | WdfRequestGetRequestorMode handle
  | WdfRequestStopAcknowledge handle bool
  | WdfDeviceEnqueueRequest handle

datatype wdf_call =
    WdfMemoryCreateFromLookaside handle
  | WdfMemoryCreate handle nat
  | WdfMemoryCreatePreallocated handle handle nat
  | WdfMemoryGetBuffer handle
  | WdfRequestProbeAndLockUserBufferForRead handle handle nat
  | WdfRequestProbeAndLockUserBufferForWrite handle handle nat
  | WdfObjectDelete handle
  | WdfObjectAllocateContext handle
  | WdfLookasideListCreate handle nat
  | WdfIoQueueCreate handle
  | WdfWaitLockCreate
  | WdfInterruptQueueDpcForIsr handle
  | WdfSpinLockCreate
  | WdfTimerCreate nat
  | WdfTimerStart handle
  | WdfTimerStop handle

datatype dev_call =
    WdfDeviceCreate
  | WdfDeviceCreateSymbolicLink handle
  | WdfDeviceWdmGetPhysicalDevice handle
  | WdfDeviceCreateDeviceInterface
  | WdfDeviceSetDeviceInterfaceState
  | WdfInterruptCreate handle
  | WdfIoTargetCreate handle
  | WdfIoTargetOpen handle
  | WdfIoTargetSendIoctlSynchronously handle u32 u32
  | IoRegisterPlugPlayNotification
  | IoUnregisterPlugPlayNotification handle
  | RtlStringCchPrintfMac "u8 list"

datatype dma_call =
    IoGetDmaAdapter
  | DmaCalculateScatterGatherList handle handle u32
  | DmaInitializeTransferContext handle
  | DmaBuildScatterGatherListEx handle handle u32 bool handle u32
  | DmaAllocateCommonBuffer handle u32
  | DmaFreeCommonBuffer handle u32 u64 handle
  | DmaFreeAdapterObject handle
  | DmaPutScatterGatherList handle handle bool
  | DmaPutDmaAdapter handle

datatype reg_call =
    ZwOpenKey handle string
  | ZwQueryValueKey handle string nat
  | ZwSetValueKey handle string "u8 list"
  | RtlPrefixUnicodeString string "u8 list"

datatype sd_call =
    SdPortWait u32
  | SdPortCompleteRequest handle ntstatus

datatype net_call =
    KeFlushIoBuffers handle
  | NetAdapterSetLinkState handle u64 bool
  | NetAdapterSetCapabilities handle
  | NetAdapterSetLinkLayerAddress handle "u8 list"
  | NetAdapterStart handle
  | NetConfigurationQueryLinkLayerAddress handle
  | NetTxQueueCreate
  | NetRxQueueCreate
  | NetTxQueueNotifyMoreCompletedPacketsAvailable handle
  | NetRxQueueNotifyMoreReceivedPacketsAvailable handle
  | NetDeviceInitConfig
  | WdfDmaEnablerCreate handle
  | NetAdapterInitAllocate handle
  | NetAdapterInitFree handle
  | NetAdapterCreate handle
  | NetAdapterOpenConfiguration handle

text \<open>
  The calls of the DMA filter: to the adapter and the bus below it, to the routine of its client
  (with the number of the bounce buffer, the address and the length it gives), and those of its
  place in the stack of devices.
\<close>

datatype flt_call =
    ExAllocatePoolWithTag nat
  | ExFreePoolWithTag handle
  | AttachedGetDmaAdapter handle
  | AllocateCommonBufferEx handle u64 u32
  | FreeCommonBuffer handle u32 u64 handle bool
  | PutDmaAdapter handle
  | MmGetSystemAddressForMdlSafe handle
  | ExecutionRoutine nat u64 u32 handle
  | AttachedTranslateBusAddress handle u64 u32
  | AttachedSetBusData handle u32 u32 u32
  | AttachedGetBusData handle u32 u32 u32
  | IoCreateDevice
  | IoDeleteDevice handle
  | IoAttachDeviceToDeviceStack handle handle
  | IoSkipCurrentIrpStackLocation handle
  | IoCopyCurrentIrpStackLocationToNext handle
  | IoSetCompletionRoutine handle
  | IoMarkIrpPending handle
  | IoCallDriver handle handle

text \<open>
  The calls of the serial driver: its deferred routines and timers, the interrupt lock, and the
  bookkeeping of cancellation. \<open>WdfInterruptSynchronize\<close> takes the interrupt lock, behind any
  interrupts that are served first; \<open>r_len\<close> of its reply is their number.
\<close>

datatype uart_dpc =
    CompleteWriteDpc
  | CompleteReadDpc
  | CommErrorDpc
  | CommWaitDpc
  | CompleteImmediateDpc
  | XoffCountCompleteDpc
  | StartTimerLowerRTSDpc

datatype uart_timer =
    ReadRequestTotalTimer
  | ReadRequestIntervalTimer
  | WriteRequestTotalTimer
  | ImmediateTotalTimer
  | XoffCountTimer
  | LowerRTSTimer

datatype ser_call =
    WdfDpcEnqueue uart_dpc
  | WdfDpcCancel uart_dpc bool
  | WdfTimerStartAt uart_timer u64
  | WdfTimerCancel uart_timer bool
  | WdfInterruptSynchronize
  | WdfRequestMarkCancelable handle
  | WdfRequestUnmarkCancelable handle
  | WdfRequestGetParameters handle
  | WdfRequestGetStatus handle
  | WdfIoQueueGetState handle
  | WdfIoQueueStart handle
  | WdfIoQueueStopSynchronously handle
  | WdfDeviceSetFailed handle
  | KeQuerySystemTime
  | ZwCreateFile handle
  | IoGetRelatedDeviceObject handle
  | IoBuildDeviceIoControlRequest u32 handle "u8 list" nat
  | IoCallTarget handle handle
  | IoCompleteRequest handle ntstatus nat
  | ExAllocatePoolWithQuotaTag u32
  | ExAllocateNonPagedPool u32
  | MmQuerySystemSize
  | WdfDeviceStopIdle
  | WdfDeviceResumeIdle
  | WdfDeviceSetStaticStopRemove bool

datatype call = Mm mm_call | Ke ke_call | Req req_call | Wdf wdf_call | Dev dev_call | Dma dma_call | Reg reg_call
  | Sd sd_call | Net net_call | Flt flt_call | Ser ser_call

text \<open>
  What a routine can give back: a status, a pointer or handle (0 is \<open>NULL\<close>), a length or a
  register value, a physical address, a scatter-gather list (address and length of each
  element), bytes. Each caller reads the components its routine returns.
\<close>

record reply =
  r_status :: ntstatus
  r_ptr :: handle
  r_len :: nat
  r_val :: u32
  r_phys :: u64
  r_sg :: "(u64 \<times> u32) list"
  r_data :: "u8 list"

type_synonym event = "call \<times> reply"
type_synonym os = "event list \<Rightarrow> call \<Rightarrow> reply"

record kernel =
  trace :: "event list"

definition ext :: "os \<Rightarrow> call \<Rightarrow> ('w kernel_scheme, reply) state" where
  "ext os c = State (\<lambda>w. (os (trace w) c, w\<lparr>trace := trace w @ [(c, os (trace w) c)]\<rparr>))"

lemma run_ext [simp, run]:
  "run_state (ext os c) w = (os (trace w) c, w\<lparr>trace := trace w @ [(c, os (trace w) c)]\<rparr>)"
  by (simp add: ext_def)

lemma triple_ext [wp]:
  "triple (\<lambda>w. Q (os (trace w) c) (w\<lparr>trace := trace w @ [(c, os (trace w) c)]\<rparr>)) (ext os c) Q"
  by (simp add: triple_def)

lemma keeps_ext:
  "(\<And>w r. I w \<Longrightarrow> I (w\<lparr>trace := trace w @ [(c, r)]\<rparr>)) \<Longrightarrow> keeps I (ext os c)"
  by (simp add: keeps_def)

text \<open>A predicate that does not look at the trace is preserved by every call.\<close>

lemma keeps_ext_frame [keep]:
  "(\<And>w tr. I (w\<lparr>trace := tr\<rparr>) = I w) \<Longrightarrow> keeps I (ext os c)"
  by (rule keeps_ext) simp

text \<open>\<open>quiet_os\<close> answers every call with success, a valid handle and nothing to read.\<close>

definition ok_reply :: reply where
  "ok_reply = \<lparr>r_status = STATUS_SUCCESS, r_ptr = 1, r_len = 0, r_val = 0, r_phys = 0, r_sg = [], r_data = []\<rparr>"

definition quiet_os :: os where
  "quiet_os tr c = ok_reply"

text \<open>The translated resources of a device, as \<open>EvtDevicePrepareHardware\<close> gets them.\<close>

datatype resource = ResourceMemory u64 u32 | ResourceInterrupt | ResourceOther

section \<open>The transmit semaphore\<close>

definition sem_step :: "int \<Rightarrow> event \<Rightarrow> int" where
  "sem_step n e = (case fst e of
      Ke c \<Rightarrow> (case c of
          KeInitializeSemaphore k _ \<Rightarrow> uint k
        | KeReleaseSemaphore \<Rightarrow> n + 1
        | KeWaitForMultipleObjects obj _ _ \<Rightarrow>
            (if obj \<noteq> AvailableTxSlotObj \<or> r_status (snd e) = STATUS_TIMEOUT \<or>
                r_status (snd e) = STATUS_WAIT_1 then n else n - 1)
        | _ \<Rightarrow> n)
    | _ \<Rightarrow> n)"

definition sem_count :: "event list \<Rightarrow> int" where
  "sem_count tr = foldl sem_step 0 tr"

lemma sem_count_Nil [simp]: "sem_count [] = 0"
  by (simp add: sem_count_def)

lemma sem_count_snoc [simp]: "sem_count (tr @ [e]) = sem_step (sem_count tr) e"
  by (simp add: sem_count_def)

text \<open>
  Documented behaviour of a wait on \<open>[AvailableTxSlot, FileEventStop]\<close>: it returns
  \<open>STATUS_WAIT_0\<close>, \<open>STATUS_WAIT_1\<close> or \<open>STATUS_TIMEOUT\<close>, and is satisfied by the semaphore only
  while its count is positive.
\<close>

definition semaphore_waits :: "os \<Rightarrow> bool" where
  "semaphore_waits os \<longleftrightarrow> (\<forall>tr stop t.
     r_status (os tr (Ke (KeWaitForMultipleObjects AvailableTxSlotObj stop t)))
       \<in> (if 0 < sem_count tr then {STATUS_WAIT_0, STATUS_WAIT_1, STATUS_TIMEOUT}
          else {STATUS_WAIT_1, STATUS_TIMEOUT}))"

section \<open>Mutexes\<close>

text \<open>
  The mutexes held, innermost first; \<open>None\<close> once the driver has acquired a fast mutex it
  already holds (a self-deadlock), one whose rank is not above every rank it holds (a
  possible cycle with another thread), or released one it does not hold.
\<close>

definition mutex_rank :: "mutex \<Rightarrow> nat" where
  "mutex_rank m = (case m of
      PendingDataMsgMutex _ \<Rightarrow> 0
    | PendingBulkMsgMutex _ _ \<Rightarrow> 1
    | PendingVchiMsgMutex _ \<Rightarrow> 1
    | AdapterLock \<Rightarrow> 1
    | _ \<Rightarrow> 2)"

text \<open>Mutexes are ordered by rank; those of one rank are incomparable, never to be held together.\<close>

instantiation mutex :: preorder
begin

definition less_eq_mutex :: "mutex \<Rightarrow> mutex \<Rightarrow> bool" where
  "m \<le> m' \<longleftrightarrow> m = m' \<or> mutex_rank m < mutex_rank m'"

definition less_mutex :: "mutex \<Rightarrow> mutex \<Rightarrow> bool" where
  "m < m' \<longleftrightarrow> mutex_rank m < mutex_rank m'"

instance
  by standard (auto simp: less_eq_mutex_def less_mutex_def)

end

definition lock_step :: "mutex list option \<Rightarrow> event \<Rightarrow> mutex list option" where
  "lock_step oh e = (case oh of None \<Rightarrow> None | Some h \<Rightarrow>
     (case fst e of
        Ke c \<Rightarrow> (case c of
            ExAcquireMutex m \<Rightarrow>
              (if \<forall>k \<in> set h. k < m then Some (m # h) else None)
          | ExReleaseMutex m \<Rightarrow> (if m \<in> set h then Some (remove1 m h) else None)
          | _ \<Rightarrow> Some h)
      | _ \<Rightarrow> Some h))"

definition locks :: "event list \<Rightarrow> mutex list option" where
  "locks tr = foldl lock_step (Some []) tr"

lemma locks_Nil [simp]: "locks [] = Some []"
  by (simp add: locks_def)

lemma locks_snoc [simp]: "locks (tr @ [e]) = lock_step (locks tr) e"
  by (simp add: locks_def)

section \<open>Requests\<close>

text \<open>
  A request the framework has handed to the driver is owned by it until the driver
  completes, forwards or requeues it. \<open>owned\<close> lists the requests owned after a trace that
  starts with those in \<open>rs\<close>; it is \<open>None\<close> once the driver has disposed of a request it does
  not own, which the framework answers with a bug check.
\<close>

definition dispose :: "handle \<Rightarrow> handle list \<Rightarrow> handle list option" where
  "dispose r rs = (if r \<in> set rs then Some (remove1 r rs) else None)"

definition own_step :: "handle list option \<Rightarrow> event \<Rightarrow> handle list option" where
  "own_step ors e = (case ors of None \<Rightarrow> None | Some rs \<Rightarrow>
     (let ok = NT_SUCCESS (r_status (snd e));
          hand_over = (\<lambda>q. if ok then dispose q rs else if q \<in> set rs then Some rs else None)
      in case fst e of
           Req c \<Rightarrow> (case c of
               WdfIoQueueRetrieveNextRequest _ \<Rightarrow> Some (if ok then r_ptr (snd e) # rs else rs)
             | WdfIoQueueRetrieveFoundRequest _ q \<Rightarrow> Some (if ok then q # rs else rs)
             | WdfRequestForwardToIoQueue q _ \<Rightarrow> hand_over q
             | WdfRequestRequeue q \<Rightarrow> hand_over q
             | WdfDeviceEnqueueRequest q \<Rightarrow> hand_over q
             | WdfRequestComplete q _ \<Rightarrow> dispose q rs
             | WdfRequestCompleteWithInformation q _ _ \<Rightarrow> dispose q rs
             | _ \<Rightarrow> Some rs)
         | _ \<Rightarrow> Some rs))"

definition owned :: "handle list \<Rightarrow> event list \<Rightarrow> handle list option" where
  "owned rs tr = foldl own_step (Some rs) tr"

lemma owned_Nil [simp]: "owned rs [] = Some rs"
  by (simp add: owned_def)

lemma owned_snoc [simp]: "owned rs (tr @ [e]) = own_step (owned rs tr) e"
  by (simp add: owned_def)

text \<open>The completions of one request, in order, with their status.\<close>

definition completion_of :: "handle \<Rightarrow> event \<Rightarrow> ntstatus option" where
  "completion_of r e = (case fst e of
      Req c \<Rightarrow> (case c of
          WdfRequestComplete q st \<Rightarrow> if q = r then Some st else None
        | WdfRequestCompleteWithInformation q st _ \<Rightarrow> if q = r then Some st else None
        | _ \<Rightarrow> None)
    | _ \<Rightarrow> None)"

definition completions_of :: "handle \<Rightarrow> event list \<Rightarrow> ntstatus list" where
  "completions_of r tr = List.map_filter (completion_of r) tr"

lemma completions_of_Nil [simp]: "completions_of r [] = []"
  by (simp add: completions_of_def map_filter_simps)

lemma completions_of_append [simp]:
  "completions_of r (tr @ tr') = completions_of r tr @ completions_of r tr'"
  by (simp add: completions_of_def map_filter_def)

lemma completions_of_Cons [simp]:
  "completions_of r (e # tr) =
     (case completion_of r e of None \<Rightarrow> completions_of r tr | Some st \<Rightarrow> st # completions_of r tr)"
  by (simp add: completions_of_def map_filter_simps split: option.split)

section \<open>Rings of the doorbell\<close>

definition doorbells :: "nat \<Rightarrow> event list \<Rightarrow> nat" where
  "doorbells reg tr = length (filter (\<lambda>(c, _). case c of Mm (WriteRegister a _) \<Rightarrow> a = reg | _ \<Rightarrow> False) tr)"

lemma doorbells_Nil [simp]: "doorbells reg [] = 0"
  by (simp add: doorbells_def)

lemma doorbells_Cons [simp]:
  "doorbells reg (e # tr) =
     (case fst e of Mm (WriteRegister a _) \<Rightarrow> if a = reg then 1 else 0 | _ \<Rightarrow> 0) + doorbells reg tr"
  by (cases e) (simp add: doorbells_def split: call.split mm_call.split)

lemma doorbells_append [simp]: "doorbells reg (tr @ tr') = doorbells reg tr + doorbells reg tr'"
  by (simp add: doorbells_def)

end
