(* ===== verification/Vchiq_Types.thy ===== *)
theory Vchiq_Types
  imports Kernel
begin

text \<open>
  The data of the VCHIQ driver (\<open>drivers/misc/vchiq\<close>): the constants and message macros of
  \<open>vchiq_core.h\<close>, \<open>vchiq_cfg.h\<close>, \<open>vchiq_if.h\<close>, \<open>slots.h\<close>, the structures shared with the
  firmware, the structures exchanged with user space, and the driver's own contexts.

  Pointers into the shared memory are byte offsets from \<open>SlotZeroPtr\<close>, with \<open>None\<close> for
  \<open>NULL\<close>; other pointers and framework handles are numbers with 0 for \<open>NULL\<close>. The flag
  \<open>ub\<close> of the state records that the code has reached undefined behaviour (a \<open>NULL\<close>
  dereference, an array index out of range, a list head used before it is initialised).
\<close>

section \<open>Constants\<close>

definition VCHIQ_SLOT_SIZE :: u32 where [simp]: "VCHIQ_SLOT_SIZE = 4096"
definition VCHIQ_SLOT_MASK :: u32 where [simp]: "VCHIQ_SLOT_MASK = 4095"
definition VCHIQ_MAX_SLOTS :: nat where [simp]: "VCHIQ_MAX_SLOTS = 128"
definition VCHIQ_MAX_SLOTS_PER_SIDE :: u32 where [simp]: "VCHIQ_MAX_SLOTS_PER_SIDE = 64"
definition VCHIQ_SLOT_QUEUE_MASK :: u32 where [simp]: "VCHIQ_SLOT_QUEUE_MASK = 63"
definition VCHIQ_DEFAULT_TOTAL_SLOTS :: u32 where [simp]: "VCHIQ_DEFAULT_TOTAL_SLOTS = 1 + 32 + 32"
definition VCHIQ_MAX_FRAGMENTS :: u32 where [simp]: "VCHIQ_MAX_FRAGMENTS = 32 * 2"
definition MAX_ARM_PORTS :: nat where [simp]: "MAX_ARM_PORTS = 4096"
definition ARM_PORT_START :: nat where [simp]: "ARM_PORT_START = 1"
definition OFFSET_DIRECT_SDRAM :: u32 where [simp]: "OFFSET_DIRECT_SDRAM = 0xC0000000"
definition THREAD_MAX_SUPPORTED :: nat where [simp]: "THREAD_MAX_SUPPORTED = 2"

abbreviation (input) BELL0 :: nat where "BELL0 \<equiv> 0"
abbreviation (input) BELL2 :: nat where "BELL2 \<equiv> 8"
abbreviation (input) sizeof_VCHIQ_HEADER :: u32 where "sizeof_VCHIQ_HEADER \<equiv> 8"

text \<open>Sizes of the driver's list entries and of the structures it exchanges (64-bit, packed as declared).\<close>

abbreviation (input) sizeof_VCHIQ_PENDING_MSG :: nat where "sizeof_VCHIQ_PENDING_MSG \<equiv> 40"
abbreviation (input) sizeof_VCHIQ_PENDING_BULK_MSG :: nat where "sizeof_VCHIQ_PENDING_BULK_MSG \<equiv> 40"
abbreviation (input) sizeof_VCHIQ_AWAIT_COMPLETION :: nat where "sizeof_VCHIQ_AWAIT_COMPLETION \<equiv> 36"
abbreviation (input) sizeof_VCHIQ_DEQUEUE_MESSAGE :: nat where "sizeof_VCHIQ_DEQUEUE_MESSAGE \<equiv> 28"
abbreviation (input) sizeof_ULONG :: nat where "sizeof_ULONG \<equiv> 4"

text \<open>Message types of \<open>vchiq_core.h\<close>.\<close>

abbreviation (input) VCHIQ_MSG_PADDING :: u32 where "VCHIQ_MSG_PADDING \<equiv> 0"
abbreviation (input) VCHIQ_MSG_CONNECT :: u32 where "VCHIQ_MSG_CONNECT \<equiv> 1"
abbreviation (input) VCHIQ_MSG_OPEN :: u32 where "VCHIQ_MSG_OPEN \<equiv> 2"
abbreviation (input) VCHIQ_MSG_OPENACK :: u32 where "VCHIQ_MSG_OPENACK \<equiv> 3"
abbreviation (input) VCHIQ_MSG_CLOSE :: u32 where "VCHIQ_MSG_CLOSE \<equiv> 4"
abbreviation (input) VCHIQ_MSG_DATA :: u32 where "VCHIQ_MSG_DATA \<equiv> 5"
abbreviation (input) VCHIQ_MSG_BULK_RX :: u32 where "VCHIQ_MSG_BULK_RX \<equiv> 6"
abbreviation (input) VCHIQ_MSG_BULK_TX :: u32 where "VCHIQ_MSG_BULK_TX \<equiv> 7"
abbreviation (input) VCHIQ_MSG_BULK_RX_DONE :: u32 where "VCHIQ_MSG_BULK_RX_DONE \<equiv> 8"
abbreviation (input) VCHIQ_MSG_BULK_TX_DONE :: u32 where "VCHIQ_MSG_BULK_TX_DONE \<equiv> 9"

definition VCHIQ_MAKE_MSG :: "u32 \<Rightarrow> u32 \<Rightarrow> u32 \<Rightarrow> u32" where
  "VCHIQ_MAKE_MSG type srcport dstport =
     (push_bit 24 type OR push_bit 12 srcport OR push_bit 0 dstport)"

definition VCHIQ_MSG_TYPE :: "u32 \<Rightarrow> u32" where
  "VCHIQ_MSG_TYPE msgid = drop_bit 24 msgid"

definition VCHIQ_MSG_SRCPORT :: "u32 \<Rightarrow> u16" where
  "VCHIQ_MSG_SRCPORT msgid = ucast (drop_bit 12 msgid AND 0xfff)"

definition VCHIQ_MSG_DSTPORT :: "u32 \<Rightarrow> u32" where
  "VCHIQ_MSG_DSTPORT msgid = ucast (ucast msgid :: u16) AND 0xfff"

definition VCHIQ_MSGID_PADDING :: u32 where
  "VCHIQ_MSGID_PADDING = VCHIQ_MAKE_MSG VCHIQ_MSG_PADDING 0 0"

definition VCHIQ_GET_SLOT_ALIGN_SIZE :: "u32 \<Rightarrow> u32" where
  "VCHIQ_GET_SLOT_ALIGN_SIZE Size = (Size + 7) AND NOT 7"

text \<open>The file's queues (\<open>file.h\<close>).\<close>

abbreviation (input) FILE_QUEUE_CREATE_SERVICE :: nat where "FILE_QUEUE_CREATE_SERVICE \<equiv> 0"
abbreviation (input) FILE_QUEUE_CLOSE_SERVICE :: nat where "FILE_QUEUE_CLOSE_SERVICE \<equiv> 1"
abbreviation (input) FILE_QUEUE_PENDING_MSG :: nat where "FILE_QUEUE_PENDING_MSG \<equiv> 2"
abbreviation (input) FILE_QUEUE_PENDING_VCHI_MSG :: nat where "FILE_QUEUE_PENDING_VCHI_MSG \<equiv> 3"
abbreviation (input) FILE_QUEUE_TX_DATA :: nat where "FILE_QUEUE_TX_DATA \<equiv> 4"
abbreviation (input) FILE_QUEUE_RX_DATA :: nat where "FILE_QUEUE_RX_DATA \<equiv> 5"
abbreviation (input) FILE_QUEUE_MAX :: nat where "FILE_QUEUE_MAX \<equiv> 6"

datatype service_state = SERVICE_STATE_MIN | SERVICE_STATE_OPEN | SERVICE_STATE_CLOSE

datatype bulk_mode =
    VCHIQ_BULK_MODE_CALLBACK | VCHIQ_BULK_MODE_BLOCKING
  | VCHIQ_BULK_MODE_NOCALLBACK | VCHIQ_BULK_MODE_WAITING

datatype reason =
    VCHIQ_SERVICE_OPENED | VCHIQ_SERVICE_CLOSED | VCHIQ_MESSAGE_AVAILABLE
  | VCHIQ_BULK_TRANSMIT_DONE | VCHIQ_BULK_RECEIVE_DONE
  | VCHIQ_BULK_TRANSMIT_ABORTED | VCHIQ_BULK_RECEIVE_ABORTED

section \<open>Structures shared with the firmware\<close>

record VCHIQ_REMOTE_EVENT =
  Armed :: u32
  Fired :: u32

record VCHIQ_SHARED_STATE =
  Initialised :: u32
  SlotFirst :: u32
  SlotLast :: u32
  SlotSync :: u32
  Trigger :: VCHIQ_REMOTE_EVENT
  TxPos :: u32
  Recycle :: VCHIQ_REMOTE_EVENT
  SlotQueueRecycle :: u32
  SyncTrigger :: VCHIQ_REMOTE_EVENT
  SyncRelease :: VCHIQ_REMOTE_EVENT
  SlotQueue :: "nat \<Rightarrow> u32"

record VCHIQ_SLOT_ZERO =
  Magic :: u32
  Version :: u16
  VersionMin :: u16
  SlotZeroSize :: u32
  SlotSize :: u32
  MaxSlots :: u32
  MaxSlotsPerSide :: u32
  PlatformData :: "nat \<Rightarrow> u32"
  Master :: VCHIQ_SHARED_STATE
  Slave :: VCHIQ_SHARED_STATE

definition zero_event :: VCHIQ_REMOTE_EVENT where
  "zero_event = \<lparr>Armed = 0, Fired = 0\<rparr>"

definition zero_shared :: VCHIQ_SHARED_STATE where
  "zero_shared = \<lparr>Initialised = 0, SlotFirst = 0, SlotLast = 0, SlotSync = 0,
     Trigger = zero_event, TxPos = 0, Recycle = zero_event, SlotQueueRecycle = 0,
     SyncTrigger = zero_event, SyncRelease = zero_event, SlotQueue = (\<lambda>_. 0)\<rparr>"

definition zero_slot_zero :: VCHIQ_SLOT_ZERO where
  "zero_slot_zero = \<lparr>Magic = 0, Version = 0, VersionMin = 0, SlotZeroSize = 0, SlotSize = 0,
     MaxSlots = 0, MaxSlotsPerSide = 0, PlatformData = (\<lambda>_. 0),
     Master = zero_shared, Slave = zero_shared\<rparr>"

definition VCHIQ_ENABLE_EVENT_INTERRUPT :: "VCHIQ_REMOTE_EVENT \<Rightarrow> VCHIQ_REMOTE_EVENT" where
  "VCHIQ_ENABLE_EVENT_INTERRUPT e = e\<lparr>Armed := 1\<rparr>"

definition VCHIQ_RESET_EVENT_SIGNAL :: "VCHIQ_REMOTE_EVENT \<Rightarrow> VCHIQ_REMOTE_EVENT" where
  "VCHIQ_RESET_EVENT_SIGNAL e = e\<lparr>Fired := 0\<rparr>"

definition VCHIQ_IS_EVENT_SIGNAL :: "VCHIQ_REMOTE_EVENT \<Rightarrow> bool" where
  "VCHIQ_IS_EVENT_SIGNAL e \<longleftrightarrow> Fired e = 1"

section \<open>Structures exchanged with user space\<close>

text \<open>An element's data is the contents of the memory object that locks its buffer.\<close>

record VCHIQ_ELEMENT =
  el_Data :: handle
  el_Size :: u32
  el_WdfMemoryData :: handle

record VCHIQ_CREATE_SERVICE =
  cs_FourCC :: u32
  cs_UserData :: u64
  cs_Version :: u16
  cs_VersionMin :: u16
  cs_IsVchi :: u32

record VCHIQ_QUEUE_MESSAGE =
  qm_Count :: u32
  qm_Elements :: handle
  qm_WdfMemoryElementBuffer :: handle

record VCHIQ_QUEUE_BULK_TRANSFER =
  bt_UserData :: u64
  bt_Mode :: bulk_mode

record VCHIQ_COMPLETION_DATA =
  cd_Reason :: reason
  cd_Header :: handle
  cd_ServiceUserData :: u64
  cd_BulkUserData :: u64
  cd_WdfMemoryBuffer :: handle

record VCHIQ_AWAIT_COMPLETION =
  ac_Count :: u32
  ac_Buf :: handle
  ac_MsgBufSize :: u32
  ac_MsgBufCount :: u32
  ac_MsgBufs :: "nat \<Rightarrow> handle"
  ac_WdfMemoryCompletion :: handle

record VCHIQ_DEQUEUE_MESSAGE =
  dm_Blocking :: bool
  dm_BufSize :: u32
  dm_Buf :: handle
  dm_WdfMemoryBuffer :: handle

record VCHIQ_GET_CONFIG =
  gc_ConfigSize :: u32
  gc_PConfig :: handle
  gc_WdfMemoryConfiguration :: handle

record VCHIQ_CONFIG =
  cf_MaxMsgSize :: u32
  cf_BulkThreshold :: u32
  cf_MaxOutstandingBulks :: u32
  cf_MaxServices :: u32
  cf_Version :: u16
  cf_VersionMin :: u16

section \<open>The driver's contexts\<close>

record SLOT_INFO =
  RefCount :: u32
  SlotInUse :: bool

record VCHIQ_PENDING_MSG =
  Msg :: nat
  SlotNumber :: u32
  WdfMemory :: handle

record VCHIQ_PENDING_BULK_MSG =
  BulkUserData :: u64
  BulkWdfMemory :: handle
  BulkMode :: bulk_mode

record VCHIQ_PAGELIST =
  pl_Length :: u32
  pl_Type :: u16
  pl_Offset :: u16
  pl_Addrs :: "u32 list"

record VCHIQ_TX_REQUEST_CONTEXT =
  BufferMdlPtr :: handle
  PageListPtr :: handle
  PageListSize :: u32
  PageListPhyAddr :: u64
  ScatterGatherListPtr :: handle
  TxFileContextPtr :: handle

record VCHIQ_FILE_CONTEXT =
  ArmPortNumber :: u32
  VCHIQPortNumber :: u32
  PendingMsgLookAsideMemory :: handle
  PendingBulkMsgLookAsideMemory :: handle
  ListsInitialised :: bool
  PendingDataMsgList :: "VCHIQ_PENDING_MSG list"
  PendingBulkMsgList :: "bulk_type \<Rightarrow> VCHIQ_PENDING_BULK_MSG list"
  FileQueue :: "nat \<Rightarrow> handle"
  ServiceUserData :: u64
  IsVchi :: bool
  PendingVchiMsgList :: "VCHIQ_PENDING_MSG list"
  ServiceState :: service_state
  DmaAdapterPtr :: handle

record DEVICE_CONTEXT = kernel +
  Device :: handle
  PhyDeviceObjectPtr :: handle
  VchiqRegisterPtr :: handle
  VchiqRegisterLength :: u32
  VchiqIntObj :: handle
  SlotZeroPtr :: handle
  SlotMemoryPhy :: u64
  MasterCurrentSlot :: "nat option"
  MasterCurrentSlotIndex :: u32
  SlaveCurrentSlot :: "nat option"
  VCConnected :: bool
  DeviceInterfaceEnabled :: bool
  CurrentTxPos :: u32
  RecycleTxSlotIndex :: u32
  AvailableTxSlotCount :: u32
  CurrentRxPos :: u32
  RxSlotInfo :: "nat \<Rightarrow> SLOT_INFO"
  VchiqThreadHandle :: "nat \<Rightarrow> handle"
  VchiqThreadObj :: "nat \<Rightarrow> handle"
  RpiqNotificationHandle :: handle
  ArmPortHandles :: "nat \<Rightarrow> handle"
  AllocPhyMemCount :: u32

text \<open>
  The whole state of the driver: the device context, the shared slots (\<open>slot_zero\<close> is the
  header in slot 0, \<open>mem\<close> the bytes of the shared block), the file contexts and the framework
  object that carries each of them, the buffers of requests as the structures the code
  casts them to, and the contents of locked user memory.
\<close>

record world = DEVICE_CONTEXT +
  slot_zero :: VCHIQ_SLOT_ZERO
  mem :: "nat \<Rightarrow> u8"
  files :: "handle \<Rightarrow> VCHIQ_FILE_CONTEXT"
  file_context :: "handle \<Rightarrow> handle"
  tx_context :: "handle \<Rightarrow> VCHIQ_TX_REQUEST_CONTEXT option"
  pagelists :: "handle \<Rightarrow> VCHIQ_PAGELIST"
  in_create :: "handle \<Rightarrow> VCHIQ_CREATE_SERVICE"
  in_message :: "handle \<Rightarrow> VCHIQ_QUEUE_MESSAGE"
  in_bulk :: "handle \<Rightarrow> VCHIQ_QUEUE_BULK_TRANSFER"
  in_await :: "handle \<Rightarrow> VCHIQ_AWAIT_COMPLETION"
  in_dequeue :: "handle \<Rightarrow> VCHIQ_DEQUEUE_MESSAGE"
  in_config :: "handle \<Rightarrow> VCHIQ_GET_CONFIG"
  in_ulong :: "handle \<Rightarrow> u32"
  in_option :: "handle \<Rightarrow> int"
  out_ulong :: "handle \<Rightarrow> u32"
  elements :: "handle \<Rightarrow> VCHIQ_ELEMENT list"
  completion_data :: "handle \<Rightarrow> VCHIQ_COMPLETION_DATA list"
  wdf_bytes :: "handle \<Rightarrow> u8 list"
  wdf_config :: "handle \<Rightarrow> VCHIQ_CONFIG"
  ub :: bool

definition undefined_behaviour :: "(world, unit) state" where
  "undefined_behaviour = update (\<lambda>w. w\<lparr>ub := True\<rparr>)"

text \<open>
  The locked completion array of a caller has the length that was locked, and a locked buffer
  the number of bytes that were locked; an access past the end is undefined behaviour.
\<close>

definition zero_completion :: VCHIQ_COMPLETION_DATA where
  "zero_completion = \<lparr>cd_Reason = VCHIQ_SERVICE_OPENED, cd_Header = 0, cd_ServiceUserData = 0,
     cd_BulkUserData = 0, cd_WdfMemoryBuffer = 0\<rparr>"

definition completion_at :: "world \<Rightarrow> handle \<Rightarrow> nat \<Rightarrow> VCHIQ_COMPLETION_DATA" where
  "completion_at w h i =
     (if i < length (completion_data w h) then completion_data w h ! i else zero_completion)"

definition update_completion ::
  "handle \<Rightarrow> nat \<Rightarrow> (VCHIQ_COMPLETION_DATA \<Rightarrow> VCHIQ_COMPLETION_DATA) \<Rightarrow> (world, unit) state" where
  "update_completion h i g = update (\<lambda>w.
     if i < length (completion_data w h)
     then w\<lparr>completion_data := (completion_data w)(h := (completion_data w h)[i := g (completion_data w h ! i)])\<rparr>
     else w\<lparr>ub := True\<rparr>)"

definition RtlCopyToWdf :: "handle \<Rightarrow> handle \<Rightarrow> u8 list \<Rightarrow> (world, unit) state" where
  "RtlCopyToWdf h ptr bs = update (\<lambda>w.
     if ptr \<noteq> 0 \<and> length bs \<le> length (wdf_bytes w h)
     then w\<lparr>wdf_bytes := (wdf_bytes w)(h := bs @ drop (length bs) (wdf_bytes w h))\<rparr>
     else w\<lparr>ub := True\<rparr>)"

definition update_file :: "handle \<Rightarrow> (VCHIQ_FILE_CONTEXT \<Rightarrow> VCHIQ_FILE_CONTEXT) \<Rightarrow> (world, unit) state" where
  "update_file f g = update (\<lambda>w. w\<lparr>files := (files w)(f := g (files w f))\<rparr>)"

definition update_slave :: "(VCHIQ_SHARED_STATE \<Rightarrow> VCHIQ_SHARED_STATE) \<Rightarrow> (world, unit) state" where
  "update_slave g = update (slot_zero_update (Slave_update g))"

definition update_master :: "(VCHIQ_SHARED_STATE \<Rightarrow> VCHIQ_SHARED_STATE) \<Rightarrow> (world, unit) state" where
  "update_master g = update (slot_zero_update (Master_update g))"

lemma run_undefined_behaviour [simp, run]:
  "run_state undefined_behaviour w = ((), w\<lparr>ub := True\<rparr>)"
  by (simp add: undefined_behaviour_def)

lemma run_update_completion [simp, run]:
  "run_state (update_completion h i g) w = ((),
     if i < length (completion_data w h)
     then w\<lparr>completion_data := (completion_data w)(h := (completion_data w h)[i := g (completion_data w h ! i)])\<rparr>
     else w\<lparr>ub := True\<rparr>)"
  by (simp add: update_completion_def)

lemma run_RtlCopyToWdf [simp, run]:
  "run_state (RtlCopyToWdf h ptr bs) w = ((),
     if ptr \<noteq> 0 \<and> length bs \<le> length (wdf_bytes w h)
     then w\<lparr>wdf_bytes := (wdf_bytes w)(h := bs @ drop (length bs) (wdf_bytes w h))\<rparr>
     else w\<lparr>ub := True\<rparr>)"
  by (simp add: RtlCopyToWdf_def)

lemma run_update_file [simp, run]:
  "run_state (update_file f g) w = ((), w\<lparr>files := (files w)(f := g (files w f))\<rparr>)"
  by (simp add: update_file_def)

lemma run_update_slave [simp, run]:
  "run_state (update_slave g) w = ((), w\<lparr>slot_zero := (slot_zero w)\<lparr>Slave := g (Slave (slot_zero w))\<rparr>\<rparr>)"
  by (simp add: update_slave_def)

lemma run_update_master [simp, run]:
  "run_state (update_master g) w = ((), w\<lparr>slot_zero := (slot_zero w)\<lparr>Master := g (Master (slot_zero w))\<rparr>\<rparr>)"
  by (simp add: update_master_def)

section \<open>A state to start from\<close>

text \<open>
  Everything zero, \<open>NULL\<close> or empty, as the framework hands out a fresh context; concrete
  inputs of the properties are built from it.
\<close>

definition zero_file :: VCHIQ_FILE_CONTEXT where
  "zero_file = \<lparr>ArmPortNumber = 0, VCHIQPortNumber = 0, PendingMsgLookAsideMemory = 0,
     PendingBulkMsgLookAsideMemory = 0, ListsInitialised = False, PendingDataMsgList = [],
     PendingBulkMsgList = (\<lambda>_. []), FileQueue = (\<lambda>_. 0), ServiceUserData = 0, IsVchi = False,
     PendingVchiMsgList = [], ServiceState = SERVICE_STATE_MIN, DmaAdapterPtr = 0\<rparr>"

definition zero_world :: world where
  "zero_world = \<lparr>trace = [], Device = 0, PhyDeviceObjectPtr = 0, VchiqRegisterPtr = 0,
     VchiqRegisterLength = 0, VchiqIntObj = 0, SlotZeroPtr = 0, SlotMemoryPhy = 0,
     MasterCurrentSlot = None, MasterCurrentSlotIndex = 0, SlaveCurrentSlot = None,
     VCConnected = False, DeviceInterfaceEnabled = False, CurrentTxPos = 0,
     RecycleTxSlotIndex = 0, AvailableTxSlotCount = 0, CurrentRxPos = 0,
     RxSlotInfo = (\<lambda>_. \<lparr>RefCount = 0, SlotInUse = False\<rparr>), VchiqThreadHandle = (\<lambda>_. 0),
     VchiqThreadObj = (\<lambda>_. 0), RpiqNotificationHandle = 0, ArmPortHandles = (\<lambda>_. 0),
     AllocPhyMemCount = 0, slot_zero = zero_slot_zero, mem = (\<lambda>_. 0),
     files = (\<lambda>_. zero_file), file_context = (\<lambda>h. h), tx_context = (\<lambda>_. None),
     pagelists = (\<lambda>_. \<lparr>pl_Length = 0, pl_Type = 0, pl_Offset = 0, pl_Addrs = []\<rparr>),
     in_create = (\<lambda>_. \<lparr>cs_FourCC = 0, cs_UserData = 0, cs_Version = 0, cs_VersionMin = 0, cs_IsVchi = 0\<rparr>),
     in_message = (\<lambda>_. \<lparr>qm_Count = 0, qm_Elements = 0, qm_WdfMemoryElementBuffer = 0\<rparr>),
     in_bulk = (\<lambda>_. \<lparr>bt_UserData = 0, bt_Mode = VCHIQ_BULK_MODE_CALLBACK\<rparr>),
     in_await = (\<lambda>_. \<lparr>ac_Count = 0, ac_Buf = 0, ac_MsgBufSize = 0, ac_MsgBufCount = 0,
       ac_MsgBufs = (\<lambda>_. 0), ac_WdfMemoryCompletion = 0\<rparr>),
     in_dequeue = (\<lambda>_. \<lparr>dm_Blocking = False, dm_BufSize = 0, dm_Buf = 0, dm_WdfMemoryBuffer = 0\<rparr>),
     in_config = (\<lambda>_. \<lparr>gc_ConfigSize = 0, gc_PConfig = 0, gc_WdfMemoryConfiguration = 0\<rparr>),
     in_ulong = (\<lambda>_. 0), in_option = (\<lambda>_. 0), out_ulong = (\<lambda>_. 0), elements = (\<lambda>_. []),
     completion_data = (\<lambda>_. []),
     wdf_bytes = (\<lambda>_. []),
     wdf_config = (\<lambda>_. \<lparr>cf_MaxMsgSize = 0, cf_BulkThreshold = 0, cf_MaxOutstandingBulks = 0,
       cf_MaxServices = 0, cf_Version = 0, cf_VersionMin = 0\<rparr>),
     ub = False\<rparr>"

end
