(* ===== verification/Vchiq_Slots.thy ===== *)
theory Vchiq_Slots
  imports Vchiq_Types
begin

text \<open>
  Positions and headers in the shared slots: the macros of \<open>slots.h\<close> that turn a stream
  position into a pointer, the access to a message header through such a pointer, the
  signal to the firmware (\<open>VchiqSignalVC\<close>), and the arithmetic facts the transmit and
  receive paths share.
\<close>

section \<open>Stream positions and pointers\<close>

definition VCHIQ_GET_CURRENT_TX_HEADER :: "world \<Rightarrow> nat option" where
  "VCHIQ_GET_CURRENT_TX_HEADER a =
     map_option (\<lambda>slot. slot + unat (CurrentTxPos a AND VCHIQ_SLOT_MASK)) (SlaveCurrentSlot a)"

definition VCHIQ_GET_NEXT_TX_SLOT_INDEX :: "world \<Rightarrow> u32" where
  "VCHIQ_GET_NEXT_TX_SLOT_INDEX a =
     SlotQueue (Slave (slot_zero a))
       (unat ((CurrentTxPos a div VCHIQ_SLOT_SIZE) AND VCHIQ_SLOT_QUEUE_MASK))"

definition VCHIQ_GET_CURRENT_RX_HEADER :: "world \<Rightarrow> nat option" where
  "VCHIQ_GET_CURRENT_RX_HEADER a =
     map_option (\<lambda>slot. slot + unat (CurrentRxPos a AND VCHIQ_SLOT_MASK)) (MasterCurrentSlot a)"

definition VCHIQ_GET_NEXT_RX_SLOT_INDEX :: "world \<Rightarrow> u32" where
  "VCHIQ_GET_NEXT_RX_SLOT_INDEX a =
     SlotQueue (Master (slot_zero a))
       (unat ((CurrentRxPos a div VCHIQ_SLOT_SIZE) AND VCHIQ_SLOT_QUEUE_MASK))"

definition VCHIQ_GET_HEADER_BY_GLOBAL_INDEX :: "u32 \<Rightarrow> nat" where
  "VCHIQ_GET_HEADER_BY_GLOBAL_INDEX index = unat index * unat VCHIQ_SLOT_SIZE"

section \<open>Message headers\<close>

definition header_MsgId :: "world \<Rightarrow> nat \<Rightarrow> u32" where
  "header_MsgId w p = load32 p (mem w)"

definition header_Size :: "world \<Rightarrow> nat \<Rightarrow> u32" where
  "header_Size w p = load32 (p + 4) (mem w)"

definition write_header :: "nat option \<Rightarrow> u32 \<Rightarrow> u32 \<Rightarrow> (world, unit) state" where
  "write_header ptr msgid n = (case ptr of
      None \<Rightarrow> undefined_behaviour
    | Some p \<Rightarrow> update (mem_update (store_bytes p (le32 msgid @ le32 n))))"

definition RtlCopyToSlot :: "nat option \<Rightarrow> nat \<Rightarrow> u8 list \<Rightarrow> (world, unit) state" where
  "RtlCopyToSlot ptr off bs = (case ptr of
      None \<Rightarrow> undefined_behaviour
    | Some p \<Rightarrow> update (mem_update (store_bytes (p + off) bs)))"

lemma run_write_header [simp, run]:
  "run_state (write_header ptr i n) w =
     ((), case ptr of None \<Rightarrow> w\<lparr>ub := True\<rparr>
          | Some p \<Rightarrow> w\<lparr>mem := store_bytes p (le32 i @ le32 n) (mem w)\<rparr>)"
  by (simp add: write_header_def split: option.split)

lemma run_RtlCopyToSlot [simp, run]:
  "run_state (RtlCopyToSlot ptr off bs) w =
     ((), case ptr of None \<Rightarrow> w\<lparr>ub := True\<rparr>
          | Some p \<Rightarrow> w\<lparr>mem := store_bytes (p + off) bs (mem w)\<rparr>)"
  by (simp add: RtlCopyToSlot_def split: option.split)

lemma load32_header:
  "load32 p (store_bytes p (le32 i @ bs) m) = i"
  "load32 (p + 4) (store_bytes p (le32 i @ le32 n) m) = n"
  by (simp_all add: load32_def load_store_prefix load_store_suffix)

section \<open>Signalling the firmware\<close>

text \<open>
  \<open>EventPtr\<close> is one of the events in the master's shared state, given by its selector and
  its update function.
\<close>

definition VchiqSignalVC ::
  "os \<Rightarrow> (VCHIQ_SHARED_STATE \<Rightarrow> VCHIQ_REMOTE_EVENT) \<Rightarrow>
   ((VCHIQ_REMOTE_EVENT \<Rightarrow> VCHIQ_REMOTE_EVENT) \<Rightarrow> VCHIQ_SHARED_STATE \<Rightarrow> VCHIQ_SHARED_STATE) \<Rightarrow>
   (world, ntstatus) state" where
  "VchiqSignalVC os EventPtr EventPtr_update = do {
     update_master (EventPtr_update (Fired_update (\<lambda>_. 1)));
     w \<leftarrow> get;
     do_when (Armed (EventPtr (Master (slot_zero w))) \<noteq> 0) (do {
       _ \<leftarrow> ext os (Mm (WriteRegister BELL2 0));
       return ()
     });
     return STATUS_SUCCESS
   }"

section \<open>Word arithmetic of positions\<close>

lemma and_mask_4095: "(x :: u32) AND 4095 = take_bit 12 x"
  by (simp add: take_bit_eq_mask mask_eq_exp_minus_1)

lemma and_mask_63: "(x :: u32) AND 63 = take_bit 6 x"
  by (simp add: take_bit_eq_mask mask_eq_exp_minus_1)

lemma unat_slot_offset [simp]: "unat ((x :: u32) AND 4095) = unat x mod 4096"
  by (simp add: and_mask_4095 take_bit_eq_mod unat_mod)

lemma unat_queue_index [simp]: "unat ((x :: u32) AND 63) = unat x mod 64"
  by (simp add: and_mask_63 take_bit_eq_mod unat_mod)

lemma slot_offset_eq_0_iff: "(x :: u32) AND 4095 = 0 \<longleftrightarrow> unat x mod 4096 = 0"
  by (metis unat_slot_offset unsigned_0 unsigned_word_eqI unat_eq_zero)

lemma and_not_7: "(x :: u32) AND NOT 7 = push_bit 3 (drop_bit 3 x)"
proof -
  have "(7 :: u32) = mask 3" by (simp add: mask_eq_exp_minus_1)
  then have "x AND NOT 7 = x AND NOT (mask 3)" by simp
  also have "\<dots> = push_bit 3 (drop_bit 3 x)"
    by (rule bit_word_eqI) (auto simp: bit_simps)
  finally show ?thesis .
qed

lemma unat_and_not_7: "unat ((x :: u32) AND NOT 7) = unat x div 8 * 8"
proof -
  have "unat x < 4294967296"
    by (rule unat_u32_less)
  then have "unat x div 8 * 8 < 4294967296" by linarith
  then show ?thesis
    by (simp only: and_not_7) (simp add: push_bit_eq_mult drop_bit_eq_div unat_word_ariths unat_div mult.commute)
qed

lemma unat_align:
  "unat s + 7 < 2 ^ 32 \<Longrightarrow> unat (VCHIQ_GET_SLOT_ALIGN_SIZE s) = (unat s + 7) div 8 * 8"
  unfolding VCHIQ_GET_SLOT_ALIGN_SIZE_def unat_and_not_7 by (simp add: unat_word_ariths)

text \<open>
  The properties of the aligned size that the paths use: it is a multiple of the alignment,
  at least the size, and within a slot when the size is.
\<close>

lemma align_bounds:
  assumes "unat s \<le> 4096"
  shows "8 dvd unat (VCHIQ_GET_SLOT_ALIGN_SIZE s)"
    and "unat s \<le> unat (VCHIQ_GET_SLOT_ALIGN_SIZE s)"
    and "unat (VCHIQ_GET_SLOT_ALIGN_SIZE s) \<le> 4096"
    and "unat (VCHIQ_GET_SLOT_ALIGN_SIZE s) < unat s + 8"
proof -
  have "unat (VCHIQ_GET_SLOT_ALIGN_SIZE s) = (unat s + 7) div 8 * 8"
    using assms by (intro unat_align) simp
  then show "8 dvd unat (VCHIQ_GET_SLOT_ALIGN_SIZE s)"
    and "unat s \<le> unat (VCHIQ_GET_SLOT_ALIGN_SIZE s)"
    and "unat (VCHIQ_GET_SLOT_ALIGN_SIZE s) \<le> 4096"
    and "unat (VCHIQ_GET_SLOT_ALIGN_SIZE s) < unat s + 8"
    using assms by presburger+
qed

lemma mod_4096_add: "a mod 4096 + b \<le> 4096 \<Longrightarrow> (a + b) mod 4096 = (if a mod 4096 + b = 4096 then 0 else a mod 4096 + (b :: nat))"
  using mod_add_left_eq [of a 4096 b] by (auto simp: less_le)

section \<open>Message identifiers\<close>

lemma word_below_bits:
  assumes less: "(x :: u32) < 2 ^ n" and bit: "bit x k"
  shows "k < n"
proof (rule ccontr)
  assume "\<not> k < n"
  then have nk: "n \<le> k" by simp
  from bit have k: "k < 32" by (auto dest: bit_imp_le_length)
  from less have "unat x < unat (2 ^ n :: u32)" by (simp add: word_less_nat_alt)
  also have "\<dots> = 2 ^ n"
  proof -
    have "(2 ^ n :: nat) < 2 ^ 32" using nk k by (intro power_strict_increasing) simp_all
    then have "unat (of_nat (2 ^ n) :: u32) = 2 ^ n"
      using nk k by (simp only: unsigned_of_nat) (simp add: take_bit_nat_eq_self)
    then show ?thesis by simp
  qed
  finally have "take_bit n (unat x) = unat x" by (simp add: take_bit_nat_eq_self)
  moreover have "bit (unat x) k" using bit k by (simp add: bit_unsigned_iff)
  ultimately show False using nk by (metis bit_take_bit_iff not_less)
qed

text \<open>
  C40. A message identifier packs the type into the top 8 bits, the source port into the
  next 12 and the destination port into the low 12: the three macros that take it apart
  give back what \<open>VCHIQ_MAKE_MSG\<close> was given, for every type below 256 and every port below
  4096.
\<close>

theorem make_msg_roundtrip:
  assumes "type < 2 ^ 8" and "src < 2 ^ 12" and "dst < 2 ^ 12"
  shows "VCHIQ_MSG_TYPE (VCHIQ_MAKE_MSG type src dst) = type \<and>
         VCHIQ_MSG_SRCPORT (VCHIQ_MAKE_MSG type src dst) = ucast src \<and>
         VCHIQ_MSG_DSTPORT (VCHIQ_MAKE_MSG type src dst) = dst"
proof (intro conjI)
  have mask: "(0xfff :: u32) = mask 12" "(0xfff :: u16) = mask 12"
    by (simp_all add: mask_eq_exp_minus_1)
  note high = word_below_bits [OF assms(1)] word_below_bits [OF assms(2)]
    word_below_bits [OF assms(3)]
  have low: "bit type n \<Longrightarrow> n < 8" "bit src n \<Longrightarrow> n < 12" "bit dst n \<Longrightarrow> n < 12" for n
    by (fact high)+
  show "VCHIQ_MSG_TYPE (VCHIQ_MAKE_MSG type src dst) = type"
    by (rule bit_word_eqI) (auto simp: VCHIQ_MSG_TYPE_def VCHIQ_MAKE_MSG_def bit_simps dest: low)
  show "VCHIQ_MSG_SRCPORT (VCHIQ_MAKE_MSG type src dst) = ucast src"
    by (rule bit_word_eqI)
       (auto simp: VCHIQ_MSG_SRCPORT_def VCHIQ_MAKE_MSG_def mask bit_simps dest: low)
  show "VCHIQ_MSG_DSTPORT (VCHIQ_MAKE_MSG type src dst) = dst"
    by (rule bit_word_eqI)
       (auto simp: VCHIQ_MSG_DSTPORT_def VCHIQ_MAKE_MSG_def mask bit_simps dest: low)
qed

lemma make_msg_roundtrip_witness:
  "VCHIQ_MSG_TYPE (VCHIQ_MAKE_MSG VCHIQ_MSG_DATA 7 42) = VCHIQ_MSG_DATA \<and>
   VCHIQ_MSG_SRCPORT (VCHIQ_MAKE_MSG VCHIQ_MSG_DATA 7 42) = ucast (7 :: u32) \<and>
   VCHIQ_MSG_DSTPORT (VCHIQ_MAKE_MSG VCHIQ_MSG_DATA 7 42) = 42"
  by (rule make_msg_roundtrip) simp_all

lemma msg_type_padding [simp]: "VCHIQ_MSGID_PADDING = 0"
  by (simp add: VCHIQ_MSGID_PADDING_def VCHIQ_MAKE_MSG_def)

text \<open>The destination port always indexes the array of ports.\<close>

lemma dstport_bound: "unat (VCHIQ_MSG_DSTPORT m) < MAX_ARM_PORTS"
proof -
  have "(0xfff :: u32) = mask 12" by (simp add: mask_eq_exp_minus_1)
  then have "VCHIQ_MSG_DSTPORT m = take_bit 12 (ucast (ucast m :: u16))"
    by (simp add: VCHIQ_MSG_DSTPORT_def take_bit_eq_mask)
  then show ?thesis
    by (simp add: take_bit_eq_mod unat_mod)
qed

end
