(* ===== verification/Vchiq_Tx.thy ===== *)
theory Vchiq_Tx
  imports Vchiq_Slots
begin

text \<open>
  The transmit path of \<open>slots.c\<close>: acquiring space in the current slot or the next one,
  queueing a message of one buffer or of several elements, and taking back the slots the
  firmware has recycled.
\<close>

section \<open>Operations\<close>

definition VchiqWaitForEvents :: "os \<Rightarrow> kobject \<Rightarrow> kobject \<Rightarrow> bool \<Rightarrow> (world, ntstatus) state" where
  "VchiqWaitForEvents os MainEventPtr StopEventPtr Timeout = do {
     r \<leftarrow> ext os (Ke (KeWaitForMultipleObjects MainEventPtr StopEventPtr Timeout));
     return (r_status r)
   }"

text \<open>
  \<open>Some hdr\<close> in the result is the header pointer stored through \<open>HeaderPPtr\<close>, which may itself
  be \<open>NULL\<close>. The first part pads out a slot that is too full, the second moves on to the next
  slot of the queue.
\<close>

definition VchiqAcquireTxSpace_pad :: "u32 \<Rightarrow> (world, unit) state" where
  "VchiqAcquireTxSpace_pad RequestSize = do {
     w \<leftarrow> get;
     let actualBufferSize = VCHIQ_GET_SLOT_ALIGN_SIZE RequestSize;
         availSlotSpace = VCHIQ_SLOT_SIZE - (CurrentTxPos w AND VCHIQ_SLOT_MASK)
     in do_when (availSlotSpace < actualBufferSize) (do {
          write_header (VCHIQ_GET_CURRENT_TX_HEADER w) VCHIQ_MSGID_PADDING
            (availSlotSpace - sizeof_VCHIQ_HEADER);
          update (CurrentTxPos_update (\<lambda>p. p + availSlotSpace))
        })
   }"

definition VchiqAcquireTxSpace_next_slot :: "os \<Rightarrow> handle \<Rightarrow> bool \<Rightarrow> (world, ntstatus) state" where
  "VchiqAcquireTxSpace_next_slot os file SyncAcquire = do {
     status \<leftarrow> VchiqWaitForEvents os AvailableTxSlotObj (FileEventStopObj file) (\<not> SyncAcquire);
     if status = STATUS_TIMEOUT then return STATUS_INSUFFICIENT_RESOURCES
     else if status = STATUS_WAIT_1 then return STATUS_UNSUCCESSFUL
     else do {
       update (AvailableTxSlotCount_update (\<lambda>n. n - 1));
       w \<leftarrow> get;
       update (SlaveCurrentSlot_update
         (\<lambda>_. Some (VCHIQ_GET_HEADER_BY_GLOBAL_INDEX (VCHIQ_GET_NEXT_TX_SLOT_INDEX w))));
       return STATUS_SUCCESS
     }
   }"

definition VchiqAcquireTxSpace ::
  "os \<Rightarrow> handle \<Rightarrow> u32 \<Rightarrow> bool \<Rightarrow> (world, ntstatus \<times> nat option) state" where
  "VchiqAcquireTxSpace os file RequestSize SyncAcquire = do {
     VchiqAcquireTxSpace_pad RequestSize;
     w \<leftarrow> get;
     status \<leftarrow> (if CurrentTxPos w AND VCHIQ_SLOT_MASK = 0
                then VchiqAcquireTxSpace_next_slot os file SyncAcquire
                else return STATUS_SUCCESS);
     if \<not> NT_SUCCESS status then return (status, None)
     else do {
       w \<leftarrow> get;
       update (CurrentTxPos_update (\<lambda>p. p + VCHIQ_GET_SLOT_ALIGN_SIZE RequestSize));
       return (STATUS_SUCCESS, VCHIQ_GET_CURRENT_TX_HEADER w)
     }
   }"

definition VchiqPublishTx :: "os \<Rightarrow> (world, ntstatus) state" where
  "VchiqPublishTx os = do {
     w \<leftarrow> get;
     update_slave (TxPos_update (\<lambda>_. CurrentTxPos w));
     VchiqSignalVC os Trigger Trigger_update
   }"

text \<open>
  \<open>BufferPtr\<close> is \<open>None\<close> for \<open>NULL\<close>, otherwise the bytes it points to, of which \<open>BufferSize\<close> are
  copied.
\<close>

definition VchiqQueueMessageAsync ::
  "os \<Rightarrow> handle \<Rightarrow> u32 \<Rightarrow> u8 list option \<Rightarrow> u32 \<Rightarrow> (world, ntstatus) state" where
  "VchiqQueueMessageAsync os file MessageId BufferPtr BufferSize = do {
     _ \<leftarrow> ext os (Ke (ExAcquireMutex TxSlotMutex));
     (status, msgHeaderPtr) \<leftarrow>
       VchiqAcquireTxSpace os file (sizeof_VCHIQ_HEADER + BufferSize) False;
     if \<not> NT_SUCCESS status then do {
       _ \<leftarrow> ext os (Ke (ExReleaseMutex TxSlotMutex));
       return status
     } else do {
       write_header msgHeaderPtr MessageId BufferSize;
       (case BufferPtr of
          None \<Rightarrow> return ()
        | Some buf \<Rightarrow> do_when (BufferSize \<noteq> 0)
            (RtlCopyToSlot msgHeaderPtr 8 (take (unat BufferSize) buf)));
       _ \<leftarrow> ext os (Ke (ExReleaseMutex TxSlotMutex));
       VchiqPublishTx os
     }
   }"

text \<open>
  The first loop collects the data pointers and the total size, and gives up on a \<open>NULL\<close>
  pointer; the second copies. \<open>msgHeaderPtr\<close> is a \<open>VCHIQ_HEADER*\<close>, so adding an element's size to
  it moves it by 8 bytes for each byte of the element.
\<close>

fun multi_element_total :: "os \<Rightarrow> VCHIQ_ELEMENT list \<Rightarrow> u32 \<Rightarrow> (world, u32 option) state" where
  "multi_element_total os [] acc = return (Some acc)"
| "multi_element_total os (e # es) acc =
     (if el_Size e \<noteq> 0 then do {
        r \<leftarrow> ext os (Wdf (WdfMemoryGetBuffer (el_WdfMemoryData e)));
        if r_ptr r = 0 then return None
        else multi_element_total os es (acc + el_Size e)
      } else multi_element_total os es acc)"

fun multi_element_copy :: "nat option \<Rightarrow> nat \<Rightarrow> VCHIQ_ELEMENT list \<Rightarrow> (world, unit) state" where
  "multi_element_copy hdr off [] = return ()"
| "multi_element_copy hdr off (e # es) =
     (if el_Size e \<noteq> 0 then do {
        w \<leftarrow> get;
        RtlCopyToSlot hdr off (take (unat (el_Size e)) (wdf_bytes w (el_WdfMemoryData e)));
        multi_element_copy hdr (off + 8 * unat (el_Size e)) es
      } else multi_element_copy hdr off es)"

definition VchiqQueueMultiElementAsync ::
  "os \<Rightarrow> handle \<Rightarrow> u32 \<Rightarrow> VCHIQ_ELEMENT list \<Rightarrow> (world, ntstatus) state" where
  "VchiqQueueMultiElementAsync os file MessageId Elements = do {
     msgSize \<leftarrow> multi_element_total os Elements 0;
     case msgSize of
       None \<Rightarrow> return STATUS_INVALID_PARAMETER
     | Some totalMsgSize \<Rightarrow> do {
         _ \<leftarrow> ext os (Ke (ExAcquireMutex TxSlotMutex));
         (status, msgHeaderPtr) \<leftarrow>
           VchiqAcquireTxSpace os file (sizeof_VCHIQ_HEADER + totalMsgSize) False;
         if \<not> NT_SUCCESS status then do {
           _ \<leftarrow> ext os (Ke (ExReleaseMutex TxSlotMutex));
           return status
         } else do {
           write_header msgHeaderPtr MessageId totalMsgSize;
           multi_element_copy msgHeaderPtr 8 Elements;
           _ \<leftarrow> ext os (Ke (ExReleaseMutex TxSlotMutex));
           VchiqPublishTx os
         }
       }
   }"

text \<open>
  Slots the firmware has put back into the slave's queue are released to the semaphore one
  by one, up to the recycle index read from the shared state.
\<close>

function recycle_tx_slots :: "os \<Rightarrow> u32 \<Rightarrow> u32 \<Rightarrow> (world, unit) state" where
  "recycle_tx_slots os current target =
     (if current = target then return ()
      else do {
        _ \<leftarrow> ext os (Ke KeReleaseSemaphore);
        update (AvailableTxSlotCount_update (\<lambda>n. n + 1));
        update_slave (Recycle_update VCHIQ_RESET_EVENT_SIGNAL);
        recycle_tx_slots os (current + 1) target
      })"
  by pat_completeness auto
termination
proof (relation "measure (\<lambda>(os, current, target). unat (target - current))")
  fix os :: os and current target :: u32
  assume "current \<noteq> target"
  then have "target - current \<noteq> 0" by simp
  then have "unat (target - current - 1) < unat (target - current)"
    by (metis unat_minus_one diff_less zero_less_one unat_gt_0)
  then show "((os, current + 1, target), os, current, target)
      \<in> measure (\<lambda>(os, current, target). unat (target - current))"
    by (simp add: diff_diff_add)
qed simp

declare recycle_tx_slots.simps [simp del]

definition VchiqProcessRecycleTxSlot :: "os \<Rightarrow> (world, ntstatus) state" where
  "VchiqProcessRecycleTxSlot os = do {
     w \<leftarrow> get;
     recycle_tx_slots os (RecycleTxSlotIndex w) (SlotQueueRecycle (Slave (slot_zero w)));
     update (RecycleTxSlotIndex_update (\<lambda>_. SlotQueueRecycle (Slave (slot_zero w))));
     update_slave (Recycle_update VCHIQ_ENABLE_EVENT_INTERRUPT);
     return STATUS_SUCCESS
   }"

section \<open>Where a message is put\<close>

text \<open>
  The position is aligned to 8 bytes, and a slot has been acquired whenever it is inside one.
\<close>

definition tx_inv :: "world \<Rightarrow> bool" where
  "tx_inv w \<longleftrightarrow> 8 dvd unat (CurrentTxPos w) \<and>
     (unat (CurrentTxPos w) mod 4096 \<noteq> 0 \<longrightarrow> SlaveCurrentSlot w \<noteq> None)"

definition tx_avail :: "world \<Rightarrow> nat" where
  "tx_avail w = 4096 - unat (CurrentTxPos w) mod 4096"

lemma unat_add_mod_slot: "unat (a + b :: u32) mod 4096 = (unat a + unat b) mod 4096"
  by (simp add: unat_word_ariths mod_mod_cancel)

lemma unat_add_dvd_8: "8 dvd unat (a + b :: u32) \<longleftrightarrow> 8 dvd unat a + unat b"
  by (simp add: unat_word_ariths dvd_mod_iff)

lemma unat_avail: "unat (4096 - ((p :: u32) AND 4095)) = 4096 - unat p mod 4096"
proof -
  have "p AND 4095 \<le> 4096"
    by (simp add: word_le_nat_alt less_imp_le order.strict_trans2 [OF mod_less_divisor])
  then show ?thesis by (simp add: unat_sub)
qed

lemma round_up_slot: "p + (4096 - p mod 4096) = 4096 * (p div 4096 + 1)" for p :: nat
proof -
  obtain q r where "p = 4096 * q + r" and "r < 4096"
    by (metis mult_div_mod_eq mod_less_divisor zero_less_numeral)
  then show ?thesis by simp
qed

lemma avail_less_iff: "4096 - ((p :: u32) AND 4095) < n \<longleftrightarrow> 4096 - unat p mod 4096 < unat n"
  by (simp add: word_less_nat_alt unat_avail)

lemma run_pad:
  "run_state (VchiqAcquireTxSpace_pad n) w =
     ((), if tx_avail w < unat (VCHIQ_GET_SLOT_ALIGN_SIZE n)
          then (snd (run_state (write_header (VCHIQ_GET_CURRENT_TX_HEADER w) 0
                  (of_nat (tx_avail w) - 8)) w))
               \<lparr>CurrentTxPos := CurrentTxPos w + of_nat (tx_avail w)\<rparr>
          else w)"
proof -
  have "of_nat (tx_avail w) = 4096 - (CurrentTxPos w AND 4095)"
    by (simp add: tx_avail_def flip: unat_avail)
  then show ?thesis
    by (simp add: VchiqAcquireTxSpace_pad_def Let_def avail_less_iff tx_avail_def [symmetric]
          split: option.split)
qed

lemma pad_spec:
  assumes inv: "tx_inv w" and n: "unat n \<le> 4096"
    and run: "run_state (VchiqAcquireTxSpace_pad n) w = (u, w1)"
  shows "tx_inv w1"
    and "unat (CurrentTxPos w1) mod 4096 + unat (VCHIQ_GET_SLOT_ALIGN_SIZE n) \<le> 4096"
    and "SlaveCurrentSlot w1 = SlaveCurrentSlot w"
    and "trace w1 = trace w"
proof -
  let ?p = "unat (CurrentTxPos w)"
  have al: "unat (VCHIQ_GET_SLOT_ALIGN_SIZE n) \<le> 4096" using n by (rule align_bounds)
  have av: "unat (of_nat (tx_avail w) :: u32) = 4096 - ?p mod 4096"
    unfolding tx_avail_def by (simp only: unsigned_of_nat) (simp add: take_bit_nat_eq_self)
  have pos: "unat (CurrentTxPos w1) mod 4096 + unat (VCHIQ_GET_SLOT_ALIGN_SIZE n) \<le> 4096 \<and>
      8 dvd unat (CurrentTxPos w1) \<and>
      (unat (CurrentTxPos w1) mod 4096 \<noteq> 0 \<longrightarrow> unat (CurrentTxPos w1) mod 4096 = ?p mod 4096)"
  proof (cases "tx_avail w < unat (VCHIQ_GET_SLOT_ALIGN_SIZE n)")
    case True
    then have "CurrentTxPos w1 = CurrentTxPos w + of_nat (tx_avail w)"
      using run by (auto simp: run_pad split: option.splits)
    then have "unat (CurrentTxPos w1) mod 4096 = 0" "8 dvd unat (CurrentTxPos w1)"
      by (simp_all add: unat_add_mod_slot unat_add_dvd_8 av round_up_slot)
    then show ?thesis using al by simp
  next
    case False
    with run have "w1 = w" by (simp add: run_pad)
    with False inv show ?thesis by (simp add: tx_inv_def tx_avail_def)
  qed
  then show "unat (CurrentTxPos w1) mod 4096 + unat (VCHIQ_GET_SLOT_ALIGN_SIZE n) \<le> 4096" by simp
  show slot: "SlaveCurrentSlot w1 = SlaveCurrentSlot w" and "trace w1 = trace w"
    using run by (auto simp: run_pad split: option.splits if_splits)
  show "tx_inv w1" using pos slot inv by (auto simp: tx_inv_def)
qed

text \<open>A successful wait takes a slot from the queue; an unsuccessful one changes nothing.\<close>

lemma next_slot_cases:
  assumes "run_state (VchiqAcquireTxSpace_next_slot os f sync) w = (st, w')"
  obtains (slot) r where "st = STATUS_SUCCESS"
      "w' = w\<lparr>trace := trace w @ [(Ke (KeWaitForMultipleObjects AvailableTxSlotObj (FileEventStopObj f) (\<not> sync)), r)],
             AvailableTxSlotCount := AvailableTxSlotCount w - 1,
             SlaveCurrentSlot := Some (VCHIQ_GET_HEADER_BY_GLOBAL_INDEX (VCHIQ_GET_NEXT_TX_SLOT_INDEX w))\<rparr>"
      "r_status r \<noteq> STATUS_TIMEOUT" "r_status r \<noteq> STATUS_WAIT_1"
      "r = os (trace w) (Ke (KeWaitForMultipleObjects AvailableTxSlotObj (FileEventStopObj f) (\<not> sync)))"
    | (none) r where "\<not> NT_SUCCESS st"
      "w' = w\<lparr>trace := trace w @ [(Ke (KeWaitForMultipleObjects AvailableTxSlotObj (FileEventStopObj f) (\<not> sync)), r)]\<rparr>"
      "r_status r = STATUS_TIMEOUT \<or> r_status r = STATUS_WAIT_1"
      "r = os (trace w) (Ke (KeWaitForMultipleObjects AvailableTxSlotObj (FileEventStopObj f) (\<not> sync)))"
  using assms
  by (auto simp: VchiqAcquireTxSpace_next_slot_def VchiqWaitForEvents_def VCHIQ_GET_NEXT_TX_SLOT_INDEX_def
      split: if_splits)

lemma acquire_cases:
  assumes run: "run_state (VchiqAcquireTxSpace os f n sync) w = ((st, hdr), w')"
  obtains (ok) w1 w2 where "run_state (VchiqAcquireTxSpace_pad n) w = ((), w1)"
      "(CurrentTxPos w1 AND 4095 \<noteq> 0 \<and> w2 = w1) \<or>
       (CurrentTxPos w1 AND 4095 = 0 \<and>
        run_state (VchiqAcquireTxSpace_next_slot os f sync) w1 = (STATUS_SUCCESS, w2))"
      "st = STATUS_SUCCESS" "hdr = VCHIQ_GET_CURRENT_TX_HEADER w2"
      "w' = w2\<lparr>CurrentTxPos := CurrentTxPos w2 + VCHIQ_GET_SLOT_ALIGN_SIZE n\<rparr>"
    | (fail) w1 where "run_state (VchiqAcquireTxSpace_pad n) w = ((), w1)"
      "CurrentTxPos w1 AND 4095 = 0"
      "run_state (VchiqAcquireTxSpace_next_slot os f sync) w1 = (st, w')"
      "\<not> NT_SUCCESS st" "hdr = None"
proof -
  obtain w1 where pad: "run_state (VchiqAcquireTxSpace_pad n) w = ((), w1)"
    by (metis old.unit.exhaust surj_pair)
  show thesis
  proof (cases "CurrentTxPos w1 AND 4095 = 0")
    case False
    with run pad show thesis by (intro ok [OF pad]) (auto simp: VchiqAcquireTxSpace_def)
  next
    case True
    obtain s w2 where next_slot: "run_state (VchiqAcquireTxSpace_next_slot os f sync) w1 = (s, w2)"
      by fastforce
    then have "s = STATUS_SUCCESS \<or> \<not> NT_SUCCESS s" by (auto elim: next_slot_cases)
    then show thesis
    proof
      assume "s = STATUS_SUCCESS"
      with True run pad next_slot show thesis
        by (intro ok [OF pad]) (auto simp: VchiqAcquireTxSpace_def)
    next
      assume "\<not> NT_SUCCESS s"
      with True run pad next_slot show thesis
        by (intro fail [OF pad]) (auto simp: VchiqAcquireTxSpace_def)
    qed
  qed
qed

lemma acquire_in_slot:
  assumes inv: "tx_inv w" and n: "unat n \<le> 4096"
    and run: "run_state (VchiqAcquireTxSpace os f n sync) w = ((st, hdr), w')"
    and ok: "NT_SUCCESS st"
  shows "\<exists>slot off. SlaveCurrentSlot w' = Some slot \<and> hdr = Some (slot + off) \<and> 8 dvd off \<and>
           off + unat (VCHIQ_GET_SLOT_ALIGN_SIZE n) \<le> 4096 \<and> unat n \<le> unat (VCHIQ_GET_SLOT_ALIGN_SIZE n) \<and>
           unat (CurrentTxPos w') mod 4096 = (off + unat (VCHIQ_GET_SLOT_ALIGN_SIZE n)) mod 4096 \<and>
           tx_inv w'"
  using run
proof (cases rule: acquire_cases)
  case fail
  with ok show ?thesis by simp
next
  case (ok w1 w2)
  note pad = pad_spec [OF inv n ok(1)]
  let ?p = "unat (CurrentTxPos w1)" and ?a = "unat (VCHIQ_GET_SLOT_ALIGN_SIZE n)"
  have w2: "CurrentTxPos w2 = CurrentTxPos w1 \<and> SlaveCurrentSlot w2 \<noteq> None"
    using ok(2) pad(1) by (auto simp: tx_inv_def slot_offset_eq_0_iff elim: next_slot_cases)
  then obtain slot where slot: "SlaveCurrentSlot w2 = Some slot" by blast
  have "8 dvd ?p" using pad(1) by (simp add: tx_inv_def)
  then have "8 dvd ?p mod 4096" by (simp add: dvd_mod)
  moreover have "8 dvd ?p + ?a" using \<open>8 dvd ?p\<close> align_bounds(1) [OF n] by simp
  moreover have "unat (CurrentTxPos w') mod 4096 = (?p mod 4096 + ?a) mod 4096"
    using ok(5) w2 by (simp add: unat_add_mod_slot mod_add_left_eq)
  ultimately show ?thesis
    using pad(2) ok(4,5) w2 slot align_bounds(2) [OF n]
    by (auto simp: VCHIQ_GET_CURRENT_TX_HEADER_def tx_inv_def unat_add_dvd_8)
qed

text \<open>The position at which a request of \<open>n\<close> bytes starts: after the padding, where there is any.\<close>

definition tx_start :: "world \<Rightarrow> u32 \<Rightarrow> u32" where
  "tx_start w n = CurrentTxPos w +
     (if tx_avail w < unat (VCHIQ_GET_SLOT_ALIGN_SIZE n) then of_nat (tx_avail w) else 0)"

lemma acquire_at:
  assumes run: "run_state (VchiqAcquireTxSpace os f n sync) w = ((st, hdr), w')" and ok: "NT_SUCCESS st"
  shows "CurrentTxPos w' = tx_start w n + VCHIQ_GET_SLOT_ALIGN_SIZE n"
    and "SlaveCurrentSlot w' = Some slot \<Longrightarrow> hdr = Some (slot + unat (tx_start w n) mod 4096)"
  using run
proof (atomize (full), cases rule: acquire_cases)
  case fail
  with ok show "CurrentTxPos w' = tx_start w n + VCHIQ_GET_SLOT_ALIGN_SIZE n \<and>
    (SlaveCurrentSlot w' = Some slot \<longrightarrow> hdr = Some (slot + unat (tx_start w n) mod 4096))" by simp
next
  case (ok w1 w2)
  have "CurrentTxPos w1 = tx_start w n"
    using ok(1) by (auto simp: run_pad tx_start_def split: if_splits)
  moreover have "CurrentTxPos w2 = CurrentTxPos w1" using ok(2) by (auto elim: next_slot_cases)
  ultimately show "CurrentTxPos w' = tx_start w n + VCHIQ_GET_SLOT_ALIGN_SIZE n \<and>
    (SlaveCurrentSlot w' = Some slot \<longrightarrow> hdr = Some (slot + unat (tx_start w n) mod 4096))"
    using ok(4,5) by (auto simp: VCHIQ_GET_CURRENT_TX_HEADER_def)
qed

section \<open>Queueing a message\<close>

lemma publish_spec:
  assumes "run_state (VchiqPublishTx os) w = (st, w')"
  shows "st = STATUS_SUCCESS" "mem w' = mem w" "SlaveCurrentSlot w' = SlaveCurrentSlot w"
    "CurrentTxPos w' = CurrentTxPos w" "TxPos (Slave (slot_zero w')) = CurrentTxPos w"
    "Fired (Trigger (Master (slot_zero w'))) = 1"
    "doorbells BELL2 (trace w') = doorbells BELL2 (trace w) +
       (if Armed (Trigger (Master (slot_zero w))) \<noteq> 0 then 1 else 0)"
  using assms
  by (auto simp: VchiqPublishTx_def VchiqSignalVC_def split: if_splits)

lemma next_slot_frame:
  assumes "run_state (VchiqAcquireTxSpace_next_slot os f sync) w = (st, w')"
  shows "mem w' = mem w" "slot_zero w' = slot_zero w" "CurrentTxPos w' = CurrentTxPos w"
    "doorbells reg (trace w') = doorbells reg (trace w)" "files w' = files w"
  using assms by (auto elim!: next_slot_cases)

lemma pad_frame:
  assumes run: "run_state (VchiqAcquireTxSpace_pad n) w = (u, w1)"
  shows "slot_zero w1 = slot_zero w" "trace w1 = trace w" "files w1 = files w"
  using assms by (auto simp: run_pad split: option.splits if_splits)

lemma acquire_frame:
  assumes run: "run_state (VchiqAcquireTxSpace os f n sync) w = ((st, hdr), w')"
  shows "slot_zero w' = slot_zero w \<and> files w' = files w \<and>
         doorbells reg (trace w') = doorbells reg (trace w)"
  using run
proof (cases rule: acquire_cases)
  case (ok w1 w2)
  have "slot_zero w2 = slot_zero w1 \<and> files w2 = files w1 \<and>
        doorbells reg (trace w2) = doorbells reg (trace w1)"
    using ok(2) next_slot_frame [of os f sync w1 _ w2] by auto
  then show ?thesis using ok(5) pad_frame [OF ok(1)] by simp
next
  case (fail w1)
  then show ?thesis using pad_frame [OF fail(1)] next_slot_frame [OF fail(3)] by simp
qed

text \<open>The unused rest of the current slot, where a padding header goes.\<close>

definition tx_tail :: "world \<Rightarrow> nat set" where
  "tx_tail w = (case SlaveCurrentSlot w of None \<Rightarrow> {}
     | Some slot \<Rightarrow> {slot + unat (CurrentTxPos w) mod 4096 ..< slot + 4096})"

lemma pad_mem:
  assumes inv: "tx_inv w" and n: "unat n \<le> 4096" and x: "x \<notin> tx_tail w"
    and run: "run_state (VchiqAcquireTxSpace_pad n) w = (u, w1)"
  shows "mem w1 x = mem w x"
proof (cases "tx_avail w < unat (VCHIQ_GET_SLOT_ALIGN_SIZE n)")
  case False
  with run show ?thesis by (simp add: run_pad)
next
  case True
  then have "unat (CurrentTxPos w) mod 4096 \<noteq> 0"
    using align_bounds(3) [OF n] by (auto simp: tx_avail_def)
  with inv obtain slot where slot: "SlaveCurrentSlot w = Some slot"
    by (auto simp: tx_inv_def)
  have "8 dvd unat (CurrentTxPos w) mod 4096" using inv by (simp add: tx_inv_def dvd_mod)
  then have "unat (CurrentTxPos w) mod 4096 + 8 \<le> 4096"
    by (auto simp: dvd_def)
  with x slot have "mem w x = store_bytes (slot + unat (CurrentTxPos w) mod 4096) (le32 0 @ le32 k) (mem w) x" for k
    by (auto simp: tx_tail_def store_bytes_def)
  with True run slot show ?thesis
    by (auto simp: run_pad VCHIQ_GET_CURRENT_TX_HEADER_def)
qed

lemma acquire_mem:
  assumes inv: "tx_inv w" and n: "unat n \<le> 4096" and x: "x \<notin> tx_tail w"
    and run: "run_state (VchiqAcquireTxSpace os f n sync) w = ((st, hdr), w')"
  shows "mem w' x = mem w x"
  using run
proof (cases rule: acquire_cases)
  case (ok w1 w2)
  have "mem w2 x = mem w1 x" using ok(2) by (auto dest: next_slot_frame(1))
  then show ?thesis using ok(5) pad_mem [OF inv n x ok(1)] by simp
next
  case (fail w1)
  then show ?thesis using pad_mem [OF inv n x fail(1)] next_slot_frame(1) [OF fail(3)] by simp
qed

text \<open>
  C37. Space for a message of at most one slot (\<open>VchiqAcquireTxSpace\<close> succeeding) is a range of
  one slot: the header pointer lies in the current slot at an offset that is a multiple of
  8, header and payload end inside the slot, and the stream position moves to the end of the
  range, from where the invariant of the position holds again. Whether it succeeds or not,
  it writes to the shared memory only in the unused rest of the slot that was current, and
  leaves the shared state of slot zero alone.
\<close>

theorem acquired_space_in_slot:
  assumes "tx_inv w" and "unat n \<le> 4096"
    and "run_state (VchiqAcquireTxSpace os f n sync) w = ((st, hdr), w')"
  shows "(NT_SUCCESS st \<longrightarrow> (\<exists>slot off.
            SlaveCurrentSlot w' = Some slot \<and> hdr = Some (slot + off) \<and> 8 dvd off \<and>
            off + unat (VCHIQ_GET_SLOT_ALIGN_SIZE n) \<le> 4096 \<and> unat n \<le> unat (VCHIQ_GET_SLOT_ALIGN_SIZE n) \<and>
            unat (CurrentTxPos w') mod 4096 = (off + unat (VCHIQ_GET_SLOT_ALIGN_SIZE n)) mod 4096 \<and>
            tx_inv w')) \<and>
         (\<forall>x. x \<notin> tx_tail w \<longrightarrow> mem w' x = mem w x) \<and> slot_zero w' = slot_zero w"
  using acquire_in_slot [OF assms] acquire_mem [OF assms(1,2) _ assms(3)]
    acquire_frame [OF assms(3)]
  by blast

text \<open>A message of 64 bytes at the start of a slot: a slot is taken from the queue.\<close>

theorem acquired_space_in_slot_witness:
  "tx_inv zero_world \<and> (\<exists>st hdr w'.
     run_state (VchiqAcquireTxSpace quiet_os 1 64 False) zero_world = ((st, hdr), w') \<and>
     NT_SUCCESS st \<and> tx_inv w' \<and> slot_zero w' = slot_zero zero_world)"
proof -
  obtain st hdr w' where run: "run_state (VchiqAcquireTxSpace quiet_os 1 64 False) zero_world = ((st, hdr), w')"
    by (metis surj_pair)
  have inv: "tx_inv zero_world" by (simp add: tx_inv_def zero_world_def)
  have "NT_SUCCESS st"
    using run by (auto simp: VchiqAcquireTxSpace_def run_pad VchiqAcquireTxSpace_next_slot_def
        VchiqWaitForEvents_def zero_world_def quiet_os_def ok_reply_def tx_avail_def
        VCHIQ_GET_SLOT_ALIGN_SIZE_def)
  with acquired_space_in_slot [OF inv _ run] inv run show ?thesis by auto
qed



end
