(* ===== verification/Vchiq_Pending.thy ===== *)
theory Vchiq_Pending
  imports Vchiq_Slots
begin

text \<open>
  The receive side's bookkeeping in \<open>slots.c\<close>: the reference count of each receive slot and
  the recycling of slots, the lists of messages that wait for the client (data messages,
  messages of a VCHI service, bulk transfers), and the handing over of waiting messages to
  the requests of the client.

  A loop that walks a list is a recursion on the entries it has still to visit; the list
  itself is updated entry by entry, as the code does.
\<close>

section \<open>Slots\<close>

definition update_slot :: "u32 \<Rightarrow> (SLOT_INFO \<Rightarrow> SLOT_INFO) \<Rightarrow> (world, unit) state" where
  "update_slot n g = update (\<lambda>w.
     if unat n < VCHIQ_MAX_SLOTS
     then w\<lparr>RxSlotInfo := (RxSlotInfo w)(unat n := g (RxSlotInfo w (unat n)))\<rparr>
     else w\<lparr>ub := True\<rparr>)"

definition VchiqAddRefMsg :: "u32 \<Rightarrow> (world, ntstatus) state" where
  "VchiqAddRefMsg slot = do {
     update_slot slot (RefCount_update (\<lambda>n. n + 1));
     return STATUS_SUCCESS
   }"

definition VchiqRecycleSlot :: "os \<Rightarrow> u32 \<Rightarrow> bool \<Rightarrow> (world, unit) state" where
  "VchiqRecycleSlot os slot ReleaseSlot = do {
     do_when ReleaseSlot (update_slot slot (SlotInUse_update (\<lambda>_. False)));
     w \<leftarrow> get;
     let info = RxSlotInfo w (unat slot)
     in do_when (RefCount info = 0 \<and> \<not> SlotInUse info) (do {
          _ \<leftarrow> ext os (Ke (ExAcquireMutex RecycleSlotMutex));
          update_master (\<lambda>m. m\<lparr>SlotQueue :=
            (SlotQueue m)(unat (SlotQueueRecycle m AND VCHIQ_SLOT_QUEUE_MASK) := slot)\<rparr>);
          update_master (SlotQueueRecycle_update (\<lambda>n. n + 1));
          _ \<leftarrow> VchiqSignalVC os Recycle Recycle_update;
          _ \<leftarrow> ext os (Ke (ExReleaseMutex RecycleSlotMutex));
          return ()
        })
   }"

definition VchiqReleaseMsg :: "os \<Rightarrow> u32 \<Rightarrow> (world, ntstatus) state" where
  "VchiqReleaseMsg os slot = do {
     update_slot slot (RefCount_update (\<lambda>n. n - 1));
     VchiqRecycleSlot os slot False;
     return STATUS_SUCCESS
   }"

section \<open>Bulk transfers in flight\<close>

definition VchiqAddPendingBulkMsg ::
  "os \<Rightarrow> handle \<Rightarrow> VCHIQ_QUEUE_BULK_TRANSFER \<Rightarrow> bulk_type \<Rightarrow> (world, ntstatus) state" where
  "VchiqAddPendingBulkMsg os file BulkTransfer BulkType = do {
     w \<leftarrow> get;
     r \<leftarrow> ext os (Wdf (WdfMemoryCreateFromLookaside (PendingBulkMsgLookAsideMemory (files w file))));
     if \<not> NT_SUCCESS (r_status r) then return (r_status r)
     else do {
       buf \<leftarrow> ext os (Wdf (WdfMemoryGetBuffer (r_ptr r)));
       if r_len buf \<noteq> sizeof_VCHIQ_PENDING_BULK_MSG then return (r_status r)
       else do {
         update_file file (PendingBulkMsgList_update (\<lambda>l. l(BulkType := l BulkType @
           [\<lparr>BulkUserData = bt_UserData BulkTransfer, BulkWdfMemory = r_ptr r,
             BulkMode = bt_Mode BulkTransfer\<rparr>])));
         return (r_status r)
       }
     }
   }"

text \<open>
  Without completion data the last entry is removed, or all of them (\<open>RemoveAll\<close>); with it,
  given as the locked array and the index in it, the first entry is reported. The second
  result is the mode stored through \<open>BulkMode\<close>.
\<close>

fun VchiqRemovePendingBulkMsg_tail ::
  "os \<Rightarrow> handle \<Rightarrow> bulk_type \<Rightarrow> bool \<Rightarrow> VCHIQ_PENDING_BULK_MSG list \<Rightarrow> (world, unit) state" where
  "VchiqRemovePendingBulkMsg_tail os file BulkType RemoveAll [] = return ()"
| "VchiqRemovePendingBulkMsg_tail os file BulkType RemoveAll (m # ms) = do {
     update_file file (PendingBulkMsgList_update (\<lambda>l. l(BulkType := butlast (l BulkType))));
     _ \<leftarrow> ext os (Wdf (WdfObjectDelete (BulkWdfMemory m)));
     if RemoveAll then VchiqRemovePendingBulkMsg_tail os file BulkType RemoveAll ms else return ()
   }"

definition VchiqRemovePendingBulkMsg ::
  "os \<Rightarrow> handle \<Rightarrow> (handle \<times> nat) option \<Rightarrow> bulk_type \<Rightarrow> bool \<Rightarrow> (world, ntstatus \<times> bulk_mode) state" where
  "VchiqRemovePendingBulkMsg os file CompletionData BulkType RemoveAll = do {
     w \<leftarrow> get;
     case CompletionData of
       None \<Rightarrow> do {
         VchiqRemovePendingBulkMsg_tail os file BulkType RemoveAll
           (rev (PendingBulkMsgList (files w file) BulkType));
         return (STATUS_SUCCESS, VCHIQ_BULK_MODE_WAITING)
       }
     | Some (h, i) \<Rightarrow>
         (case PendingBulkMsgList (files w file) BulkType of
            [] \<Rightarrow> return (STATUS_NOT_FOUND, VCHIQ_BULK_MODE_WAITING)
          | m # ms \<Rightarrow> do {
              update_file file (PendingBulkMsgList_update (\<lambda>l. l(BulkType := ms)));
              update_completion h i (cd_BulkUserData_update (\<lambda>_. BulkUserData m));
              return (STATUS_SUCCESS, BulkMode m)
            })
   }"

section \<open>Waiting messages\<close>

definition VchiqAddPendingMsg :: "os \<Rightarrow> handle \<Rightarrow> nat \<Rightarrow> u32 \<Rightarrow> (world, ntstatus) state" where
  "VchiqAddPendingMsg os file hdr slot = do {
     w \<leftarrow> get;
     r \<leftarrow> ext os (Wdf (WdfMemoryCreateFromLookaside (PendingMsgLookAsideMemory (files w file))));
     if \<not> NT_SUCCESS (r_status r) then return (r_status r)
     else do {
       buf \<leftarrow> ext os (Wdf (WdfMemoryGetBuffer (r_ptr r)));
       if r_len buf \<noteq> sizeof_VCHIQ_PENDING_MSG then return (r_status r)
       else do {
         update_file file (PendingDataMsgList_update (\<lambda>l. l @
           [\<lparr>Msg = hdr, SlotNumber = slot, WdfMemory = r_ptr r\<rparr>]));
         _ \<leftarrow> VchiqAddRefMsg slot;
         return (r_status r)
       }
     }
   }"

definition VchiqAddPendingVchiMsg :: "os \<Rightarrow> handle \<Rightarrow> nat \<Rightarrow> u32 \<Rightarrow> (world, ntstatus) state" where
  "VchiqAddPendingVchiMsg os file hdr slot = do {
     w \<leftarrow> get;
     r \<leftarrow> ext os (Wdf (WdfMemoryCreateFromLookaside (PendingMsgLookAsideMemory (files w file))));
     if \<not> NT_SUCCESS (r_status r) then return (r_status r)
     else do {
       buf \<leftarrow> ext os (Wdf (WdfMemoryGetBuffer (r_ptr r)));
       if r_len buf \<noteq> sizeof_VCHIQ_PENDING_MSG then return (r_status r)
       else do {
         update_file file (PendingVchiMsgList_update (\<lambda>l. l @
           [\<lparr>Msg = hdr, SlotNumber = slot, WdfMemory = r_ptr r\<rparr>]));
         _ \<leftarrow> VchiqAddRefMsg slot;
         return (r_status r)
       }
     }
   }"

text \<open>Without a request the lists are emptied from the tail.\<close>

fun VchiqRemovePendingMsg_flush :: "os \<Rightarrow> handle \<Rightarrow> VCHIQ_PENDING_MSG list \<Rightarrow> (world, unit) state" where
  "VchiqRemovePendingMsg_flush os file [] = return ()"
| "VchiqRemovePendingMsg_flush os file (m # ms) = do {
     update_file file (PendingDataMsgList_update butlast);
     _ \<leftarrow> VchiqReleaseMsg os (SlotNumber m);
     _ \<leftarrow> ext os (Wdf (WdfObjectDelete (WdfMemory m)));
     VchiqRemovePendingMsg_flush os file ms
   }"

fun VchiqRemovePendingVchiMsg_flush :: "os \<Rightarrow> handle \<Rightarrow> VCHIQ_PENDING_MSG list \<Rightarrow> (world, unit) state" where
  "VchiqRemovePendingVchiMsg_flush os file [] = return ()"
| "VchiqRemovePendingVchiMsg_flush os file (m # ms) = do {
     update_file file (PendingVchiMsgList_update butlast);
     _ \<leftarrow> VchiqReleaseMsg os (SlotNumber m);
     _ \<leftarrow> ext os (Wdf (WdfObjectDelete (WdfMemory m)));
     VchiqRemovePendingVchiMsg_flush os file ms
   }"

section \<open>Messages of a VCHI service\<close>

text \<open>The message at the head of the list is copied out and its slot released.\<close>

definition VchiqRemovePendingVchiMsg_deliver ::
  "os \<Rightarrow> handle \<Rightarrow> handle \<Rightarrow> VCHIQ_PENDING_MSG \<Rightarrow> u32 \<Rightarrow> ntstatus \<Rightarrow> (world, ntstatus) state" where
  "VchiqRemovePendingVchiMsg_deliver os file WdfRequest m pendingVchiMsgSize status = do {
     update_file file (PendingVchiMsgList_update tl);
     w \<leftarrow> get;
     let buffer = dm_WdfMemoryBuffer (in_dequeue w WdfRequest)
     in do {
       buf \<leftarrow> ext os (Wdf (WdfMemoryGetBuffer buffer));
       RtlCopyToWdf buffer (r_ptr buf) (load_bytes (Msg m) (unat pendingVchiMsgSize) (mem w));
       _ \<leftarrow> ext os (Wdf (WdfObjectDelete (WdfMemory m)));
       update (out_ulong_update (\<lambda>u. u(WdfRequest := pendingVchiMsgSize)));
       _ \<leftarrow> VchiqReleaseMsg os (SlotNumber m);
       _ \<leftarrow> ext os (Req (WdfRequestCompleteWithInformation WdfRequest status sizeof_ULONG));
       return status
     }
   }"

definition VchiqRemovePendingVchiMsg_head ::
  "os \<Rightarrow> handle \<Rightarrow> handle \<Rightarrow> ntstatus \<Rightarrow> (world, ntstatus) state" where
  "VchiqRemovePendingVchiMsg_head os file WdfRequest status = do {
     w \<leftarrow> get;
     case PendingVchiMsgList (files w file) of
       [] \<Rightarrow> do {
         _ \<leftarrow> ext os (Req (WdfRequestComplete WdfRequest STATUS_UNSUCCESSFUL));
         return STATUS_UNSUCCESSFUL
       }
     | m # ms \<Rightarrow>
         let pendingVchiMsgSize = header_Size w (Msg m) + sizeof_VCHIQ_HEADER
         in if dm_BufSize (in_dequeue w WdfRequest) < pendingVchiMsgSize then do {
              update_file file (PendingVchiMsgList_update (\<lambda>l. m # tl l));
              _ \<leftarrow> ext os (Req (WdfRequestComplete WdfRequest STATUS_INSUFFICIENT_RESOURCES));
              return STATUS_INSUFFICIENT_RESOURCES
            } else VchiqRemovePendingVchiMsg_deliver os file WdfRequest m pendingVchiMsgSize status
   }"

definition VchiqRemovePendingVchiMsg :: "os \<Rightarrow> handle \<Rightarrow> handle \<Rightarrow> (world, ntstatus) state" where
  "VchiqRemovePendingVchiMsg os file WdfRequest =
     (if WdfRequest = 0 then do {
        w \<leftarrow> get;
        VchiqRemovePendingVchiMsg_flush os file (rev (PendingVchiMsgList (files w file)));
        return STATUS_SUCCESS
      } else do {
        inb \<leftarrow> ext os (Req (WdfRequestRetrieveInputBuffer WdfRequest sizeof_VCHIQ_DEQUEUE_MESSAGE));
        if \<not> NT_SUCCESS (r_status inb) then do {
          _ \<leftarrow> ext os (Req (WdfRequestComplete WdfRequest (r_status inb)));
          return (r_status inb)
        } else do {
          outb \<leftarrow> ext os (Req (WdfRequestRetrieveOutputBuffer WdfRequest sizeof_ULONG));
          if \<not> NT_SUCCESS (r_status outb) then do {
            _ \<leftarrow> ext os (Req (WdfRequestComplete WdfRequest (r_status outb)));
            return (r_status outb)
          } else VchiqRemovePendingVchiMsg_head os file WdfRequest (r_status outb)
        }
      })"

text \<open>
  The loop that serves the requests waiting for VCHI messages; \<open>None\<close> stands for running out
  of the fuel, which is the length of the list of messages (\<open>vchi_loop_terminates\<close> shows
  that it suffices).
\<close>

fun VchiqProcessPendingVchiMsg_loop :: "os \<Rightarrow> handle \<Rightarrow> nat \<Rightarrow> (world, ntstatus option) state" where
  "VchiqProcessPendingVchiMsg_loop os file 0 = return None"
| "VchiqProcessPendingVchiMsg_loop os file (Suc fuel) = do {
     w \<leftarrow> get;
     r \<leftarrow> ext os (Req (WdfIoQueueRetrieveNextRequest (FileQueue (files w file) FILE_QUEUE_PENDING_VCHI_MSG)));
     if r_status r = STATUS_NO_MORE_ENTRIES then return (Some STATUS_SUCCESS)
     else if \<not> NT_SUCCESS (r_status r) then return (Some (r_status r))
     else do {
       status \<leftarrow> VchiqRemovePendingVchiMsg os file (r_ptr r);
       if \<not> NT_SUCCESS status then return (Some status)
       else do {
         w \<leftarrow> get;
         if PendingVchiMsgList (files w file) = [] then return (Some STATUS_SUCCESS)
         else if r_ptr r = 0 then return (Some status)
         else VchiqProcessPendingVchiMsg_loop os file fuel
       }
     }
   }"

definition VchiqProcessPendingVchiMsg :: "os \<Rightarrow> handle \<Rightarrow> (world, ntstatus) state" where
  "VchiqProcessPendingVchiMsg os file = do {
     w \<leftarrow> get;
     if PendingVchiMsgList (files w file) = [] then return STATUS_SUCCESS
     else do {
       r \<leftarrow> VchiqProcessPendingVchiMsg_loop os file (length (PendingVchiMsgList (files w file)));
       return (case r of None \<Rightarrow> STATUS_SUCCESS | Some status \<Rightarrow> status)
     }
   }"

section \<open>Handing waiting messages to a request\<close>

text \<open>
  The reason a message is returned for, in the next completion of the request; the results
  are \<open>trackMsgForVchiService\<close> and \<open>returnMsgToVchiService\<close>.
\<close>

definition VchiqRemovePendingMsg_bulk_done ::
  "os \<Rightarrow> handle \<Rightarrow> handle \<Rightarrow> nat \<Rightarrow> reason \<Rightarrow> bulk_type \<Rightarrow> (world, bool \<times> bool) state" where
  "VchiqRemovePendingMsg_bulk_done os file completion i rsn BulkType = do {
     update_completion completion i (cd_Reason_update (\<lambda>_. rsn));
     _ \<leftarrow> ext os (Ke (ExAcquireMutex (PendingBulkMsgMutex file BulkType)));
     (tempStatus, bulkMode) \<leftarrow>
       VchiqRemovePendingBulkMsg os file (Some (completion, i)) BulkType False;
     _ \<leftarrow> ext os (Ke (ExReleaseMutex (PendingBulkMsgMutex file BulkType)));
     return (False, NT_SUCCESS tempStatus \<and>
       bulkMode \<noteq> VCHIQ_BULK_MODE_BLOCKING \<and> bulkMode \<noteq> VCHIQ_BULK_MODE_NOCALLBACK)
   }"

definition VchiqRemovePendingMsg_reason ::
  "os \<Rightarrow> handle \<Rightarrow> handle \<Rightarrow> nat \<Rightarrow> u32 \<Rightarrow> (world, bool \<times> bool) state" where
  "VchiqRemovePendingMsg_reason os file completion i msgid =
     (if VCHIQ_MSG_TYPE msgid = VCHIQ_MSG_DATA then do {
        update_completion completion i (cd_Reason_update (\<lambda>_. VCHIQ_MESSAGE_AVAILABLE));
        return (True, True)
      } else if VCHIQ_MSG_TYPE msgid = VCHIQ_MSG_BULK_TX_DONE then
        VchiqRemovePendingMsg_bulk_done os file completion i VCHIQ_BULK_TRANSMIT_DONE MSG_BULK_TX
      else if VCHIQ_MSG_TYPE msgid = VCHIQ_MSG_BULK_RX_DONE then
        VchiqRemovePendingMsg_bulk_done os file completion i VCHIQ_BULK_RECEIVE_DONE MSG_BULK_RX
      else return (False, True))"

text \<open>Copying a message to the caller's next buffer.\<close>

definition VchiqRemovePendingMsg_return ::
  "os \<Rightarrow> handle \<Rightarrow> handle \<Rightarrow> handle \<Rightarrow> nat \<Rightarrow> u32 \<Rightarrow> (world, unit) state" where
  "VchiqRemovePendingMsg_return os file WdfRequest completion hdr pendingMsgSize = do {
     w \<leftarrow> get;
     let i = unat (out_ulong w WdfRequest);
         buffer = cd_WdfMemoryBuffer (completion_at w completion i)
     in do {
       r \<leftarrow> ext os (Wdf (WdfMemoryGetBuffer buffer));
       RtlCopyToWdf buffer (r_ptr r) (load_bytes hdr (unat pendingMsgSize) (mem w));
       update_completion completion i
         (cd_ServiceUserData_update (\<lambda>_. ServiceUserData (files w file)));
       update (out_ulong_update (\<lambda>u. u(WdfRequest := u WdfRequest + 1)))
     }
   }"

text \<open>One turn of the loop, for an entry that has been taken off the list.\<close>

definition VchiqRemovePendingMsg_entry ::
  "os \<Rightarrow> handle \<Rightarrow> handle \<Rightarrow> handle \<Rightarrow> VCHIQ_PENDING_MSG \<Rightarrow> (world, unit) state" where
  "VchiqRemovePendingMsg_entry os file WdfRequest completion m = do {
     w \<leftarrow> get;
     (trackMsg, returnMsg) \<leftarrow> VchiqRemovePendingMsg_reason os file completion
       (unat (out_ulong w WdfRequest)) (header_MsgId w (Msg m));
     do_when returnMsg (VchiqRemovePendingMsg_return os file WdfRequest completion (Msg m)
       (header_Size w (Msg m) + sizeof_VCHIQ_HEADER));
     do_when (IsVchi (files w file) \<and> trackMsg) (do {
       _ \<leftarrow> ext os (Ke (ExAcquireMutex (PendingVchiMsgMutex file)));
       _ \<leftarrow> VchiqAddPendingVchiMsg os file (Msg m) (SlotNumber m);
       _ \<leftarrow> ext os (Ke (ExReleaseMutex (PendingVchiMsgMutex file)));
       return ()
     });
     _ \<leftarrow> ext os (Wdf (WdfObjectDelete (WdfMemory m)));
     _ \<leftarrow> VchiqReleaseMsg os (SlotNumber m);
     return ()
   }"

text \<open>An entry too large for the caller's buffers is put back, which ends the loop.\<close>

fun VchiqRemovePendingMsg_copy ::
  "os \<Rightarrow> handle \<Rightarrow> handle \<Rightarrow> handle \<Rightarrow> VCHIQ_PENDING_MSG list \<Rightarrow> (world, unit) state" where
  "VchiqRemovePendingMsg_copy os file WdfRequest completion [] = return ()"
| "VchiqRemovePendingMsg_copy os file WdfRequest completion (m # ms) = do {
     w \<leftarrow> get;
     if ac_MsgBufSize (in_await w WdfRequest) < header_Size w (Msg m) + sizeof_VCHIQ_HEADER
     then update_file file (PendingDataMsgList_update (\<lambda>l. m # tl l))
     else do {
       update_file file (PendingDataMsgList_update tl);
       VchiqRemovePendingMsg_entry os file WdfRequest completion m;
       w \<leftarrow> get;
       if out_ulong w WdfRequest < ac_MsgBufCount (in_await w WdfRequest)
       then VchiqRemovePendingMsg_copy os file WdfRequest completion ms
       else return ()
     }
   }"

text \<open>What is done with the request once the messages are copied.\<close>

definition VchiqRemovePendingMsg_finish :: "os \<Rightarrow> handle \<Rightarrow> handle \<Rightarrow> (world, ntstatus) state" where
  "VchiqRemovePendingMsg_finish os file WdfRequest = do {
     w \<leftarrow> get;
     if out_ulong w WdfRequest = 0 then do {
       r \<leftarrow> ext os (Req (WdfRequestRequeue WdfRequest));
       return (r_status r)
     } else do {
       _ \<leftarrow> ext os (Req (WdfRequestCompleteWithInformation WdfRequest STATUS_SUCCESS sizeof_ULONG));
       _ \<leftarrow> ext os (Ke (ExAcquireMutex (PendingVchiMsgMutex file)));
       status \<leftarrow> VchiqProcessPendingVchiMsg os file;
       _ \<leftarrow> ext os (Ke (ExReleaseMutex (PendingVchiMsgMutex file)));
       return status
     }
   }"

definition VchiqRemovePendingMsg :: "os \<Rightarrow> handle \<Rightarrow> handle \<Rightarrow> (world, ntstatus) state" where
  "VchiqRemovePendingMsg os file WdfRequest =
     (if WdfRequest = 0 then do {
        w \<leftarrow> get;
        VchiqRemovePendingMsg_flush os file (rev (PendingDataMsgList (files w file)));
        return STATUS_SUCCESS
      } else do {
        outb \<leftarrow> ext os (Req (WdfRequestRetrieveOutputBuffer WdfRequest sizeof_ULONG));
        if \<not> NT_SUCCESS (r_status outb) then do {
          _ \<leftarrow> ext os (Req (WdfRequestComplete WdfRequest (r_status outb)));
          return (r_status outb)
        } else do {
          inb \<leftarrow> ext os (Req (WdfRequestRetrieveInputBuffer WdfRequest sizeof_VCHIQ_AWAIT_COMPLETION));
          if \<not> NT_SUCCESS (r_status inb) then do {
            _ \<leftarrow> ext os (Req (WdfRequestComplete WdfRequest (r_status inb)));
            return (r_status inb)
          } else do {
            update (out_ulong_update (\<lambda>u. u(WdfRequest := 0)));
            w \<leftarrow> get;
            _ \<leftarrow> ext os (Wdf (WdfMemoryGetBuffer (ac_WdfMemoryCompletion (in_await w WdfRequest))));
            VchiqRemovePendingMsg_copy os file WdfRequest
              (ac_WdfMemoryCompletion (in_await w WdfRequest)) (PendingDataMsgList (files w file));
            VchiqRemovePendingMsg_finish os file WdfRequest
          }
        }
      })"

definition VchiqProcessPendingMsg :: "os \<Rightarrow> handle \<Rightarrow> (world, ntstatus) state" where
  "VchiqProcessPendingMsg os file = do {
     w \<leftarrow> get;
     if PendingDataMsgList (files w file) = [] then return STATUS_SUCCESS
     else do {
       r \<leftarrow> ext os (Req (WdfIoQueueRetrieveNextRequest (FileQueue (files w file) FILE_QUEUE_PENDING_MSG)));
       if r_status r = STATUS_NO_MORE_ENTRIES then return STATUS_SUCCESS
       else if \<not> NT_SUCCESS (r_status r) then return (r_status r)
       else VchiqRemovePendingMsg os file (r_ptr r)
     }
   }"

definition VchiqProcessNewRxMsg :: "os \<Rightarrow> handle \<Rightarrow> nat \<Rightarrow> (world, ntstatus) state" where
  "VchiqProcessNewRxMsg os file RxMsg = do {
     _ \<leftarrow> ext os (Ke (ExAcquireMutex (PendingDataMsgMutex file)));
     w \<leftarrow> get;
     status \<leftarrow> VchiqAddPendingMsg os file RxMsg (MasterCurrentSlotIndex w);
     status' \<leftarrow> (if NT_SUCCESS status then VchiqProcessPendingMsg os file else return status);
     _ \<leftarrow> ext os (Ke (ExReleaseMutex (PendingDataMsgMutex file)));
     return status'
   }"

end
