(* ===== verification/Vchiq_Transfer.thy ===== *)
theory Vchiq_Transfer
  imports Vchiq_Tx Vchiq_Pending
begin

text \<open>
  Memory and bulk transfers: the allocation wrappers of \<open>memory.c\<close>, the context a transfer
  hangs on its request (\<open>transfer.c\<close>), and in \<open>slots.c\<close> the page list of a transfer
  (\<open>VchiqBulkTransfer\<close>) and the bookkeeping around it (\<open>VchiqProcessBulkTransfer\<close>).
\<close>

section \<open>Allocation\<close>

text \<open>
  \<open>BufferPPtr\<close> is the variable written through the pointer, as its selector and its update
  function, or \<open>None\<close> for \<open>NULL\<close>. The block allocated is the one for the slots.
\<close>

definition VchiqAllocPhyContiguous ::
  "os \<Rightarrow> u32 \<Rightarrow> ((handle \<Rightarrow> handle) \<Rightarrow> world \<Rightarrow> world) option \<Rightarrow> (world, ntstatus) state" where
  "VchiqAllocPhyContiguous os BufferSize BufferPPtr = (case BufferPPtr of
      None \<Rightarrow> return STATUS_INVALID_PARAMETER
    | Some assign \<Rightarrow>
        if BufferSize = 0 then return STATUS_INVALID_PARAMETER
        else do {
          r \<leftarrow> ext os (Mm (MmAllocateContiguousNodeMemory BufferSize));
          update (assign (\<lambda>_. r_ptr r));
          if r_ptr r = 0 then return STATUS_INSUFFICIENT_RESOURCES
          else do {
            update (AllocPhyMemCount_update (\<lambda>n. n + 1));
            update (\<lambda>w. w\<lparr>mem := (\<lambda>_. 0), slot_zero := zero_slot_zero\<rparr>);
            return STATUS_SUCCESS
          }
        })"

definition VchiqFreePhyContiguous ::
  "os \<Rightarrow> (world \<Rightarrow> handle) \<Rightarrow> ((handle \<Rightarrow> handle) \<Rightarrow> world \<Rightarrow> world) \<Rightarrow> (world, ntstatus) state" where
  "VchiqFreePhyContiguous os buffer assign = do {
     w \<leftarrow> get;
     if buffer w = 0 then return STATUS_INVALID_PARAMETER
     else do {
       _ \<leftarrow> ext os (Mm (MmFreeContiguousMemory (buffer w)));
       update (AllocPhyMemCount_update (\<lambda>n. n - 1));
       update (assign (\<lambda>_. 0));
       return STATUS_SUCCESS
     }
   }"

text \<open>
  The callers pass the addresses of local variables; the results are the status, the buffer
  and its physical address.
\<close>

definition VchiqAllocateCommonBuffer ::
  "os \<Rightarrow> handle \<Rightarrow> u32 \<Rightarrow> (world, ntstatus \<times> handle \<times> u64) state" where
  "VchiqAllocateCommonBuffer os file BufferSize =
     (if BufferSize = 0 then return (STATUS_INVALID_PARAMETER, 0, 0)
      else do {
        w \<leftarrow> get;
        r \<leftarrow> ext os (Dma (DmaAllocateCommonBuffer (DmaAdapterPtr (files w file)) BufferSize));
        if r_ptr r = 0 then return (STATUS_INSUFFICIENT_RESOURCES, 0, r_phys r)
        else return (STATUS_SUCCESS, r_ptr r, r_phys r)
      })"

definition VchiqFreeCommonBuffer :: "os \<Rightarrow> handle \<Rightarrow> u32 \<Rightarrow> u64 \<Rightarrow> handle \<Rightarrow> (world, ntstatus) state" where
  "VchiqFreeCommonBuffer os file BufferSize PhyAddress BufferPtr =
     (if BufferPtr = 0 \<or> BufferSize = 0 then return STATUS_INVALID_PARAMETER
      else do {
        w \<leftarrow> get;
        _ \<leftarrow> ext os (Dma (DmaFreeCommonBuffer (DmaAdapterPtr (files w file)) BufferSize PhyAddress BufferPtr));
        return STATUS_SUCCESS
      })"

section \<open>The transfer context of a request\<close>

definition VchiqAllocateTransferRequestObjContext ::
  "os \<Rightarrow> handle \<Rightarrow> handle \<Rightarrow> handle \<Rightarrow> handle \<Rightarrow> u32 \<Rightarrow> u64 \<Rightarrow> handle \<Rightarrow> (world, ntstatus) state" where
  "VchiqAllocateTransferRequestObjContext os file WdfRequest mdl pagelist len phys sg = do {
     r \<leftarrow> ext os (Wdf (WdfObjectAllocateContext WdfRequest));
     if \<not> NT_SUCCESS (r_status r) then return (r_status r)
     else do {
       update (tx_context_update (\<lambda>t. t(WdfRequest := Some
         \<lparr>BufferMdlPtr = mdl, PageListPtr = pagelist, PageListSize = len, PageListPhyAddr = phys,
          ScatterGatherListPtr = sg, TxFileContextPtr = file\<rparr>)));
       return (r_status r)
     }
   }"

text \<open>The framework runs this when the request is deleted.\<close>

definition VchiqTransferRequestContextCleanup :: "os \<Rightarrow> handle \<Rightarrow> (world, unit) state" where
  "VchiqTransferRequestContextCleanup os WdfObject = do {
     w \<leftarrow> get;
     case tx_context w WdfObject of
       None \<Rightarrow> undefined_behaviour
     | Some ctx \<Rightarrow> do {
         update (tx_context_update (\<lambda>t. t(WdfObject := map_option (BufferMdlPtr_update (\<lambda>_. 0)) (t WdfObject))));
         do_when (PageListPtr ctx \<noteq> 0) (do {
           _ \<leftarrow> VchiqFreeCommonBuffer os (TxFileContextPtr ctx) (PageListSize ctx) (PageListPhyAddr ctx)
                  (PageListPtr ctx);
           update (tx_context_update (\<lambda>t. t(WdfObject := map_option (PageListPtr_update (\<lambda>_. 0)) (t WdfObject))))
         });
         do_when (ScatterGatherListPtr ctx \<noteq> 0) (do {
           _ \<leftarrow> ext os (Dma (DmaFreeAdapterObject (DmaAdapterPtr (files w (TxFileContextPtr ctx)))));
           _ \<leftarrow> ext os (Dma (DmaPutScatterGatherList (DmaAdapterPtr (files w (TxFileContextPtr ctx)))
                  (ScatterGatherListPtr ctx) False));
           update (tx_context_update (\<lambda>t. t(WdfObject := map_option (ScatterGatherListPtr_update (\<lambda>_. 0)) (t WdfObject))))
         })
       }
   }"

section \<open>The page list\<close>

definition BYTES_TO_PAGES :: "u32 \<Rightarrow> u32" where
  "BYTES_TO_PAGES n = drop_bit 12 n + (if n AND 0xfff \<noteq> 0 then 1 else 0)"

text \<open>One entry: the page of the element's address, and its number of pages less one.\<close>

definition page_entry :: "u64 \<times> u32 \<Rightarrow> u32" where
  "page_entry e = (ucast (fst e) AND NOT 0xfff) OR OFFSET_DIRECT_SDRAM OR (BYTES_TO_PAGES (snd e) - 1)"

abbreviation (input) sizeof_VCHIQ_PAGELIST :: u32 where "sizeof_VCHIQ_PAGELIST \<equiv> 12"
abbreviation (input) DMA_TRANSFER_CONTEXT_SIZE_V1 :: nat where "DMA_TRANSFER_CONTEXT_SIZE_V1 \<equiv> 128"

definition fill_pagelist :: "u32 \<Rightarrow> u32 \<Rightarrow> (u64 \<times> u32) list \<Rightarrow> VCHIQ_PAGELIST" where
  "fill_pagelist MsgDirection BufferSize sg =
     \<lparr>pl_Length = BufferSize, pl_Type = (if MsgDirection = VCHIQ_MSG_BULK_TX then 0 else 1),
      pl_Offset = ucast ((case sg of [] \<Rightarrow> 0 | e # _ \<Rightarrow> ucast (fst e)) AND (0xfff :: u32)),
      pl_Addrs = map page_entry sg\<rparr>"

text \<open>
  The scatter-gather list of the buffer, built in memory that goes with the request; the
  results are the status, the list's address and its elements.
\<close>

definition VchiqBulkTransfer_build ::
  "os \<Rightarrow> handle \<Rightarrow> handle \<Rightarrow> u32 \<Rightarrow> handle \<Rightarrow> u32 \<Rightarrow> (world, ntstatus \<times> handle \<times> (u64 \<times> u32) list) state" where
  "VchiqBulkTransfer_build os file WdfRequest MsgDirection BufferMdl BufferSize = do {
     w \<leftarrow> get;
     let adapter = DmaAdapterPtr (files w file)
     in do {
       calc \<leftarrow> ext os (Dma (DmaCalculateScatterGatherList adapter BufferMdl BufferSize));
       if \<not> NT_SUCCESS (r_status calc) then return (r_status calc, 0, [])
       else do {
         sgmem \<leftarrow> ext os (Wdf (WdfMemoryCreate WdfRequest (r_len calc)));
         if \<not> NT_SUCCESS (r_status sgmem) then return (r_status sgmem, 0, [])
         else do {
           ctxmem \<leftarrow> ext os (Wdf (WdfMemoryCreate WdfRequest DMA_TRANSFER_CONTEXT_SIZE_V1));
           if \<not> NT_SUCCESS (r_status ctxmem) then return (r_status ctxmem, 0, [])
           else do {
             ini \<leftarrow> ext os (Dma (DmaInitializeTransferContext (r_ptr ctxmem)));
             if \<not> NT_SUCCESS (r_status ini) then return (r_status ini, 0, [])
             else do {
               b \<leftarrow> ext os (Dma (DmaBuildScatterGatherListEx adapter BufferMdl BufferSize
                      (MsgDirection = VCHIQ_MSG_BULK_TX) (r_ptr sgmem) (of_nat (r_len calc))));
               if \<not> NT_SUCCESS (r_status b) then return (r_status b, 0, [])
               else return (r_status b, r_ptr sgmem, r_sg b)
             }
           }
         }
       }
     }
   }"

text \<open>The page list is allocated and filled in; the element read for the offset must exist.\<close>

definition VchiqBulkTransfer_pagelist ::
  "os \<Rightarrow> handle \<Rightarrow> u32 \<Rightarrow> u32 \<Rightarrow> (u64 \<times> u32) list \<Rightarrow> (world, ntstatus \<times> handle \<times> u32 \<times> u64) state" where
  "VchiqBulkTransfer_pagelist os file MsgDirection BufferSize sg =
     (let pageListSize = of_nat (length sg) * 4 + sizeof_VCHIQ_PAGELIST
      in do {
        (status, ptr, phys) \<leftarrow> VchiqAllocateCommonBuffer os file pageListSize;
        if \<not> NT_SUCCESS status then return (STATUS_INSUFFICIENT_RESOURCES, 0, pageListSize, phys)
        else do {
          do_when (sg = []) undefined_behaviour;
          update (pagelists_update (\<lambda>p. p(ptr := fill_pagelist MsgDirection BufferSize sg)));
          return (STATUS_SUCCESS, ptr, pageListSize, phys)
        }
      })"

text \<open>
  Up to the transfer context the page list belongs to this function, which frees it when it
  fails; afterwards it belongs to the context.
\<close>

definition VchiqBulkTransfer ::
  "os \<Rightarrow> handle \<Rightarrow> handle \<Rightarrow> u32 \<Rightarrow> handle \<Rightarrow> u32 \<Rightarrow> u32 \<Rightarrow> u32 \<Rightarrow> (world, ntstatus) state" where
  "VchiqBulkTransfer os file WdfRequest MsgDirection BufferMdl BufferSize arm vchiq = do {
     (status, sgptr, sg) \<leftarrow> VchiqBulkTransfer_build os file WdfRequest MsgDirection BufferMdl BufferSize;
     if \<not> NT_SUCCESS status then return status
     else do {
       (status, ptr, len, phys) \<leftarrow> VchiqBulkTransfer_pagelist os file MsgDirection BufferSize sg;
       if \<not> NT_SUCCESS status then return status
       else do {
         status \<leftarrow> VchiqAllocateTransferRequestObjContext os file WdfRequest BufferMdl ptr len phys sgptr;
         if \<not> NT_SUCCESS status then do {
           do_when (ptr \<noteq> 0) (do { _ \<leftarrow> VchiqFreeCommonBuffer os file len phys ptr; return () });
           return status
         } else
           VchiqQueueMessageAsync os file (VCHIQ_MAKE_MSG MsgDirection arm vchiq)
             (Some (le32 (ucast phys OR OFFSET_DIRECT_SDRAM) @ le32 BufferSize)) 8
       }
     }
   }"

section \<open>Bulk requests\<close>

text \<open>
  What is undone when the transfer could not be started: the pending entry at the tail and
  the place of the request in its queue. A request the framework has cancelled meanwhile is
  reported as a success, since it must not be completed again.
\<close>

definition VchiqProcessBulkTransfer_undo ::
  "os \<Rightarrow> handle \<Rightarrow> handle \<Rightarrow> bulk_type \<Rightarrow> nat \<Rightarrow> ntstatus \<Rightarrow> (world, ntstatus) state" where
  "VchiqProcessBulkTransfer_undo os file WdfRequest bulkType queue status = do {
     _ \<leftarrow> VchiqRemovePendingBulkMsg os file None bulkType False;
     w \<leftarrow> get;
     r \<leftarrow> ext os (Req (WdfIoQueueRetrieveFoundRequest (FileQueue (files w file) queue) WdfRequest));
     return (if r_status r = STATUS_NOT_FOUND then STATUS_SUCCESS else status)
   }"

definition VchiqProcessBulkTransfer ::
  "os \<Rightarrow> handle \<Rightarrow> handle \<Rightarrow> VCHIQ_QUEUE_BULK_TRANSFER \<Rightarrow> u32 \<Rightarrow> handle \<Rightarrow> u32 \<Rightarrow> (world, ntstatus) state" where
  "VchiqProcessBulkTransfer os file WdfRequest BulkTransfer MsgDirection BufferMdl BufferSize =
     (let bulkType = (if MsgDirection = VCHIQ_MSG_BULK_TX then MSG_BULK_TX else MSG_BULK_RX);
          queue = (if MsgDirection = VCHIQ_MSG_BULK_TX then FILE_QUEUE_TX_DATA else FILE_QUEUE_RX_DATA)
      in do {
        _ \<leftarrow> ext os (Ke (ExAcquireMutex (PendingBulkMsgMutex file bulkType)));
        status \<leftarrow> VchiqAddPendingBulkMsg os file BulkTransfer bulkType;
        status' \<leftarrow> (if \<not> NT_SUCCESS status then return status
          else do {
            w \<leftarrow> get;
            fwd \<leftarrow> ext os (Req (WdfRequestForwardToIoQueue WdfRequest (FileQueue (files w file) queue)));
            if \<not> NT_SUCCESS (r_status fwd) then do {
              _ \<leftarrow> VchiqRemovePendingBulkMsg os file None bulkType False;
              return (r_status fwd)
            } else do {
              w \<leftarrow> get;
              status \<leftarrow> VchiqBulkTransfer os file WdfRequest MsgDirection BufferMdl BufferSize
                (ArmPortNumber (files w file)) (VCHIQPortNumber (files w file));
              if \<not> NT_SUCCESS status
              then VchiqProcessBulkTransfer_undo os file WdfRequest bulkType queue status
              else return status
            }
          });
        _ \<leftarrow> ext os (Ke (ExReleaseMutex (PendingBulkMsgMutex file bulkType)));
        return status'
      })"

end
