(* ===== verification/Vchiq_Recycle.thy ===== *)
theory Vchiq_Recycle
  imports Vchiq_Pending
begin

text \<open>
  The accounting of receive slots. Each waiting message holds a reference to the slot its
  header lies in; a slot is given back to the firmware when it holds no reference and is not
  the slot being read. \<open>account\<close> states this for a set \<open>F\<close> of file contexts, with the
  references \<open>h\<close> that the running operation holds or still owes: the count of every slot is
  the number of its references, and the slots given back together with the slots still busy
  add up to \<open>T\<close>, the number of slots taken. An operation that keeps \<open>account\<close> can neither
  lose a slot, nor give one back twice, nor give one back while a message waits in it.
\<close>

section \<open>The account\<close>

definition entries_of :: "u32 \<Rightarrow> VCHIQ_PENDING_MSG list \<Rightarrow> nat" where
  "entries_of n ms = length (filter (\<lambda>m. SlotNumber m = n) ms)"

lemma entries_of_simps [simp]:
  "entries_of n [] = 0"
  "entries_of n (m # ms) = (if SlotNumber m = n then 1 else 0) + entries_of n ms"
  "entries_of n (ms @ ms') = entries_of n ms + entries_of n ms'"
  by (simp_all add: entries_of_def)

type_synonym queues = "handle \<Rightarrow> VCHIQ_PENDING_MSG list"

definition references :: "handle set \<Rightarrow> queues \<Rightarrow> queues \<Rightarrow> u32 \<Rightarrow> nat" where
  "references F D V n = (\<Sum>f\<in>F. entries_of n (D f) + entries_of n (V f))"

definition busy :: "SLOT_INFO \<Rightarrow> bool" where
  "busy i \<longleftrightarrow> RefCount i \<noteq> 0 \<or> SlotInUse i"

definition busy_slots :: "(nat \<Rightarrow> SLOT_INFO) \<Rightarrow> nat set" where
  "busy_slots info = {n. n < VCHIQ_MAX_SLOTS \<and> busy (info n)}"

definition account ::
  "handle set \<Rightarrow> u32 \<Rightarrow> (u32 \<Rightarrow> int) \<Rightarrow> (u32 \<Rightarrow> int) \<Rightarrow> (nat \<Rightarrow> SLOT_INFO) \<Rightarrow> u32 \<Rightarrow> queues \<Rightarrow> queues \<Rightarrow> bool" where
  "account F T L h info given D V \<longleftrightarrow> finite F \<and>
     (\<forall>n. unat n < VCHIQ_MAX_SLOTS \<longrightarrow>
        0 \<le> int (references F D V n) + h n \<and> int (references F D V n) + h n \<le> L n \<and>
        RefCount (info (unat n)) = of_int (int (references F D V n) + h n)) \<and>
     (\<forall>f\<in>F. \<forall>m\<in>set (D f) \<union> set (V f). unat (SlotNumber m) < VCHIQ_MAX_SLOTS) \<and>
     given + of_nat (card (busy_slots info)) = T"

lemma references_upd:
  assumes "finite F" "f \<in> F"
  shows "references F (D(f := ms)) V n + entries_of n (D f) = references F D V n + entries_of n ms"
    and "references F D (V(f := ms)) n + entries_of n (V f) = references F D V n + entries_of n ms"
proof -
  have "references F D' V' n = entries_of n (D' f) + entries_of n (V' f)
      + (\<Sum>g\<in>F - {f}. entries_of n (D' g) + entries_of n (V' g))" for D' V'
    unfolding references_def by (rule sum.remove [OF assms])
  moreover have "(\<Sum>g\<in>F - {f}. entries_of n ((D(f := ms)) g) + entries_of n (V g))
      = (\<Sum>g\<in>F - {f}. entries_of n (D g) + entries_of n (V g))"
    "(\<Sum>g\<in>F - {f}. entries_of n (D g) + entries_of n ((V(f := ms)) g))
      = (\<Sum>g\<in>F - {f}. entries_of n (D g) + entries_of n (V g))"
    by (auto intro: sum.cong)
  ultimately show "references F (D(f := ms)) V n + entries_of n (D f) = references F D V n + entries_of n ms"
    and "references F D (V(f := ms)) n + entries_of n (V f) = references F D V n + entries_of n ms"
    by simp_all
qed

text \<open>An entry that leaves a list leaves its reference with the operation, and conversely.\<close>

lemma account_data:
  assumes a: "account F T L h info r D V" and f: "f \<in> F"
    and ms: "\<forall>m\<in>set ms. unat (SlotNumber m) < VCHIQ_MAX_SLOTS"
    and h: "\<And>n. h' n = h n + int (entries_of n (D f)) - int (entries_of n ms)"
  shows "account F T L h' info r (D(f := ms)) V"
proof -
  have "finite F" using a by (simp add: account_def)
  note upd = references_upd(1) [OF this f, of D ms V]
  have "int (references F (D(f := ms)) V n) + h' n = int (references F D V n) + h n" for n
    using upd [of n] h [of n] by simp
  then show ?thesis using a ms unfolding account_def by (auto split: if_splits)
qed

lemma account_vchi:
  assumes a: "account F T L h info r D V" and f: "f \<in> F"
    and ms: "\<forall>m\<in>set ms. unat (SlotNumber m) < VCHIQ_MAX_SLOTS"
    and h: "\<And>n. h' n = h n + int (entries_of n (V f)) - int (entries_of n ms)"
  shows "account F T L h' info r D (V(f := ms))"
proof -
  have "finite F" using a by (simp add: account_def)
  note upd = references_upd(2) [OF this f, of D V ms]
  have "int (references F D (V(f := ms)) n) + h' n = int (references F D V n) + h n" for n
    using upd [of n] h [of n] by simp
  then show ?thesis using a ms unfolding account_def by (auto split: if_splits)
qed

lemma busy_slots_upd:
  assumes "n < VCHIQ_MAX_SLOTS"
  shows "busy_slots (info(n := i)) = (if busy i then insert n (busy_slots info) else busy_slots info - {n})"
  using assms by (auto simp: busy_slots_def)

lemma finite_busy_slots [simp]: "finite (busy_slots info)"
  by (simp add: busy_slots_def)

text \<open>The count of a slot changes while the slot stays busy.\<close>

lemma account_count:
  assumes a: "account F T L h info r D V"
    and n: "unat n < VCHIQ_MAX_SLOTS" and b: "busy (info (unat n))" "busy i"
    and i: "RefCount i = RefCount (info (unat n)) + of_int d"
    and k: "0 \<le> int (references F D V n) + h n + d"
  shows "account F T (L(n := L n + d)) (h(n := h n + d)) (info(unat n := i)) r D V"
proof -
  have "busy_slots (info(unat n := i)) = busy_slots info"
    using n b by (auto simp: busy_slots_upd busy_slots_def)
  moreover have "RefCount ((info(unat n := i)) (unat x)) = of_int (int (references F D V x) + (h(n := h n + d)) x)"
    if "unat x < VCHIQ_MAX_SLOTS" for x
    using that a i by (auto simp: account_def unsigned_word_eqI algebra_simps)
  ultimately show ?thesis
    using a k unfolding account_def by auto
qed

text \<open>The last reference goes: the slot stops being busy as it is given back.\<close>

lemma account_given:
  assumes a: "account F T L h info r D V"
    and n: "unat n < VCHIQ_MAX_SLOTS" and b: "busy (info (unat n))" "\<not> busy i"
    and i: "RefCount i = RefCount (info (unat n)) + of_int d"
    and k: "0 \<le> int (references F D V n) + h n + d"
  shows "account F T (L(n := L n + d)) (h(n := h n + d)) (info(unat n := i)) (r + 1) D V"
proof -
  have "unat n \<in> busy_slots info" using n b by (simp add: busy_slots_def)
  then have "card (busy_slots info) = Suc (card (busy_slots info - {unat n}))"
    by (metis card.remove finite_busy_slots)
  then have "r + 1 + of_nat (card (busy_slots (info(unat n := i)))) = r + of_nat (card (busy_slots info))"
    using n b by (simp add: busy_slots_upd)
  moreover have "RefCount ((info(unat n := i)) (unat x)) = of_int (int (references F D V x) + (h(n := h n + d)) x)"
    if "unat x < VCHIQ_MAX_SLOTS" for x
    using that a i by (auto simp: account_def unsigned_word_eqI algebra_simps)
  ultimately show ?thesis
    using a k unfolding account_def by auto
qed

text \<open>A held reference keeps its slot busy.\<close>

lemma of_int_u32_nonzero:
  assumes "0 < k" "k < 4294967296"
  shows "(of_int k :: u32) \<noteq> 0"
proof
  assume "(of_int k :: u32) = 0"
  then have "uint (of_int k :: u32) = 0" by simp
  then show False using assms by (simp add: uint_word_of_int_eq take_bit_int_eq_self)
qed

lemma account_busy:
  assumes a: "account F T L h info r D V" and n: "unat n < VCHIQ_MAX_SLOTS"
    and k: "0 < int (references F D V n) + h n" and L: "L n < 2 ^ 32"
  shows "busy (info (unat n))"
proof -
  define k where "k = int (references F D V n) + h n"
  have "RefCount (info (unat n)) = of_int k" and "k \<le> L n" and "0 < k"
    using assms by (auto simp: account_def k_def)
  moreover have "(of_int k :: u32) \<noteq> 0"
    using calculation L by (intro of_int_u32_nonzero) simp_all
  ultimately show ?thesis by (simp add: busy_def)
qed

section \<open>The operations on slots\<close>

definition slot_account :: "handle set \<Rightarrow> u32 \<Rightarrow> (u32 \<Rightarrow> int) \<Rightarrow> (u32 \<Rightarrow> int) \<Rightarrow> world \<Rightarrow> bool" where
  "slot_account F T L h w = account F T L h (RxSlotInfo w) (SlotQueueRecycle (Master (slot_zero w)))
     (\<lambda>f. PendingDataMsgList (files w f)) (\<lambda>f. PendingVchiMsgList (files w f))"

lemma files_upd_sel: "(\<lambda>g. P (if g = f then c else fs g)) = (\<lambda>g. P (fs g))(f := P c)"
  by auto

lemma files_upd_triv: "x = P (fs f) \<Longrightarrow> (\<lambda>g. P (fs g))(f := x) = (\<lambda>g. P (fs g))"
  by auto

text \<open>Whatever does not touch the slots and the lists leaves the account alone.\<close>

lemma slot_account_frame [simp]:
  "slot_account F T L h (w\<lparr>trace := tr\<rparr>) = slot_account F T L h w"
  "slot_account F T L h (w\<lparr>ub := u\<rparr>) = slot_account F T L h w"
  "slot_account F T L h (w\<lparr>wdf_bytes := b\<rparr>) = slot_account F T L h w"
  "slot_account F T L h (w\<lparr>completion_data := c\<rparr>) = slot_account F T L h w"
  "slot_account F T L h (w\<lparr>out_ulong := o'\<rparr>) = slot_account F T L h w"
  by (simp_all add: slot_account_def)

lemma run_update_slot [simp, run]:
  "run_state (update_slot n g) w = ((),
     if unat n < VCHIQ_MAX_SLOTS
     then w\<lparr>RxSlotInfo := (RxSlotInfo w)(unat n := g (RxSlotInfo w (unat n)))\<rparr>
     else w\<lparr>ub := True\<rparr>)"
  by (simp add: update_slot_def)

lemma recycle_slot_effect:
  assumes run: "run_state (VchiqRecycleSlot os n False) w = (u, w')"
  shows "RxSlotInfo w' = RxSlotInfo w" "files w' = files w"
    "SlotQueueRecycle (Master (slot_zero w')) = SlotQueueRecycle (Master (slot_zero w)) +
       (if busy (RxSlotInfo w (unat n)) then 0 else 1)"
    "SlotQueue (Master (slot_zero w')) =
       (if busy (RxSlotInfo w (unat n)) then SlotQueue (Master (slot_zero w))
        else (SlotQueue (Master (slot_zero w)))
               (unat (SlotQueueRecycle (Master (slot_zero w))) mod 64 := n))"
  using run
  by (auto simp: VchiqRecycleSlot_def VchiqSignalVC_def busy_def Let_def split: if_splits)

lemma release_effect:
  assumes n: "unat n < VCHIQ_MAX_SLOTS" and run: "run_state (VchiqReleaseMsg os n) w = (st, w')"
  defines "i \<equiv> RefCount_update (\<lambda>c. c - 1) (RxSlotInfo w (unat n))"
  shows "RxSlotInfo w' = (RxSlotInfo w)(unat n := i)" "files w' = files w"
    "SlotQueueRecycle (Master (slot_zero w')) =
       SlotQueueRecycle (Master (slot_zero w)) + (if busy i then 0 else 1)"
proof -
  define w1 where "w1 = w\<lparr>RxSlotInfo := (RxSlotInfo w)(unat n := i)\<rparr>"
  have "run_state (VchiqRecycleSlot os n False) w1 = ((), w')"
    using run n by (auto simp: VchiqReleaseMsg_def w1_def i_def split: prod.splits)
  note recycle_slot_effect [OF this]
  then show "RxSlotInfo w' = (RxSlotInfo w)(unat n := i)" "files w' = files w"
    "SlotQueueRecycle (Master (slot_zero w')) =
       SlotQueueRecycle (Master (slot_zero w)) + (if busy i then 0 else 1)"
    by (simp_all add: w1_def)
qed

lemma release_account:
  assumes L: "L n < 2 ^ 32"
  shows "triple (\<lambda>w. slot_account F T L h w \<and> unat n < VCHIQ_MAX_SLOTS \<and> 0 < h n)
    (VchiqReleaseMsg os n) (\<lambda>_. slot_account F T (L(n := L n - 1)) (h(n := h n - 1)))"
proof (rule tripleI)
  fix w st w'
  assume pre: "slot_account F T L h w \<and> unat n < VCHIQ_MAX_SLOTS \<and> 0 < h n"
    and run: "run_state (VchiqReleaseMsg os n) w = (st, w')"
  let ?i = "RefCount_update (\<lambda>c. c - 1) (RxSlotInfo w (unat n))"
  let ?D = "\<lambda>f. PendingDataMsgList (files w f)" and ?V = "\<lambda>f. PendingVchiMsgList (files w f)"
  from pre have a: "account F T L h (RxSlotInfo w) (SlotQueueRecycle (Master (slot_zero w))) ?D ?V"
    and n: "unat n < VCHIQ_MAX_SLOTS" and h: "0 < h n" by (auto simp: slot_account_def)
  note eff = release_effect [OF n run]
  have b: "busy (RxSlotInfo w (unat n))"
    using account_busy [OF a n _ L] h by simp
  have k: "0 \<le> int (references F ?D ?V n) + h n + - 1"
    using a n h by (auto simp: account_def)
  have rc: "RefCount ?i = RefCount (RxSlotInfo w (unat n)) + of_int (- 1)" by simp
  show "slot_account F T (L(n := L n - 1)) (h(n := h n - 1)) w'"
  proof (cases "busy ?i")
    case True
    show ?thesis
      using account_count [OF a n b True rc k] by (simp add: slot_account_def eff True)
  next
    case False
    show ?thesis
      using account_given [OF a n b False rc k] by (simp add: slot_account_def eff False)
  qed
qed

lemma addref_account:
  assumes a: "slot_account F T L h w" and n: "unat n < VCHIQ_MAX_SLOTS"
    and b: "busy (RxSlotInfo w (unat n))" and L: "L n + 1 < 2 ^ 32"
    and run: "run_state (VchiqAddRefMsg n) w = (st, w')"
  shows "slot_account F T (L(n := L n + 1)) (h(n := h n + 1)) w'"
proof -
  let ?i = "RefCount_update (\<lambda>c. c + 1) (RxSlotInfo w (unat n))"
  let ?D = "\<lambda>f. PendingDataMsgList (files w f)" and ?V = "\<lambda>f. PendingVchiMsgList (files w f)"
  from a have a': "account F T L h (RxSlotInfo w) (SlotQueueRecycle (Master (slot_zero w))) ?D ?V"
    by (simp add: slot_account_def)
  have k: "0 \<le> int (references F ?D ?V n) + h n" "int (references F ?D ?V n) + h n \<le> L n"
    "RefCount (RxSlotInfo w (unat n)) = of_int (int (references F ?D ?V n) + h n)"
    using a' n by (auto simp: account_def)
  have "RefCount ?i = of_int (int (references F ?D ?V n) + h n + 1)" using k(3) by simp
  moreover have "(of_int (int (references F ?D ?V n) + h n + 1) :: u32) \<noteq> 0"
    using k L by (intro of_int_u32_nonzero) simp_all
  ultimately have b': "busy ?i" by (simp add: busy_def)
  have "account F T (L(n := L n + 1)) (h(n := h n + 1)) ((RxSlotInfo w)(unat n := ?i))
      (SlotQueueRecycle (Master (slot_zero w))) ?D ?V"
    using k by (intro account_count [OF a' n b b']) simp_all
  then show ?thesis
    using run n by (auto simp: VchiqAddRefMsg_def slot_account_def)
qed

text \<open>Bounds may be relaxed.\<close>

lemma slot_account_mono: "slot_account F T L h w \<Longrightarrow> (\<And>n. L n \<le> L' n) \<Longrightarrow> slot_account F T L' h w"
  unfolding slot_account_def account_def by (meson order_trans)

section \<open>Entries that enter and leave the lists\<close>

lemma slot_account_files:
  "slot_account F T L h (w\<lparr>files := (files w)(f := c)\<rparr>) \<longleftrightarrow>
   account F T L h (RxSlotInfo w) (SlotQueueRecycle (Master (slot_zero w)))
     ((\<lambda>g. PendingDataMsgList (files w g))(f := PendingDataMsgList c))
     ((\<lambda>g. PendingVchiMsgList (files w g))(f := PendingVchiMsgList c))"
  by (simp add: slot_account_def fun_upd_def if_distrib)

lemma entries_bound:
  assumes "slot_account F T L h w" "f \<in> F"
  shows "\<forall>m\<in>set (PendingDataMsgList (files w f)) \<union> set (PendingVchiMsgList (files w f)).
           unat (SlotNumber m) < VCHIQ_MAX_SLOTS"
  using assms by (auto simp: slot_account_def account_def)

lemma data_list_account:
  assumes a: "slot_account F T L h w" and f: "f \<in> F"
    and c: "PendingVchiMsgList c = PendingVchiMsgList (files w f)"
    and ms: "\<forall>m\<in>set (PendingDataMsgList c). unat (SlotNumber m) < VCHIQ_MAX_SLOTS"
    and h: "\<And>n. h' n = h n + int (entries_of n (PendingDataMsgList (files w f)))
                    - int (entries_of n (PendingDataMsgList c))"
  shows "slot_account F T L h' (w\<lparr>files := (files w)(f := c)\<rparr>)"
  using account_data [OF a [unfolded slot_account_def] f ms, of h'] h c
  by (simp add: slot_account_files files_upd_triv [where P = PendingVchiMsgList]
      files_upd_triv [where P = PendingDataMsgList])

lemma vchi_list_account:
  assumes a: "slot_account F T L h w" and f: "f \<in> F"
    and c: "PendingDataMsgList c = PendingDataMsgList (files w f)"
    and ms: "\<forall>m\<in>set (PendingVchiMsgList c). unat (SlotNumber m) < VCHIQ_MAX_SLOTS"
    and h: "\<And>n. h' n = h n + int (entries_of n (PendingVchiMsgList (files w f)))
                    - int (entries_of n (PendingVchiMsgList c))"
  shows "slot_account F T L h' (w\<lparr>files := (files w)(f := c)\<rparr>)"
  using account_vchi [OF a [unfolded slot_account_def] f ms, of h'] h c
  by (simp add: slot_account_files files_upd_triv [where P = PendingVchiMsgList]
      files_upd_triv [where P = PendingDataMsgList])

section \<open>Steps that keep the account\<close>

lemma slot_account_same:
  "PendingDataMsgList c = PendingDataMsgList (files w f) \<Longrightarrow>
   PendingVchiMsgList c = PendingVchiMsgList (files w f) \<Longrightarrow>
   slot_account F T L h (w\<lparr>files := (files w)(f := c)\<rparr>) = slot_account F T L h w"
  by (simp only: slot_account_files files_upd_triv) (simp only: slot_account_def)

lemma account_ext [keep]: "keeps (slot_account F T L h) (ext os c)"
  by (rule keeps_ext) simp

lemma account_completion [keep]: "keeps (slot_account F T L h) (update_completion x i g)"
  by (simp add: keeps_def)

lemma account_copy [keep]: "keeps (slot_account F T L h) (RtlCopyToWdf x ptr bs)"
  by (simp add: keeps_def)

lemma account_out [keep]: "keeps (slot_account F T L h) (update (out_ulong_update u))"
proof (rule keeps_update)
  fix w assume "slot_account F T L h w"
  then show "slot_account F T L h (out_ulong_update u w)" by (simp add: slot_account_def)
qed

lemma account_bulk [keep]:
  "keeps (slot_account F T L h) (update_file f (PendingBulkMsgList_update g))"
  by (simp add: keeps_def slot_account_same)

text \<open>\<open>hold n h\<close>: the operation holds one more reference to slot \<open>n\<close>.\<close>

definition hold :: "u32 \<Rightarrow> (u32 \<Rightarrow> int) \<Rightarrow> u32 \<Rightarrow> int" where
  "hold n h = h(n := h n + 1)"

lemma release_account':
  assumes "L n < 2 ^ 32" "unat n < VCHIQ_MAX_SLOTS" "0 \<le> h n"
  shows "triple (slot_account F T L (hold n h)) (VchiqReleaseMsg os n) (\<lambda>_. slot_account F T L h)"
  by (rule triple_pre, rule triple_post, rule release_account [of L n F T "hold n h"])
    (use assms in \<open>auto simp: hold_def elim: slot_account_mono\<close>)

lemma update_file_then:
  "(\<And>w. P w \<Longrightarrow> P' (w\<lparr>files := (files w)(f := g (files w f))\<rparr>)) \<Longrightarrow> triple P' (k ()) Q \<Longrightarrow>
   triple P (update_file f g \<bind> k) Q"
  by (auto simp: triple_def)

text \<open>What only looks at the file contexts is kept by the operations that do not write them.\<close>

lemma files_ext [keep]: "keeps (\<lambda>w. R (files w)) (ext os c)"
  by (simp add: keeps_def)

lemma files_release [keep]: "keeps (\<lambda>w. R (files w)) (VchiqReleaseMsg os n)"
  by (auto simp: keeps_def VchiqReleaseMsg_def VchiqRecycleSlot_def VchiqSignalVC_def Let_def)

lemma release_held:
  assumes "L n < 2 ^ 32" "0 \<le> h n"
  shows "triple (\<lambda>w. slot_account F T L (hold n h) w \<and> unat n < VCHIQ_MAX_SLOTS \<and> R (files w))
    (VchiqReleaseMsg os n) (\<lambda>_ w. slot_account F T L h w \<and> R (files w))"
proof (rule tripleI)
  fix w a w'
  assume pre: "slot_account F T L (hold n h) w \<and> unat n < VCHIQ_MAX_SLOTS \<and> R (files w)"
    and run: "run_state (VchiqReleaseMsg os n) w = (a, w')"
  have "triple (slot_account F T L (hold n h)) (VchiqReleaseMsg os n) (\<lambda>_. slot_account F T L h)"
    using pre assms by (intro release_account') auto
  then have "slot_account F T L h w'" using pre run by (blast dest: tripleD)
  moreover have "R (files w')"
    using keeps_run [OF files_release run, of R] pre by blast
  ultimately show "slot_account F T L h w' \<and> R (files w')" ..
qed

section \<open>Lists of waiting messages\<close>

text \<open>
  What the handlers rely on, for the list of data messages and the list of VCHI messages of
  a file alike: entries move between the list and the operation together with their
  references, an entry is added with a new reference, and a flush releases every entry.
\<close>

locale waiting_list =
  fixes entries :: "VCHIQ_FILE_CONTEXT \<Rightarrow> VCHIQ_PENDING_MSG list"
    and entries_upd :: "(VCHIQ_PENDING_MSG list \<Rightarrow> VCHIQ_PENDING_MSG list) \<Rightarrow> VCHIQ_FILE_CONTEXT \<Rightarrow> VCHIQ_FILE_CONTEXT"
    and add :: "os \<Rightarrow> handle \<Rightarrow> nat \<Rightarrow> u32 \<Rightarrow> (world, ntstatus) state"
    and flush :: "os \<Rightarrow> handle \<Rightarrow> VCHIQ_PENDING_MSG list \<Rightarrow> (world, unit) state"
  assumes entries_upd [simp]: "entries (entries_upd g c) = g (entries c)"
    and account_upd: "slot_account F T L h w \<Longrightarrow> f \<in> F \<Longrightarrow>
      \<forall>m\<in>set (g (entries (files w f))). unat (SlotNumber m) < VCHIQ_MAX_SLOTS \<Longrightarrow>
      (\<And>n. h' n = h n + int (entries_of n (entries (files w f))) - int (entries_of n (g (entries (files w f))))) \<Longrightarrow>
      slot_account F T L h' (w\<lparr>files := (files w)(f := entries_upd g (files w f))\<rparr>)"
    and in_range: "slot_account F T L h w \<Longrightarrow> f \<in> F \<Longrightarrow>
      \<forall>m\<in>set (entries (files w f)). unat (SlotNumber m) < VCHIQ_MAX_SLOTS"
    and add_effect: "run_state (add os f hdr n) w = (st, w') \<Longrightarrow>
      (\<exists>tr e st'. NT_SUCCESS st \<and> run_state (VchiqAddRefMsg n) (w\<lparr>trace := tr, files := (files w)(f :=
         entries_upd (\<lambda>l. l @ [\<lparr>Msg = hdr, SlotNumber = n, WdfMemory = e\<rparr>]) (files w f))\<rparr>) = (st', w')) \<or>
      (\<exists>tr. w' = w\<lparr>trace := tr\<rparr>)"
    and flush_Nil: "flush os f [] = return ()"
    and flush_Cons: "flush os f (m # ms) = do {
      update_file f (entries_upd butlast);
      _ \<leftarrow> VchiqReleaseMsg os (SlotNumber m);
      _ \<leftarrow> ext os (Wdf (WdfObjectDelete (WdfMemory m)));
      flush os f ms }"
begin

lemma take_first:
  assumes "slot_account F T L h w" "f \<in> F" "entries (files w f) = m # ms"
  shows "slot_account F T L (hold (SlotNumber m) h)
           (w\<lparr>files := (files w)(f := entries_upd tl (files w f))\<rparr>)"
    and "unat (SlotNumber m) < VCHIQ_MAX_SLOTS"
proof -
  show "slot_account F T L (hold (SlotNumber m) h)
      (w\<lparr>files := (files w)(f := entries_upd tl (files w f))\<rparr>)"
    by (rule account_upd [OF assms(1,2)]) (use assms in_range [OF assms(1,2)] in \<open>auto simp: hold_def\<close>)
  show "unat (SlotNumber m) < VCHIQ_MAX_SLOTS"
    using in_range [OF assms(1,2)] assms(3) by simp
qed

lemma add_account:
  assumes n: "unat n < VCHIQ_MAX_SLOTS" and f: "f \<in> F" and L: "L n + 1 < 2 ^ 32"
  shows "triple (\<lambda>w. slot_account F T L h w \<and> busy (RxSlotInfo w (unat n)))
    (add os f hdr n) (\<lambda>_. slot_account F T (L(n := L n + 1)) h)"
proof (rule tripleI)
  fix w st w'
  assume pre: "slot_account F T L h w \<and> busy (RxSlotInfo w (unat n))"
    and run: "run_state (add os f hdr n) w = (st, w')"
  from add_effect [OF run] show "slot_account F T (L(n := L n + 1)) h w'"
  proof (elim disjE exE conjE)
    fix tr e st'
    let ?w = "w\<lparr>trace := tr\<rparr>" and ?g = "\<lambda>l. l @ [\<lparr>Msg = hdr, SlotNumber = n, WdfMemory = e\<rparr>]"
    assume added: "run_state (VchiqAddRefMsg n) (w\<lparr>trace := tr, files := (files w)(f :=
      entries_upd ?g (files w f))\<rparr>) = (st', w')"
    have pre': "slot_account F T L h ?w" using pre by simp
    have "slot_account F T L (h(n := h n - 1)) (?w\<lparr>files := (files ?w)(f := entries_upd ?g (files ?w f))\<rparr>)"
      by (rule account_upd [OF pre' f]) (use n in_range [OF pre' f] in auto)
    then show ?thesis
      using addref_account [where L = L and n = n and h = "h(n := h n - 1)", OF _ n _ L added] pre
      by simp
  next
    fix tr assume "w' = w\<lparr>trace := tr\<rparr>"
    then show ?thesis using pre by (auto elim: slot_account_mono)
  qed
qed

lemma flush_account:
  assumes L: "\<And>n. L n < 2 ^ 32" and h: "\<And>n. 0 \<le> h n" and f: "f \<in> F"
  shows "triple (\<lambda>w. slot_account F T L h w \<and> entries (files w f) = rev ms) (flush os f ms)
    (\<lambda>_ w. slot_account F T L h w \<and> entries (files w f) = [])"
proof (induction ms)
  case Nil
  show ?case by (simp add: triple_def flush_Nil)
next
  case (Cons m ms)
  have take: "slot_account F T L (hold (SlotNumber m) h) w' \<and> unat (SlotNumber m) < VCHIQ_MAX_SLOTS \<and>
      entries (files w' f) = rev ms"
    if w: "slot_account F T L h w \<and> entries (files w f) = rev (m # ms)"
      and w': "w' = w\<lparr>files := (files w)(f := entries_upd butlast (files w f))\<rparr>" for w w'
  proof -
    have "slot_account F T L (hold (SlotNumber m) h) w'" unfolding w'
      by (rule account_upd [OF conjunct1 [OF w] f])
        (use w in_range [OF conjunct1 [OF w] f] in \<open>auto simp: hold_def\<close>)
    then show ?thesis using w w' in_range [OF conjunct1 [OF w] f] by auto
  qed
  show ?case
    unfolding flush_Cons
    apply (rule update_file_then [OF take])
      apply assumption
     apply (rule refl)
    apply (rule step_then [where R = "\<lambda>_ w. slot_account F T L h w \<and> entries (files w f) = rev ms"])
     apply (rule release_held [OF L h])
    by (intro keeps_then Cons.IH keeps_conj account_ext files_ext [of "\<lambda>fs. entries (fs f) = rev ms"])
qed

end

lemma add_pending_cases:
  assumes "run_state (VchiqAddPendingMsg os f hdr n) w = (st, w')"
  obtains (added) tr e st' where "NT_SUCCESS st"
      "run_state (VchiqAddRefMsg n) (w\<lparr>trace := tr, files := (files w)(f := PendingDataMsgList_update
        (\<lambda>l. l @ [\<lparr>Msg = hdr, SlotNumber = n, WdfMemory = e\<rparr>]) (files w f))\<rparr>) = (st', w')"
    | (none) tr where "w' = w\<lparr>trace := tr\<rparr>"
  using assms
  by (auto simp: VchiqAddPendingMsg_def split: if_splits prod.splits intro: added none)

lemma add_pending_vchi_cases:
  assumes "run_state (VchiqAddPendingVchiMsg os f hdr n) w = (st, w')"
  obtains (added) tr e st' where "NT_SUCCESS st"
      "run_state (VchiqAddRefMsg n) (w\<lparr>trace := tr, files := (files w)(f := PendingVchiMsgList_update
        (\<lambda>l. l @ [\<lparr>Msg = hdr, SlotNumber = n, WdfMemory = e\<rparr>]) (files w f))\<rparr>) = (st', w')"
    | (none) tr where "w' = w\<lparr>trace := tr\<rparr>"
  using assms
  by (auto simp: VchiqAddPendingVchiMsg_def split: if_splits prod.splits intro: added none)

interpretation data: waiting_list PendingDataMsgList PendingDataMsgList_update
  VchiqAddPendingMsg VchiqRemovePendingMsg_flush
proof (unfold_locales, goal_cases)
  case (2 F T L h w f g h')
  then show ?case by (intro data_list_account) simp_all
next
  case (4 os f hdr n w st w')
  then show ?case by (cases rule: add_pending_cases) blast+
qed (auto dest: entries_bound)

interpretation vchi: waiting_list PendingVchiMsgList PendingVchiMsgList_update
  VchiqAddPendingVchiMsg VchiqRemovePendingVchiMsg_flush
proof (unfold_locales, goal_cases)
  case (2 F T L h w f g h')
  then show ?case by (intro vchi_list_account) simp_all
next
  case (4 os f hdr n w st w')
  then show ?case by (cases rule: add_pending_vchi_cases) blast+
qed (auto dest: entries_bound)

section \<open>The handlers keep the account\<close>

lemma triple_at: "keeps I m \<Longrightarrow> I w \<Longrightarrow> triple (\<lambda>s. s = w) m (\<lambda>_. I)"
  by (auto simp: keeps_triple elim: triple_pre)

lemma keeps_held:
  "keeps (slot_account F T L h) m \<Longrightarrow> keeps (\<lambda>w. slot_account F T L h w \<and> c) m"
  by (simp add: keeps_def)

lemma release_held':
  assumes "L n < 2 ^ 32" "0 \<le> h n"
  shows "triple (\<lambda>w. slot_account F T L (hold n h) w \<and> unat n < VCHIQ_MAX_SLOTS \<and> True)
    (VchiqReleaseMsg os n) (\<lambda>_. slot_account F T L h)"
  using release_held [where R = "\<lambda>_. True" and L = L and h = h and n = n, OF assms] by simp

lemma deliver_account:
  assumes L: "\<And>n. L n < 2 ^ 32" and h: "\<And>n. 0 \<le> h n" and f: "f \<in> F"
  shows "triple (\<lambda>w. slot_account F T L h w \<and> (\<exists>ms. PendingVchiMsgList (files w f) = m # ms))
    (VchiqRemovePendingVchiMsg_deliver os f req m n st) (\<lambda>_. slot_account F T L h)"
  unfolding VchiqRemovePendingVchiMsg_deliver_def Let_def
  apply (rule update_file_then [where P' = "\<lambda>w. slot_account F T L (hold (SlotNumber m) h) w \<and>
      unat (SlotNumber m) < VCHIQ_MAX_SLOTS \<and> True"])
   apply (elim conjE exE)
   apply (intro conjI)
     apply (erule (1) vchi.take_first(1) [OF _ f])
    apply (erule (1) vchi.take_first(2) [OF _ f])
   apply (rule TrueI)
  apply (rule keeps_then [OF keeps_get])
  apply (rule keeps_then, rule keeps_held, rule account_ext account_copy account_out)+
  apply (rule step_then, rule release_held' [OF L h])
  apply (rule keeps_then, rule account_ext)
  apply (rule triple_done)
  apply assumption
  done

lemma head_account [keep]:
  assumes L: "\<And>n. L n < 2 ^ 32" and h: "\<And>n. 0 \<le> h n" and f: "f \<in> F"
  shows "keeps (slot_account F T L h) (VchiqRemovePendingVchiMsg_head os f req st)"
  unfolding keeps_triple VchiqRemovePendingVchiMsg_head_def Let_def
proof (rule get_then)
  fix w assume w: "slot_account F T L h w"
  let ?Q = "\<lambda>_ :: ntstatus. slot_account F T L h"
  show "triple (\<lambda>s. s = w) (case PendingVchiMsgList (files w f) of
      [] \<Rightarrow> ext os (Req (WdfRequestComplete req STATUS_UNSUCCESSFUL)) \<bind> (\<lambda>_. return STATUS_UNSUCCESSFUL)
    | m # ms \<Rightarrow>
        if dm_BufSize (in_dequeue w req) < header_Size w (Msg m) + sizeof_VCHIQ_HEADER then
          update_file f (PendingVchiMsgList_update (\<lambda>l. m # tl l)) \<bind>
          (\<lambda>_. ext os (Req (WdfRequestComplete req STATUS_INSUFFICIENT_RESOURCES)) \<bind>
          (\<lambda>_. return STATUS_INSUFFICIENT_RESOURCES))
        else VchiqRemovePendingVchiMsg_deliver os f req m (header_Size w (Msg m) + sizeof_VCHIQ_HEADER) st) ?Q"
  proof (cases "PendingVchiMsgList (files w f)")
    case Nil
    show ?thesis unfolding Nil list.case
      by (rule triple_at [where I = "slot_account F T L h"]) (intro keep, rule w)
  next
    case (Cons m ms)
    have put: "slot_account F T L h (w\<lparr>files := (files w)(f :=
        PendingVchiMsgList_update (\<lambda>l. m # tl l) (files w f))\<rparr>)"
      using w Cons by (subst slot_account_same) simp_all
    show ?thesis
      unfolding Cons list.case
    proof (rule triple_if_cases)
      show "triple (\<lambda>s. s = w) (update_file f (PendingVchiMsgList_update (\<lambda>l. m # tl l)) \<bind>
          (\<lambda>_. ext os (Req (WdfRequestComplete req STATUS_INSUFFICIENT_RESOURCES)) \<bind>
          (\<lambda>_. return STATUS_INSUFFICIENT_RESOURCES))) ?Q"
        by (rule update_file_then [where P' = "slot_account F T L h"])
          (use put in \<open>auto intro!: keeps_then triple_done keep\<close>)
      show "triple (\<lambda>s. s = w) (VchiqRemovePendingVchiMsg_deliver os f req m
          (header_Size w (Msg m) + sizeof_VCHIQ_HEADER) st) ?Q"
        by (rule triple_pre [OF deliver_account [OF L h f]]) (use w Cons in auto)
    qed
  qed
qed

lemma remove_vchi_account [keep]:
  assumes L: "\<And>n. L n < 2 ^ 32" and h: "\<And>n. 0 \<le> h n" and f: "f \<in> F"
  shows "keeps (slot_account F T L h) (VchiqRemovePendingVchiMsg os f req)"
proof -
  have "triple (slot_account F T L h)
      (get \<bind> (\<lambda>w. VchiqRemovePendingVchiMsg_flush os f (rev (PendingVchiMsgList (files w f))) \<bind>
        (\<lambda>_. return STATUS_SUCCESS))) (\<lambda>_. slot_account F T L h)"
    by (rule get_then, rule step_then, rule triple_pre, rule vchi.flush_account [OF L h f])
      (auto intro: triple_done)
  then have flush: "keeps (slot_account F T L h)
      (get \<bind> (\<lambda>w. VchiqRemovePendingVchiMsg_flush os f (rev (PendingVchiMsgList (files w f))) \<bind>
        (\<lambda>_. return STATUS_SUCCESS)))"
    by (simp only: keeps_triple)
  show ?thesis
    unfolding VchiqRemovePendingVchiMsg_def
    apply (rule keeps_if)
     apply (rule flush)
    by (intro keeps_if keeps_bind keeps_return account_ext head_account [OF L h f])
qed

lemma vchi_loop_account [keep]:
  assumes L: "\<And>n. L n < 2 ^ 32" and h: "\<And>n. 0 \<le> h n" and f: "f \<in> F"
  shows "keeps (slot_account F T L h) (VchiqProcessPendingVchiMsg_loop os f fuel)"
  by (induction fuel)
    (auto intro!: keeps_if keeps_bind keeps_return keeps_get account_ext remove_vchi_account [OF L h f])

lemma process_vchi_account [keep]:
  assumes L: "\<And>n. L n < 2 ^ 32" and h: "\<And>n. 0 \<le> h n" and f: "f \<in> F"
  shows "keeps (slot_account F T L h) (VchiqProcessPendingVchiMsg os f)"
  unfolding VchiqProcessPendingVchiMsg_def
  by (intro keeps_if keeps_bind keeps_return keeps_get vchi_loop_account [OF L h f])

lemma remove_bulk_tail_account [keep]:
  "keeps (slot_account F T L h) (VchiqRemovePendingBulkMsg_tail os f bt al ms)"
  by (induction ms) (auto intro!: keeps_if keeps_bind keeps_return account_ext account_bulk)

lemma remove_bulk_account [keep]:
  "keeps (slot_account F T L h) (VchiqRemovePendingBulkMsg os f c bt al)"
  unfolding VchiqRemovePendingBulkMsg_def
  by (auto intro!: keeps_bind keeps_return keeps_get account_ext account_bulk account_completion
      remove_bulk_tail_account split: option.split list.split)

lemma reason_account [keep]:
  "keeps (slot_account F T L h) (VchiqRemovePendingMsg_reason os f c i msgid)"
  unfolding VchiqRemovePendingMsg_reason_def VchiqRemovePendingMsg_bulk_done_def
  by (intro keeps_if keeps_bind keeps_return keeps_case_prod account_ext account_completion remove_bulk_account)

lemma return_account [keep]:
  "keeps (slot_account F T L h) (VchiqRemovePendingMsg_return os f req c hdr n)"
  unfolding VchiqRemovePendingMsg_return_def Let_def
  by (intro keeps_bind keeps_get account_ext account_copy account_completion account_out)

text \<open>
  A message that moves from the data list to the VCHI list takes a new reference before the
  old one is released, so its slot stays busy throughout.
\<close>

lemma held_busy:
  assumes "slot_account F T L (hold n h) w" "unat n < VCHIQ_MAX_SLOTS" "0 \<le> h n" "L n < 2 ^ 32"
  shows "busy (RxSlotInfo w (unat n))"
  using assms account_busy [OF assms(1) [unfolded slot_account_def] assms(2)]
  by (simp add: hold_def)

lemma track_account:
  assumes L: "L n + 1 < 2 ^ 32" and h: "0 \<le> h n" and f: "f \<in> F" and n: "unat n < VCHIQ_MAX_SLOTS"
  shows "triple (slot_account F T L (hold n h))
    (do_when b (do {
       _ \<leftarrow> ext os (Ke (ExAcquireMutex (PendingVchiMsgMutex f)));
       _ \<leftarrow> VchiqAddPendingVchiMsg os f hdr n;
       _ \<leftarrow> ext os (Ke (ExReleaseMutex (PendingVchiMsgMutex f)));
       return ()
     })) (\<lambda>_. slot_account F T (L(n := L n + 1)) (hold n h))"
  apply (rule triple_when_cases)
   apply (rule keeps_then, rule account_ext)
   apply (rule step_then)
    apply (rule triple_pre, rule vchi.add_account [where L = L, OF n f L])
    apply (rule conjI, assumption, erule held_busy [where h = h, OF _ n h])
    apply (use L in simp)
   apply (intro keeps_then account_ext triple_done, assumption)
  apply (auto elim: slot_account_mono)
  done

lemma release_tracked:
  assumes L: "L n + 1 < 2 ^ 32" and h: "0 \<le> h n" and n: "unat n < VCHIQ_MAX_SLOTS"
  shows "triple (slot_account F T (L(n := L n + 1)) (hold n h)) (VchiqReleaseMsg os n)
    (\<lambda>_. slot_account F T L h)"
proof -
  have "triple (\<lambda>w. slot_account F T (L(n := L n + 1)) (hold n h) w \<and> unat n < VCHIQ_MAX_SLOTS \<and> 0 < hold n h n)
      (VchiqReleaseMsg os n)
      (\<lambda>_. slot_account F T ((L(n := L n + 1))(n := (L(n := L n + 1)) n - 1)) ((hold n h)(n := hold n h n - 1)))"
    by (rule release_account) (use L in simp)
  moreover have "(hold n h)(n := hold n h n - 1) = h" by (auto simp: hold_def)
  ultimately show ?thesis using n h by (simp add: hold_def)
qed

lemma entry_account:
  assumes L: "\<And>n. L n + 1 < 2 ^ 32" and h: "\<And>n. 0 \<le> h n" and f: "f \<in> F"
    and n: "unat (SlotNumber m) < VCHIQ_MAX_SLOTS"
  shows "triple (slot_account F T L (hold (SlotNumber m) h))
    (VchiqRemovePendingMsg_entry os f req c m) (\<lambda>_. slot_account F T L h)"
  unfolding VchiqRemovePendingMsg_entry_def
  apply (rule keeps_then, rule keeps_get)
  apply (rule keeps_then, rule reason_account)
  apply (rule triple_case_prod)
  apply (rule keeps_then, rule keeps_when, rule return_account)
  apply (rule step_then, rule track_account [OF L h f n])
  apply (rule keeps_then, rule account_ext)
  apply (rule step_then, rule release_tracked [OF L h n])
  apply (rule triple_done)
  apply assumption
  done

text \<open>The list the loop walks stays the data list of the file.\<close>

lemma data_update_file [keep]:
  "(\<And>c. PendingDataMsgList (g c) = PendingDataMsgList c) \<Longrightarrow>
   keeps (\<lambda>w. R (PendingDataMsgList (files w f))) (update_file f g)"
  by (simp add: keeps_def)

lemma data_frame [keep]:
  "keeps (\<lambda>w. R (PendingDataMsgList (files w f))) (ext os c)"
  "keeps (\<lambda>w. R (PendingDataMsgList (files w f))) (VchiqReleaseMsg os n)"
  by (rule files_ext files_release)+

lemma data_updates [keep]:
  "keeps (\<lambda>w. R (PendingDataMsgList (files w f))) (update_completion x i g)"
  "keeps (\<lambda>w. R (PendingDataMsgList (files w f))) (RtlCopyToWdf x ptr bs)"
  "keeps (\<lambda>w. R (PendingDataMsgList (files w f))) (update (out_ulong_update u))"
  "keeps (\<lambda>w. R (PendingDataMsgList (files w f))) (VchiqAddRefMsg n)"
  by (simp_all add: keeps_def VchiqAddRefMsg_def)

lemma data_bulk [keep]:
  "keeps (\<lambda>w. R (PendingDataMsgList (files w f))) (VchiqRemovePendingBulkMsg_tail os f bt al ms)"
  by (induction ms) (auto intro!: keep)

lemma data_remove_bulk [keep]:
  "keeps (\<lambda>w. R (PendingDataMsgList (files w f))) (VchiqRemovePendingBulkMsg os f c bt al)"
  unfolding VchiqRemovePendingBulkMsg_def
  by (auto intro!: keeps_bind keeps_return keeps_get keep split: option.split list.split)

lemma data_entry [keep]:
  "keeps (\<lambda>w. R (PendingDataMsgList (files w f))) (VchiqRemovePendingMsg_entry os f req c m)"
  unfolding VchiqRemovePendingMsg_entry_def VchiqRemovePendingMsg_reason_def
    VchiqRemovePendingMsg_bulk_done_def VchiqRemovePendingMsg_return_def
    VchiqAddPendingVchiMsg_def Let_def
  by (intro keeps_bind keeps_return keeps_get keeps_if keeps_when keeps_case_prod data_frame
      data_updates data_remove_bulk data_update_file) simp

lemma copy_account:
  assumes L: "\<And>n. L n + 1 < 2 ^ 32" and h: "\<And>n. 0 \<le> h n" and f: "f \<in> F"
  shows "triple (\<lambda>w. slot_account F T L h w \<and> PendingDataMsgList (files w f) = ms)
    (VchiqRemovePendingMsg_copy os f req c ms) (\<lambda>_. slot_account F T L h)"
proof (induction ms)
  case Nil
  show ?case by (simp add: triple_def)
next
  case (Cons m ms)
  let ?D = "\<lambda>w. PendingDataMsgList (files w f)"
  have put: "slot_account F T L h (w\<lparr>files := (files w)(f :=
      PendingDataMsgList_update (\<lambda>l. m # tl l) (files w f))\<rparr>)"
    if "slot_account F T L h w \<and> ?D w = m # ms" for w
    using that by (subst slot_account_same) simp_all
  have bound: "unat (SlotNumber m) < VCHIQ_MAX_SLOTS"
    if "slot_account F T L h w \<and> ?D w = m # ms" for w
    using entries_bound [of F T L h w f] that f by auto
  show ?case
  proof (cases "unat (SlotNumber m) < VCHIQ_MAX_SLOTS")
    case True
    have entry: "triple (\<lambda>s. slot_account F T L (hold (SlotNumber m) h) s \<and> ?D s = ms)
        (VchiqRemovePendingMsg_entry os f req c m) (\<lambda>_ s. slot_account F T L h s \<and> ?D s = ms)"
      by (rule triple_conj [OF entry_account [OF L h f True] triple_keeps [OF data_entry]])
    have take: "slot_account F T L (hold (SlotNumber m) h)
        (w\<lparr>files := (files w)(f := PendingDataMsgList_update tl (files w f))\<rparr>) \<and>
        ?D (w\<lparr>files := (files w)(f := PendingDataMsgList_update tl (files w f))\<rparr>) = ms"
      if "slot_account F T L h w \<and> ?D w = m # ms" for w
      using that data.take_first(1) [OF _ f] by auto
    show ?thesis
      unfolding VchiqRemovePendingMsg_copy.simps
      apply (rule keeps_then [OF keeps_get])
      apply (rule triple_if_cases)
       apply (simp add: triple_def put)
      apply (rule update_file_then [where
        P' = "\<lambda>s. slot_account F T L (hold (SlotNumber m) h) s \<and> ?D s = ms"])
       apply (erule take)
      apply (rule step_then [OF entry])
      apply (rule keeps_then [OF keeps_get])
      apply (rule triple_if_cases)
       apply (rule Cons.IH)
      apply (rule triple_done)
      apply simp
      done
  next
    case False
    then show ?thesis using bound by (auto simp: triple_def)
  qed
qed

lemma finish_account [keep]:
  assumes L: "\<And>n. L n < 2 ^ 32" and h: "\<And>n. 0 \<le> h n" and f: "f \<in> F"
  shows "keeps (slot_account F T L h) (VchiqRemovePendingMsg_finish os f req)"
  unfolding VchiqRemovePendingMsg_finish_def
  by (intro keeps_if keeps_bind keeps_return keeps_get account_ext process_vchi_account [OF L h f])

lemma remove_pending_account [keep]:
  assumes L: "\<And>n. L n + 1 < 2 ^ 32" and h: "\<And>n. 0 \<le> h n" and f: "f \<in> F"
  shows "keeps (slot_account F T L h) (VchiqRemovePendingMsg os f req)"
proof -
  have L': "L n < 2 ^ 32" for n using L [of n] by simp
  have flush: "keeps (slot_account F T L h)
      (get \<bind> (\<lambda>w. VchiqRemovePendingMsg_flush os f (rev (PendingDataMsgList (files w f))) \<bind>
        (\<lambda>_. return STATUS_SUCCESS)))"
    unfolding keeps_triple
    by (rule get_then, rule step_then, rule triple_pre, rule data.flush_account [OF L' h f])
      (auto intro: triple_done)
  have copy: "keeps (slot_account F T L h) (get \<bind> (\<lambda>w. ext os (c w) \<bind> (\<lambda>_.
      VchiqRemovePendingMsg_copy os f req (d w) (PendingDataMsgList (files w f)) \<bind> (\<lambda>_.
      VchiqRemovePendingMsg_finish os f req))))" for c d
    unfolding keeps_triple
  proof (rule get_then)
    fix w assume w: "slot_account F T L h w"
    let ?P = "\<lambda>s. slot_account F T L h s \<and> PendingDataMsgList (files s f) = PendingDataMsgList (files w f)"
    have "triple ?P (ext os (c w) \<bind> (\<lambda>_.
        VchiqRemovePendingMsg_copy os f req (d w) (PendingDataMsgList (files w f)) \<bind> (\<lambda>_.
        VchiqRemovePendingMsg_finish os f req))) (\<lambda>_. slot_account F T L h)"
      by (rule keeps_then, rule keeps_conj [OF account_ext data_frame(1)],
          rule step_then, rule copy_account [OF L h f], rule triple_keeps, rule finish_account [OF L' h f])
    then show "triple (\<lambda>s. s = w) (ext os (c w) \<bind> (\<lambda>_.
        VchiqRemovePendingMsg_copy os f req (d w) (PendingDataMsgList (files w f)) \<bind> (\<lambda>_.
        VchiqRemovePendingMsg_finish os f req))) (\<lambda>_. slot_account F T L h)"
      by (rule triple_pre) (simp add: w)
  qed
  show ?thesis
    unfolding VchiqRemovePendingMsg_def
    apply (rule keeps_if)
     apply (rule flush)
    by (intro keeps_if keeps_bind [OF account_ext] keeps_bind [OF account_out] keeps_return account_ext copy)
qed

lemma process_pending_account [keep]:
  assumes L: "\<And>n. L n + 1 < 2 ^ 32" and h: "\<And>n. 0 \<le> h n" and f: "f \<in> F"
  shows "keeps (slot_account F T L h) (VchiqProcessPendingMsg os f)"
  unfolding VchiqProcessPendingMsg_def
  by (intro keeps_if keeps_bind keeps_return keeps_get account_ext remove_pending_account [OF L h f])

end
