(* ===== verification/Vchiq_Rx.thy ===== *)
theory Vchiq_Rx
  imports Vchiq_Recycle
begin

text \<open>
  The receive loop of \<open>slots.c\<close> (\<open>VchiqProcessRxSlot\<close>), split into what it does for each
  type of message. The firmware's side of the shared memory does not change during a pass of
  the loop in this model; what it adds meanwhile is seen by the next pass.
\<close>

section \<open>One message\<close>

text \<open>\<open>vchiqFileContextPtr\<close> is \<open>ArmPortHandles\<close> at the destination port, 0 for \<open>NULL\<close>.\<close>

definition VchiqProcessRxSlot_openack :: "os \<Rightarrow> handle \<Rightarrow> u32 \<Rightarrow> (world, unit) state" where
  "VchiqProcessRxSlot_openack os file msgid = do_when (file \<noteq> 0) (do {
     update_file file (VCHIQPortNumber_update (\<lambda>_. ucast (VCHIQ_MSG_SRCPORT msgid)));
     w \<leftarrow> get;
     r \<leftarrow> ext os (Req (WdfIoQueueRetrieveNextRequest (FileQueue (files w file) FILE_QUEUE_CREATE_SERVICE)));
     do_when (NT_SUCCESS (r_status r)) (do {
       update_file file (ServiceState_update (\<lambda>_. SERVICE_STATE_OPEN));
       _ \<leftarrow> ext os (Req (WdfRequestComplete (r_ptr r) STATUS_SUCCESS));
       return ()
     })
   })"

definition VchiqProcessRxSlot_close :: "os \<Rightarrow> handle \<Rightarrow> (world, unit) state" where
  "VchiqProcessRxSlot_close os file = do_when (file \<noteq> 0) (do {
     w \<leftarrow> get;
     r \<leftarrow> ext os (Req (WdfIoQueueRetrieveNextRequest (FileQueue (files w file) FILE_QUEUE_CLOSE_SERVICE)));
     do_when (NT_SUCCESS (r_status r)) (do {
       update_file file (ServiceState_update (\<lambda>_. SERVICE_STATE_CLOSE));
       _ \<leftarrow> ext os (Req (WdfRequestComplete (r_ptr r) STATUS_SUCCESS));
       return ()
     })
   })"

definition VchiqProcessRxSlot_data :: "os \<Rightarrow> handle \<Rightarrow> nat \<Rightarrow> (world, unit) state" where
  "VchiqProcessRxSlot_data os file rxHeader = do {
     w \<leftarrow> get;
     do_when (file \<noteq> 0 \<and> header_Size w rxHeader \<noteq> 0) (do {
       _ \<leftarrow> VchiqProcessNewRxMsg os file rxHeader;
       return ()
     })
   }"

definition VchiqProcessRxSlot_connect :: "os \<Rightarrow> (world, unit) state" where
  "VchiqProcessRxSlot_connect os = do {
     update (VCConnected_update (\<lambda>_. True));
     w \<leftarrow> get;
     do_when (\<not> DeviceInterfaceEnabled w) (do {
       r \<leftarrow> ext os (Dev WdfDeviceCreateDeviceInterface);
       do_when (NT_SUCCESS (r_status r)) (do {
         _ \<leftarrow> ext os (Dev WdfDeviceSetDeviceInterfaceState);
         update (DeviceInterfaceEnabled_update (\<lambda>_. True))
       })
     })
   }"

text \<open>
  The request at the head of the bulk queue is completed: without success when the firmware
  answers \<open>0xFFFFFFFF\<close> or the request has no transfer context, otherwise after the DMA
  resources are given back. Then the message itself is queued for the client.
\<close>

definition VchiqProcessRxSlot_complete_bulk ::
  "os \<Rightarrow> handle \<Rightarrow> handle \<Rightarrow> bool \<Rightarrow> u32 \<Rightarrow> (world, unit) state" where
  "VchiqProcessRxSlot_complete_bulk os file nextRequest writeToDevice respondMsg = do {
     w \<leftarrow> get;
     if respondMsg = 0xFFFFFFFF then do {
       _ \<leftarrow> ext os (Req (WdfRequestComplete nextRequest STATUS_UNSUCCESSFUL));
       return ()
     } else (case tx_context w nextRequest of
         None \<Rightarrow> do {
           _ \<leftarrow> ext os (Req (WdfRequestComplete nextRequest STATUS_UNSUCCESSFUL));
           return ()
         }
       | Some ctx \<Rightarrow> do {
           _ \<leftarrow> ext os (Dma (DmaFreeAdapterObject (DmaAdapterPtr (files w file))));
           _ \<leftarrow> ext os (Dma (DmaPutScatterGatherList (DmaAdapterPtr (files w file))
                  (ScatterGatherListPtr ctx) writeToDevice));
           update (tx_context_update (\<lambda>t. t(nextRequest := Some (ctx\<lparr>ScatterGatherListPtr := 0\<rparr>))));
           n \<leftarrow> ext os (Mm (MmGetMdlByteCount (BufferMdlPtr ctx)));
           _ \<leftarrow> ext os (Req (WdfRequestCompleteWithInformation nextRequest STATUS_SUCCESS (r_len n)));
           return ()
         })
   }"

definition VchiqProcessRxSlot_bulk_done ::
  "os \<Rightarrow> handle \<Rightarrow> nat \<Rightarrow> bool \<Rightarrow> nat \<Rightarrow> (world, unit) state" where
  "VchiqProcessRxSlot_bulk_done os file queue writeToDevice rxHeader = do_when (file \<noteq> 0) (do {
     w \<leftarrow> get;
     r \<leftarrow> ext os (Req (WdfIoQueueRetrieveNextRequest (FileQueue (files w file) queue)));
     do_when (NT_SUCCESS (r_status r)) (do {
       VchiqProcessRxSlot_complete_bulk os file (r_ptr r) writeToDevice (load32 (rxHeader + 8) (mem w));
       _ \<leftarrow> VchiqProcessNewRxMsg os file rxHeader;
       return ()
     })
   })"

definition VchiqProcessRxSlot_message :: "os \<Rightarrow> nat \<Rightarrow> (world, unit) state" where
  "VchiqProcessRxSlot_message os rxHeader = do {
     w \<leftarrow> get;
     let msgid = header_MsgId w rxHeader;
         file = ArmPortHandles w (unat (VCHIQ_MSG_DSTPORT msgid));
         type = VCHIQ_MSG_TYPE msgid
     in if type = VCHIQ_MSG_OPENACK then VchiqProcessRxSlot_openack os file msgid
        else if type = VCHIQ_MSG_CLOSE then VchiqProcessRxSlot_close os file
        else if type = VCHIQ_MSG_DATA then VchiqProcessRxSlot_data os file rxHeader
        else if type = VCHIQ_MSG_CONNECT then VchiqProcessRxSlot_connect os
        else if type = VCHIQ_MSG_BULK_RX_DONE
        then VchiqProcessRxSlot_bulk_done os file FILE_QUEUE_RX_DATA False rxHeader
        else if type = VCHIQ_MSG_BULK_TX_DONE
        then VchiqProcessRxSlot_bulk_done os file FILE_QUEUE_TX_DATA True rxHeader
        else return ()
   }"

section \<open>The loop\<close>

text \<open>A slot is taken from the master's queue when none is being read.\<close>

definition VchiqProcessRxSlot_take_slot :: "(world, unit) state" where
  "VchiqProcessRxSlot_take_slot = do {
     w \<leftarrow> get;
     do_when (MasterCurrentSlot w = None)
       (let index = VCHIQ_GET_NEXT_RX_SLOT_INDEX w
        in do {
          update (MasterCurrentSlotIndex_update (\<lambda>_. index));
          update (MasterCurrentSlot_update (\<lambda>_. Some (VCHIQ_GET_HEADER_BY_GLOBAL_INDEX index)));
          update_slot index (SlotInUse_update (\<lambda>_. True))
        })
   }"

text \<open>The position moves past the message; at the end of the slot the slot is released.\<close>

definition VchiqProcessRxSlot_advance :: "os \<Rightarrow> nat \<Rightarrow> (world, unit) state" where
  "VchiqProcessRxSlot_advance os rxHeader = do {
     w \<leftarrow> get;
     update (CurrentRxPos_update (\<lambda>p.
       p + VCHIQ_GET_SLOT_ALIGN_SIZE (header_Size w rxHeader + sizeof_VCHIQ_HEADER)));
     w \<leftarrow> get;
     do_when (CurrentRxPos w AND VCHIQ_SLOT_MASK = 0) (do {
       VchiqRecycleSlot os (MasterCurrentSlotIndex w) True;
       update (MasterCurrentSlot_update (\<lambda>_. None))
     });
     update_slave (Trigger_update VCHIQ_RESET_EVENT_SIGNAL)
   }"

definition VchiqProcessRxSlot_turn :: "os \<Rightarrow> (world, unit) state" where
  "VchiqProcessRxSlot_turn os = do {
     VchiqProcessRxSlot_take_slot;
     w \<leftarrow> get;
     case VCHIQ_GET_CURRENT_RX_HEADER w of
       None \<Rightarrow> undefined_behaviour
     | Some rxHeader \<Rightarrow> do {
         VchiqProcessRxSlot_message os rxHeader;
         VchiqProcessRxSlot_advance os rxHeader
       }
   }"

text \<open>
  The loop itself, on fuel: \<open>False\<close> when the fuel runs out. The length of the unread stream is
  enough for a stream of well-formed messages (\<open>rx_pass_terminates\<close>).
\<close>

fun VchiqProcessRxSlot_loop :: "os \<Rightarrow> nat \<Rightarrow> (world, bool) state" where
  "VchiqProcessRxSlot_loop os fuel = do {
     w \<leftarrow> get;
     if \<not> CurrentRxPos w < TxPos (Master (slot_zero w)) then return True
     else case fuel of
         0 \<Rightarrow> return False
       | Suc n \<Rightarrow> do {
           VchiqProcessRxSlot_turn os;
           VchiqProcessRxSlot_loop os n
         }
   }"

declare VchiqProcessRxSlot_loop.simps [simp del]

definition VchiqProcessRxSlot :: "os \<Rightarrow> (world, ntstatus option) state" where
  "VchiqProcessRxSlot os = do {
     w \<leftarrow> get;
     finished \<leftarrow> VchiqProcessRxSlot_loop os (unat (TxPos (Master (slot_zero w))));
     if finished then do {
       update_slave (Trigger_update VCHIQ_ENABLE_EVENT_INTERRUPT);
       return (Some STATUS_SUCCESS)
     } else return None
   }"

section \<open>What handling a message leaves alone\<close>

text \<open>
  The reader's view of the stream: the positions, the current slot, the shared memory,
  which slots are being read, and the ports. Handling a message does not change it.
\<close>

named_theorems view \<open>operations that keep the reader's view\<close>

definition rx_view ::
  "world \<Rightarrow> u32 \<times> nat option \<times> u32 \<times> (nat \<Rightarrow> u8) \<times> u32 \<times> (nat \<Rightarrow> bool) \<times> (nat \<Rightarrow> handle)" where
  "rx_view w = (CurrentRxPos w, MasterCurrentSlot w, MasterCurrentSlotIndex w, mem w,
     TxPos (Master (slot_zero w)), \<lambda>n. SlotInUse (RxSlotInfo w n), ArmPortHandles w)"

lemma view_ext [view]: "keeps (\<lambda>w. R (rx_view w)) (ext os c)"
  by (simp add: keeps_def rx_view_def)

lemma view_updates [view]:
  "keeps (\<lambda>w. R (rx_view w)) (update_file f g)"
  "keeps (\<lambda>w. R (rx_view w)) (update_completion x i c)"
  "keeps (\<lambda>w. R (rx_view w)) (RtlCopyToWdf x ptr bs)"
  "keeps (\<lambda>w. R (rx_view w)) (update (out_ulong_update u))"
  "keeps (\<lambda>w. R (rx_view w)) (update (tx_context_update t))"
  "keeps (\<lambda>w. R (rx_view w)) (update (VCConnected_update b))"
  "keeps (\<lambda>w. R (rx_view w)) (update (DeviceInterfaceEnabled_update b))"
  by (simp_all add: keeps_def rx_view_def)

lemma view_count [view]: "keeps (\<lambda>w. R (rx_view w)) (update_slot n (RefCount_update g))"
proof -
  have "(\<lambda>k. SlotInUse (if k = unat n then RefCount_update g (info (unat n)) else info k)) =
      (\<lambda>k. SlotInUse (info k))" for info :: "nat \<Rightarrow> SLOT_INFO"
    by auto
  then show ?thesis by (simp add: keeps_def rx_view_def)
qed

lemmas view_combine = keeps_bind keeps_return keeps_get keeps_if keeps_when keeps_case_prod keeps_case_option

lemma view_slots [view]:
  "keeps (\<lambda>w. R (rx_view w)) (VchiqRecycleSlot os n False)"
  "keeps (\<lambda>w. R (rx_view w)) (VchiqAddRefMsg n)"
  by (simp_all add: keeps_def VchiqRecycleSlot_def VchiqSignalVC_def Let_def rx_view_def)
    (simp add: VchiqAddRefMsg_def rx_view_def keepsD [OF view_count, unfolded rx_view_def, simplified])

lemma view_release [view]: "keeps (\<lambda>w. R (rx_view w)) (VchiqReleaseMsg os n)"
  unfolding VchiqReleaseMsg_def by (intro view_combine view)

lemma view_bulk_tail [view]: "keeps (\<lambda>w. R (rx_view w)) (VchiqRemovePendingBulkMsg_tail os f bt al ms)"
  by (induction ms) (auto intro!: view_combine view)

lemma view_flush [view]: "keeps (\<lambda>w. R (rx_view w)) (VchiqRemovePendingMsg_flush os f ms)"
  "keeps (\<lambda>w. R (rx_view w)) (VchiqRemovePendingVchiMsg_flush os f ms)"
  by (induction ms) (auto intro!: view_combine view)

lemma view_remove_bulk [view]: "keeps (\<lambda>w. R (rx_view w)) (VchiqRemovePendingBulkMsg os f c bt al)"
  unfolding VchiqRemovePendingBulkMsg_def
  by (auto intro!: view_combine view split: option.split list.split)

lemma view_vchi [view]: "keeps (\<lambda>w. R (rx_view w)) (VchiqRemovePendingVchiMsg os f req)"
  unfolding VchiqRemovePendingVchiMsg_def VchiqRemovePendingVchiMsg_head_def
    VchiqRemovePendingVchiMsg_deliver_def Let_def
  by (auto intro!: view_combine view split: list.split)

lemma view_vchi_loop [view]: "keeps (\<lambda>w. R (rx_view w)) (VchiqProcessPendingVchiMsg_loop os f n)"
  by (induction n) (auto intro!: view_combine view)

lemma view_process_vchi [view]: "keeps (\<lambda>w. R (rx_view w)) (VchiqProcessPendingVchiMsg os f)"
  unfolding VchiqProcessPendingVchiMsg_def by (intro view_combine view)

lemma view_entry [view]: "keeps (\<lambda>w. R (rx_view w)) (VchiqRemovePendingMsg_entry os f req c m)"
  unfolding VchiqRemovePendingMsg_entry_def VchiqRemovePendingMsg_reason_def
    VchiqRemovePendingMsg_bulk_done_def VchiqRemovePendingMsg_return_def
    VchiqAddPendingVchiMsg_def Let_def
  by (intro view_combine view)

lemma view_copy [view]: "keeps (\<lambda>w. R (rx_view w)) (VchiqRemovePendingMsg_copy os f req c ms)"
  by (induction ms) (auto intro!: view_combine view)

lemma view_pending [view]: "keeps (\<lambda>w. R (rx_view w)) (VchiqProcessPendingMsg os f)"
  unfolding VchiqProcessPendingMsg_def VchiqRemovePendingMsg_def VchiqRemovePendingMsg_finish_def
  by (intro view_combine view)

lemma view_new_rx [view]: "keeps (\<lambda>w. R (rx_view w)) (VchiqProcessNewRxMsg os f hdr)"
  unfolding VchiqProcessNewRxMsg_def VchiqAddPendingMsg_def by (intro view_combine view)

lemma view_complete_bulk [view]:
  "keeps (\<lambda>w. R (rx_view w)) (VchiqProcessRxSlot_complete_bulk os f req d n)"
  unfolding VchiqProcessRxSlot_complete_bulk_def
  by (auto intro!: view_combine view split: option.split)

lemma view_message [view]: "keeps (\<lambda>w. R (rx_view w)) (VchiqProcessRxSlot_message os hdr)"
  unfolding VchiqProcessRxSlot_message_def VchiqProcessRxSlot_openack_def VchiqProcessRxSlot_close_def
    VchiqProcessRxSlot_data_def VchiqProcessRxSlot_connect_def VchiqProcessRxSlot_bulk_done_def Let_def
  by (intro view_combine view)

section \<open>Termination of a pass\<close>

text \<open>
  A turn reads the header at the position, in the current slot or the next slot of the
  queue, and moves the position past it.
\<close>

definition rx_slot :: "world \<Rightarrow> nat" where
  "rx_slot w = (case MasterCurrentSlot w of
      None \<Rightarrow> VCHIQ_GET_HEADER_BY_GLOBAL_INDEX (VCHIQ_GET_NEXT_RX_SLOT_INDEX w)
    | Some slot \<Rightarrow> slot)"

definition rx_header :: "world \<Rightarrow> nat" where
  "rx_header w = rx_slot w + unat (CurrentRxPos w) mod 4096"

lemma run_take_slot:
  "run_state VchiqProcessRxSlot_take_slot w = (u, w') \<Longrightarrow>
   MasterCurrentSlot w' = Some (rx_slot w) \<and> CurrentRxPos w' = CurrentRxPos w \<and> mem w' = mem w \<and>
   slot_zero w' = slot_zero w"
  by (auto simp: VchiqProcessRxSlot_take_slot_def rx_slot_def Let_def split: if_splits option.split)

lemma turn_effect:
  assumes run: "run_state (VchiqProcessRxSlot_turn os) w = (u, w')"
  shows "CurrentRxPos w' = CurrentRxPos w +
           VCHIQ_GET_SLOT_ALIGN_SIZE (header_Size w (rx_header w) + 8)"
    and "mem w' = mem w" and "TxPos (Master (slot_zero w')) = TxPos (Master (slot_zero w))"
proof -
  obtain w1 where take: "run_state VchiqProcessRxSlot_take_slot w = ((), w1)"
    by (metis old.unit.exhaust surj_pair)
  note t = run_take_slot [OF take]
  obtain w2 where msg: "run_state (VchiqProcessRxSlot_message os (rx_header w)) w1 = ((), w2)"
    by (metis old.unit.exhaust surj_pair)
  have v: "rx_view w2 = rx_view w1"
    using keeps_run [OF view_message [where R = "\<lambda>v. v = rx_view w1"] msg] by simp
  have "run_state (VchiqProcessRxSlot_advance os (rx_header w)) w2 = (u, w')"
    using run take t msg
    by (simp add: VchiqProcessRxSlot_turn_def VCHIQ_GET_CURRENT_RX_HEADER_def rx_header_def)
  moreover have "header_Size w2 (rx_header w) = header_Size w (rx_header w)"
    using v t by (simp add: rx_view_def header_Size_def)
  ultimately show "CurrentRxPos w' = CurrentRxPos w +
           VCHIQ_GET_SLOT_ALIGN_SIZE (header_Size w (rx_header w) + 8)"
    and "mem w' = mem w" and "TxPos (Master (slot_zero w')) = TxPos (Master (slot_zero w))"
    using v t
    by (auto simp: VchiqProcessRxSlot_advance_def VchiqRecycleSlot_def VchiqSignalVC_def
        rx_view_def Let_def split: if_splits)
qed

inductive rx_reaches :: "os \<Rightarrow> world \<Rightarrow> world \<Rightarrow> bool" for os where
  here: "rx_reaches os w w"
| turn: "CurrentRxPos w < TxPos (Master (slot_zero w)) \<Longrightarrow>
    run_state (VchiqProcessRxSlot_turn os) w = (u, w1) \<Longrightarrow> rx_reaches os w1 w' \<Longrightarrow> rx_reaches os w w'"

inductive_cases rx_reachesE: "rx_reaches os w w'"

text \<open>The message at the position fits a slot and ends within what the firmware has written.\<close>

definition rx_framed :: "world \<Rightarrow> bool" where
  "rx_framed w \<longleftrightarrow> unat (header_Size w (rx_header w)) \<le> 4088 \<and>
     unat (CurrentRxPos w) + unat (VCHIQ_GET_SLOT_ALIGN_SIZE (header_Size w (rx_header w) + 8))
       \<le> unat (TxPos (Master (slot_zero w)))"

lemma unat_add_header: "unat (n :: u32) \<le> 4088 \<Longrightarrow> unat (n + 8) = unat n + 8"
  by (simp add: unat_word_ariths)

lemma framed_turn:
  assumes "rx_framed w" and "run_state (VchiqProcessRxSlot_turn os) w = (u, w')"
  shows "unat (CurrentRxPos w') \<le> unat (TxPos (Master (slot_zero w')))"
    and "unat (CurrentRxPos w) < unat (CurrentRxPos w')"
    and "TxPos (Master (slot_zero w')) = TxPos (Master (slot_zero w))"
proof -
  let ?n = "VCHIQ_GET_SLOT_ALIGN_SIZE (header_Size w (rx_header w) + 8)"
  have n: "unat (header_Size w (rx_header w)) \<le> 4088" using assms by (simp add: rx_framed_def)
  have le: "unat (CurrentRxPos w) + unat ?n \<le> unat (TxPos (Master (slot_zero w)))"
    using assms by (simp add: rx_framed_def)
  moreover have "unat (TxPos (Master (slot_zero w))) < 2 ^ 32"
    using unat_u32_less by simp
  ultimately have sum: "unat (CurrentRxPos w + ?n) = unat (CurrentRxPos w) + unat ?n"
    by (subst unat_add_lem [THEN iffD1]) auto
  have "unat (header_Size w (rx_header w) + 8) \<le> unat ?n"
    by (rule align_bounds(2)) (simp add: unat_add_header [OF n] n)
  then have "0 < unat ?n" by (simp add: unat_add_header [OF n])
  then show "unat (CurrentRxPos w') \<le> unat (TxPos (Master (slot_zero w')))"
    and "unat (CurrentRxPos w) < unat (CurrentRxPos w')"
    and "TxPos (Master (slot_zero w')) = TxPos (Master (slot_zero w))"
    using turn_effect [OF assms(2)] le sum by simp_all
qed

lemma loop_terminates:
  assumes "\<And>w'. rx_reaches os w w' \<Longrightarrow> CurrentRxPos w' < TxPos (Master (slot_zero w')) \<Longrightarrow> rx_framed w'"
    and "CurrentRxPos w \<le> TxPos (Master (slot_zero w))"
    and "unat (TxPos (Master (slot_zero w))) \<le> unat (CurrentRxPos w) + n"
  shows "\<exists>w'. run_state (VchiqProcessRxSlot_loop os n) w = (True, w') \<and> rx_reaches os w w' \<and>
    CurrentRxPos w' = TxPos (Master (slot_zero w')) \<and>
    TxPos (Master (slot_zero w')) = TxPos (Master (slot_zero w))"
  using assms
proof (induction n arbitrary: w)
  case 0
  then have "unat (CurrentRxPos w) = unat (TxPos (Master (slot_zero w)))"
    by (simp add: word_le_nat_alt)
  then have "CurrentRxPos w = TxPos (Master (slot_zero w))"
    by (rule unsigned_word_eqI)
  then show ?case
    by (simp add: VchiqProcessRxSlot_loop.simps here)
next
  case (Suc n)
  show ?case
  proof (cases "CurrentRxPos w < TxPos (Master (slot_zero w))")
    case False
    then have "CurrentRxPos w = TxPos (Master (slot_zero w))" using Suc.prems(2) by simp
    then show ?thesis by (simp add: VchiqProcessRxSlot_loop.simps here)
  next
    case True
    obtain w1 where run: "run_state (VchiqProcessRxSlot_turn os) w = ((), w1)"
      by (metis old.unit.exhaust surj_pair)
    have "rx_framed w" using Suc.prems(1) True here by blast
    note step = framed_turn [OF this run]
    have "\<exists>w'. run_state (VchiqProcessRxSlot_loop os n) w1 = (True, w') \<and> rx_reaches os w1 w' \<and>
      CurrentRxPos w' = TxPos (Master (slot_zero w')) \<and>
      TxPos (Master (slot_zero w')) = TxPos (Master (slot_zero w1))"
    proof (rule Suc.IH)
      show "rx_framed w'" if "rx_reaches os w1 w'" "CurrentRxPos w' < TxPos (Master (slot_zero w'))" for w'
        using Suc.prems(1) turn [OF True run that(1)] that(2) by blast
      show "CurrentRxPos w1 \<le> TxPos (Master (slot_zero w1))"
        using step by (simp add: word_le_nat_alt)
      show "unat (TxPos (Master (slot_zero w1))) \<le> unat (CurrentRxPos w1) + n"
        using step Suc.prems(3) by simp
    qed
    then show ?thesis
      using True run step(3) by (auto simp: VchiqProcessRxSlot_loop.simps [of os "Suc n"] intro: turn)
  qed
qed



text \<open>
  A pass in which the firmware's position has wrapped around reads nothing: the test is a
  comparison of the 32-bit positions, not of their difference.
\<close>

lemma rx_pass_after_wrap:
  assumes "TxPos (Master (slot_zero w)) < CurrentRxPos w"
  shows "run_state (VchiqProcessRxSlot os) w = (Some STATUS_SUCCESS,
    w\<lparr>slot_zero := (slot_zero w)\<lparr>Slave := (Slave (slot_zero w))\<lparr>Trigger :=
      (Trigger (Slave (slot_zero w)))\<lparr>Armed := 1\<rparr>\<rparr>\<rparr>\<rparr>)"
proof -
  have "\<not> CurrentRxPos w < TxPos (Master (slot_zero w))" using assms by simp
  then show ?thesis
    by (simp add: VchiqProcessRxSlot_def VchiqProcessRxSlot_loop.simps VCHIQ_ENABLE_EVENT_INTERRUPT_def)
qed

end
