(* ===== verification/Vchiq_Init.thy ===== *)
theory Vchiq_Init
  imports Vchiq_Transfer Vchiq_Rx
begin

text \<open>
  Bringing the driver up and down: the layout of the shared memory and the threads
  (\<open>VchiqInit\<close> and \<open>VchiqRelease\<close> in \<open>slots.c\<close>), the interrupt handlers (\<open>interrupt.c\<close>) with
  the bodies of the threads they wake, the registration with the mailbox driver (\<open>init.c\<close>),
  and the hardware resources (\<open>device.c\<close>).
\<close>

section \<open>The layout of the shared memory\<close>

abbreviation (input) sizeof_VCHIQ_SLOT_ZERO :: u32 where "sizeof_VCHIQ_SLOT_ZERO \<equiv> 1288"
abbreviation (input) VCHIQ_MAGIC :: u32 where "VCHIQ_MAGIC \<equiv> 0x56434849"
abbreviation (input) VCHIQ_VERSION :: u16 where "VCHIQ_VERSION \<equiv> 8"
abbreviation (input) VCHIQ_VERSION_MIN :: u16 where "VCHIQ_VERSION_MIN \<equiv> 3"

definition slotMemorySize :: u32 where
  "slotMemorySize = VCHIQ_DEFAULT_TOTAL_SLOTS * VCHIQ_SLOT_SIZE"

definition fragMemorySize :: u32 where
  "fragMemorySize = 2 * 32 * VCHIQ_MAX_FRAGMENTS"

definition VCHIQ_SLOT_ZERO_SLOTS :: u32 where
  "VCHIQ_SLOT_ZERO_SLOTS = (sizeof_VCHIQ_SLOT_ZERO + VCHIQ_SLOT_SIZE - 1) div VCHIQ_SLOT_SIZE"

definition memAlign_of :: "handle \<Rightarrow> u32" where
  "memAlign_of ptr = ucast ((ucast VCHIQ_SLOT_SIZE - (of_nat ptr :: u64)) AND ucast VCHIQ_SLOT_MASK)"

definition numSlots_of :: "handle \<Rightarrow> u32" where
  "numSlots_of ptr =
     (slotMemorySize + fragMemorySize - memAlign_of ptr) div VCHIQ_SLOT_SIZE - VCHIQ_SLOT_ZERO_SLOTS"

definition init_slot_zero :: "u32 \<Rightarrow> VCHIQ_SLOT_ZERO \<Rightarrow> VCHIQ_SLOT_ZERO" where
  "init_slot_zero numSlots z = (let firstDataSlot = VCHIQ_SLOT_ZERO_SLOTS in z\<lparr>
     Magic := VCHIQ_MAGIC, Version := VCHIQ_VERSION, VersionMin := VCHIQ_VERSION_MIN,
     SlotZeroSize := sizeof_VCHIQ_SLOT_ZERO, SlotSize := VCHIQ_SLOT_SIZE,
     MaxSlots := of_nat VCHIQ_MAX_SLOTS, MaxSlotsPerSide := VCHIQ_MAX_SLOTS_PER_SIDE,
     Master := (Master z)\<lparr>SlotSync := firstDataSlot, SlotFirst := firstDataSlot + 1,
       SlotLast := firstDataSlot + numSlots div 2 - 1\<rparr>,
     Slave := (Slave z)\<lparr>SlotSync := firstDataSlot + numSlots div 2,
       SlotFirst := firstDataSlot + numSlots div 2 + 1,
       SlotLast := firstDataSlot + numSlots - 1,
       Trigger := VCHIQ_ENABLE_EVENT_INTERRUPT (Trigger (Slave z)),
       Recycle := VCHIQ_ENABLE_EVENT_INTERRUPT (Recycle (Slave z)),
       Initialised := 1\<rparr>\<rparr>)"

text \<open>
  The slave's queue: its slots in order, \<open>n\<close> of them, the length of the range of the loop.
  The index is where the next one goes.
\<close>

fun fill_slot_queue :: "u32 \<Rightarrow> nat \<Rightarrow> nat \<Rightarrow> (nat \<Rightarrow> u32) \<Rightarrow> nat \<times> (nat \<Rightarrow> u32)" where
  "fill_slot_queue slotCount 0 i q = (i, q)"
| "fill_slot_queue slotCount (Suc n) i q = fill_slot_queue (slotCount + 1) n (i + 1) (q(i := slotCount))"

definition VchiqInit_queue :: "os \<Rightarrow> (world, unit) state" where
  "VchiqInit_queue os = do {
     w \<leftarrow> get;
     let s = Slave (slot_zero w);
         (i, q) = fill_slot_queue (SlotFirst s) (unat (SlotLast s) + 1 - unat (SlotFirst s)) 0 (SlotQueue s);
         totalTxSlot = of_nat i - 1
     in do {
       update_slave (SlotQueue_update (\<lambda>_. q));
       _ \<leftarrow> ext os (Ke (KeInitializeSemaphore totalTxSlot totalTxSlot));
       update (RecycleTxSlotIndex_update (\<lambda>_. totalTxSlot));
       update_slave (SlotQueueRecycle_update (\<lambda>_. totalTxSlot));
       update (AvailableTxSlotCount_update (\<lambda>_. totalTxSlot))
     }
   }"

text \<open>
  The fragments are chained by the virtual addresses of their successors, each in the first
  8 bytes of a fragment of 64 bytes, after the slots.
\<close>

definition le64 :: "u64 \<Rightarrow> u8 list" where
  "le64 x = le32 (ucast x) @ le32 (ucast (drop_bit 32 x))"

fun link_fragments :: "handle \<Rightarrow> nat \<Rightarrow> nat \<Rightarrow> (nat \<Rightarrow> u8) \<Rightarrow> (nat \<Rightarrow> u8)" where
  "link_fragments base i 0 m = store_bytes (unat slotMemorySize + i * 64) (le64 0) m"
| "link_fragments base i (Suc n) m = link_fragments base (i + 1) n
     (store_bytes (unat slotMemorySize + i * 64)
       (le64 (of_nat (base + unat slotMemorySize + (i + 1) * 64))) m)"

definition VchiqInit_fragments :: "u32 \<Rightarrow> (world, unit) state" where
  "VchiqInit_fragments slotMemoryPhy = do {
     update (slot_zero_update (PlatformData_update (\<lambda>p.
       p(0 := slotMemoryPhy + slotMemorySize, 1 := VCHIQ_MAX_FRAGMENTS))));
     update (\<lambda>w. w\<lparr>mem := link_fragments (SlotZeroPtr w) 0 (unat VCHIQ_MAX_FRAGMENTS - 1) (mem w)\<rparr>)
   }"

text \<open>The threads; their start routines are numbered as in \<open>startRoutine\<close>.\<close>

fun VchiqInit_threads :: "os \<Rightarrow> nat \<Rightarrow> nat \<Rightarrow> ntstatus \<Rightarrow> (world, ntstatus) state" where
  "VchiqInit_threads os i 0 status = return status"
| "VchiqInit_threads os i (Suc n) status = do {
     _ \<leftarrow> ext os (Ke (KeInitializeEvent (VchiqThreadEventObj i)));
     r \<leftarrow> ext os (Ke (PsCreateSystemThread i));
     if \<not> NT_SUCCESS (r_status r) then return (r_status r)
     else do {
       update (VchiqThreadHandle_update (\<lambda>t. t(i := r_ptr r)));
       obj \<leftarrow> ext os (Ke (ObReferenceObjectByHandle (r_ptr r)));
       if \<not> NT_SUCCESS (r_status obj) then return (r_status obj)
       else do {
         update (VchiqThreadObj_update (\<lambda>t. t(i := r_ptr obj)));
         _ \<leftarrow> ext os (Ke (ZwClose (r_ptr r)));
         update (VchiqThreadHandle_update (\<lambda>t. t(i := 0)));
         VchiqInit_threads os (i + 1) n (r_status obj)
       }
     }
   }"

definition VchiqInit :: "os \<Rightarrow> (world, ntstatus) state" where
  "VchiqInit os = do {
     status \<leftarrow> VchiqAllocPhyContiguous os (slotMemorySize + fragMemorySize) (Some SlotZeroPtr_update);
     if \<not> NT_SUCCESS status then return STATUS_INSUFFICIENT_RESOURCES
     else do {
       w \<leftarrow> get;
       phy \<leftarrow> ext os (Mm (MmGetPhysicalAddress (SlotZeroPtr w)));
       update (SlotMemoryPhy_update (\<lambda>_. r_phys phy));
       let memAlign = memAlign_of (SlotZeroPtr w)
       in do {
         update (slot_zero_update (init_slot_zero (numSlots_of (SlotZeroPtr w))));
         VchiqInit_queue os;
         update (SlotZeroPtr_update (\<lambda>p. p + unat memAlign));
         VchiqInit_fragments (ucast (r_phys phy) + OFFSET_DIRECT_SDRAM);
         _ \<leftarrow> ext os (Ke (KeInitializeEvent VchiqThreadEventStopObj));
         VchiqInit_threads os 0 THREAD_MAX_SUPPORTED STATUS_SUCCESS
       }
     }
   }"

fun VchiqRelease_threads :: "os \<Rightarrow> nat \<Rightarrow> nat \<Rightarrow> (world, unit) state" where
  "VchiqRelease_threads os i 0 = return ()"
| "VchiqRelease_threads os i (Suc n) = do {
     w \<leftarrow> get;
     do_when (VchiqThreadObj w i \<noteq> 0) (do {
       _ \<leftarrow> ext os (Ke (KeSetEvent VchiqThreadEventStopObj));
       _ \<leftarrow> ext os (Ke (KeWaitForSingleObject (VchiqThreadObj w i)));
       _ \<leftarrow> ext os (Ke (ObDereferenceObject (VchiqThreadObj w i)));
       update (VchiqThreadObj_update (\<lambda>t. t(i := 0)))
     });
     do_when (VchiqThreadHandle w i \<noteq> 0) (do {
       _ \<leftarrow> ext os (Ke (ZwClose (VchiqThreadHandle w i)));
       update (VchiqThreadHandle_update (\<lambda>t. t(i := 0)))
     });
     VchiqRelease_threads os (i + 1) n
   }"

definition VchiqRelease :: "os \<Rightarrow> (world, ntstatus) state" where
  "VchiqRelease os = do {
     _ \<leftarrow> VchiqFreePhyContiguous os SlotZeroPtr SlotZeroPtr_update;
     VchiqRelease_threads os 0 THREAD_MAX_SUPPORTED;
     return STATUS_SUCCESS
   }"

section \<open>Interrupts and threads\<close>

definition VchiqIsr :: "os \<Rightarrow> (world, bool) state" where
  "VchiqIsr os = do {
     r \<leftarrow> ext os (Mm (ReadRegister BELL0));
     if r_val r AND 0x4 \<noteq> 0 then do {
       w \<leftarrow> get;
       _ \<leftarrow> ext os (Wdf (WdfInterruptQueueDpcForIsr (VchiqIntObj w)));
       return True
     } else return False
   }"

text \<open>One event of the slave: armed and fired, it is disarmed and its thread is woken.\<close>

definition VchiqDpc_event ::
  "os \<Rightarrow> (VCHIQ_SHARED_STATE \<Rightarrow> VCHIQ_REMOTE_EVENT) \<Rightarrow>
   ((VCHIQ_REMOTE_EVENT \<Rightarrow> VCHIQ_REMOTE_EVENT) \<Rightarrow> VCHIQ_SHARED_STATE \<Rightarrow> VCHIQ_SHARED_STATE) \<Rightarrow>
   nat \<Rightarrow> (world, unit) state" where
  "VchiqDpc_event os event event_update thread = do {
     w \<leftarrow> get;
     do_when (Armed (event (Slave (slot_zero w))) \<noteq> 0 \<and> Fired (event (Slave (slot_zero w))) \<noteq> 0) (do {
       update_slave (event_update (Armed_update (\<lambda>_. 0)));
       _ \<leftarrow> ext os (Ke (KeSetEvent (VchiqThreadEventObj thread)));
       return ()
     })
   }"

abbreviation (input) THREAD_TRIGGER :: nat where "THREAD_TRIGGER \<equiv> 0"
abbreviation (input) THREAD_RECYCLE :: nat where "THREAD_RECYCLE \<equiv> 1"
abbreviation (input) THREAD_SYNC :: nat where "THREAD_SYNC \<equiv> 2"
abbreviation (input) THREAD_SYNC_RELEASE :: nat where "THREAD_SYNC_RELEASE \<equiv> 3"

definition VchiqDpc :: "os \<Rightarrow> (world, unit) state" where
  "VchiqDpc os = do {
     VchiqDpc_event os Trigger Trigger_update THREAD_TRIGGER;
     VchiqDpc_event os Recycle Recycle_update THREAD_RECYCLE;
     VchiqDpc_event os SyncTrigger SyncTrigger_update THREAD_SYNC;
     VchiqDpc_event os SyncRelease SyncRelease_update THREAD_SYNC_RELEASE
   }"

text \<open>
  One turn of a thread: the result says whether the thread goes on. A fired event is served
  without waiting; a failed wait is tried again.
\<close>

definition thread_turn ::
  "os \<Rightarrow> (VCHIQ_SHARED_STATE \<Rightarrow> VCHIQ_REMOTE_EVENT) \<Rightarrow> nat \<Rightarrow> (world, unit) state \<Rightarrow> (world, bool) state" where
  "thread_turn os event thread serve = do {
     w \<leftarrow> get;
     status \<leftarrow> (if VCHIQ_IS_EVENT_SIGNAL (event (Slave (slot_zero w))) then return STATUS_WAIT_0
       else VchiqWaitForEvents os (VchiqThreadEventObj thread) VchiqThreadEventStopObj False);
     if \<not> NT_SUCCESS status then return True
     else if status = STATUS_WAIT_0 then do { serve; return True }
     else if status = STATUS_WAIT_1 then return False
     else return True
   }"

definition VchiqTriggerThreadRoutine_turn :: "os \<Rightarrow> (world, bool) state" where
  "VchiqTriggerThreadRoutine_turn os = thread_turn os Trigger THREAD_TRIGGER (do {
     _ \<leftarrow> VchiqProcessRxSlot os;
     return ()
   })"

definition VchiqRecycleThreadRoutine_turn :: "os \<Rightarrow> (world, bool) state" where
  "VchiqRecycleThreadRoutine_turn os = thread_turn os Recycle THREAD_RECYCLE (do {
     _ \<leftarrow> VchiqProcessRecycleTxSlot os;
     return ()
   })"

definition VchiqSyncThreadRoutine_turn :: "os \<Rightarrow> (world, bool) state" where
  "VchiqSyncThreadRoutine_turn os = thread_turn os SyncTrigger THREAD_SYNC (return ())"

definition VchiqSyncReleaseThreadRoutine_turn :: "os \<Rightarrow> (world, bool) state" where
  "VchiqSyncReleaseThreadRoutine_turn os = thread_turn os SyncRelease THREAD_SYNC_RELEASE (return ())"

section \<open>Registration with the mailbox driver\<close>

definition VchiqEnableInterrupts :: "(world, ntstatus) state" where
  "VchiqEnableInterrupts = return STATUS_SUCCESS"

definition VchiqDisableInterrupts :: "(world, ntstatus) state" where
  "VchiqDisableInterrupts = return STATUS_SUCCESS"

definition VchiqInitOperation :: "os \<Rightarrow> bool \<Rightarrow> (world, ntstatus) state" where
  "VchiqInitOperation os fromD3Final =
     (if \<not> fromD3Final then return STATUS_SUCCESS
      else do {
        status \<leftarrow> VchiqEnableInterrupts;
        if \<not> NT_SUCCESS status then return status
        else do {
          status \<leftarrow> VchiqInit os;
          if \<not> NT_SUCCESS status then return status
          else do {
            r \<leftarrow> ext os (Dev IoRegisterPlugPlayNotification);
            update (RpiqNotificationHandle_update (\<lambda>h. if NT_SUCCESS (r_status r) then r_ptr r else h));
            return (r_status r)
          }
        }
      })"

abbreviation (input) MAILBOX_CHANNEL_VCHIQ :: u32 where "MAILBOX_CHANNEL_VCHIQ \<equiv> 3"

definition VchiqInterfaceCallback :: "os \<Rightarrow> bool \<Rightarrow> handle \<Rightarrow> (world, ntstatus) state" where
  "VchiqInterfaceCallback os arrival device =
     (if \<not> arrival then return STATUS_SUCCESS
      else if device = 0 then return STATUS_INVALID_PARAMETER
      else do {
        t \<leftarrow> ext os (Dev (WdfIoTargetCreate device));
        if \<not> NT_SUCCESS (r_status t) then return (r_status t)
        else do {
          o' \<leftarrow> ext os (Dev (WdfIoTargetOpen (r_ptr t)));
          if \<not> NT_SUCCESS (r_status o') then do {
            _ \<leftarrow> ext os (Wdf (WdfObjectDelete (r_ptr t)));
            return (r_status o')
          } else do {
            w \<leftarrow> get;
            r \<leftarrow> ext os (Dev (WdfIoTargetSendIoctlSynchronously (r_ptr t) MAILBOX_CHANNEL_VCHIQ
                   (ucast (SlotMemoryPhy w) OR OFFSET_DIRECT_SDRAM)));
            _ \<leftarrow> ext os (Wdf (WdfObjectDelete (r_ptr t)));
            return (r_status r)
          }
        }
      })"

section \<open>The device\<close>

text \<open>
  The scan of the resources: it stops once it has seen a memory and an interrupt resource.
  The results are the status so far and the two counts.
\<close>

fun scan_resources :: "os \<Rightarrow> resource list \<Rightarrow> nat \<Rightarrow> nat \<Rightarrow> (world, ntstatus \<times> nat \<times> nat) state" where
  "scan_resources os [] memc intc = return (STATUS_SUCCESS, memc, intc)"
| "scan_resources os (r # rs) memc intc = (case r of
      ResourceMemory start len \<Rightarrow> do {
        p \<leftarrow> ext os (Mm (MmMapIoSpaceEx start len));
        update (VchiqRegisterPtr_update (\<lambda>_. r_ptr p));
        if r_ptr p = 0 then return (STATUS_UNSUCCESSFUL, memc, intc)
        else do {
          update (VchiqRegisterLength_update (\<lambda>_. len));
          if intc \<noteq> 0 then return (STATUS_SUCCESS, memc + 1, intc)
          else scan_resources os rs (memc + 1) intc
        }
      }
    | ResourceInterrupt \<Rightarrow> do {
        w \<leftarrow> get;
        p \<leftarrow> ext os (Dev (WdfInterruptCreate (Device w)));
        if \<not> NT_SUCCESS (r_status p) then return (r_status p, memc, intc)
        else do {
          update (VchiqIntObj_update (\<lambda>_. r_ptr p));
          if memc \<noteq> 0 then return (STATUS_SUCCESS, memc, intc + 1)
          else scan_resources os rs memc (intc + 1)
        }
      }
    | ResourceOther \<Rightarrow>
        if memc \<noteq> 0 \<and> intc \<noteq> 0 then return (STATUS_SUCCESS, memc, intc)
        else scan_resources os rs memc intc)"

definition VchiqPrepareHardware :: "os \<Rightarrow> resource list \<Rightarrow> (world, ntstatus) state" where
  "VchiqPrepareHardware os ResourcesTranslated = do {
     (status, memc, intc) \<leftarrow> scan_resources os ResourcesTranslated 0 0;
     if \<not> NT_SUCCESS status then return status
     else if memc \<noteq> 1 \<and> intc \<noteq> 1 then return STATUS_UNSUCCESSFUL
     else return STATUS_SUCCESS
   }"

definition VchiqReleaseHardware :: "os \<Rightarrow> (world, ntstatus) state" where
  "VchiqReleaseHardware os = do {
     w \<leftarrow> get;
     do_when (VchiqRegisterPtr w \<noteq> 0) (do {
       _ \<leftarrow> ext os (Mm (MmUnmapIoSpace (VchiqRegisterPtr w) (VchiqRegisterLength w)));
       update (VchiqRegisterPtr_update (\<lambda>_. 0))
     });
     _ \<leftarrow> VchiqRelease os;
     w \<leftarrow> get;
     do_when (RpiqNotificationHandle w \<noteq> 0) (do {
       _ \<leftarrow> ext os (Dev (IoUnregisterPlugPlayNotification (RpiqNotificationHandle w)));
       update (RpiqNotificationHandle_update (\<lambda>_. 0))
     });
     return STATUS_SUCCESS
   }"

definition VchiqIoStop :: "os \<Rightarrow> handle \<Rightarrow> (world, unit) state" where
  "VchiqIoStop os WdfRequest = do {
     _ \<leftarrow> ext os (Req (WdfRequestStopAcknowledge WdfRequest True));
     return ()
   }"

definition VchiqCreateDevice :: "os \<Rightarrow> (world, ntstatus) state" where
  "VchiqCreateDevice os = do {
     d \<leftarrow> ext os (Dev WdfDeviceCreate);
     if \<not> NT_SUCCESS (r_status d) then return (r_status d)
     else do {
       update (Device_update (\<lambda>_. r_ptr d));
       p \<leftarrow> ext os (Dev (WdfDeviceWdmGetPhysicalDevice (r_ptr d)));
       update (PhyDeviceObjectPtr_update (\<lambda>_. r_ptr p));
       q \<leftarrow> ext os (Wdf (WdfIoQueueCreate (r_ptr d)));
       if \<not> NT_SUCCESS (r_status q) then return (r_status q)
       else do {
         l \<leftarrow> ext os (Dev (WdfDeviceCreateSymbolicLink (r_ptr d)));
         return (r_status l)
       }
     }
   }"

end
