(* ===== verification/Vchiq_Credit.thy ===== *)
theory Vchiq_Credit
  imports Vchiq_Tx
begin

text \<open>
  The accounting of transmit slots. The semaphore holds one count for each slot the firmware
  has published that the driver has not entered. \<open>tx_credit\<close> states this between the stream
  position, the semaphore (read off the trace), the driver's own counter and the recycle
  index; positions wrap at \<open>2 ^ 32\<close> bytes, that is at \<open>2 ^ 20\<close> slots.
\<close>

section \<open>Slots entered\<close>

definition slots_entered :: "u32 \<Rightarrow> nat" where
  "slots_entered p = (unat p + 4095) div 4096"

lemma slots_entered_add:
  assumes a: "0 < unat a" "unat p mod 4096 + unat a \<le> 4096"
  shows "slots_entered (p + a) mod 1048576 = (unat p div 4096 + 1) mod 1048576"
proof -
  define q s where "q = unat p div 4096" and "s = unat p mod 4096 + unat a"
  have sum: "unat p + unat a = 4096 * q + s" by (simp add: q_def s_def)
  have q: "q < 1048576" using unat_u32_less [of p] by (simp add: q_def less_mult_imp_div_less)
  have u: "unat (p + a) = (4096 * q + s) mod 4294967296"
    by (simp add: unat_word_ariths flip: sum)
  have s: "0 < s" "s \<le> 4096" using a by (simp_all add: s_def)
  show ?thesis
  proof (cases "s = 4096 \<and> q = 1048575")
    case True
    then show ?thesis by (simp add: slots_entered_def u flip: q_def)
  next
    case False
    then have "4096 * q + s < 4294967296" using q s by linarith
    then have "slots_entered (p + a) = (4096 * q + (s + 4095)) div 4096"
      by (simp add: slots_entered_def u)
    also have "\<dots> = q + 1" using s by simp
    finally show ?thesis by (simp add: q_def)
  qed
qed

lemma slots_entered_split:
  "slots_entered p = unat p div 4096 + (if unat p mod 4096 = 0 then 0 else 1)"
proof -
  define q r where "q = unat p div 4096" and "r = unat p mod 4096"
  have p: "unat p = 4096 * q + r" and r: "r < 4096" by (simp_all add: q_def r_def)
  have "(4096 * q + r + 4095) div 4096 = q + (r + 4095) div 4096" by simp
  moreover have "(r + 4095) div 4096 = (if r = 0 then 0 else 1)"
    using r by (auto simp: div_nat_eqI)
  ultimately have "slots_entered p = q + (if r = 0 then 0 else 1)"
    by (simp only: slots_entered_def p)
  then show ?thesis by (simp only: q_def r_def)
qed

lemma slots_entered_pad:
  assumes "unat p mod 4096 \<noteq> 0"
  shows "slots_entered (p + of_nat (4096 - unat p mod 4096)) mod 1048576 = slots_entered p mod 1048576"
proof -
  define r where "r = unat p mod 4096"
  have r: "0 < r" "r < 4096" using assms by (simp_all add: r_def)
  then have u: "unat (of_nat (4096 - r) :: u32) = 4096 - r"
    by (simp only: unsigned_of_nat) (simp add: take_bit_nat_eq_self)
  have "slots_entered (p + of_nat (4096 - r)) mod 1048576 = (unat p div 4096 + 1) mod 1048576"
    by (rule slots_entered_add) (use r u r_def in simp_all)
  then show ?thesis using assms by (simp add: slots_entered_split [of p] flip: r_def)
qed

section \<open>The credit\<close>

definition tx_credit :: "world \<Rightarrow> bool" where
  "tx_credit w \<longleftrightarrow> 0 \<le> sem_count (trace w) \<and>
     AvailableTxSlotCount w = of_int (sem_count (trace w)) \<and>
     (int (slots_entered (CurrentTxPos w)) + sem_count (trace w)) mod 1048576 =
       uint (RecycleTxSlotIndex w) mod 1048576"

lemma tx_credit_trace:
  "sem_step (sem_count (trace w)) e = sem_count (trace w) \<Longrightarrow>
   tx_credit (w\<lparr>trace := trace w @ [e]\<rparr>) = tx_credit w"
  by (simp add: tx_credit_def)

lemma credit_shift:
  assumes "(a :: nat) mod 1048576 = b mod 1048576"
  shows "(int a + s) mod 1048576 = (int b + s) mod 1048576"
proof -
  have "int a mod 1048576 = int b mod 1048576"
    using arg_cong [OF assms, of int] by (simp only: zmod_int of_nat_numeral)
  then show ?thesis by (rule mod_add_cong) (rule refl)
qed

lemma pad_credit:
  assumes c: "tx_credit w" and n: "unat n \<le> 4096" and run: "run_state (VchiqAcquireTxSpace_pad n) w = (u, w1)"
  shows "tx_credit w1"
proof (cases "tx_avail w < unat (VCHIQ_GET_SLOT_ALIGN_SIZE n)")
  case True
  then have "unat (CurrentTxPos w) mod 4096 \<noteq> 0"
    using align_bounds(3) [OF n] by (auto simp: tx_avail_def)
  from slots_entered_pad [OF this]
  have e: "slots_entered (CurrentTxPos w + of_nat (tx_avail w)) mod 1048576
      = slots_entered (CurrentTxPos w) mod 1048576"
    by (simp only: tx_avail_def)
  have w1: "trace w1 = trace w" "AvailableTxSlotCount w1 = AvailableTxSlotCount w"
    "RecycleTxSlotIndex w1 = RecycleTxSlotIndex w" "CurrentTxPos w1 = CurrentTxPos w + of_nat (tx_avail w)"
    using run True by (auto simp: run_pad split: option.splits)
  show ?thesis using c by (simp only: tx_credit_def w1 credit_shift [OF e])
next
  case False
  with run c show ?thesis by (simp add: run_pad)
qed

text \<open>A wait that succeeds takes the count down; under \<open>semaphore_waits\<close> there was one.\<close>

lemma next_slot_credit:
  assumes sem: "semaphore_waits os" and run: "run_state (VchiqAcquireTxSpace_next_slot os f False) w = (st, w')"
    and c: "0 \<le> sem_count (trace w)" "AvailableTxSlotCount w = of_int (sem_count (trace w))"
  shows "0 \<le> sem_count (trace w')" "AvailableTxSlotCount w' = of_int (sem_count (trace w'))"
    "sem_count (trace w') = sem_count (trace w) - (if NT_SUCCESS st then 1 else 0)"
    "RecycleTxSlotIndex w' = RecycleTxSlotIndex w" "CurrentTxPos w' = CurrentTxPos w"
proof -
  have sm: "r_status (os (trace w) (Ke (KeWaitForMultipleObjects AvailableTxSlotObj (FileEventStopObj f) (\<not> False))))
      \<in> (if 0 < sem_count (trace w) then {STATUS_WAIT_0, STATUS_WAIT_1, STATUS_TIMEOUT}
         else {STATUS_WAIT_1, STATUS_TIMEOUT})"
    using sem unfolding semaphore_waits_def by blast
  from run have "0 \<le> sem_count (trace w') \<and> AvailableTxSlotCount w' = of_int (sem_count (trace w')) \<and>
    sem_count (trace w') = sem_count (trace w) - (if NT_SUCCESS st then 1 else 0) \<and>
    RecycleTxSlotIndex w' = RecycleTxSlotIndex w \<and> CurrentTxPos w' = CurrentTxPos w"
  proof (cases rule: next_slot_cases [consumes 1, case_names slot none])
    case (slot r)
    then have "sem_count (trace w') = sem_count (trace w) - 1" by (simp add: sem_step_def)
    with slot c sm show ?thesis by (auto split: if_splits)
  next
    case (none r)
    then have "sem_count (trace w') = sem_count (trace w)" by (auto simp: sem_step_def)
    with none c show ?thesis by simp
  qed
  then show "0 \<le> sem_count (trace w')" "AvailableTxSlotCount w' = of_int (sem_count (trace w'))"
    "sem_count (trace w') = sem_count (trace w) - (if NT_SUCCESS st then 1 else 0)"
    "RecycleTxSlotIndex w' = RecycleTxSlotIndex w" "CurrentTxPos w' = CurrentTxPos w"
    by blast+
qed

lemma acquire_credit:
  assumes sem: "semaphore_waits os" and inv: "tx_inv w" and c: "tx_credit w"
    and n: "0 < unat n" "unat n \<le> 4096"
    and run: "run_state (VchiqAcquireTxSpace os f n False) w = ((st, hdr), w')"
  shows "tx_credit w'"
  using run
proof (cases rule: acquire_cases)
  case (ok w1 w2)
  let ?a = "VCHIQ_GET_SLOT_ALIGN_SIZE n" and ?p = "CurrentTxPos w1"
  note pad = pad_spec [OF inv n(2) ok(1)]
  have c1: "tx_credit w1" by (rule pad_credit [OF c n(2) ok(1)])
  have a: "0 < unat ?a" using align_bounds(2) [OF n(2)] n by simp
  have e: "slots_entered (?p + ?a) mod 1048576 = (unat ?p div 4096 + 1) mod 1048576"
    by (rule slots_entered_add [OF a pad(2)])
  note shift = credit_shift [OF e]
  from ok(2) show ?thesis
  proof (elim disjE conjE)
    assume in_slot: "?p AND 4095 \<noteq> 0" "w2 = w1"
    then have "slots_entered ?p = unat ?p div 4096 + 1"
      by (simp add: slot_offset_eq_0_iff slots_entered_split)
    moreover have "CurrentTxPos w' = ?p + ?a" "trace w' = trace w1"
      "AvailableTxSlotCount w' = AvailableTxSlotCount w1" "RecycleTxSlotIndex w' = RecycleTxSlotIndex w1"
      by (simp_all add: ok(5) in_slot(2))
    ultimately show ?thesis
      using c1 by (simp only: tx_credit_def shift)
  next
    assume new: "?p AND 4095 = 0"
      and run2: "run_state (VchiqAcquireTxSpace_next_slot os f False) w1 = (STATUS_SUCCESS, w2)"
    have c1': "0 \<le> sem_count (trace w1)" "AvailableTxSlotCount w1 = of_int (sem_count (trace w1))"
      using c1 by (simp_all only: tx_credit_def)
    note ns = next_slot_credit [OF sem run2 c1']
    have "slots_entered ?p = unat ?p div 4096"
      using new by (simp add: slot_offset_eq_0_iff slots_entered_split)
    moreover have "CurrentTxPos w' = ?p + ?a" "trace w' = trace w2"
      "AvailableTxSlotCount w' = AvailableTxSlotCount w2" "RecycleTxSlotIndex w' = RecycleTxSlotIndex w1"
      using ns(4,5) by (simp_all add: ok(5))
    moreover have "sem_count (trace w2) = sem_count (trace w1) - 1" using ns(3) by simp
    moreover have "int (unat ?p div 4096 + 1) + (sem_count (trace w1) - 1)
        = int (unat ?p div 4096) + sem_count (trace w1)" by simp
    ultimately show ?thesis
      using c1 ns(1,2) by (simp only: tx_credit_def shift)
  qed
next
  case (fail w1)
  have c1: "tx_credit w1" by (rule pad_credit [OF c n(2) fail(1)])
  then have "0 \<le> sem_count (trace w1)" "AvailableTxSlotCount w1 = of_int (sem_count (trace w1))"
    by (simp_all add: tx_credit_def)
  note ns = next_slot_credit [OF sem fail(3) this]
  then show ?thesis using c1 fail(4) by (simp add: tx_credit_def)
qed

section \<open>Queueing and recycling keep the credit\<close>

lemma credit_ext:
  assumes "tx_credit w" and "\<And>r n. sem_step n (c, r) = n"
  shows "tx_credit (w\<lparr>trace := trace w @ [(c, os (trace w) c)]\<rparr>)"
  using assms by (simp add: tx_credit_def)

lemma credit_mem: "tx_credit (w\<lparr>mem := m\<rparr>) = tx_credit w"
  and credit_slot_zero: "tx_credit (w\<lparr>slot_zero := z\<rparr>) = tx_credit w"
  and credit_ub: "tx_credit (w\<lparr>ub := b\<rparr>) = tx_credit w"
  by (simp_all add: tx_credit_def)

lemma keeps_credit_write_header: "keeps tx_credit (write_header h a b)"
  by (rule keepsI) (simp add: credit_mem credit_ub split: option.split)

lemma keeps_credit_copy: "keeps tx_credit (RtlCopyToSlot h off bs)"
  by (rule keepsI) (simp add: credit_mem credit_ub split: option.split)

lemma keeps_credit_publish: "keeps tx_credit (VchiqPublishTx os)"
  by (rule keepsI)
    (auto simp: VchiqPublishTx_def VchiqSignalVC_def sem_step_def tx_credit_def split: if_splits)

lemma keeps_credit_ext:
  assumes "\<And>r n. sem_step n (c, r) = n"
  shows "keeps tx_credit (ext os c)"
  by (rule keeps_ext) (simp add: tx_credit_trace assms)

lemma tx_inv_trace: "tx_inv (w\<lparr>trace := t\<rparr>) = tx_inv w"
  by (simp add: tx_inv_def)

lemma acquire_triple:
  assumes sem: "semaphore_waits os" and n: "0 < unat n" "unat n \<le> 4096"
  shows "triple (\<lambda>w. tx_inv w \<and> tx_credit w) (VchiqAcquireTxSpace os f n False) (\<lambda>_ w. tx_credit w)"
proof (rule tripleI)
  fix w a w' assume w: "tx_inv w \<and> tx_credit w" and run: "run_state (VchiqAcquireTxSpace os f n False) w = (a, w')"
  obtain st hdr where a: "a = (st, hdr)" by fastforce
  from w run show "tx_credit w'" unfolding a by (blast intro: acquire_credit [OF sem _ _ n])
qed

lemmas credit_keeps =
  keeps_bind keeps_return keeps_when keeps_if keeps_case_option keeps_credit_write_header
  keeps_credit_copy keeps_credit_publish keeps_credit_ext

lemma queue_message_credit:
  assumes sem: "semaphore_waits os" and n: "unat n \<le> 4088"
  shows "triple (\<lambda>w. tx_inv w \<and> tx_credit w) (VchiqQueueMessageAsync os f msgid buf n) (\<lambda>_ w. tx_credit w)"
proof -
  have size: "0 < unat (8 + n)" "unat (8 + n) \<le> 4096"
    using n by (simp_all add: unat_word_ariths)
  have lock: "keeps (\<lambda>w. tx_inv w \<and> tx_credit w) (ext os (Ke (ExAcquireMutex TxSlotMutex)))"
    by (rule keeps_ext) (simp add: tx_inv_trace tx_credit_trace sem_step_def)
  show ?thesis
    unfolding VchiqQueueMessageAsync_def
    by (rule keeps_then [OF lock], rule step_then [OF acquire_triple [OF sem size]],
        rule triple_case_prod, rule triple_keeps)
      (intro credit_keeps; simp add: sem_step_def)
qed

text \<open>
  C4. The accounting of transmit slots is kept by \<open>VchiqQueueMessageAsync\<close> (a message of at most
  one slot), whether the message is queued or refused: the semaphore's count is never
  negative, \<open>AvailableTxSlotCount\<close> equals it, and the slots entered so far plus the count are
  the slots the firmware has published. A slot is therefore entered exactly when a count of
  the semaphore was taken for it, and padding out a slot costs none.
\<close>

theorem tx_slots_credited:
  assumes "semaphore_waits os" and "unat n \<le> 4088" and "tx_inv w" and "tx_credit w"
    and "run_state (VchiqQueueMessageAsync os f msgid buf n) w = (st, w')"
  shows "tx_credit w'"
  using tripleD [OF queue_message_credit [OF assms(1,2)] _ assms(5)] assms(3,4) by blast

definition busy_os :: os where
  "busy_os tr c = (case c of
      Ke (KeWaitForMultipleObjects AvailableTxSlotObj _ _) \<Rightarrow>
        if 0 < sem_count tr then ok_reply else ok_reply\<lparr>r_status := STATUS_TIMEOUT\<rparr>
    | _ \<Rightarrow> ok_reply)"

lemma busy_os_waits: "semaphore_waits busy_os"
  by (simp add: semaphore_waits_def busy_os_def ok_reply_def)

text \<open>A driver whose only free slot is slot 0 of the queue sends a message into it.\<close>

definition one_slot_world :: world where
  "one_slot_world = zero_world\<lparr>
     trace := [(Ke (KeInitializeSemaphore 1 64), ok_reply)], AvailableTxSlotCount := 1,
     RecycleTxSlotIndex := 1\<rparr>"

theorem tx_slots_credited_witness:
  "semaphore_waits busy_os \<and> tx_inv one_slot_world \<and> tx_credit one_slot_world \<and>
   tx_credit (snd (run_state (VchiqQueueMessageAsync busy_os 1 0x05001002 (Some [1, 2]) 2) one_slot_world)) \<and>
   CurrentTxPos (snd (run_state (VchiqQueueMessageAsync busy_os 1 0x05001002 (Some [1, 2]) 2) one_slot_world)) = 16"
proof -
  let ?m = "VchiqQueueMessageAsync busy_os 1 0x05001002 (Some [1, 2]) 2"
  have inv: "tx_inv one_slot_world" by (simp add: tx_inv_def one_slot_world_def zero_world_def)
  have c: "tx_credit one_slot_world"
    by (simp add: tx_credit_def one_slot_world_def zero_world_def sem_count_def sem_step_def
        slots_entered_def)
  have run: "run_state ?m one_slot_world = (fst (run_state ?m one_slot_world), snd (run_state ?m one_slot_world))"
    by simp
  have "tx_credit (snd (run_state ?m one_slot_world))"
    by (rule tx_slots_credited [OF busy_os_waits _ inv c run]) simp
  moreover have "CurrentTxPos (snd (run_state ?m one_slot_world)) = 16"
    by (simp add: VchiqQueueMessageAsync_def VchiqAcquireTxSpace_def run_pad
        VchiqAcquireTxSpace_next_slot_def VchiqWaitForEvents_def one_slot_world_def zero_world_def
        busy_os_def ok_reply_def tx_avail_def VCHIQ_GET_SLOT_ALIGN_SIZE_def
        VCHIQ_GET_CURRENT_TX_HEADER_def VchiqPublishTx_def VchiqSignalVC_def sem_count_def sem_step_def)
  ultimately show ?thesis using inv c busy_os_waits by blast
qed

section \<open>Taking slots back\<close>

lemma unat_add_minus_one:
  fixes c t :: u32
  assumes "c \<noteq> t"
  shows "unat (t - c) = Suc (unat (t - (c + 1)))"
proof -
  have "t - (c + 1) = t - c - 1" by simp
  moreover have "t - c \<noteq> 0" using assms by simp
  ultimately show ?thesis by (metis Suc_pred' unat_gt_0 unat_minus_one)
qed

lemma recycle_run:
  "run_state (recycle_tx_slots os c t) w = (u, w') \<Longrightarrow>
   sem_count (trace w') = sem_count (trace w) + int (unat (t - c)) \<and>
   AvailableTxSlotCount w' = AvailableTxSlotCount w + (t - c) \<and>
   CurrentTxPos w' = CurrentTxPos w \<and>
   SlotQueueRecycle (Slave (slot_zero w')) = SlotQueueRecycle (Slave (slot_zero w))"
proof (induction os c t arbitrary: w rule: recycle_tx_slots.induct)
  case (1 os c t)
  show ?case
  proof (cases "c = t")
    case True
    with "1.prems" show ?thesis by (simp add: recycle_tx_slots.simps)
  next
    case False
    let ?w = "snd (run_state (ext os (Ke KeReleaseSemaphore)) w)"
    have "run_state (recycle_tx_slots os (c + 1) t)
        (snd (run_state (update_slave (Recycle_update VCHIQ_RESET_EVENT_SIGNAL))
           (AvailableTxSlotCount_update (\<lambda>n. n + 1) ?w))) = (u, w')"
      using "1.prems" False by (subst (asm) recycle_tx_slots.simps) simp
    from "1.IH" [OF False this] show ?thesis
      using unat_add_minus_one [OF False] by (simp add: sem_step_def)
  qed
qed

lemma of_int_unat [simp]: "of_int (int (unat (x :: u32))) = x"
  by simp

lemma recycle_position:
  fixes c t :: u32
  assumes "p mod 1048576 = uint c mod 1048576"
  shows "(p + int (unat (t - c))) mod 1048576 = uint t mod 1048576"
proof -
  have "int (unat (t - c)) = (uint t - uint c) mod 4294967296"
    by (simp add: uint_word_ariths)
  then have "int (unat (t - c)) mod 1048576 = (uint t - uint c) mod 1048576"
    by (simp add: mod_mod_cancel)
  then have "(p + int (unat (t - c))) mod 1048576 = (uint c + (uint t - uint c)) mod 1048576"
    using assms by (metis mod_add_cong)
  then show ?thesis by simp
qed

text \<open>
  C16. \<open>VchiqProcessRecycleTxSlot\<close> ends for every pair of recycle indices, wrapped or not,
  releases to the semaphore exactly the slots between the index it had reached and the one
  the firmware has published, takes note of that index, arms the event again, and keeps the
  accounting of the transmit slots.
\<close>

theorem recycle_releases_exactly:
  assumes "run_state (VchiqProcessRecycleTxSlot os) w = (st, w')"
  shows "st = STATUS_SUCCESS \<and>
    sem_count (trace w') = sem_count (trace w) +
      int (unat (SlotQueueRecycle (Slave (slot_zero w)) - RecycleTxSlotIndex w)) \<and>
    RecycleTxSlotIndex w' = SlotQueueRecycle (Slave (slot_zero w)) \<and>
    Armed (Recycle (Slave (slot_zero w'))) = 1 \<and>
    (tx_credit w \<longrightarrow> tx_credit w')"
proof -
  let ?c = "RecycleTxSlotIndex w" and ?t = "SlotQueueRecycle (Slave (slot_zero w))"
  obtain w1 where r: "run_state (recycle_tx_slots os ?c ?t) w = ((), w1)"
    by (metis old.unit.exhaust surj_pair)
  note e = recycle_run [OF r]
  from assms r have "st = STATUS_SUCCESS"
    "trace w' = trace w1" "AvailableTxSlotCount w' = AvailableTxSlotCount w1"
    "CurrentTxPos w' = CurrentTxPos w1" "RecycleTxSlotIndex w' = ?t"
    "Armed (Recycle (Slave (slot_zero w'))) = 1"
    by (auto simp: VchiqProcessRecycleTxSlot_def VCHIQ_ENABLE_EVENT_INTERRUPT_def)
  moreover have "tx_credit w'" if c: "tx_credit w"
    using c e recycle_position [of "int (slots_entered (CurrentTxPos w)) + sem_count (trace w)" ?c ?t] calculation
    by (simp add: tx_credit_def add.assoc)
  ultimately show ?thesis using e by simp
qed

text \<open>Two slots come back, one on each side of the wrap of the index.\<close>

theorem recycle_releases_exactly_witness:
  "sem_count (trace (snd (run_state (VchiqProcessRecycleTxSlot quiet_os)
     (zero_world\<lparr>RecycleTxSlotIndex := 0xffffffff,
        slot_zero := zero_slot_zero\<lparr>Slave := zero_shared\<lparr>SlotQueueRecycle := 1\<rparr>\<rparr>\<rparr>)))) = 2"
proof -
  let ?w = "zero_world\<lparr>RecycleTxSlotIndex := 0xffffffff,
        slot_zero := zero_slot_zero\<lparr>Slave := zero_shared\<lparr>SlotQueueRecycle := 1\<rparr>\<rparr>\<rparr>"
  have "run_state (VchiqProcessRecycleTxSlot quiet_os) ?w =
    (fst (run_state (VchiqProcessRecycleTxSlot quiet_os) ?w), snd (run_state (VchiqProcessRecycleTxSlot quiet_os) ?w))"
    by simp
  from recycle_releases_exactly [OF this] show ?thesis by (simp add: zero_world_def)
qed

end
