(* ===== verification/Vchiq_Layout.thy ===== *)
theory Vchiq_Layout
  imports Vchiq_Init Vchiq_Credit
begin

text \<open>
  What \<open>VchiqInit\<close> sets up: the division of the shared memory, the slave's queue of transmit
  slots with the semaphore that counts them, and the chain of fragments. The accounting of the
  transmit slots holds from here on.
\<close>

section \<open>The queue and the fragments\<close>

lemma fill_slot_queue_spec:
  "fill_slot_queue c n i q = (j, q') \<Longrightarrow>
   j = i + n \<and> (\<forall>k. q' k = (if i \<le> k \<and> k < i + n then c + of_nat (k - i) else q k))"
proof (induction c n i q rule: fill_slot_queue.induct)
  case (1 c i q)
  then show ?case by auto
next
  case (2 c n i q)
  note IH = "2.IH" [OF "2.prems" [unfolded fill_slot_queue.simps]]
  have "c + 1 + of_nat (k - (i + 1)) = c + of_nat (k - i)" if "i + 1 \<le> k" for k
    using that by (simp add: of_nat_diff)
  then show ?case using IH by auto
qed

lemma length_le64 [simp]: "length (le64 x) = 8"
  by (simp add: le64_def)

text \<open>Links of different fragments do not overlap.\<close>

lemma link_frame:
  "x < unat slotMemorySize + i * 64 \<Longrightarrow> link_fragments base i n m x = m x"
  by (induction base i n m rule: link_fragments.induct) (simp_all add: store_bytes_outside)

lemma link_same:
  "(\<And>x. x < b \<Longrightarrow> m' x = m x) \<Longrightarrow> a + n \<le> b \<Longrightarrow> load_bytes a n m' = load_bytes a n m"
  by (simp add: load_bytes_def)

lemma link_fragments_spec:
  "i \<le> k \<Longrightarrow> k \<le> i + n \<Longrightarrow>
   load_bytes (unat slotMemorySize + k * 64) 8 (link_fragments base i n m) =
     le64 (if k < i + n then of_nat (base + unat slotMemorySize + (k + 1) * 64) else 0)"
proof (induction base i n m rule: link_fragments.induct)
  case (1 base i m)
  then show ?case by simp
next
  case (2 base i n m)
  show ?case
  proof (cases "k = i")
    case True
    have "load_bytes (unat slotMemorySize + i * 64) 8 (link_fragments base (i + 1) n m') =
        load_bytes (unat slotMemorySize + i * 64) 8 m'" for m'
      by (rule link_same [where b = "unat slotMemorySize + (i + 1) * 64"]) (simp_all add: link_frame)
    then show ?thesis using True by simp
  next
    case False
    then show ?thesis using 2 by simp
  qed
qed

section \<open>The layout\<close>

text \<open>The threads touch neither the shared memory nor the semaphore.\<close>

definition tx_view :: "world \<Rightarrow> VCHIQ_SLOT_ZERO \<times> (nat \<Rightarrow> u8) \<times> nat \<times> u32 \<times> u32 \<times> u32 \<times> int" where
  "tx_view w = (slot_zero w, mem w, SlotZeroPtr w, CurrentTxPos w, RecycleTxSlotIndex w,
     AvailableTxSlotCount w, sem_count (trace w))"

lemma tx_view_ext: "(\<And>r n. sem_step n (c, r) = n) \<Longrightarrow> keeps (\<lambda>w. R (tx_view w)) (ext os c)"
  by (simp add: keeps_def tx_view_def)

lemma tx_view_threads: "keeps (\<lambda>w. R (tx_view w)) (VchiqInit_threads os i n st)"
proof (induction n arbitrary: i st)
  case 0
  show ?case by (simp add: keeps_return)
next
  case (Suc n)
  have upd: "keeps (\<lambda>w. R (tx_view w)) (update (VchiqThreadHandle_update g))"
    "keeps (\<lambda>w. R (tx_view w)) (update (VchiqThreadObj_update g'))" for g g'
    by (simp_all add: keeps_def tx_view_def)
  show ?case
    unfolding VchiqInit_threads.simps
    by (intro keeps_bind keeps_if keeps_return tx_view_ext upd Suc.IH) (simp_all add: sem_step_def)
qed

lemma memAlign_page:
  assumes "4096 dvd p" "p < 2 ^ 64"
  shows "memAlign_of p = 0"
proof -
  have "take_bit 12 ((4096 :: u64) - of_nat p) = 0"
  proof -
    obtain k where "p = 4096 * k" using assms(1) by blast
    then have "(4096 :: u64) - of_nat p = push_bit 12 (1 - of_nat k)"
      by (simp add: push_bit_eq_mult algebra_simps)
    then show ?thesis by (simp add: take_bit_push_bit)
  qed
  then have "((4096 :: u64) - of_nat p) AND 4095 = 0"
    by (simp add: take_bit_eq_mask mask_eq_exp_minus_1)
  then show ?thesis by (simp add: memAlign_of_def)
qed

lemma slot_counts: "slotMemorySize = 0x41000" "fragMemorySize = 0x1000" "VCHIQ_SLOT_ZERO_SLOTS = 1"
  by (simp_all add: slotMemorySize_def fragMemorySize_def VCHIQ_SLOT_ZERO_SLOTS_def)

lemma numSlots_page: "memAlign_of p = 0 \<Longrightarrow> numSlots_of p = 65"
  by (simp add: numSlots_of_def slot_counts)

section \<open>The layout\<close>

definition page_allocation :: "os \<Rightarrow> world \<Rightarrow> handle \<Rightarrow> bool" where
  "page_allocation os w p \<longleftrightarrow> p \<noteq> 0 \<and> 4096 dvd p \<and> p < 2 ^ 64 \<and>
     r_ptr (os (trace w) (Mm (MmAllocateContiguousNodeMemory (slotMemorySize + fragMemorySize)))) = p"

text \<open>What the shared memory holds once it is laid out for a block at \<open>p\<close>.\<close>

definition slots_laid_out :: "VCHIQ_SLOT_ZERO \<Rightarrow> bool" where
  "slots_laid_out z \<longleftrightarrow>
     Magic z = VCHIQ_MAGIC \<and> Version z = VCHIQ_VERSION \<and> VersionMin z = VCHIQ_VERSION_MIN \<and>
     SlotSync (Master z) = 1 \<and> SlotFirst (Master z) = 2 \<and> SlotLast (Master z) = 32 \<and>
     SlotSync (Slave z) = 33 \<and> SlotFirst (Slave z) = 34 \<and> SlotLast (Slave z) = 65 \<and>
     (\<forall>k<32. SlotQueue (Slave z) k = 34 + of_nat k) \<and> SlotQueueRecycle (Slave z) = 31 \<and>
     Armed (Trigger (Slave z)) = 1 \<and> Armed (Recycle (Slave z)) = 1 \<and> Initialised (Slave z) = 1"

definition fragments_chained :: "handle \<Rightarrow> (nat \<Rightarrow> u8) \<Rightarrow> bool" where
  "fragments_chained p m \<longleftrightarrow> (\<forall>k<64. load_bytes (unat slotMemorySize + k * 64) 8 m =
     le64 (if k < 63 then of_nat (p + unat slotMemorySize + (k + 1) * 64) else 0))"

lemma init_queue_spec:
  assumes run: "run_state (VchiqInit_queue os) w = (u, w')"
    and z: "slot_zero w = init_slot_zero 65 zero_slot_zero"
  shows "slots_laid_out (slot_zero w')"
    and "sem_count (trace w') = 31" "RecycleTxSlotIndex w' = 31" "AvailableTxSlotCount w' = 31"
    and "SlotZeroPtr w' = SlotZeroPtr w" "CurrentTxPos w' = CurrentTxPos w"
proof -
  have range: "SlotFirst (Slave (slot_zero w)) = 34" "SlotLast (Slave (slot_zero w)) = 65"
    by (simp_all add: z init_slot_zero_def slot_counts Let_def)
  obtain j q where fq: "fill_slot_queue 34 32 0 (SlotQueue (Slave (slot_zero w))) = (j, q)"
    by fastforce
  note f = fill_slot_queue_spec [OF fq]
  have j: "j = 32" using f by simp
  have w': "w' = snd (run_state (VchiqInit_queue os) w)" using run by simp
  show "sem_count (trace w') = 31" "RecycleTxSlotIndex w' = 31" "AvailableTxSlotCount w' = 31"
    "SlotZeroPtr w' = SlotZeroPtr w" "CurrentTxPos w' = CurrentTxPos w"
    unfolding w' VchiqInit_queue_def Let_def by (simp_all add: range fq j sem_step_def)
  have "slot_zero w' = (init_slot_zero 65 zero_slot_zero)\<lparr>Slave :=
      (Slave (init_slot_zero 65 zero_slot_zero))\<lparr>SlotQueue := q, SlotQueueRecycle := 31\<rparr>\<rparr>"
    unfolding w' VchiqInit_queue_def Let_def by (simp add: range fq j) (simp add: z)
  then show "slots_laid_out (slot_zero w')"
    using f by (simp add: slots_laid_out_def init_slot_zero_def slot_counts Let_def
        VCHIQ_ENABLE_EVENT_INTERRUPT_def)
qed

lemma init_prefix:
  assumes alloc: "page_allocation os w p" and run: "run_state (VchiqInit os) w = (st, w')"
  obtains w1 where "run_state (VchiqInit_threads os 0 2 STATUS_SUCCESS) w1 = (st, w')"
    "slots_laid_out (slot_zero w1)" "fragments_chained p (mem w1)" "SlotZeroPtr w1 = p"
    "sem_count (trace w1) = 31" "AvailableTxSlotCount w1 = 31" "RecycleTxSlotIndex w1 = 31"
    "CurrentTxPos w1 = CurrentTxPos w"
proof -
  have p: "memAlign_of p = 0" using alloc memAlign_page by (simp add: page_allocation_def)
  define wa where "wa = snd (run_state (do {
     _ \<leftarrow> VchiqAllocPhyContiguous os (slotMemorySize + fragMemorySize) (Some SlotZeroPtr_update);
     w \<leftarrow> get;
     phy \<leftarrow> ext os (Mm (MmGetPhysicalAddress (SlotZeroPtr w)));
     update (SlotMemoryPhy_update (\<lambda>_. r_phys phy));
     update (slot_zero_update (init_slot_zero (numSlots_of (SlotZeroPtr w)))) }) w)"
  have size: "slotMemorySize + fragMemorySize \<noteq> 0" by (simp add: slot_counts)
  have wa: "SlotZeroPtr wa = p" "slot_zero wa = init_slot_zero 65 zero_slot_zero"
    "CurrentTxPos wa = CurrentTxPos w"
    using alloc size p
    by (simp_all add: wa_def VchiqAllocPhyContiguous_def page_allocation_def numSlots_page)
  obtain wb where wb: "run_state (VchiqInit_queue os) wa = ((), wb)"
    by (metis old.unit.exhaust surj_pair)
  note q = init_queue_spec [OF wb wa(2)]
  define wc where "wc = snd (run_state (do {
     update (SlotZeroPtr_update (\<lambda>q. q + unat (memAlign_of p)));
     VchiqInit_fragments (ucast (SlotMemoryPhy wa) + OFFSET_DIRECT_SDRAM);
     ext os (Ke (KeInitializeEvent VchiqThreadEventStopObj)) }) wb)"
  have "run_state (VchiqInit_threads os 0 2 STATUS_SUCCESS) wc = (st, w')"
    using run alloc size p wb
    by (simp add: VchiqInit_def VchiqAllocPhyContiguous_def page_allocation_def wa_def wc_def Let_def
        numSlots_page q(5) [unfolded wa(1)] split: prod.splits)
  moreover have "slots_laid_out (slot_zero wc)"
    using q(1) by (simp add: wc_def slots_laid_out_def VchiqInit_fragments_def)
  moreover have "fragments_chained p (mem wc)"
    using link_fragments_spec [of 0 _ 63 p "mem wb"]
    by (simp add: fragments_chained_def wc_def VchiqInit_fragments_def q(5) wa(1) p)
  moreover have "SlotZeroPtr wc = p" by (simp add: wc_def VchiqInit_fragments_def q(5) wa(1) p)
  moreover have "sem_count (trace wc) = 31" "AvailableTxSlotCount wc = 31" "RecycleTxSlotIndex wc = 31"
    "CurrentTxPos wc = CurrentTxPos w"
    using q(2-4,6) wa(3) by (simp_all add: wc_def VchiqInit_fragments_def sem_step_def)
  ultimately show thesis by (rule that)
qed

text \<open>
  C22. After \<open>VchiqInit\<close> on a page-aligned block, whatever becomes of the threads, the slots are
  divided between the two sides (the firmware's are 2 to 32 with 1 for synchronous messages,
  the driver's 34 to 65 with 33), the driver's queue holds its slots in order with all but the
  last one published and counted by the semaphore, the events of the receive and recycle
  threads are armed, and the 64 fragments form a chain that ends in \<open>NULL\<close>. A fresh driver
  thereby starts with its transmit accounting in order.
\<close>

theorem init_lays_out_slots:
  assumes "page_allocation os w p" and "run_state (VchiqInit os) w = (st, w')"
  shows "slots_laid_out (slot_zero w') \<and> fragments_chained p (mem w') \<and> SlotZeroPtr w' = p \<and>
    sem_count (trace w') = 31 \<and> AvailableTxSlotCount w' = 31 \<and> RecycleTxSlotIndex w' = 31 \<and>
    (CurrentTxPos w = 0 \<longrightarrow> tx_inv w' \<and> tx_credit w')"
proof -
  obtain w1 where w1: "run_state (VchiqInit_threads os 0 2 STATUS_SUCCESS) w1 = (st, w')"
    "slots_laid_out (slot_zero w1)" "fragments_chained p (mem w1)" "SlotZeroPtr w1 = p"
    "sem_count (trace w1) = 31" "AvailableTxSlotCount w1 = 31" "RecycleTxSlotIndex w1 = 31"
    "CurrentTxPos w1 = CurrentTxPos w"
    by (rule init_prefix [OF assms])
  have "tx_view w' = tx_view w1"
    using keeps_run [OF tx_view_threads [where R = "\<lambda>v. v = tx_view w1"] w1(1)] by simp
  then show ?thesis
    using w1 by (auto simp: tx_view_def tx_credit_def tx_inv_def slots_entered_def)
qed

definition page_os :: os where
  "page_os tr c = (case c of
      Mm (MmAllocateContiguousNodeMemory _) \<Rightarrow> ok_reply\<lparr>r_ptr := 0x10000\<rparr>
    | _ \<Rightarrow> ok_reply)"

theorem init_lays_out_slots_witness:
  "page_allocation page_os zero_world 0x10000 \<and>
   tx_credit (snd (run_state (VchiqInit page_os) zero_world))"
proof -
  have alloc: "page_allocation page_os zero_world 0x10000"
    by (simp add: page_allocation_def page_os_def zero_world_def)
  have run: "run_state (VchiqInit page_os) zero_world =
      (fst (run_state (VchiqInit page_os) zero_world), snd (run_state (VchiqInit page_os) zero_world))"
    by simp
  show ?thesis using init_lays_out_slots [OF alloc run] alloc by (simp add: zero_world_def)
qed

text \<open>
  The driver's last slot and the block of fragments are the same page: the number of slots is
  computed from the whole allocation, fragments included.
\<close>

lemma last_slot_is_fragments:
  "memAlign_of p = 0 \<Longrightarrow>
   VCHIQ_GET_HEADER_BY_GLOBAL_INDEX (SlotLast (Slave (init_slot_zero (numSlots_of p) z))) = unat slotMemorySize"
  by (simp add: init_slot_zero_def numSlots_page slot_counts VCHIQ_GET_HEADER_BY_GLOBAL_INDEX_def Let_def)

end
