(* ===== verification/Vchiq_File.thy ===== *)
theory Vchiq_File
  imports Vchiq_Transfer
begin

text \<open>
  File contexts (\<open>file.c\<close>): a file object gets a context, a port number and its queues when a
  client connects, and gives everything back when it is closed.
\<close>

text \<open>
  The search tries the ports in order and takes the first that is free; \<open>None\<close> when there is
  none. The exchange on \<open>ArmPortHandles\<close> is atomic.
\<close>

fun allocate_port :: "handle \<Rightarrow> nat \<Rightarrow> nat \<Rightarrow> (world, nat option) state" where
  "allocate_port file i 0 = return None"
| "allocate_port file i (Suc n) = do {
     w \<leftarrow> get;
     if ArmPortHandles w i = 0 then do {
       update (ArmPortHandles_update (\<lambda>p. p(i := file)));
       update_file file (ArmPortNumber_update (\<lambda>_. of_nat i));
       return (Some i)
     } else allocate_port file (i + 1) n
   }"

fun create_queues :: "os \<Rightarrow> handle \<Rightarrow> nat \<Rightarrow> nat \<Rightarrow> (world, ntstatus) state" where
  "create_queues os file i 0 = return STATUS_SUCCESS"
| "create_queues os file i (Suc n) = do {
     w \<leftarrow> get;
     r \<leftarrow> ext os (Wdf (WdfIoQueueCreate (Device w)));
     if \<not> NT_SUCCESS (r_status r) then return (r_status r)
     else do {
       update_file file (FileQueue_update (\<lambda>q. q(i := r_ptr r)));
       create_queues os file (i + 1) n
     }
   }"

definition create_lookasides :: "os \<Rightarrow> handle \<Rightarrow> handle \<Rightarrow> (world, ntstatus) state" where
  "create_lookasides os WdfFileObject file = do {
     r \<leftarrow> ext os (Wdf (WdfLookasideListCreate WdfFileObject sizeof_VCHIQ_PENDING_MSG));
     if \<not> NT_SUCCESS (r_status r) then return (r_status r)
     else do {
       update_file file (PendingMsgLookAsideMemory_update (\<lambda>_. r_ptr r));
       b \<leftarrow> ext os (Wdf (WdfLookasideListCreate WdfFileObject sizeof_VCHIQ_PENDING_BULK_MSG));
       if \<not> NT_SUCCESS (r_status b) then return (r_status b)
       else do {
         update_file file (PendingBulkMsgLookAsideMemory_update (\<lambda>_. r_ptr b));
         return (r_status b)
       }
     }
   }"

definition initialize_lists :: "os \<Rightarrow> handle \<Rightarrow> (world, ntstatus) state" where
  "initialize_lists os file = do {
     update_file file (\<lambda>c. c\<lparr>PendingDataMsgList := [], PendingVchiMsgList := [],
       PendingBulkMsgList := (\<lambda>_. []), ListsInitialised := True\<rparr>);
     _ \<leftarrow> ext os (Ke (KeInitializeEvent (FileEventStopObj file)));
     r \<leftarrow> ext os (Dma IoGetDmaAdapter);
     update_file file (DmaAdapterPtr_update (\<lambda>_. r_ptr r));
     if r_ptr r = 0 then return STATUS_UNSUCCESSFUL else return STATUS_SUCCESS
   }"

text \<open>
  The context of a file object is \<open>file_context\<close> of it, 0 when it has none; a new one is
  zeroed.
\<close>

definition VchiqAllocateFileObjContext :: "os \<Rightarrow> handle \<Rightarrow> (world, ntstatus \<times> handle) state" where
  "VchiqAllocateFileObjContext os WdfFileObject = do {
     r \<leftarrow> ext os (Wdf (WdfObjectAllocateContext WdfFileObject));
     if \<not> NT_SUCCESS (r_status r) then return (r_status r, 0)
     else let file = r_ptr r in do {
       update (\<lambda>w. w\<lparr>file_context := (file_context w)(WdfFileObject := file),
         files := (files w)(file := zero_file)\<rparr>);
       port \<leftarrow> allocate_port file ARM_PORT_START (MAX_ARM_PORTS - ARM_PORT_START);
       status \<leftarrow> (case port of
           None \<Rightarrow> return STATUS_NO_MORE_FILES
         | Some i \<Rightarrow> do {
             status \<leftarrow> create_queues os file 0 FILE_QUEUE_MAX;
             if \<not> NT_SUCCESS status then return status
             else do {
               status \<leftarrow> create_lookasides os WdfFileObject file;
               if \<not> NT_SUCCESS status then return status else initialize_lists os file
             }
           });
       return (status, file)
     }
   }"

section \<open>Closing\<close>

fun purge_queues :: "os \<Rightarrow> handle \<Rightarrow> nat \<Rightarrow> nat \<Rightarrow> (world, unit) state" where
  "purge_queues os file i 0 = return ()"
| "purge_queues os file i (Suc n) = do {
     w \<leftarrow> get;
     do_when (FileQueue (files w file) i \<noteq> 0) (do {
       _ \<leftarrow> ext os (Req (WdfIoQueuePurgeSynchronously (FileQueue (files w file) i)));
       return ()
     });
     purge_queues os file (i + 1) n
   }"

text \<open>The close message is sent unless the service has been closed already.\<close>

definition VchiqFileClose_notify :: "os \<Rightarrow> handle \<Rightarrow> (world, unit) state" where
  "VchiqFileClose_notify os file = do {
     w \<leftarrow> get;
     do_when (ServiceState (files w file) \<noteq> SERVICE_STATE_CLOSE) (do {
       _ \<leftarrow> VchiqQueueMessageAsync os file (VCHIQ_MAKE_MSG VCHIQ_MSG_CLOSE
              (ArmPortNumber (files w file)) (VCHIQPortNumber (files w file))) None 0;
       return ()
     })
   }"

text \<open>
  Every list is emptied under its mutex. A list whose head was never initialised (the
  allocation of the context failed half-way) is undefined behaviour.
\<close>

definition VchiqFileClose_flush :: "os \<Rightarrow> handle \<Rightarrow> (world, unit) state" where
  "VchiqFileClose_flush os file = do {
     w \<leftarrow> get;
     do_when (\<not> ListsInitialised (files w file)) undefined_behaviour;
     _ \<leftarrow> ext os (Ke (ExAcquireMutex (PendingDataMsgMutex file)));
     _ \<leftarrow> VchiqRemovePendingMsg os file 0;
     _ \<leftarrow> ext os (Ke (ExReleaseMutex (PendingDataMsgMutex file)));
     _ \<leftarrow> ext os (Ke (ExAcquireMutex (PendingBulkMsgMutex file MSG_BULK_TX)));
     _ \<leftarrow> VchiqRemovePendingBulkMsg os file None MSG_BULK_TX True;
     _ \<leftarrow> ext os (Ke (ExReleaseMutex (PendingBulkMsgMutex file MSG_BULK_TX)));
     _ \<leftarrow> ext os (Ke (ExAcquireMutex (PendingBulkMsgMutex file MSG_BULK_RX)));
     _ \<leftarrow> VchiqRemovePendingBulkMsg os file None MSG_BULK_RX True;
     _ \<leftarrow> ext os (Ke (ExReleaseMutex (PendingBulkMsgMutex file MSG_BULK_RX)));
     _ \<leftarrow> ext os (Ke (ExAcquireMutex (PendingVchiMsgMutex file)));
     _ \<leftarrow> VchiqRemovePendingVchiMsg os file 0;
     _ \<leftarrow> ext os (Ke (ExReleaseMutex (PendingVchiMsgMutex file)));
     return ()
   }"

definition VchiqFileClose :: "os \<Rightarrow> handle \<Rightarrow> (world, unit) state" where
  "VchiqFileClose os WdfFileObject = do {
     w \<leftarrow> get;
     let file = file_context w WdfFileObject
     in do_when (file \<noteq> 0) (do {
       VchiqFileClose_notify os file;
       update (\<lambda>w. w\<lparr>ArmPortHandles := (ArmPortHandles w)(unat (ArmPortNumber (files w file)) := 0)\<rparr>);
       _ \<leftarrow> ext os (Ke (KeSetEvent (FileEventStopObj file)));
       purge_queues os file 0 FILE_QUEUE_MAX;
       VchiqFileClose_flush os file;
       w \<leftarrow> get;
       do_when (DmaAdapterPtr (files w file) \<noteq> 0) (do {
         _ \<leftarrow> ext os (Dma (DmaPutDmaAdapter (DmaAdapterPtr (files w file))));
         update_file file (DmaAdapterPtr_update (\<lambda>_. 0))
       })
     })
   }"

end
