(* ===== verification/Vchiq_Ioctl.thy ===== *)
theory Vchiq_Ioctl
  imports Vchiq_File
begin

text \<open>
  The requests of the clients (\<open>ioctl.c\<close>): \<open>VchiqIoDeviceControl\<close> with one definition for
  each control code, and \<open>VchiqInCallerContext\<close>, which locks the caller's buffers before a
  request is queued.

  A handler of \<open>VchiqIoDeviceControl\<close> returns \<open>Some status\<close> where the code jumps to
  \<open>CompleteRequest\<close> with that status, and \<open>None\<close> where it leaves the request to others.
\<close>

datatype ioctl =
    IOCTL_VCHIQ_CONNECT | IOCTL_VCHIQ_SHUTDOWN | IOCTL_VCHIQ_CREATE_SERVICE
  | IOCTL_VCHIQ_REMOVE_SERVICE | IOCTL_VCHIQ_QUEUE_MSG | IOCTL_VCHIQ_BULK_TRANSMIT
  | IOCTL_VCHIQ_BULK_RECEIVE | IOCTL_VCHIQ_AWAIT_COMPLETION | IOCTL_DEQUEUE_MESSAGE
  | IOCTL_VCHIQ_GET_CLIENT_ID | IOCTL_VCHIQ_GET_CONFIG | IOCTL_VCHIQ_CLOSE_SERVICE
  | IOCTL_VCHIQ_USE_SERVICE | IOCTL_VCHIQ_RELEASE_SERVICE | IOCTL_VCHIQ_SET_SERVICE_OPTION
  | IOCTL_VCHIQ_DUMP_PHYS_MEM | IOCTL_VCHIQ_LIB_VERSION | IOCTL_VCHIQ_CLOSE_DELIVERED
  | IOCTL_UNKNOWN u32

abbreviation (input) sizeof_VCHIQ_CREATE_SERVICE :: nat where "sizeof_VCHIQ_CREATE_SERVICE \<equiv> 36"
abbreviation (input) sizeof_VCHIQ_QUEUE_MESSAGE :: nat where "sizeof_VCHIQ_QUEUE_MESSAGE \<equiv> 24"
abbreviation (input) sizeof_VCHIQ_QUEUE_BULK_TRANSFER :: nat where "sizeof_VCHIQ_QUEUE_BULK_TRANSFER \<equiv> 36"
abbreviation (input) sizeof_VCHIQ_GET_CONFIG :: nat where "sizeof_VCHIQ_GET_CONFIG \<equiv> 20"
abbreviation (input) sizeof_VCHIQ_SET_SERVICE_OPTION :: nat where "sizeof_VCHIQ_SET_SERVICE_OPTION \<equiv> 12"
abbreviation (input) sizeof_VCHIQ_CONFIG :: nat where "sizeof_VCHIQ_CONFIG \<equiv> 20"
abbreviation (input) sizeof_VCHIQ_ELEMENT :: nat where "sizeof_VCHIQ_ELEMENT \<equiv> 20"
abbreviation (input) sizeof_VCHIQ_COMPLETION_DATA :: nat where "sizeof_VCHIQ_COMPLETION_DATA \<equiv> 36"

section \<open>Dispatching a message for a request\<close>

text \<open>
  The request waits in \<open>MsgQueue\<close> for the firmware's answer. If the message cannot be sent,
  the request is taken back from the queue; when the framework has cancelled it meanwhile,
  the result is a success, so that it is not completed again.
\<close>

definition VchiqUpdateQueueDispatchMessage ::
  "os \<Rightarrow> handle \<Rightarrow> handle \<Rightarrow> handle \<Rightarrow> u32 \<Rightarrow> u8 list option \<Rightarrow> u32 \<Rightarrow> (world, ntstatus) state" where
  "VchiqUpdateQueueDispatchMessage os file WdfRequest MsgQueue MessageId Buffer BufferSize = do {
     fwd \<leftarrow> (if WdfRequest \<noteq> 0 \<and> MsgQueue \<noteq> 0 then do {
               r \<leftarrow> ext os (Req (WdfRequestForwardToIoQueue WdfRequest MsgQueue));
               return (r_status r)
             } else return STATUS_SUCCESS);
     if \<not> NT_SUCCESS fwd then return fwd
     else do {
       status \<leftarrow> VchiqQueueMessageAsync os file MessageId Buffer BufferSize;
       if \<not> NT_SUCCESS status \<and> WdfRequest \<noteq> 0 \<and> MsgQueue \<noteq> 0 then do {
         r \<leftarrow> ext os (Req (WdfIoQueueRetrieveFoundRequest MsgQueue WdfRequest));
         return (if r_status r = STATUS_NOT_FOUND then STATUS_SUCCESS else status)
       } else return status
     }
   }"

section \<open>Requests that need no file context\<close>

definition ioctl_connect :: "os \<Rightarrow> handle \<Rightarrow> (world, ntstatus option) state" where
  "ioctl_connect os WdfRequest = do {
     f \<leftarrow> ext os (Req (WdfRequestGetFileObject WdfRequest));
     if r_ptr f = 0 then return (Some STATUS_INTERNAL_ERROR)
     else do {
       w \<leftarrow> get;
       if file_context w (r_ptr f) \<noteq> 0 then return (Some STATUS_UNSUCCESSFUL)
       else do {
         (status, file) \<leftarrow> VchiqAllocateFileObjContext os (r_ptr f);
         if \<not> NT_SUCCESS status then return (Some status)
         else do {
           status \<leftarrow> VchiqQueueMessageAsync os file (VCHIQ_MAKE_MSG VCHIQ_MSG_CONNECT 0 0) None 0;
           return (Some status)
         }
       }
     }
   }"

definition vchiqCurrentConfig :: VCHIQ_CONFIG where
  "vchiqCurrentConfig = \<lparr>cf_MaxMsgSize = VCHIQ_SLOT_SIZE - sizeof_VCHIQ_HEADER,
     cf_BulkThreshold = VCHIQ_SLOT_SIZE - sizeof_VCHIQ_HEADER,
     cf_MaxOutstandingBulks = 4, cf_MaxServices = 4096, cf_Version = 8, cf_VersionMin = 3\<rparr>"

definition ioctl_get_config :: "os \<Rightarrow> handle \<Rightarrow> (world, ntstatus option) state" where
  "ioctl_get_config os WdfRequest = do {
     r \<leftarrow> ext os (Req (WdfRequestRetrieveInputBuffer WdfRequest sizeof_VCHIQ_GET_CONFIG));
     if \<not> NT_SUCCESS (r_status r) then return (Some (r_status r))
     else do {
       w \<leftarrow> get;
       let cfg = in_config w WdfRequest
       in if sizeof_VCHIQ_CONFIG < unat (gc_ConfigSize cfg) then return (Some STATUS_INVALID_PARAMETER)
          else do {
            buf \<leftarrow> ext os (Wdf (WdfMemoryGetBuffer (gc_WdfMemoryConfiguration cfg)));
            if r_ptr buf = 0 \<or> r_len buf \<noteq> sizeof_VCHIQ_CONFIG then return (Some STATUS_INVALID_PARAMETER)
            else do {
              update (wdf_config_update (\<lambda>c. c(gc_WdfMemoryConfiguration cfg := vchiqCurrentConfig)));
              return (Some STATUS_SUCCESS)
            }
          }
     }
   }"

definition ioctl_lib_version :: "os \<Rightarrow> handle \<Rightarrow> (world, ntstatus option) state" where
  "ioctl_lib_version os WdfRequest = do {
     r \<leftarrow> ext os (Req (WdfRequestRetrieveInputBuffer WdfRequest sizeof_ULONG));
     if \<not> NT_SUCCESS (r_status r) then return (Some (r_status r))
     else do {
       w \<leftarrow> get;
       return (Some (if in_ulong w WdfRequest < 3 then STATUS_NOT_SUPPORTED else STATUS_SUCCESS))
     }
   }"

text \<open>\<open>Inl\<close> is the status to complete with, \<open>Inr\<close> the file context for the other codes.\<close>

definition ioctl_file_context :: "os \<Rightarrow> handle \<Rightarrow> ioctl \<Rightarrow> (world, ntstatus + handle) state" where
  "ioctl_file_context os WdfRequest code = do {
     f \<leftarrow> ext os (Req (WdfRequestGetFileObject WdfRequest));
     if r_ptr f = 0 then return (Inl STATUS_INTERNAL_ERROR)
     else do {
       w \<leftarrow> get;
       if file_context w (r_ptr f) = 0 \<and> code = IOCTL_VCHIQ_CREATE_SERVICE then do {
         (status, file) \<leftarrow> VchiqAllocateFileObjContext os (r_ptr f);
         return (if \<not> NT_SUCCESS status then Inl status else Inr file)
       } else if file_context w (r_ptr f) = 0 then return (Inl STATUS_UNSUCCESSFUL)
       else return (Inr (file_context w (r_ptr f)))
     }
   }"

section \<open>Requests of a service\<close>

definition open_payload :: "VCHIQ_CREATE_SERVICE \<Rightarrow> u32 \<Rightarrow> u8 list" where
  "open_payload c clientId = le32 (cs_FourCC c) @ le32 clientId @
     [ucast (cs_Version c), ucast (drop_bit 8 (cs_Version c)),
      ucast (cs_VersionMin c), ucast (drop_bit 8 (cs_VersionMin c))]"

definition ioctl_create_service :: "os \<Rightarrow> handle \<Rightarrow> handle \<Rightarrow> (world, ntstatus option) state" where
  "ioctl_create_service os file WdfRequest = do {
     r \<leftarrow> ext os (Req (WdfRequestRetrieveInputBuffer WdfRequest sizeof_VCHIQ_CREATE_SERVICE));
     if \<not> NT_SUCCESS (r_status r) then return (Some (r_status r))
     else do {
       w \<leftarrow> get;
       let c = in_create w WdfRequest
       in do {
         update_file file (IsVchi_update (\<lambda>_. cs_IsVchi c \<noteq> 0));
         update_file file (ServiceUserData_update (\<lambda>_. cs_UserData c));
         w \<leftarrow> get;
         status \<leftarrow> VchiqUpdateQueueDispatchMessage os file WdfRequest
           (FileQueue (files w file) FILE_QUEUE_CREATE_SERVICE)
           (VCHIQ_MAKE_MSG VCHIQ_MSG_OPEN (ArmPortNumber (files w file)) 0)
           (Some (open_payload c (ArmPortNumber (files w file)))) 12;
         return (if \<not> NT_SUCCESS status then Some status else None)
       }
     }
   }"

definition ioctl_shutdown :: "os \<Rightarrow> handle \<Rightarrow> (world, ntstatus option) state" where
  "ioctl_shutdown os file = do {
     w \<leftarrow> get;
     _ \<leftarrow> ext os (Req (WdfIoQueuePurge (FileQueue (files w file) FILE_QUEUE_PENDING_MSG)));
     return (Some STATUS_SUCCESS)
   }"

definition ioctl_close_service :: "os \<Rightarrow> handle \<Rightarrow> handle \<Rightarrow> (world, ntstatus option) state" where
  "ioctl_close_service os file WdfRequest = do {
     w \<leftarrow> get;
     status \<leftarrow> VchiqUpdateQueueDispatchMessage os file WdfRequest
       (FileQueue (files w file) FILE_QUEUE_CLOSE_SERVICE)
       (VCHIQ_MAKE_MSG VCHIQ_MSG_CLOSE (ArmPortNumber (files w file)) (VCHIQPortNumber (files w file)))
       None 0;
     return (if \<not> NT_SUCCESS status then Some status else None)
   }"

text \<open>One element is sent as it is, several are gathered.\<close>

definition ioctl_queue_msg :: "os \<Rightarrow> handle \<Rightarrow> handle \<Rightarrow> (world, ntstatus option) state" where
  "ioctl_queue_msg os file WdfRequest = do {
     r \<leftarrow> ext os (Req (WdfRequestRetrieveInputBuffer WdfRequest sizeof_VCHIQ_QUEUE_MESSAGE));
     if \<not> NT_SUCCESS (r_status r) then return (Some (r_status r))
     else do {
       w \<leftarrow> get;
       let msg = in_message w WdfRequest;
           es = elements w (qm_WdfMemoryElementBuffer msg);
           msgid = VCHIQ_MAKE_MSG VCHIQ_MSG_DATA (ArmPortNumber (files w file)) (VCHIQPortNumber (files w file))
       in do {
         _ \<leftarrow> ext os (Wdf (WdfMemoryGetBuffer (qm_WdfMemoryElementBuffer msg)));
         if qm_Count msg = 1 then (case es of
             [] \<Rightarrow> do { undefined_behaviour; return (Some STATUS_UNSUCCESSFUL) }
           | e # _ \<Rightarrow> do {
               buf \<leftarrow> ext os (Wdf (WdfMemoryGetBuffer (el_WdfMemoryData e)));
               status \<leftarrow> VchiqQueueMessageAsync os file msgid
                 (if r_ptr buf = 0 then None else Some (wdf_bytes w (el_WdfMemoryData e))) (el_Size e);
               return (Some status)
             })
         else do {
           do_when (length es < unat (qm_Count msg)) undefined_behaviour;
           status \<leftarrow> VchiqQueueMultiElementAsync os file msgid (take (unat (qm_Count msg)) es);
           return (Some status)
         }
       }
     }
   }"

definition ioctl_bulk_transmit :: "os \<Rightarrow> handle \<Rightarrow> handle \<Rightarrow> nat \<Rightarrow> nat \<Rightarrow> (world, ntstatus option) state" where
  "ioctl_bulk_transmit os file WdfRequest OutputBufferLength InputBufferLength =
     (if InputBufferLength = 0 \<or> OutputBufferLength < sizeof_VCHIQ_QUEUE_BULK_TRANSFER
      then return (Some STATUS_INVALID_PARAMETER)
      else do {
        mdl \<leftarrow> ext os (Req (WdfRequestRetrieveInputWdmMdl WdfRequest));
        if \<not> NT_SUCCESS (r_status mdl) then return (Some (r_status mdl))
        else do {
          r \<leftarrow> ext os (Req (WdfRequestRetrieveOutputBuffer WdfRequest sizeof_VCHIQ_QUEUE_BULK_TRANSFER));
          if \<not> NT_SUCCESS (r_status r) then return (Some (r_status r))
          else do {
            n \<leftarrow> ext os (Mm (MmGetMdlByteCount (r_ptr mdl)));
            w \<leftarrow> get;
            status \<leftarrow> VchiqProcessBulkTransfer os file WdfRequest (in_bulk w WdfRequest) VCHIQ_MSG_BULK_TX
              (r_ptr mdl) (of_nat (r_len n));
            return (if \<not> NT_SUCCESS status then Some status else None)
          }
        }
      })"

definition ioctl_bulk_receive :: "os \<Rightarrow> handle \<Rightarrow> handle \<Rightarrow> nat \<Rightarrow> nat \<Rightarrow> (world, ntstatus option) state" where
  "ioctl_bulk_receive os file WdfRequest OutputBufferLength InputBufferLength =
     (if OutputBufferLength = 0 \<or> InputBufferLength < sizeof_VCHIQ_QUEUE_BULK_TRANSFER
      then return (Some STATUS_INVALID_PARAMETER)
      else do {
        mdl \<leftarrow> ext os (Req (WdfRequestRetrieveOutputWdmMdl WdfRequest));
        if \<not> NT_SUCCESS (r_status mdl) then return (Some (r_status mdl))
        else do {
          r \<leftarrow> ext os (Req (WdfRequestRetrieveInputBuffer WdfRequest sizeof_VCHIQ_QUEUE_BULK_TRANSFER));
          if \<not> NT_SUCCESS (r_status r) then return (Some (r_status r))
          else do {
            n \<leftarrow> ext os (Mm (MmGetMdlByteCount (r_ptr mdl)));
            w \<leftarrow> get;
            status \<leftarrow> VchiqProcessBulkTransfer os file WdfRequest (in_bulk w WdfRequest) VCHIQ_MSG_BULK_RX
              (r_ptr mdl) (of_nat (r_len n));
            return (if \<not> NT_SUCCESS status then Some status else None)
          }
        }
      })"

definition ioctl_await_completion :: "os \<Rightarrow> handle \<Rightarrow> handle \<Rightarrow> (world, ntstatus option) state" where
  "ioctl_await_completion os file WdfRequest = do {
     w \<leftarrow> get;
     fwd \<leftarrow> ext os (Req (WdfRequestForwardToIoQueue WdfRequest (FileQueue (files w file) FILE_QUEUE_PENDING_MSG)));
     if \<not> NT_SUCCESS (r_status fwd) then return (Some (r_status fwd))
     else do {
       _ \<leftarrow> ext os (Ke (ExAcquireMutex (PendingDataMsgMutex file)));
       status \<leftarrow> VchiqProcessPendingMsg os file;
       _ \<leftarrow> ext os (Ke (ExReleaseMutex (PendingDataMsgMutex file)));
       return (if \<not> NT_SUCCESS status then Some status else None)
     }
   }"

text \<open>Here the failures complete the request on the spot, under the mutex.\<close>

definition ioctl_dequeue_message :: "os \<Rightarrow> handle \<Rightarrow> handle \<Rightarrow> (world, ntstatus option) state" where
  "ioctl_dequeue_message os file WdfRequest = do {
     r \<leftarrow> ext os (Req (WdfRequestRetrieveInputBuffer WdfRequest sizeof_VCHIQ_DEQUEUE_MESSAGE));
     if \<not> NT_SUCCESS (r_status r) then return (Some (r_status r))
     else do {
       _ \<leftarrow> ext os (Ke (ExAcquireMutex (PendingVchiMsgMutex file)));
       w \<leftarrow> get;
       (if \<not> dm_Blocking (in_dequeue w WdfRequest) \<and> PendingVchiMsgList (files w file) = [] then do {
          _ \<leftarrow> ext os (Req (WdfRequestComplete WdfRequest STATUS_NO_MORE_ENTRIES));
          return ()
        } else do {
          fwd \<leftarrow> ext os (Req (WdfRequestForwardToIoQueue WdfRequest
                   (FileQueue (files w file) FILE_QUEUE_PENDING_VCHI_MSG)));
          if \<not> NT_SUCCESS (r_status fwd) then do {
            _ \<leftarrow> ext os (Req (WdfRequestComplete WdfRequest (r_status fwd)));
            return ()
          } else do {
            status \<leftarrow> VchiqProcessPendingVchiMsg os file;
            do_when (\<not> NT_SUCCESS status) (do {
              _ \<leftarrow> ext os (Req (WdfRequestComplete WdfRequest status));
              return ()
            })
          }
        });
       _ \<leftarrow> ext os (Ke (ExReleaseMutex (PendingVchiMsgMutex file)));
       return None
     }
   }"

text \<open>An option out of range is only logged.\<close>

definition ioctl_set_service_option :: "os \<Rightarrow> handle \<Rightarrow> (world, ntstatus option) state" where
  "ioctl_set_service_option os WdfRequest = do {
     r \<leftarrow> ext os (Req (WdfRequestRetrieveInputBuffer WdfRequest sizeof_VCHIQ_SET_SERVICE_OPTION));
     if \<not> NT_SUCCESS (r_status r) then return (Some (r_status r))
     else do {
       w \<leftarrow> get;
       if in_option w WdfRequest < 0 \<or> 4 < in_option w WdfRequest then return (Some (r_status r))
       else return (Some STATUS_SUCCESS)
     }
   }"

definition ioctl_service :: "os \<Rightarrow> handle \<Rightarrow> handle \<Rightarrow> nat \<Rightarrow> nat \<Rightarrow> ioctl \<Rightarrow> (world, ntstatus option) state" where
  "ioctl_service os file WdfRequest outlen inlen code = (case code of
      IOCTL_VCHIQ_CREATE_SERVICE \<Rightarrow> ioctl_create_service os file WdfRequest
    | IOCTL_VCHIQ_SHUTDOWN \<Rightarrow> ioctl_shutdown os file
    | IOCTL_VCHIQ_REMOVE_SERVICE \<Rightarrow> ioctl_close_service os file WdfRequest
    | IOCTL_VCHIQ_CLOSE_SERVICE \<Rightarrow> ioctl_close_service os file WdfRequest
    | IOCTL_VCHIQ_QUEUE_MSG \<Rightarrow> ioctl_queue_msg os file WdfRequest
    | IOCTL_VCHIQ_BULK_TRANSMIT \<Rightarrow> ioctl_bulk_transmit os file WdfRequest outlen inlen
    | IOCTL_VCHIQ_BULK_RECEIVE \<Rightarrow> ioctl_bulk_receive os file WdfRequest outlen inlen
    | IOCTL_VCHIQ_AWAIT_COMPLETION \<Rightarrow> ioctl_await_completion os file WdfRequest
    | IOCTL_DEQUEUE_MESSAGE \<Rightarrow> ioctl_dequeue_message os file WdfRequest
    | IOCTL_VCHIQ_CLOSE_DELIVERED \<Rightarrow> return (Some STATUS_SUCCESS)
    | IOCTL_VCHIQ_USE_SERVICE \<Rightarrow> return (Some STATUS_SUCCESS)
    | IOCTL_VCHIQ_RELEASE_SERVICE \<Rightarrow> return (Some STATUS_SUCCESS)
    | IOCTL_VCHIQ_SET_SERVICE_OPTION \<Rightarrow> ioctl_set_service_option os WdfRequest
    | _ \<Rightarrow> return (Some STATUS_NOT_SUPPORTED))"

definition VchiqIoDeviceControl :: "os \<Rightarrow> handle \<Rightarrow> nat \<Rightarrow> nat \<Rightarrow> ioctl \<Rightarrow> (world, unit) state" where
  "VchiqIoDeviceControl os WdfRequest OutputBufferLength InputBufferLength code = do {
     w \<leftarrow> get;
     status \<leftarrow> (if \<not> VCConnected w then return (Some STATUS_DEVICE_NOT_READY)
       else case code of
           IOCTL_VCHIQ_CONNECT \<Rightarrow> ioctl_connect os WdfRequest
         | IOCTL_VCHIQ_GET_CONFIG \<Rightarrow> ioctl_get_config os WdfRequest
         | IOCTL_VCHIQ_LIB_VERSION \<Rightarrow> ioctl_lib_version os WdfRequest
         | _ \<Rightarrow> do {
             c \<leftarrow> ioctl_file_context os WdfRequest code;
             case c of
               Inl status \<Rightarrow> return (Some status)
             | Inr file \<Rightarrow> ioctl_service os file WdfRequest OutputBufferLength InputBufferLength code
           });
     case status of
       None \<Rightarrow> return ()
     | Some st \<Rightarrow> do { _ \<leftarrow> ext os (Req (WdfRequestComplete WdfRequest st)); return () }
   }"

section \<open>Locking the caller's buffers\<close>

text \<open>
  A lock gives a memory object of the length asked for, whose contents are the caller's. A
  kernel caller's buffer is wrapped instead; \<open>noBytes\<close> says that the code
  refuses an empty one. The result is \<open>Inl\<close> a failure status or \<open>Inr\<close> the memory object.
\<close>

definition resize :: "'a \<Rightarrow> nat \<Rightarrow> 'a list \<Rightarrow> 'a list" where
  "resize x n xs = take n (xs @ replicate n x)"

lemma length_resize [simp]: "length (resize x n xs) = n"
  by (simp add: resize_def)

definition lock_buffer ::
  "os \<Rightarrow> handle \<Rightarrow> bool \<Rightarrow> bool \<Rightarrow> bool \<Rightarrow> handle \<Rightarrow> nat \<Rightarrow> (world, ntstatus + handle) state" where
  "lock_buffer os WdfRequest isUserMode forWrite noBytes buffer len =
     (if isUserMode then do {
        r \<leftarrow> ext os (Wdf (if forWrite then WdfRequestProbeAndLockUserBufferForWrite WdfRequest buffer len
                        else WdfRequestProbeAndLockUserBufferForRead WdfRequest buffer len));
        return (if \<not> NT_SUCCESS (r_status r) then Inl (r_status r) else Inr (r_ptr r))
      } else if noBytes then return (Inl STATUS_INVALID_PARAMETER)
      else do {
        r \<leftarrow> ext os (Wdf (WdfMemoryCreatePreallocated WdfRequest buffer len));
        return (if \<not> NT_SUCCESS (r_status r) then Inl (r_status r) else Inr (r_ptr r))
      })"

text \<open>
  The input buffer and the mode of the caller, which every control code retrieves first.
\<close>

definition retrieve_input :: "os \<Rightarrow> handle \<Rightarrow> nat \<Rightarrow> (world, ntstatus + bool) state" where
  "retrieve_input os WdfRequest len = do {
     r \<leftarrow> ext os (Req (WdfRequestRetrieveInputBuffer WdfRequest len));
     if \<not> NT_SUCCESS (r_status r) then return (Inl (r_status r))
     else do {
       m \<leftarrow> ext os (Req (WdfRequestGetRequestorMode WdfRequest));
       return (Inr (r_val m = 1))
     }
   }"

definition incaller_get_config :: "os \<Rightarrow> handle \<Rightarrow> (world, ntstatus option) state" where
  "incaller_get_config os WdfRequest = do {
     i \<leftarrow> retrieve_input os WdfRequest sizeof_VCHIQ_GET_CONFIG;
     case i of
       Inl status \<Rightarrow> return (Some status)
     | Inr isUserMode \<Rightarrow> do {
         w \<leftarrow> get;
         l \<leftarrow> lock_buffer os WdfRequest isUserMode True False (gc_PConfig (in_config w WdfRequest))
                sizeof_VCHIQ_CONFIG;
         case l of
           Inl status \<Rightarrow> return (Some status)
         | Inr h \<Rightarrow> do {
             update (in_config_update (\<lambda>c. c(WdfRequest := (c WdfRequest)\<lparr>gc_WdfMemoryConfiguration := h\<rparr>)));
             return None
           }
       }
   }"

text \<open>Every element's data is locked, in order; the lock is noted in the caller's element.\<close>

fun lock_elements :: "os \<Rightarrow> handle \<Rightarrow> bool \<Rightarrow> handle \<Rightarrow> nat \<Rightarrow> nat \<Rightarrow> (world, ntstatus option) state" where
  "lock_elements os WdfRequest isUserMode es i 0 = return None"
| "lock_elements os WdfRequest isUserMode es i (Suc n) = do {
     w \<leftarrow> get;
     let e = elements w es ! i
     in do {
       l \<leftarrow> lock_buffer os WdfRequest isUserMode True (el_Size e = 0) (el_Data e) (unat (el_Size e));
       case l of
         Inl status \<Rightarrow> return (Some status)
       | Inr h \<Rightarrow> do {
           update (\<lambda>w. w\<lparr>wdf_bytes := (wdf_bytes w)(h := resize 0 (unat (el_Size e)) (wdf_bytes w h)),
             elements := (elements w)(es := (elements w es)[i := e\<lparr>el_WdfMemoryData := h\<rparr>])\<rparr>);
           lock_elements os WdfRequest isUserMode es (i + 1) n
         }
     }
   }"

definition zero_element :: VCHIQ_ELEMENT where
  "zero_element = \<lparr>el_Data = 0, el_Size = 0, el_WdfMemoryData = 0\<rparr>"

definition incaller_queue_msg :: "os \<Rightarrow> handle \<Rightarrow> (world, ntstatus option) state" where
  "incaller_queue_msg os WdfRequest = do {
     i \<leftarrow> retrieve_input os WdfRequest sizeof_VCHIQ_QUEUE_MESSAGE;
     case i of
       Inl status \<Rightarrow> return (Some status)
     | Inr isUserMode \<Rightarrow> do {
         w \<leftarrow> get;
         let msg = in_message w WdfRequest
         in do {
           l \<leftarrow> lock_buffer os WdfRequest isUserMode False (qm_Count msg = 0) (qm_Elements msg)
                  (sizeof_VCHIQ_ELEMENT * unat (qm_Count msg));
           case l of
             Inl status \<Rightarrow> return (Some status)
           | Inr h \<Rightarrow> do {
               update (\<lambda>w. w\<lparr>in_message := (in_message w)(WdfRequest := msg\<lparr>qm_WdfMemoryElementBuffer := h\<rparr>),
                 elements := (elements w)(h := resize zero_element (unat (qm_Count msg)) (elements w h))\<rparr>);
               lock_elements os WdfRequest isUserMode h 0 (unat (qm_Count msg))
             }
         }
       }
   }"

text \<open>Every message buffer is locked, in order, and noted in the completion with its address.\<close>

fun lock_msg_bufs ::
  "os \<Rightarrow> handle \<Rightarrow> bool \<Rightarrow> VCHIQ_AWAIT_COMPLETION \<Rightarrow> handle \<Rightarrow> nat \<Rightarrow> nat \<Rightarrow> (world, ntstatus option) state" where
  "lock_msg_bufs os WdfRequest isUserMode ac completion i 0 = return None"
| "lock_msg_bufs os WdfRequest isUserMode ac completion i (Suc n) = do {
     l \<leftarrow> lock_buffer os WdfRequest isUserMode True (ac_MsgBufSize ac = 0) (ac_MsgBufs ac i) (unat (ac_MsgBufSize ac));
     case l of
       Inl status \<Rightarrow> return (Some status)
     | Inr h \<Rightarrow> do {
         update (wdf_bytes_update (\<lambda>b. b(h := resize 0 (unat (ac_MsgBufSize ac)) (b h))));
         update_completion completion i
           (\<lambda>c. c\<lparr>cd_Header := ac_MsgBufs ac i, cd_WdfMemoryBuffer := h\<rparr>);
         lock_msg_bufs os WdfRequest isUserMode ac completion (i + 1) n
       }
   }"

definition incaller_await_completion :: "os \<Rightarrow> handle \<Rightarrow> (world, ntstatus option) state" where
  "incaller_await_completion os WdfRequest = do {
     i \<leftarrow> retrieve_input os WdfRequest sizeof_VCHIQ_AWAIT_COMPLETION;
     case i of
       Inl status \<Rightarrow> return (Some status)
     | Inr isUserMode \<Rightarrow> do {
         w \<leftarrow> get;
         let ac = in_await w WdfRequest
         in do {
           l \<leftarrow> lock_buffer os WdfRequest isUserMode True (ac_Count ac = 0) (ac_Buf ac)
                  (sizeof_VCHIQ_COMPLETION_DATA * unat (ac_Count ac));
           case l of
             Inl status \<Rightarrow> return (Some status)
           | Inr h \<Rightarrow> do {
               update (\<lambda>w. w\<lparr>in_await := (in_await w)(WdfRequest := ac\<lparr>ac_WdfMemoryCompletion := h\<rparr>),
                 completion_data := (completion_data w)(h :=
                   resize zero_completion (unat (ac_Count ac)) (completion_data w h))\<rparr>);
               lock_msg_bufs os WdfRequest isUserMode ac h 0 (unat (ac_Count ac))
             }
         }
       }
   }"

definition incaller_dequeue_message :: "os \<Rightarrow> handle \<Rightarrow> (world, ntstatus option) state" where
  "incaller_dequeue_message os WdfRequest = do {
     i \<leftarrow> retrieve_input os WdfRequest sizeof_VCHIQ_DEQUEUE_MESSAGE;
     case i of
       Inl status \<Rightarrow> return (Some status)
     | Inr isUserMode \<Rightarrow> do {
         w \<leftarrow> get;
         let dm = in_dequeue w WdfRequest
         in do {
           l \<leftarrow> lock_buffer os WdfRequest isUserMode True (dm_BufSize dm = 0) (dm_Buf dm) (unat (dm_BufSize dm));
           case l of
             Inl status \<Rightarrow> return (Some status)
           | Inr h \<Rightarrow> do {
               update (\<lambda>w. w\<lparr>in_dequeue := (in_dequeue w)(WdfRequest := dm\<lparr>dm_WdfMemoryBuffer := h\<rparr>),
                 wdf_bytes := (wdf_bytes w)(h := resize 0 (unat (dm_BufSize dm)) (wdf_bytes w h))\<rparr>);
               return None
             }
         }
       }
   }"

text \<open>\<open>code\<close> is \<open>None\<close> for a request that is not a device control.\<close>

definition VchiqInCallerContext :: "os \<Rightarrow> handle \<Rightarrow> ioctl option \<Rightarrow> (world, unit) state" where
  "VchiqInCallerContext os WdfRequest code = do {
     failed \<leftarrow> (case code of
         Some IOCTL_VCHIQ_GET_CONFIG \<Rightarrow> incaller_get_config os WdfRequest
       | Some IOCTL_VCHIQ_QUEUE_MSG \<Rightarrow> incaller_queue_msg os WdfRequest
       | Some IOCTL_VCHIQ_AWAIT_COMPLETION \<Rightarrow> incaller_await_completion os WdfRequest
       | Some IOCTL_DEQUEUE_MESSAGE \<Rightarrow> incaller_dequeue_message os WdfRequest
       | _ \<Rightarrow> return None);
     case failed of
       Some status \<Rightarrow> do { _ \<leftarrow> ext os (Req (WdfRequestComplete WdfRequest status)); return () }
     | None \<Rightarrow> do {
         r \<leftarrow> ext os (Req (WdfDeviceEnqueueRequest WdfRequest));
         do_when (\<not> NT_SUCCESS (r_status r)) (do {
           _ \<leftarrow> ext os (Req (WdfRequestComplete WdfRequest (r_status r)));
           return ()
         })
       }
   }"

end
