(* ===== verification/Vchiq_Locking.thy ===== *)
theory Vchiq_Locking
  imports Vchiq_Ioctl Vchiq_Init
begin

text \<open>
  The locking discipline of the VCHIQ driver. Every operation releases the fast mutexes it
  acquires, on every path, acquires none it holds already, and takes them in the order of
  their ranks: the data list of a file, then one of its other lists, then the transmit or the
  recycle mutex. \<open>balanced r m\<close> states this for an operation called while only mutexes of rank
  below \<open>r\<close> are held, \<open>guarded k r m\<close> for what follows an acquisition of \<open>k\<close>.
\<close>

definition balanced :: "nat \<Rightarrow> (world, 'a) state \<Rightarrow> bool" where
  "balanced r m \<longleftrightarrow> (\<forall>h. (\<forall>k\<in>set h. mutex_rank k < r) \<longrightarrow> keeps (\<lambda>w. locks (trace w) = Some h) m)"

definition guarded :: "mutex \<Rightarrow> nat \<Rightarrow> (world, 'a) state \<Rightarrow> bool" where
  "guarded k r m \<longleftrightarrow> (\<forall>h. (\<forall>k\<in>set h. mutex_rank k < r) \<longrightarrow>
     triple (\<lambda>w. locks (trace w) = Some (k # h)) m (\<lambda>_ w. locks (trace w) = Some h))"

definition lock_free :: "call \<Rightarrow> bool" where
  "lock_free c \<longleftrightarrow> (case c of Ke (ExAcquireMutex _) \<Rightarrow> False | Ke (ExReleaseMutex _) \<Rightarrow> False | _ \<Rightarrow> True)"


lemma lock_free_simps [simp]:
  "lock_free (Mm a)" "lock_free (Req b)" "lock_free (Wdf c)" "lock_free (Dev d)" "lock_free (Dma e)" "lock_free (Reg f)"
  "lock_free (Ke (KeInitializeSemaphore k l))" "lock_free (Ke KeReleaseSemaphore)"
  "lock_free (Ke (KeInitializeEvent ob))" "lock_free (Ke (KeSetEvent ob))"
  "lock_free (Ke (KeWaitForMultipleObjects ob s t))" "lock_free (Ke (KeWaitForSingleObject h))"
  "lock_free (Ke KeDelayExecutionThread)" "lock_free (Ke (PsCreateSystemThread n))"
  "lock_free (Ke (ObReferenceObjectByHandle h))" "lock_free (Ke (ObDereferenceObject h))" "lock_free (Ke (ZwClose h))"
  by (simp_all add: lock_free_def)

lemma lock_step_free: "lock_free c \<Longrightarrow> lock_step h (c, r) = h"
  by (auto simp: lock_free_def lock_step_def split: option.splits call.splits ke_call.splits)

section \<open>Rules\<close>

lemma balanced_mono: "balanced r m \<Longrightarrow> r' \<le> r \<Longrightarrow> balanced r' m"
  unfolding balanced_def by (meson order_less_le_trans)

lemma balanced_ext: "lock_free c \<Longrightarrow> balanced r (ext os c)"
  by (simp add: balanced_def keeps_def lock_step_free)

lemma balanced_bind: "balanced r m \<Longrightarrow> (\<And>a. balanced r (f a)) \<Longrightarrow> balanced r (m \<bind> f)"
  unfolding balanced_def by (blast intro: keeps_bind)

lemma balanced_return: "balanced r (return x)"
  and balanced_get: "balanced r get"
  by (simp_all add: balanced_def keeps_return keeps_get)

lemma balanced_update: "(\<And>w. trace (f w) = trace w) \<Longrightarrow> balanced r (update f)"
  by (simp add: balanced_def keeps_def)

lemma balanced_if: "balanced r m \<Longrightarrow> balanced r m' \<Longrightarrow> balanced r (if b then m else m')"
  and balanced_when: "balanced r n \<Longrightarrow> balanced r (do_when b n)"
  by (simp_all add: do_when_def balanced_return)

lemma balanced_option: "balanced r m \<Longrightarrow> (\<And>x. balanced r (f x)) \<Longrightarrow> balanced r (case v of None \<Rightarrow> m | Some x \<Rightarrow> f x)"
  by (cases v) simp_all

lemma balanced_list:
  "balanced r m \<Longrightarrow> (\<And>x xs. balanced r (f x xs)) \<Longrightarrow> balanced r (case v of [] \<Rightarrow> m | x # xs \<Rightarrow> f x xs)"
  by (cases v) simp_all

lemma balanced_sum:
  "(\<And>x. balanced r (f x)) \<Longrightarrow> (\<And>x. balanced r (g x)) \<Longrightarrow> balanced r (case v of Inl x \<Rightarrow> f x | Inr x \<Rightarrow> g x)"
  by (cases v) simp_all

lemma balanced_prod: "(\<And>a b. balanced r (f a b)) \<Longrightarrow> balanced r (case p of (a, b) \<Rightarrow> f a b)"
  by (cases p) simp

lemma balanced_acquire:
  assumes "r \<le> mutex_rank k" "\<And>x. guarded k r (f x)"
  shows "balanced r (ext os (Ke (ExAcquireMutex k)) \<bind> f)"
  unfolding balanced_def keeps_triple
proof (intro allI impI)
  fix h assume h: "\<forall>k\<in>set h. mutex_rank k < r"
  have "triple (\<lambda>w. locks (trace w) = Some h) (ext os (Ke (ExAcquireMutex k)))
      (\<lambda>_ w. locks (trace w) = Some (k # h))"
    using h assms(1) by (auto simp: triple_def lock_step_def less_mutex_def)
  then show "triple (\<lambda>w. locks (trace w) = Some h) (ext os (Ke (ExAcquireMutex k)) \<bind> f)
      (\<lambda>_ w. locks (trace w) = Some h)"
    using assms(2) h by (auto simp: guarded_def intro: triple_bind)
qed

lemma guarded_release:
  assumes "\<And>x. balanced r (f x)"
  shows "guarded k r (ext os (Ke (ExReleaseMutex k)) \<bind> f)"
  unfolding guarded_def
proof (intro allI impI)
  fix h assume h: "\<forall>k\<in>set h. mutex_rank k < r"
  have "triple (\<lambda>w. locks (trace w) = Some (k # h)) (ext os (Ke (ExReleaseMutex k)))
      (\<lambda>_ w. locks (trace w) = Some h)"
    by (simp add: triple_def lock_step_def)
  then show "triple (\<lambda>w. locks (trace w) = Some (k # h)) (ext os (Ke (ExReleaseMutex k)) \<bind> f)
      (\<lambda>_ w. locks (trace w) = Some h)"
    using assms h by (auto simp: balanced_def keeps_triple intro: triple_bind)
qed

lemma guarded_bind:
  assumes m: "balanced (Suc (mutex_rank k)) m" and r: "r \<le> mutex_rank k" and f: "\<And>a. guarded k r (f a)"
  shows "guarded k r (m \<bind> f)"
  unfolding guarded_def
proof (intro allI impI)
  fix h assume h: "\<forall>k\<in>set h. mutex_rank k < r"
  have "\<forall>k'\<in>set (k # h). mutex_rank k' < Suc (mutex_rank k)" using h r by auto
  then have "triple (\<lambda>w. locks (trace w) = Some (k # h)) m (\<lambda>_ w. locks (trace w) = Some (k # h))"
    using m unfolding balanced_def keeps_triple by blast
  then show "triple (\<lambda>w. locks (trace w) = Some (k # h)) (m \<bind> f) (\<lambda>_ w. locks (trace w) = Some h)"
    using f h by (auto simp: guarded_def intro: triple_bind)
qed

lemma guarded_if: "guarded k r m \<Longrightarrow> guarded k r m' \<Longrightarrow> guarded k r (if b then m else m')"
  by simp

lemma guarded_prod: "(\<And>a b. guarded k r (f a b)) \<Longrightarrow> guarded k r (case p of (a, b) \<Rightarrow> f a b)"
  by (cases p) simp

lemma rank_simps [simp]:
  "mutex_rank TxSlotMutex = 2" "mutex_rank RecycleSlotMutex = 2" "mutex_rank (PendingDataMsgMutex f) = 0"
  "mutex_rank (PendingBulkMsgMutex f t) = 1" "mutex_rank (PendingVchiMsgMutex f) = 1"
  by (simp_all add: mutex_rank_def)

text \<open>The rules for mutexes come first, so that they are preferred to the general ones.\<close>

lemmas locking =
  guarded_release guarded_bind guarded_if guarded_prod balanced_acquire balanced_bind balanced_return balanced_get
  balanced_if balanced_when balanced_option balanced_list balanced_sum balanced_prod balanced_ext

section \<open>The operations\<close>

lemma balanced_updates:
  "balanced r (update_file f g)" "balanced r (update_slave g')" "balanced r (update_master g')"
  "balanced r (update_slot n g'')" "balanced r (update_completion x i c)" "balanced r (RtlCopyToWdf x ptr bs)"
  "balanced r (write_header hp a b)" "balanced r (RtlCopyToSlot hp off bs)" "balanced r undefined_behaviour"
  by (simp_all add: balanced_def keeps_def update_slot_def undefined_behaviour_def
      split: option.split)

lemmas locking_updates = balanced_updates balanced_update

lemma balanced_signal: "balanced r (VchiqSignalVC os e u)"
  unfolding VchiqSignalVC_def by (intro locking locking_updates) simp_all

lemma balanced_recycle: "r \<le> 2 \<Longrightarrow> balanced r (VchiqRecycleSlot os n b)"
  unfolding VchiqRecycleSlot_def Let_def
  by (intro locking locking_updates balanced_signal) simp_all

lemma balanced_addref: "balanced r (VchiqAddRefMsg n)"
  unfolding VchiqAddRefMsg_def by (intro locking locking_updates)

lemma balanced_release: "r \<le> 2 \<Longrightarrow> balanced r (VchiqReleaseMsg os n)"
  unfolding VchiqReleaseMsg_def by (intro locking locking_updates balanced_recycle)

lemma balanced_bulk_tail: "balanced r (VchiqRemovePendingBulkMsg_tail os f bt al ms)"
  by (induction ms) (auto intro!: locking locking_updates)

lemma balanced_bulk:
  "balanced r (VchiqAddPendingBulkMsg os f b bt)" "balanced r (VchiqRemovePendingBulkMsg os f c bt al)"
  unfolding VchiqAddPendingBulkMsg_def VchiqRemovePendingBulkMsg_def
  by (auto intro!: locking locking_updates balanced_bulk_tail split: option.split list.split)

lemma balanced_add:
  "balanced r (VchiqAddPendingMsg os f h n)" "balanced r (VchiqAddPendingVchiMsg os f h n)"
  unfolding VchiqAddPendingMsg_def VchiqAddPendingVchiMsg_def
  by (intro locking locking_updates balanced_addref; simp)+

lemma balanced_flush:
  assumes "r \<le> 2"
  shows "balanced r (VchiqRemovePendingMsg_flush os f ms)" "balanced r (VchiqRemovePendingVchiMsg_flush os f ms)"
  by (induction ms) (auto intro!: locking locking_updates balanced_release [OF assms])

lemma balanced_vchi:
  assumes "r \<le> 2"
  shows "balanced r (VchiqRemovePendingVchiMsg os f req)"
  unfolding VchiqRemovePendingVchiMsg_def VchiqRemovePendingVchiMsg_head_def
    VchiqRemovePendingVchiMsg_deliver_def Let_def
  by (intro locking locking_updates balanced_flush balanced_release assms; simp)

lemma balanced_vchi_loop: "r \<le> 2 \<Longrightarrow> balanced r (VchiqProcessPendingVchiMsg_loop os f n)"
  by (induction n) (auto intro!: locking locking_updates balanced_vchi)

lemma balanced_process_vchi: "r \<le> 2 \<Longrightarrow> balanced r (VchiqProcessPendingVchiMsg os f)"
  unfolding VchiqProcessPendingVchiMsg_def by (intro locking balanced_vchi_loop)

lemma balanced_entry:
  assumes "r \<le> 1"
  shows "balanced r (VchiqRemovePendingMsg_entry os f req c m)"
  unfolding VchiqRemovePendingMsg_entry_def VchiqRemovePendingMsg_reason_def
    VchiqRemovePendingMsg_bulk_done_def VchiqRemovePendingMsg_return_def Let_def
  by (intro locking locking_updates balanced_bulk balanced_add balanced_release; use assms in simp)

lemma balanced_copy: "r \<le> 1 \<Longrightarrow> balanced r (VchiqRemovePendingMsg_copy os f req c ms)"
  by (induction ms) (auto intro!: locking locking_updates balanced_entry)

lemma balanced_remove_pending: "r \<le> 1 \<Longrightarrow> balanced r (VchiqRemovePendingMsg os f req)"
  unfolding VchiqRemovePendingMsg_def VchiqRemovePendingMsg_finish_def
  by (intro locking locking_updates balanced_flush balanced_copy balanced_process_vchi; simp)

lemma balanced_process_pending: "r \<le> 1 \<Longrightarrow> balanced r (VchiqProcessPendingMsg os f)"
  unfolding VchiqProcessPendingMsg_def by (intro locking locking_updates balanced_remove_pending; simp)

lemma balanced_new_rx: "balanced 0 (VchiqProcessNewRxMsg os f h)"
  unfolding VchiqProcessNewRxMsg_def by (intro locking balanced_add balanced_process_pending; simp)

section \<open>Sending\<close>

lemma balanced_acquire_space: "balanced r (VchiqAcquireTxSpace os f n s)"
  unfolding VchiqAcquireTxSpace_def VchiqAcquireTxSpace_pad_def VchiqAcquireTxSpace_next_slot_def
    VchiqWaitForEvents_def Let_def
  by (intro locking locking_updates; simp)

lemma balanced_publish: "balanced r (VchiqPublishTx os)"
  unfolding VchiqPublishTx_def by (intro locking locking_updates balanced_signal)

lemma balanced_queue: "r \<le> 2 \<Longrightarrow> balanced r (VchiqQueueMessageAsync os f i b n)"
  unfolding VchiqQueueMessageAsync_def
  by (intro locking locking_updates balanced_acquire_space balanced_publish; simp)

lemma balanced_multi_loops:
  "balanced r (multi_element_total os es acc)" "balanced r (multi_element_copy hp off es)"
  by (induction es arbitrary: acc off) (auto intro!: locking locking_updates)

lemma balanced_multi: "r \<le> 2 \<Longrightarrow> balanced r (VchiqQueueMultiElementAsync os f i es)"
  unfolding VchiqQueueMultiElementAsync_def
  by (intro locking locking_updates balanced_acquire_space balanced_publish balanced_multi_loops; simp)

lemma balanced_buffers:
  "balanced r (VchiqAllocateCommonBuffer os f n)" "balanced r (VchiqFreeCommonBuffer os f n ph ptr)"
  "balanced r (VchiqAllocateTransferRequestObjContext os f q mdl pl len phys sg)"
  unfolding VchiqAllocateCommonBuffer_def VchiqFreeCommonBuffer_def
    VchiqAllocateTransferRequestObjContext_def
  by (intro locking locking_updates; simp)+

lemma balanced_transfer: "r \<le> 2 \<Longrightarrow> balanced r (VchiqBulkTransfer os f q dir mdl n arm vc)"
  unfolding VchiqBulkTransfer_def VchiqBulkTransfer_build_def VchiqBulkTransfer_pagelist_def Let_def
  by (intro locking locking_updates balanced_buffers balanced_queue; simp)

lemma balanced_process_bulk: "r \<le> 1 \<Longrightarrow> balanced r (VchiqProcessBulkTransfer os f q bt dir mdl n)"
  unfolding VchiqProcessBulkTransfer_def VchiqProcessBulkTransfer_undo_def Let_def
  by (intro locking locking_updates balanced_bulk balanced_transfer; simp)

section \<open>The entry points\<close>

lemma balanced_rx_message: "balanced 0 (VchiqProcessRxSlot_message os hp)"
  unfolding VchiqProcessRxSlot_message_def VchiqProcessRxSlot_openack_def VchiqProcessRxSlot_close_def
    VchiqProcessRxSlot_data_def VchiqProcessRxSlot_connect_def VchiqProcessRxSlot_bulk_done_def
    VchiqProcessRxSlot_complete_bulk_def Let_def
  by (intro locking locking_updates balanced_new_rx; simp)

lemma balanced_rx_turn: "balanced 0 (VchiqProcessRxSlot_turn os)"
  unfolding VchiqProcessRxSlot_turn_def VchiqProcessRxSlot_take_slot_def VchiqProcessRxSlot_advance_def Let_def
  by (intro locking locking_updates balanced_rx_message balanced_recycle; simp)

lemma balanced_rx_loop: "balanced 0 (VchiqProcessRxSlot_loop os n)"
proof (induction n)
  case 0
  show ?case by (subst VchiqProcessRxSlot_loop.simps) (intro locking, simp add: balanced_return)
next
  case (Suc n)
  show ?case
    by (subst VchiqProcessRxSlot_loop.simps, unfold nat.case) (intro locking balanced_rx_turn Suc.IH)
qed

lemma balanced_rx: "balanced 0 (VchiqProcessRxSlot os)"
  unfolding VchiqProcessRxSlot_def by (intro locking locking_updates balanced_rx_loop)

lemma balanced_recycle_tx: "balanced r (recycle_tx_slots os c t)"
proof (induction os c t rule: recycle_tx_slots.induct)
  case (1 os c t)
  show ?case
  proof (cases "c = t")
    case True
    then show ?thesis by (simp add: recycle_tx_slots.simps balanced_return)
  next
    case False
    show ?thesis
      by (subst recycle_tx_slots.simps) (intro locking locking_updates "1.IH"; simp add: False)
  qed
qed

lemma balanced_process_recycle: "balanced r (VchiqProcessRecycleTxSlot os)"
  unfolding VchiqProcessRecycleTxSlot_def by (intro locking locking_updates balanced_recycle_tx; simp)

lemma balanced_interrupts: "balanced r (VchiqIsr os)" "balanced r (VchiqDpc os)"
  unfolding VchiqIsr_def VchiqDpc_def VchiqDpc_event_def by (intro locking locking_updates; simp)+

lemma balanced_purge: "balanced r (purge_queues os f i n)"
  by (induction n arbitrary: i) (auto intro!: locking)

lemma balanced_close: "balanced 0 (VchiqFileClose os fobj)"
  unfolding VchiqFileClose_def VchiqFileClose_notify_def VchiqFileClose_flush_def Let_def
  by (intro locking locking_updates balanced_queue balanced_purge balanced_remove_pending balanced_bulk
      balanced_vchi; simp)

lemma balanced_file_loops:
  "balanced r (allocate_port f i n)" "balanced r (create_queues os f i n)"
  by (induction n arbitrary: i) (auto intro!: locking locking_updates)

lemma balanced_allocate: "balanced r (VchiqAllocateFileObjContext os fobj)"
  unfolding VchiqAllocateFileObjContext_def create_lookasides_def initialize_lists_def Let_def
  by (intro locking locking_updates balanced_file_loops; simp)

lemma balanced_dispatch: "r \<le> 2 \<Longrightarrow> balanced r (VchiqUpdateQueueDispatchMessage os f q mq i b n)"
  unfolding VchiqUpdateQueueDispatchMessage_def by (intro locking locking_updates balanced_queue; simp)

lemma balanced_simple_ioctls:
  "balanced 0 (ioctl_connect os req)" "balanced 0 (ioctl_get_config os req)"
  "balanced 0 (ioctl_lib_version os req)" "balanced 0 (ioctl_file_context os req code)"
  "balanced 0 (ioctl_set_service_option os req)" "balanced 0 (ioctl_shutdown os f)"
  unfolding ioctl_connect_def ioctl_get_config_def ioctl_lib_version_def ioctl_file_context_def
    ioctl_set_service_option_def ioctl_shutdown_def Let_def
  by (intro locking locking_updates balanced_allocate balanced_queue; simp)+

lemma balanced_service_ioctls:
  "balanced 0 (ioctl_create_service os f req)" "balanced 0 (ioctl_close_service os f req)"
  "balanced 0 (ioctl_queue_msg os f req)" "balanced 0 (ioctl_bulk_transmit os f req ol il)"
  "balanced 0 (ioctl_bulk_receive os f req ol il)" "balanced 0 (ioctl_await_completion os f req)"
  "balanced 0 (ioctl_dequeue_message os f req)"
  unfolding ioctl_create_service_def ioctl_close_service_def ioctl_queue_msg_def ioctl_bulk_transmit_def
    ioctl_bulk_receive_def ioctl_await_completion_def ioctl_dequeue_message_def Let_def
  by (intro locking locking_updates balanced_dispatch balanced_queue balanced_multi balanced_process_bulk
      balanced_process_pending balanced_process_vchi; simp)+

lemma balanced_service: "balanced 0 (ioctl_service os f req ol il code)"
  unfolding ioctl_service_def
  by (auto intro!: balanced_return balanced_service_ioctls balanced_simple_ioctls split: ioctl.split)

lemma balanced_device_control: "balanced 0 (VchiqIoDeviceControl os req ol il code)"
  unfolding VchiqIoDeviceControl_def
  by (intro balanced_bind balanced_get balanced_if balanced_return balanced_option)
    (auto intro!: locking balanced_simple_ioctls balanced_service split: ioctl.split)

lemma balanced_lock_buffer: "balanced r (lock_buffer os req um fw nb buf n)"
  unfolding lock_buffer_def by (intro locking; simp)

lemma balanced_lock_loops:
  "balanced r (lock_elements os req um es i n)" "balanced r (lock_msg_bufs os req um ac c i n)"
  by (induction n arbitrary: i)
    (auto simp: Let_def intro!: balanced_lock_buffer balanced_updates balanced_update
      balanced_bind balanced_return balanced_get balanced_sum)

lemma balanced_in_caller: "balanced r (VchiqInCallerContext os req code)"
proof -
  have "balanced r (incaller_get_config os req)" "balanced r (incaller_queue_msg os req)"
    "balanced r (incaller_await_completion os req)" "balanced r (incaller_dequeue_message os req)"
    unfolding incaller_get_config_def incaller_queue_msg_def incaller_await_completion_def
      incaller_dequeue_message_def retrieve_input_def Let_def
    by (intro locking locking_updates balanced_lock_buffer balanced_lock_loops; simp)+
  then show ?thesis
    unfolding VchiqInCallerContext_def
    by (auto intro!: balanced_bind balanced_return balanced_option balanced_when balanced_ext
        split: option.split ioctl.split)
qed

text \<open>
  C6. No entry point of the driver leaks a mutex, acquires one it holds, releases one it does
  not hold, or takes mutexes out of order: each of the request handlers, the closing of a
  file, the receive and recycle passes and the interrupt handlers, entered holding no mutex,
  ends holding none, on every path and for every behaviour of the system.
\<close>

theorem entry_points_balanced:
  assumes "locks (trace w) = Some []"
  shows "locks (trace (snd (run_state (VchiqIoDeviceControl os req outlen inlen code) w))) = Some [] \<and>
    locks (trace (snd (run_state (VchiqInCallerContext os req (Some code)) w))) = Some [] \<and>
    locks (trace (snd (run_state (VchiqFileClose os fobj) w))) = Some [] \<and>
    locks (trace (snd (run_state (VchiqProcessRxSlot os) w))) = Some [] \<and>
    locks (trace (snd (run_state (VchiqProcessRecycleTxSlot os) w))) = Some [] \<and>
    locks (trace (snd (run_state (VchiqIsr os) w))) = Some [] \<and>
    locks (trace (snd (run_state (VchiqDpc os) w))) = Some []"
proof -
  have "locks (trace (snd (run_state m w))) = Some []" if "balanced 0 m" for m :: "(world, 'a) state"
    using that assms by (auto simp: balanced_def keeps_def)
  from this [OF balanced_device_control] this [OF balanced_in_caller] this [OF balanced_close]
    this [OF balanced_rx] this [OF balanced_process_recycle] this [OF balanced_interrupts(1)]
    this [OF balanced_interrupts(2)]
  show ?thesis by blast
qed

theorem entry_points_balanced_witness:
  "locks (trace (snd (run_state (VchiqFileClose quiet_os 1) zero_world))) = Some []"
  using entry_points_balanced [of zero_world quiet_os 0 0 0 IOCTL_VCHIQ_CONNECT 1]
  by (simp add: zero_world_def)

end
