(* ===== verification/Vchiq_RxAccount.thy ===== *)
theory Vchiq_RxAccount
  imports Vchiq_Rx
begin

text \<open>
  The receive loop and the accounting of slots: a slot is taken when the reader enters it,
  held while it is read and while messages wait in it, and given back once. A turn of the
  loop keeps the account of \<open>Vchiq_Recycle\<close>.
\<close>

section \<open>Handling a message\<close>

text \<open>The bound on the references of a slot grows by one with each message.\<close>

abbreviation accounted :: "handle set \<Rightarrow> u32 \<Rightarrow> int \<Rightarrow> world \<Rightarrow> bool" where
  "accounted F T l \<equiv> slot_account F T (\<lambda>_. l) (\<lambda>_. 0)"

definition reading :: "world \<Rightarrow> bool" where
  "reading w \<longleftrightarrow> unat (MasterCurrentSlotIndex w) < VCHIQ_MAX_SLOTS \<and>
     SlotInUse (RxSlotInfo w (unat (MasterCurrentSlotIndex w)))"

definition ports_in :: "handle set \<Rightarrow> world \<Rightarrow> bool" where
  "ports_in F w \<longleftrightarrow> (\<forall>p. ArmPortHandles w p \<noteq> 0 \<longrightarrow> ArmPortHandles w p \<in> F)"

lemma reading_view: "reading w \<longleftrightarrow> (case rx_view w of (_, _, i, _, _, u, _) \<Rightarrow> unat i < VCHIQ_MAX_SLOTS \<and> u (unat i))"
  by (simp add: reading_def rx_view_def)

lemma ports_view: "ports_in F w \<longleftrightarrow> (case rx_view w of (_, _, _, _, _, _, p) \<Rightarrow> \<forall>n. p n \<noteq> 0 \<longrightarrow> p n \<in> F)"
  by (simp add: ports_in_def rx_view_def)

lemma account_frames [keep]:
  "keeps (slot_account F T L h) (update (tx_context_update t))"
  "keeps (slot_account F T L h) (update (VCConnected_update b))"
  "keeps (slot_account F T L h) (update (DeviceInterfaceEnabled_update b))"
  "keeps (slot_account F T L h) (update_file f (VCHIQPortNumber_update v))"
  "keeps (slot_account F T L h) (update_file f (ServiceState_update s))"
  by (simp_all add: keeps_def slot_account_same) (simp_all add: slot_account_def)

lemma keeps_mono_post: "keeps I m \<Longrightarrow> (\<And>w. I w \<Longrightarrow> J w) \<Longrightarrow> triple I m (\<lambda>_. J)"
  by (auto simp: keeps_triple elim: triple_post)

lemma accounted_mono: "accounted F T l w \<Longrightarrow> accounted F T (l + 1) w"
  by (erule slot_account_mono) simp

lemma new_rx_account:
  assumes f: "f \<in> F" and l: "l + 2 < 2 ^ 32"
  shows "triple (\<lambda>w. accounted F T l w \<and> reading w) (VchiqProcessNewRxMsg os f hp) (\<lambda>_. accounted F T (l + 1))"
proof (rule tripleI, elim conjE)
  fix w st w' assume a: "accounted F T l w" and r: "reading w"
    and run: "run_state (VchiqProcessNewRxMsg os f hp) w = (st, w')"
  let ?i = "MasterCurrentSlotIndex w" and ?lock = "Ke (ExAcquireMutex (PendingDataMsgMutex f))"
  let ?L = "(\<lambda>_. l)(?i := l + 1)"
  have n: "unat ?i < VCHIQ_MAX_SLOTS" using r by (simp add: reading_def)
  define w1 where "w1 = w\<lparr>trace := trace w @ [(?lock, os (trace w) ?lock)]\<rparr>"
  have "accounted F T l w1 \<and> busy (RxSlotInfo w1 (unat ?i))"
    using a r by (simp add: w1_def busy_def reading_def)
  moreover obtain st2 w2 where add: "run_state (VchiqAddPendingMsg os f hp ?i) w1 = (st2, w2)"
    by fastforce
  ultimately have a2: "slot_account F T ?L (\<lambda>_. 0) w2"
    using tripleD [OF data.add_account [where L = "\<lambda>_. l" and h = "\<lambda>_. 0" and T = T, OF n f]] l
    by simp
  have rest: "keeps (slot_account F T ?L (\<lambda>_. 0)) (do {
      status' \<leftarrow> (if NT_SUCCESS st2 then VchiqProcessPendingMsg os f else return st2);
      _ \<leftarrow> ext os (Ke (ExReleaseMutex (PendingDataMsgMutex f)));
      return status' })"
    by (intro keeps_bind keeps_if keeps_return account_ext process_pending_account f) (use l in auto)
  have run2: "run_state (do {
      status' \<leftarrow> (if NT_SUCCESS st2 then VchiqProcessPendingMsg os f else return st2);
      _ \<leftarrow> ext os (Ke (ExReleaseMutex (PendingDataMsgMutex f)));
      return status' }) w2 = (st, w')"
    using run add by (simp add: VchiqProcessNewRxMsg_def w1_def)
  have "slot_account F T ?L (\<lambda>_. 0) w'"
    by (rule keeps_run [OF rest run2 a2])
  then show "accounted F T (l + 1) w'"
    by (rule slot_account_mono) simp
qed

lemma complete_bulk_account:
  "keeps (slot_account F T L h) (VchiqProcessRxSlot_complete_bulk os f req d n)"
  unfolding VchiqProcessRxSlot_complete_bulk_def
  by (intro keeps_bind keeps_get keeps_if keeps_return keeps_case_option account_ext account_frames)

lemma bulk_done_account:
  assumes f: "f = 0 \<or> f \<in> F" and l: "l + 2 < 2 ^ 32"
  shows "triple (\<lambda>w. accounted F T l w \<and> reading w) (VchiqProcessRxSlot_bulk_done os f q d hp)
    (\<lambda>_. accounted F T (l + 1))"
proof -
  have keep: "keeps (\<lambda>w. accounted F T l w \<and> reading w) (ext os c)"
    "keeps (\<lambda>w. accounted F T l w \<and> reading w) (VchiqProcessRxSlot_complete_bulk os f req d n)" for c req n
    unfolding reading_view
    by (intro keeps_conj account_ext view_ext complete_bulk_account view_complete_bulk)+
  show ?thesis
  proof (cases "f = 0")
    case True
    then show ?thesis by (simp add: VchiqProcessRxSlot_bulk_done_def triple_def accounted_mono)
  next
    case False
    with f have f: "f \<in> F" by simp
    show ?thesis
      unfolding VchiqProcessRxSlot_bulk_done_def
      apply (rule triple_when_cases)
       apply (rule keeps_then, rule keeps_get, rule keeps_then, rule keep)
       apply (rule triple_when_cases)
        apply (rule keeps_then, rule keep, rule step_then, rule new_rx_account [OF f l], rule triple_done)
      by (auto intro: accounted_mono)
  qed
qed

lemma rx_message_account:
  assumes l: "l + 2 < 2 ^ 32"
  shows "triple (\<lambda>w. accounted F T l w \<and> reading w \<and> ports_in F w) (VchiqProcessRxSlot_message os hp)
    (\<lambda>_. accounted F T (l + 1))"
  unfolding VchiqProcessRxSlot_message_def Let_def
proof (rule get_then)
  fix w assume w: "accounted F T l w \<and> reading w \<and> ports_in F w"
  let ?id = "header_MsgId w hp"
  let ?f = "ArmPortHandles w (unat (VCHIQ_MSG_DSTPORT ?id))"
  have f: "?f = 0 \<or> ?f \<in> F" using w by (auto simp: ports_in_def)
  have at: "triple (\<lambda>s. s = w) m (\<lambda>_. accounted F T (l + 1))" if "keeps (accounted F T l) m" for m :: "(world, unit) state"
    using that w by (auto simp: keeps_triple triple_def split: prod.splits dest: accounted_mono)
  have bulk: "triple (\<lambda>s. s = w) (VchiqProcessRxSlot_bulk_done os ?f q d hp) (\<lambda>_. accounted F T (l + 1))" for q d
    by (rule triple_pre [OF bulk_done_account [OF f l]]) (use w in simp)
  have dat: "triple (\<lambda>s. s = w) (VchiqProcessRxSlot_data os ?f hp) (\<lambda>_. accounted F T (l + 1))"
  proof (cases "?f = 0 \<or> header_Size w hp = 0")
    case True
    then show ?thesis using w by (auto simp: triple_def VchiqProcessRxSlot_data_def accounted_mono)
  next
    case False
    then have "?f \<in> F" using f by simp
    from new_rx_account [OF this l, of T os hp] False w show ?thesis
      by (auto simp: triple_def VchiqProcessRxSlot_data_def split: prod.splits)
  qed
  show "triple (\<lambda>s. s = w)
     (if VCHIQ_MSG_TYPE ?id = VCHIQ_MSG_OPENACK then VchiqProcessRxSlot_openack os ?f ?id
      else if VCHIQ_MSG_TYPE ?id = VCHIQ_MSG_CLOSE then VchiqProcessRxSlot_close os ?f
      else if VCHIQ_MSG_TYPE ?id = VCHIQ_MSG_DATA then VchiqProcessRxSlot_data os ?f hp
      else if VCHIQ_MSG_TYPE ?id = VCHIQ_MSG_CONNECT then VchiqProcessRxSlot_connect os
      else if VCHIQ_MSG_TYPE ?id = VCHIQ_MSG_BULK_RX_DONE
      then VchiqProcessRxSlot_bulk_done os ?f FILE_QUEUE_RX_DATA False hp
      else if VCHIQ_MSG_TYPE ?id = VCHIQ_MSG_BULK_TX_DONE
      then VchiqProcessRxSlot_bulk_done os ?f FILE_QUEUE_TX_DATA True hp
      else return ()) (\<lambda>_. accounted F T (l + 1))"
    by (intro triple_if_cases bulk dat at)
      (auto simp: VchiqProcessRxSlot_openack_def VchiqProcessRxSlot_close_def VchiqProcessRxSlot_connect_def
        intro!: keeps_when keeps_bind keeps_get keeps_return account_ext account_frames)
qed

section \<open>Taking a slot and giving it back\<close>

lemma account_taken:
  assumes a: "account F T L h info r D V"
    and n: "unat n < VCHIQ_MAX_SLOTS" and b: "\<not> busy (info (unat n))" "busy i"
    and i: "RefCount i = RefCount (info (unat n))"
  shows "account F (T + 1) L h (info(unat n := i)) r D V"
proof -
  have "unat n \<notin> busy_slots info" using b by (simp add: busy_slots_def)
  then have "card (busy_slots (info(unat n := i))) = Suc (card (busy_slots info))"
    using n b by (simp add: busy_slots_upd)
  moreover have "RefCount ((info(unat n := i)) (unat x)) = of_int (int (references F D V x) + h x)"
    if "unat x < VCHIQ_MAX_SLOTS" for x
    using that a i by (auto simp: account_def unsigned_word_eqI)
  ultimately show ?thesis using a unfolding account_def by auto
qed

definition slots_taken :: "world \<Rightarrow> u32" where
  "slots_taken w = (if MasterCurrentSlot w = None \<and>
     \<not> busy (RxSlotInfo w (unat (VCHIQ_GET_NEXT_RX_SLOT_INDEX w))) then 1 else 0)"

definition rx_slot_ok :: "world \<Rightarrow> bool" where
  "rx_slot_ok w \<longleftrightarrow> (case MasterCurrentSlot w of
      None \<Rightarrow> unat (VCHIQ_GET_NEXT_RX_SLOT_INDEX w) < VCHIQ_MAX_SLOTS | Some _ \<Rightarrow> reading w)"

lemma take_slot_account:
  assumes a: "slot_account F T L h w" and ok: "rx_slot_ok w"
    and run: "run_state VchiqProcessRxSlot_take_slot w = (u, w')"
  shows "slot_account F (T + slots_taken w) L h w' \<and> reading w' \<and> ArmPortHandles w' = ArmPortHandles w"
proof (cases "MasterCurrentSlot w")
  case (Some s)
  then show ?thesis using run a ok
    by (auto simp: VchiqProcessRxSlot_take_slot_def rx_slot_ok_def slots_taken_def)
next
  case None
  let ?n = "VCHIQ_GET_NEXT_RX_SLOT_INDEX w"
  let ?i = "SlotInUse_update (\<lambda>_. True) (RxSlotInfo w (unat ?n))"
  have n: "unat ?n < VCHIQ_MAX_SLOTS" using ok None by (simp add: rx_slot_ok_def)
  have w': "w' = w\<lparr>MasterCurrentSlotIndex := ?n, MasterCurrentSlot := Some (VCHIQ_GET_HEADER_BY_GLOBAL_INDEX ?n),
      RxSlotInfo := (RxSlotInfo w)(unat ?n := ?i)\<rparr>"
    using run None n by (simp add: VchiqProcessRxSlot_take_slot_def Let_def)
  have a': "account F T L h (RxSlotInfo w) (SlotQueueRecycle (Master (slot_zero w)))
      (\<lambda>f. PendingDataMsgList (files w f)) (\<lambda>f. PendingVchiMsgList (files w f))"
    using a by (simp add: slot_account_def)
  have b: "busy ?i" by (simp add: busy_def)
  have "slot_account F (T + slots_taken w) L h w'"
  proof (cases "busy (RxSlotInfo w (unat ?n))")
    case False
    then show ?thesis using account_taken [OF a' n False b] None
      by (simp add: w' slot_account_def slots_taken_def)
  next
    case True
    have "0 \<le> int (references F (\<lambda>f. PendingDataMsgList (files w f)) (\<lambda>f. PendingVchiMsgList (files w f)) ?n) + h ?n"
      using a' n by (auto simp: account_def)
    then show ?thesis using account_count [OF a' n True b, of 0] True
      by (simp add: w' slot_account_def slots_taken_def)
  qed
  moreover have "reading w'" using n by (simp add: w' reading_def)
  ultimately show ?thesis by (simp add: w')
qed

lemma give_back_account:
  assumes a: "slot_account F T L h w" and r: "reading w" and i: "n = MasterCurrentSlotIndex w"
    and run: "run_state (VchiqRecycleSlot os n True) w = (u, w')"
  shows "slot_account F T L h w'"
proof -
  let ?i = "SlotInUse_update (\<lambda>_. False) (RxSlotInfo w (unat n))"
  have n: "unat n < VCHIQ_MAX_SLOTS" and b: "busy (RxSlotInfo w (unat n))"
    using r i by (simp_all add: reading_def busy_def)
  define w1 where "w1 = w\<lparr>RxSlotInfo := (RxSlotInfo w)(unat n := ?i)\<rparr>"
  have "run_state (VchiqRecycleSlot os n False) w1 = (u, w')"
    using run n by (simp add: VchiqRecycleSlot_def w1_def)
  note eff = recycle_slot_effect [OF this]
  have a': "account F T L h (RxSlotInfo w) (SlotQueueRecycle (Master (slot_zero w)))
      (\<lambda>f. PendingDataMsgList (files w f)) (\<lambda>f. PendingVchiMsgList (files w f))"
    using a by (simp add: slot_account_def)
  have k: "0 \<le> int (references F (\<lambda>f. PendingDataMsgList (files w f)) (\<lambda>f. PendingVchiMsgList (files w f)) n) + h n + 0"
    using a' n by (auto simp: account_def)
  show ?thesis
  proof (cases "busy ?i")
    case True
    then show ?thesis using account_count [OF a' n b True _ k] eff
      by (simp add: slot_account_def w1_def)
  next
    case False
    then show ?thesis using account_given [OF a' n b False _ k] eff
      by (simp add: slot_account_def w1_def)
  qed
qed

lemma advance_account:
  assumes a: "slot_account F T L h w" and r: "reading w"
    and run: "run_state (VchiqProcessRxSlot_advance os hp) w = (u, w')"
  shows "slot_account F T L h w' \<and> (MasterCurrentSlot w' \<noteq> None \<longrightarrow> reading w') \<and>
    ArmPortHandles w' = ArmPortHandles w"
proof -
  define w1 where "w1 = snd (run_state (update (CurrentRxPos_update (\<lambda>p.
       p + VCHIQ_GET_SLOT_ALIGN_SIZE (header_Size w hp + sizeof_VCHIQ_HEADER)))) w)"
  have a1: "slot_account F T L h w1" and r1: "reading w1" "MasterCurrentSlotIndex w1 = MasterCurrentSlotIndex w"
    "ArmPortHandles w1 = ArmPortHandles w"
    using a r by (simp_all add: w1_def slot_account_def reading_def)
  have trig: "slot_account F T L h (snd (run_state (update_slave g) s)) = slot_account F T L h s"
    "reading (snd (run_state (update_slave g) s)) = reading s" for g s
    by (simp_all add: slot_account_def reading_def)
  show ?thesis
  proof (cases "CurrentRxPos w1 AND VCHIQ_SLOT_MASK = 0")
    case False
    then have "w' = snd (run_state (update_slave (Trigger_update VCHIQ_RESET_EVENT_SIGNAL)) w1)"
      using run by (simp add: VchiqProcessRxSlot_advance_def w1_def)
    then show ?thesis using a1 r1 trig by simp
  next
    case True
    obtain w2 where run2: "run_state (VchiqRecycleSlot os (MasterCurrentSlotIndex w1) True) w1 = ((), w2)"
      by (metis old.unit.exhaust surj_pair)
    have "ArmPortHandles w2 = ArmPortHandles w1"
      using run2 by (auto simp: VchiqRecycleSlot_def VchiqSignalVC_def Let_def split: if_splits)
    moreover have "w' = snd (run_state (update_slave (Trigger_update VCHIQ_RESET_EVENT_SIGNAL))
        (w2\<lparr>MasterCurrentSlot := None\<rparr>))"
      using run run2 True by (simp add: VchiqProcessRxSlot_advance_def w1_def)
    moreover have "slot_account F T L h w2" by (rule give_back_account [OF a1 r1(1) refl run2])
    ultimately show ?thesis using r1 by (simp add: slot_account_def)
  qed
qed

section \<open>A turn\<close>

text \<open>
  C3. One turn of the receive loop, whatever the message, keeps the account of the slots: the
  reference count of every slot remains exactly the number of messages that wait in it, and
  the slots given back to the firmware together with those still busy are the slots taken,
  one more when the turn enters a slot that was free. So no slot is lost, given back twice,
  or given back while a message waits in it. The current slot, if any, is marked in use.
\<close>

theorem rx_turn_accounts_slots:
  assumes "accounted F T l w" and "l + 2 < 2 ^ 32" and "ports_in F w" and "rx_slot_ok w"
    and "run_state (VchiqProcessRxSlot_turn os) w = (u, w')"
  shows "accounted F (T + slots_taken w) (l + 1) w' \<and> ports_in F w' \<and>
    (MasterCurrentSlot w' \<noteq> None \<longrightarrow> reading w')"
proof -
  obtain w1 where t: "run_state VchiqProcessRxSlot_take_slot w = ((), w1)"
    by (metis old.unit.exhaust surj_pair)
  note t1 = take_slot_account [OF assms(1,4) t] and t2 = run_take_slot [OF t]
  obtain w2 where msg: "run_state (VchiqProcessRxSlot_message os (rx_header w)) w1 = ((), w2)"
    by (metis old.unit.exhaust surj_pair)
  have ports: "ports_in F w1" using assms(3) t1 by (simp add: ports_in_def)
  have a2: "accounted F (T + slots_taken w) (l + 1) w2"
    using tripleD [OF rx_message_account [OF assms(2)] _ msg] t1 ports by blast
  have v: "rx_view w2 = rx_view w1"
    using keeps_run [OF view_message [where R = "\<lambda>v. v = rx_view w1"] msg] by simp
  have r2: "reading w2" "ports_in F w2" using t1 ports v by (simp_all add: reading_view ports_view)
  have "run_state (VchiqProcessRxSlot_advance os (rx_header w)) w2 = (u, w')"
    using assms(5) t t2 msg
    by (simp add: VchiqProcessRxSlot_turn_def VCHIQ_GET_CURRENT_RX_HEADER_def rx_header_def)
  from advance_account [OF a2 r2(1) this] r2(2) show ?thesis by (simp add: ports_in_def)
qed

text \<open>Slot 5 is the first of the queue, and a message for port 1 waits in it afterwards.\<close>

definition message_world :: world where
  "message_world = zero_world\<lparr>ArmPortHandles := (\<lambda>p. if p = 1 then 7 else 0),
     mem := store_bytes 20480 (le32 (VCHIQ_MAKE_MSG VCHIQ_MSG_DATA 9 1) @ le32 16) (\<lambda>_. 0),
     slot_zero := zero_slot_zero\<lparr>Master := zero_shared\<lparr>TxPos := 24, SlotQueue := (\<lambda>_. 5)\<rparr>\<rparr>\<rparr>"

lemma no_busy_slots: "(\<And>n. \<not> busy (info n)) \<Longrightarrow> busy_slots info = {}"
  by (simp add: busy_slots_def)

theorem rx_turn_accounts_slots_witness:
  "accounted {7} 0 0 message_world \<and> rx_slot_ok message_world \<and>
   accounted {7} 1 1 (snd (run_state (VchiqProcessRxSlot_turn quiet_os) message_world))"
proof -
  have idle: "\<not> busy (RxSlotInfo message_world n)" for n
    by (simp add: message_world_def zero_world_def busy_def)
  have a: "accounted {7} 0 0 message_world"
    using no_busy_slots [of "RxSlotInfo message_world"] idle
    by (simp add: slot_account_def account_def references_def entries_of_def)
      (simp add: message_world_def zero_world_def zero_file_def zero_slot_zero_def zero_shared_def)
  have ok: "rx_slot_ok message_world" "ports_in {7} message_world" "slots_taken message_world = 1"
    using idle
    by (auto simp: rx_slot_ok_def ports_in_def slots_taken_def VCHIQ_GET_NEXT_RX_SLOT_INDEX_def
        message_world_def zero_world_def)
  have run: "run_state (VchiqProcessRxSlot_turn quiet_os) message_world =
      (fst (run_state (VchiqProcessRxSlot_turn quiet_os) message_world),
       snd (run_state (VchiqProcessRxSlot_turn quiet_os) message_world))"
    by (rule prod.collapse [symmetric])
  show ?thesis
    using rx_turn_accounts_slots [OF a _ ok(2,1) run] a ok by simp
qed

end
