(* ===== verification/Vchiq_Delivery.thy ===== *)
theory Vchiq_Delivery
  imports Vchiq_RxAccount
begin

text \<open>
  What becomes of a waiting message: when its slot goes back to the firmware, how a message of
  a VCHI service is handed to a request, and how many of them one pass hands over.
\<close>

section \<open>The last reference\<close>

lemma references_zero:
  assumes "finite F"
  shows "references F D V n = 0 \<longleftrightarrow> (\<forall>f\<in>F. \<forall>m\<in>set (D f) \<union> set (V f). SlotNumber m \<noteq> n)"
  using assms by (auto simp: references_def entries_of_def filter_empty_conv)

definition slot_unreferenced :: "handle set \<Rightarrow> world \<Rightarrow> u32 \<Rightarrow> bool" where
  "slot_unreferenced F w n \<longleftrightarrow> \<not> SlotInUse (RxSlotInfo w (unat n)) \<and>
     (\<forall>f\<in>F. \<forall>m\<in>set (PendingDataMsgList (files w f)) \<union> set (PendingVchiMsgList (files w f)). SlotNumber m \<noteq> n)"

lemma held_unreferenced:
  assumes a: "slot_account F T L (hold n (\<lambda>_. 0)) w" and n: "unat n < VCHIQ_MAX_SLOTS" and L: "L n < 2 ^ 32"
  shows "slot_unreferenced F w n \<longleftrightarrow> \<not> busy (RefCount_update (\<lambda>c. c - 1) (RxSlotInfo w (unat n)))"
proof -
  define k where "k = references F (\<lambda>f. PendingDataMsgList (files w f)) (\<lambda>f. PendingVchiMsgList (files w f)) n"
  have k: "RefCount (RxSlotInfo w (unat n)) = of_int (int k + 1)" "int k + 1 \<le> L n" "finite F"
    using a n by (auto simp: slot_account_def account_def k_def hold_def)
  have "RefCount (RxSlotInfo w (unat n)) - 1 = of_int (int k)" using k(1) by simp
  moreover have "(of_int (int k) :: u32) = 0 \<longleftrightarrow> k = 0"
    using of_int_u32_nonzero [of "int k"] k(2) L by fastforce
  ultimately have "\<not> busy (RefCount_update (\<lambda>c. c - 1) (RxSlotInfo w (unat n))) \<longleftrightarrow>
      k = 0 \<and> \<not> SlotInUse (RxSlotInfo w (unat n))"
    by (simp add: busy_def)
  then show ?thesis
    using references_zero [OF k(3)] by (auto simp: slot_unreferenced_def k_def)
qed

lemma release_queue:
  assumes n: "unat n < VCHIQ_MAX_SLOTS" and run: "run_state (VchiqReleaseMsg os n) w = (st, w')"
  defines "i \<equiv> RefCount_update (\<lambda>c. c - 1) (RxSlotInfo w (unat n))"
  shows "SlotQueue (Master (slot_zero w')) = (if busy i then SlotQueue (Master (slot_zero w))
      else (SlotQueue (Master (slot_zero w)))(unat (SlotQueueRecycle (Master (slot_zero w))) mod 64 := n))"
proof -
  define w1 where "w1 = w\<lparr>RxSlotInfo := (RxSlotInfo w)(unat n := i)\<rparr>"
  have "run_state (VchiqRecycleSlot os n False) w1 = ((), w')"
    using run n by (auto simp: VchiqReleaseMsg_def w1_def i_def split: prod.splits)
  from recycle_slot_effect [OF this] show ?thesis by (simp add: w1_def)
qed

text \<open>
  C13. \<open>VchiqReleaseMsg\<close>, called for a reference that an operation holds, puts the slot into the
  firmware's queue, at the recycle index, exactly when no message of any file waits in it any
  more and it is not being read; otherwise the queue and the index stay as they are. The
  account is kept with the reference gone.
\<close>

theorem slot_returned_when_unreferenced:
  assumes a: "slot_account F T L (hold n (\<lambda>_. 0)) w" and n: "unat n < VCHIQ_MAX_SLOTS" and L: "L n < 2 ^ 32"
    and run: "run_state (VchiqReleaseMsg os n) w = (st, w')"
  shows "(if slot_unreferenced F w n
     then SlotQueueRecycle (Master (slot_zero w')) = SlotQueueRecycle (Master (slot_zero w)) + 1 \<and>
          SlotQueue (Master (slot_zero w')) = (SlotQueue (Master (slot_zero w)))
            (unat (SlotQueueRecycle (Master (slot_zero w))) mod 64 := n)
     else SlotQueueRecycle (Master (slot_zero w')) = SlotQueueRecycle (Master (slot_zero w)) \<and>
          SlotQueue (Master (slot_zero w')) = SlotQueue (Master (slot_zero w))) \<and>
     slot_account F T L (\<lambda>_. 0) w'"
proof -
  have "slot_account F T L (\<lambda>_. 0) w'"
    by (rule tripleD [OF release_account' [where L = L and h = "\<lambda>_. 0" and n = n, OF L n] a run]) simp
  then show ?thesis
    using release_effect [OF n run] release_queue [OF n run] held_unreferenced [OF a n L] by simp
qed

text \<open>A reference to slot 3, the only one, is released.\<close>

definition one_reference :: world where
  "one_reference = zero_world\<lparr>RxSlotInfo := (\<lambda>n. \<lparr>RefCount = if n = 3 then 1 else 0, SlotInUse = False\<rparr>)\<rparr>"

theorem slot_returned_when_unreferenced_witness:
  "slot_account {} 1 (\<lambda>_. 1) (hold 3 (\<lambda>_. 0)) one_reference \<and>
   SlotQueue (Master (slot_zero (snd (run_state (VchiqReleaseMsg quiet_os 3) one_reference)))) 0 = 3"
proof -
  let ?i = "\<lambda>n. \<lparr>RefCount = if n = 3 then 1 else 0, SlotInUse = False\<rparr> :: SLOT_INFO"
  have busy: "busy_slots ?i = {3}" by (auto simp: busy_slots_def busy_def)
  have three: "unat x = 3 \<longleftrightarrow> x = 3" for x :: u32
  proof
    assume "unat x = 3"
    then have "unat x = unat (3 :: u32)" by simp
    then show "x = 3" by (rule unsigned_word_eqI)
  qed simp
  have a: "slot_account {} 1 (\<lambda>_. 1) (hold 3 (\<lambda>_. 0)) one_reference"
    unfolding slot_account_def account_def one_reference_def
    by (simp add: busy three hold_def references_def zero_world_def zero_slot_zero_def zero_shared_def)
  have run: "run_state (VchiqReleaseMsg quiet_os 3) one_reference =
      (fst (run_state (VchiqReleaseMsg quiet_os 3) one_reference), snd (run_state (VchiqReleaseMsg quiet_os 3) one_reference))"
    by (rule prod.collapse [symmetric])
  have "slot_unreferenced {} one_reference 3"
    by (simp add: slot_unreferenced_def one_reference_def)
  with slot_returned_when_unreferenced [OF a _ _ run] a show ?thesis
    by (simp add: one_reference_def zero_world_def zero_slot_zero_def zero_shared_def)
qed

section \<open>Handing over a message of a VCHI service\<close>

text \<open>A locked buffer is mapped.\<close>

definition buffers_mapped :: "os \<Rightarrow> bool" where
  "buffers_mapped os \<longleftrightarrow> (\<forall>tr h. r_ptr (os tr (Wdf (WdfMemoryGetBuffer h))) \<noteq> 0)"

lemma release_frame:
  assumes "unat n < VCHIQ_MAX_SLOTS" and "run_state (VchiqReleaseMsg os n) w = (st, w')"
  shows "w' = w\<lparr>RxSlotInfo := (RxSlotInfo w)(unat n := RefCount_update (\<lambda>c. c - 1) (RxSlotInfo w (unat n))),
      slot_zero := slot_zero w', trace := trace w'\<rparr> \<and>
    completions_of r (trace w') = completions_of r (trace w)"
  using assms
  by (auto simp: VchiqReleaseMsg_def VchiqRecycleSlot_def VchiqSignalVC_def Let_def completion_of_def split: if_splits)

text \<open>
  The outcomes of handing the first message \<open>m\<close> of \<open>m # ms\<close> to a request. Delivering it changes the list,
  the buffer of the request, its output, the reference to the slot and what the last reference does to
  the firmware's queue; refusing it changes nothing at all, and all that it does is to look for the
  buffers of the request and to complete it.
\<close>

definition vchi_taken :: "handle \<Rightarrow> handle \<Rightarrow> VCHIQ_PENDING_MSG \<Rightarrow> VCHIQ_PENDING_MSG list \<Rightarrow> world \<Rightarrow> world" where
  "vchi_taken f req m ms w =
     (let n = header_Size w (Msg m) + 8; buffer = dm_WdfMemoryBuffer (in_dequeue w req); s = unat (SlotNumber m)
      in w\<lparr>files := (files w)(f := PendingVchiMsgList_update (\<lambda>_. ms) (files w f)),
           wdf_bytes := (wdf_bytes w)(buffer := load_bytes (Msg m) (unat n) (mem w) @ drop (unat n) (wdf_bytes w buffer)),
           out_ulong := (out_ulong w)(req := n),
           RxSlotInfo := (RxSlotInfo w)(s := RefCount_update (\<lambda>c. c - 1) (RxSlotInfo w s))\<rparr>)"

definition vchi_delivered :: "handle \<Rightarrow> handle \<Rightarrow> VCHIQ_PENDING_MSG \<Rightarrow> VCHIQ_PENDING_MSG list \<Rightarrow> world \<Rightarrow> world \<Rightarrow> bool" where
  "vchi_delivered f req m ms w w' \<longleftrightarrow>
     w' = (vchi_taken f req m ms w)\<lparr>slot_zero := slot_zero w', trace := trace w'\<rparr> \<and>
     header_Size w (Msg m) + 8 \<le> dm_BufSize (in_dequeue w req) \<and>
     (let s = SlotNumber m; q = Master (slot_zero w); q' = Master (slot_zero w')
      in if busy (RxSlotInfo w' (unat s)) then SlotQueueRecycle q' = SlotQueueRecycle q \<and> SlotQueue q' = SlotQueue q
         else SlotQueueRecycle q' = SlotQueueRecycle q + 1 \<and>
              SlotQueue q' = (SlotQueue q)(unat (SlotQueueRecycle q) mod 64 := s))"

lemma delivered_fields:
  assumes "vchi_delivered f req m ms w w'"
  shows "PendingVchiMsgList (files w' f) = ms"
    "wdf_bytes w' (dm_WdfMemoryBuffer (in_dequeue w req)) = load_bytes (Msg m) (unat (header_Size w (Msg m) + 8)) (mem w) @
       drop (unat (header_Size w (Msg m) + 8)) (wdf_bytes w (dm_WdfMemoryBuffer (in_dequeue w req)))"
proof -
  note e = conjunct1 [OF assms [unfolded vchi_delivered_def]]
  show "PendingVchiMsgList (files w' f) = ms"
    "wdf_bytes w' (dm_WdfMemoryBuffer (in_dequeue w req)) = load_bytes (Msg m) (unat (header_Size w (Msg m) + 8)) (mem w) @
       drop (unat (header_Size w (Msg m) + 8)) (wdf_bytes w (dm_WdfMemoryBuffer (in_dequeue w req)))"
    by (subst e, simp add: vchi_taken_def Let_def)+
qed

definition vchi_refused :: "handle \<Rightarrow> ntstatus \<Rightarrow> world \<Rightarrow> world \<Rightarrow> bool" where
  "vchi_refused req st w w' \<longleftrightarrow> w' = w\<lparr>trace := trace w'\<rparr> \<and>
     (\<exists>es. trace w' = trace w @ es \<and>
       map fst es \<in> {[Req (WdfRequestRetrieveInputBuffer req 28), Req (WdfRequestComplete req st)],
         [Req (WdfRequestRetrieveInputBuffer req 28), Req (WdfRequestRetrieveOutputBuffer req 4),
          Req (WdfRequestComplete req st)]})"

lemma vchi_updates:
  "PendingVchiMsgList x = m # ms \<Longrightarrow> PendingVchiMsgList_update tl x = x\<lparr>PendingVchiMsgList := ms\<rparr>"
  "out_ulong_update (\<lambda>u. u(r := k)) w = w\<lparr>out_ulong := (out_ulong w)(r := k)\<rparr>"
  by simp_all

lemma same_list: "PendingVchiMsgList (files w f) = m # ms \<Longrightarrow>
    (files w)(f := PendingVchiMsgList_update (\<lambda>l. m # tl l) (files w f)) = files w"
  by auto

lemma deliver_spec:
  assumes l: "PendingVchiMsgList (files w f) = m # ms" and n: "unat (SlotNumber m) < VCHIQ_MAX_SLOTS"
    and map: "buffers_mapped os" and fit: "\<not> dm_BufSize (in_dequeue w req) < k" and k: "k = header_Size w (Msg m) + 8"
    and len: "length (wdf_bytes w (dm_WdfMemoryBuffer (in_dequeue w req))) = unat (dm_BufSize (in_dequeue w req))"
    and run: "run_state (VchiqRemovePendingVchiMsg_deliver os f req m k st0) w = (st, w')"
  shows "st = st0 \<and> vchi_delivered f req m ms w w' \<and> ub w' = ub w \<and>
    completions_of req (trace w') = completions_of req (trace w) @ [st0]"
proof -
  let ?b = "dm_WdfMemoryBuffer (in_dequeue w req)"
  define w1 where "w1 = snd (run_state (do {
     update_file f (PendingVchiMsgList_update tl);
     buf \<leftarrow> ext os (Wdf (WdfMemoryGetBuffer ?b));
     RtlCopyToWdf ?b (r_ptr buf) (load_bytes (Msg m) (unat k) (mem w));
     _ \<leftarrow> ext os (Wdf (WdfObjectDelete (WdfMemory m)));
     update (out_ulong_update (\<lambda>u. u(req := k))) }) w)"
  have fit': "unat k \<le> length (wdf_bytes w ?b)" using fit len by (simp add: word_less_nat_alt)
  have w1: "w1 = w\<lparr>files := (files w)(f := PendingVchiMsgList_update (\<lambda>_. ms) (files w f)),
      wdf_bytes := (wdf_bytes w)(?b := load_bytes (Msg m) (unat k) (mem w) @ drop (unat k) (wdf_bytes w ?b)),
      out_ulong := (out_ulong w)(req := k), trace := trace w1\<rparr>"
    "completions_of req (trace w1) = completions_of req (trace w)"
    using map fit' l by (simp_all add: w1_def buffers_mapped_def completion_of_def vchi_updates)
  obtain st2 w2 where rel: "run_state (VchiqReleaseMsg os (SlotNumber m)) w1 = (st2, w2)" by fastforce
  note eff = release_frame [OF n rel, of req] and queue = release_effect [OF n rel] release_queue [OF n rel]
  have sel: "RxSlotInfo w1 = RxSlotInfo w" "slot_zero w1 = slot_zero w" "ub w1 = ub w" by (subst w1(1), simp)+
  define w3 where "w3 = snd (run_state (ext os (Req (WdfRequestCompleteWithInformation req st0 4))) w2)"
  have w3: "w3 = w2\<lparr>trace := trace w3\<rparr>" "slot_zero w3 = slot_zero w2" "RxSlotInfo w3 = RxSlotInfo w2" "ub w3 = ub w2"
    "completions_of req (trace w3) = completions_of req (trace w2) @ [st0]"
    by (simp_all add: w3_def completion_of_def)
  have fin: "st = st0" "w' = w3"
    using arg_cong [OF rel, of snd] run
    by (auto simp: VchiqRemovePendingVchiMsg_deliver_def Let_def w1_def w3_def case_prod_unfold
        fit' map [unfolded buffers_mapped_def, rule_format, simplified])
  have w2: "w2 = (vchi_taken f req m ms w)\<lparr>slot_zero := slot_zero w2, trace := trace w2\<rparr>"
    by (subst conjunct1 [OF eff], subst w1(1)) (simp add: sel vchi_taken_def Let_def k)
  have "w3 = (vchi_taken f req m ms w)\<lparr>slot_zero := slot_zero w3, trace := trace w3\<rparr>"
    by (subst w3(1), subst w2) (simp add: w3(2))
  moreover have "ub w2 = ub w" by (subst w2) (simp add: vchi_taken_def Let_def)
  moreover have "header_Size w (Msg m) + 8 \<le> dm_BufSize (in_dequeue w req)" using fit k by (simp add: not_less)
  ultimately show ?thesis
    unfolding fin vchi_delivered_def w3(2-5) using w1(2) conjunct2 [OF eff] queue by (simp add: sel Let_def)
qed

text \<open>
  C23. \<open>VchiqRemovePendingVchiMsg\<close>, called with a request while messages wait, completes the
  request exactly once, with the status it returns. When that is a success, the first message
  has left the list, its header and payload are in the request's buffer and its size in the
  output, and one reference to its slot has been dropped, which puts the slot into the firmware's
  queue exactly when it was the last one and the slot is not being read; nothing else has changed.
  Otherwise, in particular when the buffer is too small, the whole state of the driver is as it was,
  references to slots and shared memory included, and nothing has been done but to look for the
  buffers of the request and to complete it. No memory outside the locked buffer is touched.
\<close>

theorem vchi_message_handed_over:
  assumes l: "PendingVchiMsgList (files w f) = m # ms" and n: "unat (SlotNumber m) < VCHIQ_MAX_SLOTS"
    and map: "buffers_mapped os" and req: "req \<noteq> 0"
    and len: "length (wdf_bytes w (dm_WdfMemoryBuffer (in_dequeue w req))) = unat (dm_BufSize (in_dequeue w req))"
    and run: "run_state (VchiqRemovePendingVchiMsg os f req) w = (st, w')"
  shows "completions_of req (trace w') = completions_of req (trace w) @ [st] \<and> ub w' = ub w \<and>
    (if NT_SUCCESS st then vchi_delivered f req m ms w w' else vchi_refused req st w w')"
proof -
  let ?i = "Req (WdfRequestRetrieveInputBuffer req 28)" and ?o = "Req (WdfRequestRetrieveOutputBuffer req 4)"
  let ?ri = "os (trace w) ?i"
  define w2 where "w2 = w\<lparr>trace := trace w @ [(?i, ?ri), (?o, os (trace w @ [(?i, ?ri)]) ?o)]\<rparr>"
  let ?st = "r_status (os (trace w @ [(?i, ?ri)]) ?o)"
  have same: "completions_of req (trace w2) = completions_of req (trace w)" "files w2 = files w"
    "wdf_bytes w2 = wdf_bytes w" "ub w2 = ub w" "mem w2 = mem w" "in_dequeue w2 = in_dequeue w"
    "header_Size w2 = header_Size w" "slot_zero w2 = slot_zero w"
    by (simp_all add: w2_def completion_of_def header_Size_def fun_eq_iff)
  have taken: "vchi_taken f req m ms w2 = (vchi_taken f req m ms w)\<lparr>trace := trace w2\<rparr>"
    by (simp add: vchi_taken_def Let_def w2_def header_Size_def)
  have same': "vchi_delivered f req m ms w2 w' = vchi_delivered f req m ms w w'"
    by (simp add: vchi_delivered_def taken same)
  consider (early) "\<not> NT_SUCCESS (r_status ?ri) \<or> \<not> NT_SUCCESS ?st"
    | (small) "NT_SUCCESS (r_status ?ri)" "NT_SUCCESS ?st" "dm_BufSize (in_dequeue w req) < header_Size w (Msg m) + 8"
    | (fits) "NT_SUCCESS (r_status ?ri)" "NT_SUCCESS ?st" "\<not> dm_BufSize (in_dequeue w req) < header_Size w (Msg m) + 8"
    by blast
  then show ?thesis
  proof cases
    case early
    then show ?thesis using run req l
      by (auto simp: VchiqRemovePendingVchiMsg_def vchi_refused_def completion_of_def split: if_splits)
  next
    case small
    have "run_state (VchiqRemovePendingVchiMsg_head os f req ?st) w2 = (st, w')"
      using small(1,2) run req
      by (simp add: VchiqRemovePendingVchiMsg_def w2_def)
    then have st: "st = STATUS_INSUFFICIENT_RESOURCES"
      and w': "w' = snd (run_state (do { update_file f (PendingVchiMsgList_update (\<lambda>l. m # tl l));
         ext os (Req (WdfRequestComplete req STATUS_INSUFFICIENT_RESOURCES)) }) w2)"
      using small(3) l same by (simp_all add: VchiqRemovePendingVchiMsg_head_def Let_def)
    let ?c = "Req (WdfRequestComplete req STATUS_INSUFFICIENT_RESOURCES)"
    have "w' = w2\<lparr>trace := trace w2 @ [(?c, os (trace w2) ?c)]\<rparr>"
      using w' same_list [OF l] l by (simp add: same(2))
    then have "w' = w\<lparr>trace := trace w @ [(?i, ?ri), (?o, os (trace w @ [(?i, ?ri)]) ?o), (?c, os (trace w2) ?c)]\<rparr>"
      by (simp add: w2_def)
    then show ?thesis by (simp add: vchi_refused_def completion_of_def st)
  next
    case fits
    have "run_state (VchiqRemovePendingVchiMsg_head os f req ?st) w2 = (st, w')"
      using fits(1,2) run req
      by (simp add: VchiqRemovePendingVchiMsg_def w2_def)
    then have "run_state (VchiqRemovePendingVchiMsg_deliver os f req m (header_Size w (Msg m) + 8) ?st) w2 = (st, w')"
      using fits(3) l same by (simp add: VchiqRemovePendingVchiMsg_head_def Let_def)
    have "st = ?st \<and> vchi_delivered f req m ms w2 w' \<and> ub w' = ub w2 \<and>
        completions_of req (trace w') = completions_of req (trace w2) @ [?st]"
      by (rule deliver_spec [OF _ n map _ _ _ \<open>run_state (VchiqRemovePendingVchiMsg_deliver os f req m _ ?st) w2 = _\<close>])
        (simp_all add: same l len fits(3))
    then show ?thesis using fits(2) by (simp add: same(1,4) same')
  qed
qed

text \<open>A message without payload waits in slot 3, and the request's buffer has room for its header.\<close>

definition waiting_message :: VCHIQ_PENDING_MSG where
  "waiting_message = \<lparr>Msg = 0, SlotNumber = 3, WdfMemory = 4\<rparr>"

definition waiting_world :: world where
  "waiting_world = zero_world\<lparr>
     files := (\<lambda>f. zero_file\<lparr>PendingVchiMsgList := if f = 7 then [waiting_message] else []\<rparr>),
     in_dequeue := (\<lambda>_. \<lparr>dm_Blocking = True, dm_BufSize = 8, dm_Buf = 0, dm_WdfMemoryBuffer = 2\<rparr>),
     wdf_bytes := (\<lambda>_. replicate 8 9)\<rparr>"

lemma quiet_os_mapped: "buffers_mapped quiet_os"
  by (simp add: buffers_mapped_def quiet_os_def ok_reply_def)

theorem vchi_message_handed_over_witness:
  "\<exists>w'. run_state (VchiqRemovePendingVchiMsg quiet_os 7 1) waiting_world = (STATUS_SUCCESS, w') \<and>
     PendingVchiMsgList (files w' 7) = [] \<and> take 8 (wdf_bytes w' 2) = replicate 8 0 \<and> ub w' = False"
proof -
  obtain st w' where run: "run_state (VchiqRemovePendingVchiMsg quiet_os 7 1) waiting_world = (st, w')"
    by fastforce
  have l: "PendingVchiMsgList (files waiting_world 7) = [waiting_message]" by (simp add: waiting_world_def)
  have hs: "header_Size waiting_world 0 = 0"
    by (simp add: waiting_world_def zero_world_def header_Size_def load32_def load_bytes_def from_le32_def upt_rec)
  have zeros: "load_bytes 0 8 (mem waiting_world) = replicate 8 0"
    by (rule nth_equalityI) (simp_all add: load_bytes_def waiting_world_def zero_world_def)
  have sel: "dm_WdfMemoryBuffer (in_dequeue waiting_world 1) = 2" "ub waiting_world = False"
    "SlotNumber waiting_message = 3" "Msg waiting_message = 0"
    by (simp_all add: waiting_world_def zero_world_def waiting_message_def)
  have st: "st = STATUS_SUCCESS"
    using run l hs sel
    by (auto simp: VchiqRemovePendingVchiMsg_def VchiqRemovePendingVchiMsg_head_def quiet_os_def ok_reply_def
        header_Size_def VchiqRemovePendingVchiMsg_deliver_def Let_def waiting_world_def split: prod.splits)
  have len: "length (wdf_bytes waiting_world (dm_WdfMemoryBuffer (in_dequeue waiting_world 1))) =
      unat (dm_BufSize (in_dequeue waiting_world 1))"
    by (simp add: waiting_world_def)
  have "ub w' = ub waiting_world \<and> vchi_delivered 7 1 waiting_message [] waiting_world w'"
    using vchi_message_handed_over [OF l _ quiet_os_mapped _ len run] st sel by simp
  then show ?thesis
    using run st hs zeros sel by (auto dest: delivered_fields)
qed

section \<open>One pass over the requests\<close>

lemma release_files:
  assumes "run_state (VchiqReleaseMsg os n) w = (st, w')"
  shows "files w' = files w"
  using keeps_run [OF files_release [where R = "\<lambda>x. x = files w"] assms] by simp

lemma flush_vchi_files:
  "run_state (VchiqRemovePendingVchiMsg_flush os f ms) w = (u, w') \<Longrightarrow>
   length ms = length (PendingVchiMsgList (files w f)) \<Longrightarrow> PendingVchiMsgList (files w' f) = []"
proof (induction ms arbitrary: w)
  case Nil
  then show ?case by simp
next
  case (Cons m ms)
  define w1 where "w1 = snd (run_state (update_file f (PendingVchiMsgList_update butlast)) w)"
  obtain st w2 where rel: "run_state (VchiqReleaseMsg os (SlotNumber m)) w1 = (st, w2)" by fastforce
  have "run_state (VchiqRemovePendingVchiMsg_flush os f ms)
      (snd (run_state (ext os (Wdf (WdfObjectDelete (WdfMemory m)))) w2)) = (u, w')"
    using Cons.prems(1) rel by (simp add: w1_def)
  moreover have "files w2 = files w1" by (rule release_files [OF rel])
  then have "length ms = length (PendingVchiMsgList (files
      (snd (run_state (ext os (Wdf (WdfObjectDelete (WdfMemory m)))) w2)) f))"
    using Cons.prems(2) by (simp add: w1_def)
  ultimately show ?case by (rule Cons.IH)
qed

lemma files_copy:
  "keeps (\<lambda>w. R (files w)) (RtlCopyToWdf x ptr bs)" "keeps (\<lambda>w. R (files w)) (update (out_ulong_update g))"
  by (simp_all add: keeps_def)

text \<open>A success takes one message off the list, or all of them when there is no request.\<close>

lemma remove_vchi_shortens:
  assumes run: "run_state (VchiqRemovePendingVchiMsg os f req) w = (st, w')" and ok: "NT_SUCCESS st"
    and ne: "PendingVchiMsgList (files w f) \<noteq> []"
  shows "length (PendingVchiMsgList (files w' f)) < length (PendingVchiMsgList (files w f)) \<and>
    (req = 0 \<longrightarrow> PendingVchiMsgList (files w' f) = [])"
proof (cases "req = 0")
  case True
  then have "\<exists>u. run_state (VchiqRemovePendingVchiMsg_flush os f (rev (PendingVchiMsgList (files w f)))) w = (u, w')"
    using run by (auto simp: VchiqRemovePendingVchiMsg_def split: prod.splits)
  then show ?thesis using flush_vchi_files [of os f _ w _ w'] ne by fastforce
next
  case False
  obtain m ms where l: "PendingVchiMsgList (files w f) = m # ms" using ne by (cases "PendingVchiMsgList (files w f)") auto
  obtain w2 k st0 where d: "run_state (VchiqRemovePendingVchiMsg_deliver os f req m k st0) w2 = (st, w')"
    "files w2 = files w"
    using run ok False l
    by (auto simp: VchiqRemovePendingVchiMsg_def VchiqRemovePendingVchiMsg_head_def Let_def split: if_splits)
  have "triple (\<lambda>w. PendingVchiMsgList (files w f) = m # ms) (VchiqRemovePendingVchiMsg_deliver os f req m k st0)
      (\<lambda>_ w. PendingVchiMsgList (files w f) = ms)"
    unfolding VchiqRemovePendingVchiMsg_deliver_def Let_def
    by (rule update_file_then [where P' = "\<lambda>w. PendingVchiMsgList (files w f) = ms"], simp,
        rule triple_keeps)
      (intro keeps_bind keeps_get keeps_return files_ext files_release files_copy)
  from tripleD [OF this _ d(1)] have "PendingVchiMsgList (files w' f) = ms" by (simp add: d(2) l)
  then show ?thesis using l False by simp
qed

text \<open>
  C24. The loop of \<open>VchiqProcessPendingVchiMsg\<close> ends: with the number of waiting messages as
  fuel it never runs out, since each request it serves takes a message off the list and it
  stops when the list is empty.
\<close>

theorem vchi_loop_terminates:
  assumes "PendingVchiMsgList (files w f) \<noteq> []" and "length (PendingVchiMsgList (files w f)) \<le> fuel"
  shows "\<exists>st w'. run_state (VchiqProcessPendingVchiMsg_loop os f fuel) w = (Some st, w')"
  using assms
proof (induction fuel arbitrary: w)
  case 0
  then show ?case by simp
next
  case (Suc fuel)
  define c where "c = Req (WdfIoQueueRetrieveNextRequest (FileQueue (files w f) FILE_QUEUE_PENDING_VCHI_MSG))"
  define r where "r = os (trace w) c"
  define w1 where "w1 = w\<lparr>trace := trace w @ [(c, r)]\<rparr>"
  have l1: "PendingVchiMsgList (files w1 f) = PendingVchiMsgList (files w f)" by (simp add: w1_def)
  obtain st w2 where rm: "run_state (VchiqRemovePendingVchiMsg os f (r_ptr r)) w1 = (st, w2)" by fastforce
  show ?case
  proof (cases "r_status r = STATUS_NO_MORE_ENTRIES \<or> \<not> NT_SUCCESS (r_status r) \<or> \<not> NT_SUCCESS st \<or>
      PendingVchiMsgList (files w2 f) = [] \<or> r_ptr r = 0")
    case True
    then show ?thesis using rm by (auto simp: c_def r_def w1_def)
  next
    case False
    then have "NT_SUCCESS st" by simp
    from remove_vchi_shortens [OF rm this] Suc.prems l1
    have "length (PendingVchiMsgList (files w2 f)) \<le> fuel" by auto
    then obtain st' w' where "run_state (VchiqProcessPendingVchiMsg_loop os f fuel) w2 = (Some st', w')"
      using Suc.IH [of w2] False by blast
    then show ?thesis using False rm by (auto simp: c_def r_def w1_def)
  qed
qed

theorem vchi_loop_terminates_witness:
  "\<exists>st w'. run_state (VchiqProcessPendingVchiMsg_loop quiet_os 7 1) waiting_world = (Some st, w')"
  by (rule vchi_loop_terminates) (simp_all add: waiting_world_def)

end
