(* ===== verification/Vchiq_Await.thy ===== *)
theory Vchiq_Await
  imports Vchiq_Delivery
begin

text \<open>
  The completions of an \<open>AWAIT_COMPLETION\<close> request: the waiting data messages are copied, in
  order, one to each of the caller's locked buffers, as long as they fit and there are
  buffers left, and nothing is written outside what was locked.
\<close>

section \<open>One message\<close>

definition completion_buffer :: "world \<Rightarrow> handle \<Rightarrow> nat \<Rightarrow> handle" where
  "completion_buffer w h i = cd_WdfMemoryBuffer (completion_data w h ! i)"

definition await_view :: "handle \<Rightarrow> world \<Rightarrow> (handle \<Rightarrow> u8 list) \<times> (handle \<Rightarrow> VCHIQ_COMPLETION_DATA list) \<times>
    (handle \<Rightarrow> u32) \<times> (handle \<Rightarrow> VCHIQ_AWAIT_COMPLETION) \<times> (nat \<Rightarrow> u8) \<times> bool \<times> VCHIQ_PENDING_MSG list \<times> u64" where
  "await_view f w = (wdf_bytes w, completion_data w, out_ulong w, in_await w, mem w, ub w,
     PendingDataMsgList (files w f), ServiceUserData (files w f))"

lemma await_view_ext: "keeps (\<lambda>w. R (await_view f w)) (ext os c)"
  by (simp add: keeps_def await_view_def)

lemma await_view_release:
  "unat n < VCHIQ_MAX_SLOTS \<Longrightarrow> keeps (\<lambda>w. R (await_view f w)) (VchiqReleaseMsg os n)"
  by (auto simp: keeps_def VchiqReleaseMsg_def VchiqRecycleSlot_def VchiqSignalVC_def Let_def await_view_def
      split: if_splits)

lemma await_view_addref:
  "unat n < VCHIQ_MAX_SLOTS \<Longrightarrow> keeps (\<lambda>w. R (await_view f w)) (VchiqAddRefMsg n)"
  by (simp add: keeps_def VchiqAddRefMsg_def await_view_def)

lemma await_view_vchi: "keeps (\<lambda>w. R (await_view f w)) (update_file f' (PendingVchiMsgList_update g))"
  by (simp add: keeps_def await_view_def)

lemma await_view_track:
  assumes "unat n < VCHIQ_MAX_SLOTS"
  shows "keeps (\<lambda>w. R (await_view f w)) (do {
     do_when b (do {
       _ \<leftarrow> ext os (Ke (ExAcquireMutex (PendingVchiMsgMutex f)));
       _ \<leftarrow> VchiqAddPendingVchiMsg os f hp n;
       _ \<leftarrow> ext os (Ke (ExReleaseMutex (PendingVchiMsgMutex f)));
       return ()
     });
     _ \<leftarrow> ext os (Wdf (WdfObjectDelete h));
     _ \<leftarrow> VchiqReleaseMsg os n;
     return () })"
  unfolding VchiqAddPendingVchiMsg_def
  by (intro keeps_bind keeps_when keeps_if keeps_return keeps_get await_view_ext await_view_vchi
      await_view_addref await_view_release assms)

definition data_message :: "world \<Rightarrow> VCHIQ_PENDING_MSG \<Rightarrow> bool" where
  "data_message w m \<longleftrightarrow> VCHIQ_MSG_TYPE (header_MsgId w (Msg m)) = VCHIQ_MSG_DATA"

definition msg_completion :: "world \<Rightarrow> handle \<Rightarrow> VCHIQ_PENDING_MSG \<Rightarrow> VCHIQ_COMPLETION_DATA \<Rightarrow> VCHIQ_COMPLETION_DATA" where
  "msg_completion w f m c = c\<lparr>cd_Reason := (if data_message w m then VCHIQ_MESSAGE_AVAILABLE else cd_Reason c),
     cd_ServiceUserData := ServiceUserData (files w f)\<rparr>"

text \<open>A message that does not report the end of a bulk transfer: it is always given to the caller.\<close>

definition plain_message :: "world \<Rightarrow> VCHIQ_PENDING_MSG \<Rightarrow> bool" where
  "plain_message w m \<longleftrightarrow>
     VCHIQ_MSG_TYPE (header_MsgId w (Msg m)) \<notin> {VCHIQ_MSG_BULK_TX_DONE, VCHIQ_MSG_BULK_RX_DONE}"

lemma run_reason_plain:
  "plain_message w m \<Longrightarrow>
   VchiqRemovePendingMsg_reason os f h i (header_MsgId w (Msg m)) =
     do_when (data_message w m) (update_completion h i (cd_Reason_update (\<lambda>_. VCHIQ_MESSAGE_AVAILABLE))) \<bind>
     (\<lambda>_. return (data_message w m, True))"
  by (simp add: VchiqRemovePendingMsg_reason_def plain_message_def data_message_def do_when_def)

lemma plain_entry_spec:
  fixes w req h
  defines "i \<equiv> unat (out_ulong w req)"
  assumes plain: "plain_message w m"
    and map: "buffers_mapped os" and i: "i < length (completion_data w h)"
    and n: "unat (SlotNumber m) < VCHIQ_MAX_SLOTS"
    and fits: "unat (header_Size w (Msg m) + 8) \<le> length (wdf_bytes w (completion_buffer w h i))"
    and run: "run_state (VchiqRemovePendingMsg_entry os f req h m) w = (u, w')"
  shows "await_view f w' = ((wdf_bytes w)(completion_buffer w h i :=
      load_bytes (Msg m) (unat (header_Size w (Msg m) + 8)) (mem w) @
      drop (unat (header_Size w (Msg m) + 8)) (wdf_bytes w (completion_buffer w h i))),
    (completion_data w)(h := (completion_data w h)[i := msg_completion w f m (completion_data w h ! i)]),
    (out_ulong w)(req := out_ulong w req + 1), in_await w, mem w, ub w,
    PendingDataMsgList (files w f), ServiceUserData (files w f))"
proof -
  let ?b = "completion_buffer w h i" and ?k = "header_Size w (Msg m) + 8"
  define w1 where "w1 = snd (run_state (do {
     do_when (data_message w m) (update_completion h i (cd_Reason_update (\<lambda>_. VCHIQ_MESSAGE_AVAILABLE)));
     VchiqRemovePendingMsg_return os f req h (Msg m) ?k }) w)"
  have mapped: "0 < r_ptr (os tr (Wdf (WdfMemoryGetBuffer x)))" for tr x
    using map by (simp add: buffers_mapped_def)
  have v1: "await_view f w1 = ((wdf_bytes w)(?b := load_bytes (Msg m) (unat ?k) (mem w) @ drop (unat ?k) (wdf_bytes w ?b)),
    (completion_data w)(h := (completion_data w h)[i := msg_completion w f m (completion_data w h ! i)]),
    (out_ulong w)(req := out_ulong w req + 1), in_await w, mem w, ub w,
    PendingDataMsgList (files w f), ServiceUserData (files w f))"
    using i fits mapped
    by (simp add: w1_def VchiqRemovePendingMsg_return_def Let_def i_def await_view_def completion_at_def
        completion_buffer_def msg_completion_def do_when_def)
  have "w' = snd (run_state (do {
     do_when (IsVchi (files w f) \<and> data_message w m) (do {
       _ \<leftarrow> ext os (Ke (ExAcquireMutex (PendingVchiMsgMutex f)));
       _ \<leftarrow> VchiqAddPendingVchiMsg os f (Msg m) (SlotNumber m);
       _ \<leftarrow> ext os (Ke (ExReleaseMutex (PendingVchiMsgMutex f)));
       return ()
     });
     _ \<leftarrow> ext os (Wdf (WdfObjectDelete (WdfMemory m)));
     _ \<leftarrow> VchiqReleaseMsg os (SlotNumber m);
     return () }) w1)"
    using arg_cong [OF run, of snd]
    by (simp add: VchiqRemovePendingMsg_entry_def run_reason_plain [OF plain] w1_def i_def
        do_when_def case_prod_unfold)
  then show ?thesis
    using keepsD [OF await_view_track [where R = "\<lambda>v. v = await_view f w1", OF n]] v1 by simp
qed

section \<open>The loop\<close>

definition msg_size :: "world \<Rightarrow> VCHIQ_PENDING_MSG \<Rightarrow> u32" where
  "msg_size w m = header_Size w (Msg m) + 8"

definition msg_fits :: "handle \<Rightarrow> world \<Rightarrow> VCHIQ_PENDING_MSG \<Rightarrow> bool" where
  "msg_fits req w m \<longleftrightarrow> \<not> ac_MsgBufSize (in_await w req) < msg_size w m"

text \<open>
  \<open>k\<close> messages of the list \<open>ms\<close> have been copied between \<open>w\<close> and \<open>w'\<close>, to the buffers from the
  one whose index is the running total.
\<close>

definition messages_copied ::
  "handle \<Rightarrow> handle \<Rightarrow> handle \<Rightarrow> world \<Rightarrow> VCHIQ_PENDING_MSG list \<Rightarrow> nat \<Rightarrow> world \<Rightarrow> bool" where
  "messages_copied f req h w ms k w' \<longleftrightarrow> (let j = unat (out_ulong w req) in
     unat (out_ulong w' req) = j + k \<and> PendingDataMsgList (files w' f) = drop k ms \<and> ub w' = ub w \<and>
     (\<forall>i<k. take (unat (msg_size w (ms ! i))) (wdf_bytes w' (completion_buffer w h (j + i))) =
              load_bytes (Msg (ms ! i)) (unat (msg_size w (ms ! i))) (mem w) \<and>
            completion_data w' h ! (j + i) = msg_completion w f (ms ! i) (completion_data w h ! (j + i))) \<and>
     (\<forall>x. x \<notin> {j..<j + k} \<longrightarrow> completion_data w' h ! x = completion_data w h ! x) \<and>
     (\<forall>b. b \<notin> completion_buffer w h ` {j..<j + k} \<longrightarrow> wdf_bytes w' b = wdf_bytes w b))"

text \<open>The locked buffers of a request: one for each completion, distinct, and large enough.\<close>

definition await_buffers :: "handle \<Rightarrow> handle \<Rightarrow> world \<Rightarrow> bool" where
  "await_buffers req h w \<longleftrightarrow> (let ac = in_await w req; N = length (completion_data w h) in
     max 1 (unat (ac_MsgBufCount ac)) \<le> N \<and> inj_on (completion_buffer w h) {..<N} \<and>
     (\<forall>i<N. unat (ac_MsgBufSize ac) \<le> length (wdf_bytes w (completion_buffer w h i))))"

lemma copied_refl:
  "PendingDataMsgList (files w f) = ms \<Longrightarrow> messages_copied f req h w ms 0 w"
  by (simp add: messages_copied_def Let_def)

lemma copied_step:
  assumes inj: "inj_on (completion_buffer w h) {..<length (completion_data w h)}"
    and j: "unat (out_ulong w req) + Suc k \<le> length (completion_data w h)"
    and first: "messages_copied f req h w (m # ms) 1 w1"
    and same: "mem w1 = mem w" "ServiceUserData (files w1 f) = ServiceUserData (files w f)"
      "completion_buffer w1 h = completion_buffer w h"
    and rest: "messages_copied f req h w1 ms k w'"
  shows "messages_copied f req h w (m # ms) (Suc k) w'"
proof -
  let ?j = "unat (out_ulong w req)"
  have size: "msg_size w1 = msg_size w" by (simp add: fun_eq_iff msg_size_def header_Size_def same)
  have dc: "msg_completion w1 f = msg_completion w f"
    by (simp add: fun_eq_iff msg_completion_def data_message_def header_MsgId_def same)
  have j1: "unat (out_ulong w1 req) = Suc ?j" and ub1: "ub w1 = ub w"
    and c1: "take (unat (msg_size w m)) (wdf_bytes w1 (completion_buffer w h ?j)) = load_bytes (Msg m) (unat (msg_size w m)) (mem w)"
      "completion_data w1 h ! ?j = msg_completion w f m (completion_data w h ! ?j)"
      "\<And>x. x \<noteq> ?j \<Longrightarrow> completion_data w1 h ! x = completion_data w h ! x"
      "\<And>b. b \<noteq> completion_buffer w h ?j \<Longrightarrow> wdf_bytes w1 b = wdf_bytes w b"
    using first by (simp_all add: messages_copied_def Let_def)
  note R = rest [unfolded messages_copied_def Let_def j1 size dc same ub1]
  note R1 = conjunct1 [OF R] and R2 = conjunct1 [OF conjunct2 [OF R]]
    and R3 = conjunct1 [OF conjunct2 [OF conjunct2 [OF R]]]
    and R4 = conjunct1 [OF conjunct2 [OF conjunct2 [OF conjunct2 [OF R]]], rule_format]
    and R5 = conjunct2 [OF conjunct2 [OF conjunct2 [OF conjunct2 [OF R]]]]
  note r = R1 R2 R3 conjunct1 [OF R4] conjunct2 [OF R4] conjunct1 [OF R5, rule_format] conjunct2 [OF R5, rule_format]
  have "completion_buffer w h ?j \<notin> completion_buffer w h ` {Suc ?j..<Suc ?j + k}"
  proof
    assume "completion_buffer w h ?j \<in> completion_buffer w h ` {Suc ?j..<Suc ?j + k}"
    then obtain x where x: "x \<in> {Suc ?j..<Suc ?j + k}" "completion_buffer w h ?j = completion_buffer w h x" by blast
    have "?j = x" by (rule inj_onD [OF inj x(2)]) (use x(1) j in auto)
    with x show False by simp
  qed
  then have b: "wdf_bytes w' (completion_buffer w h ?j) = wdf_bytes w1 (completion_buffer w h ?j)" by (rule r(7))
  have contents: "take (unat (msg_size w ((m # ms) ! i))) (wdf_bytes w' (completion_buffer w h (?j + i))) =
              load_bytes (Msg ((m # ms) ! i)) (unat (msg_size w ((m # ms) ! i))) (mem w) \<and>
            completion_data w' h ! (?j + i) = msg_completion w f ((m # ms) ! i) (completion_data w h ! (?j + i))" if "i < Suc k" for i
  proof (cases i)
    case 0
    then show ?thesis using c1(1,2) b r(6) [of ?j] by simp
  next
    case (Suc i')
    then have "i' < k" using that by simp
    then show ?thesis using Suc r(4) [of i'] r(5) [of i'] c1(3) [of "Suc ?j + i'"] by simp
  qed
  have others: "completion_data w' h ! x = completion_data w h ! x" if "x \<notin> {?j..<?j + Suc k}" for x
  proof -
    have "x \<notin> {Suc ?j..<Suc ?j + k}" "x \<noteq> ?j" using that by auto
    then show ?thesis using r(6) [of x] c1(3) [of x] by simp
  qed
  have bytes: "wdf_bytes w' x = wdf_bytes w x" if "x \<notin> completion_buffer w h ` {?j..<?j + Suc k}" for x
  proof -
    have "x \<noteq> completion_buffer w h ?j" "x \<notin> completion_buffer w h ` {Suc ?j..<Suc ?j + k}"
      using that by auto
    then show ?thesis using r(7) c1(4) by simp
  qed
  show ?thesis
    unfolding messages_copied_def Let_def using R1 R2 R3 contents others bytes by simp
qed

text \<open>The number of messages copied: the loop runs at least once.\<close>

definition copy_count :: "(VCHIQ_PENDING_MSG \<Rightarrow> bool) \<Rightarrow> nat \<Rightarrow> VCHIQ_PENDING_MSG list \<Rightarrow> nat" where
  "copy_count p n ms = length (takeWhile p (take (max 1 n) ms))"

lemma copy_count_simps:
  "copy_count p n [] = 0"
  "\<not> p m \<Longrightarrow> copy_count p n (m # ms) = 0"
  "p m \<Longrightarrow> n \<le> 1 \<Longrightarrow> copy_count p n (m # ms) = 1"
  "p m \<Longrightarrow> 1 < n \<Longrightarrow> copy_count p n (m # ms) = Suc (copy_count p (n - 1) ms)"
proof -
  show "copy_count p n (m # ms) = 1" if "p m" "n \<le> 1"
    using that by (cases n) (simp_all add: copy_count_def)
  show "copy_count p n (m # ms) = Suc (copy_count p (n - 1) ms)" if "p m" "1 < n"
  proof -
    have "n = Suc (Suc (n - 2))" using \<open>1 < n\<close> by simp
    then obtain k where "n = Suc (Suc k)" by blast
    then show ?thesis using \<open>p m\<close> by (simp add: copy_count_def)
  qed
qed (simp_all add: copy_count_def take_Cons')

definition plain_messages :: "world \<Rightarrow> VCHIQ_PENDING_MSG list \<Rightarrow> bool" where
  "plain_messages w ms \<longleftrightarrow> (\<forall>m\<in>set ms. plain_message w m \<and> unat (SlotNumber m) < VCHIQ_MAX_SLOTS)"

text \<open>One turn: the entry leaves the list and is copied to the next buffer.\<close>

lemma copy_turn:
  fixes w req
  defines "j \<equiv> unat (out_ulong w req)"
  assumes map: "buffers_mapped os" and buf: "await_buffers req h w" and plain: "plain_messages w (m # ms)"
    and l: "PendingDataMsgList (files w f) = m # ms" and fits: "msg_fits req w m"
    and j: "j < max 1 (unat (ac_MsgBufCount (in_await w req)))"
    and run: "run_state (VchiqRemovePendingMsg_entry os f req h m)
      (w\<lparr>files := (files w)(f := PendingDataMsgList_update tl (files w f))\<rparr>) = (u, w1)"
  shows "messages_copied f req h w (m # ms) 1 w1" and "PendingDataMsgList (files w1 f) = ms"
    and "mem w1 = mem w" "in_await w1 = in_await w" "ServiceUserData (files w1 f) = ServiceUserData (files w f)"
    and "completion_buffer w1 h = completion_buffer w h" and "await_buffers req h w1"
    and "unat (out_ulong w1 req) = Suc j" "length (completion_data w1 h) = length (completion_data w h)"
proof -
  let ?w0 = "w\<lparr>files := (files w)(f := PendingDataMsgList_update tl (files w f))\<rparr>"
  let ?b = "completion_buffer w h" and ?k = "unat (msg_size w m)"
  let ?N = "length (completion_data w h)"
  have N: "j < ?N" and len: "\<And>i. i < ?N \<Longrightarrow> unat (ac_MsgBufSize (in_await w req)) \<le> length (wdf_bytes w (?b i))"
    and inj: "inj_on ?b {..<?N}" and cnt: "max 1 (unat (ac_MsgBufCount (in_await w req))) \<le> ?N"
    using buf j by (auto simp: await_buffers_def Let_def)
  have fit: "?k \<le> length (wdf_bytes w (?b j))"
    using fits len [OF N] by (auto simp: msg_fits_def word_less_nat_alt)
  have sel: "header_MsgId ?w0 = header_MsgId w" "header_Size ?w0 = header_Size w" "completion_buffer ?w0 = completion_buffer w"
    by (simp_all add: fun_eq_iff header_MsgId_def header_Size_def completion_buffer_def)
  have v: "await_view f w1 = ((wdf_bytes w)(?b j := load_bytes (Msg m) ?k (mem w) @ drop ?k (wdf_bytes w (?b j))),
    (completion_data w)(h := (completion_data w h)[j := msg_completion w f m (completion_data w h ! j)]),
    (out_ulong w)(req := out_ulong w req + 1), in_await w, mem w, ub w, ms, ServiceUserData (files w f))"
    using plain_entry_spec [OF _ map _ _ _ run] plain N fit l
    by (simp add: sel plain_messages_def plain_message_def msg_size_def j_def msg_completion_def data_message_def)
  have "unat (ac_MsgBufCount (in_await w req)) < 4294967296" by (rule unat_u32_less)
  then have "Suc j < 4294967296 \<or> j = 0" using j by linarith
  then have "unat (out_ulong w req + 1) = Suc j" unfolding j_def by (auto simp: unat_word_ariths)
  with v show out: "unat (out_ulong w1 req) = Suc j" by (simp add: await_view_def)
  show "PendingDataMsgList (files w1 f) = ms" "mem w1 = mem w" and aw: "in_await w1 = in_await w"
    and "ServiceUserData (files w1 f) = ServiceUserData (files w f)"
    and lc: "length (completion_data w1 h) = ?N"
    using v by (simp_all add: await_view_def)
  have cd: "completion_data w1 h = (completion_data w h)[j := msg_completion w f m (completion_data w h ! j)]"
    and bs: "wdf_bytes w1 = (wdf_bytes w)(?b j := load_bytes (Msg m) ?k (mem w) @ drop ?k (wdf_bytes w (?b j)))"
    and "ub w1 = ub w"
    using v by (simp_all add: await_view_def)
  show cb: "completion_buffer w1 h = ?b"
    using N by (auto simp: fun_eq_iff completion_buffer_def cd nth_list_update msg_completion_def)
  have lens: "length (wdf_bytes w1 x) = length (wdf_bytes w x)" for x
    using fit by (simp add: bs)
  show "await_buffers req h w1"
    using inj len cnt by (simp add: await_buffers_def Let_def lc cb aw lens)
  show "messages_copied f req h w (m # ms) 1 w1"
    unfolding messages_copied_def Let_def
    using N out \<open>ub w1 = ub w\<close> \<open>PendingDataMsgList (files w1 f) = ms\<close>
    by (simp add: cd bs fit flip: j_def)
qed

lemma copy_spec:
  fixes w req
  assumes map: "buffers_mapped os"
  shows "await_buffers req h w \<Longrightarrow> plain_messages w ms \<Longrightarrow> PendingDataMsgList (files w f) = ms \<Longrightarrow>
    unat (out_ulong w req) < max 1 (unat (ac_MsgBufCount (in_await w req))) \<Longrightarrow>
    run_state (VchiqRemovePendingMsg_copy os f req h ms) w = (u, w') \<Longrightarrow>
    messages_copied f req h w ms (copy_count (msg_fits req w)
      (unat (ac_MsgBufCount (in_await w req)) - unat (out_ulong w req)) ms) w'"
proof (induction ms arbitrary: w)
  case Nil
  then show ?case by (simp add: copy_count_simps copied_refl)
next
  case (Cons m ms)
  let ?cnt = "unat (ac_MsgBufCount (in_await w req))" and ?j = "unat (out_ulong w req)"
  note l = Cons.prems(3) and j = Cons.prems(4) and run = Cons.prems(5)
  show ?case
  proof (cases "msg_fits req w m")
    case False
    then have "w' = w\<lparr>files := (files w)(f := PendingDataMsgList_update (\<lambda>l. m # tl l) (files w f))\<rparr>"
      using run by (simp add: msg_fits_def msg_size_def)
    then have "messages_copied f req h w (m # ms) 0 w'"
      using l by (simp add: messages_copied_def Let_def)
    then show ?thesis using False by (simp add: copy_count_simps)
  next
    case True
    let ?w0 = "w\<lparr>files := (files w)(f := PendingDataMsgList_update tl (files w f))\<rparr>"
    obtain w1 where e: "run_state (VchiqRemovePendingMsg_entry os f req h m) ?w0 = ((), w1)"
      by (metis old.unit.exhaust surj_pair)
    note t = copy_turn [OF map Cons.prems(1,2) l True j e]
    have run1: "(u, w') = (if out_ulong w1 req < ac_MsgBufCount (in_await w1 req)
        then run_state (VchiqRemovePendingMsg_copy os f req h ms) w1 else ((), w1))"
      using run True e by (simp add: msg_fits_def msg_size_def split: if_splits)
    have less: "out_ulong w1 req < ac_MsgBufCount (in_await w1 req) \<longleftrightarrow> Suc ?j < ?cnt"
      using t(8,4) by (simp add: word_less_nat_alt)
    have same: "msg_fits req w1 = msg_fits req w" "plain_messages w1 = plain_messages w"
      by (simp_all add: fun_eq_iff msg_fits_def msg_size_def plain_messages_def plain_message_def header_Size_def header_MsgId_def t(3,4))
    show ?thesis
    proof (cases "Suc ?j < ?cnt")
      case False
      then have "w' = w1" using run1 less by simp
      moreover have "copy_count (msg_fits req w) (?cnt - ?j) (m # ms) = 1"
        using True False by (intro copy_count_simps) simp_all
      ultimately show ?thesis using t(1) by simp
    next
      case more: True
      let ?k = "copy_count (msg_fits req w) (?cnt - Suc ?j) ms"
      have "messages_copied f req h w1 ms ?k w'"
        using Cons.IH [OF t(7) _ t(2)] Cons.prems(2) run1 less more t(4,8) same
        by (simp add: plain_messages_def)
      moreover have "?j + Suc ?k \<le> length (completion_data w h)"
      proof -
        have "?k \<le> max 1 (?cnt - Suc ?j)"
          unfolding copy_count_def by (rule order_trans [OF length_takeWhile_le]) simp
        moreover have "?cnt \<le> length (completion_data w h)"
          using Cons.prems(1) by (simp add: await_buffers_def Let_def)
        ultimately show ?thesis using more by linarith
      qed
      moreover have "inj_on (completion_buffer w h) {..<length (completion_data w h)}"
        using Cons.prems(1) by (simp add: await_buffers_def Let_def)
      ultimately have "messages_copied f req h w (m # ms) (Suc ?k) w'"
        using copied_step t(1,3,5,6) by blast
      moreover have "copy_count (msg_fits req w) (?cnt - ?j) (m # ms) = Suc ?k"
        using True more by (subst copy_count_simps(4)) simp_all
      ultimately show ?thesis by simp
    qed
  qed
qed

text \<open>
  C5. A request that awaits completions is given the waiting messages in the order in which they
  arrived. The claim is about messages that do not report the end of a bulk transfer, and about a
  request whose locked buffers are distinct and at least \<open>MsgBufSize\<close> long and whose
  \<open>MsgBufCount\<close> is at most the number of its completions (with more, the code writes behind the
  completions). Starting with an empty total, \<open>VchiqRemovePendingMsg_copy\<close> then copies the longest
  run of messages that fit \<open>MsgBufSize\<close> and for which there are buffers, the i-th message with its
  header to the i-th buffer, puts the service in the i-th completion and, for a data message, the
  reason \<open>VCHIQ_MESSAGE_AVAILABLE\<close>, and leaves the rest of the list, the other completions of the
  request and every other buffer as they were; nothing is written outside what was locked.
\<close>

theorem await_delivers_in_order:
  assumes "buffers_mapped os" and "await_buffers req h w" and "plain_messages w (PendingDataMsgList (files w f))"
    and "out_ulong w req = 0"
    and "run_state (VchiqRemovePendingMsg_copy os f req h (PendingDataMsgList (files w f))) w = (u, w')"
  shows "messages_copied f req h w (PendingDataMsgList (files w f))
    (copy_count (msg_fits req w) (unat (ac_MsgBufCount (in_await w req))) (PendingDataMsgList (files w f))) w'"
  using copy_spec [OF assms(1,2,3) refl _ assms(5)] assms(4) by simp

text \<open>Two messages wait, and there is one buffer: the first is copied, the second stays.\<close>

definition two_messages :: "VCHIQ_PENDING_MSG list" where
  "two_messages = [\<lparr>Msg = 0, SlotNumber = 3, WdfMemory = 4\<rparr>, \<lparr>Msg = 0, SlotNumber = 3, WdfMemory = 5\<rparr>]"

definition await_world :: world where
  "await_world = zero_world\<lparr>
     files := (\<lambda>f. zero_file\<lparr>PendingDataMsgList := two_messages, ServiceUserData := 77\<rparr>),
     mem := store_bytes 0 (le32 (VCHIQ_MAKE_MSG VCHIQ_MSG_DATA 9 1) @ le32 0) (\<lambda>_. 0),
     in_await := (\<lambda>_. \<lparr>ac_Count = 1, ac_Buf = 0, ac_MsgBufSize = 8, ac_MsgBufCount = 1,
       ac_MsgBufs = (\<lambda>_. 0), ac_WdfMemoryCompletion = 6\<rparr>),
     completion_data := (\<lambda>_. [zero_completion\<lparr>cd_WdfMemoryBuffer := 2\<rparr>]),
     wdf_bytes := (\<lambda>_. replicate 8 9)\<rparr>"

theorem await_delivers_in_order_witness:
  "unat (out_ulong (snd (run_state (VchiqRemovePendingMsg_copy quiet_os 7 1 6 two_messages) await_world)) 1) = 1 \<and>
   PendingDataMsgList (files (snd (run_state (VchiqRemovePendingMsg_copy quiet_os 7 1 6 two_messages) await_world)) 7)
     = tl two_messages \<and>
   cd_ServiceUserData (completion_data (snd (run_state (VchiqRemovePendingMsg_copy quiet_os 7 1 6 two_messages)
     await_world)) 6 ! 0) = 77"
proof -
  have head: "header_MsgId await_world 0 = VCHIQ_MAKE_MSG VCHIQ_MSG_DATA 9 1" "header_Size await_world 0 = 0"
    using load32_header(1) [of 0 "VCHIQ_MAKE_MSG VCHIQ_MSG_DATA 9 1" "le32 0" "\<lambda>_. 0"]
      load32_header(2) [of 0 "VCHIQ_MAKE_MSG VCHIQ_MSG_DATA 9 1" 0 "\<lambda>_. 0"]
    by (simp_all add: header_MsgId_def header_Size_def await_world_def)
  have type: "VCHIQ_MSG_TYPE (VCHIQ_MAKE_MSG VCHIQ_MSG_DATA 9 1) = VCHIQ_MSG_DATA"
    by (simp add: VCHIQ_MSG_TYPE_def VCHIQ_MAKE_MSG_def push_bit_eq_mult)
  have l: "PendingDataMsgList (files await_world 7) = two_messages" by (simp add: await_world_def)
  have buf: "await_buffers 1 6 await_world"
    by (simp add: await_buffers_def await_world_def inj_on_def lessThan_Suc)
  have dat: "plain_messages await_world (PendingDataMsgList (files await_world 7))"
    unfolding l by (simp add: plain_messages_def plain_message_def two_messages_def head type)
  have z: "out_ulong await_world 1 = 0" by (simp add: await_world_def zero_world_def)
  obtain u w' where r: "run_state (VchiqRemovePendingMsg_copy quiet_os 7 1 6 two_messages) await_world = (u, w')"
    by (rule prod.exhaust)
  have run: "run_state (VchiqRemovePendingMsg_copy quiet_os 7 1 6 (PendingDataMsgList (files await_world 7))) await_world = (u, w')"
    unfolding l by (rule r)
  have fits: "msg_fits 1 await_world m" if "Msg m = 0" for m
    using that head by (simp add: msg_fits_def msg_size_def) (simp add: await_world_def)
  have cnt: "copy_count (msg_fits 1 await_world) (unat (ac_MsgBufCount (in_await await_world 1)))
      (PendingDataMsgList (files await_world 7)) = 1"
    unfolding l two_messages_def by (rule copy_count_simps(3), rule fits, simp) (simp add: await_world_def)
  have su: "ServiceUserData (files await_world 7) = 77" by (simp add: await_world_def)
  have "messages_copied 7 1 6 await_world two_messages 1 w'"
    using await_delivers_in_order [OF quiet_os_mapped buf dat z run] unfolding l cnt [unfolded l] .
  then have "unat (out_ulong w' 1) = 1 \<and> PendingDataMsgList (files w' 7) = tl two_messages \<and>
      cd_ServiceUserData (completion_data w' 6 ! 0) = 77"
    by (simp add: messages_copied_def Let_def z [simplified] msg_completion_def su drop_Suc)
  then show ?thesis by (simp only: r snd_conv)
qed

end
