(* ===== verification/Vchiq_Stream.thy ===== *)
theory Vchiq_Stream
  imports Vchiq_Credit
begin

text \<open>
  The transmit slots as a stream of messages. The abstract state is the list of messages
  queued so far; the shared memory represents it slot by slot, each slot a sequence of framed
  messages in which padding does not count. Queueing a message refines appending it to the
  list.
\<close>

section \<open>Framed messages\<close>

type_synonym message = "u32 \<times> u8 list"

definition align8 :: "nat \<Rightarrow> nat" where
  "align8 n = (n + 7) div 8 * 8"

text \<open>\<open>frames m a ms e\<close>: from address \<open>a\<close> to exactly \<open>e\<close> the memory \<open>m\<close> holds the messages \<open>ms\<close>.\<close>

inductive frames :: "(nat \<Rightarrow> u8) \<Rightarrow> nat \<Rightarrow> message list \<Rightarrow> nat \<Rightarrow> bool" for m where
  end_here: "frames m a [] a"
| message: "load32 a m = i \<Longrightarrow> unat (load32 (a + 4) m) = length p \<Longrightarrow> load_bytes (a + 8) (length p) m = p \<Longrightarrow>
    frames m (a + align8 (length p + 8)) ms e \<Longrightarrow> frames m a ((i, p) # ms) e"

inductive_cases frames_NilE: "frames m a [] e"
inductive_cases frames_ConsE: "frames m a (x # ms) e"
inductive_simps frames_Nil [simp]: "frames m a [] e"

lemma align8_ge: "n \<le> align8 n"
  unfolding align8_def by presburger

lemma frames_le: "frames m a ms e \<Longrightarrow> a \<le> e"
  by (induction rule: frames.induct) simp_all

lemma frames_append: "frames m a ms b \<Longrightarrow> frames m b ms' e \<Longrightarrow> frames m a (ms @ ms') e"
  by (induction rule: frames.induct) (auto intro: frames.intros)

lemma frames_cong:
  "frames m a ms e \<Longrightarrow> (\<And>x. a \<le> x \<Longrightarrow> x < e \<Longrightarrow> m' x = m x) \<Longrightarrow> frames m' a ms e"
proof (induction rule: frames.induct)
  case (end_here a)
  show ?case by simp
next
  case (message a i p ms e)
  have "a + align8 (length p + 8) \<le> e" using message(4) by (rule frames_le)
  then have le: "a + length p + 8 \<le> e" using align8_ge [of "length p + 8"] by linarith
  have "load_bytes a 4 m' = load_bytes a 4 m" "load_bytes (a + 4) 4 m' = load_bytes (a + 4) 4 m"
    "load_bytes (a + 8) (length p) m' = load_bytes (a + 8) (length p) m"
    by (rule load_bytes_cong; use message.prems le in simp)+
  moreover have "frames m' (a + align8 (length p + 8)) ms e"
    by (rule message.IH) (use message.prems in simp)
  ultimately show ?case
    using message.hyps by (intro frames.message) (simp_all add: load32_def)
qed

text \<open>A stretch of memory holds at most one sequence of messages.\<close>

lemma frames_unique: "frames m a ms e \<Longrightarrow> frames m a ms' e \<Longrightarrow> ms = ms'"
proof (induction arbitrary: ms' rule: frames.induct)
  case (end_here a)
  from end_here.prems show ?case
  proof (cases rule: frames.cases)
    case (message i p ms)
    then show ?thesis using frames_le [OF message(5)] align8_ge [of "length p + 8"] by simp
  qed simp
next
  case (message a i p ms e)
  note hyps = message.hyps and IH = message.IH
  from message.prems show ?case
  proof (cases rule: frames.cases)
    case end_here
    then show ?thesis using frames_le [OF hyps(4)] align8_ge [of "length p + 8"] by simp
  next
    case (message i' p' ms2)
    have len: "length p' = length p" by (rule trans [OF message(3) [symmetric] hyps(2)])
    have "p' = p"
      by (rule trans [OF message(4) [symmetric] trans [OF arg_cong [OF len, of "\<lambda>n. load_bytes (a + 8) n m"] hyps(3)]])
    moreover note len
    moreover have "i' = i" using message(2) hyps(1) by simp
    ultimately show ?thesis using message(1,5) IH [of ms2] by simp
  qed
qed

section \<open>Slots\<close>

definition payloads :: "message list \<Rightarrow> message list" where
  "payloads ms = filter (\<lambda>(i, _). VCHIQ_MSG_TYPE i \<noteq> VCHIQ_MSG_PADDING) ms"

lemma payloads_simps [simp]:
  "payloads [] = []" "payloads (ms @ ms') = payloads ms @ payloads ms'"
  "payloads [(i, p)] = (if VCHIQ_MSG_TYPE i = VCHIQ_MSG_PADDING then [] else [(i, p)])"
  by (simp_all add: payloads_def)

text \<open>The slots that have been filled.\<close>

inductive full_slots :: "(nat \<Rightarrow> u8) \<Rightarrow> nat list \<Rightarrow> message list \<Rightarrow> bool" for m where
  none: "full_slots m [] []"
| slot: "full_slots m ss ms \<Longrightarrow> frames m s fs (s + 4096) \<Longrightarrow> full_slots m (ss @ [s]) (ms @ payloads fs)"

lemma full_slots_cong:
  "full_slots m ss ms \<Longrightarrow> (\<And>x s. s \<in> set ss \<Longrightarrow> s \<le> x \<Longrightarrow> x < s + 4096 \<Longrightarrow> m' x = m x) \<Longrightarrow> full_slots m' ss ms"
proof (induction rule: full_slots.induct)
  case none
  show ?case by (rule full_slots.none)
next
  case (slot ss ms s fs)
  have "full_slots m' ss ms" by (rule slot.IH) (use slot.prems in auto)
  moreover have "frames m' s fs (s + 4096)"
    by (rule frames_cong [OF slot.hyps(2)]) (use slot.prems [of s] in auto)
  ultimately show ?case by (rule full_slots.slot)
qed

text \<open>The slot being filled, up to \<open>n\<close> bytes.\<close>

definition stream_at :: "(nat \<Rightarrow> u8) \<Rightarrow> nat list \<Rightarrow> nat \<Rightarrow> message list \<Rightarrow> bool" where
  "stream_at m ss n ms \<longleftrightarrow> ss \<noteq> [] \<and> distinct ss \<and> (\<forall>s\<in>set ss. 4096 dvd s) \<and>
     (\<exists>ms1 fs. full_slots m (butlast ss) ms1 \<and> frames m (last ss) fs (last ss + n) \<and> ms = ms1 @ payloads fs)"

definition tx_fill :: "world \<Rightarrow> nat" where
  "tx_fill w = (if unat (CurrentTxPos w) mod 4096 = 0 then 4096 else unat (CurrentTxPos w) mod 4096)"

text \<open>
  The refinement relation: \<open>ss\<close> are the slots that hold messages the firmware has not given
  back, in the order they were entered, and \<open>ms\<close> is what they hold.
\<close>

definition tx_stream :: "world \<Rightarrow> nat list \<Rightarrow> message list \<Rightarrow> bool" where
  "tx_stream w ss ms \<longleftrightarrow>
     (if ss = [] then unat (CurrentTxPos w) mod 4096 = 0 \<and> ms = []
      else SlaveCurrentSlot w = Some (last ss) \<and> stream_at (mem w) ss (tx_fill w) ms)"

lemma aligned_disjoint:
  assumes "4096 dvd s" "4096 dvd t" "s \<noteq> (t :: nat)" "s \<le> x" "x < s + 4096"
  shows "x < t \<or> t + 4096 \<le> x"
proof -
  from assms(1) obtain a where "s = 4096 * a" by (rule dvdE)
  moreover from assms(2) obtain b where "t = 4096 * b" by (rule dvdE)
  ultimately show ?thesis using assms(3-5) by (cases "a < b") auto
qed

lemma stream_extend:
  assumes st: "stream_at m ss n ms" and same: "\<And>x. x < last ss + n \<or> last ss + 4096 \<le> x \<Longrightarrow> m' x = m x"
    and n: "n \<le> 4096" and new: "frames m' (last ss + n) fs' (last ss + n')"
  shows "stream_at m' ss n' (ms @ payloads fs')"
proof -
  let ?s = "last ss"
  obtain ms1 fs where f: "full_slots m (butlast ss) ms1" "frames m ?s fs (?s + n)" "ms = ms1 @ payloads fs"
    and ss: "ss \<noteq> []" "distinct ss" "\<forall>s\<in>set ss. 4096 dvd s"
    using st by (auto simp: stream_at_def)
  have "full_slots m' (butlast ss) ms1"
  proof (rule full_slots_cong [OF f(1)])
    fix x s assume s: "s \<in> set (butlast ss)" "s \<le> x" "x < s + 4096"
    have "s \<noteq> ?s" using s(1) ss(1,2) by (metis append_butlast_last_id distinct_butlast not_distinct_conv_prefix)
    then have "x < ?s \<or> ?s + 4096 \<le> x"
      using s ss by (intro aligned_disjoint [of s ?s]) (auto dest: in_set_butlastD)
    then show "m' x = m x" using n by (intro same) auto
  qed
  moreover have "frames m' ?s fs (?s + n)"
    by (rule frames_cong [OF f(2)]) (simp add: same)
  then have "frames m' ?s (fs @ fs') (?s + n')" using new by (rule frames_append)
  ultimately show ?thesis
    unfolding stream_at_def using ss f(3) by fastforce
qed

lemma stream_write:
  assumes st: "stream_at m ss n ms" and fit: "n + align8 (length p + 8) \<le> 4096" and len: "length p < 2 ^ 32"
  shows "stream_at (store_bytes (last ss + n) (le32 i @ le32 (of_nat (length p)) @ p) m) ss
    (n + align8 (length p + 8)) (ms @ payloads [(i, p)])"
proof (rule stream_extend [OF st])
  let ?s = "last ss" and ?bs = "le32 i @ le32 (of_nat (length p)) @ p"
  let ?m = "store_bytes (?s + n) ?bs m"
  have bound: "n + (length p + 8) \<le> 4096" using fit align8_ge [of "length p + 8"] by linarith
  then show "?m x = m x" if "x < ?s + n \<or> ?s + 4096 \<le> x" for x
    using that by (intro store_bytes_outside) auto
  show "n \<le> 4096" using bound by simp
  show "frames ?m (?s + n) [(i, p)] (?s + (n + align8 (length p + 8)))"
  proof (rule frames.message)
    show "load32 (?s + n) ?m = i" by (simp add: load32_header(1))
    have "load_bytes (?s + n + 4) 4 ?m = le32 (of_nat (length p))"
      by (subst store_bytes_append) (simp add: load_store_prefix)
    then show "unat (load32 (?s + n + 4) ?m) = length p"
      using len by (simp only: load32_def from_le32_le32 unsigned_of_nat) (simp add: take_bit_nat_eq_self)
    show "load_bytes (?s + n + 8) (length p) ?m = p"
      unfolding append_assoc [symmetric] by (rule load_store_suffix) simp_all
  qed (simp add: add.assoc)
qed

section \<open>The transmit path\<close>

lemma align8_multiple: "8 dvd n \<Longrightarrow> align8 n = n"
  by (auto simp: align8_def elim!: dvdE)

lemma pad_stream:
  assumes inv: "tx_inv w" and n: "unat n \<le> 4096" and st: "tx_stream w ss ms"
    and run: "run_state (VchiqAcquireTxSpace_pad n) w = (u, w1)"
  shows "tx_stream w1 ss ms"
proof (cases "tx_avail w < unat (VCHIQ_GET_SLOT_ALIGN_SIZE n)")
  case False
  with run st show ?thesis by (simp add: run_pad)
next
  case True
  let ?off = "unat (CurrentTxPos w) mod 4096" and ?s = "last ss"
  have off: "?off \<noteq> 0" using True align_bounds(3) [OF n] by (auto simp: tx_avail_def)
  then have ss: "ss \<noteq> []" and cur: "SlaveCurrentSlot w = Some ?s" and sa: "stream_at (mem w) ss ?off ms"
    using st by (auto simp: tx_stream_def tx_fill_def split: if_splits)
  have dvd: "8 dvd ?off" using inv by (simp add: tx_inv_def dvd_mod)
  then have off8: "?off + 8 \<le> 4096" by (auto simp: dvd_def)
  define k where "k = 4096 - ?off - 8"
  have avail: "tx_avail w = k + 8" using off8 by (simp add: tx_avail_def k_def)
  have w1: "mem w1 = store_bytes (?s + ?off) (le32 0 @ le32 (of_nat k)) (mem w)"
    "CurrentTxPos w1 = CurrentTxPos w + of_nat (tx_avail w)" "SlaveCurrentSlot w1 = SlaveCurrentSlot w"
    using run True cur by (auto simp: run_pad VCHIQ_GET_CURRENT_TX_HEADER_def avail)
  have "unat (CurrentTxPos w1) mod 4096 = 0"
    using unat_of_nat_small [of "tx_avail w"] by (simp add: w1(2) unat_add_mod_slot tx_avail_def round_up_slot)
  then have fill: "tx_fill w1 = 4096" by (simp add: tx_fill_def)
  have "stream_at (mem w1) ss 4096 (ms @ payloads [(0, load_bytes (?s + ?off + 8) k (mem w1))])"
  proof (rule stream_extend [OF sa])
    show "mem w1 x = mem w x" if "x < ?s + ?off \<or> ?s + 4096 \<le> x" for x
      unfolding w1(1) using that off8 by (intro store_bytes_outside) auto
    show "frames (mem w1) (?s + ?off) [(0, load_bytes (?s + ?off + 8) k (mem w1))] (?s + 4096)"
    proof (rule frames.message)
      have "unat (of_nat k :: u32) = k" by (rule unat_of_nat_small) (simp add: k_def)
      then show "unat (load32 (?s + ?off + 4) (mem w1)) = length (load_bytes (?s + ?off + 8) k (mem w1))"
        by (simp add: w1(1) load32_header)
      have "align8 (k + 8) = k + 8" using dvd off8 by (intro align8_multiple) (simp add: k_def)
      then show "frames (mem w1) (?s + ?off + align8 (length (load_bytes (?s + ?off + 8) k (mem w1)) + 8)) [] (?s + 4096)"
        using off8 by (simp add: k_def)
    qed (simp_all add: w1(1) load32_header)
  qed simp
  moreover have "VCHIQ_MSG_TYPE 0 = VCHIQ_MSG_PADDING" by (simp add: VCHIQ_MSG_TYPE_def)
  ultimately show ?thesis using ss cur by (simp add: tx_stream_def fill w1(3))
qed

text \<open>The slot that the queue offers next.\<close>

definition next_tx_slot :: "world \<Rightarrow> nat" where
  "next_tx_slot w = VCHIQ_GET_HEADER_BY_GLOBAL_INDEX
     (SlotQueue (Slave (slot_zero w)) (slots_entered (CurrentTxPos w) mod 64))"

lemma enter_slot:
  assumes st: "tx_stream w ss ms" and pos: "unat (CurrentTxPos w) mod 4096 = 0"
    and s: "4096 dvd s" "s \<notin> set ss"
  shows "stream_at (mem w) (ss @ [s]) 0 ms"
proof -
  have "full_slots (mem w) ss ms"
  proof (cases "ss = []")
    case True
    then show ?thesis using st by (simp add: tx_stream_def full_slots.none)
  next
    case False
    then obtain ms1 fs where "full_slots (mem w) (butlast ss) ms1" "frames (mem w) (last ss) fs (last ss + 4096)"
      "ms = ms1 @ payloads fs"
      using st pos by (auto simp: tx_stream_def stream_at_def tx_fill_def)
    then show ?thesis using full_slots.slot [of "mem w" "butlast ss" ms1 "last ss" fs] False by simp
  qed
  moreover have "distinct ss \<and> (\<forall>s\<in>set ss. 4096 dvd s)"
    using st by (cases "ss = []") (auto simp: tx_stream_def stream_at_def)
  moreover have "frames (mem w) s [] s \<and> ms = ms @ payloads []" by simp
  ultimately have "\<exists>ms1 fs. full_slots (mem w) ss ms1 \<and> frames (mem w) s fs s \<and> ms = ms1 @ payloads fs"
    "distinct ss \<and> (\<forall>s\<in>set ss. 4096 dvd s)"
    by blast+
  then show ?thesis using s by (simp add: stream_at_def)
qed

lemma slots_entered_mod_pad:
  assumes run: "run_state (VchiqAcquireTxSpace_pad n) w = (u, w1)" and n: "unat n \<le> 4096"
  shows "slots_entered (CurrentTxPos w1) mod 64 = slots_entered (CurrentTxPos w) mod 64"
proof (cases "tx_avail w < unat (VCHIQ_GET_SLOT_ALIGN_SIZE n)")
  case False
  with run show ?thesis by (simp add: run_pad)
next
  case True
  then have "unat (CurrentTxPos w) mod 4096 \<noteq> 0"
    using align_bounds(3) [OF n] by (auto simp: tx_avail_def)
  from slots_entered_pad [OF this]
  have "slots_entered (CurrentTxPos w1) mod 1048576 = slots_entered (CurrentTxPos w) mod 1048576"
    using run True by (auto simp: run_pad tx_avail_def split: option.splits)
  then have "slots_entered (CurrentTxPos w1) mod 1048576 mod 64 = slots_entered (CurrentTxPos w) mod 1048576 mod 64"
    by (rule arg_cong)
  then show ?thesis by (simp add: mod_mod_cancel)
qed

lemma next_slot_address:
  assumes "unat (CurrentTxPos w) mod 4096 = 0"
  shows "VCHIQ_GET_HEADER_BY_GLOBAL_INDEX (VCHIQ_GET_NEXT_TX_SLOT_INDEX w) = next_tx_slot w"
proof -
  have "slots_entered (CurrentTxPos w) = unat (CurrentTxPos w) div 4096"
    using assms by (simp add: slots_entered_split)
  then show ?thesis
    by (simp add: next_tx_slot_def VCHIQ_GET_NEXT_TX_SLOT_INDEX_def unat_div)
qed

lemma next_tx_slot_dvd: "4096 dvd next_tx_slot w"
  by (simp add: next_tx_slot_def VCHIQ_GET_HEADER_BY_GLOBAL_INDEX_def)

text \<open>Acquired space is where the next message of the stream goes.\<close>

lemma acquire_stream:
  assumes inv: "tx_inv w" and n: "unat n \<le> 4096" and st: "tx_stream w ss ms"
    and fresh: "next_tx_slot w \<notin> set ss"
    and run: "run_state (VchiqAcquireTxSpace os f n False) w = ((s, hdr), w')"
  shows "if NT_SUCCESS s
    then \<exists>ss' k. (ss' = ss \<or> ss' = ss @ [next_tx_slot w]) \<and> hdr = Some (last ss' + k) \<and>
      stream_at (mem w') ss' k ms \<and> SlaveCurrentSlot w' = Some (last ss') \<and> ss' \<noteq> [] \<and>
      k + unat (VCHIQ_GET_SLOT_ALIGN_SIZE n) \<le> 4096 \<and>
      unat (CurrentTxPos w') mod 4096 = (k + unat (VCHIQ_GET_SLOT_ALIGN_SIZE n)) mod 4096
    else tx_stream w' ss ms"
  using run
proof (cases rule: acquire_cases)
  case (fail w1)
  have "tx_stream w1 ss ms" by (rule pad_stream [OF inv n st fail(1)])
  moreover have "mem w' = mem w1" "CurrentTxPos w' = CurrentTxPos w1" "SlaveCurrentSlot w' = SlaveCurrentSlot w1"
    using fail(3,4) by (auto elim!: next_slot_cases)
  moreover from this have "tx_fill w' = tx_fill w1" by (simp add: tx_fill_def)
  ultimately show ?thesis using fail(4) by (simp add: tx_stream_def)
next
  case (ok w1 w2)
  let ?a = "VCHIQ_GET_SLOT_ALIGN_SIZE n" and ?p = "unat (CurrentTxPos w1) mod 4096"
  have st1: "tx_stream w1 ss ms" by (rule pad_stream [OF inv n st ok(1)])
  note room = pad_spec(2) [OF inv n ok(1)]
  have pos: "CurrentTxPos w2 = CurrentTxPos w1" "mem w2 = mem w1" using ok(2) next_slot_frame by auto
  have pos': "unat (CurrentTxPos w') mod 4096 = (?p + unat ?a) mod 4096"
    by (simp add: ok(5) pos unat_add_mod_slot mod_add_left_eq)
  obtain ss' where ss': "ss' = ss \<or> ss' = ss @ [next_tx_slot w]" "ss' \<noteq> []"
    "SlaveCurrentSlot w2 = Some (last ss')" "stream_at (mem w1) ss' ?p ms"
  proof (cases "CurrentTxPos w1 AND 4095 = 0")
    case False
    then have "?p \<noteq> 0" by (simp add: slot_offset_eq_0_iff)
    then show thesis using that [of ss] st1 ok(2) False
      by (auto simp: tx_stream_def tx_fill_def split: if_splits)
  next
    case True
    then have p0: "?p = 0" by (simp add: slot_offset_eq_0_iff)
    have "slot_zero w1 = slot_zero w" by (rule pad_frame [OF ok(1)])
    then have "next_tx_slot w1 = next_tx_slot w"
      using slots_entered_mod_pad [OF ok(1) n] by (simp add: next_tx_slot_def)
    then have "SlaveCurrentSlot w2 = Some (next_tx_slot w)"
      using ok(2) True next_slot_address [OF p0] by (auto elim!: next_slot_cases)
    moreover have "stream_at (mem w1) (ss @ [next_tx_slot w]) ?p ms"
      unfolding p0 by (rule enter_slot [OF st1 p0 next_tx_slot_dvd fresh])
    ultimately show thesis by (intro that [of "ss @ [next_tx_slot w]"]) simp_all
  qed
  have "hdr = Some (last ss' + ?p)" using ok(4) ss'(3) pos by (simp add: VCHIQ_GET_CURRENT_TX_HEADER_def)
  moreover have "mem w' = mem w1" "SlaveCurrentSlot w' = Some (last ss')" by (simp_all add: ok(5) pos ss'(3))
  moreover note ss'(1,2,4) room pos'
  ultimately have "\<exists>ss' k. (ss' = ss \<or> ss' = ss @ [next_tx_slot w]) \<and> hdr = Some (last ss' + k) \<and>
      stream_at (mem w') ss' k ms \<and> SlaveCurrentSlot w' = Some (last ss') \<and> ss' \<noteq> [] \<and>
      k + unat ?a \<le> 4096 \<and> unat (CurrentTxPos w') mod 4096 = (k + unat ?a) mod 4096"
    by (intro exI [of _ ss'] exI [of _ ?p]) (simp only: simp_thms)
  then show ?thesis using ok(3) by simp
qed

lemma align_eq_align8:
  assumes "unat n \<le> 4088"
  shows "unat (VCHIQ_GET_SLOT_ALIGN_SIZE (8 + n)) = align8 (unat n + 8)"
proof -
  have "unat (8 + n) = unat n + 8" using assms by (simp add: unat_word_ariths)
  then show ?thesis using unat_align [of "8 + n"] assms by (simp add: align8_def)
qed

lemma stream_frame: "tx_stream (w\<lparr>trace := t\<rparr>) ss ms = tx_stream w ss ms"
  by (simp add: tx_stream_def tx_fill_def)

text \<open>
  C1. Queueing a message refines appending it to a list. If the slots \<open>ss\<close> hold exactly the
  messages \<open>ms\<close> (padding aside), and the slot that the queue offers next has been given back by
  the firmware, then after \<open>VchiqQueueMessageAsync\<close> of a message of at most one slot the slots,
  with the next one added when the message did not fit, hold \<open>ms\<close> followed by the message, and
  when it is refused they still hold \<open>ms\<close>. Together with \<open>frames_unique\<close> this says that the
  firmware, reading frame by frame, finds the queued messages and nothing else.
\<close>

theorem queue_message_refines_append:
  assumes inv: "tx_inv w" and n: "unat n \<le> 4088" and len: "length buf = unat n"
    and type: "VCHIQ_MSG_TYPE msgid \<noteq> VCHIQ_MSG_PADDING"
    and st: "tx_stream w ss ms" and fresh: "next_tx_slot w \<notin> set ss"
    and run: "run_state (VchiqQueueMessageAsync os f msgid (Some buf) n) w = (status, w')"
  shows "if NT_SUCCESS status
    then tx_stream w' ss (ms @ [(msgid, buf)]) \<or> tx_stream w' (ss @ [next_tx_slot w]) (ms @ [(msgid, buf)])
    else tx_stream w' ss ms"
proof -
  define wa where "wa = w\<lparr>trace := trace w @ [(Ke (ExAcquireMutex TxSlotMutex), os (trace w) (Ke (ExAcquireMutex TxSlotMutex)))]\<rparr>"
  have size: "unat (8 + n) \<le> 4096" using n by (simp add: unat_word_ariths)
  have a: "tx_inv wa" "tx_stream wa ss ms" "next_tx_slot wa = next_tx_slot w"
    using inv st by (simp_all add: wa_def tx_inv_def stream_frame next_tx_slot_def)
  obtain s h wb where acq: "run_state (VchiqAcquireTxSpace os f (8 + n) False) wa = ((s, h), wb)"
    by (metis surj_pair)
  note acquired = acquire_stream [OF a(1) size a(2) _ acq, unfolded a(3), OF fresh]
  show ?thesis
  proof (cases "NT_SUCCESS s")
    case False
    then have "status = s" "w' = wb\<lparr>trace := trace wb @ [(Ke (ExReleaseMutex TxSlotMutex), os (trace wb) (Ke (ExReleaseMutex TxSlotMutex)))]\<rparr>"
      using run acq by (auto simp: VchiqQueueMessageAsync_def wa_def)
    then show ?thesis using acquired False by (simp add: stream_frame)
  next
    case True
    then obtain ss' k where k: "ss' = ss \<or> ss' = ss @ [next_tx_slot w]" "h = Some (last ss' + k)"
      "stream_at (mem wb) ss' k ms" "SlaveCurrentSlot wb = Some (last ss')" "ss' \<noteq> []"
      "k + align8 (length buf + 8) \<le> 4096" "unat (CurrentTxPos wb) mod 4096 = (k + align8 (length buf + 8)) mod 4096"
      using acquired align_eq_align8 [OF n] len by auto
    define m where "m = store_bytes (last ss' + k) (le32 msgid @ le32 (of_nat (length buf)) @ buf) (mem wb)"
    define wc where "wc = wb\<lparr>mem := m, trace := trace wb @ [(Ke (ExReleaseMutex TxSlotMutex), os (trace wb) (Ke (ExReleaseMutex TxSlotMutex)))]\<rparr>"
    have "m = store_bytes (last ss' + k + 8) buf (store_bytes (last ss' + k) (le32 msgid @ le32 n) (mem wb))"
      by (simp add: m_def len store_bytes_append add.commute)
    moreover have "n = 0 \<Longrightarrow> buf = []" using len by simp
    ultimately have pub: "run_state (VchiqPublishTx os) wc = (status, w')"
      using run acq True k(2) len
      by (cases "n = 0") (simp_all add: VchiqQueueMessageAsync_def wa_def [symmetric] wc_def)
    note pub = publish_spec [OF pub]
    have "stream_at m ss' (k + align8 (length buf + 8)) (ms @ payloads [(msgid, buf)])"
      unfolding m_def by (rule stream_write [OF k(3,6)]) (use len unat_u32_less [of n] in simp)
    moreover have "tx_fill w' = k + align8 (length buf + 8)"
      using k(6,7) align8_ge [of "length buf + 8"] pub(4)
      by (cases "k + align8 (length buf + 8) = 4096") (simp_all add: tx_fill_def wc_def)
    ultimately have "tx_stream w' ss' (ms @ [(msgid, buf)])"
      using k(4,5) type pub by (simp add: tx_stream_def wc_def)
    then show ?thesis using k(1) pub(1) by auto
  qed
qed

text \<open>The first message after start-up, into slot 0 of an otherwise empty queue.\<close>

theorem queue_message_refines_append_witness:
  "\<exists>w' ss. run_state (VchiqQueueMessageAsync quiet_os 1 0x05001002 (Some [1, 2, 3]) 3) zero_world = (STATUS_SUCCESS, w') \<and>
     tx_stream w' ss [(0x05001002, [1, 2, 3])]"
proof -
  obtain st w' where run: "run_state (VchiqQueueMessageAsync quiet_os 1 0x05001002 (Some [1, 2, 3]) 3) zero_world = (st, w')"
    by fastforce
  have ok: "st = STATUS_SUCCESS"
    using run by (auto simp: VchiqQueueMessageAsync_def VchiqAcquireTxSpace_def run_pad
        VchiqAcquireTxSpace_next_slot_def VchiqWaitForEvents_def zero_world_def quiet_os_def
        ok_reply_def tx_avail_def VCHIQ_GET_SLOT_ALIGN_SIZE_def VCHIQ_GET_CURRENT_TX_HEADER_def
        VchiqPublishTx_def VchiqSignalVC_def split: if_splits)
  have "tx_inv zero_world" "tx_stream zero_world [] []"
    by (simp_all add: tx_inv_def tx_stream_def zero_world_def)
  from queue_message_refines_append [OF this(1) _ _ _ this(2) _ run] ok run show ?thesis
    by (auto simp: VCHIQ_MSG_TYPE_def)
qed

end
