(* ===== verification/Ownership.thy ===== *)
theory Ownership
  imports Kernel
begin

text \<open>
  Who completes a request, for the drivers alike. \<open>untouched m\<close> says that \<open>m\<close> neither takes nor
  gives away any request; \<open>settles P r m\<close> that a handler called with request \<open>r\<close> either returns
  a status and still owns \<open>r\<close>, or returns \<open>None\<close> and has given \<open>r\<close> away, once, and nothing else.
\<close>

section \<open>Operations that touch no request\<close>

named_theorems untouched_rules \<open>operations that take and give away no request\<close>

definition untouched :: "('w kernel_scheme, 'a) state \<Rightarrow> bool" where
  "untouched m \<longleftrightarrow> (\<forall>rs w. owned rs (trace (snd (run_state m w))) = owned rs (trace w))"

definition own_free :: "call \<Rightarrow> bool" where
  "own_free c \<longleftrightarrow> (case c of
      Req d \<Rightarrow> (case d of
          WdfIoQueueRetrieveNextRequest _ \<Rightarrow> False
        | WdfIoQueueRetrieveFoundRequest _ _ \<Rightarrow> False
        | WdfRequestForwardToIoQueue _ _ \<Rightarrow> False
        | WdfRequestRequeue _ \<Rightarrow> False
        | WdfDeviceEnqueueRequest _ \<Rightarrow> False
        | WdfRequestComplete _ _ \<Rightarrow> False
        | WdfRequestCompleteWithInformation _ _ _ \<Rightarrow> False
        | _ \<Rightarrow> True)
    | _ \<Rightarrow> True)"

lemma own_free_simps [simp]:
  "own_free (Mm a)" "own_free (Ke b)" "own_free (Wdf c)" "own_free (Dev d)" "own_free (Dma e)" "own_free (Reg f)" "own_free (Sd g)" "own_free (Net h)" "own_free (Flt i)" "own_free (Ser j)"
  "own_free (Req (WdfIoQueuePurge q))" "own_free (Req (WdfIoQueuePurgeSynchronously q))"
  "own_free (Req (WdfRequestRetrieveInputBuffer r n))" "own_free (Req (WdfRequestRetrieveOutputBuffer r n))"
  "own_free (Req (WdfRequestRetrieveInputWdmMdl r))" "own_free (Req (WdfRequestRetrieveOutputWdmMdl r))"
  "own_free (Req (WdfRequestGetFileObject r))" "own_free (Req (WdfRequestGetRequestorMode r))"
  by (simp_all add: own_free_def)

lemma own_step_free: "own_free c \<Longrightarrow> own_step ors (c, r) = ors"
  by (auto simp: own_free_def own_step_def Let_def split: option.splits call.splits req_call.splits)

lemma untouched_ext: "own_free c \<Longrightarrow> untouched (ext os c)"
  by (simp add: untouched_def own_step_free)

lemma untouched_bind: "untouched m \<Longrightarrow> (\<And>a. untouched (f a)) \<Longrightarrow> untouched (m \<bind> f)"
  by (simp add: untouched_def case_prod_unfold)

lemma untouched_return: "untouched (return x)"
  and untouched_get: "untouched get"
  by (simp_all add: untouched_def)

lemma untouched_update: "(\<And>w. trace (f w) = trace w) \<Longrightarrow> untouched (update f)"
  by (simp add: untouched_def)

lemma untouched_if: "untouched m \<Longrightarrow> untouched m' \<Longrightarrow> untouched (if b then m else m')"
  and untouched_when: "untouched n \<Longrightarrow> untouched (do_when b n)"
  by (simp_all add: do_when_def untouched_return)

lemma untouched_option: "untouched m \<Longrightarrow> (\<And>x. untouched (f x)) \<Longrightarrow> untouched (case v of None \<Rightarrow> m | Some x \<Rightarrow> f x)"
  by (cases v) simp_all

lemma untouched_list: "untouched m \<Longrightarrow> (\<And>x xs. untouched (f x xs)) \<Longrightarrow> untouched (case v of [] \<Rightarrow> m | x # xs \<Rightarrow> f x xs)"
  by (cases v) simp_all

lemma untouched_sum: "(\<And>x. untouched (f x)) \<Longrightarrow> (\<And>x. untouched (g x)) \<Longrightarrow> untouched (case v of Inl x \<Rightarrow> f x | Inr x \<Rightarrow> g x)"
  by (cases v) simp_all

lemma untouched_prod: "(\<And>a b. untouched (f a b)) \<Longrightarrow> untouched (case p of (a, b) \<Rightarrow> f a b)"
  by (cases p) simp

lemma untouched_owned: "untouched m \<Longrightarrow> owned rs (trace (snd (run_state m w))) = owned rs (trace w)"
  by (simp add: untouched_def)

lemmas untouched_program = untouched_bind untouched_return untouched_get untouched_if untouched_when
  untouched_option untouched_list untouched_sum untouched_prod untouched_ext own_free_simps

lemma owned_two: "owned rs (tr @ [e, e']) = own_step (own_step (owned rs tr) e) e'"
  by (simp add: owned_def)

section \<open>Handlers\<close>

definition settles :: "('w kernel_scheme \<Rightarrow> bool) \<Rightarrow> handle \<Rightarrow> ('w kernel_scheme, ntstatus option) state \<Rightarrow> bool" where
  "settles P r m \<longleftrightarrow> (\<forall>rs0 rs. triple (\<lambda>w. P w \<and> owned rs0 (trace w) = Some (r # rs)) m
     (\<lambda>st w. owned rs0 (trace w) = Some (if st = None then rs else r # rs)))"

text \<open>The same for an operation that reports by a status, a success when it has given the request away.\<close>

definition passes_on :: "handle \<Rightarrow> ('w kernel_scheme, ntstatus) state \<Rightarrow> bool" where
  "passes_on r m \<longleftrightarrow> (\<forall>rs0 rs. triple (\<lambda>w. owned rs0 (trace w) = Some (r # rs)) m
     (\<lambda>st w. owned rs0 (trace w) = Some (if NT_SUCCESS st then rs else r # rs)))"

lemma untouched_keeps: "untouched m \<Longrightarrow> keeps (\<lambda>w. owned rs0 (trace w) = x) m"
  by (simp add: untouched_def keeps_def)

lemma settles_then: "untouched m \<Longrightarrow> (\<And>a. settles (\<lambda>_. True) r (f a)) \<Longrightarrow> settles P r (m \<bind> f)"
  unfolding settles_def
  by (intro allI triple_pre [OF keeps_then [OF untouched_keeps]]) auto

lemma settles_frame: "untouched m \<Longrightarrow> keeps P m \<Longrightarrow> (\<And>a. settles P r (f a)) \<Longrightarrow> settles P r (m \<bind> f)"
  unfolding settles_def by (intro allI keeps_then keeps_conj untouched_keeps) auto

lemma settles_get: "(\<And>w. P w \<Longrightarrow> settles (\<lambda>s. s = w) r (f w)) \<Longrightarrow> settles P r (get \<bind> f)"
  by (auto simp: settles_def triple_def)

lemma settles_reading:
  "(\<And>w. P w \<Longrightarrow> settles P r (f w)) \<Longrightarrow> settles P r (get \<bind> f)"
  by (auto simp: settles_def triple_def)

lemma settles_some: "settles P r (return (Some st))"
  by (simp add: settles_def triple_def)

lemma settles_if: "(b \<Longrightarrow> settles P r m) \<Longrightarrow> (\<not> b \<Longrightarrow> settles P r m') \<Longrightarrow> settles P r (if b then m else m')"
  by simp

lemma settles_list: "settles P r m \<Longrightarrow> (\<And>x xs. settles P r (f x xs)) \<Longrightarrow> settles P r (case v of [] \<Rightarrow> m | x # xs \<Rightarrow> f x xs)"
  by (cases v) simp_all

lemma settles_prod: "(\<And>a b. settles P r (f a b)) \<Longrightarrow> settles P r (case p of (a, b) \<Rightarrow> f a b)"
  by (cases p) simp

lemma settles_passed: "passes_on r m \<Longrightarrow>
    settles P r (m \<bind> (\<lambda>status. return (if \<not> NT_SUCCESS status then Some status else None)))"
  by (fastforce simp: settles_def passes_on_def triple_def case_prod_unfold)

lemma passes_on_then: "untouched m \<Longrightarrow> (\<And>a. passes_on r (f a)) \<Longrightarrow> passes_on r (m \<bind> f)"
  unfolding passes_on_def by (intro allI keeps_then untouched_keeps) auto

lemma passes_on_fail: "\<not> NT_SUCCESS st \<Longrightarrow> passes_on r (return st)"
  by (simp add: passes_on_def triple_def)

lemma passes_on_if: "(b \<Longrightarrow> passes_on r m) \<Longrightarrow> (\<not> b \<Longrightarrow> passes_on r m') \<Longrightarrow> passes_on r (if b then m else m')"
  by simp

lemma passes_on_option:
  "passes_on r m \<Longrightarrow> (\<And>x. passes_on r (f x)) \<Longrightarrow> passes_on r (case v of None \<Rightarrow> m | Some x \<Rightarrow> f x)"
  by (cases v) simp_all

lemmas settles_rules = settles_if settles_some settles_list settles_prod

lemma complete_settled:
  assumes "settles P r m"
  shows "triple (\<lambda>w. P w \<and> owned rs0 (trace w) = Some (r # rs))
    (m \<bind> (\<lambda>status. case status of None \<Rightarrow> return ()
       | Some st \<Rightarrow> ext os (Req (WdfRequestComplete r st)) \<bind> (\<lambda>_. return ())))
    (\<lambda>_ w. owned rs0 (trace w) = Some rs)"
  by (rule triple_bind [OF assms [unfolded settles_def, rule_format]])
    (auto simp: triple_def own_step_def dispose_def split: option.split)

end
