(* ===== verification/Vchiq_Requests.thy ===== *)
theory Vchiq_Requests
  imports Ownership Vchiq_Ioctl Vchiq_Init
begin

text \<open>
  Who completes a request of the VCHIQ driver: the operations that touch none, and the handlers
  of the control codes, each of which completes its request or passes it on (\<open>Ownership\<close>).
\<close>

section \<open>Operations that touch no request\<close>

lemma untouched_updates:
  "untouched (update_file f g)" "untouched (update_slave s)" "untouched (update_master s)"
  "untouched (update_completion h i c)" "untouched (write_header hp a b)" "untouched (RtlCopyToSlot hp off bs)"
  "untouched undefined_behaviour" "untouched (update (CurrentTxPos_update p))"
  "untouched (update (AvailableTxSlotCount_update n))" "untouched (update (SlaveCurrentSlot_update sl))"
  "untouched (update (pagelists_update pl))" "untouched (update (tx_context_update tc))"
  "untouched (update (ArmPortHandles_update ap))" "untouched (update (wdf_config_update wc))"
  "untouched (update (wdf_bytes_update wb))" "untouched (update (in_config_update ic))"
  by (simp_all add: untouched_def split: option.split)

lemmas untouched_step = untouched_program untouched_updates

lemma untouched_queue [untouched_rules]: "untouched (VchiqQueueMessageAsync os f i b n)"
  unfolding VchiqQueueMessageAsync_def VchiqAcquireTxSpace_def VchiqAcquireTxSpace_pad_def
    VchiqAcquireTxSpace_next_slot_def VchiqWaitForEvents_def VchiqPublishTx_def VchiqSignalVC_def Let_def
  by (intro untouched_step)

lemma untouched_total: "untouched (multi_element_total os es acc)"
  by (induction es arbitrary: acc) (auto intro!: untouched_step)

lemma untouched_copy: "untouched (multi_element_copy h off es)"
  by (induction h off es rule: multi_element_copy.induct) (auto intro!: untouched_step)

lemma untouched_multi [untouched_rules]: "untouched (VchiqQueueMultiElementAsync os f i es)"
  unfolding VchiqQueueMultiElementAsync_def VchiqAcquireTxSpace_def VchiqAcquireTxSpace_pad_def
    VchiqAcquireTxSpace_next_slot_def VchiqWaitForEvents_def VchiqPublishTx_def VchiqSignalVC_def Let_def
  by (intro untouched_step untouched_total untouched_copy)

lemma untouched_bulk [untouched_rules]: "untouched (VchiqBulkTransfer os f req dir mdl n arm vc)"
  unfolding VchiqBulkTransfer_def VchiqBulkTransfer_build_def VchiqBulkTransfer_pagelist_def
    VchiqAllocateCommonBuffer_def VchiqFreeCommonBuffer_def VchiqAllocateTransferRequestObjContext_def Let_def
  by (intro untouched_step untouched_queue)

lemma untouched_add_bulk [untouched_rules]: "untouched (VchiqAddPendingBulkMsg os f bt T)"
  unfolding VchiqAddPendingBulkMsg_def by (intro untouched_step)

lemma untouched_bulk_tail: "untouched (VchiqRemovePendingBulkMsg_tail os f T ra ms)"
  by (induction os f T ra ms rule: VchiqRemovePendingBulkMsg_tail.induct) (auto intro!: untouched_step)

lemma untouched_remove_bulk [untouched_rules]: "untouched (VchiqRemovePendingBulkMsg os f cd T ra)"
  unfolding VchiqRemovePendingBulkMsg_def by (intro untouched_step untouched_bulk_tail)

lemma untouched_allocate_port: "untouched (allocate_port f i n)"
  by (induction n arbitrary: i) (auto intro!: untouched_step)

lemma untouched_create_queues: "untouched (create_queues os f i n)"
  by (induction n arbitrary: i) (auto intro!: untouched_step)

lemma untouched_allocate_file [untouched_rules]: "untouched (VchiqAllocateFileObjContext os h)"
  unfolding VchiqAllocateFileObjContext_def create_lookasides_def initialize_lists_def Let_def
  by (intro untouched_step untouched_update untouched_allocate_port untouched_create_queues) simp

section \<open>Handlers\<close>

lemma settles_update_file:
  "(\<And>w. P w \<Longrightarrow> P' (w\<lparr>files := (files w)(f := g (files w f))\<rparr>)) \<Longrightarrow> settles P' r (h ()) \<Longrightarrow> settles P r (update_file f g \<bind> h)"
  by (fastforce simp: settles_def triple_def)

text \<open>
  Documented behaviour: a request that is looked for in a queue is either found there or has
  been cancelled; a queue that has been created has a handle.
\<close>

definition requests_answered :: "os \<Rightarrow> bool" where
  "requests_answered os \<longleftrightarrow>
     (\<forall>tr q r. r_status (os tr (Req (WdfIoQueueRetrieveFoundRequest q r))) \<in> {STATUS_SUCCESS, STATUS_NOT_FOUND}) \<and>
     (\<forall>tr d. NT_SUCCESS (r_status (os tr (Wdf (WdfIoQueueCreate d)))) \<longrightarrow> r_ptr (os tr (Wdf (WdfIoQueueCreate d))) \<noteq> 0)"

lemma dispatch_passes_on:
  assumes "requests_answered os" "r \<noteq> 0" "q \<noteq> 0"
  shows "passes_on r (VchiqUpdateQueueDispatchMessage os f r q i b n)"
  unfolding passes_on_def
proof (intro allI tripleI)
  fix rs0 rs w st w'
  assume own: "owned rs0 (trace w) = Some (r # rs)"
    and run: "run_state (VchiqUpdateQueueDispatchMessage os f r q i b n) w = (st, w')"
  define c where "c = Req (WdfRequestForwardToIoQueue r q)"
  define w1 where "w1 = w\<lparr>trace := trace w @ [(c, os (trace w) c)]\<rparr>"
  obtain st2 w2 where send: "run_state (VchiqQueueMessageAsync os f i b n) w1 = (st2, w2)" by fastforce
  have w2: "owned rs0 (trace w2) = owned rs0 (trace w1)"
    using untouched_queue [of os f i b n] send by (simp add: untouched_def) (metis snd_conv)
  have "r_status (os (trace w2) (Req (WdfIoQueueRetrieveFoundRequest q r))) \<in> {STATUS_SUCCESS, STATUS_NOT_FOUND}"
    using assms(1) by (simp add: requests_answered_def)
  then show "owned rs0 (trace w') = Some (if NT_SUCCESS st then rs else r # rs)"
    using run own send w2 assms(2,3)
    by (auto simp: VchiqUpdateQueueDispatchMessage_def c_def w1_def own_step_def dispose_def Let_def split: if_splits)
qed

lemmas owned_simps = untouched_owned [OF untouched_add_bulk] untouched_owned [OF untouched_remove_bulk]
  untouched_owned [OF untouched_bulk]

lemma undo_owned:
  assumes "requests_answered os" "\<not> NT_SUCCESS st"
    and "run_state (VchiqProcessBulkTransfer_undo os f r T q st) w = (st', w')"
    and "owned rs0 (trace w) = Some rs"
  shows "owned rs0 (trace w') = Some (if NT_SUCCESS st' then rs else r # rs)"
proof -
  define w1 where "w1 = snd (run_state (VchiqRemovePendingBulkMsg os f None T False) w)"
  have "r_status (os (trace w1) (Req (WdfIoQueueRetrieveFoundRequest (FileQueue (files w1 f) q) r))) \<in> {STATUS_SUCCESS, STATUS_NOT_FOUND}"
    using assms(1) by (simp add: requests_answered_def)
  moreover have "owned rs0 (trace w1) = Some rs" using assms(4) by (simp add: w1_def owned_simps)
  ultimately show ?thesis
    using assms(2,3)
    by (auto simp: VchiqProcessBulkTransfer_undo_def case_prod_unfold w1_def [symmetric] own_step_def Let_def)
qed

lemma bulk_passes_on:
  assumes "requests_answered os"
  shows "passes_on r (VchiqProcessBulkTransfer os f r bt dir mdl n)"
  unfolding passes_on_def
proof (intro allI tripleI)
  fix rs0 rs w st w'
  assume own: "owned rs0 (trace w) = Some (r # rs)"
    and run: "run_state (VchiqProcessBulkTransfer os f r bt dir mdl n) w = (st, w')"
  define T where "T = (if dir = VCHIQ_MSG_BULK_TX then MSG_BULK_TX else MSG_BULK_RX)"
  define q where "q = (if dir = VCHIQ_MSG_BULK_TX then FILE_QUEUE_TX_DATA else FILE_QUEUE_RX_DATA)"
  define wa where "wa = snd (run_state (ext os (Ke (ExAcquireMutex (PendingBulkMsgMutex f T)))) w)"
  obtain st1 w1 where add: "run_state (VchiqAddPendingBulkMsg os f bt T) wa = (st1, w1)" by fastforce
  define fwd where "fwd = Req (WdfRequestForwardToIoQueue r (FileQueue (files w1 f) q))"
  define wf where "wf = snd (run_state (ext os fwd) w1)"
  obtain st2 w2 where tr: "run_state (VchiqBulkTransfer os f r dir mdl n (ArmPortNumber (files wf f))
    (VCHIQPortNumber (files wf f))) wf = (st2, w2)" by fastforce
  obtain st3 w3 where un: "run_state (VchiqProcessBulkTransfer_undo os f r T q st2) w2 = (st3, w3)" by fastforce
  have w1: "owned rs0 (trace w1) = Some (r # rs)"
    using untouched_owned [OF untouched_add_bulk, of rs0 os f bt T wa] add own by (simp add: wa_def own_step_def)
  have w2: "owned rs0 (trace w2) = owned rs0 (trace wf)"
    using untouched_owned [OF untouched_bulk, of rs0 os f r dir mdl n _ _ wf] tr by (metis snd_conv)
  consider (refuse) "\<not> NT_SUCCESS st1" | (reject) "NT_SUCCESS st1" "\<not> NT_SUCCESS (r_status (os (trace w1) fwd))"
    | (start) "NT_SUCCESS st1" "NT_SUCCESS (r_status (os (trace w1) fwd))" "NT_SUCCESS st2"
    | (undo) "NT_SUCCESS st1" "NT_SUCCESS (r_status (os (trace w1) fwd))" "\<not> NT_SUCCESS st2" by blast
  then show "owned rs0 (trace w') = Some (if NT_SUCCESS st then rs else r # rs)"
  proof cases
    case refuse
    then show ?thesis
      using run add w1 by (auto simp: VchiqProcessBulkTransfer_def T_def wa_def own_step_def Let_def)
  next
    case reject
    then show ?thesis
      using run add w1
      by (auto simp: VchiqProcessBulkTransfer_def T_def q_def wa_def fwd_def wf_def own_step_def Let_def
          case_prod_unfold owned_simps)
  next
    case start
    then show ?thesis
      using run add w1 w2 tr
      by (auto simp: VchiqProcessBulkTransfer_def T_def q_def wa_def fwd_def wf_def own_step_def dispose_def Let_def)
  next
    case undo
    have "owned rs0 (trace w2) = Some rs"
      using w1 w2 undo(2) by (auto simp: wf_def fwd_def own_step_def dispose_def Let_def)
    note u = undo_owned [OF assms undo(3) un this]
    have "st = st3" "owned rs0 (trace w') = owned rs0 (trace w3)"
      using run add undo tr un u
      by (auto simp: VchiqProcessBulkTransfer_def T_def q_def wa_def fwd_def wf_def own_step_def Let_def
          split: option.split)
    then show ?thesis using u by simp
  qed
qed

text \<open>The queues of a file's context.\<close>

definition has_queues :: "world \<Rightarrow> handle \<Rightarrow> bool" where
  "has_queues w f \<longleftrightarrow> (\<forall>i < FILE_QUEUE_MAX. FileQueue (files w f) i \<noteq> 0)"

lemma keeps_has_queues:
  "keeps (\<lambda>w. has_queues w f) (ext os c)"
  "keeps (\<lambda>w. has_queues w f) (update_file f (IsVchi_update b))"
  "keeps (\<lambda>w. has_queues w f) (update_file f (ServiceUserData_update u))"
  by (simp_all add: keeps_def has_queues_def)

lemma settles_dispatch:
  assumes "requests_answered os" "r \<noteq> 0" "has_queues w f" "q < FILE_QUEUE_MAX"
  shows "settles P r (VchiqUpdateQueueDispatchMessage os f r (FileQueue (files w f) q) i b n \<bind>
    (\<lambda>status. return (if \<not> NT_SUCCESS status then Some status else None)))"
  using assms by (intro settles_passed dispatch_passes_on) (simp_all add: has_queues_def)

lemma create_service_settles:
  assumes "requests_answered os" "r \<noteq> 0"
  shows "settles (\<lambda>w. has_queues w f) r (ioctl_create_service os f r)"
  unfolding ioctl_create_service_def Let_def
  by (intro settles_frame settles_rules settles_reading settles_dispatch assms untouched_ext untouched_updates keeps_has_queues)
    simp_all

lemma close_service_settles:
  assumes "requests_answered os" "r \<noteq> 0"
  shows "settles (\<lambda>w. has_queues w f) r (ioctl_close_service os f r)"
  unfolding ioctl_close_service_def
  by (intro settles_reading settles_dispatch assms) simp_all

lemma bulk_settles:
  assumes "requests_answered os"
  shows "settles P r (ioctl_bulk_transmit os f r m n)" "settles P r (ioctl_bulk_receive os f r m n)"
  unfolding ioctl_bulk_transmit_def ioctl_bulk_receive_def
  by (intro settles_rules settles_then untouched_ext untouched_get own_free_simps settles_passed bulk_passes_on assms)+

lemma other_services_settle:
  "settles P r (ioctl_queue_msg os f r)" "settles P r (ioctl_shutdown os f)"
  "settles P r (ioctl_set_service_option os r)"
  unfolding ioctl_queue_msg_def ioctl_shutdown_def ioctl_set_service_option_def Let_def
  by (intro settles_rules settles_then untouched_step untouched_rules)+

lemma no_service_settles:
  "settles P r (ioctl_connect os r)" "settles P r (ioctl_get_config os r)" "settles P r (ioctl_lib_version os r)"
  unfolding ioctl_connect_def ioctl_get_config_def ioctl_lib_version_def Let_def
  by (intro settles_rules settles_then untouched_step untouched_rules)+

section \<open>The context of a file has its queues\<close>

lemma create_queues_keeps:
  "run_state (create_queues os f i n) w = (st, w') \<Longrightarrow> j < i \<Longrightarrow> FileQueue (files w' f) j = FileQueue (files w f) j"
  by (induction n arbitrary: i w) (auto split: if_splits)

lemma create_queues_all:
  assumes "requests_answered os" "run_state (create_queues os f i n) w = (st, w')" "NT_SUCCESS st"
    and "i \<le> j" "j < i + n"
  shows "FileQueue (files w' f) j \<noteq> 0"
  using assms(2,4,5)
proof (induction n arbitrary: i w)
  case 0
  then show ?case by simp
next
  case (Suc n)
  define c where "c = Wdf (WdfIoQueueCreate (Device w))"
  define h where "h = r_ptr (os (trace w) c)"
  define w1 where "w1 = w\<lparr>trace := trace w @ [(c, os (trace w) c)],
    files := (files w)(f := FileQueue_update (\<lambda>q. q(i := h)) (files w f))\<rparr>"
  have ok: "NT_SUCCESS (r_status (os (trace w) c))" and rest: "run_state (create_queues os f (i + 1) n) w1 = (st, w')"
    using Suc.prems(1) assms(3) by (auto simp: c_def h_def w1_def split: if_splits)
  show ?case
  proof (cases "j = i")
    case True
    have "h \<noteq> 0" using assms(1) ok unfolding requests_answered_def h_def c_def by blast
    then show ?thesis using create_queues_keeps [OF rest, of i] True by (simp add: w1_def)
  next
    case False
    then show ?thesis using Suc.IH [OF rest] Suc.prems by simp
  qed
qed

lemma keeps_queues_later:
  "keeps (\<lambda>w. has_queues w f) (create_lookasides os h f)" "keeps (\<lambda>w. has_queues w f) (initialize_lists os f)"
  unfolding create_lookasides_def initialize_lists_def
  by (intro keeps_bind keeps_if keeps_return keeps_has_queues | simp add: keeps_def has_queues_def)+

lemma allocate_file_queues:
  assumes "requests_answered os"
  shows "NT_SUCCESS (fst (fst (run_state (VchiqAllocateFileObjContext os h) w))) \<Longrightarrow>
    has_queues (snd (run_state (VchiqAllocateFileObjContext os h) w)) (snd (fst (run_state (VchiqAllocateFileObjContext os h) w)))"
proof -
  have queues: "triple (\<lambda>_. True) (create_queues os f 0 FILE_QUEUE_MAX) (\<lambda>st w. NT_SUCCESS st \<longrightarrow> has_queues w f)" for f
    by (auto intro!: tripleI simp: has_queues_def dest: create_queues_all [OF assms])
  have later: "triple (\<lambda>w. has_queues w f) (create_lookasides os h f \<bind>
      (\<lambda>status. if \<not> NT_SUCCESS status then return status else initialize_lists os f)) (\<lambda>_ w. has_queues w f)" for f
    by (intro triple_keeps keeps_bind keeps_if keeps_return keeps_queues_later)
  have set_up: "triple (\<lambda>_. True) (create_queues os f 0 FILE_QUEUE_MAX \<bind> (\<lambda>status. if \<not> NT_SUCCESS status then return status
      else create_lookasides os h f \<bind>
        (\<lambda>status. if \<not> NT_SUCCESS status then return status else initialize_lists os f)))
      (\<lambda>st w. NT_SUCCESS st \<longrightarrow> has_queues w f)" for f
    by (rule triple_bind [OF queues]) (auto intro: triple_done triple_post [OF triple_pre [OF later]])
  have "triple (\<lambda>_. True) (VchiqAllocateFileObjContext os h) (\<lambda>p w. NT_SUCCESS (fst p) \<longrightarrow> has_queues w (snd p))"
    unfolding VchiqAllocateFileObjContext_def Let_def
    apply (rule triple_bind [where R = "\<lambda>_ _. True"], simp add: triple_def)
    apply (rule triple_if_cases)
     apply (rule triple_done, simp)
    apply (rule triple_bind [where R = "\<lambda>_ _. True"], simp add: triple_def)
    apply (rule triple_bind [where R = "\<lambda>_ _. True"], simp add: triple_def)
    apply (rule triple_bind [where R = "\<lambda>st w. NT_SUCCESS st \<longrightarrow> has_queues w _"])
     apply (auto intro: triple_done set_up split: option.split)
    done
  from triple_fst_snd [OF this, of w] show "NT_SUCCESS (fst (fst (run_state (VchiqAllocateFileObjContext os h) w))) \<Longrightarrow>
    has_queues (snd (run_state (VchiqAllocateFileObjContext os h) w)) (snd (fst (run_state (VchiqAllocateFileObjContext os h) w)))"
    by simp
qed

lemma file_context_queues:
  assumes "requests_answered os"
    and "\<forall>h. file_context w h \<noteq> 0 \<longrightarrow> has_queues w (file_context w h)"
    and "run_state (ioctl_file_context os r code) w = (Inr f, w')"
  shows "has_queues w' f"
proof -
  let ?w = "snd (run_state (ext os (Req (WdfRequestGetFileObject r))) w)"
  have "has_queues ?w g = has_queues w g" for g by (simp add: has_queues_def)
  with assms(2,3) allocate_file_queues [OF assms(1), of _ ?w] show ?thesis
    by (auto simp: ioctl_file_context_def case_prod_unfold split: if_splits)
qed

definition queues_created :: "world \<Rightarrow> bool" where
  "queues_created w \<longleftrightarrow> (\<forall>h. file_context w h \<noteq> 0 \<longrightarrow> has_queues w (file_context w h))"

text \<open>
  The two control codes that wait for messages, and the state in which there is none to give them.
\<close>

definition message_codes :: "ioctl set" where
  "message_codes = {IOCTL_VCHIQ_AWAIT_COMPLETION, IOCTL_DEQUEUE_MESSAGE}"

definition no_messages :: "world \<Rightarrow> bool" where
  "no_messages w \<longleftrightarrow> (\<forall>f. PendingDataMsgList (files w f) = [] \<and> PendingVchiMsgList (files w f) = [])"

lemma waiting_settles:
  "settles no_messages r (ioctl_await_completion os f r)" "settles no_messages r (ioctl_dequeue_message os f r)"
  by (auto simp: settles_def triple_def no_messages_def ioctl_await_completion_def VchiqProcessPendingMsg_def
      ioctl_dequeue_message_def VchiqProcessPendingVchiMsg_def do_when_def owned_def own_step_def dispose_def Let_def)

lemma settles_pre: "settles P r m \<Longrightarrow> (\<And>w. P' w \<Longrightarrow> P w) \<Longrightarrow> settles P' r m"
  by (simp add: settles_def triple_def)

lemma service_settles:
  assumes "requests_answered os" "r \<noteq> 0"
  shows "settles (\<lambda>w. has_queues w f \<and> (code \<in> message_codes \<longrightarrow> no_messages w)) r (ioctl_service os f r m n code)"
  by (cases code) (auto intro: settles_pre create_service_settles [OF assms] close_service_settles [OF assms]
      bulk_settles [OF assms(1)] other_services_settle settles_some waiting_settles
      simp: ioctl_service_def message_codes_def)

lemma untouched_file_context: "untouched (ioctl_file_context os r code)"
  unfolding ioctl_file_context_def by (intro untouched_step untouched_rules)

lemma file_context_messages:
  "code \<in> message_codes \<longrightarrow> no_messages w \<Longrightarrow> run_state (ioctl_file_context os r code) w = (c, w') \<Longrightarrow>
    code \<in> message_codes \<longrightarrow> no_messages w'"
  by (auto simp: ioctl_file_context_def message_codes_def no_messages_def split: if_splits)

lemma file_context_then:
  assumes "requests_answered os"
    and "\<And>f. settles (\<lambda>w. has_queues w f \<and> (code \<in> message_codes \<longrightarrow> no_messages w)) r (g f)"
  shows "settles (\<lambda>w. queues_created w \<and> (code \<in> message_codes \<longrightarrow> no_messages w)) r (ioctl_file_context os r code \<bind>
    (\<lambda>c. case c of Inl st \<Rightarrow> return (Some st) | Inr f \<Rightarrow> g f))"
  unfolding settles_def
proof (intro allI, rule triple_bind)
  fix rs0 rs
  show "triple (\<lambda>w. (queues_created w \<and> (code \<in> message_codes \<longrightarrow> no_messages w)) \<and> owned rs0 (trace w) = Some (r # rs))
    (ioctl_file_context os r code)
    (\<lambda>c w. owned rs0 (trace w) = Some (r # rs) \<and>
      (\<forall>f. c = Inr f \<longrightarrow> has_queues w f \<and> (code \<in> message_codes \<longrightarrow> no_messages w)))"
  proof (rule tripleI)
    fix w c w'
    assume w: "(queues_created w \<and> (code \<in> message_codes \<longrightarrow> no_messages w)) \<and> owned rs0 (trace w) = Some (r # rs)"
      and run: "run_state (ioctl_file_context os r code) w = (c, w')"
    then have "owned rs0 (trace w') = Some (r # rs)"
      using untouched_owned [OF untouched_file_context, of rs0 os r code w] by simp
    with w run file_context_queues [OF assms(1)] file_context_messages [OF _ run]
    show "owned rs0 (trace w') = Some (r # rs) \<and>
        (\<forall>f. c = Inr f \<longrightarrow> has_queues w' f \<and> (code \<in> message_codes \<longrightarrow> no_messages w'))"
      unfolding queues_created_def by blast
  qed
  show "triple (\<lambda>w. owned rs0 (trace w) = Some (r # rs) \<and>
      (\<forall>f. c = Inr f \<longrightarrow> has_queues w f \<and> (code \<in> message_codes \<longrightarrow> no_messages w)))
    (case c of Inl st \<Rightarrow> return (Some st) | Inr f \<Rightarrow> g f)
    (\<lambda>st w. owned rs0 (trace w) = Some (if st = None then rs else r # rs))" for c
    using assms(2) by (cases c) (auto simp: settles_def conj_commute intro: triple_done)
qed


definition connected_world :: world where
  "connected_world = zero_world\<lparr>VCConnected := True, files := (\<lambda>_. zero_file\<lparr>FileQueue := (\<lambda>_. 9)\<rparr>)\<rparr>"

lemma connected_world_ready: "requests_answered quiet_os" "queues_created connected_world"
  by (simp_all add: requests_answered_def queues_created_def has_queues_def connected_world_def zero_world_def
      zero_file_def quiet_os_def ok_reply_def)


section \<open>In the context of the caller\<close>

lemma untouched_lock_buffer: "untouched (lock_buffer os r u fw nb b n)"
  unfolding lock_buffer_def by (intro untouched_step)

lemma untouched_lock_elements: "untouched (lock_elements os r u es i n)"
  by (induction n arbitrary: i) (auto intro!: untouched_step untouched_update untouched_lock_buffer simp: Let_def)

lemma untouched_lock_msg_bufs: "untouched (lock_msg_bufs os r u ac c i n)"
  by (induction n arbitrary: i) (auto intro!: untouched_step untouched_lock_buffer)

lemma untouched_incaller:
  "untouched (incaller_get_config os r)" "untouched (incaller_queue_msg os r)"
  "untouched (incaller_await_completion os r)" "untouched (incaller_dequeue_message os r)"
  unfolding incaller_get_config_def incaller_queue_msg_def incaller_await_completion_def
    incaller_dequeue_message_def retrieve_input_def Let_def
  by (intro untouched_step untouched_lock_buffer untouched_lock_elements untouched_lock_msg_bufs untouched_update; simp)+

text \<open>
  C25. Locking the caller's buffers never loses a request: for every control code and every
  answer of the system, \<open>VchiqInCallerContext\<close> either enqueues the request, with success, or
  completes it, once, and gives away no other request.
\<close>

theorem caller_context_disposes_once:
  assumes own: "owned rs0 (trace w) = Some (r # rs)"
    and run: "run_state (VchiqInCallerContext os r code) w = (u, w')"
  shows "owned rs0 (trace w') = Some rs"
proof -
  define lock where "lock = (case code of
      Some IOCTL_VCHIQ_GET_CONFIG \<Rightarrow> incaller_get_config os r
    | Some IOCTL_VCHIQ_QUEUE_MSG \<Rightarrow> incaller_queue_msg os r
    | Some IOCTL_VCHIQ_AWAIT_COMPLETION \<Rightarrow> incaller_await_completion os r
    | Some IOCTL_DEQUEUE_MESSAGE \<Rightarrow> incaller_dequeue_message os r
    | _ \<Rightarrow> return None)"
  have "untouched lock"
    unfolding lock_def
    by (auto intro: untouched_incaller untouched_return split: option.split ioctl.split)
  then have "owned rs0 (trace (snd (run_state lock w))) = Some (r # rs)"
    using own by (simp add: untouched_owned)
  with run show ?thesis
    unfolding VchiqInCallerContext_def lock_def [symmetric]
    by (auto simp: case_prod_unfold own_step_def dispose_def Let_def owned_two split: option.splits if_splits)
qed

theorem caller_context_disposes_once_witness:
  "owned [5] (trace (snd (run_state (VchiqInCallerContext quiet_os 5 (Some IOCTL_DEQUEUE_MESSAGE)) zero_world))) = Some []"
  by (rule caller_context_disposes_once [OF _ prod.collapse [symmetric]]) (simp add: zero_world_def)

section \<open>Requests completed twice\<close>

text \<open>
  The two control codes that wait for messages complete a request a second time when the
  message that waits does not fit the caller's buffers: \<open>VchiqRemovePendingVchiMsg\<close> and
  \<open>VchiqRemovePendingMsg\<close> complete it and return the failure, and so does their caller.
\<close>

definition pending_world :: world where
  "pending_world = connected_world\<lparr>files := (\<lambda>_. zero_file\<lparr>FileQueue := (\<lambda>_. 9), IsVchi := True,
     PendingVchiMsgList := [\<lparr>Msg = 0, SlotNumber = 1, WdfMemory = 7\<rparr>],
     PendingDataMsgList := [\<lparr>Msg = 0, SlotNumber = 1, WdfMemory = 7\<rparr>]\<rparr>)\<rparr>"

definition one_request_os :: os where
  "one_request_os tr c = (case c of
      Req (WdfIoQueueRetrieveNextRequest q) \<Rightarrow> ok_reply\<lparr>r_ptr := 5\<rparr>
    | _ \<Rightarrow> ok_reply)"

lemma dequeue_completes_twice:
  "completions_of 5 (trace (snd (run_state (VchiqIoDeviceControl one_request_os 5 4 32 IOCTL_DEQUEUE_MESSAGE) pending_world))) =
     [STATUS_INSUFFICIENT_RESOURCES, STATUS_INSUFFICIENT_RESOURCES]"
  by (simp add: VchiqIoDeviceControl_def ioctl_file_context_def ioctl_service_def ioctl_dequeue_message_def
      VchiqProcessPendingVchiMsg_def VchiqRemovePendingVchiMsg_def VchiqRemovePendingVchiMsg_head_def
      pending_world_def connected_world_def zero_world_def zero_file_def one_request_os_def ok_reply_def
      header_Size_def load32_def from_le32_def load_bytes_def completion_of_def)

definition short_output_os :: os where
  "short_output_os tr c = (case c of
      Req (WdfIoQueueRetrieveNextRequest q) \<Rightarrow> ok_reply\<lparr>r_ptr := 5\<rparr>
    | Req (WdfRequestRetrieveOutputBuffer r n) \<Rightarrow> ok_reply\<lparr>r_status := STATUS_BUFFER_TOO_SMALL\<rparr>
    | _ \<Rightarrow> ok_reply)"

lemma await_completes_twice:
  "completions_of 5 (trace (snd (run_state (VchiqIoDeviceControl short_output_os 5 0 32 IOCTL_VCHIQ_AWAIT_COMPLETION) pending_world))) =
     [STATUS_BUFFER_TOO_SMALL, STATUS_BUFFER_TOO_SMALL]"
  by (simp add: VchiqIoDeviceControl_def ioctl_file_context_def ioctl_service_def ioctl_await_completion_def
      VchiqProcessPendingMsg_def VchiqRemovePendingMsg_def
      pending_world_def connected_world_def zero_world_def zero_file_def short_output_os_def ok_reply_def
      completion_of_def)

end
