(* ===== verification/Vchiq_Bulk.thy ===== *)
theory Vchiq_Bulk
  imports Vchiq_Transfer
begin

text \<open>
  Bulk transfers: the page list the firmware reads, who owns its memory, and what is left
  behind when a transfer cannot be started.
\<close>

section \<open>Entries of the page list\<close>

lemma mask_12: "(0xfff :: u32) = mask 12"
  by (simp add: mask_eq_exp_minus_1)

lemma pages_value: "unat (BYTES_TO_PAGES n) = (unat n + 4095) div 4096"
proof -
  define q r where "q = unat n div 4096" and "r = unat n mod 4096"
  have n: "unat n = 4096 * q + r" "r < 4096" by (simp_all add: q_def r_def)
  have "unat n < 4294967296" by (rule unat_u32_less)
  then have q: "q < 1048576" using n by simp
  have low: "n AND 0xfff = 0 \<longleftrightarrow> r = 0"
    using slot_offset_eq_0_iff [of n] by (simp add: r_def)
  have d: "unat (drop_bit 12 n) = q" by (simp add: q_def drop_bit_eq_div unat_div)
  have "unat (BYTES_TO_PAGES n) = q + (if r = 0 then 0 else 1)"
    using q by (simp add: BYTES_TO_PAGES_def low d unat_word_ariths)
  also have "\<dots> = (4096 * q + r + 4095) div 4096" using n(2) by auto
  finally show ?thesis by (simp add: n(1))
qed

text \<open>
  C39. An entry of the page list keeps the page of the element's address, as the firmware sees
  it in its direct alias of the memory, and the number of pages of the element: both can be
  read back, for every element of 1 byte to 16 MB.
\<close>

theorem page_entry_roundtrip:
  assumes "0 < unat len" and "unat len \<le> 0x1000000"
  shows "page_entry (addr, len) AND NOT 0xfff = (ucast addr AND NOT 0xfff) OR OFFSET_DIRECT_SDRAM \<and>
    unat (page_entry (addr, len) AND 0xfff) + 1 = (unat len + 4095) div 4096"
proof -
  let ?n = "BYTES_TO_PAGES len - 1"
  have "4096 div 4096 \<le> (unat len + 4095) div 4096" "(unat len + 4095) div 4096 \<le> (0x1000000 + 4095) div 4096"
    using assms by (auto intro: div_le_mono)
  then have pages: "1 \<le> (unat len + 4095) div 4096" "(unat len + 4095) div 4096 \<le> 4096" by simp_all
  then have "BYTES_TO_PAGES len \<noteq> 0" using pages_value [of len] by (metis not_one_le_zero unsigned_0)
  then have n: "unat ?n + 1 = (unat len + 4095) div 4096"
    using pages_value [of len] pages(1) by (simp add: unat_minus_one)
  then have small: "unat ?n < 4096" using pages by simp
  then have "?n < 2 ^ 12" by (simp add: word_less_nat_alt)
  then have bits: "bit ?n k \<Longrightarrow> k < 12" for k by (rule word_below_bits)
  have sdram: "OFFSET_DIRECT_SDRAM = push_bit 30 3" by (simp add: OFFSET_DIRECT_SDRAM_def push_bit_eq_mult)
  have sdram_bits: "bit OFFSET_DIRECT_SDRAM k \<Longrightarrow> 12 \<le> k" for k
    unfolding sdram bit_push_bit_iff by (elim conjE, rule order_trans [of _ 30]) simp_all
  have "page_entry (addr, len) AND NOT 0xfff = (ucast addr AND NOT 0xfff) OR OFFSET_DIRECT_SDRAM"
    unfolding mask_12 page_entry_def fst_conv snd_conv
    by (rule bit_word_eqI) (auto simp: bit_simps simp del: OFFSET_DIRECT_SDRAM_def dest: bits sdram_bits)
  moreover have "page_entry (addr, len) AND 0xfff = ?n"
    unfolding mask_12 page_entry_def fst_conv snd_conv
    by (rule bit_word_eqI) (auto simp: bit_simps simp del: OFFSET_DIRECT_SDRAM_def dest: bits sdram_bits)
  ultimately show ?thesis using n by simp
qed

theorem page_entry_roundtrip_witness:
  "unat (page_entry (0x12345678, 0x2001) AND 0xfff) + 1 = 3"
  using page_entry_roundtrip [where len = "0x2001" and addr = "0x12345678"] by simp

section \<open>Who owns a page list\<close>

text \<open>The common buffers allocated and not yet freed, from the trace.\<close>

definition buffer_step :: "handle list \<Rightarrow> event \<Rightarrow> handle list" where
  "buffer_step bs e = (case fst e of
      Dma c \<Rightarrow> (case c of
          DmaAllocateCommonBuffer _ _ \<Rightarrow> (if r_ptr (snd e) = 0 then bs else r_ptr (snd e) # bs)
        | DmaFreeCommonBuffer _ _ _ p \<Rightarrow> remove1 p bs
        | _ \<Rightarrow> bs)
    | _ \<Rightarrow> bs)"

definition common_buffers :: "event list \<Rightarrow> handle list" where
  "common_buffers tr = foldl buffer_step [] tr"

lemma common_buffers_append [simp]: "common_buffers (tr @ es) = foldl buffer_step (common_buffers tr) es"
  by (simp add: common_buffers_def)

definition bulk_view :: "world \<Rightarrow> handle list \<times> (handle \<Rightarrow> VCHIQ_TX_REQUEST_CONTEXT option) \<times>
    (handle \<Rightarrow> VCHIQ_PAGELIST) \<times> (handle \<Rightarrow> VCHIQ_FILE_CONTEXT)" where
  "bulk_view w = (common_buffers (trace w), tx_context w, pagelists w, files w)"

lemma bulk_view_ext: "(\<And>r bs. buffer_step bs (c, r) = bs) \<Longrightarrow> keeps (\<lambda>w. R (bulk_view w)) (ext os c)"
  by (simp add: keeps_def bulk_view_def)

lemma bulk_view_updates:
  "keeps (\<lambda>w. R (bulk_view w)) (update_slave g)" "keeps (\<lambda>w. R (bulk_view w)) (update_master g)"
  "keeps (\<lambda>w. R (bulk_view w)) (write_header hp a b)" "keeps (\<lambda>w. R (bulk_view w)) (RtlCopyToSlot hp off bs)"
  "keeps (\<lambda>w. R (bulk_view w)) (update (CurrentTxPos_update p))"
  "keeps (\<lambda>w. R (bulk_view w)) (update (AvailableTxSlotCount_update q))"
  "keeps (\<lambda>w. R (bulk_view w)) (update (SlaveCurrentSlot_update s))"
  by (simp_all add: keeps_def bulk_view_def split: option.split)

lemma bulk_view_queue: "keeps (\<lambda>w. R (bulk_view w)) (VchiqQueueMessageAsync os f i b n)"
  unfolding VchiqQueueMessageAsync_def VchiqAcquireTxSpace_def VchiqAcquireTxSpace_pad_def
    VchiqAcquireTxSpace_next_slot_def VchiqWaitForEvents_def VchiqPublishTx_def VchiqSignalVC_def Let_def
  by (intro keeps_bind keeps_return keeps_get keeps_if keeps_when keeps_case_prod keeps_case_option
      bulk_view_ext bulk_view_updates) (simp_all add: buffer_step_def)

lemma queue_view:
  assumes "run_state (VchiqQueueMessageAsync os f i b n) w = (st, w')"
  shows "bulk_view w' = bulk_view w"
  using bulk_view_queue [where R = "\<lambda>v. v = bulk_view w", of os f i b n] assms
  unfolding keeps_def by (metis snd_conv)

lemma bulk_view_build: "keeps (\<lambda>w. R (bulk_view w)) (VchiqBulkTransfer_build os f req dir mdl n)"
  unfolding VchiqBulkTransfer_build_def Let_def
  by (intro keeps_bind keeps_return keeps_get keeps_if bulk_view_ext) (simp_all add: buffer_step_def)

text \<open>
  The page list of a transfer is in place: allocated, described in the request's context, and
  filled in for the buffer.
\<close>

definition page_list_owned :: "handle \<Rightarrow> handle \<Rightarrow> u32 \<Rightarrow> u32 \<Rightarrow> world \<Rightarrow> world \<Rightarrow> bool" where
  "page_list_owned f req dir n w w' \<longleftrightarrow> (\<exists>ctx sg. tx_context w' req = Some ctx \<and> TxFileContextPtr ctx = f \<and>
     PageListPtr ctx \<noteq> 0 \<and> PageListSize ctx \<noteq> 0 \<and> PageListSize ctx = of_nat (length sg) * 4 + sizeof_VCHIQ_PAGELIST \<and>
     common_buffers (trace w') = PageListPtr ctx # common_buffers (trace w) \<and>
     pagelists w' (PageListPtr ctx) = fill_pagelist dir n sg \<and>
     (\<forall>r. r \<noteq> req \<longrightarrow> tx_context w' r = tx_context w r) \<and> files w' = files w)"

lemma pagelist_cases:
  assumes "run_state (VchiqBulkTransfer_pagelist os f dir n sg) w = ((st, ptr, len, phys), w')"
  obtains (fail) "\<not> NT_SUCCESS st" "bulk_view w' = bulk_view w"
    | (ok) "st = STATUS_SUCCESS" "ptr \<noteq> 0" "len \<noteq> 0" "len = of_nat (length sg) * 4 + sizeof_VCHIQ_PAGELIST"
      "bulk_view w' = (ptr # common_buffers (trace w), tx_context w, (pagelists w)(ptr := fill_pagelist dir n sg), files w)"
  using assms
  by (auto simp: VchiqBulkTransfer_pagelist_def VchiqAllocateCommonBuffer_def Let_def bulk_view_def
      buffer_step_def split: if_splits)

lemma context_cases:
  assumes "run_state (VchiqAllocateTransferRequestObjContext os f req mdl ptr len phys sg) w = (st, w')"
  obtains (fail) "\<not> NT_SUCCESS st" "bulk_view w' = bulk_view w"
    | (ok) "NT_SUCCESS st" "bulk_view w' = (common_buffers (trace w), (tx_context w)(req := Some
         \<lparr>BufferMdlPtr = mdl, PageListPtr = ptr, PageListSize = len, PageListPhyAddr = phys,
          ScatterGatherListPtr = sg, TxFileContextPtr = f\<rparr>), pagelists w, files w)"
  using assms
  by (auto simp: VchiqAllocateTransferRequestObjContext_def Let_def bulk_view_def
      buffer_step_def split: if_splits)

lemma free_common_buffer_view:
  assumes "ptr \<noteq> 0" "len \<noteq> 0"
  shows "bulk_view (snd (run_state (VchiqFreeCommonBuffer os f len phys ptr) w)) =
    (remove1 ptr (common_buffers (trace w)), tx_context w, pagelists w, files w)"
  using assms by (simp add: VchiqFreeCommonBuffer_def bulk_view_def buffer_step_def)

text \<open>
  C14. A bulk transfer never leaks its page list: after \<open>VchiqBulkTransfer\<close> either no buffer has
  been gained and the requests' contexts are as before, which is only the case when it fails,
  or one buffer has been gained, it belongs to the transfer context of the request, from where
  the cleanup of the request frees it, and it holds the page list of the caller's buffer. No
  other request is affected.
\<close>

theorem bulk_page_list_owned:
  assumes run: "run_state (VchiqBulkTransfer os f req dir mdl n arm vc) w = (st, w')"
  shows "(\<not> NT_SUCCESS st \<and> common_buffers (trace w') = common_buffers (trace w) \<and>
      tx_context w' = tx_context w \<and> files w' = files w) \<or> page_list_owned f req dir n w w'"
proof -
  obtain st1 sgptr sg w1 where b: "run_state (VchiqBulkTransfer_build os f req dir mdl n) w = ((st1, sgptr, sg), w1)"
    by (metis prod.exhaust)
  have w1: "bulk_view w1 = bulk_view w"
    using bulk_view_build [where R = "\<lambda>v. v = bulk_view w"] b unfolding keeps_def
    by (metis snd_conv)
  obtain st2 ptr len phys w2 where p: "run_state (VchiqBulkTransfer_pagelist os f dir n sg) w1 = ((st2, ptr, len, phys), w2)"
    by (metis prod.exhaust)
  obtain st3 w3 where c: "run_state (VchiqAllocateTransferRequestObjContext os f req mdl ptr len phys sgptr) w2 = (st3, w3)"
    by (metis prod.exhaust)
  show ?thesis
  proof (cases "NT_SUCCESS st1")
    case False
    then show ?thesis using run b w1 by (simp add: VchiqBulkTransfer_def bulk_view_def)
  next
    case st1: True
    show ?thesis
      using p
    proof (cases rule: pagelist_cases)
      case fail
      then show ?thesis using run b w1 st1 p by (simp add: VchiqBulkTransfer_def bulk_view_def)
    next
      case pl: ok
      show ?thesis
        using c
      proof (cases rule: context_cases)
        case fail
        then show ?thesis
          using run b w1 st1 p pl c free_common_buffer_view [OF pl(2,3), of os f phys w3]
          by (auto simp: VchiqBulkTransfer_def bulk_view_def case_prod_unfold)
      next
        case ok
        then have "run_state (VchiqQueueMessageAsync os f (VCHIQ_MAKE_MSG dir arm vc)
            (Some (le32 (ucast phys OR OFFSET_DIRECT_SDRAM) @ le32 n)) 8) w3 = (st, w')"
          using run b st1 p pl(1) c by (simp add: VchiqBulkTransfer_def)
        then have "bulk_view w' = bulk_view w3" by (rule queue_view)
        then show ?thesis
          using ok pl w1 by (auto simp: page_list_owned_def bulk_view_def)
      qed
    qed
  qed
qed

text \<open>A system that answers every call with one element of memory to transfer.\<close>

definition one_page_os :: os where
  "one_page_os tr c = ok_reply\<lparr>r_ptr := 7, r_sg := [(0x12345678, 0x2001)]\<rparr>"

lemma one_page_transfer:
  "NT_SUCCESS (fst (run_state (VchiqBulkTransfer one_page_os 1 2 VCHIQ_MSG_BULK_TX 5 0x2001 4 6) zero_world))"
  by (simp add: VchiqBulkTransfer_def VchiqBulkTransfer_build_def VchiqBulkTransfer_pagelist_def
      VchiqAllocateCommonBuffer_def VchiqAllocateTransferRequestObjContext_def VchiqQueueMessageAsync_def
      VchiqAcquireTxSpace_def run_pad VchiqAcquireTxSpace_next_slot_def VchiqWaitForEvents_def zero_world_def
      one_page_os_def ok_reply_def tx_avail_def VCHIQ_GET_SLOT_ALIGN_SIZE_def VCHIQ_GET_CURRENT_TX_HEADER_def
      VchiqPublishTx_def VchiqSignalVC_def Let_def)

theorem bulk_page_list_owned_witness:
  "page_list_owned 1 2 VCHIQ_MSG_BULK_TX 0x2001 zero_world
     (snd (run_state (VchiqBulkTransfer one_page_os 1 2 VCHIQ_MSG_BULK_TX 5 0x2001 4 6) zero_world))"
  using bulk_page_list_owned [OF prod.collapse [symmetric]] one_page_transfer by blast

section \<open>The cleanup of a request\<close>

text \<open>
  C38. When the request of a transfer is deleted, \<open>VchiqTransferRequestContextCleanup\<close> frees the page list
  that was allocated for it, no other buffer, and clears the pointer to it; a second cleanup of
  the same request frees nothing.
\<close>

theorem cleanup_frees_page_list:
  assumes "page_list_owned f req dir n w w1"
    and "run_state (VchiqTransferRequestContextCleanup os req) w1 = ((), w2)"
    and "run_state (VchiqTransferRequestContextCleanup os' req) w2 = ((), w3)"
  shows "common_buffers (trace w2) = common_buffers (trace w) \<and>
    (\<exists>ctx. tx_context w2 req = Some ctx \<and> PageListPtr ctx = 0 \<and> ScatterGatherListPtr ctx = 0) \<and>
    common_buffers (trace w3) = common_buffers (trace w)"
proof -
  obtain ctx where ctx: "tx_context w1 req = Some ctx" "PageListPtr ctx \<noteq> 0" "PageListSize ctx \<noteq> 0"
    "common_buffers (trace w1) = PageListPtr ctx # common_buffers (trace w)"
    using assms(1) by (auto simp: page_list_owned_def)
  then have w2: "common_buffers (trace w2) = common_buffers (trace w)"
    "\<exists>ctx. tx_context w2 req = Some ctx \<and> PageListPtr ctx = 0 \<and> ScatterGatherListPtr ctx = 0"
    using assms(2)
    by (auto simp: VchiqTransferRequestContextCleanup_def VchiqFreeCommonBuffer_def buffer_step_def split: if_splits)
  then have "common_buffers (trace w3) = common_buffers (trace w2)"
    using assms(3) by (auto simp: VchiqTransferRequestContextCleanup_def)
  with w2 show ?thesis by simp
qed

definition owned_world :: world where
  "owned_world = zero_world\<lparr>
     tx_context := [2 \<mapsto> \<lparr>BufferMdlPtr = 5, PageListPtr = 7, PageListSize = 16, PageListPhyAddr = 0,
       ScatterGatherListPtr = 7, TxFileContextPtr = 1\<rparr>],
     pagelists := (pagelists zero_world)(7 := fill_pagelist VCHIQ_MSG_BULK_TX 0x2001 [(0x12345678, 0x2001)]),
     trace := [(Dma (DmaAllocateCommonBuffer 3 16), ok_reply\<lparr>r_ptr := 7\<rparr>)]\<rparr>"

theorem cleanup_frees_page_list_witness:
  "common_buffers (trace owned_world) = [7] \<and>
   common_buffers (trace (snd (run_state (VchiqTransferRequestContextCleanup quiet_os 2) owned_world))) = []"
proof -
  have sg: "length [(0x12345678 :: u64, 0x2001 :: u32)] = 1" by simp
  have "page_list_owned 1 2 VCHIQ_MSG_BULK_TX 0x2001 zero_world owned_world"
    unfolding page_list_owned_def
    by (intro exI [of _ "\<lparr>BufferMdlPtr = 5, PageListPtr = 7, PageListSize = 16, PageListPhyAddr = 0,
       ScatterGatherListPtr = 7, TxFileContextPtr = 1\<rparr>"] exI [of _ "[(0x12345678, 0x2001)]"])
      (simp add: owned_world_def zero_world_def common_buffers_def buffer_step_def)
  moreover have "run_state (VchiqTransferRequestContextCleanup quiet_os 2) owned_world =
      ((), snd (run_state (VchiqTransferRequestContextCleanup quiet_os 2) owned_world))"
    and "run_state (VchiqTransferRequestContextCleanup quiet_os 2)
        (snd (run_state (VchiqTransferRequestContextCleanup quiet_os 2) owned_world)) =
      ((), snd (run_state (VchiqTransferRequestContextCleanup quiet_os 2)
        (snd (run_state (VchiqTransferRequestContextCleanup quiet_os 2) owned_world))))"
    by (simp_all add: prod_eq_iff)
  ultimately show ?thesis
    using cleanup_frees_page_list by (fastforce simp: owned_world_def zero_world_def common_buffers_def buffer_step_def ok_reply_def)
qed

section \<open>Failure of a bulk request\<close>

lemma keeps_files_updates:
  "keeps (\<lambda>w. R (files w)) (update_slave g)" "keeps (\<lambda>w. R (files w)) (update_master g)"
  "keeps (\<lambda>w. R (files w)) (write_header hp a b)" "keeps (\<lambda>w. R (files w)) (RtlCopyToSlot hp off bs)"
  "keeps (\<lambda>w. R (files w)) (update (CurrentTxPos_update p))"
  "keeps (\<lambda>w. R (files w)) (update (AvailableTxSlotCount_update q))"
  "keeps (\<lambda>w. R (files w)) (update (SlaveCurrentSlot_update s))"
  "keeps (\<lambda>w. R (files w)) (update (pagelists_update pl))"
  "keeps (\<lambda>w. R (files w)) (update (tx_context_update tc))"
  "keeps (\<lambda>w. R (files w)) (ext os c)"
  "keeps (\<lambda>w. R (files w)) undefined_behaviour"
  by (simp_all add: keeps_def split: option.split)

lemma bulk_transfer_files: "keeps (\<lambda>w. R (files w)) (VchiqBulkTransfer os f req dir mdl n arm vc)"
  unfolding VchiqBulkTransfer_def VchiqBulkTransfer_build_def VchiqBulkTransfer_pagelist_def
    VchiqAllocateCommonBuffer_def VchiqFreeCommonBuffer_def VchiqAllocateTransferRequestObjContext_def
    VchiqQueueMessageAsync_def VchiqAcquireTxSpace_def VchiqAcquireTxSpace_pad_def
    VchiqAcquireTxSpace_next_slot_def VchiqWaitForEvents_def VchiqPublishTx_def VchiqSignalVC_def Let_def
  by (intro keeps_bind keeps_return keeps_get keeps_if keeps_when keeps_case_prod keeps_case_option
      keeps_files_updates)

lemma bulk_transfer_keeps_files:
  assumes "run_state (VchiqBulkTransfer os f req dir mdl n arm vc) w = (st, w')"
  shows "files w' = files w"
  using bulk_transfer_files [where R = "\<lambda>v. v = files w"] assms by (rule keeps_run) simp

text \<open>
  The buffer of a memory object from a lookaside list has the size the list was created for.
\<close>

definition lookaside_sized :: "os \<Rightarrow> bool" where
  "lookaside_sized os \<longleftrightarrow> (\<forall>tr h. r_len (os tr (Wdf (WdfMemoryGetBuffer h))) = sizeof_VCHIQ_PENDING_BULK_MSG)"

definition bulk_entry :: "VCHIQ_QUEUE_BULK_TRANSFER \<Rightarrow> handle \<Rightarrow> VCHIQ_PENDING_BULK_MSG" where
  "bulk_entry bt h = \<lparr>BulkUserData = bt_UserData bt, BulkWdfMemory = h, BulkMode = bt_Mode bt\<rparr>"

lemma add_bulk_cases:
  assumes "run_state (VchiqAddPendingBulkMsg os f bt T) w = (st, w')" "lookaside_sized os"
  obtains (fail) "\<not> NT_SUCCESS st" "files w' = files w"
    | (ok) h where "NT_SUCCESS st" "files w' = (files w)(f := PendingBulkMsgList_update
        (\<lambda>l. l(T := l T @ [bulk_entry bt h])) (files w f))"
  using assms by (auto simp: VchiqAddPendingBulkMsg_def bulk_entry_def lookaside_sized_def split: if_splits)

abbreviation with_entry :: "(handle \<Rightarrow> VCHIQ_FILE_CONTEXT) \<Rightarrow> handle \<Rightarrow> bulk_type \<Rightarrow> VCHIQ_PENDING_BULK_MSG \<Rightarrow>
    handle \<Rightarrow> VCHIQ_FILE_CONTEXT" where
  "with_entry g f T m \<equiv> g(f := PendingBulkMsgList_update (\<lambda>l. l(T := l T @ [m])) (g f))"

lemma drop_entry:
  "PendingBulkMsgList_update ((\<lambda>l. l(T := butlast (l T))) \<circ> (\<lambda>l. l(T := l T @ [m]))) x = x"
  by (cases x) simp

lemma remove_last_bulk:
  assumes "files w = with_entry g f T m"
  shows "files (snd (run_state (VchiqRemovePendingBulkMsg os f None T False) w)) = g"
  using assms by (simp add: VchiqRemovePendingBulkMsg_def drop_entry)

lemma undo_cases:
  assumes "run_state (VchiqProcessBulkTransfer_undo os f req T q st0) w = (st, w')"
    and "files w = with_entry g f T m"
  shows "files w' = g" and "st = st0 \<or> st = STATUS_SUCCESS \<and>
    (\<exists>h r. (Req (WdfIoQueueRetrieveFoundRequest h req), r) \<in> set (trace w') \<and> r_status r = STATUS_NOT_FOUND)"
proof -
  have "files (snd (run_state (VchiqRemovePendingBulkMsg os f None T False) w)) = g"
    using assms(2) by (rule remove_last_bulk)
  with assms(1) show "files w' = g"
    by (auto simp: VchiqProcessBulkTransfer_undo_def case_prod_unfold)
  show "st = st0 \<or> st = STATUS_SUCCESS \<and>
    (\<exists>h r. (Req (WdfIoQueueRetrieveFoundRequest h req), r) \<in> set (trace w') \<and> r_status r = STATUS_NOT_FOUND)"
    using assms(1) by (auto simp: VchiqProcessBulkTransfer_undo_def case_prod_unfold split: if_splits) blast
qed

text \<open>
  C11. A bulk request leaves a pending entry exactly when it is under way: when
  \<open>VchiqProcessBulkTransfer\<close> fails, no context of any file has changed, whichever step failed;
  when it succeeds the entry is the last of the file's list for the direction, after those
  that were there, unless the request had been cancelled, in which case the list is as before.
\<close>

theorem bulk_failure_rolls_back:
  assumes run: "run_state (VchiqProcessBulkTransfer os f req bt dir mdl n) w = (st, w')"
    and os: "lookaside_sized os"
  shows "(\<not> NT_SUCCESS st \<longrightarrow> files w' = files w) \<and>
    (NT_SUCCESS st \<longrightarrow>
      (\<exists>h T. T = (if dir = VCHIQ_MSG_BULK_TX then MSG_BULK_TX else MSG_BULK_RX) \<and>
        files w' = (files w)(f := PendingBulkMsgList_update (\<lambda>l. l(T := l T @ [bulk_entry bt h])) (files w f))) \<or>
      files w' = files w \<and>
        (\<exists>q r. (Req (WdfIoQueueRetrieveFoundRequest q req), r) \<in> set (trace w') \<and> r_status r = STATUS_NOT_FOUND))"
proof -
  define T where "T = (if dir = VCHIQ_MSG_BULK_TX then MSG_BULK_TX else MSG_BULK_RX)"
  define q where "q = (if dir = VCHIQ_MSG_BULK_TX then FILE_QUEUE_TX_DATA else FILE_QUEUE_RX_DATA)"
  define wa where "wa = snd (run_state (ext os (Ke (ExAcquireMutex (PendingBulkMsgMutex f T)))) w)"
  obtain st1 w1 where add: "run_state (VchiqAddPendingBulkMsg os f bt T) wa = (st1, w1)" by fastforce
  have wa: "files wa = files w" by (simp add: wa_def)
  show ?thesis
    using add os
  proof (cases rule: add_bulk_cases)
    case fail
    then show ?thesis
      using run add wa by (auto simp: VchiqProcessBulkTransfer_def T_def wa_def Let_def)
  next
    case (ok h)
    define fwd where "fwd = Req (WdfRequestForwardToIoQueue req (FileQueue (files w1 f) q))"
    define wf where "wf = snd (run_state (ext os fwd) w1)"
    obtain st2 w2 where tr: "run_state (VchiqBulkTransfer os f req dir mdl n (ArmPortNumber (files wf f))
      (VCHIQPortNumber (files wf f))) wf = (st2, w2)" by fastforce
    obtain st3 w3 where un: "run_state (VchiqProcessBulkTransfer_undo os f req T q st2) w2 = (st3, w3)" by fastforce
    have entry: "files wf = with_entry (files w) f T (bulk_entry bt h)"
      using ok(2) wa by (simp add: wf_def)
    consider (reject) "\<not> NT_SUCCESS (r_status (os (trace w1) fwd))"
      | (start) "NT_SUCCESS (r_status (os (trace w1) fwd))" "NT_SUCCESS st2"
      | (undo) "NT_SUCCESS (r_status (os (trace w1) fwd))" "\<not> NT_SUCCESS st2" by blast
    then show ?thesis
    proof cases
      case reject
      have "files (snd (run_state (VchiqRemovePendingBulkMsg os f None T False) wf)) = files w"
        using entry by (rule remove_last_bulk)
      then show ?thesis
        using run add ok(1) reject
        by (auto simp: VchiqProcessBulkTransfer_def T_def q_def wa_def fwd_def wf_def case_prod_unfold Let_def)
    next
      case start
      have "files w2 = files wf" using tr by (rule bulk_transfer_keeps_files)
      then show ?thesis
        using run add ok start tr wa
        by (auto simp: VchiqProcessBulkTransfer_def T_def q_def wa_def fwd_def wf_def Let_def)
    next
      case undo
      have "files w2 = with_entry (files w) f T (bulk_entry bt h)"
        using bulk_transfer_keeps_files [OF tr] entry by simp
      note u = undo_cases [OF un this]
      have "st = st3" "files w' = files w3" "set (trace w3) \<subseteq> set (trace w')"
        using run add ok(1) undo tr un
        by (auto simp: VchiqProcessBulkTransfer_def T_def q_def wa_def fwd_def wf_def Let_def)
      then show ?thesis using u undo(2) by auto
    qed
  qed
qed

text \<open>A system that has no resources left for the scatter-gather list.\<close>

definition no_dma_os :: os where
  "no_dma_os tr c = (case c of
      Wdf (WdfMemoryGetBuffer h) \<Rightarrow> ok_reply\<lparr>r_len := sizeof_VCHIQ_PENDING_BULK_MSG\<rparr>
    | Dma d \<Rightarrow> ok_reply\<lparr>r_status := STATUS_INSUFFICIENT_RESOURCES\<rparr>
    | _ \<Rightarrow> ok_reply)"

theorem bulk_failure_rolls_back_witness:
  "\<exists>w'. run_state (VchiqProcessBulkTransfer no_dma_os 1 2 \<lparr>bt_UserData = 9, bt_Mode = VCHIQ_BULK_MODE_CALLBACK\<rparr>
      VCHIQ_MSG_BULK_RX 5 0x2000) zero_world = (STATUS_INSUFFICIENT_RESOURCES, w') \<and> files w' = files zero_world"
proof -
  let ?p = "VchiqProcessBulkTransfer no_dma_os 1 2 \<lparr>bt_UserData = 9, bt_Mode = VCHIQ_BULK_MODE_CALLBACK\<rparr>
      VCHIQ_MSG_BULK_RX 5 0x2000"
  obtain st w' where run: "run_state ?p zero_world = (st, w')" by fastforce
  have "lookaside_sized no_dma_os" by (simp add: lookaside_sized_def no_dma_os_def)
  note r = bulk_failure_rolls_back [OF run this]
  have "st = STATUS_INSUFFICIENT_RESOURCES"
    using run by (auto simp: VchiqProcessBulkTransfer_def VchiqAddPendingBulkMsg_def VchiqBulkTransfer_def
        VchiqBulkTransfer_build_def VchiqProcessBulkTransfer_undo_def VchiqRemovePendingBulkMsg_def
        no_dma_os_def ok_reply_def zero_world_def zero_file_def Let_def)
  with r run show ?thesis by simp
qed

end
