(* ===== verification/Vchiq_Close.thy ===== *)
theory Vchiq_Close
  imports Vchiq_Bulk Vchiq_RxAccount Vchiq_Delivery Vchiq_File
begin

text \<open>
  The life of a file context: the port it gets, which messages reach it by, and what closing
  the file gives back.
\<close>

section \<open>Emptying the lists\<close>

lemma release_ub:
  assumes "unat n < VCHIQ_MAX_SLOTS" "run_state (VchiqReleaseMsg os n) w = (st, w')"
  shows "ub w' = ub w"
  by (subst conjunct1 [OF release_frame [OF assms]]) simp

text \<open>A waiting list that is a field of its own.\<close>

locale field_list = waiting_list +
  assumes upd_upd: "entries_upd g (entries_upd h c) = entries_upd (\<lambda>l. g (h l)) c"
    and upd_same: "entries_upd (\<lambda>_. entries c) c = c"
begin

lemma flush_files:
  "run_state (flush os f ms) w = (u, w') \<Longrightarrow> length ms = length (entries (files w f)) \<Longrightarrow>
   files w' = (files w)(f := entries_upd (\<lambda>_. []) (files w f))"
proof (induction ms arbitrary: w)
  case Nil
  then show ?case using upd_same [of "files w f"] by (simp add: flush_Nil)
next
  case (Cons m ms)
  define w1 where "w1 = w\<lparr>files := (files w)(f := entries_upd butlast (files w f))\<rparr>"
  obtain st w2 where rel: "run_state (VchiqReleaseMsg os (SlotNumber m)) w1 = (st, w2)" by fastforce
  define w3 where "w3 = snd (run_state (ext os (Wdf (WdfObjectDelete (WdfMemory m)))) w2)"
  have "run_state (flush os f ms) w3 = (u, w')"
    using Cons.prems(1) rel by (simp add: w1_def w3_def flush_Cons)
  moreover have files: "files w3 = (files w)(f := entries_upd butlast (files w f))"
    using release_files [OF rel] by (simp add: w1_def w3_def)
  then have "length ms = length (entries (files w3 f))" using Cons.prems(2) by simp
  ultimately have "files w' = (files w3)(f := entries_upd (\<lambda>_. []) (files w3 f))" by (rule Cons.IH)
  then show ?case by (simp add: files upd_upd)
qed

lemma flush_ub:
  "run_state (flush os f ms) w = (u, w') \<Longrightarrow> \<forall>m\<in>set ms. unat (SlotNumber m) < VCHIQ_MAX_SLOTS \<Longrightarrow> ub w' = ub w"
proof (induction ms arbitrary: w)
  case Nil
  then show ?case by (simp add: flush_Nil)
next
  case (Cons m ms)
  define w1 where "w1 = w\<lparr>files := (files w)(f := entries_upd butlast (files w f))\<rparr>"
  obtain st w2 where rel: "run_state (VchiqReleaseMsg os (SlotNumber m)) w1 = (st, w2)" by fastforce
  have "ub w2 = ub w" using release_ub [OF _ rel] Cons.prems(2) by (simp add: w1_def)
  moreover have "run_state (flush os f ms) (snd (run_state (ext os (Wdf (WdfObjectDelete (WdfMemory m)))) w2)) = (u, w')"
    using Cons.prems(1) rel by (simp add: w1_def flush_Cons)
  from Cons.IH [OF this] Cons.prems(2) have "ub w' = ub w2" by simp
  ultimately show ?case by simp
qed

end

interpretation data: field_list PendingDataMsgList PendingDataMsgList_update
  VchiqAddPendingMsg VchiqRemovePendingMsg_flush
  by unfold_locales (simp_all add: comp_def)

interpretation vchi: field_list PendingVchiMsgList PendingVchiMsgList_update
  VchiqAddPendingVchiMsg VchiqRemovePendingVchiMsg_flush
  by unfold_locales (simp_all add: comp_def)

lemma flush_bulk_files:
  "run_state (VchiqRemovePendingBulkMsg_tail os f T True ms) w = (u, w') \<Longrightarrow>
   length ms = length (PendingBulkMsgList (files w f) T) \<Longrightarrow>
   files w' = (files w)(f := PendingBulkMsgList_update (\<lambda>l. l(T := [])) (files w f))"
proof (induction ms arbitrary: w)
  case Nil
  then have "PendingBulkMsgList (files w f) T = []" by simp
  then have "PendingBulkMsgList_update (\<lambda>l. l(T := [])) (files w f) = files w f"
    by (cases "files w f") auto
  then have "(files w)(f := PendingBulkMsgList_update (\<lambda>l. l(T := [])) (files w f)) = files w"
    by (simp only: fun_upd_triv)
  moreover from Nil(1) have "w' = w" by simp
  ultimately show ?case by (simp only:)
next
  case (Cons m ms)
  define w1 where "w1 = w\<lparr>files := (files w)(f := PendingBulkMsgList_update (\<lambda>l. l(T := butlast (l T))) (files w f))\<rparr>"
  define w3 where "w3 = snd (run_state (ext os (Wdf (WdfObjectDelete (BulkWdfMemory m)))) w1)"
  have "run_state (VchiqRemovePendingBulkMsg_tail os f T True ms) w3 = (u, w')"
    using Cons.prems(1) by (simp add: w1_def w3_def)
  moreover have files: "files w3 = files w1" by (simp add: w3_def)
  then have "length ms = length (PendingBulkMsgList (files w3 f) T)"
    using Cons.prems(2) by (simp add: w1_def)
  ultimately have "files w' = (files w3)(f := PendingBulkMsgList_update (\<lambda>l. l(T := [])) (files w3 f))"
    by (rule Cons.IH)
  moreover have w1: "files w1 = (files w)(f := PendingBulkMsgList_update (\<lambda>l. l(T := butlast (l T))) (files w f))"
    by (simp add: w1_def)
  moreover have "PendingBulkMsgList_update (\<lambda>l. l(T := [])) (PendingBulkMsgList_update (\<lambda>l. l(T := butlast (l T))) c) =
      PendingBulkMsgList_update (\<lambda>l. l(T := [])) c" for c :: VCHIQ_FILE_CONTEXT by (cases c) simp
  ultimately show ?case by (simp only: files w1 fun_upd_same fun_upd_upd)
qed

text \<open>Each removal, started on the whole list, leaves it empty and the rest of the files as it was.\<close>

lemma removal_files:
  "files (snd (run_state (VchiqRemovePendingMsg os f 0) w)) =
     (files w)(f := PendingDataMsgList_update (\<lambda>_. []) (files w f))"
  "files (snd (run_state (VchiqRemovePendingVchiMsg os f 0) w)) =
     (files w)(f := PendingVchiMsgList_update (\<lambda>_. []) (files w f))"
  "files (snd (run_state (VchiqRemovePendingBulkMsg os f None T True) w)) =
     (files w)(f := PendingBulkMsgList_update (\<lambda>l. l(T := [])) (files w f))"
  by (simp_all add: VchiqRemovePendingMsg_def VchiqRemovePendingVchiMsg_def VchiqRemovePendingBulkMsg_def
      case_prod_unfold data.flush_files [OF prod.collapse [symmetric]] vchi.flush_files [OF prod.collapse [symmetric]]
      flush_bulk_files [OF prod.collapse [symmetric]])

text \<open>The messages that wait in the lists of a file are in slots that exist.\<close>

definition slots_exist :: "VCHIQ_FILE_CONTEXT \<Rightarrow> bool" where
  "slots_exist c \<longleftrightarrow> (\<forall>m \<in> set (PendingDataMsgList c) \<union> set (PendingVchiMsgList c). unat (SlotNumber m) < VCHIQ_MAX_SLOTS)"

lemma flush_bulk_ub: "ub (snd (run_state (VchiqRemovePendingBulkMsg_tail os f T True ms) w)) = ub w"
  by (induction ms arbitrary: w) simp_all

lemma removal_ub:
  "slots_exist (files w f) \<Longrightarrow> ub (snd (run_state (VchiqRemovePendingMsg os f 0) w)) = ub w"
  "slots_exist (files w f) \<Longrightarrow> ub (snd (run_state (VchiqRemovePendingVchiMsg os f 0) w)) = ub w"
  "ub (snd (run_state (VchiqRemovePendingBulkMsg os f None T True) w)) = ub w"
  by (simp_all add: VchiqRemovePendingMsg_def VchiqRemovePendingVchiMsg_def VchiqRemovePendingBulkMsg_def slots_exist_def
      case_prod_unfold data.flush_ub [OF prod.collapse [symmetric]] vchi.flush_ub [OF prod.collapse [symmetric]] flush_bulk_ub)

definition emptied :: "VCHIQ_FILE_CONTEXT \<Rightarrow> VCHIQ_FILE_CONTEXT" where
  "emptied c = c\<lparr>PendingDataMsgList := [], PendingBulkMsgList := (\<lambda>_. []), PendingVchiMsgList := []\<rparr>"

lemma all_bulk: "g(MSG_BULK_TX := x, MSG_BULK_RX := x) = (\<lambda>_. x)"
proof
  fix T show "(g(MSG_BULK_TX := x, MSG_BULK_RX := x)) T = x" by (cases T) simp_all
qed

lemma close_flush_files:
  "files (snd (run_state (VchiqFileClose_flush os f) w)) = (files w)(f := emptied (files w f))"
  by (cases "files w f")
    (simp add: VchiqFileClose_flush_def case_prod_unfold removal_files emptied_def all_bulk)

lemma close_flush_ub:
  "ListsInitialised (files w f) \<Longrightarrow> slots_exist (files w f) \<Longrightarrow>
   ub (snd (run_state (VchiqFileClose_flush os f) w)) = ub w"
  by (simp add: VchiqFileClose_flush_def case_prod_unfold removal_ub removal_files) (simp add: slots_exist_def removal_ub removal_files)

section \<open>Closing a file\<close>

text \<open>Sending a message without payload from a consistent position.\<close>

lemma pad_ub:
  assumes inv: "tx_inv w" and n: "unat n \<le> 4096" and run: "run_state (VchiqAcquireTxSpace_pad n) w = (u, w1)"
  shows "ub w1 = ub w"
proof (cases "tx_avail w < unat (VCHIQ_GET_SLOT_ALIGN_SIZE n)")
  case True
  then have "unat (CurrentTxPos w) mod 4096 \<noteq> 0"
    using align_bounds(3) [OF n] by (auto simp: tx_avail_def)
  with inv obtain slot where "SlaveCurrentSlot w = Some slot" by (auto simp: tx_inv_def)
  then show ?thesis using True run by (auto simp: run_pad VCHIQ_GET_CURRENT_TX_HEADER_def)
next
  case False
  with run show ?thesis by (simp add: run_pad)
qed

lemma acquire_ub:
  assumes inv: "tx_inv w" and n: "unat n \<le> 4096" and run: "run_state (VchiqAcquireTxSpace os f n sync) w = ((st, hdr), w')"
  shows "ub w' = ub w"
  using run
proof (cases rule: acquire_cases)
  case (ok w1 w2)
  have "ub w2 = ub w1" using ok(2) by (auto elim: next_slot_cases)
  then show ?thesis using ok(5) pad_ub [OF inv n ok(1)] by simp
next
  case (fail w1)
  have "ub w' = ub w1" using fail(3) by (auto elim: next_slot_cases)
  then show ?thesis using pad_ub [OF inv n fail(1)] by simp
qed

lemma publish_ub: "ub (snd (run_state (VchiqPublishTx os) w)) = ub w"
  by (simp add: VchiqPublishTx_def VchiqSignalVC_def)

lemma queue_header_ub:
  assumes inv: "tx_inv w"
  shows "ub (snd (run_state (VchiqQueueMessageAsync os f msgid None 0) w)) = ub w"
proof -
  define wa where "wa = w\<lparr>trace := trace w @ [(Ke (ExAcquireMutex TxSlotMutex), os (trace w) (Ke (ExAcquireMutex TxSlotMutex)))]\<rparr>"
  have inva: "tx_inv wa" using inv by (simp add: wa_def tx_inv_def)
  obtain s h wb where acq: "run_state (VchiqAcquireTxSpace os f 8 False) wa = ((s, h), wb)" by (metis surj_pair)
  have b: "ub wb = ub w" using acquire_ub [OF inva _ acq] by (simp add: wa_def)
  show ?thesis
  proof (cases "NT_SUCCESS s")
    case True
    then obtain hp where "h = Some hp" using acquire_in_slot [OF inva _ acq] by auto
    with True acq b show ?thesis by (simp add: VchiqQueueMessageAsync_def wa_def [symmetric] publish_ub)
  next
    case False
    with acq b show ?thesis by (simp add: VchiqQueueMessageAsync_def wa_def [symmetric])
  qed
qed

lemma notify_ub: "tx_inv w \<Longrightarrow> ub (snd (run_state (VchiqFileClose_notify os f) w)) = ub w"
  by (simp add: VchiqFileClose_notify_def do_when_def case_prod_unfold queue_header_ub)

lemma purge_ub: "ub (snd (run_state (purge_queues os f i n) w)) = ub w"
  by (induction n arbitrary: i w) (simp_all add: do_when_def)

text \<open>What queueing a message and purging the queues leave alone.\<close>

definition close_view where
  "close_view w = (files w, ArmPortHandles w, RxSlotInfo w, SlotQueueRecycle (Master (slot_zero w)))"

lemma close_view_updates:
  "keeps (\<lambda>w. R (close_view w)) (update_slave g)" "keeps (\<lambda>w. R (close_view w)) (ext os c)"
  "keeps (\<lambda>w. R (close_view w)) (write_header hp a b)" "keeps (\<lambda>w. R (close_view w)) (RtlCopyToSlot hp off bs)"
  "keeps (\<lambda>w. R (close_view w)) (update (CurrentTxPos_update p))"
  "keeps (\<lambda>w. R (close_view w)) (update (AvailableTxSlotCount_update q))"
  "keeps (\<lambda>w. R (close_view w)) (update (SlaveCurrentSlot_update s))"
  by (simp_all add: keeps_def close_view_def split: option.split)

lemma signal_view: "keeps (\<lambda>w. R (close_view w)) (VchiqSignalVC os e ((\<lambda>g. Trigger_update g)))"
  unfolding VchiqSignalVC_def
  by (intro keeps_bind keeps_return keeps_get keeps_if keeps_when close_view_updates)
    (simp_all add: keeps_def close_view_def)

lemma notify_view: "keeps (\<lambda>w. R (close_view w)) (VchiqFileClose_notify os f)"
  unfolding VchiqFileClose_notify_def VchiqQueueMessageAsync_def VchiqAcquireTxSpace_def VchiqAcquireTxSpace_pad_def
    VchiqAcquireTxSpace_next_slot_def VchiqWaitForEvents_def VchiqPublishTx_def Let_def
  by (intro keeps_bind keeps_return keeps_get keeps_if keeps_when keeps_case_prod keeps_case_option
      close_view_updates signal_view)

lemma purge_view: "keeps (\<lambda>w. R (close_view w)) (purge_queues os f i n)"
  by (induction n arbitrary: i) (auto intro!: keeps_bind keeps_return keeps_get keeps_when close_view_updates)

lemma flush_ports: "ArmPortHandles (snd (run_state (VchiqFileClose_flush os f) w)) = ArmPortHandles w"
proof -
  have "keeps (\<lambda>v. (case rx_view v of (_, _, _, _, _, _, p) \<Rightarrow> p) = ArmPortHandles w) (VchiqFileClose_flush os f)"
    unfolding VchiqFileClose_flush_def VchiqRemovePendingMsg_def VchiqRemovePendingMsg_finish_def
    by (intro keeps_bind keeps_return keeps_get keeps_if keeps_when view) (simp_all add: keeps_def rx_view_def)
  then show ?thesis by (auto simp: rx_view_def dest: keepsD [where s = w])
qed

text \<open>Everything a close does to the files and the ports.\<close>

lemma close_effect:
  assumes run: "run_state (VchiqFileClose os h) w = (u, w')" and f: "f = file_context w h" "f \<noteq> 0"
  shows "files w' = (files w)(f := (emptied (files w f))\<lparr>DmaAdapterPtr := 0\<rparr>)"
    and "ArmPortHandles w' = (ArmPortHandles w)(unat (ArmPortNumber (files w f)) := 0)"
    and "tx_inv w \<Longrightarrow> ListsInitialised (files w f) \<Longrightarrow> slots_exist (files w f) \<Longrightarrow> ub w' = ub w"
proof -
  define w1 where "w1 = snd (run_state (VchiqFileClose_notify os f) w)"
  define w2 where "w2 = w1\<lparr>ArmPortHandles := (ArmPortHandles w1)(unat (ArmPortNumber (files w f)) := 0)\<rparr>"
  define w3 where "w3 = snd (run_state (ext os (Ke (KeSetEvent (FileEventStopObj f)))) w2)"
  define w4 where "w4 = snd (run_state (purge_queues os f 0 FILE_QUEUE_MAX) w3)"
  define w5 where "w5 = snd (run_state (VchiqFileClose_flush os f) w4)"
  have w1: "files w1 = files w" "ArmPortHandles w1 = ArmPortHandles w"
    using keepsD [OF notify_view [where R = "\<lambda>v. v = close_view w" and os = os and f = f], of w]
    by (simp_all add: w1_def close_view_def)
  have w4: "files w4 = files w3" "ArmPortHandles w4 = ArmPortHandles w3"
    using keepsD [OF purge_view [where R = "\<lambda>v. v = close_view w3" and os = os and f = f], of w3]
    by (simp_all add: w4_def close_view_def)
  have w5: "files w5 = (files w)(f := emptied (files w f))" "ArmPortHandles w5 = ArmPortHandles w2"
    using w4 by (simp_all add: w5_def w3_def w2_def w1 close_flush_files flush_ports)
  have rest: "(u, w') = run_state (do_when (DmaAdapterPtr (files w5 f) \<noteq> 0) (
      ext os (Dma (DmaPutDmaAdapter (DmaAdapterPtr (files w5 f)))) \<bind> (\<lambda>_. update_file f (DmaAdapterPtr_update (\<lambda>_. 0))))) w5"
    using f(2) w1 [unfolded w1_def]
    unfolding run [symmetric] VchiqFileClose_def Let_def f(1) w5_def w4_def w3_def w2_def w1_def
    by (simp add: case_prod_unfold)
  show "files w' = (files w)(f := (emptied (files w f))\<lparr>DmaAdapterPtr := 0\<rparr>)"
  proof (cases "DmaAdapterPtr (files w5 f) = 0")
    case True
    then have "(emptied (files w f))\<lparr>DmaAdapterPtr := 0\<rparr> = emptied (files w f)"
      using w5(1) by (cases "emptied (files w f)") simp
    then show ?thesis using rest True w5(1) by (simp only: simp_thms not_True_eq_False) simp
  next
    case False
    then show ?thesis using rest w5(1) by simp
  qed
  show "ArmPortHandles w' = (ArmPortHandles w)(unat (ArmPortNumber (files w f)) := 0)"
    using rest w5(2) w1(2) by (cases "DmaAdapterPtr (files w5 f) = 0") (simp_all add: w2_def)
  show "ub w' = ub w" if ok: "tx_inv w" "ListsInitialised (files w f)" "slots_exist (files w f)"
  proof -
    have "files w4 f = files w f" using w4(1) by (simp add: w3_def w2_def w1(1))
    then have "ub w5 = ub w4" using close_flush_ub [of w4 f os] ok(2,3) by (simp add: w5_def)
    moreover have "ub w4 = ub w" using notify_ub [OF ok(1), of os f] by (simp add: w4_def w3_def w2_def w1_def purge_ub)
    ultimately show ?thesis using rest by (cases "DmaAdapterPtr (files w5 f) = 0") simp_all
  qed
qed

section \<open>Ports\<close>

text \<open>
  The table of ports and the port numbers in the contexts agree; so each context is in the
  table once at most, and what is sent to a port reaches the context of that port only.
\<close>

definition ports_ok :: "world \<Rightarrow> bool" where
  "ports_ok w \<longleftrightarrow> (\<forall>i. ArmPortHandles w i \<noteq> 0 \<longrightarrow>
     ARM_PORT_START \<le> i \<and> i < MAX_ARM_PORTS \<and> ArmPortNumber (files w (ArmPortHandles w i)) = of_nat i)"

lemma ports_ok_unique:
  assumes "ports_ok w" "ArmPortHandles w i = f" "f \<noteq> 0"
  shows "unat (ArmPortNumber (files w f)) = i"
proof -
  have "i < 4096" "ArmPortNumber (files w f) = of_nat i" using assms by (auto simp: ports_ok_def)
  then show ?thesis by (simp only: unsigned_of_nat) (simp add: take_bit_nat_eq_self)
qed

text \<open>
  C12. Closing a file whose context was set up completely gives back everything the file holds: no
  port leads to its context any more, so that no later message of the firmware reaches it, its
  lists are empty and its DMA adapter is released; the contexts and the ports of the other files
  are untouched, and nothing is done that the code does not define. The lists of the file must have
  been initialised, which they are not when the allocation of the context failed half-way; the messages
  in them must be in slots that exist, and the transmit position consistent.
\<close>

theorem close_releases_file:
  assumes run: "run_state (VchiqFileClose os h) w = (u, w')" and f: "f = file_context w h" "f \<noteq> 0"
    and ok: "ports_ok w" and own: "ArmPortHandles w (unat (ArmPortNumber (files w f))) \<in> {0, f}"
    and init: "ListsInitialised (files w f)" and lists: "slots_exist (files w f)" and pos: "tx_inv w"
  shows "ArmPortHandles w' = (\<lambda>i. if ArmPortHandles w i = f then 0 else ArmPortHandles w i) \<and>
    files w' = (files w)(f := (files w f)\<lparr>PendingDataMsgList := [], PendingBulkMsgList := (\<lambda>_. []),
      PendingVchiMsgList := [], DmaAdapterPtr := 0\<rparr>) \<and>
    ports_ok w' \<and> ub w' = ub w"
proof -
  note e = close_effect [OF run f]
  have "ArmPortHandles w' i = (if ArmPortHandles w i = f then 0 else ArmPortHandles w i)" for i
    using ports_ok_unique [OF ok _ f(2), of i] own by (auto simp: e(2))
  moreover have "ports_ok w'" using ok by (auto simp: ports_ok_def e emptied_def)
  ultimately show ?thesis using e(3) [OF pos init lists] by (auto simp: e(1) emptied_def)
qed

definition open_file_world :: world where
  "open_file_world = zero_world\<lparr>ArmPortHandles := (\<lambda>_. 0)(7 := 3),
     files := (\<lambda>_. zero_file)(3 := zero_file\<lparr>ArmPortNumber := 7, DmaAdapterPtr := 4, ListsInitialised := True,
       PendingDataMsgList := [\<lparr>Msg = 4096, SlotNumber = 1, WdfMemory = 5\<rparr>]\<rparr>)\<rparr>"

theorem close_releases_file_witness:
  "ArmPortHandles (snd (run_state (VchiqFileClose quiet_os 3) open_file_world)) = (\<lambda>_. 0) \<and>
   PendingDataMsgList (files (snd (run_state (VchiqFileClose quiet_os 3) open_file_world)) 3) = [] \<and>
   \<not> ub (snd (run_state (VchiqFileClose quiet_os 3) open_file_world))"
proof -
  have "file_context open_file_world 3 = 3" "ports_ok open_file_world" "tx_inv open_file_world"
    "ListsInitialised (files open_file_world 3)" "slots_exist (files open_file_world 3)" "\<not> ub open_file_world"
    by (simp_all add: open_file_world_def zero_world_def ports_ok_def tx_inv_def slots_exist_def zero_file_def)
  with close_releases_file [OF prod.collapse [symmetric], of 3 open_file_world 3 quiet_os] show ?thesis
    by (auto simp: open_file_world_def zero_world_def)
qed

lemma allocate_port_result:
  "run_state (allocate_port f i n) w = (r, w') \<Longrightarrow>
   (case r of None \<Rightarrow> w' = w \<and> (\<forall>j. i \<le> j \<and> j < i + n \<longrightarrow> ArmPortHandles w j \<noteq> 0)
    | Some p \<Rightarrow> i \<le> p \<and> p < i + n \<and> ArmPortHandles w p = 0 \<and> (\<forall>j. i \<le> j \<and> j < p \<longrightarrow> ArmPortHandles w j \<noteq> 0) \<and>
        w' = w\<lparr>ArmPortHandles := (ArmPortHandles w)(p := f),
          files := (files w)(f := (files w f)\<lparr>ArmPortNumber := of_nat p\<rparr>)\<rparr>)"
proof (induction n arbitrary: i)
  case 0
  then show ?case by simp
next
  case (Suc n)
  show ?case
  proof (cases "ArmPortHandles w i = 0")
    case True
    with Suc.prems show ?thesis by (auto split: if_splits)
  next
    case False
    with Suc.prems have "run_state (allocate_port f (i + 1) n) w = (r, w')" by simp
    from Suc.IH [OF this] False show ?thesis
      by (auto split: option.splits simp: Suc_le_eq) (metis le_neq_implies_less)+
  qed
qed

definition port_view where
  "port_view w = (ArmPortHandles w, (\<lambda>f. ArmPortNumber (files w f)), file_context w)"

lemma port_view_updates:
  "keeps (\<lambda>w. R (port_view w)) (ext os c)"
  "keeps (\<lambda>w. R (port_view w)) (update_file f (FileQueue_update q))"
  "keeps (\<lambda>w. R (port_view w)) (update_file f (PendingMsgLookAsideMemory_update l))"
  "keeps (\<lambda>w. R (port_view w)) (update_file f (PendingBulkMsgLookAsideMemory_update b))"
  "keeps (\<lambda>w. R (port_view w)) (update_file f (DmaAdapterPtr_update d))"
  "keeps (\<lambda>w. R (port_view w)) (update_file f (\<lambda>c. c\<lparr>PendingDataMsgList := [], PendingVchiMsgList := [],
     PendingBulkMsgList := (\<lambda>_. []), ListsInitialised := True\<rparr>))"
  by (auto simp: keeps_def port_view_def elim!: back_subst [where P = R])

lemma set_up_view:
  "keeps (\<lambda>w. R (port_view w)) (create_queues os f i n \<bind> (\<lambda>status. if \<not> NT_SUCCESS status then return status
      else create_lookasides os h f \<bind>
        (\<lambda>status. if \<not> NT_SUCCESS status then return status else initialize_lists os f)))"
proof -
  have "keeps (\<lambda>w. R (port_view w)) (create_queues os f i n)"
    by (induction n arbitrary: i) (auto intro!: keeps_bind keeps_return keeps_get keeps_if port_view_updates)
  then show ?thesis
    unfolding create_lookasides_def initialize_lists_def
    by (intro keeps_bind keeps_return keeps_get keeps_if port_view_updates)
qed

text \<open>
  C30. A new file context gets the first free port, and the ports stay consistent: after
  \<open>VchiqAllocateFileObjContext\<close> for a fresh context, successful or not, the table and the
  contexts agree, at most one entry of the table has changed, and it is the first that was
  free; when there is none the allocation fails with \<open>STATUS_NO_MORE_FILES\<close>.
\<close>

theorem context_gets_first_free_port:
  assumes run: "run_state (VchiqAllocateFileObjContext os h) w = ((st, g), w')"
    and g: "g \<noteq> 0" "\<forall>i. ArmPortHandles w i \<noteq> g" and ok: "ports_ok w"
  shows "ports_ok w' \<and> file_context w' h = g \<and>
    (if \<exists>p. ARM_PORT_START \<le> p \<and> p < MAX_ARM_PORTS \<and> ArmPortHandles w p = 0
     then ArmPortHandles w' =
       (ArmPortHandles w)((LEAST p. ARM_PORT_START \<le> p \<and> ArmPortHandles w p = 0) := g)
     else st = STATUS_NO_MORE_FILES \<and> ArmPortHandles w' = ArmPortHandles w)"
proof -
  define w1 where "w1 = w\<lparr>trace := trace w @ [(Wdf (WdfObjectAllocateContext h), os (trace w) (Wdf (WdfObjectAllocateContext h)))],
    file_context := (file_context w)(h := g), files := (files w)(g := zero_file)\<rparr>"
  obtain r w2 where port: "run_state (allocate_port g ARM_PORT_START (MAX_ARM_PORTS - ARM_PORT_START)) w1 = (r, w2)"
    by fastforce
  note found = allocate_port_result [OF port]
  define prep where "prep = (create_queues os g 0 FILE_QUEUE_MAX \<bind> (\<lambda>status. if \<not> NT_SUCCESS status then return status
      else create_lookasides os h g \<bind>
        (\<lambda>status. if \<not> NT_SUCCESS status then return status else initialize_lists os g)))"
  have g_ptr: "r_ptr (os (trace w) (Wdf (WdfObjectAllocateContext h))) = g"
    "NT_SUCCESS (r_status (os (trace w) (Wdf (WdfObjectAllocateContext h))))"
    using run g(1) by (auto simp: VchiqAllocateFileObjContext_def Let_def case_prod_unfold split: if_splits)
  have rest: "((st, g), w') = run_state ((case r of None \<Rightarrow> return STATUS_NO_MORE_FILES | Some i \<Rightarrow> prep) \<bind> (\<lambda>status. return (status, g))) w2"
    using run port g_ptr unfolding prep_def VchiqAllocateFileObjContext_def
    by (simp add: Let_def w1_def)
  show ?thesis
  proof (cases r)
    case None
    then have "w2 = w1" "\<forall>j. ARM_PORT_START \<le> j \<and> j < MAX_ARM_PORTS \<longrightarrow> ArmPortHandles w j \<noteq> 0"
      using found by (auto simp: w1_def)
    then have none: "\<not> (\<exists>p. ARM_PORT_START \<le> p \<and> p < MAX_ARM_PORTS \<and> ArmPortHandles w p = 0)"
      and w': "st = STATUS_NO_MORE_FILES" "w' = w1"
      using rest None by auto
    have "ports_ok w'" using ok g(2) by (simp add: w'(2) w1_def ports_ok_def)
    moreover have "file_context w' h = g" "ArmPortHandles w' = ArmPortHandles w" by (simp_all add: w'(2) w1_def)
    ultimately show ?thesis unfolding if_not_P [OF none] using w'(1) by blast
  next
    case (Some p)
    then have p: "ARM_PORT_START \<le> p" "p < MAX_ARM_PORTS" "ArmPortHandles w p = 0"
      "\<And>j. ARM_PORT_START \<le> j \<Longrightarrow> j < p \<Longrightarrow> ArmPortHandles w j \<noteq> 0"
      "port_view w2 = ((ArmPortHandles w)(p := g),
         (\<lambda>f. if f = g then of_nat p else ArmPortNumber (files w f)), (file_context w)(h := g))"
      using found by (auto simp: w1_def port_view_def)
    have least: "(LEAST p. ARM_PORT_START \<le> p \<and> ArmPortHandles w p = 0) = p"
    proof (rule Least_equality)
      show "ARM_PORT_START \<le> p \<and> ArmPortHandles w p = 0" using p by blast
      show "p \<le> y" if "ARM_PORT_START \<le> y \<and> ArmPortHandles w y = 0" for y
        using p(4) [of y] that by (metis not_le)
    qed
    have "port_view w' = port_view w2"
      using keepsD [OF set_up_view [where R = "\<lambda>v. v = port_view w2" and os = os and f = g and i = 0 and n = FILE_QUEUE_MAX and h = h], of w2]
        rest Some unfolding prep_def [symmetric] by (simp add: case_prod_unfold)
    then have "port_view w' = ((ArmPortHandles w)(p := g),
         (\<lambda>f. if f = g then of_nat p else ArmPortNumber (files w f)), (file_context w)(h := g))"
      using p(5) by simp
    then have w': "ArmPortHandles w' = (ArmPortHandles w)(p := g)" "file_context w' h = g"
      "\<And>f. ArmPortNumber (files w' f) = (if f = g then of_nat p else ArmPortNumber (files w f))"
      unfolding port_view_def prod.inject by (auto simp: fun_eq_iff)
    have "ports_ok w'" using ok p(1,2) g(2) by (auto simp: ports_ok_def w')
    then show ?thesis using w' p(1,2,3) least by auto
  qed
qed

theorem context_gets_first_free_port_witness:
  "ArmPortHandles (snd (run_state (VchiqAllocateFileObjContext quiet_os 8) zero_world)) 1 = 1"
proof -
  obtain st g w' where run: "run_state (VchiqAllocateFileObjContext quiet_os 8) zero_world = ((st, g), w')"
    by (metis prod.exhaust)
  have g: "g = 1"
    using arg_cong [OF run, of "\<lambda>x. snd (fst x)"]
    by (simp add: VchiqAllocateFileObjContext_def quiet_os_def ok_reply_def Let_def case_prod_unfold)
  have least: "(LEAST p. ARM_PORT_START \<le> p \<and> ArmPortHandles zero_world p = 0) = 1"
    by (rule Least_equality) (simp_all add: zero_world_def)
  have "\<exists>p. ARM_PORT_START \<le> p \<and> p < MAX_ARM_PORTS \<and> ArmPortHandles zero_world p = 0"
    by (rule exI [of _ 1]) (simp add: zero_world_def)
  note exists = this
  have zero: "ports_ok zero_world" "\<forall>i. ArmPortHandles zero_world i \<noteq> g" "g \<noteq> 0"
    by (simp_all add: zero_world_def ports_ok_def g)
  have "ArmPortHandles w' = (ArmPortHandles zero_world)(1 := 1)"
    using context_gets_first_free_port [OF run zero(3,2,1)] unfolding if_P [OF exists] least g by blast
  then show ?thesis by (simp add: run)
qed

end
