(* ===== verification/Rpiq_Messages.thy ===== *)
theory Rpiq_Messages
  imports Nt_Prelude
begin

text \<open>
  The messages of the mailbox property interface (\<open>rpiq.h\<close>): one definition per inline function
  that prepares a message, on a common type, since every message is a header, the words of its
  value and an end tag. \<open>p\<close> is what the memory held before: a function that leaves a field alone
  leaves what was there.
\<close>

section \<open>The messages\<close>

record MAILBOX_HEADER =
  TotalBuffer :: u32
  RequestResponse :: u32
  TagID :: u32
  ResponseLength :: u32
  RequestCode :: u32

record property =
  Header :: MAILBOX_HEADER
  Value :: "u32 list"
  EndTag :: u32

abbreviation (input) TAG_REQUEST :: u32 where "TAG_REQUEST \<equiv> 0"
abbreviation (input) RESPONSE_SUCCESS :: u32 where "RESPONSE_SUCCESS \<equiv> 0x80000000"

definition TAG_ID_GET_FIRMWARE_REVISION :: u32 where "TAG_ID_GET_FIRMWARE_REVISION = 0x00000001"
definition TAG_ID_GET_BOARD_MODEL :: u32 where "TAG_ID_GET_BOARD_MODEL = 0x00010001"
definition TAG_ID_GET_BOARD_REVISION :: u32 where "TAG_ID_GET_BOARD_REVISION = 0x00010002"
definition TAG_ID_GET_BOARD_MAC_ADDRESS :: u32 where "TAG_ID_GET_BOARD_MAC_ADDRESS = 0x00010003"
definition TAG_ID_GET_BOARD_SERIAL :: u32 where "TAG_ID_GET_BOARD_SERIAL = 0x00010004"
definition TAG_ID_GET_ARM_MEMORY :: u32 where "TAG_ID_GET_ARM_MEMORY = 0x00010005"
definition TAG_ID_GET_VC_MEMORY :: u32 where "TAG_ID_GET_VC_MEMORY = 0x00010006"
definition TAG_ID_GET_CLOCK_RATE :: u32 where "TAG_ID_GET_CLOCK_RATE = 0x00030002"
definition TAG_ID_SET_CLOCK_RATE :: u32 where "TAG_ID_SET_CLOCK_RATE = 0x00038002"
definition TAG_ID_GET_MAX_CLOCK_RATE :: u32 where "TAG_ID_GET_MAX_CLOCK_RATE = 0x00030004"
definition TAG_ID_GET_MIN_CLOCK_RATE :: u32 where "TAG_ID_GET_MIN_CLOCK_RATE = 0x00030007"
definition TAG_ID_SET_POWER_VC4 :: u32 where "TAG_ID_SET_POWER_VC4 = 0x00030012"
definition TAG_ID_ALLOC_MEM :: u32 where "TAG_ID_ALLOC_MEM = 0x0003000c"
definition TAG_ID_LOCK_MEM :: u32 where "TAG_ID_LOCK_MEM = 0x0003000d"
definition TAG_ID_GET_EDID :: u32 where "TAG_ID_GET_EDID = 0x00030020"
definition TAG_ID_GET_VIRTUAL_BUFFER_SIZE :: u32 where "TAG_ID_GET_VIRTUAL_BUFFER_SIZE = 0x00040004"
definition TAG_ID_SET_CURSOR_INFO :: u32 where "TAG_ID_SET_CURSOR_INFO = 0x00008010"
definition TAG_ID_SET_CURSOR_STATE :: u32 where "TAG_ID_SET_CURSOR_STATE = 0x00008011"
definition TAG_ID_GET_GPIO_EXPANDER :: u32 where "TAG_ID_GET_GPIO_EXPANDER = 0x00030041"
definition TAG_ID_SET_GPIO_EXPANDER :: u32 where "TAG_ID_SET_GPIO_EXPANDER = 0x00038041"
definition TAG_ID_GET_TOUCHBUF :: u32 where "TAG_ID_GET_TOUCHBUF = 0x0004000f"

text \<open>\<open>sizeof\<close> the message, its tag and the length of its value, which every function fills in.\<close>

definition property_header :: "u32 \<Rightarrow> u32 \<Rightarrow> u32 \<Rightarrow> MAILBOX_HEADER" where
  "property_header nbytes tag len = \<lparr>TotalBuffer = nbytes, RequestResponse = TAG_REQUEST, TagID = tag,
     ResponseLength = len, RequestCode = TAG_REQUEST\<rparr>"

definition INIT_MAILBOX_GET_FIRMWARE_REVISION :: "property \<Rightarrow> property" where
  "INIT_MAILBOX_GET_FIRMWARE_REVISION p = \<lparr>Header = property_header 28 TAG_ID_GET_FIRMWARE_REVISION 4,
     Value = [0], EndTag = 0\<rparr>"

definition INIT_MAILBOX_GET_BOARD_MODEL :: "property \<Rightarrow> property" where
  "INIT_MAILBOX_GET_BOARD_MODEL p = \<lparr>Header = property_header 28 TAG_ID_GET_BOARD_MODEL 4,
     Value = [0], EndTag = 0\<rparr>"

definition INIT_MAILBOX_GET_BOARD_REVISION :: "property \<Rightarrow> property" where
  "INIT_MAILBOX_GET_BOARD_REVISION p = \<lparr>Header = property_header 28 TAG_ID_GET_BOARD_REVISION 4,
     Value = [0], EndTag = 0\<rparr>"

definition INIT_MAILBOX_GET_BOARD_MAC_ADDRESS :: "property \<Rightarrow> property" where
  "INIT_MAILBOX_GET_BOARD_MAC_ADDRESS p = \<lparr>Header = property_header 32 TAG_ID_GET_BOARD_MAC_ADDRESS 6,
     Value = [Value p ! 0, Value p ! 1 AND 0xFFFF], EndTag = 0\<rparr>"

definition INIT_MAILBOX_GET_BOARD_SERIAL :: "property \<Rightarrow> property" where
  "INIT_MAILBOX_GET_BOARD_SERIAL p = \<lparr>Header = property_header 32 TAG_ID_GET_BOARD_SERIAL 8,
     Value = Value p, EndTag = 0\<rparr>"

definition INIT_MAILBOX_GET_ARM_MEMORY :: "property \<Rightarrow> property" where
  "INIT_MAILBOX_GET_ARM_MEMORY p = \<lparr>Header = property_header 32 TAG_ID_GET_ARM_MEMORY 8,
     Value = [0, 0], EndTag = 0\<rparr>"

definition INIT_MAILBOX_GET_VC_MEMORY :: "property \<Rightarrow> property" where
  "INIT_MAILBOX_GET_VC_MEMORY p = \<lparr>Header = property_header 32 TAG_ID_GET_VC_MEMORY 8,
     Value = [0, 0], EndTag = 0\<rparr>"

definition INIT_MAILBOX_GET_CLOCK_RATE :: "property \<Rightarrow> u32 \<Rightarrow> property" where
  "INIT_MAILBOX_GET_CLOCK_RATE p ClockId = \<lparr>Header = property_header 32 TAG_ID_GET_CLOCK_RATE 8,
     Value = [ClockId, 0], EndTag = 0\<rparr>"

definition INIT_MAILBOX_SET_CLOCK_RATE :: "property \<Rightarrow> u32 \<Rightarrow> u32 \<Rightarrow> u32 \<Rightarrow> property" where
  "INIT_MAILBOX_SET_CLOCK_RATE p ClockId Rate SkipSettingTurbo = \<lparr>Header = property_header 36 TAG_ID_SET_CLOCK_RATE 8,
     Value = [ClockId, Rate, SkipSettingTurbo], EndTag = 0\<rparr>"

definition INIT_MAILBOX_GET_MAX_CLOCK_RATE :: "property \<Rightarrow> u32 \<Rightarrow> property" where
  "INIT_MAILBOX_GET_MAX_CLOCK_RATE p ClockId = \<lparr>Header = property_header 32 TAG_ID_GET_MAX_CLOCK_RATE 8,
     Value = [ClockId, 0], EndTag = 0\<rparr>"

definition INIT_MAILBOX_GET_MIN_CLOCK_RATE :: "property \<Rightarrow> u32 \<Rightarrow> property" where
  "INIT_MAILBOX_GET_MIN_CLOCK_RATE p ClockId = \<lparr>Header = property_header 32 TAG_ID_GET_MIN_CLOCK_RATE 8,
     Value = [ClockId, 0], EndTag = 0\<rparr>"

definition INIT_MAILBOX_SET_POWER_VC4 :: "property \<Rightarrow> u32 \<Rightarrow> property" where
  "INIT_MAILBOX_SET_POWER_VC4 p PowerOn = \<lparr>Header = property_header 28 TAG_ID_SET_POWER_VC4 4,
     Value = [PowerOn], EndTag = 0\<rparr>"

definition INIT_MAILBOX_ALLOC_MEM :: "property \<Rightarrow> u32 \<Rightarrow> u32 \<Rightarrow> property" where
  "INIT_MAILBOX_ALLOC_MEM p Size Aligment = \<lparr>Header = property_header 36 TAG_ID_ALLOC_MEM 12,
     Value = [Size, Aligment, 0xC], EndTag = 0\<rparr>"

definition INIT_MAILBOX_LOC_MEM :: "property \<Rightarrow> u32 \<Rightarrow> property" where
  "INIT_MAILBOX_LOC_MEM p Handle = \<lparr>Header = property_header 28 TAG_ID_LOCK_MEM 4,
     Value = [Handle], EndTag = 0\<rparr>"

definition INIT_MAILBOX_GET_EDID :: "property \<Rightarrow> u32 \<Rightarrow> property" where
  "INIT_MAILBOX_GET_EDID p BlockNumber = \<lparr>Header = property_header 160 TAG_ID_GET_EDID 136,
     Value = (Value p)[0 := BlockNumber], EndTag = 0\<rparr>"

definition INIT_MAILBOX_GET_VIRTUAL_BUFFER_SIZE :: "property \<Rightarrow> property" where
  "INIT_MAILBOX_GET_VIRTUAL_BUFFER_SIZE p = \<lparr>Header = property_header 32 TAG_ID_GET_VIRTUAL_BUFFER_SIZE 8,
     Value = Value p, EndTag = 0\<rparr>"

definition INIT_MAILBOX_CURSOR_INFO :: "property \<Rightarrow> u32 \<Rightarrow> u32 \<Rightarrow> u32 \<Rightarrow> property" where
  "INIT_MAILBOX_CURSOR_INFO p Width Height Address = \<lparr>Header = property_header 48 TAG_ID_SET_CURSOR_INFO 24,
     Value = [Width, Height, 0, Address, 0, 0], EndTag = 0\<rparr>"

definition INIT_MAILBOX_CURSOR_STATE :: "property \<Rightarrow> u32 \<Rightarrow> u32 \<Rightarrow> u32 \<Rightarrow> property" where
  "INIT_MAILBOX_CURSOR_STATE p Enable HotspotX HotspotY = \<lparr>Header = property_header 40 TAG_ID_SET_CURSOR_STATE 16,
     Value = [Enable, HotspotX, HotspotY, Value p ! 3], EndTag = 0\<rparr>"

definition INIT_MAILBOX_GET_GPIO_EXPANDER :: "property \<Rightarrow> u32 \<Rightarrow> property" where
  "INIT_MAILBOX_GET_GPIO_EXPANDER p GpioId = \<lparr>Header = property_header 32 TAG_ID_GET_GPIO_EXPANDER 8,
     Value = (Value p)[0 := GpioId], EndTag = 0\<rparr>"

definition INIT_MAILBOX_SET_GPIO_EXPANDER :: "property \<Rightarrow> u32 \<Rightarrow> u32 \<Rightarrow> property" where
  "INIT_MAILBOX_SET_GPIO_EXPANDER p GpioId GpioState = \<lparr>Header = property_header 32 TAG_ID_SET_GPIO_EXPANDER 8,
     Value = [GpioId, GpioState], EndTag = 0\<rparr>"

definition INIT_MAILBOX_GET_TOUCH_BUFF :: "property \<Rightarrow> u32 \<Rightarrow> property" where
  "INIT_MAILBOX_GET_TOUCH_BUFF p InTouchBuffer = \<lparr>Header = property_header 28 TAG_ID_GET_TOUCHBUF 4,
     Value = [InTouchBuffer], EndTag = 0\<rparr>"

section \<open>The layout of a message\<close>

text \<open>
  The interface's documented layout: the total size, a code, then tags up to a tag of 0, each
  with the size of its value in bytes, a code, and the value in whole words.
\<close>

definition property_words :: "property \<Rightarrow> u32 list" where
  "property_words p = [TotalBuffer (Header p), RequestResponse (Header p), TagID (Header p),
     ResponseLength (Header p), RequestCode (Header p)] @ Value p @ [EndTag p]"

fun parse_tags :: "u32 list \<Rightarrow> (u32 \<times> u32 \<times> u32 list) list option" where
  "parse_tags [] = None"
| "parse_tags (tag # ws) = (if tag = 0 then Some []
     else case ws of
       len # code # rest \<Rightarrow> (let k = (unat len + 3) div 4 in
         if length rest < k then None
         else map_option (Cons (tag, len, take k rest)) (parse_tags (drop k rest)))
     | _ \<Rightarrow> None)"

definition parse_property :: "u32 list \<Rightarrow> (u32 \<times> u32 \<times> u32 list) list option" where
  "parse_property ws = (case ws of
      nbytes # code # tags \<Rightarrow> (if unat nbytes = 4 * length ws then parse_tags tags else None)
    | _ \<Rightarrow> None)"

text \<open>All messages, with the parameters of the functions that prepare them.\<close>

datatype message =
    GetFirmwareRevision | GetBoardModel | GetBoardRevision | GetBoardMacAddress | GetBoardSerial
  | GetArmMemory | GetVcMemory | GetClockRate u32 | SetClockRate u32 u32 u32 | GetMaxClockRate u32
  | GetMinClockRate u32 | SetPowerVc4 u32 | AllocMem u32 u32 | LockMem u32 | GetEdid u32
  | GetVirtualBufferSize | CursorInfo u32 u32 u32 | CursorState u32 u32 u32 | GetGpioExpander u32
  | SetGpioExpander u32 u32 | GetTouchBuffer u32

fun prepare :: "message \<Rightarrow> property \<Rightarrow> property" where
  "prepare GetFirmwareRevision p = INIT_MAILBOX_GET_FIRMWARE_REVISION p"
| "prepare GetBoardModel p = INIT_MAILBOX_GET_BOARD_MODEL p"
| "prepare GetBoardRevision p = INIT_MAILBOX_GET_BOARD_REVISION p"
| "prepare GetBoardMacAddress p = INIT_MAILBOX_GET_BOARD_MAC_ADDRESS p"
| "prepare GetBoardSerial p = INIT_MAILBOX_GET_BOARD_SERIAL p"
| "prepare GetArmMemory p = INIT_MAILBOX_GET_ARM_MEMORY p"
| "prepare GetVcMemory p = INIT_MAILBOX_GET_VC_MEMORY p"
| "prepare (GetClockRate c) p = INIT_MAILBOX_GET_CLOCK_RATE p c"
| "prepare (SetClockRate c r t) p = INIT_MAILBOX_SET_CLOCK_RATE p c r t"
| "prepare (GetMaxClockRate c) p = INIT_MAILBOX_GET_MAX_CLOCK_RATE p c"
| "prepare (GetMinClockRate c) p = INIT_MAILBOX_GET_MIN_CLOCK_RATE p c"
| "prepare (SetPowerVc4 b) p = INIT_MAILBOX_SET_POWER_VC4 p b"
| "prepare (AllocMem n a) p = INIT_MAILBOX_ALLOC_MEM p n a"
| "prepare (LockMem h) p = INIT_MAILBOX_LOC_MEM p h"
| "prepare (GetEdid b) p = INIT_MAILBOX_GET_EDID p b"
| "prepare GetVirtualBufferSize p = INIT_MAILBOX_GET_VIRTUAL_BUFFER_SIZE p"
| "prepare (CursorInfo w h a) p = INIT_MAILBOX_CURSOR_INFO p w h a"
| "prepare (CursorState e x y) p = INIT_MAILBOX_CURSOR_STATE p e x y"
| "prepare (GetGpioExpander g) p = INIT_MAILBOX_GET_GPIO_EXPANDER p g"
| "prepare (SetGpioExpander g v) p = INIT_MAILBOX_SET_GPIO_EXPANDER p g v"
| "prepare (GetTouchBuffer b) p = INIT_MAILBOX_GET_TOUCH_BUFF p b"

text \<open>The words of the value, from the structure of each message, and the tag it is documented with.\<close>

fun value_words :: "message \<Rightarrow> nat" where
  "value_words GetFirmwareRevision = 1" | "value_words GetBoardModel = 1" | "value_words GetBoardRevision = 1"
| "value_words GetBoardMacAddress = 2" | "value_words GetBoardSerial = 2" | "value_words GetArmMemory = 2"
| "value_words GetVcMemory = 2" | "value_words (GetClockRate _) = 2" | "value_words (SetClockRate _ _ _) = 3"
| "value_words (GetMaxClockRate _) = 2" | "value_words (GetMinClockRate _) = 2" | "value_words (SetPowerVc4 _) = 1"
| "value_words (AllocMem _ _) = 3" | "value_words (LockMem _) = 1" | "value_words (GetEdid _) = 34"
| "value_words GetVirtualBufferSize = 2" | "value_words (CursorInfo _ _ _) = 6" | "value_words (CursorState _ _ _) = 4"
| "value_words (GetGpioExpander _) = 2" | "value_words (SetGpioExpander _ _) = 2" | "value_words (GetTouchBuffer _) = 1"

fun message_tag :: "message \<Rightarrow> u32" where
  "message_tag GetFirmwareRevision = TAG_ID_GET_FIRMWARE_REVISION" | "message_tag GetBoardModel = TAG_ID_GET_BOARD_MODEL"
| "message_tag GetBoardRevision = TAG_ID_GET_BOARD_REVISION" | "message_tag GetBoardMacAddress = TAG_ID_GET_BOARD_MAC_ADDRESS"
| "message_tag GetBoardSerial = TAG_ID_GET_BOARD_SERIAL" | "message_tag GetArmMemory = TAG_ID_GET_ARM_MEMORY"
| "message_tag GetVcMemory = TAG_ID_GET_VC_MEMORY" | "message_tag (GetClockRate _) = TAG_ID_GET_CLOCK_RATE"
| "message_tag (SetClockRate _ _ _) = TAG_ID_SET_CLOCK_RATE" | "message_tag (GetMaxClockRate _) = TAG_ID_GET_MAX_CLOCK_RATE"
| "message_tag (GetMinClockRate _) = TAG_ID_GET_MIN_CLOCK_RATE" | "message_tag (SetPowerVc4 _) = TAG_ID_SET_POWER_VC4"
| "message_tag (AllocMem _ _) = TAG_ID_ALLOC_MEM" | "message_tag (LockMem _) = TAG_ID_LOCK_MEM"
| "message_tag (GetEdid _) = TAG_ID_GET_EDID" | "message_tag GetVirtualBufferSize = TAG_ID_GET_VIRTUAL_BUFFER_SIZE"
| "message_tag (CursorInfo _ _ _) = TAG_ID_SET_CURSOR_INFO" | "message_tag (CursorState _ _ _) = TAG_ID_SET_CURSOR_STATE"
| "message_tag (GetGpioExpander _) = TAG_ID_GET_GPIO_EXPANDER" | "message_tag (SetGpioExpander _ _) = TAG_ID_SET_GPIO_EXPANDER"
| "message_tag (GetTouchBuffer _) = TAG_ID_GET_TOUCHBUF"

text \<open>The parameters as they must arrive in the first words of the value.\<close>

fun message_parameters :: "message \<Rightarrow> u32 list" where
  "message_parameters (GetClockRate c) = [c]" | "message_parameters (SetClockRate c r t) = [c, r, t]"
| "message_parameters (GetMaxClockRate c) = [c]" | "message_parameters (GetMinClockRate c) = [c]"
| "message_parameters (SetPowerVc4 b) = [b]" | "message_parameters (AllocMem n a) = [n, a]"
| "message_parameters (LockMem h) = [h]" | "message_parameters (GetEdid b) = [b]"
| "message_parameters (CursorInfo w h a) = [w, h, 0, a]" | "message_parameters (CursorState e x y) = [e, x, y]"
| "message_parameters (GetGpioExpander g) = [g]" | "message_parameters (SetGpioExpander g v) = [g, v]"
| "message_parameters (GetTouchBuffer b) = [b]"
| "message_parameters _ = []"

definition misformed :: "message \<Rightarrow> bool" where
  "misformed m \<longleftrightarrow> (case m of SetClockRate _ _ _ \<Rightarrow> True | _ \<Rightarrow> False)"

lemmas INIT_defs = INIT_MAILBOX_GET_FIRMWARE_REVISION_def INIT_MAILBOX_GET_BOARD_MODEL_def INIT_MAILBOX_GET_BOARD_REVISION_def
  INIT_MAILBOX_GET_BOARD_MAC_ADDRESS_def INIT_MAILBOX_GET_BOARD_SERIAL_def INIT_MAILBOX_GET_ARM_MEMORY_def INIT_MAILBOX_GET_VC_MEMORY_def
  INIT_MAILBOX_GET_CLOCK_RATE_def INIT_MAILBOX_SET_CLOCK_RATE_def INIT_MAILBOX_GET_MAX_CLOCK_RATE_def INIT_MAILBOX_GET_MIN_CLOCK_RATE_def
  INIT_MAILBOX_SET_POWER_VC4_def INIT_MAILBOX_ALLOC_MEM_def INIT_MAILBOX_LOC_MEM_def INIT_MAILBOX_GET_EDID_def
  INIT_MAILBOX_GET_VIRTUAL_BUFFER_SIZE_def INIT_MAILBOX_CURSOR_INFO_def INIT_MAILBOX_CURSOR_STATE_def
  INIT_MAILBOX_GET_GPIO_EXPANDER_def INIT_MAILBOX_SET_GPIO_EXPANDER_def INIT_MAILBOX_GET_TOUCH_BUFF_def

lemmas TAG_defs = TAG_ID_GET_FIRMWARE_REVISION_def TAG_ID_GET_BOARD_MODEL_def TAG_ID_GET_BOARD_REVISION_def
  TAG_ID_GET_BOARD_MAC_ADDRESS_def TAG_ID_GET_BOARD_SERIAL_def TAG_ID_GET_ARM_MEMORY_def TAG_ID_GET_VC_MEMORY_def
  TAG_ID_GET_CLOCK_RATE_def TAG_ID_SET_CLOCK_RATE_def TAG_ID_GET_MAX_CLOCK_RATE_def TAG_ID_GET_MIN_CLOCK_RATE_def
  TAG_ID_SET_POWER_VC4_def TAG_ID_ALLOC_MEM_def TAG_ID_LOCK_MEM_def TAG_ID_GET_EDID_def TAG_ID_GET_VIRTUAL_BUFFER_SIZE_def
  TAG_ID_SET_CURSOR_INFO_def TAG_ID_SET_CURSOR_STATE_def TAG_ID_GET_GPIO_EXPANDER_def TAG_ID_SET_GPIO_EXPANDER_def TAG_ID_GET_TOUCHBUF_def

text \<open>A header that announces the words that follow is parsed back, whatever the tag and the value.\<close>

lemma parse_framed:
  assumes "tag \<noteq> 0" "(unat len + 3) div 4 = length v" "unat nbytes = 4 * (length v + 6)"
  shows "parse_property (property_words \<lparr>Header = property_header nbytes tag len, Value = v, EndTag = 0\<rparr>) = Some [(tag, len, v)]"
  using assms by (simp add: parse_property_def property_words_def property_header_def)

text \<open>
  C36. Every message the header prepares, but the one that sets a clock rate (\<open>misformed\<close>), is laid
  out as the property interface documents it: it parses to exactly one tag, the documented one, its
  value takes the room that is announced, and the parameters are at its front, whatever the memory
  held before.
\<close>

theorem property_messages_parse:
  assumes "length (Value p) = value_words m" "\<not> misformed m"
  shows "\<exists>len v. parse_property (property_words (prepare m p)) = Some [(message_tag m, len, v)] \<and>
    (unat len + 3) div 4 = value_words m \<and> take (length (message_parameters m)) v = message_parameters m"
  using assms
  by (cases m) (simp_all add: INIT_defs parse_framed TAG_defs misformed_def take_Suc_conv_app_nth nth_list_update)

theorem property_messages_parse_witness:
  "\<exists>len v. parse_property (property_words (prepare (GetEdid 1) \<lparr>Header = property_header 0 0 0, Value = replicate 34 7, EndTag = 9\<rparr>)) =
     Some [(TAG_ID_GET_EDID, len, v)] \<and> (unat len + 3) div 4 = 34 \<and> take 1 v = [1]"
  using property_messages_parse [of "\<lparr>Header = property_header 0 0 0, Value = replicate 34 7, EndTag = 9\<rparr>" "GetEdid 1"]
  by (simp add: misformed_def)

text \<open>
  The exception: setting a clock rate announces 8 bytes for a value of 12, so that the third
  parameter is read as the next tag.
\<close>

lemma set_rate_misframed:
  "t \<noteq> 0 \<Longrightarrow> parse_property (property_words (INIT_MAILBOX_SET_CLOCK_RATE p c r t)) = None"
  by (simp add: INIT_defs parse_property_def property_words_def property_header_def TAG_defs)

end
