(* ===== verification/Rpiq_Mailbox.thy ===== *)
theory Rpiq_Mailbox
  imports Kernel Rpiq_Messages
begin

text \<open>
  The mailbox driver: its state (\<open>device.h\<close>, \<open>mailbox.h\<close>, \<open>register.h\<close>), writing to the mailbox
  and the property requests (\<open>mailbox.c\<close>), the interrupt handlers (\<open>interrupt.c\<close>), the requests of
  its clients (\<open>ioctl.c\<close>) and the MAC address read at start-up (\<open>init.c\<close>).

  The registers and the memory of a property request are shared with the firmware: what is read
  from them is the answer of the system to \<open>ReadRegister\<close> and \<open>ReadShared\<close>.
\<close>

section \<open>Registers and state\<close>

abbreviation (input) MAILBOX_STATUS_FULL :: u32 where "MAILBOX_STATUS_FULL \<equiv> 0x80000000"
abbreviation (input) MAILBOX_STATUS_EMPTY :: u32 where "MAILBOX_STATUS_EMPTY \<equiv> 0x40000000"
abbreviation (input) MAILBOX_DATA_AVAIL_ENABLE_IRQ :: u32 where "MAILBOX_DATA_AVAIL_ENABLE_IRQ \<equiv> 1"
abbreviation (input) MAILBOX_DATA_AVAIL_PENDING :: u32 where "MAILBOX_DATA_AVAIL_PENDING \<equiv> 0x10"
abbreviation (input) MAILBOX_MASK_IRQ :: u32 where "MAILBOX_MASK_IRQ \<equiv> 7"
abbreviation (input) MAILBOX_CHANNEL_MASK :: u32 where "MAILBOX_CHANNEL_MASK \<equiv> 0xF"
abbreviation (input) OFFSET_DIRECT_SDRAM' :: u32 where "OFFSET_DIRECT_SDRAM' \<equiv> 0xC0000000"
abbreviation (input) MAX_POLL :: u32 where "MAX_POLL \<equiv> 50"
abbreviation (input) MAILBOX_CHANNEL_PROPERTY_ARM_VC :: u32 where "MAILBOX_CHANNEL_PROPERTY_ARM_VC \<equiv> 8"
abbreviation (input) MAILBOX_CHANNEL_MAX :: nat where "MAILBOX_CHANNEL_MAX \<equiv> 10"
abbreviation (input) sizeof_MAILBOX_HEADER :: nat where "sizeof_MAILBOX_HEADER \<equiv> 20"
abbreviation (input) sizeof_MAILBOX_GET_MAC_ADDRESS :: nat where "sizeof_MAILBOX_GET_MAC_ADDRESS \<equiv> 32"

text \<open>The offsets of the fields of \<open>MAILBOX\<close>.\<close>

abbreviation (input) MB_Read :: nat where "MB_Read \<equiv> 0"
abbreviation (input) MB_Status :: nat where "MB_Status \<equiv> 0x18"
abbreviation (input) MB_Config :: nat where "MB_Config \<equiv> 0x1C"
abbreviation (input) MB_Write :: nat where "MB_Write \<equiv> 0x20"

record RPIQ_REQUEST_CONTEXT =
  PropertyMemory :: handle
  PropertyMemorySize :: u32

text \<open>
  \<open>DEVICE_CONTEXT\<close>, the contexts and buffers of the requests, and the globals of \<open>init.c\<close> and
  \<open>device.c\<close>.
\<close>

record rpiq = kernel +
  Mailbox :: handle
  MailboxMmioLength :: u32
  WriteLockObj :: handle
  ChannelQueue :: "nat \<Rightarrow> handle"
  MailboxIntObj :: handle
  NdisNotificationHandle :: handle
  request_context :: "handle \<Rightarrow> RPIQ_REQUEST_CONTEXT option"
  in_buffer :: "handle \<Rightarrow> u8 list"
  out_buffer :: "handle \<Rightarrow> u8 list"
  macAddrStrGlobal :: string
  MacSet :: bool
  mb_ub :: bool

definition mb_undefined :: "(rpiq, unit) state" where
  "mb_undefined = update (mb_ub_update (\<lambda>_. True))"

lemma run_mb_undefined [simp, run]: "run_state mb_undefined w = ((), w\<lparr>mb_ub := True\<rparr>)"
  by (simp add: mb_undefined_def)

section \<open>Writing to the mailbox\<close>

definition RpiqMailboxInit :: "os \<Rightarrow> (rpiq, ntstatus) state" where
  "RpiqMailboxInit os = do {
     r \<leftarrow> ext os (Wdf WdfWaitLockCreate);
     do_when (NT_SUCCESS (r_status r)) (update (WriteLockObj_update (\<lambda>_. r_ptr r)));
     return (r_status r)
   }"

text \<open>The poll until the mailbox has room: \<open>False\<close> when it gives up.\<close>

function mailbox_poll :: "os \<Rightarrow> u32 \<Rightarrow> u32 \<Rightarrow> (rpiq, bool) state" where
  "mailbox_poll os reg count =
     (if reg AND MAILBOX_STATUS_FULL = 0 then return True
      else if MAX_POLL < count then return False
      else do {
        _ \<leftarrow> ext os (Ke KeDelayExecutionThread);
        r \<leftarrow> ext os (Mm (ReadRegister MB_Status));
        mailbox_poll os (r_val r) (count + 1)
      })"
  by pat_completeness auto
termination
proof (relation "measure (\<lambda>(os, reg, count). 52 - unat count)")
  fix os :: os and reg count r :: u32
  assume "\<not> MAX_POLL < count"
  then have c: "unat count \<le> 50" by (simp add: word_less_nat_alt)
  then have "unat (count + 1) = unat count + 1" by (simp add: unat_word_ariths)
  with c show "((os, r, count + 1), os, reg, count) \<in> measure (\<lambda>(os, reg, count). 52 - unat count)" by simp
qed simp

declare mailbox_poll.simps [simp del]

text \<open>\<open>Request\<close> is 0 for \<open>NULL\<close>.\<close>

definition RpiqMailboxWrite :: "os \<Rightarrow> u32 \<Rightarrow> u32 \<Rightarrow> handle \<Rightarrow> (rpiq, ntstatus) state" where
  "RpiqMailboxWrite os Channel MsgValue Request = do {
     _ \<leftarrow> ext os (Ke (ExAcquireMutex WriteLock));
     reg \<leftarrow> ext os (Mm (ReadRegister MB_Status));
     room \<leftarrow> mailbox_poll os (r_val reg) 0;
     status \<leftarrow> (if \<not> room then return STATUS_IO_TIMEOUT
       else do {
         w \<leftarrow> get;
         status \<leftarrow> (if Request \<noteq> 0 then do {
             do_when (MAILBOX_CHANNEL_MAX \<le> unat Channel) mb_undefined;
             r \<leftarrow> ext os (Req (WdfRequestForwardToIoQueue Request (ChannelQueue w (unat Channel))));
             return (r_status r)
           } else return STATUS_SUCCESS);
         if \<not> NT_SUCCESS status then return status
         else do {
           _ \<leftarrow> ext os (Mm (WriteRegister MB_Write ((MsgValue AND NOT MAILBOX_CHANNEL_MASK) OR Channel)));
           return STATUS_SUCCESS
         }
       });
     _ \<leftarrow> ext os (Ke (ExReleaseMutex WriteLock));
     return status
   }"

section \<open>Property requests\<close>

text \<open>\<open>DataInPtr\<close> is \<open>None\<close> for \<open>NULL\<close>, otherwise the bytes it points to.\<close>

definition RpiqMailboxProperty ::
  "os \<Rightarrow> u8 list option \<Rightarrow> u32 \<Rightarrow> u32 \<Rightarrow> handle \<Rightarrow> (rpiq, ntstatus) state" where
  "RpiqMailboxProperty os DataInPtr DataSize Channel Request = (case DataInPtr of
      None \<Rightarrow> return STATUS_INVALID_PARAMETER
    | Some bytes \<Rightarrow>
        if unat DataSize < sizeof_MAILBOX_HEADER then return STATUS_INVALID_PARAMETER
        else do {
          c \<leftarrow> ext os (Wdf (WdfObjectAllocateContext Request));
          if \<not> NT_SUCCESS (r_status c) then return (r_status c)
          else do {
            m \<leftarrow> ext os (Mm (MmAllocateContiguousNodeMemory DataSize));
            update (request_context_update (\<lambda>q. q(Request := Some \<lparr>PropertyMemory = r_ptr m, PropertyMemorySize = 0\<rparr>)));
            if r_ptr m = 0 then return STATUS_INSUFFICIENT_RESOURCES
            else do {
              update (request_context_update (\<lambda>q. q(Request := Some \<lparr>PropertyMemory = r_ptr m, PropertyMemorySize = DataSize\<rparr>)));
              a \<leftarrow> ext os (Mm (MmGetPhysicalAddress (r_ptr m)));
              _ \<leftarrow> ext os (Mm (WriteShared (r_ptr m) (take (unat DataSize) bytes)));
              RpiqMailboxWrite os Channel (ucast (r_phys a) + OFFSET_DIRECT_SDRAM') Request
            }
          }
        })"

text \<open>The framework runs this when the request is deleted.\<close>

definition RpiqRequestContextCleanup :: "os \<Rightarrow> handle \<Rightarrow> (rpiq, unit) state" where
  "RpiqRequestContextCleanup os WdfObject = do {
     w \<leftarrow> get;
     case request_context w WdfObject of
       None \<Rightarrow> mb_undefined
     | Some ctx \<Rightarrow> do_when (PropertyMemory ctx \<noteq> 0) (do {
         _ \<leftarrow> ext os (Mm (MmFreeContiguousMemory (PropertyMemory ctx)));
         return ()
       })
   }"

section \<open>Interrupts\<close>

definition RpiqEnableInterrupts :: "os \<Rightarrow> (rpiq, ntstatus) state" where
  "RpiqEnableInterrupts os = do {
     reg \<leftarrow> ext os (Mm (ReadRegister MB_Config));
     _ \<leftarrow> ext os (Mm (WriteRegister MB_Config (r_val reg OR MAILBOX_DATA_AVAIL_ENABLE_IRQ)));
     return STATUS_SUCCESS
   }"

definition RpiqDisableInterrupts :: "os \<Rightarrow> (rpiq, ntstatus) state" where
  "RpiqDisableInterrupts os = do {
     reg \<leftarrow> ext os (Mm (ReadRegister MB_Config));
     _ \<leftarrow> ext os (Mm (WriteRegister MB_Config (r_val reg AND NOT MAILBOX_MASK_IRQ)));
     return STATUS_SUCCESS
   }"

definition RpiqMailboxIsr :: "os \<Rightarrow> (rpiq, bool) state" where
  "RpiqMailboxIsr os = do {
     reg \<leftarrow> ext os (Mm (ReadRegister MB_Config));
     if r_val reg AND MAILBOX_DATA_AVAIL_PENDING \<noteq> 0 then do {
       reg \<leftarrow> ext os (Mm (ReadRegister MB_Config));
       _ \<leftarrow> ext os (Mm (WriteRegister MB_Config (r_val reg AND NOT MAILBOX_DATA_AVAIL_ENABLE_IRQ)));
       w \<leftarrow> get;
       _ \<leftarrow> ext os (Wdf (WdfInterruptQueueDpcForIsr (MailboxIntObj w)));
       return True
     } else return False
   }"

text \<open>One message of the mailbox: the oldest request of its channel is completed with the answer.\<close>

definition RpiqMailboxDpc_message :: "os \<Rightarrow> u32 \<Rightarrow> (rpiq, unit) state" where
  "RpiqMailboxDpc_message os channel =
     (if MAILBOX_CHANNEL_MAX \<le> unat channel then return ()
      else do {
        w \<leftarrow> get;
        r \<leftarrow> ext os (Req (WdfIoQueueRetrieveNextRequest (ChannelQueue w (unat channel))));
        if \<not> NT_SUCCESS (r_status r) then return ()
        else (case request_context w (r_ptr r) of
            None \<Rightarrow> mb_undefined
          | Some ctx \<Rightarrow> do {
              out \<leftarrow> ext os (Req (WdfRequestRetrieveOutputBuffer (r_ptr r) (unat (PropertyMemorySize ctx))));
              if \<not> NT_SUCCESS (r_status out) then do {
                _ \<leftarrow> ext os (Req (WdfRequestComplete (r_ptr r) (r_status out)));
                return ()
              } else do {
                d \<leftarrow> ext os (Mm (ReadShared (PropertyMemory ctx) (unat (PropertyMemorySize ctx))));
                update (out_buffer_update (\<lambda>b. b(r_ptr r := r_data d @ drop (length (r_data d)) (b (r_ptr r)))));
                _ \<leftarrow> ext os (Req (WdfRequestCompleteWithInformation (r_ptr r) STATUS_SUCCESS (unat (PropertyMemorySize ctx))));
                return ()
              }
            })
      })"

text \<open>
  The loop runs until the mailbox reports that it is empty; on fuel, \<open>False\<close> when it runs out.
\<close>

fun RpiqMailboxDpc_loop :: "os \<Rightarrow> u32 \<Rightarrow> nat \<Rightarrow> (rpiq, bool) state" where
  "RpiqMailboxDpc_loop os reg fuel =
     (if reg AND MAILBOX_STATUS_EMPTY \<noteq> 0 then return True
      else case fuel of
          0 \<Rightarrow> return False
        | Suc n \<Rightarrow> do {
            v \<leftarrow> ext os (Mm (ReadRegister MB_Read));
            s \<leftarrow> ext os (Mm (ReadRegister MB_Status));
            RpiqMailboxDpc_message os (r_val v AND MAILBOX_CHANNEL_MASK);
            RpiqMailboxDpc_loop os (r_val s) n
          })"

declare RpiqMailboxDpc_loop.simps [simp del]

definition RpiqMailboxDpc :: "os \<Rightarrow> nat \<Rightarrow> (rpiq, bool) state" where
  "RpiqMailboxDpc os fuel = do {
     reg \<leftarrow> ext os (Mm (ReadRegister MB_Status));
     finished \<leftarrow> RpiqMailboxDpc_loop os (r_val reg) fuel;
     if \<not> finished then return False
     else do {
       _ \<leftarrow> ext os (Ke (ExAcquireMutex InterruptLock));
       reg \<leftarrow> ext os (Mm (ReadRegister MB_Config));
       _ \<leftarrow> ext os (Mm (WriteRegister MB_Config (r_val reg OR MAILBOX_DATA_AVAIL_ENABLE_IRQ)));
       _ \<leftarrow> ext os (Ke (ExReleaseMutex InterruptLock));
       return True
     }
   }"

section \<open>Requests of the clients\<close>

datatype rpiq_ioctl = IOCTL_MAILBOX_VCHIQ | IOCTL_MAILBOX_PROPERTY | IOCTL_MAILBOX_OTHER u32

text \<open>\<open>Some status\<close> where the code jumps to \<open>CompleteRequest\<close>.\<close>

definition RpiqProcessChannel_vchiq :: "os \<Rightarrow> handle \<Rightarrow> (rpiq, ntstatus option) state" where
  "RpiqProcessChannel_vchiq os Request = do {
     i \<leftarrow> ext os (Req (WdfRequestRetrieveInputBuffer Request 8));
     if \<not> NT_SUCCESS (r_status i) then return (Some (r_status i))
     else do {
       w \<leftarrow> get;
       status \<leftarrow> RpiqMailboxWrite os (from_le32 (take 4 (in_buffer w Request)))
         (from_le32 (take 4 (drop 4 (in_buffer w Request)))) 0;
       if \<not> NT_SUCCESS status then return (Some status)
       else do {
         _ \<leftarrow> ext os (Req (WdfRequestComplete Request STATUS_SUCCESS));
         return None
       }
     }
   }"

definition RpiqProcessChannel_property :: "os \<Rightarrow> handle \<Rightarrow> (rpiq, ntstatus option) state" where
  "RpiqProcessChannel_property os Request = do {
     i \<leftarrow> ext os (Req (WdfRequestRetrieveInputBuffer Request sizeof_MAILBOX_HEADER));
     if \<not> NT_SUCCESS (r_status i) then return (Some (r_status i))
     else do {
       w \<leftarrow> get;
       let TotalBuffer = from_le32 (take 4 (in_buffer w Request))
       in if unat TotalBuffer \<noteq> r_len i then return (Some STATUS_INVALID_PARAMETER)
          else do {
            out \<leftarrow> ext os (Req (WdfRequestRetrieveOutputBuffer Request (unat TotalBuffer)));
            if \<not> NT_SUCCESS (r_status out) then return (Some (r_status out))
            else if r_len out \<noteq> r_len i then return (Some STATUS_INVALID_PARAMETER)
            else do {
              status \<leftarrow> RpiqMailboxProperty os (Some (in_buffer w Request)) (of_nat (r_len i))
                MAILBOX_CHANNEL_PROPERTY_ARM_VC Request;
              return (if \<not> NT_SUCCESS status then Some status else None)
            }
          }
     }
   }"

definition RpiqProcessChannel :: "os \<Rightarrow> handle \<Rightarrow> rpiq_ioctl \<Rightarrow> (rpiq, unit) state" where
  "RpiqProcessChannel os Request IoControlCode = do {
     status \<leftarrow> (case IoControlCode of
         IOCTL_MAILBOX_VCHIQ \<Rightarrow> RpiqProcessChannel_vchiq os Request
       | IOCTL_MAILBOX_PROPERTY \<Rightarrow> RpiqProcessChannel_property os Request
       | IOCTL_MAILBOX_OTHER _ \<Rightarrow> return (Some STATUS_NOT_SUPPORTED));
     case status of
       None \<Rightarrow> return ()
     | Some st \<Rightarrow> do { _ \<leftarrow> ext os (Req (WdfRequestComplete Request st)); return () }
   }"

section \<open>The MAC address\<close>

text \<open>\<open>%02X\<close>, and a bounded print: the result is cut and reported when it does not fit.\<close>

definition hex_digit :: "nat \<Rightarrow> char" where
  "hex_digit n = ''0123456789ABCDEF'' ! n"

definition hex2 :: "u8 \<Rightarrow> string" where
  "hex2 b = [hex_digit (unat b div 16), hex_digit (unat b mod 16)]"

definition RtlStringCchPrintf :: "nat \<Rightarrow> string \<Rightarrow> ntstatus \<times> string" where
  "RtlStringCchPrintf n s = (if length s < n then (STATUS_SUCCESS, s) else (STATUS_BUFFER_OVERFLOW, take (n - 1) s))"

text \<open>The message in memory that held \<open>old\<close> before.\<close>

definition mac_request :: "u8 list \<Rightarrow> u8 list" where
  "mac_request old = concat (map le32 (property_words (INIT_MAILBOX_GET_BOARD_MAC_ADDRESS
     \<lparr>Header = property_header 0 0 0, Value = [from_le32 (take 4 (drop 20 old)), from_le32 (take 4 (drop 24 old))],
      EndTag = 0\<rparr>)))"

text \<open>The poll for the answer, which gives up after the retries left.\<close>

fun mac_poll :: "os \<Rightarrow> u32 \<Rightarrow> handle \<Rightarrow> nat \<Rightarrow> (rpiq, ntstatus) state" where
  "mac_poll os expected ptr 0 = return STATUS_UNSUCCESSFUL"
| "mac_poll os expected ptr (Suc retries) = do {
     _ \<leftarrow> ext os (Mm (ReadRegister MB_Status));
     reg \<leftarrow> ext os (Mm (ReadRegister MB_Read));
     if r_val reg AND NOT MAILBOX_CHANNEL_MASK = expected then do {
       d \<leftarrow> ext os (Mm (ReadShared (ptr + 4) 4));
       return (if from_le32 (r_data d) AND RESPONSE_SUCCESS \<noteq> 0 then STATUS_SUCCESS else STATUS_UNSUCCESSFUL)
     } else do {
       _ \<leftarrow> ext os (Ke KeDelayExecutionThread);
       mac_poll os expected ptr retries
     }
   }"

definition RpiSetDeviceMacAddress_query :: "os \<Rightarrow> handle \<Rightarrow> u8 list \<Rightarrow> (rpiq, ntstatus) state" where
  "RpiSetDeviceMacAddress_query os ptr old = do {
     a \<leftarrow> ext os (Mm (MmGetPhysicalAddress ptr));
     _ \<leftarrow> ext os (Mm (WriteShared ptr (mac_request old)));
     status \<leftarrow> RpiqMailboxWrite os MAILBOX_CHANNEL_PROPERTY_ARM_VC (ucast (r_phys a) + OFFSET_DIRECT_SDRAM') 0;
     if \<not> NT_SUCCESS status then return status
     else do {
       status \<leftarrow> mac_poll os (ucast (r_phys a) + OFFSET_DIRECT_SDRAM') ptr 10;
       if \<not> NT_SUCCESS status then return status
       else do {
         d \<leftarrow> ext os (Mm (ReadShared (ptr + 20) 6));
         let (status, s) = RtlStringCchPrintf 13 (concat (map hex2 (take 6 (r_data d))))
         in do {
           update (macAddrStrGlobal_update (\<lambda>_. s));
           return status
         }
       }
     }
   }"

definition RpiSetDeviceMacAddress :: "os \<Rightarrow> (rpiq, ntstatus) state" where
  "RpiSetDeviceMacAddress os = do {
     m \<leftarrow> ext os (Mm (MmAllocateContiguousNodeMemory (of_nat sizeof_MAILBOX_GET_MAC_ADDRESS)));
     if r_ptr m = 0 then return STATUS_INSUFFICIENT_RESOURCES
     else do {
       status \<leftarrow> RpiSetDeviceMacAddress_query os (r_ptr m) (r_data m);
       _ \<leftarrow> ext os (Mm (MmFreeContiguousMemory (r_ptr m)));
       return status
     }
   }"

definition RpiqInitOperation :: "os \<Rightarrow> bool \<Rightarrow> (rpiq, ntstatus) state" where
  "RpiqInitOperation os fromD3Final =
     (if \<not> fromD3Final then return STATUS_SUCCESS
      else do {
        _ \<leftarrow> RpiSetDeviceMacAddress os;
        RpiqEnableInterrupts os
      })"

end
