(* ===== verification/Registers.thy ===== *)
theory Registers
  imports Kernel
begin

text \<open>
  The values a driver reads from a register and writes to it, in order, read off the trace.
\<close>

section \<open>Accesses to the registers\<close>

definition read_of :: "nat \<Rightarrow> event \<Rightarrow> u32 option" where
  "read_of reg e = (case fst e of Mm c \<Rightarrow>
      (case c of ReadRegister a \<Rightarrow> if a = reg then Some (r_val (snd e)) else None | _ \<Rightarrow> None)
    | _ \<Rightarrow> None)"

definition write_of :: "nat \<Rightarrow> event \<Rightarrow> u32 option" where
  "write_of reg e = (case fst e of Mm c \<Rightarrow>
      (case c of WriteRegister a v \<Rightarrow> if a = reg then Some v else None | _ \<Rightarrow> None)
    | _ \<Rightarrow> None)"

definition reads :: "nat \<Rightarrow> event list \<Rightarrow> u32 list" where
  "reads reg es = List.map_filter (read_of reg) es"

definition writes :: "nat \<Rightarrow> event list \<Rightarrow> u32 list" where
  "writes reg es = List.map_filter (write_of reg) es"

lemma accesses_append [simp]:
  "reads reg (es @ fs) = reads reg es @ reads reg fs" "writes reg (es @ fs) = writes reg es @ writes reg fs"
  by (simp_all add: reads_def writes_def map_filter_def)

lemma accesses_Nil [simp]: "reads reg [] = []" "writes reg [] = []"
  by (simp_all add: reads_def writes_def map_filter_simps)

lemma accesses_Cons [simp]:
  "reads reg ((c, r) # es) = (case read_of reg (c, r) of None \<Rightarrow> [] | Some v \<Rightarrow> [v]) @ reads reg es"
  "writes reg ((c, r) # es) = (case write_of reg (c, r) of None \<Rightarrow> [] | Some v \<Rightarrow> [v]) @ writes reg es"
  by (simp_all add: reads_def writes_def map_filter_simps split: option.split)

lemma read_of_simps [simp]:
  "read_of reg (Mm (ReadRegister a), r) = (if a = reg then Some (r_val r) else None)"
  "read_of reg (Mm (WriteRegister a v), r) = None" "read_of reg (Ke k, r) = None" "read_of reg (Req q, r) = None"
  "read_of reg (Wdf f, r) = None" "read_of reg (Mm (ReadShared h n), r) = None" "read_of reg (Sd d, r) = None"
  "read_of reg (Net m, r) = None" "read_of reg (Flt b, r) = None" "read_of reg (Ser s, r) = None"
  by (simp_all add: read_of_def)

lemma write_of_simps [simp]:
  "write_of reg (Mm (WriteRegister a v), r) = (if a = reg then Some v else None)"
  "write_of reg (Mm (ReadRegister a), r) = None" "write_of reg (Ke k, r) = None" "write_of reg (Req q, r) = None"
  "write_of reg (Wdf f, r) = None" "write_of reg (Mm (ReadShared h n), r) = None" "write_of reg (Sd d, r) = None"
  "write_of reg (Net m, r) = None" "write_of reg (Flt b, r) = None" "write_of reg (Ser s, r) = None"
  by (simp_all add: write_of_def)

end
