(* ===== verification/Rpiq_Write.thy ===== *)
theory Rpiq_Write
  imports Rpiq_Mailbox Ownership Registers
begin

text \<open>
  What reaches the mailbox: the protocol of a write, and who completes the requests.
\<close>

abbreviation full :: "u32 \<Rightarrow> bool" where "full reg \<equiv> reg AND MAILBOX_STATUS_FULL \<noteq> 0"

section \<open>A write\<close>

text \<open>The poll only delays and reads the status, at most \<open>n\<close> times, until it is not full.\<close>

definition polled :: "u32 \<Rightarrow> nat \<Rightarrow> bool \<Rightarrow> event list \<Rightarrow> bool" where
  "polled reg n room es \<longleftrightarrow>
     (\<forall>e \<in> set es. fst e = Ke KeDelayExecutionThread \<or> fst e = Mm (ReadRegister MB_Status)) \<and>
     (if room then length (reads MB_Status es) \<le> n \<and> \<not> full (last (reg # reads MB_Status es)) \<and>
        (\<forall>v \<in> set (butlast (reg # reads MB_Status es)). full v)
      else length (reads MB_Status es) = n \<and> (\<forall>v \<in> set (reg # reads MB_Status es). full v))"

lemma polled_more:
  assumes "polled (r_val r) n room es" "full reg"
  shows "polled reg (Suc n) room ((Ke KeDelayExecutionThread, d) # (Mm (ReadRegister MB_Status), r) # es)"
  using assms by (cases room) (auto simp: polled_def)

lemma poll_spec:
  "run_state (mailbox_poll os reg count) w = (room, w') \<Longrightarrow> unat count \<le> 51 \<Longrightarrow>
   \<exists>es. w' = w\<lparr>trace := trace w @ es\<rparr> \<and> polled reg (51 - unat count) room es"
proof (induction os reg count arbitrary: w rule: mailbox_poll.induct)
  case (1 os reg count)
  show ?case
  proof (cases "full reg")
    case False
    with "1.prems" show ?thesis
      by (intro exI [of _ "[]"]) (simp add: mailbox_poll.simps [of os reg count] polled_def)
  next
    case full: True
    show ?thesis
    proof (cases "MAX_POLL < count")
      case True
      then have "unat count = 51" using "1.prems"(2) by (simp add: word_less_nat_alt)
      with "1.prems" full True show ?thesis
        by (intro exI [of _ "[]"]) (simp add: mailbox_poll.simps [of os reg count] polled_def)
    next
      case False
      then have c: "unat count \<le> 50" by (simp add: word_less_nat_alt)
      then have c': "unat (count + 1) = unat count + 1" by (simp add: unat_word_ariths)
      define d where "d = os (trace w) (Ke KeDelayExecutionThread)"
      define r where "r = os (trace w @ [(Ke KeDelayExecutionThread, d)]) (Mm (ReadRegister MB_Status))"
      let ?es = "[(Ke KeDelayExecutionThread, d), (Mm (ReadRegister MB_Status), r)]"
      have "run_state (mailbox_poll os (r_val r) (count + 1)) (w\<lparr>trace := trace w @ ?es\<rparr>) = (room, w')"
        using "1.prems"(1) full False by (simp add: mailbox_poll.simps [of os reg count] d_def r_def)
      moreover have "\<not> reg AND MAILBOX_STATUS_FULL = 0" using full by simp
      ultimately obtain es where es: "w' = w\<lparr>trace := trace w @ ?es @ es\<rparr>" "polled (r_val r) (51 - unat (count + 1)) room es"
        using "1.IH" [OF _ False, of "r" "w\<lparr>trace := trace w @ ?es\<rparr>"] c c' by auto
      have "Suc (51 - unat (count + 1)) = 51 - unat count" using c c' by simp
      with polled_more [OF es(2) full, of d] es(1) show ?thesis by (intro exI [of _ "?es @ es"]) simp
    qed
  qed
qed

lemma polled_no_write: "polled reg n room es \<Longrightarrow> writes MB_Write es = [] \<and> reads MB_Read es = []"
proof -
  assume "polled reg n room es"
  then have "\<forall>e \<in> set es. write_of MB_Write e = None \<and> read_of MB_Read e = None"
    by (auto simp: polled_def write_of_def read_of_def)
  then show ?thesis by (induction es) (auto simp: writes_def reads_def map_filter_simps)
qed

lemma polled_owned: "polled reg n room es \<Longrightarrow> foldl own_step ors es = ors"
proof -
  assume "polled reg n room es"
  then have "\<forall>e \<in> set es. own_free (fst e)" by (auto simp: polled_def)
  then show ?thesis by (induction es arbitrary: ors) (auto simp: own_step_free)
qed

lemma polled_locks: "polled reg n room es \<Longrightarrow> foldl lock_step h es = h"
proof -
  assume "polled reg n room es"
  then have "\<forall>e \<in> set es. fst e = Ke KeDelayExecutionThread \<or> fst e = Mm (ReadRegister MB_Status)" by (simp add: polled_def)
  then show ?thesis by (induction es arbitrary: h) (auto simp: lock_step_def split: option.split)
qed

text \<open>
  A write is: the lock, the poll, the request passed on, the message and the release, cut short
  where it fails.
\<close>

definition lead :: "event list \<Rightarrow> bool \<Rightarrow> bool" where
  "lead es room \<longleftrightarrow> writes MB_Write es = [] \<and> reads MB_Read es = [] \<and> (\<forall>ors. foldl own_step ors es = ors) \<and>
     reads MB_Status es \<noteq> [] \<and> length (reads MB_Status es) \<le> 52 \<and> locks es = Some [WriteLock] \<and>
     (if room then \<not> full (last (reads MB_Status es))
      else length (reads MB_Status es) = 52 \<and> (\<forall>x \<in> set (reads MB_Status es). full x))"

lemma write_cases:
  assumes run: "run_state (RpiqMailboxWrite os ch v req) w = (st, w')" and ch: "unat ch < MAILBOX_CHANNEL_MAX \<or> req = 0"
  defines "out \<equiv> Mm (WriteRegister MB_Write ((v AND NOT MAILBOX_CHANNEL_MASK) OR ch))"
    and "fwd \<equiv> Req (WdfRequestForwardToIoQueue req (ChannelQueue w (unat ch)))"
  obtains (busy) es u where "lead es False" "st = STATUS_IO_TIMEOUT"
      "w' = w\<lparr>trace := trace w @ es @ [(Ke (ExReleaseMutex WriteLock), u)]\<rparr>"
    | (refused) es r u where "lead es True" "req \<noteq> 0" "\<not> NT_SUCCESS st" "r_status r = st"
      "w' = w\<lparr>trace := trace w @ es @ [(fwd, r), (Ke (ExReleaseMutex WriteLock), u)]\<rparr>"
    | (forwarded) es r o' u where "lead es True" "req \<noteq> 0" "st = STATUS_SUCCESS" "NT_SUCCESS (r_status r)"
      "w' = w\<lparr>trace := trace w @ es @ [(fwd, r), (out, o'), (Ke (ExReleaseMutex WriteLock), u)]\<rparr>"
    | (plain) es o' u where "lead es True" "req = 0" "st = STATUS_SUCCESS"
      "w' = w\<lparr>trace := trace w @ es @ [(out, o'), (Ke (ExReleaseMutex WriteLock), u)]\<rparr>"
proof -
  define lock where "lock = (Ke (ExAcquireMutex WriteLock), os (trace w) (Ke (ExAcquireMutex WriteLock)))"
  define s where "s = os (trace w @ [lock]) (Mm (ReadRegister MB_Status))"
  define w1 where "w1 = w\<lparr>trace := trace w @ [lock, (Mm (ReadRegister MB_Status), s)]\<rparr>"
  obtain room w2 where poll: "run_state (mailbox_poll os (r_val s) 0) w1 = (room, w2)" by fastforce
  then obtain ps where ps: "w2 = w1\<lparr>trace := trace w1 @ ps\<rparr>" "polled (r_val s) 51 room ps"
    using poll_spec [OF poll] by auto
  define es where "es = [lock, (Mm (ReadRegister MB_Status), s)] @ ps"
  have lead: "lead es room"
    using ps(2) polled_no_write [OF ps(2)] polled_owned [OF ps(2)] polled_locks [OF ps(2)]
    by (auto simp: lead_def es_def lock_def own_step_free polled_def locks_def lock_step_def)
  have w2: "w2 = w\<lparr>trace := trace w @ es\<rparr>" using ps(1) by (simp add: w1_def es_def)
  define r where "r = os (trace w @ es) fwd"
  have "(\<not> room \<and> st = STATUS_IO_TIMEOUT \<and> (\<exists>u. w' = w\<lparr>trace := trace w @ es @ [(Ke (ExReleaseMutex WriteLock), u)]\<rparr>)) \<or>
    (room \<and> req \<noteq> 0 \<and> \<not> NT_SUCCESS st \<and> r_status r = st \<and>
      (\<exists>u. w' = w\<lparr>trace := trace w @ es @ [(fwd, r), (Ke (ExReleaseMutex WriteLock), u)]\<rparr>)) \<or>
    (room \<and> req \<noteq> 0 \<and> st = STATUS_SUCCESS \<and> NT_SUCCESS (r_status r) \<and>
      (\<exists>o' u. w' = w\<lparr>trace := trace w @ es @ [(fwd, r), (out, o'), (Ke (ExReleaseMutex WriteLock), u)]\<rparr>)) \<or>
    (room \<and> req = 0 \<and> st = STATUS_SUCCESS \<and>
      (\<exists>o' u. w' = w\<lparr>trace := trace w @ es @ [(out, o'), (Ke (ExReleaseMutex WriteLock), u)]\<rparr>))"
    using run poll w2 ch
    by (auto simp: RpiqMailboxWrite_def s_def w1_def fwd_def r_def out_def simp flip: lock_def split: if_splits)
  then show thesis
    using lead busy [of es] refused [of es r] forwarded [of es r] plain [of es] by (cases room) auto
qed

lemma own_release [simp]: "own_step ors (Ke c, r) = ors"
  and own_register [simp]: "own_step ors (Mm d, r) = ors"
  by (simp_all add: own_step_free)

text \<open>
  C28. A write to the mailbox obeys its protocol, whatever the system answers: the status is read
  at most 52 times, the message is written once, with its channel in the low bits, only after a
  status that was not full and only on success; when the mailbox stays full all 52 reads said
  so, nothing is written and the status is \<open>STATUS_IO_TIMEOUT\<close>; a request that comes with the
  message is given away exactly when it succeeds; and nothing but the trace changes.
\<close>

theorem mailbox_write_protocol:
  assumes run: "run_state (RpiqMailboxWrite os ch v req) w = (st, w')" and ch: "unat ch < MAILBOX_CHANNEL_MAX"
  shows "\<exists>es. w' = w\<lparr>trace := trace w @ es\<rparr> \<and>
    writes MB_Write es = (if NT_SUCCESS st then [(v AND NOT MAILBOX_CHANNEL_MASK) OR ch] else []) \<and>
    1 \<le> length (reads MB_Status es) \<and> length (reads MB_Status es) \<le> 52 \<and>
    (NT_SUCCESS st \<longrightarrow> \<not> full (last (reads MB_Status es))) \<and>
    (full (last (reads MB_Status es)) \<longrightarrow> st = STATUS_IO_TIMEOUT \<and> length (reads MB_Status es) = 52 \<and>
      (\<forall>x \<in> set (reads MB_Status es). full x)) \<and>
    (\<forall>rs0 rs. req \<noteq> 0 \<and> owned rs0 (trace w) = Some (req # rs) \<longrightarrow>
      owned rs0 (trace w') = Some (if NT_SUCCESS st then rs else req # rs))"
  using run disjI1 [OF ch]
proof (cases rule: write_cases)
  case (busy es u)
  then show ?thesis
    by (intro exI [of _ "es @ [(Ke (ExReleaseMutex WriteLock), u)]"]) (auto simp: lead_def owned_def Suc_le_eq)
next
  case (refused es r u)
  then show ?thesis
    by (intro exI [of _ "es @ [(Req (WdfRequestForwardToIoQueue req (ChannelQueue w (unat ch))), r), (Ke (ExReleaseMutex WriteLock), u)]"])
      (auto simp: lead_def owned_def own_step_def Suc_le_eq Let_def)
next
  case (forwarded es r o' u)
  then show ?thesis
    by (intro exI [of _ "es @ [(Req (WdfRequestForwardToIoQueue req (ChannelQueue w (unat ch))), r),
        (Mm (WriteRegister MB_Write ((v AND NOT MAILBOX_CHANNEL_MASK) OR ch)), o'), (Ke (ExReleaseMutex WriteLock), u)]"])
      (auto simp: lead_def owned_def own_step_def dispose_def Suc_le_eq Let_def)
next
  case (plain es o' u)
  then show ?thesis
    by (intro exI [of _ "es @ [(Mm (WriteRegister MB_Write ((v AND NOT MAILBOX_CHANNEL_MASK) OR ch)), o'), (Ke (ExReleaseMutex WriteLock), u)]"])
      (auto simp: lead_def owned_def own_step_def Suc_le_eq Let_def)
qed

definition zero_rpiq :: rpiq where
  "zero_rpiq = \<lparr>trace = [], Mailbox = 0, MailboxMmioLength = 0, WriteLockObj = 0, ChannelQueue = (\<lambda>_. 0),
     MailboxIntObj = 0, NdisNotificationHandle = 0, request_context = (\<lambda>_. None), in_buffer = (\<lambda>_. []),
     out_buffer = (\<lambda>_. []), macAddrStrGlobal = [], MacSet = False, mb_ub = False\<rparr>"

theorem mailbox_write_protocol_witness:
  "\<exists>w'. run_state (RpiqMailboxWrite quiet_os 8 0x12345678 5) zero_rpiq = (STATUS_SUCCESS, w') \<and>
     writes MB_Write (trace w') = [0x12345678]"
proof -
  obtain st w' where run: "run_state (RpiqMailboxWrite quiet_os 8 0x12345678 5) zero_rpiq = (st, w')" by fastforce
  have "st = STATUS_SUCCESS"
    using run by (auto simp: RpiqMailboxWrite_def mailbox_poll.simps quiet_os_def ok_reply_def)
  with mailbox_write_protocol [OF run] run show ?thesis by (auto simp: zero_rpiq_def)
qed

section \<open>Who completes a request\<close>

lemma write_untouched: "untouched (RpiqMailboxWrite os ch v 0)"
  unfolding untouched_def
proof (intro allI)
  fix rs and w :: rpiq
  have run: "run_state (RpiqMailboxWrite os ch v 0) w =
      (fst (run_state (RpiqMailboxWrite os ch v 0) w), snd (run_state (RpiqMailboxWrite os ch v 0) w))" by simp
  show "owned rs (trace (snd (run_state (RpiqMailboxWrite os ch v 0) w))) = owned rs (trace w)"
    by (rule write_cases [OF run disjI2 [OF refl]]) (simp_all add: lead_def owned_def)
qed

lemma write_passes_on:
  assumes "unat ch < MAILBOX_CHANNEL_MAX" "req \<noteq> 0"
  shows "passes_on req (RpiqMailboxWrite os ch v req)"
  unfolding passes_on_def
proof (intro allI tripleI)
  fix rs0 rs and w w' :: rpiq and st
  assume own: "owned rs0 (trace w) = Some (req # rs)" and run: "run_state (RpiqMailboxWrite os ch v req) w = (st, w')"
  show "owned rs0 (trace w') = Some (if NT_SUCCESS st then rs else req # rs)"
    by (rule write_cases [OF run disjI1 [OF assms(1)]])
      (use own assms(2) in \<open>auto simp: lead_def owned_def own_step_def dispose_def Let_def\<close>)
qed

lemma property_passes_on:
  assumes "req \<noteq> 0"
  shows "passes_on req (RpiqMailboxProperty os d n MAILBOX_CHANNEL_PROPERTY_ARM_VC req)"
  unfolding RpiqMailboxProperty_def
  by (intro passes_on_option passes_on_if passes_on_then passes_on_fail untouched_ext untouched_update own_free_simps
      write_passes_on assms) simp_all

lemma channel_settles:
  "settles P req (RpiqProcessChannel_property os req)" if "req \<noteq> 0"
  unfolding RpiqProcessChannel_property_def Let_def
  by (intro settles_rules settles_then untouched_ext untouched_get own_free_simps settles_passed property_passes_on that)+

lemma completed_settles: "settles P req (ext os (Req (WdfRequestComplete req st)) \<bind> (\<lambda>_. return None))"
  by (simp add: settles_def triple_def own_step_def dispose_def)

lemma vchiq_channel_settles: "settles P req (RpiqProcessChannel_vchiq os req)"
  unfolding RpiqProcessChannel_vchiq_def
  by (rule settles_then, simp add: untouched_ext, rule settles_if, rule settles_some,
      rule settles_then, rule untouched_get, rule settles_then, rule write_untouched,
      rule settles_if, rule settles_some, rule completed_settles)

text \<open>
  C29. A request to the mailbox driver is disposed of exactly once: whatever its code, its buffers
  and the answers of the system, \<open>RpiqProcessChannel\<close> completes it or leaves it in the queue of
  its channel for the interrupt handler, never both and never twice.
\<close>

theorem mailbox_request_disposed_once:
  assumes "req \<noteq> 0" and own: "owned rs0 (trace w) = Some (req # rs)"
    and run: "run_state (RpiqProcessChannel os req code) w = (u, w')"
  shows "owned rs0 (trace w') = Some rs"
proof -
  have "settles (\<lambda>_. True) req (case code of
      IOCTL_MAILBOX_VCHIQ \<Rightarrow> RpiqProcessChannel_vchiq os req
    | IOCTL_MAILBOX_PROPERTY \<Rightarrow> RpiqProcessChannel_property os req
    | IOCTL_MAILBOX_OTHER _ \<Rightarrow> return (Some STATUS_NOT_SUPPORTED))"
    by (cases code) (simp_all add: channel_settles [OF assms(1)] vchiq_channel_settles settles_some)
  from tripleD [OF complete_settled [OF this] _ run [unfolded RpiqProcessChannel_def]] own show ?thesis by simp
qed

theorem mailbox_request_disposed_once_witness:
  "owned [5] (trace (snd (run_state (RpiqProcessChannel quiet_os 5 IOCTL_MAILBOX_PROPERTY)
     (zero_rpiq\<lparr>in_buffer := (\<lambda>_. le32 0)\<rparr>)))) = Some []"
  by (rule mailbox_request_disposed_once [OF _ _ prod.collapse [symmetric]]) (simp_all add: zero_rpiq_def)

end
