(* ===== verification/Rpiq_Interrupt.thy ===== *)
theory Rpiq_Interrupt
  imports Rpiq_Write
begin

text \<open>
  The deferred half of the interrupt of the mailbox: it takes every message out of the mailbox,
  answers one waiting request for each, and turns the interrupt on again.
\<close>

section \<open>Requests taken from a queue and requests completed\<close>

definition retrieved_of :: "event \<Rightarrow> handle option" where
  "retrieved_of e = (case fst e of Req c \<Rightarrow>
      (case c of WdfIoQueueRetrieveNextRequest _ \<Rightarrow> if NT_SUCCESS (r_status (snd e)) then Some (r_ptr (snd e)) else None
       | _ \<Rightarrow> None)
    | _ \<Rightarrow> None)"

definition completed_of :: "event \<Rightarrow> handle option" where
  "completed_of e = (case fst e of Req c \<Rightarrow>
      (case c of WdfRequestComplete q _ \<Rightarrow> Some q | WdfRequestCompleteWithInformation q _ _ \<Rightarrow> Some q | _ \<Rightarrow> None)
    | _ \<Rightarrow> None)"

definition retrieved :: "event list \<Rightarrow> handle list" where
  "retrieved es = List.map_filter retrieved_of es"

definition completed :: "event list \<Rightarrow> handle list" where
  "completed es = List.map_filter completed_of es"

lemma answers_append [simp]:
  "retrieved (es @ fs) = retrieved es @ retrieved fs" "completed (es @ fs) = completed es @ completed fs"
  by (simp_all add: retrieved_def completed_def map_filter_def)

lemma answers_Nil [simp]: "retrieved [] = []" "completed [] = []"
  by (simp_all add: retrieved_def completed_def map_filter_simps)

lemma answers_Cons [simp]:
  "retrieved (e # es) = (case retrieved_of e of None \<Rightarrow> [] | Some v \<Rightarrow> [v]) @ retrieved es"
  "completed (e # es) = (case completed_of e of None \<Rightarrow> [] | Some v \<Rightarrow> [v]) @ completed es"
  by (simp_all add: retrieved_def completed_def map_filter_simps split: option.split)

lemma answer_of_simps [simp]:
  "retrieved_of (Req (WdfIoQueueRetrieveNextRequest q), r) = (if NT_SUCCESS (r_status r) then Some (r_ptr r) else None)"
  "retrieved_of (Mm a, r) = None" "retrieved_of (Ke k, r) = None" "retrieved_of (Wdf f, r) = None"
  "retrieved_of (Req (WdfRequestComplete p st), r) = None"
  "retrieved_of (Req (WdfRequestCompleteWithInformation p st n), r) = None"
  "retrieved_of (Req (WdfRequestRetrieveOutputBuffer p n), r) = None"
  "completed_of (Req (WdfRequestComplete p st), r) = Some p"
  "completed_of (Req (WdfRequestCompleteWithInformation p st n), r) = Some p"
  "completed_of (Req (WdfIoQueueRetrieveNextRequest q), r) = None"
  "completed_of (Req (WdfRequestRetrieveOutputBuffer p n), r) = None"
  "completed_of (Mm a, r) = None" "completed_of (Ke k, r) = None" "completed_of (Wdf f, r) = None"
  by (simp_all add: retrieved_of_def completed_of_def)

section \<open>One message\<close>

text \<open>
  Every request in the queue of a channel has a context: \<open>RpiqMailboxProperty\<close>, the only one to
  put requests there, allocates it first.
\<close>

definition contexts_known :: "os \<Rightarrow> (handle \<Rightarrow> RPIQ_REQUEST_CONTEXT option) \<Rightarrow> bool" where
  "contexts_known os ctx \<longleftrightarrow> (\<forall>tr q. let r = os tr (Req (WdfIoQueueRetrieveNextRequest q)) in
     NT_SUCCESS (r_status r) \<longrightarrow> ctx (r_ptr r) \<noteq> None)"

text \<open>What a step of the handler does to the requests: those it takes it completes, in order.\<close>

definition answers :: "rpiq \<Rightarrow> event list \<Rightarrow> rpiq \<Rightarrow> bool" where
  "answers w es w' \<longleftrightarrow> trace w' = trace w @ es \<and> request_context w' = request_context w \<and>
     (mb_ub w' \<longleftrightarrow> mb_ub w) \<and> completed es = retrieved es \<and> (\<forall>rs. foldl own_step (Some rs) es = Some rs)"

lemma message_answers:
  assumes run: "run_state (RpiqMailboxDpc_message os ch) w = (u, w')" and known: "contexts_known os (request_context w)"
  shows "\<exists>es. answers w es w' \<and> length (retrieved es) \<le> 1 \<and> (\<forall>reg. reads reg es = [] \<and> writes reg es = [])"
proof (cases "MAILBOX_CHANNEL_MAX \<le> unat ch")
  case True
  with run show ?thesis by (intro exI [of _ "[]"]) (simp add: RpiqMailboxDpc_message_def answers_def)
next
  case False
  let ?c = "Req (WdfIoQueueRetrieveNextRequest (ChannelQueue w (unat ch)))"
  define r where "r = os (trace w) ?c"
  show ?thesis
  proof (cases "NT_SUCCESS (r_status r)")
    case bad: False
    with run False show ?thesis
      by (intro exI [of _ "[(?c, r)]"]) (auto simp: RpiqMailboxDpc_message_def answers_def own_step_def r_def)
  next
    case good: True
    then obtain ctx where ctx: "request_context w (r_ptr r) = Some ctx"
      using known by (auto simp: contexts_known_def r_def Let_def)
    let ?c2 = "Req (WdfRequestRetrieveOutputBuffer (r_ptr r) (unat (PropertyMemorySize ctx)))"
    define r2 where "r2 = os (trace w @ [(?c, r)]) ?c2"
    show ?thesis
    proof (cases "NT_SUCCESS (r_status r2)")
      case False
      then show ?thesis
        using run \<open>\<not> MAILBOX_CHANNEL_MAX \<le> unat ch\<close> good ctx
        by (intro exI [of _ "[(?c, r), (?c2, r2), (Req (WdfRequestComplete (r_ptr r) (r_status r2)),
              os (trace w @ [(?c, r), (?c2, r2)]) (Req (WdfRequestComplete (r_ptr r) (r_status r2))))]"])
          (auto simp: RpiqMailboxDpc_message_def answers_def own_step_def dispose_def r2_def simp flip: r_def)
    next
      case True
      let ?c3 = "Mm (ReadShared (PropertyMemory ctx) (unat (PropertyMemorySize ctx)))"
      let ?c4 = "Req (WdfRequestCompleteWithInformation (r_ptr r) STATUS_SUCCESS (unat (PropertyMemorySize ctx)))"
      define r3 where "r3 = os (trace w @ [(?c, r), (?c2, r2)]) ?c3"
      from True show ?thesis
        using run \<open>\<not> MAILBOX_CHANNEL_MAX \<le> unat ch\<close> good ctx
        by (intro exI [of _ "[(?c, r), (?c2, r2), (?c3, r3), (?c4, os (trace w @ [(?c, r), (?c2, r2), (?c3, r3)]) ?c4)]"])
          (auto simp: RpiqMailboxDpc_message_def answers_def own_step_def dispose_def r2_def r3_def simp flip: r_def)
    qed
  qed
qed

section \<open>The loop\<close>

abbreviation drained :: "u32 \<Rightarrow> bool" where "drained reg \<equiv> reg AND MAILBOX_STATUS_EMPTY \<noteq> 0"

text \<open>
  What the loop has done when it stops: one read of the mailbox for each status that said that
  there is a message.
\<close>

definition took_all :: "u32 \<Rightarrow> event list \<Rightarrow> bool" where
  "took_all reg es \<longleftrightarrow> length (reads MB_Read es) = length (reads MB_Status es) \<and>
     length (retrieved es) \<le> length (reads MB_Read es) \<and> writes MB_Config es = [] \<and>
     drained (last (reg # reads MB_Status es)) \<and> (\<forall>v \<in> set (butlast (reg # reads MB_Status es)). \<not> drained v)"

lemma took_all_more:
  assumes "took_all (r_val s) es" "\<not> drained reg" "\<And>r. reads r ms = [] \<and> writes r ms = []" "length (retrieved ms) \<le> 1"
  shows "took_all reg ((Mm (ReadRegister MB_Read), v) # (Mm (ReadRegister MB_Status), s) # ms @ es)"
  using assms by (auto simp: took_all_def)

text \<open>
  The firmware puts in at most \<open>n\<close> messages: once \<open>n\<close> have been read, the mailbox says that it
  is empty.
\<close>

definition drains :: "os \<Rightarrow> nat \<Rightarrow> bool" where
  "drains os n \<longleftrightarrow> (\<forall>tr. n \<le> length (reads MB_Read tr) \<longrightarrow> drained (r_val (os tr (Mm (ReadRegister MB_Status)))))"

lemma drainsD:
  "drains os n \<Longrightarrow> \<not> drained (r_val (os tr (Mm (ReadRegister MB_Status)))) \<Longrightarrow> length (reads MB_Read tr) < n"
  by (meson drains_def not_less)

lemma loop_answers:
  assumes "contexts_known os (request_context w)" "drains os n"
    and "drained reg \<or> n \<le> length (reads MB_Read (trace w)) + fuel"
    and "\<not> drained reg \<longrightarrow> length (reads MB_Read (trace w)) < n"
  shows "\<exists>es w'. run_state (RpiqMailboxDpc_loop os reg fuel) w = (True, w') \<and> answers w es w' \<and> took_all reg es \<and>
    length (reads MB_Read es) \<le> fuel"
  using assms
proof (induction fuel arbitrary: reg w)
  case 0
  then show ?case
    by (intro exI [of _ "[]"]) (auto simp: RpiqMailboxDpc_loop.simps answers_def took_all_def)
next
  case (Suc fuel)
  show ?case
  proof (cases "drained reg")
    case True
    then show ?thesis by (intro exI [of _ "[]"]) (auto simp: RpiqMailboxDpc_loop.simps answers_def took_all_def)
  next
    case False
    define v where "v = os (trace w) (Mm (ReadRegister MB_Read))"
    define s where "s = os (trace w @ [(Mm (ReadRegister MB_Read), v)]) (Mm (ReadRegister MB_Status))"
    let ?es = "[(Mm (ReadRegister MB_Read), v), (Mm (ReadRegister MB_Status), s)]"
    define w1 where "w1 = w\<lparr>trace := trace w @ ?es\<rparr>"
    obtain u w2 where msg: "run_state (RpiqMailboxDpc_message os (r_val v AND MAILBOX_CHANNEL_MASK)) w1 = (u, w2)"
      by (metis prod.exhaust)
    then obtain ms where ms: "answers w1 ms w2" "length (retrieved ms) \<le> 1" "\<And>r. reads r ms = [] \<and> writes r ms = []"
      using message_answers [OF msg] Suc.prems(1) by (auto simp: w1_def)
    then have w2: "trace w2 = trace w @ ?es @ ms" "request_context w2 = request_context w" "mb_ub w2 = mb_ub w"
      by (simp_all add: answers_def w1_def)
    have "drained (r_val s) \<or> length (reads MB_Read (trace w2)) < n"
      using drainsD [OF Suc.prems(2), of "trace w @ [(Mm (ReadRegister MB_Read), v)]"] w2(1) ms(3) by (auto simp: s_def)
    then obtain es w' where es: "run_state (RpiqMailboxDpc_loop os (r_val s) fuel) w2 = (True, w')" "answers w2 es w'"
        "took_all (r_val s) es" "length (reads MB_Read es) \<le> fuel"
      using Suc.IH [of w2 "r_val s"] Suc.prems w2 ms(3) False by auto
    have "run_state (RpiqMailboxDpc_loop os reg (Suc fuel)) w = (True, w')"
      using False msg es(1) by (simp add: RpiqMailboxDpc_loop.simps [of os reg] s_def w1_def flip: v_def)
    moreover have "answers w (?es @ ms @ es) w'"
      using ms(1) es(2) w2 by (simp add: answers_def w1_def)
    ultimately show ?thesis
      using took_all_more [OF es(3) False ms(3,2), of v] es(4) ms(3)
      by (intro exI [of _ "?es @ ms @ es"] exI [of _ w']) simp
  qed
qed

text \<open>
  C27. The deferred interrupt handler ends and empties the mailbox: when the firmware puts in at
  most \<open>n\<close> messages it reads one for each status that reports one, stops at the first status that
  reports none, completes exactly the requests it takes from the queues, in their order, and as
  its last access to the configuration turns the interrupt on again.
\<close>

theorem mailbox_dpc_drains:
  assumes "contexts_known os (request_context w)" "drains os (length (reads MB_Read (trace w)) + fuel)"
  shows "\<exists>es w'. run_state (RpiqMailboxDpc os fuel) w = (True, w') \<and> trace w' = trace w @ es \<and>
    Suc (length (reads MB_Read es)) = length (reads MB_Status es) \<and> length (reads MB_Read es) \<le> fuel \<and>
    drained (last (reads MB_Status es)) \<and> (\<forall>v \<in> set (butlast (reads MB_Status es)). \<not> drained v) \<and>
    completed es = retrieved es \<and> (\<forall>rs. owned rs es = Some rs) \<and>
    (\<exists>v. writes MB_Config es = [v] \<and> bit v 0)"
proof -
  define s where "s = os (trace w) (Mm (ReadRegister MB_Status))"
  define w1 where "w1 = w\<lparr>trace := trace w @ [(Mm (ReadRegister MB_Status), s)]\<rparr>"
  have "\<not> drained (r_val s) \<longrightarrow> length (reads MB_Read (trace w)) < length (reads MB_Read (trace w)) + fuel"
    using drainsD [OF assms(2), of "trace w"] by (simp add: s_def)
  then obtain es w2 where es: "run_state (RpiqMailboxDpc_loop os (r_val s) fuel) w1 = (True, w2)" "answers w1 es w2"
      "took_all (r_val s) es" "length (reads MB_Read es) \<le> fuel"
    using loop_answers [of os w1 "length (reads MB_Read (trace w)) + fuel" "r_val s" fuel] assms
    by (simp add: w1_def) blast
  define tail where "tail = (let l = (Ke (ExAcquireMutex InterruptLock), os (trace w2) (Ke (ExAcquireMutex InterruptLock)));
      c = (Mm (ReadRegister MB_Config), os (trace w2 @ [l]) (Mm (ReadRegister MB_Config)));
      e = Mm (WriteRegister MB_Config (r_val (snd c) OR MAILBOX_DATA_AVAIL_ENABLE_IRQ));
      e' = (e, os (trace w2 @ [l, c]) e)
    in [l, c, e', (Ke (ExReleaseMutex InterruptLock), os (trace w2 @ [l, c, e']) (Ke (ExReleaseMutex InterruptLock)))])"
  have "run_state (RpiqMailboxDpc os fuel) w = (True, w2\<lparr>trace := trace w2 @ tail\<rparr>)"
    using es(1) by (simp add: RpiqMailboxDpc_def w1_def tail_def Let_def flip: s_def)
  moreover have "trace w2 = trace w @ (Mm (ReadRegister MB_Status), s) # es" "completed es = retrieved es"
      "foldl own_step (Some rs) es = Some rs" for rs
    using es(2) by (simp_all add: answers_def w1_def)
  moreover have "reads MB_Read tail = [] \<and> reads MB_Status tail = [] \<and> completed tail = [] \<and> retrieved tail = [] \<and>
      foldl own_step ors tail = ors \<and> (\<exists>v. writes MB_Config tail = [v] \<and> bit v 0)" for ors
    by (simp add: tail_def Let_def bit_simps)
  ultimately show ?thesis
    using es(3,4)
    by (intro exI [of _ "(Mm (ReadRegister MB_Status), s) # es @ tail"] exI [of _ "w2\<lparr>trace := trace w2 @ tail\<rparr>"])
      (simp add: took_all_def owned_def)
qed

text \<open>A system with one reply in the mailbox, for the request 7.\<close>

definition one_reply :: os where
  "one_reply tr c = (case c of
      Mm d \<Rightarrow> (case d of
          ReadRegister a \<Rightarrow> if a = MB_Status \<and> reads MB_Read tr \<noteq> [] then ok_reply\<lparr>r_val := MAILBOX_STATUS_EMPTY\<rparr>
            else if a = MB_Read then ok_reply\<lparr>r_val := 8\<rparr> else ok_reply
        | _ \<Rightarrow> ok_reply)
    | Req d \<Rightarrow> (case d of WdfIoQueueRetrieveNextRequest q \<Rightarrow> ok_reply\<lparr>r_ptr := 7\<rparr> | _ \<Rightarrow> ok_reply)
    | _ \<Rightarrow> ok_reply)"

theorem mailbox_dpc_drains_witness:
  "\<exists>w'. run_state (RpiqMailboxDpc one_reply 1)
     (zero_rpiq\<lparr>request_context := [7 \<mapsto> \<lparr>PropertyMemory = 3, PropertyMemorySize = 32\<rparr>]\<rparr>) = (True, w') \<and>
   completed (trace w') = [7]"
proof -
  let ?w = "zero_rpiq\<lparr>request_context := [7 \<mapsto> \<lparr>PropertyMemory = 3, PropertyMemorySize = 32\<rparr>]\<rparr>"
  have *: "contexts_known one_reply (request_context ?w)" "drains one_reply (length (reads MB_Read (trace ?w)) + 1)"
    by (auto simp: contexts_known_def one_reply_def drains_def zero_rpiq_def)
  obtain es w' where run: "run_state (RpiqMailboxDpc one_reply 1) ?w = (True, w')"
    and "trace w' = trace ?w @ es" "completed es = retrieved es"
    using mailbox_dpc_drains [OF *] by blast
  moreover have "completed (trace w') = [7]"
    using run by (auto simp: RpiqMailboxDpc_def RpiqMailboxDpc_loop.simps RpiqMailboxDpc_message_def one_reply_def
        ok_reply_def zero_rpiq_def)
  ultimately show ?thesis by blast
qed

end
