(* ===== verification/Rpiq_Device.thy ===== *)
theory Rpiq_Device
  imports Rpiq_Mailbox
begin

text \<open>
  The device of the mailbox driver (\<open>device.c\<close>): its creation, its hardware resources, and the
  notification of the network interface, on which the MAC address is put into the registry.
\<close>

section \<open>Creation\<close>

fun create_channel_queues :: "os \<Rightarrow> handle \<Rightarrow> nat \<Rightarrow> nat \<Rightarrow> (rpiq, ntstatus) state" where
  "create_channel_queues os device i 0 = return STATUS_SUCCESS"
| "create_channel_queues os device i (Suc n) = do {
     r \<leftarrow> ext os (Wdf (WdfIoQueueCreate device));
     if \<not> NT_SUCCESS (r_status r) then return (r_status r)
     else do {
       update (ChannelQueue_update (\<lambda>q. q(i := r_ptr r)));
       create_channel_queues os device (i + 1) n
     }
   }"

definition RpiqCreateDevice :: "os \<Rightarrow> (rpiq, ntstatus) state" where
  "RpiqCreateDevice os = do {
     d \<leftarrow> ext os (Dev WdfDeviceCreate);
     if \<not> NT_SUCCESS (r_status d) then return (r_status d)
     else do {
       q \<leftarrow> ext os (Wdf (WdfIoQueueCreate (r_ptr d)));
       if \<not> NT_SUCCESS (r_status q) then return (r_status q)
       else do {
         l \<leftarrow> ext os (Dev (WdfDeviceCreateSymbolicLink (r_ptr d)));
         if \<not> NT_SUCCESS (r_status l) then return (r_status l)
         else do {
           i \<leftarrow> ext os (Dev WdfDeviceCreateDeviceInterface);
           if \<not> NT_SUCCESS (r_status i) then return (r_status i)
           else do {
             n \<leftarrow> ext os (Dev IoRegisterPlugPlayNotification);
             if \<not> NT_SUCCESS (r_status n) then return (r_status n)
             else do {
               update (NdisNotificationHandle_update (\<lambda>_. r_ptr n));
               create_channel_queues os (r_ptr d) 0 MAILBOX_CHANNEL_MAX
             }
           }
         }
       }
     }
   }"

section \<open>Hardware resources\<close>

text \<open>
  The scan stops once a memory and an interrupt resource have been seen. The results are the
  status and the two counts.
\<close>

fun scan_rpiq_resources :: "os \<Rightarrow> handle \<Rightarrow> resource list \<Rightarrow> nat \<Rightarrow> nat \<Rightarrow> (rpiq, ntstatus \<times> nat \<times> nat) state" where
  "scan_rpiq_resources os device [] memc intc = return (STATUS_SUCCESS, memc, intc)"
| "scan_rpiq_resources os device (r # rs) memc intc = (case r of
      ResourceMemory start len \<Rightarrow> do {
        p \<leftarrow> ext os (Mm (MmMapIoSpaceEx start len));
        update (Mailbox_update (\<lambda>_. r_ptr p));
        if r_ptr p = 0 then return (STATUS_UNSUCCESSFUL, memc, intc)
        else do {
          update (MailboxMmioLength_update (\<lambda>_. len));
          status \<leftarrow> RpiqMailboxInit os;
          if \<not> NT_SUCCESS status then return (STATUS_INSUFFICIENT_RESOURCES, memc, intc)
          else if intc \<noteq> 0 then return (STATUS_SUCCESS, memc + 1, intc)
          else scan_rpiq_resources os device rs (memc + 1) intc
        }
      }
    | ResourceInterrupt \<Rightarrow> do {
        p \<leftarrow> ext os (Dev (WdfInterruptCreate device));
        if \<not> NT_SUCCESS (r_status p) then return (r_status p, memc, intc)
        else do {
          update (MailboxIntObj_update (\<lambda>_. r_ptr p));
          if memc \<noteq> 0 then return (STATUS_SUCCESS, memc, intc + 1)
          else scan_rpiq_resources os device rs memc (intc + 1)
        }
      }
    | ResourceOther \<Rightarrow>
        if memc \<noteq> 0 \<and> intc \<noteq> 0 then return (STATUS_SUCCESS, memc, intc)
        else scan_rpiq_resources os device rs memc intc)"

definition RpiqPrepareHardware :: "os \<Rightarrow> handle \<Rightarrow> resource list \<Rightarrow> (rpiq, ntstatus) state" where
  "RpiqPrepareHardware os device ResourcesTranslated = do {
     (status, memc, intc) \<leftarrow> scan_rpiq_resources os device ResourcesTranslated 0 0;
     if \<not> NT_SUCCESS status then return status
     else if memc \<noteq> 1 \<and> intc \<noteq> 1 then return STATUS_UNSUCCESSFUL
     else return STATUS_SUCCESS
   }"

fun purge_channel_queues :: "os \<Rightarrow> nat \<Rightarrow> nat \<Rightarrow> (rpiq, unit) state" where
  "purge_channel_queues os i 0 = return ()"
| "purge_channel_queues os i (Suc n) = do {
     w \<leftarrow> get;
     do_when (ChannelQueue w i \<noteq> 0) (do {
       _ \<leftarrow> ext os (Req (WdfIoQueuePurgeSynchronously (ChannelQueue w i)));
       update (ChannelQueue_update (\<lambda>q. q(i := 0)))
     });
     purge_channel_queues os (i + 1) n
   }"

definition RpiqReleaseHardware :: "os \<Rightarrow> (rpiq, ntstatus) state" where
  "RpiqReleaseHardware os = do {
     w \<leftarrow> get;
     do_when (Mailbox w \<noteq> 0) (do {
       _ \<leftarrow> RpiqDisableInterrupts os;
       _ \<leftarrow> ext os (Mm (MmUnmapIoSpace (Mailbox w) (MailboxMmioLength w)));
       update (Mailbox_update (\<lambda>_. 0));
       update (MailboxMmioLength_update (\<lambda>_. 0))
     });
     w \<leftarrow> get;
     do_when (NdisNotificationHandle w \<noteq> 0) (do {
       _ \<leftarrow> ext os (Dev (IoUnregisterPlugPlayNotification (NdisNotificationHandle w)));
       update (NdisNotificationHandle_update (\<lambda>_. 0))
     });
     purge_channel_queues os 0 MAILBOX_CHANNEL_MAX;
     return STATUS_SUCCESS
   }"

definition RpiqIoStop :: "os \<Rightarrow> handle \<Rightarrow> (rpiq, unit) state" where
  "RpiqIoStop os Request = do {
     _ \<leftarrow> ext os (Req (WdfRequestStopAcknowledge Request True));
     return ()
   }"

section \<open>The MAC address in the registry\<close>

definition digit :: "nat \<Rightarrow> char" where
  "digit n = ''0123456789'' ! (n mod 10)"

text \<open>\<open>%04d\<close>\<close>

fun decimal :: "nat \<Rightarrow> string" where
  "decimal n = (if n < 10 then [digit n] else decimal (n div 10) @ [digit n])"

declare decimal.simps [simp del]

definition decimal4 :: "nat \<Rightarrow> string" where
  "decimal4 n = replicate (4 - length (decimal n)) (CHR ''0'') @ decimal n"

text \<open>A string in a buffer of \<open>n\<close> 16-bit characters.\<close>

definition wide :: "nat \<Rightarrow> string \<Rightarrow> u8 list" where
  "wide n s = take (2 * n) (concat (map (\<lambda>c. [of_char c, 0]) s) @ replicate (2 * n) 0)"

text \<open>The local variables that live across turns of the loop.\<close>

record ndis_vars =
  Instance :: u32
  SubKey :: handle
  infoBuffer :: handle
  infoBufferLength :: u32

text \<open>The query for the description: with a buffer of the right size the second time.\<close>

definition RpiqSetNdisMacAddress_query ::
  "os \<Rightarrow> ndis_vars \<Rightarrow> (rpiq, ntstatus option \<times> u8 list \<times> ndis_vars) state" where
  "RpiqSetNdisMacAddress_query os v = do {
     q \<leftarrow> ext os (Reg (ZwQueryValueKey (SubKey v) ''DriverDesc'' (unat (infoBufferLength v))));
     if r_status q \<noteq> STATUS_BUFFER_TOO_SMALL then return (Some (r_status q), r_data q, v)
     else do {
       b \<leftarrow> ext os (Mm (ExAllocatePoolZero (of_nat (r_len q))));
       if r_ptr b = 0 then return (None, [], v\<lparr>infoBuffer := 0\<rparr>)
       else do {
         q' \<leftarrow> ext os (Reg (ZwQueryValueKey (SubKey v) ''DriverDesc'' (r_len q)));
         return (Some (r_status q'), r_data q', v\<lparr>infoBuffer := r_ptr b, infoBufferLength := of_nat (r_len q)\<rparr>)
       }
     }
   }"

text \<open>The adapter that was looked for: its values are set unless they have been set before.\<close>

definition RpiqSetNdisMacAddress_set :: "os \<Rightarrow> ndis_vars \<Rightarrow> (rpiq, ntstatus) state" where
  "RpiqSetNdisMacAddress_set os v = do {
     p \<leftarrow> ext os (Reg (ZwQueryValueKey (SubKey v) ''PropertyChangeStatus'' (unat (infoBufferLength v))));
     if r_status p \<noteq> STATUS_OBJECT_NAME_NOT_FOUND then return (r_status p)
     else do {
       w \<leftarrow> get;
       _ \<leftarrow> ext os (Reg (ZwSetValueKey (SubKey v) ''NetworkAddress'' (wide 13 (macAddrStrGlobal w))));
       s \<leftarrow> ext os (Reg (ZwSetValueKey (SubKey v) ''PropertyChangeStatus'' (le32 1)));
       return (r_status s)
     }
   }"

definition RpiqSetNdisMacAddress_match :: "os \<Rightarrow> u8 list \<Rightarrow> (rpiq, bool) state" where
  "RpiqSetNdisMacAddress_match os desc = do {
     a \<leftarrow> ext os (Reg (RtlPrefixUnicodeString ''LAN7800'' desc));
     if r_val a \<noteq> 0 then return True
     else do {
       b \<leftarrow> ext os (Reg (RtlPrefixUnicodeString ''LAN9512/LAN9514'' desc));
       return (r_val b \<noteq> 0)
     }
   }"

definition close_handle :: "os \<Rightarrow> handle \<Rightarrow> (rpiq, unit) state" where
  "close_handle os h = do_when (h \<noteq> 0) (do { _ \<leftarrow> ext os (Ke (ZwClose h)); return () })"

definition free_pool :: "os \<Rightarrow> handle \<Rightarrow> (rpiq, unit) state" where
  "free_pool os h = do_when (h \<noteq> 0) (do { _ \<leftarrow> ext os (Mm (ExFreePool h)); return () })"

text \<open>
  One turn of the loop: whether it jumps to \<open>End\<close>, the status and the variables. The parts:
  after the key has been opened, and after the query.
\<close>

definition RpiqSetNdisMacAddress_found ::
  "os \<Rightarrow> ntstatus \<Rightarrow> u8 list \<Rightarrow> ndis_vars \<Rightarrow> (rpiq, bool \<times> ntstatus \<times> ndis_vars) state" where
  "RpiqSetNdisMacAddress_found os status desc v = do {
     found \<leftarrow> (if status = STATUS_SUCCESS then do {
         do_when (infoBuffer v = 0) mb_undefined;
         RpiqSetNdisMacAddress_match os desc
       } else return False);
     if found then do {
       status \<leftarrow> RpiqSetNdisMacAddress_set os v;
       return (True, status, v)
     } else do {
       close_handle os (SubKey v);
       free_pool os (infoBuffer v);
       return (False, (if status = STATUS_OBJECT_NAME_NOT_FOUND then STATUS_SUCCESS else status),
         v\<lparr>SubKey := 0, infoBuffer := 0, infoBufferLength := (if infoBuffer v \<noteq> 0 then 0 else infoBufferLength v)\<rparr>)
     }
   }"

definition RpiqSetNdisMacAddress_turn ::
  "os \<Rightarrow> handle \<Rightarrow> ndis_vars \<Rightarrow> (rpiq, bool \<times> ntstatus \<times> ndis_vars) state" where
  "RpiqSetNdisMacAddress_turn os BaseKey v =
     (let (status, name) = RtlStringCchPrintf 5 (decimal4 (unat (Instance v)));
          v = v\<lparr>Instance := Instance v + 1\<rparr>
      in if \<not> NT_SUCCESS status then return (False, status, v)
         else do {
           k \<leftarrow> ext os (Reg (ZwOpenKey BaseKey name));
           if \<not> NT_SUCCESS (r_status k) then return (False, r_status k, v\<lparr>SubKey := 0\<rparr>)
           else do {
             (status, desc, v) \<leftarrow> RpiqSetNdisMacAddress_query os (v\<lparr>SubKey := r_ptr k\<rparr>);
             case status of
               None \<Rightarrow> return (True, STATUS_BUFFER_TOO_SMALL, v)
             | Some status \<Rightarrow> RpiqSetNdisMacAddress_found os status desc v
           }
         })"

text \<open>
  The loop ends when a key is not found or on a jump to \<open>End\<close>; on fuel, \<open>None\<close> when it runs out.
\<close>

fun RpiqSetNdisMacAddress_loop ::
  "os \<Rightarrow> handle \<Rightarrow> ntstatus \<Rightarrow> ndis_vars \<Rightarrow> nat \<Rightarrow> (rpiq, (ntstatus \<times> ndis_vars) option) state" where
  "RpiqSetNdisMacAddress_loop os BaseKey status v fuel =
     (if status = STATUS_OBJECT_NAME_NOT_FOUND then return (Some (status, v))
      else case fuel of
          0 \<Rightarrow> return None
        | Suc n \<Rightarrow> do {
            (stop, status, v) \<leftarrow> RpiqSetNdisMacAddress_turn os BaseKey v;
            if stop then return (Some (status, v))
            else RpiqSetNdisMacAddress_loop os BaseKey status v n
          })"

declare RpiqSetNdisMacAddress_loop.simps [simp del]

definition RpiqSetNdisMacAddress :: "os \<Rightarrow> nat \<Rightarrow> (rpiq, ntstatus option) state" where
  "RpiqSetNdisMacAddress os fuel = do {
     w \<leftarrow> get;
     if MacSet w then return (Some STATUS_SUCCESS)
     else do {
       update (MacSet_update (\<lambda>_. True));
       k \<leftarrow> ext os (Reg (ZwOpenKey 0 ''Class''));
       if \<not> NT_SUCCESS (r_status k) then return (Some (r_status k))
       else do {
         r \<leftarrow> RpiqSetNdisMacAddress_loop os (r_ptr k) (r_status k)
                \<lparr>Instance = 0, SubKey = 0, infoBuffer = 0, infoBufferLength = 0\<rparr> fuel;
         case r of
           None \<Rightarrow> return None
         | Some (status, v) \<Rightarrow> do {
             close_handle os (r_ptr k);
             close_handle os (SubKey v);
             free_pool os (infoBuffer v);
             return (Some status)
           }
       }
     }
   }"

definition RpiqNdisInterfaceCallback :: "os \<Rightarrow> bool \<Rightarrow> handle \<Rightarrow> nat \<Rightarrow> (rpiq, ntstatus option) state" where
  "RpiqNdisInterfaceCallback os arrival device fuel =
     (if \<not> arrival \<or> device = 0 then return (Some STATUS_SUCCESS)
      else do {
        s \<leftarrow> RpiqSetNdisMacAddress os fuel;
        case s of
          None \<Rightarrow> return None
        | Some _ \<Rightarrow> do {
            t \<leftarrow> ext os (Dev (WdfIoTargetCreate device));
            do_when (NT_SUCCESS (r_status t)) (do {
              p \<leftarrow> ext os (Dev (WdfIoTargetOpen (r_ptr t)));
              do_when (\<not> NT_SUCCESS (r_status p)) (do {
                _ \<leftarrow> ext os (Wdf (WdfObjectDelete (r_ptr t)));
                return ()
              })
            });
            return (Some STATUS_SUCCESS)
          }
      })"

definition RpiqNdisTargetRemoveComplete :: "os \<Rightarrow> handle \<Rightarrow> (rpiq, unit) state" where
  "RpiqNdisTargetRemoveComplete os IoTarget = do {
     _ \<leftarrow> ext os (Wdf (WdfObjectDelete IoTarget));
     return ()
   }"

end
