(* ===== verification/Holdings.thy ===== *)
theory Holdings
  imports Kernel "HOL-Library.Multiset"
begin

text \<open>
  What a driver holds of the system: contiguous memory, pool, handles of keys. \<open>held hs tr\<close> are
  the holdings after a trace that starts with \<open>hs\<close>; it is \<open>None\<close> once something has been given
  back that was not held (a double free).
\<close>

datatype holding = Contiguous handle | Pool handle | KeyHandle handle

definition give_back :: "holding \<Rightarrow> holding multiset \<Rightarrow> holding multiset option" where
  "give_back x hs = (if x \<in># hs then Some (hs - {#x#}) else None)"

definition hold_step :: "holding multiset option \<Rightarrow> event \<Rightarrow> holding multiset option" where
  "hold_step ohs e = (case ohs of None \<Rightarrow> None | Some hs \<Rightarrow>
     (let got = (\<lambda>x. Some (if r_ptr (snd e) = 0 then hs else add_mset (x (r_ptr (snd e))) hs)) in
      case fst e of
        Mm c \<Rightarrow> (case c of
            MmAllocateContiguousNodeMemory _ \<Rightarrow> got Contiguous
          | MmAllocateContiguousMemorySpecifyCache _ \<Rightarrow> got Contiguous
          | ExAllocatePoolZero _ \<Rightarrow> got Pool
          | MmFreeContiguousMemory p \<Rightarrow> give_back (Contiguous p) hs
          | ExFreePool p \<Rightarrow> give_back (Pool p) hs
          | _ \<Rightarrow> Some hs)
      | Reg c \<Rightarrow> (case c of
            ZwOpenKey _ _ \<Rightarrow> if NT_SUCCESS (r_status (snd e)) then got KeyHandle else Some hs
          | _ \<Rightarrow> Some hs)
      | Ke c \<Rightarrow> (case c of ZwClose h \<Rightarrow> give_back (KeyHandle h) hs | _ \<Rightarrow> Some hs)
      | _ \<Rightarrow> Some hs))"

definition held :: "holding multiset \<Rightarrow> event list \<Rightarrow> holding multiset option" where
  "held hs tr = foldl hold_step (Some hs) tr"

lemma held_Nil [simp]: "held hs [] = Some hs"
  by (simp add: held_def)

lemma held_snoc [simp]: "held hs (tr @ [e]) = hold_step (held hs tr) e"
  by (simp add: held_def)

lemma held_append: "held hs (tr @ es) = foldl hold_step (held hs tr) es"
  by (simp add: held_def)

lemma give_back_held [simp]: "give_back x (add_mset x hs) = Some hs"
  by (simp add: give_back_def)

definition hold_free :: "call \<Rightarrow> bool" where
  "hold_free c \<longleftrightarrow> (case c of
      Mm d \<Rightarrow> (case d of MmAllocateContiguousNodeMemory _ \<Rightarrow> False
        | MmAllocateContiguousMemorySpecifyCache _ \<Rightarrow> False | ExAllocatePoolZero _ \<Rightarrow> False
        | MmFreeContiguousMemory _ \<Rightarrow> False | ExFreePool _ \<Rightarrow> False | _ \<Rightarrow> True)
    | Reg d \<Rightarrow> (case d of ZwOpenKey _ _ \<Rightarrow> False | _ \<Rightarrow> True)
    | Ke d \<Rightarrow> (case d of ZwClose _ \<Rightarrow> False | _ \<Rightarrow> True)
    | _ \<Rightarrow> True)"

lemma hold_step_free: "hold_free c \<Longrightarrow> hold_step ohs (c, r) = ohs"
  by (auto simp: hold_free_def hold_step_def Let_def split: option.splits call.splits mm_call.splits reg_call.splits ke_call.splits)

lemma hold_step_simps [simp]:
  "hold_step (Some hs) (Mm (MmAllocateContiguousNodeMemory n), r) =
     Some (if r_ptr r = 0 then hs else add_mset (Contiguous (r_ptr r)) hs)"
  "hold_step (Some hs) (Mm (MmAllocateContiguousMemorySpecifyCache n), r) =
     Some (if r_ptr r = 0 then hs else add_mset (Contiguous (r_ptr r)) hs)"
  "hold_step (Some hs) (Mm (ExAllocatePoolZero n), r) =
     Some (if r_ptr r = 0 then hs else add_mset (Pool (r_ptr r)) hs)"
  "hold_step (Some hs) (Mm (MmFreeContiguousMemory p), r) = give_back (Contiguous p) hs"
  "hold_step (Some hs) (Mm (ExFreePool p), r) = give_back (Pool p) hs"
  "hold_step (Some hs) (Reg (ZwOpenKey k s), r) =
     Some (if NT_SUCCESS (r_status r) \<and> r_ptr r \<noteq> 0 then add_mset (KeyHandle (r_ptr r)) hs else hs)"
  "hold_step (Some hs) (Ke (ZwClose h), r) = give_back (KeyHandle h) hs"
  by (simp_all add: hold_step_def)

lemma hold_free_simps [simp]:
  "hold_free (Req a)" "hold_free (Wdf b)" "hold_free (Dev c)" "hold_free (Dma d)" "hold_free (Sd e)" "hold_free (Net f)" "hold_free (Flt g)" "hold_free (Ser sc)"
  "hold_free (Mm (ReadRegister x))" "hold_free (Mm (WriteRegister x v))" "hold_free (Mm (ReadShared p n))"
  "hold_free (Mm (WriteShared p bs))" "hold_free (Mm (MmGetPhysicalAddress p))" "hold_free (Mm (MmBuildMdlForNonPagedPool p))"
  "hold_free (Ke KeDelayExecutionThread)" "hold_free (Ke (KeStallExecutionProcessor n))" "hold_free (Ke (ExAcquireMutex m))" "hold_free (Ke (ExReleaseMutex m))"
  "hold_free (Reg (ZwQueryValueKey h s n))" "hold_free (Reg (ZwSetValueKey h s bs))"
  "hold_free (Reg (RtlPrefixUnicodeString s bs))"
  by (simp_all add: hold_free_def)

text \<open>A program that keeps what is held: what it takes it gives back.\<close>

definition holds_level :: "('w kernel_scheme, 'a) state \<Rightarrow> bool" where
  "holds_level m \<longleftrightarrow> (\<forall>hs0 hs w. held hs0 (trace w) = Some hs \<longrightarrow> held hs0 (trace (snd (run_state m w))) = Some hs)"

lemma level_ext: "hold_free c \<Longrightarrow> holds_level (ext os c)"
  by (simp add: holds_level_def hold_step_free)

lemma level_bind: "holds_level m \<Longrightarrow> (\<And>a. holds_level (f a)) \<Longrightarrow> holds_level (m \<bind> f)"
  by (simp add: holds_level_def case_prod_unfold)

lemma level_return: "holds_level (return x)" and level_get: "holds_level get"
  by (simp_all add: holds_level_def)

lemma level_update: "(\<And>w. trace (f w) = trace w) \<Longrightarrow> holds_level (update f)"
  by (simp add: holds_level_def)

lemma level_if: "(b \<Longrightarrow> holds_level m) \<Longrightarrow> (\<not> b \<Longrightarrow> holds_level m') \<Longrightarrow> holds_level (if b then m else m')"
  by simp

lemma level_when: "holds_level m \<Longrightarrow> holds_level (do_when b m)"
  by (simp add: do_when_def level_return)

lemma level_prod: "(\<And>a b. holds_level (f a b)) \<Longrightarrow> holds_level (case p of (a, b) \<Rightarrow> f a b)"
  by (cases p) simp

lemmas level_rules = level_bind level_return level_get level_if level_when level_prod level_ext hold_free_simps

lemma levelD:
  "holds_level m \<Longrightarrow> run_state m w = (a, w') \<Longrightarrow> held hs0 (trace w) = Some hs \<Longrightarrow> held hs0 (trace w') = Some hs"
  by (metis holds_level_def snd_conv)

end
