(* ===== verification/Rpiq_Mac.thy ===== *)
theory Rpiq_Mac
  imports Rpiq_Write Rpiq_Device Holdings
begin

text \<open>
  The MAC address: the query at start-up, which polls the mailbox a bounded number of times and
  gives its memory back, and the search of the registry for the adapter, which ends and closes
  what it opens.
\<close>

section \<open>The query\<close>

text \<open>The test for success also accepts the code of an error.\<close>

lemma mac_error_accepted: "(0x80000001 :: u32) AND RESPONSE_SUCCESS \<noteq> 0"
  by simp

lemma poll_level: "holds_level (mailbox_poll os reg c)"
proof (induction os reg c rule: mailbox_poll.induct)
  case (1 os reg c)
  then show ?case unfolding mailbox_poll.simps [of os reg c]
    by (intro level_rules) auto
qed

lemma write_level: "holds_level (RpiqMailboxWrite os ch v req)"
  unfolding RpiqMailboxWrite_def mb_undefined_def
  by (intro level_rules poll_level level_update) simp_all

lemma mac_poll_level: "holds_level (mac_poll os expected ptr n)"
  by (induction n) (auto intro!: level_rules)

lemma query_level: "holds_level (RpiSetDeviceMacAddress_query os ptr old)"
  unfolding RpiSetDeviceMacAddress_query_def Let_def
  by (intro level_rules write_level mac_poll_level level_update) simp_all

text \<open>What the query does to the trace and to the address.\<close>

lemma mac_poll_spec:
  "run_state (mac_poll os expected ptr n) w = (st, w') \<Longrightarrow>
   \<exists>es. w' = w\<lparr>trace := trace w @ es\<rparr> \<and> length (reads MB_Read es) \<le> n \<and> writes MB_Write es = [] \<and>
     (NT_SUCCESS st \<longrightarrow> (\<exists>pre v c. es = pre @ [(Mm (ReadRegister MB_Read), v), (Mm (ReadShared (ptr + 4) 4), c)] \<and>
       r_val v AND NOT MAILBOX_CHANNEL_MASK = expected \<and> from_le32 (r_data c) AND RESPONSE_SUCCESS \<noteq> 0))"
proof (induction n arbitrary: w)
  case 0
  then show ?case by (intro exI [of _ "[]"]) auto
next
  case (Suc n)
  define s where "s = os (trace w) (Mm (ReadRegister MB_Status))"
  define r where "r = os (trace w @ [(Mm (ReadRegister MB_Status), s)]) (Mm (ReadRegister MB_Read))"
  let ?es = "[(Mm (ReadRegister MB_Status), s), (Mm (ReadRegister MB_Read), r)]"
  show ?case
  proof (cases "r_val r AND NOT MAILBOX_CHANNEL_MASK = expected")
    case True
    let ?c = "os (trace w @ ?es) (Mm (ReadShared (ptr + 4) 4))"
    have "st = (if from_le32 (r_data ?c) AND RESPONSE_SUCCESS \<noteq> 0 then STATUS_SUCCESS else STATUS_UNSUCCESSFUL)"
      "w' = w\<lparr>trace := trace w @ ?es @ [(Mm (ReadShared (ptr + 4) 4), ?c)]\<rparr>"
      using Suc.prems True by (simp_all add: s_def r_def)
    with True show ?thesis
      by (intro exI [of _ "?es @ [(Mm (ReadShared (ptr + 4) 4), ?c)]"]) (simp split: if_splits)
  next
    case False
    let ?d = "(Ke KeDelayExecutionThread, os (trace w @ ?es) (Ke KeDelayExecutionThread))"
    have "run_state (mac_poll os expected ptr n) (w\<lparr>trace := trace w @ ?es @ [?d]\<rparr>) = (st, w')"
      using Suc.prems False by (simp add: s_def r_def)
    from Suc.IH [OF this] obtain es where es: "w' = w\<lparr>trace := trace w @ ?es @ [?d] @ es\<rparr>" "length (reads MB_Read es) \<le> n"
        "writes MB_Write es = []"
        "NT_SUCCESS st \<longrightarrow> (\<exists>pre v c. es = pre @ [(Mm (ReadRegister MB_Read), v), (Mm (ReadShared (ptr + 4) 4), c)] \<and>
          r_val v AND NOT MAILBOX_CHANNEL_MASK = expected \<and> from_le32 (r_data c) AND RESPONSE_SUCCESS \<noteq> 0)"
      by auto
    show ?thesis
    proof (rule exI [of _ "?es @ [?d] @ es"], intro conjI impI)
      assume "NT_SUCCESS st"
      with es(4) obtain pre v c where "es = pre @ [(Mm (ReadRegister MB_Read), v), (Mm (ReadShared (ptr + 4) 4), c)]"
        "r_val v AND NOT MAILBOX_CHANNEL_MASK = expected" "from_le32 (r_data c) AND RESPONSE_SUCCESS \<noteq> 0" by blast
      then show "\<exists>pre v c. ?es @ [?d] @ es = pre @ [(Mm (ReadRegister MB_Read), v), (Mm (ReadShared (ptr + 4) 4), c)] \<and>
          r_val v AND NOT MAILBOX_CHANNEL_MASK = expected \<and> from_le32 (r_data c) AND RESPONSE_SUCCESS \<noteq> 0"
        by (intro exI [of _ "?es @ [?d] @ pre"] exI [of _ v] exI [of _ c]) simp
    qed (use es(1-3) in simp_all)
  qed
qed

text \<open>Memory that is read gives as many bytes as are asked for.\<close>

definition reads_whole :: "os \<Rightarrow> bool" where
  "reads_whole os \<longleftrightarrow> (\<forall>tr p n. length (r_data (os tr (Mm (ReadShared p n)))) = n)"

lemma length_hex: "length (concat (map hex2 bs)) = 2 * length bs"
  by (induction bs) (simp_all add: hex2_def)

text \<open>The address is read back from its text.\<close>

definition unhex :: "char \<Rightarrow> nat" where
  "unhex c = (let n = of_char c in if n < 65 then n - 48 else n - 55)"

fun parse_hex :: "string \<Rightarrow> u8 list" where
  "parse_hex (a # b # s) = of_nat (16 * unhex a + unhex b) # parse_hex s"
| "parse_hex _ = []"

lemma unhex_hex: "n < 16 \<Longrightarrow> unhex (hex_digit n) = n"
proof -
  assume "n < 16"
  then have "n \<in> set [0..<16]" by simp
  moreover have "\<forall>n \<in> set [0..<16]. unhex (hex_digit n) = n" by code_simp
  ultimately show ?thesis by blast
qed

lemma parse_hex: "parse_hex (concat (map hex2 bs)) = bs"
proof (induction bs)
  case (Cons b bs)
  have "unat b < 256" using unsigned_less [of b, where ?'a = nat] by simp
  then have "unat b div 16 < 16" by simp
  then have "of_nat (16 * unhex (hex_digit (unat b div 16)) + unhex (hex_digit (unat b mod 16))) = b"
    by (simp add: unhex_hex)
  with Cons show ?case by (simp add: hex2_def)
qed simp

lemma write_outcome:
  assumes "run_state (RpiqMailboxWrite os ch v 0) w = (st, w')"
  obtains es where "w' = w\<lparr>trace := trace w @ es\<rparr>" "reads MB_Read es = []"
    "writes MB_Write es = (if NT_SUCCESS st then [(v AND NOT MAILBOX_CHANNEL_MASK) OR ch] else [])"
  by (rule write_cases [OF assms disjI2 [OF refl]]) (use that in \<open>auto simp: lead_def\<close>)

text \<open>
  What the driver has seen when it has the address: it has put the request in the memory at \<open>p\<close>, written
  the address of this memory, for the controller, to the mailbox, once, and then read it back from the
  mailbox; the code of the answer, read from the memory, says success, and the six bytes of the address
  are read from the memory next.
\<close>

definition mac_answered :: "handle \<Rightarrow> event list \<Rightarrow> u8 list \<Rightarrow> bool" where
  "mac_answered p es address \<longleftrightarrow> (\<exists>pre a old b v c r.
     es = pre @ [(Mm (ReadRegister MB_Read), v), (Mm (ReadShared (p + 4) 4), c), (Mm (ReadShared (p + 20) 6), r)] \<and>
     (Mm (MmGetPhysicalAddress p), a) \<in> set pre \<and> (Mm (WriteShared p (mac_request old)), b) \<in> set pre \<and>
     writes MB_Write es = [((ucast (r_phys a) + OFFSET_DIRECT_SDRAM') AND NOT MAILBOX_CHANNEL_MASK) OR
       MAILBOX_CHANNEL_PROPERTY_ARM_VC] \<and>
     r_val v AND NOT MAILBOX_CHANNEL_MASK = ucast (r_phys a) + OFFSET_DIRECT_SDRAM' \<and>
     from_le32 (r_data c) AND RESPONSE_SUCCESS \<noteq> 0 \<and> address = r_data r)"

lemma answered_Cons:
  "mac_answered p es address \<Longrightarrow> write_of MB_Write e = None \<Longrightarrow> mac_answered p (e # es) address"
  unfolding mac_answered_def
  by (elim exE, intro exI [of _ "e # _"] exI conjI) (cases e, auto)+

lemma query_outcome:
  assumes run: "run_state (RpiSetDeviceMacAddress_query os ptr old) w = (st, w')" and whole: "reads_whole os"
  shows "\<exists>es. trace w' = trace w @ es \<and> length (reads MB_Read es) \<le> 10 \<and> length (writes MB_Write es) \<le> 1 \<and>
    (if NT_SUCCESS st then mac_answered ptr es (parse_hex (macAddrStrGlobal w')) \<and> length (macAddrStrGlobal w') = 12
     else macAddrStrGlobal w' = macAddrStrGlobal w)"
proof -
  define a where "a = os (trace w) (Mm (MmGetPhysicalAddress ptr))"
  define b where "b = os (trace w @ [(Mm (MmGetPhysicalAddress ptr), a)]) (Mm (WriteShared ptr (mac_request old)))"
  define ab where "ab = [(Mm (MmGetPhysicalAddress ptr), a), (Mm (WriteShared ptr (mac_request old)), b)]"
  define addr where "addr = ucast (r_phys a) + OFFSET_DIRECT_SDRAM'"
  have ab [simp]: "reads MB_Read ab = []" "writes MB_Write ab = []" by (simp_all add: ab_def read_of_def write_of_def)
  obtain st1 w1 where wr: "run_state (RpiqMailboxWrite os MAILBOX_CHANNEL_PROPERTY_ARM_VC addr 0) (w\<lparr>trace := trace w @ ab\<rparr>) = (st1, w1)"
    by (metis prod.exhaust)
  then obtain es1 where es1: "w1 = w\<lparr>trace := trace w @ ab @ es1\<rparr>" "reads MB_Read es1 = []"
    "writes MB_Write es1 = (if NT_SUCCESS st1 then [(addr AND NOT MAILBOX_CHANNEL_MASK) OR MAILBOX_CHANNEL_PROPERTY_ARM_VC] else [])"
    by (rule write_outcome) auto
  have one: "length (writes MB_Write es1) \<le> 1" by (simp add: es1(3))
  obtain st2 w2 where poll: "run_state (mac_poll os addr ptr 10) w1 = (st2, w2)" by (metis prod.exhaust)
  from mac_poll_spec [OF poll] obtain es2 where es2: "w2 = w1\<lparr>trace := trace w1 @ es2\<rparr>" "length (reads MB_Read es2) \<le> 10"
      "writes MB_Write es2 = []" and answer: "NT_SUCCESS st2 \<Longrightarrow> \<exists>pre v c. es2 = pre @ [(Mm (ReadRegister MB_Read), v),
        (Mm (ReadShared (ptr + 4) 4), c)] \<and> r_val v AND NOT MAILBOX_CHANNEL_MASK = addr \<and> from_le32 (r_data c) AND RESPONSE_SUCCESS \<noteq> 0"
    by blast
  define d where "d = os (trace w2) (Mm (ReadShared (ptr + 20) 6))"
  have len: "length (r_data d) = 6" using whole by (simp add: reads_whole_def d_def)
  have *: "(\<not> NT_SUCCESS st1 \<and> st = st1 \<and> w' = w1) \<or> (NT_SUCCESS st1 \<and> \<not> NT_SUCCESS st2 \<and> st = st2 \<and> w' = w2) \<or>
      (NT_SUCCESS st1 \<and> NT_SUCCESS st2 \<and> st = STATUS_SUCCESS \<and>
       w' = w2\<lparr>trace := trace w2 @ [(Mm (ReadShared (ptr + 20) 6), d)], macAddrStrGlobal := concat (map hex2 (r_data d))\<rparr>)"
    using run wr poll len
    by (auto simp: RpiSetDeviceMacAddress_query_def RtlStringCchPrintf_def length_hex ab_def addr_def
        simp flip: a_def b_def d_def split: if_splits)
  then show ?thesis
  proof (elim disjE conjE)
    assume "\<not> NT_SUCCESS st1" "st = st1" "w' = w1"
    then show ?thesis using es1 one by (intro exI [of _ "ab @ es1"]) simp
  next
    assume "\<not> NT_SUCCESS st2" "st = st2" "w' = w2"
    then show ?thesis using es1 es2 one by (intro exI [of _ "ab @ es1 @ es2"]) simp
  next
    assume ok: "NT_SUCCESS st1" "NT_SUCCESS st2" "st = STATUS_SUCCESS" and w':
      "w' = w2\<lparr>trace := trace w2 @ [(Mm (ReadShared (ptr + 20) 6), d)], macAddrStrGlobal := concat (map hex2 (r_data d))\<rparr>"
    let ?d = "(Mm (ReadShared (ptr + 20) 6), d)"
    from answer [OF ok(2)] obtain pre v c where a: "es2 = pre @ [(Mm (ReadRegister MB_Read), v), (Mm (ReadShared (ptr + 4) 4), c)]"
      "r_val v AND NOT MAILBOX_CHANNEL_MASK = addr" "from_le32 (r_data c) AND RESPONSE_SUCCESS \<noteq> 0" by blast
    have hex: "parse_hex (macAddrStrGlobal w') = r_data d" "length (macAddrStrGlobal w') = 12"
      using len by (simp_all add: w' parse_hex length_hex)
    have "mac_answered ptr (ab @ es1 @ es2 @ [?d]) (r_data d)"
      unfolding mac_answered_def
    proof (intro exI conjI)
      show "ab @ es1 @ es2 @ [?d] = (ab @ es1 @ pre) @ [(Mm (ReadRegister MB_Read), v), (Mm (ReadShared (ptr + 4) 4), c), ?d]"
        by (simp add: a(1))
      show "(Mm (MmGetPhysicalAddress ptr), a) \<in> set (ab @ es1 @ pre)"
        "(Mm (WriteShared ptr (mac_request old)), b) \<in> set (ab @ es1 @ pre)" by (simp_all add: ab_def)
      show "writes MB_Write (ab @ es1 @ es2 @ [?d]) = [((ucast (r_phys a) + OFFSET_DIRECT_SDRAM') AND NOT MAILBOX_CHANNEL_MASK) OR
          MAILBOX_CHANNEL_PROPERTY_ARM_VC]"
        using es1(3) es2(3) ok(1) by (simp add: addr_def)
    qed (use a(2,3) in \<open>simp_all add: addr_def\<close>)
    with hex show ?thesis using es1 es2 one ok(3)
      by (intro exI [of _ "ab @ es1 @ es2 @ [?d]"]) (simp add: w')
  qed
qed

text \<open>
  C35. The query for the MAC address at start-up is bounded and leaks nothing: the mailbox is
  written at most once and read at most 10 times, and what the driver holds of memory is what it
  held before. The address is set only from the answer of the firmware: the query succeeds only when
  the last word it has read from the mailbox is the address it has written there, and the code in the
  answer has a bit of \<open>RESPONSE_SUCCESS\<close>; the address then is the text, 12 hexadecimal digits, of the six
  bytes read from the answer. Otherwise the address is what it was.
\<close>

theorem mac_query_outcome:
  assumes run: "run_state (RpiSetDeviceMacAddress os) w = (st, w')" and "held hs0 (trace w) = Some hs" and "reads_whole os"
  shows "held hs0 (trace w') = Some hs \<and>
    (\<exists>es. trace w' = trace w @ es \<and> length (reads MB_Read es) \<le> 10 \<and> length (writes MB_Write es) \<le> 1 \<and>
      (if NT_SUCCESS st
       then \<exists>p query f. es = query @ [(Mm (MmFreeContiguousMemory p), f)] \<and>
         mac_answered p query (parse_hex (macAddrStrGlobal w')) \<and> length (macAddrStrGlobal w') = 12
       else macAddrStrGlobal w' = macAddrStrGlobal w))"
proof -
  let ?c = "Mm (MmAllocateContiguousNodeMemory 32)"
  define m where "m = os (trace w) ?c"
  show ?thesis
  proof (cases "r_ptr m = 0")
    case True
    with run assms(2) show ?thesis
      by (intro conjI exI [of _ "[(?c, m)]"])
        (auto simp: RpiSetDeviceMacAddress_def read_of_def write_of_def simp flip: m_def)
  next
    case False
    let ?w1 = "w\<lparr>trace := trace w @ [(?c, m)]\<rparr>"
    obtain st1 w1 where q: "run_state (RpiSetDeviceMacAddress_query os (r_ptr m) (r_data m)) ?w1 = (st1, w1)"
      by (metis prod.exhaust)
    let ?f = "(Mm (MmFreeContiguousMemory (r_ptr m)), os (trace w1) (Mm (MmFreeContiguousMemory (r_ptr m))))"
    have w': "st = st1" "w' = w1\<lparr>trace := trace w1 @ [?f]\<rparr>"
      using run q False by (auto simp: RpiSetDeviceMacAddress_def m_def)
    have "held hs0 (trace w1) = Some (add_mset (Contiguous (r_ptr m)) hs)"
      using levelD [OF query_level q] assms(2) False by simp
    moreover from query_outcome [OF q assms(3)] obtain es where "trace w1 = trace ?w1 @ es"
        "length (reads MB_Read es) \<le> 10" "length (writes MB_Write es) \<le> 1"
        "if NT_SUCCESS st1 then mac_answered (r_ptr m) es (parse_hex (macAddrStrGlobal w1)) \<and> length (macAddrStrGlobal w1) = 12
         else macAddrStrGlobal w1 = macAddrStrGlobal ?w1" by blast
    moreover from this have "NT_SUCCESS st1 \<Longrightarrow> mac_answered (r_ptr m) ((?c, m) # es) (parse_hex (macAddrStrGlobal w1))"
      by (simp add: answered_Cons read_of_def write_of_def)
    ultimately show ?thesis
      unfolding w'
      by (intro conjI exI [of _ "((?c, m) # es) @ [?f]"])
        (auto simp: held_append read_of_def write_of_def split: if_splits)
  qed
qed

text \<open>A firmware that answers every byte with 0x80, and the request with its own address.\<close>

definition mac_os :: os where
  "mac_os tr c = (case c of
      Mm d \<Rightarrow> (case d of
          ReadRegister a \<Rightarrow> if a = MB_Read then ok_reply\<lparr>r_val := 0xC0000008\<rparr> else ok_reply
        | ReadShared p n \<Rightarrow> ok_reply\<lparr>r_data := replicate n 0x80\<rparr>
        | _ \<Rightarrow> ok_reply)
    | _ \<Rightarrow> ok_reply)"

theorem mac_query_outcome_witness:
  "\<exists>w'. run_state (RpiSetDeviceMacAddress mac_os) zero_rpiq = (STATUS_SUCCESS, w') \<and>
     held {#} (trace w') = Some {#} \<and> length (macAddrStrGlobal w') = 12"
proof -
  obtain st w' where run: "run_state (RpiSetDeviceMacAddress mac_os) zero_rpiq = (st, w')" by (metis prod.exhaust)
  have [simp]: "replicate 4 x = [x, x, x, x]" "replicate 6 x = [x, x, x, x, x, x]" for x :: u8
    by (simp_all add: numeral_eq_Suc)
  have "st = STATUS_SUCCESS"
    using run
    by (simp add: RpiSetDeviceMacAddress_def RpiSetDeviceMacAddress_query_def RpiqMailboxWrite_def mailbox_poll.simps
        mac_os_def ok_reply_def mac_poll.simps(2) [of _ _ _ 9, simplified] le32_def from_le32_def RtlStringCchPrintf_def hex2_def)
  with mac_query_outcome [OF run, of "{#}" "{#}"] run show ?thesis
    by (auto simp: zero_rpiq_def reads_whole_def mac_os_def)
qed

end
