(* ===== verification/Rpiq_Ndis.thy ===== *)
theory Rpiq_Ndis
  imports Rpiq_Mac
begin

text \<open>
  The search of the registry for the network adapter: it ends at the first class key that does
  not exist, and whatever it finds, every key it opens is closed and every buffer freed.
\<close>

section \<open>What the variables hold\<close>

definition held_by :: "ndis_vars \<Rightarrow> holding multiset" where
  "held_by v = (if SubKey v = 0 then {#} else {#KeyHandle (SubKey v)#}) +
     (if infoBuffer v = 0 then {#} else {#Pool (infoBuffer v)#})"

text \<open>Documented behaviour of \<open>ZwOpenKey\<close>: on success it gives a handle.\<close>

definition opens_handles :: "os \<Rightarrow> bool" where
  "opens_handles os \<longleftrightarrow> (\<forall>tr k s. NT_SUCCESS (r_status (os tr (Reg (ZwOpenKey k s)))) \<longrightarrow> r_ptr (os tr (Reg (ZwOpenKey k s))) \<noteq> 0)"

lemma match_level: "holds_level (RpiqSetNdisMacAddress_match os desc)"
  and set_level: "holds_level (RpiqSetNdisMacAddress_set os v)"
  unfolding RpiqSetNdisMacAddress_match_def RpiqSetNdisMacAddress_set_def
  by (intro level_rules)+

lemma query_holds:
  assumes "run_state (RpiqSetNdisMacAddress_query os v) w = ((r, desc, v'), w')" "infoBuffer v = 0"
    "held hs0 (trace w) = Some (hs + held_by v)"
  shows "held hs0 (trace w') = Some (hs + held_by v') \<and> SubKey v' = SubKey v \<and> Instance v' = Instance v \<and>
    MacSet w' = MacSet w"
  using assms
  by (auto simp: RpiqSetNdisMacAddress_query_def held_by_def hold_step_free held_append ac_simps split: if_splits)

lemma close_holds:
  "held hs0 (trace w) = Some (hs + (if h = 0 then {#} else {#KeyHandle h#})) \<Longrightarrow>
   held hs0 (trace (snd (run_state (close_handle os h) w))) = Some hs"
  "held hs0 (trace w) = Some (hs + (if h = 0 then {#} else {#Pool h#})) \<Longrightarrow>
   held hs0 (trace (snd (run_state (free_pool os h) w))) = Some hs"
  by (auto simp: close_handle_def free_pool_def)

lemma cleanup_holds:
  assumes "held hs0 (trace w) = Some (hs + held_by v)"
  shows "held hs0 (trace (snd (run_state (free_pool os (infoBuffer v)) (snd (run_state (close_handle os (SubKey v)) w))))) = Some hs"
proof (rule close_holds(2), rule close_holds(1))
  show "held hs0 (trace w) = Some (hs + (if infoBuffer v = 0 then {#} else {#Pool (infoBuffer v)#}) +
      (if SubKey v = 0 then {#} else {#KeyHandle (SubKey v)#}))"
    using assms by (simp add: held_by_def ac_simps)
qed

lemma found_holds:
  assumes run: "run_state (RpiqSetNdisMacAddress_found os st desc v) w = ((stop, st', v'), w')"
    and held: "held hs0 (trace w) = Some (hs + held_by v)"
  shows "held hs0 (trace w') = Some (hs + held_by v') \<and> Instance v' = Instance v \<and>
    (\<not> stop \<longrightarrow> SubKey v' = 0 \<and> infoBuffer v' = 0)"
proof -
  let ?m = "if st = STATUS_SUCCESS then do {
         do_when (infoBuffer v = 0) mb_undefined;
         RpiqSetNdisMacAddress_match os desc
       } else return False"
  obtain f w1 where m: "run_state ?m w = (f, w1)" by (metis prod.exhaust)
  have "holds_level ?m"
    unfolding mb_undefined_def by (intro level_rules match_level level_update) simp_all
  from levelD [OF this m held] have h1: "held hs0 (trace w1) = Some (hs + held_by v)" .
  show ?thesis
  proof (cases f)
    case True
    obtain st1 w2 where s: "run_state (RpiqSetNdisMacAddress_set os v) w1 = (st1, w2)" by (metis prod.exhaust)
    from levelD [OF set_level s h1] True run m s show ?thesis
      by (simp add: RpiqSetNdisMacAddress_found_def)
  next
    case False
    from cleanup_holds [OF h1, of os] run m False show ?thesis
      by (auto simp: RpiqSetNdisMacAddress_found_def held_by_def case_prod_unfold)
  qed
qed

section \<open>The loop\<close>

lemma turn_holds:
  assumes run: "run_state (RpiqSetNdisMacAddress_turn os base v) w = ((stop, st, v'), w')"
    and "opens_handles os" and vars: "SubKey v = 0" "infoBuffer v = 0" and held: "held hs0 (trace w) = Some hs"
  shows "held hs0 (trace w') = Some (hs + held_by v') \<and> Instance v' = Instance v + 1 \<and>
    (\<not> stop \<longrightarrow> SubKey v' = 0 \<and> infoBuffer v' = 0)"
proof -
  obtain pst name where print: "RtlStringCchPrintf 5 (decimal4 (unat (Instance v))) = (pst, name)" by (metis prod.exhaust)
  show ?thesis
  proof (cases "NT_SUCCESS pst")
    case False
    with run print vars held show ?thesis by (auto simp: RpiqSetNdisMacAddress_turn_def Let_def held_by_def)
  next
    case ok: True
    let ?c = "Reg (ZwOpenKey base name)"
    define k where "k = os (trace w) ?c"
    let ?w1 = "w\<lparr>trace := trace w @ [(?c, k)]\<rparr>" and ?v1 = "v\<lparr>Instance := Instance v + 1, SubKey := r_ptr k\<rparr>"
    show ?thesis
    proof (cases "NT_SUCCESS (r_status k)")
      case False
      with run print ok vars held show ?thesis
        by (auto simp: RpiqSetNdisMacAddress_turn_def Let_def held_by_def simp flip: k_def)
    next
      case True
      then have "r_ptr k \<noteq> 0" using assms(2) by (auto simp: opens_handles_def k_def)
      then have h1: "held hs0 (trace ?w1) = Some (hs + held_by ?v1)"
        using held vars True by (simp add: held_by_def)
      obtain r desc v2 w2 where q: "run_state (RpiqSetNdisMacAddress_query os ?v1) ?w1 = ((r, desc, v2), w2)"
        by (metis prod.exhaust)
      have h2: "held hs0 (trace w2) = Some (hs + held_by v2)" "Instance v2 = Instance v + 1"
        using query_holds [OF q _ h1] vars by simp_all
      show ?thesis
      proof (cases r)
        case None
        with run print ok True q h2 show ?thesis
          by (auto simp: RpiqSetNdisMacAddress_turn_def Let_def simp flip: k_def)
      next
        case (Some st2)
        then have "run_state (RpiqSetNdisMacAddress_found os st2 desc v2) w2 = ((stop, st, v'), w')"
          using run print ok True q by (auto simp: RpiqSetNdisMacAddress_turn_def Let_def simp flip: k_def)
        from found_holds [OF this h2(1)] h2(2) show ?thesis by simp
      qed
    qed
  qed
qed

lemma length_decimal: "0 < m \<Longrightarrow> n < 10 ^ m \<Longrightarrow> length (decimal n) \<le> m"
proof (induction m arbitrary: n)
  case (Suc m)
  show ?case
  proof (cases "n < 10")
    case True
    then show ?thesis by (simp add: decimal.simps [of n])
  next
    case False
    then have "n div 10 < 10 ^ m" "0 < m" using Suc.prems by (cases m, auto simp: less_mult_imp_div_less)+
    with Suc.IH [of "n div 10"] False show ?thesis by (simp add: decimal.simps [of n])
  qed
qed simp

lemma key_name: "n < 10000 \<Longrightarrow> RtlStringCchPrintf 5 (decimal4 n) = (STATUS_SUCCESS, decimal4 n)"
  using length_decimal [of 4 n] by (simp add: RtlStringCchPrintf_def decimal4_def)

text \<open>The first class key that is not there.\<close>

definition key_missing :: "os \<Rightarrow> nat \<Rightarrow> bool" where
  "key_missing os n \<longleftrightarrow> (\<forall>tr base. r_status (os tr (Reg (ZwOpenKey base (decimal4 n)))) = STATUS_OBJECT_NAME_NOT_FOUND)"

lemma turn_missing:
  assumes "key_missing os n" "n < 10000" "unat (Instance v) = n"
    and run: "run_state (RpiqSetNdisMacAddress_turn os base v) w = ((stop, st, v'), w')"
  shows "\<not> stop \<and> st = STATUS_OBJECT_NAME_NOT_FOUND"
  using assms by (auto simp: RpiqSetNdisMacAddress_turn_def key_name key_missing_def Let_def)

lemma loop_holds:
  assumes "opens_handles os" "key_missing os n" "n < 10000"
    and "SubKey v = 0" "infoBuffer v = 0" "held hs0 (trace w) = Some hs"
    and "st = STATUS_OBJECT_NAME_NOT_FOUND \<or> unat (Instance v) + k = n + 1 \<and> k \<noteq> 0" "k \<le> fuel"
  shows "\<exists>st' v' w'. run_state (RpiqSetNdisMacAddress_loop os base st v fuel) w = (Some (st', v'), w') \<and>
    held hs0 (trace w') = Some (hs + held_by v')"
  using assms
proof (induction fuel arbitrary: st v w k)
  case 0
  then show ?case by (auto simp: RpiqSetNdisMacAddress_loop.simps held_by_def)
next
  case (Suc fuel)
  show ?case
  proof (cases "st = STATUS_OBJECT_NAME_NOT_FOUND")
    case True
    with Suc.prems show ?thesis by (auto simp: RpiqSetNdisMacAddress_loop.simps held_by_def)
  next
    case False
    then have k: "unat (Instance v) + k = n + 1" "k \<noteq> 0" using Suc.prems by auto
    obtain stop st1 v1 w1 where t: "run_state (RpiqSetNdisMacAddress_turn os base v) w = ((stop, st1, v1), w1)"
      by (metis prod.exhaust)
    note h = turn_holds [OF t Suc.prems(1,4,5,6)]
    show ?thesis
    proof (cases stop)
      case True
      with False t h show ?thesis by (simp add: RpiqSetNdisMacAddress_loop.simps [of _ _ st])
    next
      case go: False
      have "st1 = STATUS_OBJECT_NAME_NOT_FOUND \<or> unat (Instance v1) + (k - 1) = n + 1 \<and> k - 1 \<noteq> 0"
      proof (cases "k = 1")
        case True
        with turn_missing [OF Suc.prems(2,3) _ t] k show ?thesis by simp
      next
        case False
        have "unat (Instance v + 1) = unat (Instance v) + 1"
          using k Suc.prems(3) by (simp add: unat_word_ariths)
        with h k False show ?thesis by simp
      qed
      moreover have "held hs0 (trace w1) = Some hs" using h go by (simp add: held_by_def)
      ultimately have "\<exists>st' v' w'. run_state (RpiqSetNdisMacAddress_loop os base st1 v1 fuel) w1 = (Some (st', v'), w') \<and>
          held hs0 (trace w') = Some (hs + held_by v')"
        using Suc.IH [OF Suc.prems(1,2,3), of v1 w1 st1 "k - 1"] h go Suc.prems(8) by simp
      with False t go show ?thesis by (simp add: RpiqSetNdisMacAddress_loop.simps [of _ _ st])
    qed
  qed
qed

text \<open>
  C34. The search for the network adapter ends and leaves nothing open: when some class key
  \<open>n\<close> below 10000 does not exist, \<open>n + 1\<close> turns of the loop are enough, and whatever the registry
  holds, fails and answers, each key that was opened has been closed once and each buffer freed
  once.
\<close>

theorem ndis_search_closes:
  assumes "opens_handles os" "key_missing os n" "n < 10000" "n < fuel" "held hs0 (trace w) = Some hs"
  shows "\<exists>st w'. run_state (RpiqSetNdisMacAddress os fuel) w = (Some st, w') \<and> held hs0 (trace w') = Some hs"
proof (cases "MacSet w")
  case True
  with assms show ?thesis by (simp add: RpiqSetNdisMacAddress_def)
next
  case False
  let ?c = "Reg (ZwOpenKey 0 ''Class'')"
  define k where "k = os (trace w) ?c"
  let ?v = "\<lparr>Instance = 0, SubKey = 0, infoBuffer = 0, infoBufferLength = 0\<rparr>"
  let ?w1 = "w\<lparr>MacSet := True, trace := trace w @ [(?c, k)]\<rparr>"
  show ?thesis
  proof (cases "NT_SUCCESS (r_status k)")
    case bad: False
    with False assms(5) show ?thesis by (simp add: RpiqSetNdisMacAddress_def flip: k_def)
  next
    case True
    then have k: "r_ptr k \<noteq> 0" using assms(1) by (auto simp: opens_handles_def k_def)
    with True assms(5) have "held hs0 (trace ?w1) = Some (add_mset (KeyHandle (r_ptr k)) hs)" by simp
    from loop_holds [OF assms(1-3) _ _ this, of ?v "r_status k" "n + 1" fuel "r_ptr k"] assms(4)
    obtain st v w2 where l: "run_state (RpiqSetNdisMacAddress_loop os (r_ptr k) (r_status k) ?v fuel) ?w1 = (Some (st, v), w2)"
        "held hs0 (trace w2) = Some (add_mset (KeyHandle (r_ptr k)) hs + held_by v)" by auto
    obtain w3 where w3: "run_state (close_handle os (r_ptr k)) w2 = ((), w3)" by (metis old.unit.exhaust prod.exhaust)
    have "held hs0 (trace w3) = Some (hs + held_by v)"
      using close_holds(1) [of hs0 w2 "hs + held_by v" "r_ptr k" os] l(2) k w3 by (simp add: ac_simps)
    from cleanup_holds [OF this, of os] True False l(1) w3 show ?thesis
      by (simp add: RpiqSetNdisMacAddress_def case_prod_unfold flip: k_def)
  qed
qed

text \<open>A registry with one key, of the adapter that is looked for.\<close>

definition one_key :: os where
  "one_key tr c = (case c of
      Reg d \<Rightarrow> (case d of
          ZwOpenKey h s \<Rightarrow> if s = decimal4 1 then ok_reply\<lparr>r_status := STATUS_OBJECT_NAME_NOT_FOUND\<rparr> else ok_reply
        | ZwQueryValueKey h s n \<Rightarrow> if s = ''DriverDesc'' \<and> n = 0
            then ok_reply\<lparr>r_status := STATUS_BUFFER_TOO_SMALL, r_len := 20\<rparr> else ok_reply
        | _ \<Rightarrow> ok_reply\<lparr>r_val := 1\<rparr>)
    | _ \<Rightarrow> ok_reply)"

theorem ndis_search_closes_witness:
  "\<exists>st w'. run_state (RpiqSetNdisMacAddress one_key 2) zero_rpiq = (Some st, w') \<and> held {#} (trace w') = Some {#}"
  by (rule ndis_search_closes [where n = 1])
    (auto simp: opens_handles_def key_missing_def one_key_def ok_reply_def zero_rpiq_def)

end
