(* ===== verification/Sdhc_Types.thy ===== *)
theory Sdhc_Types
  imports Kernel
begin

text \<open>
  The SD host controller driver (\<open>bcm2836sdhc.c\<close>, \<open>bcm2836sdhc.h\<close>): registers, the requests of the
  port driver, and the extension of the slot.

  The port driver (\<open>sdport.sys\<close>) is not under \<open>src/\<close>: its requests are modelled by the fields the
  driver reads and writes, and the layout of the argument of command 53 (\<open>sddef.h\<close>) is a
  parameter of the definitions that use it.
\<close>

section \<open>Registers\<close>

abbreviation (input) SDHC_SYSADDR :: nat where "SDHC_SYSADDR \<equiv> 0x00"
abbreviation (input) SDHC_BLOCK_SIZE_COUNT :: nat where "SDHC_BLOCK_SIZE_COUNT \<equiv> 0x04"
abbreviation (input) SDHC_ARGUMENT :: nat where "SDHC_ARGUMENT \<equiv> 0x08"
abbreviation (input) SDHC_TRANSFER_MODE_COMMAND :: nat where "SDHC_TRANSFER_MODE_COMMAND \<equiv> 0x0c"
abbreviation (input) SDHC_RESPONSE_0 :: nat where "SDHC_RESPONSE_0 \<equiv> 0x10"
abbreviation (input) SDHC_RESPONSE_1 :: nat where "SDHC_RESPONSE_1 \<equiv> 0x14"
abbreviation (input) SDHC_RESPONSE_2 :: nat where "SDHC_RESPONSE_2 \<equiv> 0x18"
abbreviation (input) SDHC_RESPONSE_3 :: nat where "SDHC_RESPONSE_3 \<equiv> 0x1c"
abbreviation (input) SDHC_DATA_PORT :: nat where "SDHC_DATA_PORT \<equiv> 0x20"
abbreviation (input) SDHC_CONTROL_0 :: nat where "SDHC_CONTROL_0 \<equiv> 0x28"
abbreviation (input) SDHC_CONTROL_1 :: nat where "SDHC_CONTROL_1 \<equiv> 0x2c"
abbreviation (input) SDHC_INTERRUPT_ERROR_STATUS :: nat where "SDHC_INTERRUPT_ERROR_STATUS \<equiv> 0x30"
abbreviation (input) SDHC_INTERRUPT_ERROR_STATUS_ENABLE :: nat where "SDHC_INTERRUPT_ERROR_STATUS_ENABLE \<equiv> 0x34"
abbreviation (input) SDHC_INTERRUPT_ERROR_SIGNAL_ENABLE :: nat where "SDHC_INTERRUPT_ERROR_SIGNAL_ENABLE \<equiv> 0x38"
abbreviation (input) SDHC_CONTROL_2 :: nat where "SDHC_CONTROL_2 \<equiv> 0x3c"
abbreviation (input) SDHC_MAXIMUM_CURRENT :: nat where "SDHC_MAXIMUM_CURRENT \<equiv> 0x48"
abbreviation (input) SDHC_SLOT_INFORMATION_VERSION :: nat where "SDHC_SLOT_INFORMATION_VERSION \<equiv> 0xfc"

text \<open>Bits of the transfer mode, of the command, and of the controls.\<close>

abbreviation (input) SDHC_TM_DMA_ENABLE :: u16 where "SDHC_TM_DMA_ENABLE \<equiv> 0x0001"
abbreviation (input) SDHC_TM_BLKCNT_ENABLE :: u16 where "SDHC_TM_BLKCNT_ENABLE \<equiv> 0x0002"
abbreviation (input) SDHC_TM_AUTO_CMD12_ENABLE :: u16 where "SDHC_TM_AUTO_CMD12_ENABLE \<equiv> 0x0004"
abbreviation (input) SDHC_TM_AUTO_CMD23_ENABLE :: u16 where "SDHC_TM_AUTO_CMD23_ENABLE \<equiv> 0x0008"
abbreviation (input) SDHC_TM_TRANSFER_READ :: u16 where "SDHC_TM_TRANSFER_READ \<equiv> 0x0010"
abbreviation (input) SDHC_TM_MULTIBLOCK :: u16 where "SDHC_TM_MULTIBLOCK \<equiv> 0x0020"
abbreviation (input) SDHC_CMD_RESPONSE_136BIT :: u32 where "SDHC_CMD_RESPONSE_136BIT \<equiv> 0x00010000"
abbreviation (input) SDHC_CMD_RESPONSE_48BIT_NOBUSY :: u32 where "SDHC_CMD_RESPONSE_48BIT_NOBUSY \<equiv> 0x00020000"
abbreviation (input) SDHC_CMD_RESPONSE_48BIT_WBUSY :: u32 where "SDHC_CMD_RESPONSE_48BIT_WBUSY \<equiv> 0x00030000"
abbreviation (input) SDHC_CMD_CRC_CHECK_ENABLE :: u32 where "SDHC_CMD_CRC_CHECK_ENABLE \<equiv> 0x00080000"
abbreviation (input) SDHC_CMD_INDEX_CHECK_ENABLE :: u32 where "SDHC_CMD_INDEX_CHECK_ENABLE \<equiv> 0x00100000"
abbreviation (input) SDHC_CMD_DATA_PRESENT :: u32 where "SDHC_CMD_DATA_PRESENT \<equiv> 0x00200000"
abbreviation (input) SDHC_CMD_TYPE_SUSPEND :: u32 where "SDHC_CMD_TYPE_SUSPEND \<equiv> 0x00400000"
abbreviation (input) SDHC_CMD_TYPE_RESUME :: u32 where "SDHC_CMD_TYPE_RESUME \<equiv> 0x00800000"
abbreviation (input) SDHC_CMD_TYPE_ABORT :: u32 where "SDHC_CMD_TYPE_ABORT \<equiv> 0x00600000"
abbreviation (input) SDHC_HC_DATA_WIDTH_4BIT :: u32 where "SDHC_HC_DATA_WIDTH_4BIT \<equiv> 0x02"
abbreviation (input) SDHC_HC_ENABLE_HIGH_SPEED :: u32 where "SDHC_HC_ENABLE_HIGH_SPEED \<equiv> 0x04"
abbreviation (input) SDHC_HC_DATA_WIDTH_8BIT :: u32 where "SDHC_HC_DATA_WIDTH_8BIT \<equiv> 0x20"
abbreviation (input) SDHC_BGC_STOP_NEXT_GAP :: u32 where "SDHC_BGC_STOP_NEXT_GAP \<equiv> 0x010000"
abbreviation (input) SDHC_BGC_CONTINUE :: u32 where "SDHC_BGC_CONTINUE \<equiv> 0x020000"
abbreviation (input) SDHC_CC_INTERNAL_CLOCK_ENABLE :: u32 where "SDHC_CC_INTERNAL_CLOCK_ENABLE \<equiv> 0x0001"
abbreviation (input) SDHC_CC_CLOCK_STABLE :: u32 where "SDHC_CC_CLOCK_STABLE \<equiv> 0x0002"
abbreviation (input) SDHC_CC_CLOCK_ENABLE :: u32 where "SDHC_CC_CLOCK_ENABLE \<equiv> 0x0004"
abbreviation (input) SDHC_TC_COUNTER_MASK :: u32 where "SDHC_TC_COUNTER_MASK \<equiv> 0x0f0000"
abbreviation (input) SDHC_TC_MAX_DATA_TIMEOUT :: u32 where "SDHC_TC_MAX_DATA_TIMEOUT \<equiv> 0x0e0000"
abbreviation (input) SDHC_RESET_ALL :: u32 where "SDHC_RESET_ALL \<equiv> 0x01000000"
abbreviation (input) SDHC_RESET_CMD :: u32 where "SDHC_RESET_CMD \<equiv> 0x02000000"
abbreviation (input) SDHC_RESET_DAT :: u32 where "SDHC_RESET_DAT \<equiv> 0x04000000"
abbreviation (input) SDHC_HC2_UHS_MODES :: u32 where "SDHC_HC2_UHS_MODES \<equiv> 0x00070000"
abbreviation (input) SDHC_HC2_EXECUTE_TUNING :: u32 where "SDHC_HC2_EXECUTE_TUNING \<equiv> 0x00400000"
abbreviation (input) SDHC_HC2_SDR12 :: u32 where "SDHC_HC2_SDR12 \<equiv> 0"
abbreviation (input) SDHC_HC2_SDR25 :: u32 where "SDHC_HC2_SDR25 \<equiv> 0x00010000"
abbreviation (input) SDHC_HC2_SDR50 :: u32 where "SDHC_HC2_SDR50 \<equiv> 0x00020000"
abbreviation (input) SDHC_MAX_CLOCK_DIVISOR :: u32 where "SDHC_MAX_CLOCK_DIVISOR \<equiv> 256"
abbreviation (input) SDHC_MAX_CLOCK_DIVISOR_SPEC_3 :: u32 where "SDHC_MAX_CLOCK_DIVISOR_SPEC_3 \<equiv> 2046"
abbreviation (input) SDHC_REG_LOWER_HALF_MASK :: u32 where "SDHC_REG_LOWER_HALF_MASK \<equiv> 0x0000FFFF"
abbreviation (input) SDHC_REG_UPPER_HALF_MASK :: u32 where "SDHC_REG_UPPER_HALF_MASK \<equiv> 0xFFFF0000"
abbreviation (input) SDHC_SPEC_VERSION_3 :: u16 where "SDHC_SPEC_VERSION_3 \<equiv> 2"

text \<open>Interrupts and errors.\<close>

abbreviation (input) SDHC_IS_CMD_COMPLETE :: u32 where "SDHC_IS_CMD_COMPLETE \<equiv> 0x0001"
abbreviation (input) SDHC_IS_TRANSFER_COMPLETE :: u32 where "SDHC_IS_TRANSFER_COMPLETE \<equiv> 0x0002"
abbreviation (input) SDHC_IS_BUFFER_WRITE_READY :: u32 where "SDHC_IS_BUFFER_WRITE_READY \<equiv> 0x0010"
abbreviation (input) SDHC_IS_BUFFER_READ_READY :: u32 where "SDHC_IS_BUFFER_READ_READY \<equiv> 0x0020"
abbreviation (input) SDHC_IS_CARD_DETECT :: u32 where "SDHC_IS_CARD_DETECT \<equiv> 0x00C0"
abbreviation (input) SDHC_IS_CARD_INTERRUPT :: u32 where "SDHC_IS_CARD_INTERRUPT \<equiv> 0x0100"
abbreviation (input) SDHC_IS_TUNING_INTERRUPT :: u32 where "SDHC_IS_TUNING_INTERRUPT \<equiv> 0x1000"
abbreviation (input) SDHC_IS_ERROR_INTERRUPT :: u32 where "SDHC_IS_ERROR_INTERRUPT \<equiv> 0x8000"
abbreviation (input) SDHC_IS_COMMAND_EVENT :: u32 where "SDHC_IS_COMMAND_EVENT \<equiv> 0x0033"
abbreviation (input) SDHC_ALL_EVENTS :: u32 where "SDHC_ALL_EVENTS \<equiv> 0xFFFF91F3"
abbreviation (input) SDHC_ES_CMD_TIMEOUT :: u16 where "SDHC_ES_CMD_TIMEOUT \<equiv> 0x0001"
abbreviation (input) SDHC_ES_CMD_CRC_ERROR :: u16 where "SDHC_ES_CMD_CRC_ERROR \<equiv> 0x0002"
abbreviation (input) SDHC_ES_CMD_END_BIT_ERROR :: u16 where "SDHC_ES_CMD_END_BIT_ERROR \<equiv> 0x0004"
abbreviation (input) SDHC_ES_CMD_INDEX_ERROR :: u16 where "SDHC_ES_CMD_INDEX_ERROR \<equiv> 0x0008"
abbreviation (input) SDHC_ES_DATA_TIMEOUT :: u16 where "SDHC_ES_DATA_TIMEOUT \<equiv> 0x0010"
abbreviation (input) SDHC_ES_DATA_CRC_ERROR :: u16 where "SDHC_ES_DATA_CRC_ERROR \<equiv> 0x0020"
abbreviation (input) SDHC_ES_DATA_END_BIT_ERROR :: u16 where "SDHC_ES_DATA_END_BIT_ERROR \<equiv> 0x0040"
abbreviation (input) SDHC_ES_BUS_POWER_ERROR :: u16 where "SDHC_ES_BUS_POWER_ERROR \<equiv> 0x0080"

section \<open>Requests of the port driver\<close>

datatype sd_bus_type = SdBusTypeAcpi | SdBusTypePci | SdBusTypeOther
datatype sd_reset_type = SdResetTypeAll | SdResetTypeCmd | SdResetTypeDat | SdResetTypeOther
datatype sd_bus_speed = SdBusSpeedNormal | SdBusSpeedHigh | SdBusSpeedSDR12 | SdBusSpeedSDR25 | SdBusSpeedSDR50
  | SdBusSpeedDDR50 | SdBusSpeedSDR104 | SdBusSpeedHS200 | SdBusSpeedHS400 | SdBusSpeedOther
datatype sd_request_type = SdRequestTypeCommandNoTransfer | SdRequestTypeCommandWithTransfer
  | SdRequestTypeStartTransfer | SdRequestTypeOther
datatype sd_command_type = SdCommandTypeSuspend | SdCommandTypeResume | SdCommandTypeAbort | SdCommandTypeOther
datatype sd_response_type = SdResponseTypeNone | SdResponseTypeR1 | SdResponseTypeR1B | SdResponseTypeR2
  | SdResponseTypeR3 | SdResponseTypeR4 | SdResponseTypeR5 | SdResponseTypeR5B | SdResponseTypeR6 | SdResponseTypeOther
datatype sd_transfer_type = SdTransferTypeUndefined | SdTransferTypeNone | SdTransferTypeSingleBlock | SdTransferTypeMultiBlock
datatype sd_transfer_direction = SdTransferDirectionUndefined | SdTransferDirectionRead | SdTransferDirectionWrite
datatype sd_transfer_method = SdTransferMethodUndefined | SdTransferMethodPio | SdTransferMethodSgDma

record SDPORT_COMMAND =
  Index :: u8
  CommandType :: sd_command_type
  Argument :: u32
  ResponseType :: sd_response_type
  TransferType :: sd_transfer_type
  TransferDirection :: sd_transfer_direction
  TransferMethod :: sd_transfer_method
  BlockCount :: u16
  BlockSize :: u16
  Length :: u32
  DataBuffer :: nat
  DmaVirtualAddress :: nat
  ScatterGatherList :: nat
  ScatterGatherListSize :: u32

record SDPORT_REQUEST =
  RequestType :: sd_request_type
  Command :: SDPORT_COMMAND
  RequiredEvents :: u32
  Status :: ntstatus

text \<open>The bit fields of the argument of command 53, of \<open>sddef.h\<close>.\<close>

record SD_RW_EXTENDED_ARGUMENT =
  with_Count :: "u32 \<Rightarrow> u32 \<Rightarrow> u32"
  with_BlockMode :: "u32 \<Rightarrow> u32 \<Rightarrow> u32"
  OpCode :: "u32 \<Rightarrow> u32"
  add_Address :: "u32 \<Rightarrow> u32 \<Rightarrow> u32"

abbreviation (input) SDCMD_IO_RW_EXTENDED :: u8 where "SDCMD_IO_RW_EXTENDED \<equiv> 53"

section \<open>The extension of the slot\<close>

datatype BLOCKSIZE_UNALIGNED_REQ_STATE = UnalignedReqStateIdle | UnalignedReqStateReady
  | UnalignedReqStateSendCommand | UnalignedReqStateStartTransfer

datatype SDHC_SPEED_MODE = SdhcSpeedModeNormal | SdhcSpeedModeHigh | SdhcSpeedModeSDR50 | SdhcSpeedModeDDR50
  | SdhcSpeedModeSDR104 | SdhcSpeedModeHS200 | SdhcSpeedModeHS400

record SDPORT_SUPPORTED =
  ScatterGatherDma :: bool
  Address64Bit :: bool
  BusWidth8Bit :: bool
  HighSpeed :: bool
  SDR50 :: bool
  DDR50 :: bool
  SDR104 :: bool
  SignalingVoltage18V :: bool
  HS200 :: bool
  HS400 :: bool
  DriverTypeA :: bool
  DriverTypeB :: bool
  DriverTypeC :: bool
  TuningForSDR50 :: bool
  SoftwareTuning :: bool
  AutoCmd12 :: bool
  AutoCmd23 :: bool
  Voltage18V :: bool
  Voltage30V :: bool
  Voltage33V :: bool
  Limit200mA :: bool
  Limit400mA :: bool
  Limit600mA :: bool
  Limit800mA :: bool

record SDPORT_CAPABILITIES =
  SpecVersion :: u16
  MaximumOutstandingRequests :: u32
  MaximumBlockSize :: u16
  MaximumBlockCount :: u16
  BaseClockFrequencyKhz :: u32
  DmaDescriptorSize :: u32
  Supported :: SDPORT_SUPPORTED

text \<open>
  A request is named by its address: 0 is \<open>NULL\<close> and \<open>UnalignedRequest\<close> the request inside the
  extension. \<open>mem\<close> is the memory of the data buffers.
\<close>

abbreviation (input) UnalignedRequest :: handle where "UnalignedRequest \<equiv> 1"

record sdhc = kernel +
  Removable :: bool
  Capabilities :: SDPORT_CAPABILITIES
  SpeedMode :: SDHC_SPEED_MODE
  OutstandingRequest :: handle
  CurrentEvents :: u32
  UnalignedReqState :: BLOCKSIZE_UNALIGNED_REQ_STATE
  CrashdumpMode :: bool
  CmdIssued :: u32
  CmdCompleted :: u32
  CmdAborted :: u32
  WorkAroundOffset :: u32
  requests :: "handle \<Rightarrow> SDPORT_REQUEST"
  mem :: "nat \<Rightarrow> u8"
  sd_ub :: bool

definition sd_undefined :: "(sdhc, unit) state" where
  "sd_undefined = update (sd_ub_update (\<lambda>_. True))"

definition update_request :: "handle \<Rightarrow> (SDPORT_REQUEST \<Rightarrow> SDPORT_REQUEST) \<Rightarrow> (sdhc, unit) state" where
  "update_request r f = update (requests_update (\<lambda>q. q(r := f (q r))))"

definition update_command :: "handle \<Rightarrow> (SDPORT_COMMAND \<Rightarrow> SDPORT_COMMAND) \<Rightarrow> (sdhc, unit) state" where
  "update_command r f = update_request r (Command_update f)"

lemma run_sd_updates [simp, run]:
  "run_state sd_undefined w = ((), w\<lparr>sd_ub := True\<rparr>)"
  "run_state (update_request r f) w = ((), w\<lparr>requests := (requests w)(r := f (requests w r))\<rparr>)"
  "run_state (update_command r g) w = ((), w\<lparr>requests := (requests w)(r := Command_update g (requests w r))\<rparr>)"
  by (simp_all add: sd_undefined_def update_request_def update_command_def)

text \<open>Register access, through the port driver.\<close>

definition SdhcWriteRegisterUlong :: "os \<Rightarrow> nat \<Rightarrow> u32 \<Rightarrow> (sdhc, unit) state" where
  "SdhcWriteRegisterUlong os Register Data = do { _ \<leftarrow> ext os (Mm (WriteRegister Register Data)); return () }"

definition SdhcReadRegisterUlong :: "os \<Rightarrow> nat \<Rightarrow> (sdhc, u32) state" where
  "SdhcReadRegisterUlong os Register = do { r \<leftarrow> ext os (Mm (ReadRegister Register)); return (r_val r) }"

definition SdPortWait' :: "os \<Rightarrow> u32 \<Rightarrow> (sdhc, unit) state" where
  "SdPortWait' os n = do { _ \<leftarrow> ext os (Sd (SdPortWait n)); return () }"

lemma run_registers [simp, run]:
  "run_state (SdhcWriteRegisterUlong os reg v) w =
     ((), w\<lparr>trace := trace w @ [(Mm (WriteRegister reg v), os (trace w) (Mm (WriteRegister reg v)))]\<rparr>)"
  "run_state (SdhcReadRegisterUlong os reg) w =
     (r_val (os (trace w) (Mm (ReadRegister reg))), w\<lparr>trace := trace w @ [(Mm (ReadRegister reg), os (trace w) (Mm (ReadRegister reg)))]\<rparr>)"
  "run_state (SdPortWait' os n) w = ((), w\<lparr>trace := trace w @ [(Sd (SdPortWait n), os (trace w) (Sd (SdPortWait n)))]\<rparr>)"
  by (simp_all add: SdhcWriteRegisterUlong_def SdhcReadRegisterUlong_def SdPortWait'_def)

text \<open>A slot with nothing to do.\<close>

definition idle_sdhc :: sdhc where
  "idle_sdhc = \<lparr>trace = [], Removable = False,
     Capabilities = \<lparr>SpecVersion = 2, MaximumOutstandingRequests = 1, MaximumBlockSize = 1024, MaximumBlockCount = 65535,
       BaseClockFrequencyKhz = 100000, DmaDescriptorSize = 0, Supported = undefined\<rparr>,
     SpeedMode = SdhcSpeedModeNormal, OutstandingRequest = 0, CurrentEvents = 0, UnalignedReqState = UnalignedReqStateIdle,
     CrashdumpMode = False, CmdIssued = 0, CmdCompleted = 0, CmdAborted = 0, WorkAroundOffset = 0, requests = undefined,
     mem = of_nat, sd_ub = False\<rparr>"

end
