(* ===== verification/Sdhc_Host.thy ===== *)
theory Sdhc_Host
  imports Sdhc_Types
begin

text \<open>
  The slot and the operations of the bus (\<open>bcm2836sdhc.c\<close>, to \<open>SdhcIsWriteProtected\<close>, and
  \<open>SdhcCalcClockFrequency\<close>, \<open>SdhcGetHwUhsMode\<close>): start-up, reset, clock, width, speed, tuning, and
  the enabling, reading and acknowledging of interrupts.
\<close>

section \<open>The driver and its slot\<close>

text \<open>The override of \<open>WorkAroundOffset\<close> in the registry: the first byte of the value is taken.\<close>

definition read_workaround_offset :: "os \<Rightarrow> bool \<Rightarrow> (sdhc, unit) state" where
  "read_workaround_offset os is_dword = do {
     k \<leftarrow> ext os (Reg (ZwOpenKey 0 ''bcm2836sdhc''));
     do_when (NT_SUCCESS (r_status k)) (do {
       v \<leftarrow> ext os (Reg (ZwQueryValueKey (r_ptr k) ''WorkAroundOffset'' 528));
       do_when (NT_SUCCESS (r_status v) \<and> is_dword)
         (update (WorkAroundOffset_update (\<lambda>_. ucast (hd (r_data v)))));
       _ \<leftarrow> ext os (Ke (ZwClose (r_ptr k)));
       return ()
     })
   }"

definition SdhcGetSlotCount :: "sd_bus_type \<Rightarrow> ntstatus \<times> u8" where
  "SdhcGetSlotCount BusType = (case BusType of
      SdBusTypeAcpi \<Rightarrow> (STATUS_SUCCESS, 1)
    | SdBusTypePci \<Rightarrow> (STATUS_INVALID_PARAMETER, 1)
    | SdBusTypeOther \<Rightarrow> (STATUS_INVALID_PARAMETER, 1))"

definition SdhcGetSlotCapabilities :: "(sdhc, SDPORT_CAPABILITIES) state" where
  "SdhcGetSlotCapabilities = do { w \<leftarrow> get; return (Capabilities w) }"

definition slot_supported :: "SDPORT_SUPPORTED \<Rightarrow> SDPORT_SUPPORTED" where
  "slot_supported s = s\<lparr>ScatterGatherDma := False, Address64Bit := False, BusWidth8Bit := False, HighSpeed := True,
     SDR50 := False, DDR50 := False, SDR104 := False, SignalingVoltage18V := False, HS200 := False, HS400 := False,
     DriverTypeA := True, DriverTypeB := True, DriverTypeC := True, TuningForSDR50 := False, SoftwareTuning := False,
     AutoCmd12 := True, AutoCmd23 := False, Voltage18V := False, Voltage30V := False, Voltage33V := True\<rparr>"

definition slot_capabilities :: "u32 \<Rightarrow> SDPORT_CAPABILITIES \<Rightarrow> SDPORT_CAPABILITIES" where
  "slot_capabilities version c = c\<lparr>SpecVersion := ucast (drop_bit 16 version) AND 0xFF, MaximumOutstandingRequests := 1,
     MaximumBlockSize := 512, MaximumBlockCount := 0xFFFF, BaseClockFrequencyKhz := 250 * 1000,
     DmaDescriptorSize := 0, Supported := slot_supported (Supported c)\<rparr>"

text \<open>
  The limits of the current are read and compared, but the statements for them set nothing, so
  only the read is left of them. A zeroed request stands in for \<open>RtlZeroMemory\<close>.
\<close>

definition SdhcSlotInitialize :: "os \<Rightarrow> bool \<Rightarrow> SDPORT_REQUEST \<Rightarrow> (sdhc, ntstatus) state" where
  "SdhcSlotInitialize os Crashdump zeroed = do {
     update (CrashdumpMode_update (\<lambda>_. Crashdump));
     v \<leftarrow> SdhcReadRegisterUlong os SDHC_SLOT_INFORMATION_VERSION;
     update (Capabilities_update (slot_capabilities v));
     _ \<leftarrow> SdhcReadRegisterUlong os SDHC_MAXIMUM_CURRENT;
     update (UnalignedReqState_update (\<lambda>_. UnalignedReqStateIdle));
     update_request UnalignedRequest (\<lambda>_. zeroed);
     update (OutstandingRequest_update (\<lambda>_. 0));
     SdhcWriteRegisterUlong os SDHC_INTERRUPT_ERROR_STATUS_ENABLE 0;
     SdhcWriteRegisterUlong os SDHC_INTERRUPT_ERROR_SIGNAL_ENABLE 0;
     return STATUS_SUCCESS
   }"

definition SdhcIsCardInserted :: bool where "SdhcIsCardInserted = True"
definition SdhcIsWriteProtected :: bool where "SdhcIsWriteProtected = False"
definition SdhcSlotGetCardDetectState :: bool where "SdhcSlotGetCardDetectState = SdhcIsCardInserted"
definition SdhcSlotGetWriteProtectState :: bool where "SdhcSlotGetWriteProtectState = SdhcIsWriteProtected"

section \<open>Reset\<close>

text \<open>The wait until the bits of \<open>mask\<close> read as \<open>want\<close>; \<open>None\<close> when it gives up.\<close>

fun wait_control :: "os \<Rightarrow> (u32 \<Rightarrow> bool) \<Rightarrow> nat \<Rightarrow> (sdhc, u32 option) state" where
  "wait_control os ready 0 = return None"
| "wait_control os ready (Suc n) = do {
     reg \<leftarrow> SdhcReadRegisterUlong os SDHC_CONTROL_1;
     if ready reg then return (Some reg)
     else do {
       SdPortWait' os 1;
       wait_control os ready n
     }
   }"

definition reset_mask :: "sd_reset_type \<Rightarrow> u32 option" where
  "reset_mask t = (case t of
      SdResetTypeAll \<Rightarrow> Some SDHC_RESET_ALL
    | SdResetTypeCmd \<Rightarrow> Some SDHC_RESET_CMD
    | SdResetTypeDat \<Rightarrow> Some SDHC_RESET_DAT
    | SdResetTypeOther \<Rightarrow> None)"

definition SdhcResetHost :: "os \<Rightarrow> sd_reset_type \<Rightarrow> (sdhc, ntstatus) state" where
  "SdhcResetHost os ResetType = (case reset_mask ResetType of
      None \<Rightarrow> return STATUS_INVALID_PARAMETER
    | Some Mask \<Rightarrow> do {
        w \<leftarrow> get;
        update (OutstandingRequest_update (\<lambda>_. 0));
        do_when (OutstandingRequest w \<noteq> 0) (update (CmdAborted_update (\<lambda>n. n + 1)));
        update (UnalignedReqState_update (\<lambda>_. UnalignedReqStateIdle));
        Control1 \<leftarrow> SdhcReadRegisterUlong os SDHC_CONTROL_1;
        SdhcWriteRegisterUlong os SDHC_CONTROL_1 (Control1 OR Mask);
        r \<leftarrow> wait_control os (\<lambda>reg. reg AND Mask = 0) 99;
        case r of
          None \<Rightarrow> return STATUS_TIMEOUT
        | Some _ \<Rightarrow> do {
            SdhcWriteRegisterUlong os SDHC_CONTROL_1
              ((Control1 AND NOT SDHC_TC_COUNTER_MASK) OR SDHC_TC_MAX_DATA_TIMEOUT);
            SdhcWriteRegisterUlong os SDHC_INTERRUPT_ERROR_STATUS_ENABLE 0;
            SdhcWriteRegisterUlong os SDHC_INTERRUPT_ERROR_SIGNAL_ENABLE SDHC_ALL_EVENTS;
            return STATUS_SUCCESS
          }
      })"

section \<open>The clock\<close>

text \<open>The divisor of the other versions: doubled until the frequency is not above the target.\<close>

function double_divisor :: "u32 \<Rightarrow> u32 \<Rightarrow> u32 \<Rightarrow> u32" where
  "double_divisor BaseFrequency TargetFrequency Divisor =
     (if TargetFrequency < BaseFrequency div Divisor \<and> Divisor < SDHC_MAX_CLOCK_DIVISOR
      then double_divisor BaseFrequency TargetFrequency (push_bit 1 Divisor)
      else Divisor)"
  by pat_completeness auto
termination
proof (relation "measure (\<lambda>(b, t, d). 256 - unat d)")
  fix b t d :: u32
  assume "t < b div d \<and> d < SDHC_MAX_CLOCK_DIVISOR"
  then have "d \<noteq> 0" "unat d < 256" by (auto simp: word_less_nat_alt)
  then have "0 < unat d" by (simp add: unat_gt_0)
  moreover have "unat (push_bit 1 d) = 2 * unat d"
    using \<open>unat d < 256\<close> by (simp add: push_bit_eq_mult unat_word_ariths)
  ultimately show "((b, t, push_bit 1 d), b, t, d) \<in> measure (\<lambda>(b, t, d). 256 - unat d)"
    using \<open>unat d < 256\<close> by simp
qed simp

declare double_divisor.simps [simp del]

text \<open>The 10-bit divisor.\<close>

definition divisor_10bit :: "u32 \<Rightarrow> u32 \<Rightarrow> u32" where
  "divisor_10bit BaseFrequency TargetFrequency =
     (let Divisor = drop_bit 1 (BaseFrequency div TargetFrequency);
          Divisor = (if TargetFrequency < BaseFrequency \<and> TargetFrequency * 2 * Divisor \<noteq> BaseFrequency
                     then Divisor + 1 else Divisor)
      in if SDHC_MAX_CLOCK_DIVISOR_SPEC_3 div 2 < Divisor then SDHC_MAX_CLOCK_DIVISOR_SPEC_3 div 2 else Divisor)"

definition clock_control_10bit :: "u32 \<Rightarrow> u16" where
  "clock_control_10bit Divisor =
     push_bit 8 (ucast Divisor AND 0xFF) OR push_bit 6 (ucast (drop_bit 8 Divisor) AND 0x03)"

definition SdhcCalcClockFrequency :: "os \<Rightarrow> u32 \<Rightarrow> (sdhc, u16 \<times> u32) state" where
  "SdhcCalcClockFrequency os TargetFrequency = do {
     w \<leftarrow> get;
     v \<leftarrow> SdhcReadRegisterUlong os SDHC_SLOT_INFORMATION_VERSION;
     do_when (TargetFrequency = 0) sd_undefined;
     let BaseFrequency = BaseClockFrequencyKhz (Capabilities w);
         version = ucast (drop_bit 16 v) AND 0xFF :: u16
     in if SDHC_SPEC_VERSION_3 < version then
          let Divisor = double_divisor BaseFrequency TargetFrequency 1
          in return (push_bit 8 (ucast (drop_bit 1 Divisor)), BaseFrequency div Divisor)
        else
          let Divisor = divisor_10bit BaseFrequency TargetFrequency
          in return (clock_control_10bit Divisor,
               if Divisor = 0 then BaseFrequency else drop_bit 1 (BaseFrequency div Divisor))
   }"

definition SdhcSetClock :: "os \<Rightarrow> u32 \<Rightarrow> (sdhc, ntstatus) state" where
  "SdhcSetClock os Frequency = do {
     reg \<leftarrow> SdhcReadRegisterUlong os SDHC_CONTROL_1;
     let ClockControl = reg AND NOT (SDHC_CC_CLOCK_ENABLE OR SDHC_CC_INTERNAL_CLOCK_ENABLE)
     in do {
       SdhcWriteRegisterUlong os SDHC_CONTROL_1 ClockControl;
       (cc, actual) \<leftarrow> SdhcCalcClockFrequency os Frequency;
       SdhcWriteRegisterUlong os SDHC_CONTROL_1
         (((ClockControl AND SDHC_REG_UPPER_HALF_MASK) OR ucast cc) OR SDHC_CC_INTERNAL_CLOCK_ENABLE);
       r \<leftarrow> wait_control os (\<lambda>reg. reg AND SDHC_CC_CLOCK_STABLE \<noteq> 0) 99;
       case r of
         None \<Rightarrow> return STATUS_TIMEOUT
       | Some reg \<Rightarrow> do {
           SdhcWriteRegisterUlong os SDHC_CONTROL_1 (reg OR SDHC_CC_CLOCK_ENABLE);
           w \<leftarrow> get;
           SdPortWait' os (if Removable w then 10 * 1000 else 50);
           return STATUS_SUCCESS
         }
     }
   }"

section \<open>Voltage, width and speed\<close>

definition SdhcSetVoltage :: "ntstatus" where "SdhcSetVoltage = STATUS_SUCCESS"
definition SdhcSetSignaling :: "ntstatus" where "SdhcSetSignaling = STATUS_SUCCESS"
definition SdhcSetPresetValue :: "ntstatus" where "SdhcSetPresetValue = STATUS_SUCCESS"

definition SdhcSetBusWidth :: "os \<Rightarrow> nat \<Rightarrow> (sdhc, ntstatus) state" where
  "SdhcSetBusWidth os Width = do {
     reg \<leftarrow> SdhcReadRegisterUlong os SDHC_CONTROL_0;
     let HostControl = reg AND NOT (SDHC_HC_DATA_WIDTH_4BIT OR SDHC_HC_DATA_WIDTH_8BIT);
         HostControl = (if Width = 4 then HostControl OR SDHC_HC_DATA_WIDTH_4BIT
                        else if Width = 8 then HostControl OR SDHC_HC_DATA_WIDTH_8BIT else HostControl)
     in do {
       SdhcWriteRegisterUlong os SDHC_CONTROL_0 HostControl;
       return STATUS_SUCCESS
     }
   }"

text \<open>High speed is never enabled: the statement for it is commented out in the source.\<close>

definition SdhcSetHighSpeed :: "os \<Rightarrow> bool \<Rightarrow> (sdhc, ntstatus) state" where
  "SdhcSetHighSpeed os Enable = do {
     reg \<leftarrow> SdhcReadRegisterUlong os SDHC_CONTROL_0;
     SdhcWriteRegisterUlong os SDHC_CONTROL_0 (reg AND NOT SDHC_HC_ENABLE_HIGH_SPEED);
     return STATUS_SUCCESS
   }"

definition SdhcGetHwUhsMode :: "sd_bus_speed \<Rightarrow> u32" where
  "SdhcGetHwUhsMode BusSpeed = (case BusSpeed of
      SdBusSpeedSDR12 \<Rightarrow> SDHC_HC2_SDR12
    | SdBusSpeedSDR25 \<Rightarrow> SDHC_HC2_SDR25
    | SdBusSpeedSDR50 \<Rightarrow> SDHC_HC2_SDR50
    | SdBusSpeedDDR50 \<Rightarrow> SDHC_HC2_SDR50
    | SdBusSpeedSDR104 \<Rightarrow> SDHC_HC2_SDR50
    | _ \<Rightarrow> 0)"

definition SdhcSetUhsMode :: "os \<Rightarrow> u32 \<Rightarrow> (sdhc, ntstatus) state" where
  "SdhcSetUhsMode os Mode = do {
     HostControl2 \<leftarrow> SdhcReadRegisterUlong os SDHC_CONTROL_2;
     if HostControl2 AND SDHC_HC2_UHS_MODES = Mode then return STATUS_SUCCESS
     else do {
       c \<leftarrow> SdhcReadRegisterUlong os SDHC_CONTROL_1;
       SdhcWriteRegisterUlong os SDHC_CONTROL_1 (c AND NOT SDHC_CC_CLOCK_ENABLE);
       SdPortWait' os (10 * 1000);
       SdhcWriteRegisterUlong os SDHC_CONTROL_2 ((HostControl2 AND NOT SDHC_HC2_UHS_MODES) OR Mode);
       c \<leftarrow> SdhcReadRegisterUlong os SDHC_CONTROL_1;
       SdhcWriteRegisterUlong os SDHC_CONTROL_1 (c OR SDHC_CC_CLOCK_ENABLE);
       SdPortWait' os (10 * 1000);
       return STATUS_SUCCESS
     }
   }"

definition SdhcSetSpeed :: "os \<Rightarrow> sd_bus_speed \<Rightarrow> (sdhc, ntstatus) state" where
  "SdhcSetSpeed os Speed = (case Speed of
      SdBusSpeedNormal \<Rightarrow> SdhcSetHighSpeed os False
    | SdBusSpeedHigh \<Rightarrow> SdhcSetHighSpeed os True
    | SdBusSpeedOther \<Rightarrow> return STATUS_INVALID_PARAMETER
    | _ \<Rightarrow> SdhcSetUhsMode os (SdhcGetHwUhsMode Speed))"

text \<open>The tuning request is prepared in a local variable and not sent.\<close>

definition SdhcExecuteTuning :: "os \<Rightarrow> (sdhc, ntstatus) state" where
  "SdhcExecuteTuning os = do {
     HostControl2 \<leftarrow> SdhcReadRegisterUlong os SDHC_CONTROL_2;
     do_when (HostControl2 AND SDHC_HC2_EXECUTE_TUNING = 0)
       (SdhcWriteRegisterUlong os SDHC_CONTROL_2 (HostControl2 OR SDHC_HC2_EXECUTE_TUNING));
     return STATUS_SUCCESS
   }"

definition SdhcSetBlockGapControl :: "os \<Rightarrow> bool \<Rightarrow> bool \<Rightarrow> (sdhc, unit) state" where
  "SdhcSetBlockGapControl os Continue RequestStop = do {
     reg \<leftarrow> SdhcReadRegisterUlong os SDHC_CONTROL_0;
     let c = (reg AND NOT SDHC_BGC_CONTINUE) AND NOT SDHC_BGC_STOP_NEXT_GAP;
         c = (if Continue then c OR SDHC_BGC_CONTINUE else c);
         c = (if RequestStop then c OR SDHC_BGC_STOP_NEXT_GAP else c)
     in SdhcWriteRegisterUlong os SDHC_CONTROL_0 c
   }"

datatype sd_bus_operation = SdResetHost sd_reset_type | SdSetClock u32 | SdSetVoltage | SdSetBusWidth nat
  | SdSetBusSpeed sd_bus_speed | SdSetSignalingVoltage | SdSetDriveStrength | SdSetDriverType | SdSetPresetValue bool
  | SdExecuteTuning | SdBusOperationOther

definition SdhcSlotIssueBusOperation :: "os \<Rightarrow> sd_bus_operation \<Rightarrow> (sdhc, ntstatus) state" where
  "SdhcSlotIssueBusOperation os BusOperation = (case BusOperation of
      SdResetHost ty \<Rightarrow> SdhcResetHost os ty
    | SdSetClock khz \<Rightarrow> SdhcSetClock os khz
    | SdSetVoltage \<Rightarrow> return SdhcSetVoltage
    | SdSetBusWidth n \<Rightarrow> SdhcSetBusWidth os n
    | SdSetBusSpeed s \<Rightarrow> SdhcSetSpeed os s
    | SdSetSignalingVoltage \<Rightarrow> return SdhcSetSignaling
    | SdSetDriveStrength \<Rightarrow> return STATUS_INVALID_PARAMETER
    | SdSetDriverType \<Rightarrow> return STATUS_INVALID_PARAMETER
    | SdSetPresetValue _ \<Rightarrow> return SdhcSetPresetValue
    | SdExecuteTuning \<Rightarrow> SdhcExecuteTuning os
    | SdBusOperationOther \<Rightarrow> return STATUS_INVALID_PARAMETER)"

section \<open>Interrupts\<close>

definition SdhcEnableInterrupt :: "os \<Rightarrow> u32 \<Rightarrow> (sdhc, unit) state" where
  "SdhcEnableInterrupt os NormalInterruptMask = do {
     reg \<leftarrow> SdhcReadRegisterUlong os SDHC_INTERRUPT_ERROR_STATUS_ENABLE;
     w \<leftarrow> get;
     do_when (\<not> CrashdumpMode w)
       (SdhcWriteRegisterUlong os SDHC_INTERRUPT_ERROR_STATUS_ENABLE ((reg OR NormalInterruptMask) OR 0xFFFF0000))
   }"

definition SdhcDisableInterrupt :: "os \<Rightarrow> u32 \<Rightarrow> (sdhc, unit) state" where
  "SdhcDisableInterrupt os NormalInterruptMask = do {
     reg \<leftarrow> SdhcReadRegisterUlong os SDHC_INTERRUPT_ERROR_STATUS_ENABLE;
     SdhcWriteRegisterUlong os SDHC_INTERRUPT_ERROR_STATUS_ENABLE ((reg AND NOT NormalInterruptMask) AND 0x0000FFFF)
   }"

definition SdhcGetInterruptStatus :: "os \<Rightarrow> (sdhc, u16) state" where
  "SdhcGetInterruptStatus os = do {
     reg \<leftarrow> SdhcReadRegisterUlong os SDHC_INTERRUPT_ERROR_STATUS;
     let InterruptStatus = ucast (reg AND SDHC_REG_LOWER_HALF_MASK)
     in return (if InterruptStatus = 0xFFFF then 0 else InterruptStatus)
   }"

definition SdhcGetErrorStatus :: "os \<Rightarrow> (sdhc, u16) state" where
  "SdhcGetErrorStatus os = do {
     reg \<leftarrow> SdhcReadRegisterUlong os SDHC_INTERRUPT_ERROR_STATUS;
     return (ucast (drop_bit 16 (reg AND SDHC_REG_UPPER_HALF_MASK)))
   }"

definition SdhcGetAutoCmd12ErrorStatus :: "os \<Rightarrow> (sdhc, u16) state" where
  "SdhcGetAutoCmd12ErrorStatus os = do {
     reg \<leftarrow> SdhcReadRegisterUlong os SDHC_CONTROL_2;
     return (ucast (reg AND SDHC_REG_LOWER_HALF_MASK))
   }"

definition SdhcAcknowledgeInterrupts :: "os \<Rightarrow> u16 \<Rightarrow> (sdhc, unit) state" where
  "SdhcAcknowledgeInterrupts os Interrupts = (let is_error = (ucast Interrupts AND SDHC_IS_ERROR_INTERRUPT \<noteq> 0) in do {
     do_when is_error (do {
       SdhcWriteRegisterUlong os SDHC_CONTROL_2 0xFFFF;
       SdhcWriteRegisterUlong os SDHC_CONTROL_2 0x0;
       SdhcWriteRegisterUlong os SDHC_INTERRUPT_ERROR_STATUS 0xFFFF0000
     });
     SdhcWriteRegisterUlong os SDHC_INTERRUPT_ERROR_STATUS
       (if is_error then ucast Interrupts AND NOT SDHC_IS_ERROR_INTERRUPT else ucast Interrupts)
   })"

definition SdhcConvertEventsToHwMask :: "u32 \<Rightarrow> u16" where
  "SdhcConvertEventsToHwMask EventMask = ucast (EventMask AND 0xFFFF)"

definition SdhcSlotToggleEvents :: "os \<Rightarrow> u32 \<Rightarrow> bool \<Rightarrow> (sdhc, unit) state" where
  "SdhcSlotToggleEvents os EventMask Enable =
     (if Enable then SdhcEnableInterrupt os (ucast (SdhcConvertEventsToHwMask EventMask))
      else SdhcDisableInterrupt os (ucast (SdhcConvertEventsToHwMask EventMask)))"

definition SdhcSlotClearEvents :: "os \<Rightarrow> u32 \<Rightarrow> (sdhc, unit) state" where
  "SdhcSlotClearEvents os EventMask = SdhcAcknowledgeInterrupts os (SdhcConvertEventsToHwMask EventMask)"

text \<open>What the interrupt handler gives the port driver.\<close>

record sd_interrupt =
  Events :: u32
  Errors :: u32
  NotifyCardChange :: bool
  NotifySdioInterrupt :: bool
  NotifyTuning :: bool

definition SdhcSlotInterrupt :: "os \<Rightarrow> (sdhc, bool \<times> sd_interrupt) state" where
  "SdhcSlotInterrupt os = do {
     InterruptStatus \<leftarrow> SdhcGetInterruptStatus os;
     let e = ucast InterruptStatus :: u32
     in if e = 0 then return (False, \<lparr>Events = 0, Errors = 0, NotifyCardChange = False, NotifySdioInterrupt = False, NotifyTuning = False\<rparr>)
        else do {
          errors \<leftarrow> (if e AND SDHC_IS_ERROR_INTERRUPT \<noteq> 0
            then do { s \<leftarrow> SdhcGetErrorStatus os; return (ucast s) } else return 0);
          SdhcAcknowledgeInterrupts os InterruptStatus;
          return (InterruptStatus AND NOT (ucast SDHC_IS_CARD_DETECT) \<noteq> 0,
            \<lparr>Events = ((e AND NOT SDHC_IS_CARD_DETECT) AND NOT SDHC_IS_CARD_INTERRUPT) AND NOT SDHC_IS_TUNING_INTERRUPT,
             Errors = errors, NotifyCardChange = False,
             NotifySdioInterrupt = (e AND SDHC_IS_CARD_INTERRUPT \<noteq> 0),
             NotifyTuning = (e AND SDHC_IS_TUNING_INTERRUPT \<noteq> 0)\<rparr>)
        }
   }"

end
