(* ===== verification/Sdhc_Bus.thy ===== *)
theory Sdhc_Bus
  imports Sdhc_Host Registers
begin

text \<open>
  Properties of the operations of the bus: the divisor of the clock, the bounded reset, and the
  interrupts that are acknowledged.
\<close>

section \<open>The divisor\<close>

text \<open>The divisor the controller reads from its 10-bit field: it divides by twice the value, or not at all.\<close>

definition clock_field :: "u16 \<Rightarrow> nat" where
  "clock_field cc = unat (drop_bit 8 cc) + 256 * unat (drop_bit 6 cc AND 3)"

definition above :: "nat \<Rightarrow> nat \<Rightarrow> nat \<Rightarrow> bool" where
  "above b t d \<longleftrightarrow> (if d = 0 then t < b else 2 * d * t < b)"

lemma unat_and_mask: "unat (x AND mask n) = unat x mod 2 ^ n"
  by (metis take_bit_eq_mask take_bit_eq_mod unsigned_take_bit_eq)

lemma clock_field_control: "unat d < 1024 \<Longrightarrow> clock_field (clock_control_10bit d) = unat d"
proof -
  assume d: "unat d < 1024"
  have "drop_bit 8 (clock_control_10bit d) = ucast d AND 0xFF"
  proof -
    have m: "(0xFF :: u16) = mask 8" by (simp add: mask_eq_decr_exp)
    show ?thesis unfolding clock_control_10bit_def m by (rule bit_word_eqI) (auto simp: bit_simps)
  qed
  moreover have "drop_bit 6 (clock_control_10bit d) AND 3 = ucast (drop_bit 8 d) AND 3"
  proof (rule bit_word_eqI)
    have m: "(3 :: u16) = mask 2" by (simp add: mask_eq_decr_exp)
    fix n assume "n < LENGTH(16)"
    show "bit (drop_bit 6 (clock_control_10bit d) AND 3) n = bit (ucast (drop_bit 8 d) AND (3 :: u16)) n"
    proof (cases "n < 2")
      case True
      then have "n = 0 \<or> n = 1" by linarith
      then show ?thesis by (auto simp: clock_control_10bit_def bit_simps)
    next
      case False
      then show ?thesis unfolding m by (simp add: bit_simps)
    qed
  qed
  moreover have "unat (ucast d AND (0xFF :: u16)) = unat d mod 256"
  proof -
    have m: "(0xFF :: u16) = mask 8" by (simp add: mask_eq_decr_exp)
    show ?thesis unfolding m unat_and_mask using d by (simp add: unsigned_ucast_eq take_bit_nat_eq_self)
  qed
  moreover have "unat (ucast (drop_bit 8 d) AND (3 :: u16)) = unat d div 256"
  proof -
    have m: "(3 :: u16) = mask 2" by (simp add: mask_eq_decr_exp)
    have "unat (drop_bit 8 d) = unat d div 256" by (subst unat_drop_bit_eq) (simp add: drop_bit_eq_div)
    moreover have "unat d div 256 < 4" using d by simp
    then have "take_bit 16 (unat d div 256) = unat d div 256" "unat d div 256 mod 4 = unat d div 256"
      by (simp_all add: take_bit_nat_eq_self)
    ultimately show ?thesis unfolding m unat_and_mask unsigned_ucast_eq by simp
  qed
  ultimately show ?thesis by (simp add: clock_field_def)
qed

lemma clock_field_8bit:
  fixes d :: u32
  assumes "unat d < 256"
  shows "clock_field (push_bit 8 (ucast d)) = unat d"
proof -
  have "take_bit 8 d = d"
    by (rule word_unat_eq_iff [THEN iffD2]) (use assms in \<open>simp add: unsigned_take_bit_eq take_bit_nat_eq_self\<close>)
  then have low: "bit d n \<Longrightarrow> n < 8" for n by (metis bit_take_bit_iff)
  have "drop_bit 8 (push_bit 8 (ucast d :: u16)) = ucast d"
    by (rule bit_word_eqI) (auto simp: bit_simps dest: low)
  moreover have "drop_bit 6 (push_bit 8 (ucast d :: u16)) AND 3 = 0"
  proof (rule bit_word_eqI)
    have m: "(3 :: u16) = mask 2" by (simp add: mask_eq_decr_exp)
    show "bit (drop_bit 6 (push_bit 8 (ucast d :: u16)) AND 3) n = bit (0 :: u16) n" for n
      unfolding m by (auto simp: bit_simps)
  qed
  moreover have "unat (ucast d :: u16) = unat d" using assms by (simp add: unsigned_ucast_eq take_bit_nat_eq_self)
  ultimately show ?thesis by (simp add: clock_field_def)
qed

text \<open>The divisor of later versions: the smallest power of two that is enough, at most 256.\<close>

lemma double_divisor_power:
  fixes b t :: u32
  assumes "unat d = 2 ^ k" "k \<le> 8" "\<forall>j<k. unat t < unat b div 2 ^ j"
  shows "\<exists>n\<le>8. unat (double_divisor b t d) = 2 ^ n \<and> (\<forall>j<n. unat t < unat b div 2 ^ j) \<and> (n < 8 \<longrightarrow> unat b div 2 ^ n \<le> unat t)"
  using assms
proof (induction b t d arbitrary: k rule: double_divisor.induct)
  case (1 b t d)
  have cond: "(t < b div d) = (unat t < unat b div 2 ^ k)" "(d < 256) = (k < 8)"
  proof -
    show "(t < b div d) = (unat t < unat b div 2 ^ k)" using 1(2) by (simp add: word_less_nat_alt unat_div)
    have "(2 ^ k < (2 :: nat) ^ 8) = (k < 8)" by (rule power_strict_increasing_iff) simp
    then show "(d < 256) = (k < 8)" using 1(2) by (simp add: word_less_nat_alt)
  qed
  show ?case
  proof (cases "t < b div d \<and> d < 256")
    case True
    have "(2 :: nat) ^ k < 256" using True 1(2) by (simp add: word_less_nat_alt)
    then have "unat (push_bit 1 d) = 2 ^ Suc k"
      using 1(2) by (simp add: push_bit_eq_mult unat_word_ariths)
    moreover have "\<forall>j<Suc k. unat t < unat b div 2 ^ j" using 1(4) True cond by (auto simp: less_Suc_eq)
    ultimately show ?thesis using 1(1) [OF True, of "Suc k"] True cond by (simp add: double_divisor.simps [of b t d])
  next
    case False
    then have "double_divisor b t d = d" by (subst double_divisor.simps) auto
    then show ?thesis using 1(2-4) False cond by (intro exI [of _ k]) auto
  qed
qed

lemma divisor_10bit_bounds:
  fixes b t :: u32
  assumes "t \<noteq> 0"
  defines "d \<equiv> unat (divisor_10bit b t)"
  shows "d \<le> 1023" "d < 1023 \<Longrightarrow> \<not> above (unat b) (unat t) d" "d' < d \<Longrightarrow> above (unat b) (unat t) d'"
proof -
  let ?b = "unat b" and ?t = "unat t"
  define q where "q = ?b div ?t div 2"
  have t: "0 < ?t" using assms(1) by (simp add: unat_gt_0)
  have "unat (drop_bit 1 (b div t)) = q"
    by (simp add: q_def unsigned_drop_bit_eq drop_bit_eq_div unat_div)
  then have q: "drop_bit 1 (b div t) = of_nat q" by (metis of_nat_unat ucast_id)
  have le: "?t * 2 * q \<le> ?b"
  proof -
    have "2 * q \<le> ?b div ?t" by (simp add: q_def)
    then have "?t * 2 * q \<le> ?t * (?b div ?t)" by (metis mult.assoc mult_le_mono2)
    also have "\<dots> \<le> ?b" by (metis div_times_less_eq_dividend mult.commute)
    finally show ?thesis .
  qed
  have qb: "q \<le> ?b" by (simp add: q_def) (meson div_le_dividend le_trans)
  have b32: "?b < 4294967296" by (rule unat_u32_less)
  have uq: "unat (of_nat q :: u32) = q" using qb b32 by (simp add: unat_of_nat)
  have "unat (t * 2 * of_nat q) = ?t * 2 * q"
  proof (cases "q = 0")
    case False
    then have "?t * 2 \<le> ?b" using le by (metis One_nat_def Suc_leI le_trans mult.right_neutral mult_le_mono2 neq0_conv)
    then have "unat (t * 2) = ?t * 2" using b32 by (simp add: unat_word_ariths)
    moreover have "?t * 2 * q < 4294967296" using le b32 by linarith
    ultimately show ?thesis using uq by (simp add: unat_word_ariths)
  qed simp
  then have eq: "t * 2 * of_nat q = b \<longleftrightarrow> ?t * 2 * q = ?b" by (metis word_unat_eq_iff)
  define e where "e = (if ?t < ?b \<and> ?t * 2 * q \<noteq> ?b then q + 1 else q)"
  have e: "unat (if t < b \<and> t * 2 * drop_bit 1 (b div t) \<noteq> b then drop_bit 1 (b div t) + 1 else drop_bit 1 (b div t)) = e"
  proof -
    have "q \<le> ?t * q" using t by simp
    then have "q + 1 < 4294967296" using le b32 by linarith
    then show ?thesis
      unfolding q eq using uq by (auto simp: e_def word_less_nat_alt unat_word_ariths)
  qed
  have "divisor_10bit b t = (let x = (if t < b \<and> t * 2 * drop_bit 1 (b div t) \<noteq> b then drop_bit 1 (b div t) + 1
      else drop_bit 1 (b div t)) in if 1023 < x then 1023 else x)"
    by (simp add: divisor_10bit_def Let_def)
  then have d: "d = min e 1023" unfolding d_def e [symmetric] Let_def by (auto simp: word_less_nat_alt)
  show "d \<le> 1023" using d by simp
  have up: "?b < ?t * (2 * q + 2)"
  proof -
    have "?b < ?t * (?b div ?t + 1)" using t by (simp add: dividend_less_times_div)
    moreover have "?b div ?t + 1 \<le> 2 * q + 2" by (simp add: q_def)
    ultimately show ?thesis by (meson less_le_trans mult_le_mono2)
  qed
  show "\<not> above ?b ?t d" if "d < 1023"
  proof -
    have "d = e" using d that by simp
    moreover have "q = 0" if "?b \<le> ?t"
    proof (rule ccontr)
      assume "q \<noteq> 0"
      then have "?t * 2 \<le> ?t * 2 * q" by simp
      with le that t show False by linarith
    qed
    ultimately show ?thesis
      using up le t by (auto simp: above_def e_def algebra_simps not_less)
  qed
  show "above ?b ?t d'" if "d' < d"
  proof -
    have "d' < e" using d that by simp
    then consider "?t < ?b" "?t * 2 * q \<noteq> ?b" "d' \<le> q" | "d' < q" by (auto simp: e_def split: if_splits)
    then show ?thesis
    proof cases
      case 1
      have "2 * d' * ?t \<le> 2 * q * ?t" using 1(3) by (intro mult_le_mono) simp_all
      moreover have "2 * q * ?t < ?b" using 1(2) le by (simp add: mult_ac)
      ultimately have "2 * d' * ?t < ?b" by (rule le_less_trans)
      with 1 show ?thesis by (simp add: above_def)
    next
      case 2
      then have "2 * d' * ?t < 2 * q * ?t" using t by simp
      moreover have "2 * q * ?t \<le> ?b" using le by (simp add: mult_ac)
      ultimately have "2 * d' * ?t < ?b" by (rule less_le_trans)
      moreover have "?t * 2 \<le> ?t * 2 * q" using 2 by simp
      then have "?t < ?b" using le t by linarith
      ultimately show ?thesis by (simp add: above_def)
    qed
  qed
qed


section \<open>Waiting for the controller\<close>

lemma wait_control_run:
  assumes "run_state (wait_control os ready n) w = (r, w')"
  obtains es where "w' = w\<lparr>trace := trace w @ es\<rparr>" "\<And>reg. writes reg es = []"
    "\<And>reg. reg \<noteq> SDHC_CONTROL_1 \<Longrightarrow> reads reg es = []" "length (reads SDHC_CONTROL_1 es) \<le> n"
    "r = None \<Longrightarrow> length (reads SDHC_CONTROL_1 es) = n \<and> (\<forall>v\<in>set (reads SDHC_CONTROL_1 es). \<not> ready v)"
    "\<And>v. r = Some v \<Longrightarrow> \<exists>vs. reads SDHC_CONTROL_1 es = vs @ [v] \<and> ready v \<and> (\<forall>u\<in>set vs. \<not> ready u)"
  using assms
proof (induction n arbitrary: w thesis)
  case 0
  then show ?case by (auto simp: run intro!: 0(1) [of "[]"])
next
  case (Suc n)
  let ?c = "Mm (ReadRegister SDHC_CONTROL_1)"
  let ?e = "(?c, os (trace w) ?c)"
  let ?v = "r_val (snd ?e)"
  show ?case
  proof (cases "ready ?v")
    case True
    with Suc(3) show ?thesis by (auto simp: run intro!: Suc(2) [of "[?e]"])
  next
    case False
    let ?p = "Sd (SdPortWait 1)"
    let ?f = "(?p, os (trace w @ [?e]) ?p)"
    have "run_state (wait_control os ready n) (w\<lparr>trace := trace w @ [?e, ?f]\<rparr>) = (r, w')"
      using Suc(3) False by (simp add: run)
    then show ?thesis
    proof (rule Suc(1) [rotated], goal_cases)
      case (1 es)
      show ?case
        by (rule Suc(2) [of "?e # ?f # es"]) (use 1 False in \<open>auto 0 3 simp: Cons_eq_append_conv\<close>)
    qed
  qed
qed


section \<open>Changing the clock\<close>

text \<open>The version a read of the register reports, and the bits of the divisor it leads to.\<close>

definition reported_version :: "u32 \<Rightarrow> u16" where
  "reported_version v = ucast (drop_bit 16 v) AND 0xFF"

definition divisor_bits :: "u16 \<Rightarrow> u32 \<Rightarrow> u32 \<Rightarrow> u16" where
  "divisor_bits version b t = (if SDHC_SPEC_VERSION_3 < version
     then push_bit 8 (ucast (drop_bit 1 (double_divisor b t 1))) else clock_control_10bit (divisor_10bit b t))"

lemma clock_control_ucast:
  "clock_field (ucast (((c AND SDHC_REG_UPPER_HALF_MASK) OR ucast cc) OR SDHC_CC_INTERNAL_CLOCK_ENABLE)) = clock_field cc"
proof -
  have m: "(0xFFFF0000 :: u32) = push_bit 16 (mask 16)" by (simp add: mask_eq_decr_exp)
  have "drop_bit k (ucast (((c AND SDHC_REG_UPPER_HALF_MASK) OR ucast cc) OR SDHC_CC_INTERNAL_CLOCK_ENABLE) :: u16)
    = drop_bit k cc" if "0 < k" for k
    unfolding m by (rule bit_word_eqI) (use that in \<open>auto simp: bit_simps bit_1_iff dest: bit_imp_le_length\<close>)
  then show ?thesis by (simp add: clock_field_def)
qed

lemma clock_off:
  "(((c AND SDHC_REG_UPPER_HALF_MASK) OR ucast (divisor_bits v b t)) OR SDHC_CC_INTERNAL_CLOCK_ENABLE) AND SDHC_CC_CLOCK_ENABLE = 0"
proof -
  have b: "bit (4 :: int) n \<longleftrightarrow> n = 2" for n
  proof -
    have "bit (push_bit 2 (1 :: int)) n \<longleftrightarrow> n = 2" by (simp only: bit_simps) auto
    then show ?thesis by simp
  qed
  show ?thesis unfolding divisor_bits_def clock_control_10bit_def
    by (cases "SDHC_SPEC_VERSION_3 < v"; rule bit_word_eqI) (auto simp: bit_simps bit_1_iff b)
qed

definition switch_on_clock :: "os \<Rightarrow> u32 option \<Rightarrow> (sdhc, ntstatus) state" where
  "switch_on_clock os r = (case r of
       None \<Rightarrow> return STATUS_TIMEOUT
     | Some reg \<Rightarrow> do {
         SdhcWriteRegisterUlong os SDHC_CONTROL_1 (reg OR SDHC_CC_CLOCK_ENABLE);
         w \<leftarrow> get;
         SdPortWait' os (if Removable w then 10 * 1000 else 50);
         return STATUS_SUCCESS
       })"

lemma set_clock_divisor:
  assumes "khz \<noteq> 0"
  obtains es c0 c1 v where "run_state (SdhcSetClock os khz) w =
      run_state (do { r \<leftarrow> wait_control os (\<lambda>reg. reg AND SDHC_CC_CLOCK_STABLE \<noteq> 0) 99; switch_on_clock os r })
        (w\<lparr>trace := trace w @ es\<rparr>)"
    "writes SDHC_CONTROL_1 es = [c0, c1]" "length (reads SDHC_CONTROL_1 es) = 1" "reads SDHC_SLOT_INFORMATION_VERSION es = [v]"
    "c0 AND (SDHC_CC_CLOCK_ENABLE OR SDHC_CC_INTERNAL_CLOCK_ENABLE) = 0" "c1 AND SDHC_CC_CLOCK_ENABLE = 0"
    "clock_field (ucast c1) = clock_field (divisor_bits (reported_version v) (BaseClockFrequencyKhz (Capabilities w)) khz)"
proof -
  let ?r = "Mm (ReadRegister SDHC_CONTROL_1)" and ?V = "Mm (ReadRegister SDHC_SLOT_INFORMATION_VERSION)"
  let ?cc0 = "r_val (os (trace w) ?r) AND NOT (SDHC_CC_CLOCK_ENABLE OR SDHC_CC_INTERNAL_CLOCK_ENABLE)"
  let ?w0 = "Mm (WriteRegister SDHC_CONTROL_1 ?cc0)"
  let ?e0 = "(?r, os (trace w) ?r)"
  let ?e1 = "(?w0, os (trace w @ [?e0]) ?w0)"
  let ?v = "(?V, os (trace w @ [?e0, ?e1]) ?V)"
  define bits where "bits = divisor_bits (reported_version (r_val (snd ?v))) (BaseClockFrequencyKhz (Capabilities w)) khz"
  let ?cc1 = "((?cc0 AND SDHC_REG_UPPER_HALF_MASK) OR ucast bits) OR SDHC_CC_INTERNAL_CLOCK_ENABLE"
  let ?w1 = "Mm (WriteRegister SDHC_CONTROL_1 ?cc1)"
  let ?e2 = "(?w1, os (trace w @ [?e0, ?e1, ?v]) ?w1)"
  have "run_state (SdhcSetClock os khz) w =
      run_state (do { r \<leftarrow> wait_control os (\<lambda>reg. reg AND SDHC_CC_CLOCK_STABLE \<noteq> 0) 99; switch_on_clock os r })
        (w\<lparr>trace := trace w @ [?e0, ?e1, ?v, ?e2]\<rparr>)"
    using assms(1)
    by (simp add: SdhcSetClock_def SdhcCalcClockFrequency_def run Let_def switch_on_clock_def bits_def divisor_bits_def
        reported_version_def)
  moreover have "?cc0 AND (SDHC_CC_CLOCK_ENABLE OR SDHC_CC_INTERNAL_CLOCK_ENABLE) = 0"
    by (rule bit_word_eqI) (auto simp: bit_simps)
  moreover have "clock_field (ucast ?cc1) = clock_field bits" by (rule clock_control_ucast)
  moreover have "?cc1 AND SDHC_CC_CLOCK_ENABLE = 0" unfolding bits_def by (rule clock_off)
  ultimately show thesis
    by (intro that [of "[?e0, ?e1, ?v, ?e2]" ?cc0 ?cc1 "r_val (snd ?v)"]) (simp_all add: bits_def)
qed

text \<open>
  What is asked of the divisor: with version 3 the smallest that keeps the clock at or below the frequency, or the
  largest there is; with later versions the smallest power of two that does so in whole kilohertz, or 256.
\<close>

definition divisor_chosen :: "u16 \<Rightarrow> nat \<Rightarrow> nat \<Rightarrow> nat \<Rightarrow> bool" where
  "divisor_chosen version b t d \<longleftrightarrow>
     (version = SDHC_SPEC_VERSION_3 \<longrightarrow> d \<le> 1023 \<and> (\<forall>d'<d. above b t d') \<and> (d < 1023 \<longrightarrow> \<not> above b t d))
   \<and> (SDHC_SPEC_VERSION_3 < version \<longrightarrow>
        (\<exists>n\<le>8. d = 2 ^ n div 2 \<and> (\<forall>j<n. t < b div 2 ^ j) \<and> (n < 8 \<longrightarrow> b div 2 ^ n \<le> t)))"

lemma divisor_bits_chosen:
  assumes "khz \<noteq> 0"
  shows "divisor_chosen v (unat b) (unat khz) (clock_field (divisor_bits v b khz))"
proof (cases "SDHC_SPEC_VERSION_3 < v")
  case True
  obtain n where n: "n \<le> 8" "unat (double_divisor b khz 1) = 2 ^ n" "\<forall>j<n. unat khz < unat b div 2 ^ j"
    "n < 8 \<longrightarrow> unat b div 2 ^ n \<le> unat khz"
    using double_divisor_power [of 1 0 khz b] by auto
  have "unat (drop_bit 1 (double_divisor b khz 1)) = 2 ^ n div 2"
    by (subst unat_drop_bit_eq) (simp add: drop_bit_eq_div n(2))
  moreover have "(2 :: nat) ^ n \<le> 2 ^ 8" using n(1) by (rule power_increasing) simp
  ultimately have "clock_field (divisor_bits v b khz) = 2 ^ n div 2"
    using True by (simp add: divisor_bits_def clock_field_8bit)
  then show ?thesis using True n by (auto simp: divisor_chosen_def)
next
  case False
  note bounds = divisor_10bit_bounds [OF assms, where b = b]
  have "clock_field (divisor_bits v b khz) = unat (divisor_10bit b khz)"
    using False bounds(1) by (simp add: divisor_bits_def clock_field_control)
  then show ?thesis using False bounds by (simp add: divisor_chosen_def)
qed

text \<open>
  C32. Changing the clock (\<open>SdhcSetClock\<close>): the clock is off while the divisor is written and stays off
  until the controller reports the internal clock stable, or for good when it does not within 99 polls. The divisor
  depends on the version the controller reports at that moment. Version 3: the divisor keeps the clock at or below the
  frequency asked for, unless it is the largest there is (1023, which divides by 2046), and every smaller one is too
  fast. Later versions: the clock is divided by the smallest power of two that keeps it at or below the frequency in
  whole kilohertz, at most 256. Nothing is said of the divisor for versions 1 and 2: the driver gives them the 10-bit
  divisor of version 3, which they do not have.
\<close>

theorem sd_clock_change:
  assumes "run_state (SdhcSetClock os khz) w = (status, w')" "khz \<noteq> 0"
  shows "\<exists>es c0 c1 c2 v. trace w' = trace w @ es \<and> writes SDHC_CONTROL_1 es = [c0, c1] @ c2
    \<and> c0 AND (SDHC_CC_CLOCK_ENABLE OR SDHC_CC_INTERNAL_CLOCK_ENABLE) = 0 \<and> c1 AND SDHC_CC_CLOCK_ENABLE = 0
    \<and> (if c2 = [] then status = STATUS_TIMEOUT \<and> length (reads SDHC_CONTROL_1 es) = 100
       else status = STATUS_SUCCESS \<and> c2 = [last (reads SDHC_CONTROL_1 es) OR SDHC_CC_CLOCK_ENABLE]
         \<and> last (reads SDHC_CONTROL_1 es) AND SDHC_CC_CLOCK_STABLE \<noteq> 0)
    \<and> reads SDHC_SLOT_INFORMATION_VERSION es = [v]
    \<and> divisor_chosen (reported_version v) (unat (BaseClockFrequencyKhz (Capabilities w))) (unat khz) (clock_field (ucast c1))"
proof -
  obtain es c0 c1 v where pre: "run_state (SdhcSetClock os khz) w =
      run_state (do { r \<leftarrow> wait_control os (\<lambda>reg. reg AND SDHC_CC_CLOCK_STABLE \<noteq> 0) 99; switch_on_clock os r })
        (w\<lparr>trace := trace w @ es\<rparr>)" and "writes SDHC_CONTROL_1 es = [c0, c1]" "length (reads SDHC_CONTROL_1 es) = 1"
    "reads SDHC_SLOT_INFORMATION_VERSION es = [v]"
    "c0 AND (SDHC_CC_CLOCK_ENABLE OR SDHC_CC_INTERNAL_CLOCK_ENABLE) = 0" "c1 AND SDHC_CC_CLOCK_ENABLE = 0"
    "clock_field (ucast c1) = clock_field (divisor_bits (reported_version v) (BaseClockFrequencyKhz (Capabilities w)) khz)"
    using assms(2) by (rule set_clock_divisor)
  note pre_facts = this(2-) and chosen = divisor_bits_chosen [OF assms(2)]
  obtain r W where wait: "run_state (wait_control os (\<lambda>reg. reg AND SDHC_CC_CLOCK_STABLE \<noteq> 0) 99)
      (w\<lparr>trace := trace w @ es\<rparr>) = (r, W)"
    by (metis prod.exhaust)
  then obtain fs where fs: "W = w\<lparr>trace := (trace w @ es) @ fs\<rparr>" "\<And>reg. writes reg fs = []"
    "\<And>reg. reg \<noteq> SDHC_CONTROL_1 \<Longrightarrow> reads reg fs = []"
    "r = None \<Longrightarrow> length (reads SDHC_CONTROL_1 fs) = 99"
    "\<And>v. r = Some v \<Longrightarrow> \<exists>vs. reads SDHC_CONTROL_1 fs = vs @ [v] \<and> v AND SDHC_CC_CLOCK_STABLE \<noteq> 0"
    by (rule wait_control_run) (simp, blast)
  have version: "reads SDHC_SLOT_INFORMATION_VERSION fs = []" by (rule fs(3)) simp
  have fin: "run_state (switch_on_clock os r) W = (status, w')"
    using pre wait assms(1) by (simp add: run)
  show ?thesis
  proof (cases r)
    case None
    with fin have "w' = W" "status = STATUS_TIMEOUT" by (simp_all add: switch_on_clock_def run)
    then show ?thesis
      by (intro exI [of _ "es @ fs"] exI [of _ c0] exI [of _ c1] exI [of _ "[]"] exI [of _ v])
        (use None fs(1,2,4) version pre_facts chosen in simp)
  next
    case (Some reg)
    with fin obtain gs where "trace w' = trace W @ gs" "status = STATUS_SUCCESS" "reads SDHC_CONTROL_1 gs = []"
      "writes SDHC_CONTROL_1 gs = [reg OR SDHC_CC_CLOCK_ENABLE]" "reads SDHC_SLOT_INFORMATION_VERSION gs = []"
      by (auto simp: switch_on_clock_def run)
    then show ?thesis
      by (intro exI [of _ "es @ fs @ gs"] exI [of _ c0] exI [of _ c1] exI [of _ "[reg OR SDHC_CC_CLOCK_ENABLE]"] exI [of _ v])
        (use fs(1,2) fs(5) [OF Some] version pre_facts chosen in auto)
  qed
qed


text \<open>A controller of version 3 with a stable clock.\<close>

definition clock_os :: os where
  "clock_os tr c = ok_reply\<lparr>r_val := if c = Mm (ReadRegister SDHC_SLOT_INFORMATION_VERSION) then 0x20000 else SDHC_CC_CLOCK_STABLE\<rparr>"

theorem sd_clock_change_witness:
  "\<exists>c0 c1 c2. writes SDHC_CONTROL_1 (trace (snd (run_state (SdhcSetClock clock_os 25000) idle_sdhc))) = [c0, c1] @ c2
     \<and> clock_field (ucast c1) = 2"
proof -
  obtain st w' where run: "run_state (SdhcSetClock clock_os 25000) idle_sdhc = (st, w')" by (metis prod.exhaust)
  have idle: "unat (BaseClockFrequencyKhz (Capabilities idle_sdhc)) = 100000" "trace idle_sdhc = []"
    by (simp_all add: idle_sdhc_def)
  obtain c0 c1 c2 v where w: "writes SDHC_CONTROL_1 (trace w') = [c0, c1] @ c2" "reads SDHC_SLOT_INFORMATION_VERSION (trace w') = [v]"
    "divisor_chosen (reported_version v) 100000 25000 (clock_field (ucast c1))"
    using sd_clock_change [OF run] unfolding idle by auto
  have "reads SDHC_SLOT_INFORMATION_VERSION (trace w') = [0x20000]"
    using arg_cong [OF run, of snd] by (auto simp: SdhcSetClock_def SdhcCalcClockFrequency_def run Let_def clock_os_def idle(2)
        eval_nat_numeral idle_sdhc_def)
  with w have v: "v = 0x20000" by simp
  have above: "above 100000 25000 0" "above 100000 25000 1" "\<not> above 100000 25000 2" by (simp_all add: above_def)
  have d: "\<forall>d'<clock_field (ucast c1). above 100000 25000 d'"
    "clock_field (ucast c1) < 1023 \<longrightarrow> \<not> above 100000 25000 (clock_field (ucast c1))"
    using w(3) by (simp_all add: divisor_chosen_def reported_version_def v)
  have "\<not> 2 < clock_field (ucast c1)" using d(1) above(3) by blast
  moreover have "clock_field (ucast c1) \<noteq> 0" "clock_field (ucast c1) \<noteq> 1"
    by (rule notI, use d(2) above in simp)+
  ultimately show ?thesis using w(1) run by (auto intro!: exI [of _ c0])
qed

section \<open>Resetting the controller\<close>

lemma CmdAborted_incr: "CmdAborted_update (\<lambda>n. n + 1) w = w\<lparr>CmdAborted := CmdAborted w + 1\<rparr>"
  by (cases w) simp

text \<open>
  C33. A reset (\<open>SdhcResetHost\<close>) forgets the outstanding request and the transfer of the last bytes, whatever
  the controller does; it asks for the reset once, polls at most 99 times, and succeeds exactly when a poll saw
  the bit of the reset clear. Only then the time-out, the mask of the status (nothing) and the mask of the
  signals (everything) are written; otherwise it gives up after 99 polls and writes nothing more.
\<close>

theorem sd_reset:
  assumes "run_state (SdhcResetHost os ty) w = (status, w')" "reset_mask ty = Some m"
  shows "\<exists>es c vs. trace w' = trace w @ es \<and> OutstandingRequest w' = 0 \<and> UnalignedReqState w' = UnalignedReqStateIdle
    \<and> CmdAborted w' = (if OutstandingRequest w = 0 then CmdAborted w else CmdAborted w + 1)
    \<and> requests w' = requests w \<and> mem w' = mem w
    \<and> reads SDHC_CONTROL_1 es = c # vs \<and> length vs \<le> 99
    \<and> (if \<exists>v\<in>set vs. v AND m = 0
       then status = STATUS_SUCCESS \<and> last vs AND m = 0 \<and> (\<forall>v\<in>set (butlast vs). v AND m \<noteq> 0)
         \<and> writes SDHC_CONTROL_1 es = [c OR m, (c AND NOT SDHC_TC_COUNTER_MASK) OR SDHC_TC_MAX_DATA_TIMEOUT]
         \<and> writes SDHC_INTERRUPT_ERROR_STATUS_ENABLE es = [0]
         \<and> writes SDHC_INTERRUPT_ERROR_SIGNAL_ENABLE es = [SDHC_ALL_EVENTS]
       else status = STATUS_TIMEOUT \<and> length vs = 99 \<and> writes SDHC_CONTROL_1 es = [c OR m]
         \<and> writes SDHC_INTERRUPT_ERROR_STATUS_ENABLE es = [] \<and> writes SDHC_INTERRUPT_ERROR_SIGNAL_ENABLE es = [])"
proof -
  let ?W = "w\<lparr>OutstandingRequest := 0, CmdAborted := if OutstandingRequest w = 0 then CmdAborted w else CmdAborted w + 1,
    UnalignedReqState := UnalignedReqStateIdle\<rparr>"
  let ?r = "Mm (ReadRegister SDHC_CONTROL_1)"
  let ?e0 = "(?r, os (trace w) ?r)"
  let ?c = "r_val (snd ?e0)"
  let ?w0 = "Mm (WriteRegister SDHC_CONTROL_1 (?c OR m))"
  let ?e1 = "(?w0, os (trace w @ [?e0]) ?w0)"
  obtain r V where wait: "run_state (wait_control os (\<lambda>reg. reg AND m = 0) 99) (?W\<lparr>trace := trace ?W @ [?e0, ?e1]\<rparr>) = (r, V)"
    by (metis prod.exhaust)
  then obtain fs where fs: "V = ?W\<lparr>trace := (trace w @ [?e0, ?e1]) @ fs\<rparr>" "\<And>reg. writes reg fs = []"
    "length (reads SDHC_CONTROL_1 fs) \<le> 99"
    "r = None \<Longrightarrow> length (reads SDHC_CONTROL_1 fs) = 99 \<and> (\<forall>v\<in>set (reads SDHC_CONTROL_1 fs). v AND m \<noteq> 0)"
    "\<And>v. r = Some v \<Longrightarrow> \<exists>vs. reads SDHC_CONTROL_1 fs = vs @ [v] \<and> v AND m = 0 \<and> (\<forall>u\<in>set vs. u AND m \<noteq> 0)"
    by (rule wait_control_run) simp
  show ?thesis
  proof (cases r)
    case None
    with wait assms have "w' = V" "status = STATUS_TIMEOUT"
      by (auto simp: SdhcResetHost_def run CmdAborted_incr split: if_splits)
    then show ?thesis
      by (intro exI [of _ "[?e0, ?e1] @ fs"] exI [of _ ?c] exI [of _ "reads SDHC_CONTROL_1 fs"]) (use fs(1-3) fs(4) [OF None] in auto)
  next
    case (Some reg)
    with wait assms obtain gs where "w' = V\<lparr>trace := trace V @ gs\<rparr>" "status = STATUS_SUCCESS" "reads SDHC_CONTROL_1 gs = []"
      "writes SDHC_CONTROL_1 gs = [(?c AND NOT SDHC_TC_COUNTER_MASK) OR SDHC_TC_MAX_DATA_TIMEOUT]"
      "writes SDHC_INTERRUPT_ERROR_STATUS_ENABLE gs = [0]"
      "writes SDHC_INTERRUPT_ERROR_SIGNAL_ENABLE gs = [SDHC_ALL_EVENTS]"
      by (auto simp: SdhcResetHost_def run CmdAborted_incr split: if_splits)
    then show ?thesis
      by (intro exI [of _ "[?e0, ?e1] @ fs @ gs"] exI [of _ ?c] exI [of _ "reads SDHC_CONTROL_1 fs"])
        (use fs(1-3) fs(5) [OF Some] in auto)
  qed
qed


theorem sd_reset_witness:
  "\<exists>es. trace (snd (run_state (SdhcResetHost quiet_os SdResetTypeAll) idle_sdhc)) = es \<and> length (reads SDHC_CONTROL_1 es) \<le> 100
     \<and> OutstandingRequest (snd (run_state (SdhcResetHost quiet_os SdResetTypeAll) idle_sdhc)) = 0"
  using sd_reset [OF prod.collapse [symmetric], of SdResetTypeAll SDHC_RESET_ALL quiet_os idle_sdhc]
  by (force simp: reset_mask_def idle_sdhc_def)

end
