(* ===== verification/Sdhc_Irq.thy ===== *)
theory Sdhc_Irq
  imports Sdhc_Host Registers
begin

text \<open>
  The interrupt handler of the SD host controller: what it acknowledges and what it reports.
\<close>

lemma bit_flag:
  fixes x :: u32
  assumes "m = push_bit k 1"
  shows "(if x AND m \<noteq> 0 then m else 0) = x AND m"
  by (rule bit_word_eqI) (auto simp: assms bit_simps bit_1_iff and_exp_eq_0_iff_not_bit [where n = k, simplified push_bit_eq_mult [symmetric]])

lemma flags_recombine:
  fixes e :: u32
  shows "(((e AND NOT SDHC_IS_CARD_DETECT) AND NOT SDHC_IS_CARD_INTERRUPT) AND NOT SDHC_IS_TUNING_INTERRUPT)
     OR (e AND SDHC_IS_CARD_DETECT) OR (if e AND SDHC_IS_CARD_INTERRUPT \<noteq> 0 then SDHC_IS_CARD_INTERRUPT else 0)
     OR (if e AND SDHC_IS_TUNING_INTERRUPT \<noteq> 0 then SDHC_IS_TUNING_INTERRUPT else 0) = e"
proof -
  have "(256 :: u32) = push_bit 8 1" "(4096 :: u32) = push_bit 12 1" by simp_all
  note this [THEN bit_flag, of e]
  then show ?thesis by (simp only:) (rule bit_word_eqI, auto simp: bit_simps)
qed

lemma widen_eq_0 [simp]: "(ucast (s :: u16) :: u32) = 0 \<longleftrightarrow> s = 0"
proof
  assume "(ucast s :: u32) = 0"
  then have "bit (ucast s :: u32) n \<longleftrightarrow> bit (0 :: u32) n" for n by simp
  then show "s = 0" by (intro bit_word_eqI) (auto simp: bit_simps)
qed simp

lemma widen_and_not: "s AND NOT (ucast SDHC_IS_CARD_DETECT) = 0 \<longleftrightarrow> ucast (s :: u16) AND NOT SDHC_IS_CARD_DETECT = 0"
proof -
  have "(ucast (s AND NOT (ucast SDHC_IS_CARD_DETECT)) :: u32) = ucast s AND NOT SDHC_IS_CARD_DETECT"
    by (rule bit_word_eqI) (auto simp: bit_simps dest: bit_imp_le_length)
  then show ?thesis by (metis widen_eq_0)
qed

lemma upper_half: "ucast (ucast (drop_bit 16 ((u :: u32) AND SDHC_REG_UPPER_HALF_MASK)) :: u16) = drop_bit 16 u"
proof -
  have m: "(0xFFFF0000 :: u32) = push_bit 16 (mask 16)" by (simp add: mask_eq_decr_exp)
  show ?thesis unfolding m by (rule bit_word_eqI) (auto simp: bit_simps dest: bit_imp_le_length)
qed

definition report :: "u32 \<Rightarrow> u32 \<Rightarrow> sd_interrupt" where
  "report e errors = \<lparr>Events = ((e AND NOT SDHC_IS_CARD_DETECT) AND NOT SDHC_IS_CARD_INTERRUPT) AND NOT SDHC_IS_TUNING_INTERRUPT,
     Errors = errors, NotifyCardChange = False, NotifySdioInterrupt = (e AND SDHC_IS_CARD_INTERRUPT \<noteq> 0),
     NotifyTuning = (e AND SDHC_IS_TUNING_INTERRUPT \<noteq> 0)\<rparr>"

lemma report_all:
  "Events (report e errors) OR (e AND SDHC_IS_CARD_DETECT)
     OR (if NotifySdioInterrupt (report e errors) then SDHC_IS_CARD_INTERRUPT else 0)
     OR (if NotifyTuning (report e errors) then SDHC_IS_TUNING_INTERRUPT else 0) = e"
  "Errors (report e errors) = errors"
  using flags_recombine [of e] by (simp_all only: report_def sd_interrupt.simps)

definition pending_status :: "u32 \<Rightarrow> u16" where
  "pending_status v = (let s = ucast (v AND SDHC_REG_LOWER_HALF_MASK) in if s = 0xFFFF then 0 else s)"

text \<open>
  C31. The interrupt handler (\<open>SdhcSlotInterrupt\<close>) takes the status from one read. Nothing pending, or a
  controller that reads as all ones: it writes nothing and does not claim the interrupt. Otherwise it
  acknowledges exactly the pending bits (the errors through their own half, read before they are cleared), and
  every pending bit but those of the card detection is in what it reports.
\<close>

theorem sd_interrupt_acknowledges:
  assumes "run_state (SdhcSlotInterrupt os) w = ((claimed, i), w')"
  shows "\<exists>es v vs. trace w' = trace w @ es \<and> reads SDHC_INTERRUPT_ERROR_STATUS es = v # vs
    \<and> (let s = pending_status v; e = ucast s :: u32 in
        if s = 0 then \<not> claimed \<and> vs = [] \<and> (\<forall>reg. writes reg es = []) \<and> Events i = 0 \<and> Errors i = 0
        else (claimed \<longleftrightarrow> e AND NOT SDHC_IS_CARD_DETECT \<noteq> 0)
          \<and> Events i OR (e AND SDHC_IS_CARD_DETECT) OR (if NotifySdioInterrupt i then SDHC_IS_CARD_INTERRUPT else 0)
              OR (if NotifyTuning i then SDHC_IS_TUNING_INTERRUPT else 0) = e
          \<and> (if e AND SDHC_IS_ERROR_INTERRUPT = 0
             then vs = [] \<and> Errors i = 0 \<and> writes SDHC_INTERRUPT_ERROR_STATUS es = [e]
             else \<exists>u. vs = [u] \<and> Errors i = drop_bit 16 u
               \<and> writes SDHC_INTERRUPT_ERROR_STATUS es = [SDHC_REG_UPPER_HALF_MASK, e AND NOT SDHC_IS_ERROR_INTERRUPT]))"
proof -
  let ?r = "Mm (ReadRegister SDHC_INTERRUPT_ERROR_STATUS)"
  let ?e0 = "(?r, os (trace w) ?r)"
  let ?v = "r_val (snd ?e0)"
  let ?s = "pending_status ?v"
  have get: "run_state (SdhcGetInterruptStatus os) w = (?s, w\<lparr>trace := trace w @ [?e0]\<rparr>)"
    by (simp add: SdhcGetInterruptStatus_def run pending_status_def Let_def)
  consider "?s = 0" | "?s \<noteq> 0" "ucast ?s AND SDHC_IS_ERROR_INTERRUPT = 0" | "?s \<noteq> 0" "ucast ?s AND SDHC_IS_ERROR_INTERRUPT \<noteq> 0"
    by blast
  then show ?thesis
  proof cases
    case 1
    with assms get show ?thesis
      by (intro exI [of _ "[?e0]"] exI [of _ ?v] exI [of _ "[]"]) (auto simp: SdhcSlotInterrupt_def run Let_def)
  next
    case 2
    let ?w0 = "Mm (WriteRegister SDHC_INTERRUPT_ERROR_STATUS (ucast ?s))"
    from 2 assms get have "(claimed, i) = (?s AND NOT (ucast SDHC_IS_CARD_DETECT) \<noteq> 0, report (ucast ?s) 0)"
      "trace w' = trace w @ [?e0, (?w0, os (trace w @ [?e0]) ?w0)]"
      by (auto simp: SdhcSlotInterrupt_def SdhcAcknowledgeInterrupts_def run Let_def report_def)
    with 2 show ?thesis
      by (intro exI [of _ "[?e0, (?w0, os (trace w @ [?e0]) ?w0)]"] exI [of _ ?v] exI [of _ "[]"])
        (simp add: Let_def widen_and_not [simplified] report_all [simplified])
  next
    case 3
    let ?e1 = "(?r, os (trace w @ [?e0]) ?r)"
    let ?u = "r_val (snd ?e1)"
    from 3 assms get obtain es where "trace w' = trace w @ [?e0, ?e1] @ es" "reads SDHC_INTERRUPT_ERROR_STATUS es = []"
      "writes SDHC_INTERRUPT_ERROR_STATUS es = [SDHC_REG_UPPER_HALF_MASK, ucast ?s AND NOT SDHC_IS_ERROR_INTERRUPT]"
      by (auto simp: SdhcSlotInterrupt_def SdhcAcknowledgeInterrupts_def SdhcGetErrorStatus_def run Let_def)
    moreover from 3 assms get
    have "(claimed, i) = (?s AND NOT (ucast SDHC_IS_CARD_DETECT) \<noteq> 0, report (ucast ?s) (drop_bit 16 ?u))"
      by (auto simp: SdhcSlotInterrupt_def SdhcAcknowledgeInterrupts_def SdhcGetErrorStatus_def run Let_def report_def
          upper_half [simplified])
    ultimately show ?thesis using 3
      by (intro exI [of _ "[?e0, ?e1] @ es"] exI [of _ ?v] exI [of _ "[?u]"])
        (simp add: Let_def widen_and_not [simplified] report_all [simplified])
  qed
qed

theorem sd_interrupt_acknowledges_witness:
  "run_state (SdhcSlotInterrupt quiet_os) idle_sdhc = ((False, report 0 0), snd (run_state (SdhcSlotInterrupt quiet_os) idle_sdhc))
   \<and> writes SDHC_INTERRUPT_ERROR_STATUS (trace (snd (run_state (SdhcSlotInterrupt quiet_os) idle_sdhc))) = []"
proof -
  obtain w' where run: "run_state (SdhcSlotInterrupt quiet_os) idle_sdhc = ((False, report 0 0), w')"
    "reads SDHC_INTERRUPT_ERROR_STATUS (trace w') = [0]"
    by (simp add: SdhcSlotInterrupt_def SdhcGetInterruptStatus_def run Let_def quiet_os_def ok_reply_def idle_sdhc_def report_def)
  with sd_interrupt_acknowledges [OF run(1)] show ?thesis
    by (auto simp: idle_sdhc_def pending_status_def Let_def)
qed

end
