(* ===== verification/Sdhc_Request.thy ===== *)
theory Sdhc_Request
  imports Sdhc_Host
begin

text \<open>
  Requests (\<open>bcm2836sdhc.c\<close>, from \<open>SdhcSendCommand\<close>): commands and their responses, the transfer of
  data through the port, the state machine for requests whose length is not a multiple of the
  block, and the deferred interrupt routine.
\<close>

section \<open>The data port\<close>

fun read_words :: "os \<Rightarrow> nat \<Rightarrow> nat \<Rightarrow> (sdhc, unit) state" where
  "read_words os target 0 = return ()"
| "read_words os target (Suc n) = do {
     v \<leftarrow> SdhcReadRegisterUlong os SDHC_DATA_PORT;
     update (mem_update (store_bytes target (le32 v)));
     read_words os (target + 4) n
   }"

definition SdhcReadDataPort :: "os \<Rightarrow> nat \<Rightarrow> u32 \<Rightarrow> (sdhc, unit) state" where
  "SdhcReadDataPort os Buffer len = do {
     read_words os Buffer (unat len div 4);
     do_when (unat len mod 4 \<noteq> 0) (do {
       v \<leftarrow> SdhcReadRegisterUlong os SDHC_DATA_PORT;
       update (mem_update (store_bytes (Buffer + 4 * (unat len div 4)) (take (unat len mod 4) (le32 v))))
     })
   }"

fun write_words :: "os \<Rightarrow> nat \<Rightarrow> nat \<Rightarrow> (sdhc, unit) state" where
  "write_words os source 0 = return ()"
| "write_words os source (Suc n) = do {
     w \<leftarrow> get;
     SdhcWriteRegisterUlong os SDHC_DATA_PORT (from_le32 (load_bytes source 4 (mem w)));
     write_words os (source + 4) n
   }"

definition SdhcWriteDataPort :: "os \<Rightarrow> nat \<Rightarrow> u32 \<Rightarrow> (sdhc, unit) state" where
  "SdhcWriteDataPort os Buffer len = do {
     write_words os Buffer (unat len div 4);
     do_when (unat len mod 4 \<noteq> 0) (do {
       w \<leftarrow> get;
       SdhcWriteRegisterUlong os SDHC_DATA_PORT
         (from_le32 (load_bytes (Buffer + 4 * (unat len div 4)) (unat len mod 4) (mem w)
            @ replicate (4 - unat len mod 4) 0))
     })
   }"

section \<open>Transfers\<close>

text \<open>
  The request for the bytes after the last whole block. Its argument is advanced when the
  command writes to a region of addresses.
\<close>

definition internal_command :: "SD_RW_EXTENDED_ARGUMENT \<Rightarrow> SDPORT_COMMAND \<Rightarrow> SDPORT_COMMAND" where
  "internal_command ax c = c\<lparr>TransferType := SdTransferTypeSingleBlock,
     Length := Length c mod ucast (BlockSize c),
     BlockCount := 1,
     BlockSize := ucast (Length c mod ucast (BlockSize c)),
     DataBuffer := DataBuffer c + unat (BlockSize c) * unat (BlockCount c),
     Argument := (if OpCode ax (Argument c) \<noteq> 0
       then add_Address ax (Argument c) (ucast (BlockSize c) * ucast (BlockCount c)) else Argument c)\<rparr>"

definition SdhcPrepareInternalRequest :: "SD_RW_EXTENDED_ARGUMENT \<Rightarrow> handle \<Rightarrow> (sdhc, unit) state" where
  "SdhcPrepareInternalRequest ax Request = do {
     w \<leftarrow> get;
     update_request UnalignedRequest (\<lambda>_. (requests w Request)\<lparr>Command := internal_command ax (Command (requests w Request))\<rparr>)
   }"

definition SdhcStartNonBlockSizeAlignedRequest :: "SD_RW_EXTENDED_ARGUMENT \<Rightarrow> handle \<Rightarrow> (sdhc, bool) state" where
  "SdhcStartNonBlockSizeAlignedRequest ax Request = do {
     w \<leftarrow> get;
     let c = Command (requests w Request)
     in if Index c \<noteq> SDCMD_IO_RW_EXTENDED then do {
          update (UnalignedReqState_update (\<lambda>_. UnalignedReqStateIdle));
          return False
        } else if Request = UnalignedRequest then return False
        else if ucast (BlockCount c) * ucast (BlockSize c) < Length c then do {
          SdhcPrepareInternalRequest ax Request;
          update (UnalignedReqState_update (\<lambda>_. UnalignedReqStateReady));
          return True
        } else return False
   }"

text \<open>The counts that go into the command: whole blocks, or one block of the whole length.\<close>

definition block_counts :: "SDPORT_COMMAND \<Rightarrow> SDPORT_COMMAND" where
  "block_counts c = (let n = ucast (Length c div ucast (BlockSize c)) :: u16
     in if n = 0 then c\<lparr>BlockCount := 1, BlockSize := ucast (Length c)\<rparr> else c\<lparr>BlockCount := n\<rparr>)"

definition extended_argument :: "SD_RW_EXTENDED_ARGUMENT \<Rightarrow> SDPORT_COMMAND \<Rightarrow> u32" where
  "extended_argument ax c =
     (if 1 < BlockCount c then with_BlockMode ax (with_Count ax (Argument c) (ucast (BlockCount c))) 1
      else with_BlockMode ax (with_Count ax (Argument c) (Length c)) 0)"

definition transfer_mode :: "SDPORT_COMMAND \<Rightarrow> u16" where
  "transfer_mode c =
     (let m = (if 1 < BlockCount c then SDHC_TM_MULTIBLOCK OR SDHC_TM_BLKCNT_ENABLE OR SDHC_TM_AUTO_CMD12_ENABLE else 0);
          m = (if Index c = SDCMD_IO_RW_EXTENDED then m AND NOT SDHC_TM_AUTO_CMD12_ENABLE else m);
          m = (if TransferMethod c = SdTransferMethodSgDma then m OR SDHC_TM_DMA_ENABLE else m)
      in if TransferDirection c = SdTransferDirectionRead then m OR SDHC_TM_TRANSFER_READ else m)"

definition SdhcSetTransferMode :: "os \<Rightarrow> SD_RW_EXTENDED_ARGUMENT \<Rightarrow> handle \<Rightarrow> (sdhc, ntstatus \<times> u16) state" where
  "SdhcSetTransferMode os ax Request = do {
     w \<leftarrow> get;
     let c = Command (requests w Request)
     in if 2048 < BlockSize c then return (STATUS_INVALID_PARAMETER, 0)
        else if TransferDirection c = SdTransferDirectionUndefined then return (STATUS_INVALID_PARAMETER, 0)
        else do {
          do_when (BlockSize c = 0) sd_undefined;
          update_command Request block_counts;
          _ \<leftarrow> SdhcStartNonBlockSizeAlignedRequest ax Request;
          do_when (Index c = SDCMD_IO_RW_EXTENDED) (update_command Request (\<lambda>c. c\<lparr>Argument := extended_argument ax c\<rparr>));
          w \<leftarrow> get;
          let c = Command (requests w Request)
          in do {
            SdhcWriteRegisterUlong os SDHC_SYSADDR (ucast (BlockCount c));
            SdhcWriteRegisterUlong os SDHC_BLOCK_SIZE_COUNT (push_bit 16 (ucast (BlockCount c)) OR ucast (BlockSize c));
            return (STATUS_SUCCESS, transfer_mode c)
          }
        }
   }"

definition SdhcBuildPioTransfer :: "os \<Rightarrow> SD_RW_EXTENDED_ARGUMENT \<Rightarrow> handle \<Rightarrow> (sdhc, ntstatus \<times> u16) state" where
  "SdhcBuildPioTransfer os ax Request = SdhcSetTransferMode os ax Request"

definition SdhcBuildAdmaTransfer :: ntstatus where
  "SdhcBuildAdmaTransfer = STATUS_NOT_IMPLEMENTED"

definition SdhcBuildTransfer :: "os \<Rightarrow> SD_RW_EXTENDED_ARGUMENT \<Rightarrow> handle \<Rightarrow> (sdhc, ntstatus \<times> u16) state" where
  "SdhcBuildTransfer os ax Request = do {
     w \<leftarrow> get;
     case TransferMethod (Command (requests w Request)) of
       SdTransferMethodPio \<Rightarrow> SdhcBuildPioTransfer os ax Request
     | SdTransferMethodSgDma \<Rightarrow> return (SdhcBuildAdmaTransfer, 0)
     | SdTransferMethodUndefined \<Rightarrow> return (STATUS_NOT_SUPPORTED, 0)
   }"

section \<open>Commands\<close>

text \<open>\<open>None\<close> for a type that is not valid.\<close>

definition response_bits :: "sd_response_type \<Rightarrow> u32 option" where
  "response_bits t = (case t of
      SdResponseTypeNone \<Rightarrow> Some 0
    | SdResponseTypeR1 \<Rightarrow> Some (SDHC_CMD_RESPONSE_48BIT_NOBUSY OR SDHC_CMD_CRC_CHECK_ENABLE OR SDHC_CMD_INDEX_CHECK_ENABLE)
    | SdResponseTypeR5 \<Rightarrow> Some (SDHC_CMD_RESPONSE_48BIT_NOBUSY OR SDHC_CMD_CRC_CHECK_ENABLE OR SDHC_CMD_INDEX_CHECK_ENABLE)
    | SdResponseTypeR6 \<Rightarrow> Some (SDHC_CMD_RESPONSE_48BIT_NOBUSY OR SDHC_CMD_CRC_CHECK_ENABLE OR SDHC_CMD_INDEX_CHECK_ENABLE)
    | SdResponseTypeR1B \<Rightarrow> Some (SDHC_CMD_RESPONSE_48BIT_WBUSY OR SDHC_CMD_CRC_CHECK_ENABLE OR SDHC_CMD_INDEX_CHECK_ENABLE)
    | SdResponseTypeR5B \<Rightarrow> Some (SDHC_CMD_RESPONSE_48BIT_WBUSY OR SDHC_CMD_CRC_CHECK_ENABLE OR SDHC_CMD_INDEX_CHECK_ENABLE)
    | SdResponseTypeR2 \<Rightarrow> Some (SDHC_CMD_RESPONSE_136BIT OR SDHC_CMD_CRC_CHECK_ENABLE)
    | SdResponseTypeR3 \<Rightarrow> Some SDHC_CMD_RESPONSE_48BIT_NOBUSY
    | SdResponseTypeR4 \<Rightarrow> Some SDHC_CMD_RESPONSE_48BIT_NOBUSY
    | SdResponseTypeOther \<Rightarrow> None)"

definition command_type_bits :: "sd_command_type \<Rightarrow> u32" where
  "command_type_bits t = (case t of
      SdCommandTypeSuspend \<Rightarrow> SDHC_CMD_TYPE_SUSPEND
    | SdCommandTypeResume \<Rightarrow> SDHC_CMD_TYPE_RESUME
    | SdCommandTypeAbort \<Rightarrow> SDHC_CMD_TYPE_ABORT
    | SdCommandTypeOther \<Rightarrow> 0)"

definition required_events :: "SDPORT_COMMAND \<Rightarrow> u32" where
  "required_events c =
     SDHC_IS_CMD_COMPLETE OR
     (if ResponseType c = SdResponseTypeR1B \<or> ResponseType c = SdResponseTypeR5B then SDHC_IS_TRANSFER_COMPLETE else 0) OR
     (if TransferType c = SdTransferTypeNone then 0
      else case TransferMethod c of
          SdTransferMethodSgDma \<Rightarrow> SDHC_IS_TRANSFER_COMPLETE
        | SdTransferMethodPio \<Rightarrow>
            (if TransferDirection c = SdTransferDirectionRead then SDHC_IS_BUFFER_READ_READY else SDHC_IS_BUFFER_WRITE_READY)
        | SdTransferMethodUndefined \<Rightarrow> 0)"

definition SdhcSendCommand :: "os \<Rightarrow> SD_RW_EXTENDED_ARGUMENT \<Rightarrow> handle \<Rightarrow> (sdhc, ntstatus) state" where
  "SdhcSendCommand os ax Request = do {
     w \<leftarrow> get;
     let t = TransferType (Command (requests w Request)) in do {
     (status, mode) \<leftarrow> (if t \<noteq> SdTransferTypeNone \<and> t \<noteq> SdTransferTypeUndefined
       then SdhcBuildTransfer os ax Request else return (STATUS_SUCCESS, 0));
     if \<not> NT_SUCCESS status then return status
     else do {
       update_command Request (\<lambda>c. c\<lparr>DmaVirtualAddress := 0, ScatterGatherList := 0, ScatterGatherListSize := 0\<rparr>);
       w \<leftarrow> get;
       do_when (RequestType (requests w Request) = SdRequestTypeCommandWithTransfer)
         (update_command Request (Argument_update (\<lambda>a. a + WorkAroundOffset w)));
       w \<leftarrow> get;
       let c = Command (requests w Request) in do {
       SdhcWriteRegisterUlong os SDHC_ARGUMENT (Argument c);
       case response_bits (ResponseType c) of
         None \<Rightarrow> return STATUS_INVALID_PARAMETER
       | Some bits \<Rightarrow> do {
           mode \<leftarrow> (if TransferType c \<noteq> SdTransferTypeNone then return mode
             else do {
               reg \<leftarrow> SdhcReadRegisterUlong os SDHC_TRANSFER_MODE_COMMAND;
               return (((ucast (reg AND SDHC_REG_LOWER_HALF_MASK) AND NOT SDHC_TM_DMA_ENABLE)
                 AND NOT SDHC_TM_AUTO_CMD12_ENABLE) AND NOT SDHC_TM_AUTO_CMD23_ENABLE)
             });
           update (CurrentEvents_update (\<lambda>_. 0));
           update_request Request (\<lambda>r. r\<lparr>RequiredEvents := required_events c\<rparr>);
           SdhcWriteRegisterUlong os SDHC_TRANSFER_MODE_COMMAND
             (push_bit 24 (ucast (Index c)) OR bits
              OR (if TransferType c \<noteq> SdTransferTypeNone then SDHC_CMD_DATA_PRESENT else 0)
              OR command_type_bits (CommandType c) OR ucast mode);
           return STATUS_PENDING
         }
       }
     }
     }
   }"

definition SdhcGetResponseLength :: "sd_response_type \<Rightarrow> u8" where
  "SdhcGetResponseLength t = (case t of
      SdResponseTypeR2 \<Rightarrow> 16
    | SdResponseTypeNone \<Rightarrow> 0
    | SdResponseTypeOther \<Rightarrow> 0
    | _ \<Rightarrow> 4)"

text \<open>The size of the card in the response to command 9 is reduced by the offset.\<close>

definition reduced_card_size :: "u32 \<Rightarrow> u32 \<Rightarrow> u32" where
  "reduced_card_size offset r =
     (r AND NOT (push_bit 8 0x3FFFFF)) OR push_bit 8 ((drop_bit 8 r AND 0x3FFFFF) - offset div 1024)"

text \<open>The words that are written to the response buffer.\<close>

definition SdhcGetResponse :: "os \<Rightarrow> SDPORT_COMMAND \<Rightarrow> (sdhc, ntstatus \<times> u32 list) state" where
  "SdhcGetResponse os c =
     (if SdhcGetResponseLength (ResponseType c) = 0 then return (STATUS_SUCCESS, [])
      else if SdhcGetResponseLength (ResponseType c) = 4 then do {
        r0 \<leftarrow> SdhcReadRegisterUlong os SDHC_RESPONSE_0;
        return (STATUS_SUCCESS, [r0])
      } else if SdhcGetResponseLength (ResponseType c) = 16 then do {
        r0 \<leftarrow> SdhcReadRegisterUlong os SDHC_RESPONSE_0;
        r1 \<leftarrow> SdhcReadRegisterUlong os SDHC_RESPONSE_1;
        r2 \<leftarrow> SdhcReadRegisterUlong os SDHC_RESPONSE_2;
        r3 \<leftarrow> SdhcReadRegisterUlong os SDHC_RESPONSE_3;
        w \<leftarrow> get;
        return (STATUS_SUCCESS, [r0, if Index c = 9 then reduced_card_size (WorkAroundOffset w) r1 else r1, r2, r3])
      } else return (STATUS_INVALID_PARAMETER, []))"

definition SdhcSlotGetResponse :: "os \<Rightarrow> SDPORT_COMMAND \<Rightarrow> (sdhc, u32 list) state" where
  "SdhcSlotGetResponse os c = do { (_, ws) \<leftarrow> SdhcGetResponse os c; return ws }"

section \<open>Completion\<close>

definition SdhcConvertErrorToStatus :: "u16 \<Rightarrow> ntstatus" where
  "SdhcConvertErrorToStatus Error =
     (if Error = 0 then STATUS_SUCCESS
      else if Error AND (SDHC_ES_CMD_TIMEOUT OR SDHC_ES_DATA_TIMEOUT) \<noteq> 0 then STATUS_IO_TIMEOUT
      else if Error AND (SDHC_ES_CMD_CRC_ERROR OR SDHC_ES_DATA_CRC_ERROR) \<noteq> 0 then STATUS_CRC_ERROR
      else if Error AND (SDHC_ES_CMD_END_BIT_ERROR OR SDHC_ES_DATA_END_BIT_ERROR) \<noteq> 0 then STATUS_DEVICE_DATA_ERROR
      else if Error AND SDHC_ES_CMD_INDEX_ERROR \<noteq> 0 then STATUS_DEVICE_PROTOCOL_ERROR
      else if Error AND SDHC_ES_BUS_POWER_ERROR \<noteq> 0 then STATUS_DEVICE_POWER_FAILURE
      else STATUS_IO_DEVICE_ERROR)"

text \<open>A command that moves data is completed once all blocks have been moved.\<close>

definition command_completed :: "SDPORT_COMMAND \<Rightarrow> bool" where
  "command_completed c \<longleftrightarrow>
     (TransferType c \<noteq> SdTransferTypeNone \<and> TransferType c \<noteq> SdTransferTypeUndefined \<longrightarrow> BlockCount c = 0)"

definition SdhcCompleteRequest :: "os \<Rightarrow> handle \<Rightarrow> ntstatus \<Rightarrow> (sdhc, unit) state" where
  "SdhcCompleteRequest os Request st =
     (if Request = UnalignedRequest then return ()
      else do {
        w \<leftarrow> get;
        do_when (command_completed (Command (requests w Request))) (update (OutstandingRequest_update (\<lambda>_. 0)));
        update (CmdCompleted_update (\<lambda>n. n + 1));
        _ \<leftarrow> ext os (Sd (SdPortCompleteRequest Request st));
        return ()
      })"

definition SdhcStartPioTransfer :: "os \<Rightarrow> handle \<Rightarrow> (sdhc, ntstatus) state" where
  "SdhcStartPioTransfer os Request = do {
     w \<leftarrow> get;
     let events = CurrentEvents w; c = Command (requests w Request); reading = (TransferDirection c = SdTransferDirectionRead)
     in do {
       update (CurrentEvents_update (\<lambda>_. 0));
       (if reading then SdhcReadDataPort os (DataBuffer c) (ucast (BlockSize c))
        else SdhcWriteDataPort os (DataBuffer c) (ucast (BlockSize c)));
       update_command Request (BlockCount_update (\<lambda>n. n - 1));
       if 1 \<le> BlockCount c - 1 then do {
         update_request Request (\<lambda>r. r\<lparr>Command := (Command r)\<lparr>DataBuffer := DataBuffer (Command r) + unat (BlockSize c)\<rparr>,
           RequiredEvents := RequiredEvents r OR (if reading then SDHC_IS_BUFFER_READ_READY else SDHC_IS_BUFFER_WRITE_READY),
           Status := STATUS_MORE_PROCESSING_REQUIRED\<rparr>);
         return STATUS_PENDING
       } else do {
         update_request Request (\<lambda>r. r\<lparr>Status := STATUS_SUCCESS\<rparr>);
         if events AND SDHC_IS_TRANSFER_COMPLETE \<noteq> 0 then do {
           SdhcCompleteRequest os Request STATUS_SUCCESS;
           return STATUS_SUCCESS
         } else do {
           update_request Request (\<lambda>r. r\<lparr>RequiredEvents := RequiredEvents r OR SDHC_IS_TRANSFER_COMPLETE\<rparr>);
           return STATUS_PENDING
         }
       }
     }
   }"

definition SdhcStartAdmaTransfer :: "os \<Rightarrow> handle \<Rightarrow> (sdhc, ntstatus) state" where
  "SdhcStartAdmaTransfer os Request = do {
     update_request Request (\<lambda>r. r\<lparr>Status := STATUS_SUCCESS\<rparr>);
     _ \<leftarrow> ext os (Sd (SdPortCompleteRequest Request STATUS_SUCCESS));
     return STATUS_SUCCESS
   }"

definition SdhcStartTransfer :: "os \<Rightarrow> handle \<Rightarrow> (sdhc, ntstatus) state" where
  "SdhcStartTransfer os Request = do {
     w \<leftarrow> get;
     case TransferMethod (Command (requests w Request)) of
       SdTransferMethodPio \<Rightarrow> SdhcStartPioTransfer os Request
     | SdTransferMethodSgDma \<Rightarrow> SdhcStartAdmaTransfer os Request
     | SdTransferMethodUndefined \<Rightarrow> return STATUS_NOT_SUPPORTED
   }"

definition SdhcSlotIssueRequest :: "os \<Rightarrow> SD_RW_EXTENDED_ARGUMENT \<Rightarrow> handle \<Rightarrow> (sdhc, ntstatus) state" where
  "SdhcSlotIssueRequest os ax Request = do {
     update (OutstandingRequest_update (\<lambda>_. Request));
     update (CmdIssued_update (\<lambda>n. n + 1));
     w \<leftarrow> get;
     case RequestType (requests w Request) of
       SdRequestTypeCommandNoTransfer \<Rightarrow> SdhcSendCommand os ax Request
     | SdRequestTypeCommandWithTransfer \<Rightarrow> SdhcSendCommand os ax Request
     | SdRequestTypeStartTransfer \<Rightarrow> do {
         status \<leftarrow> SdhcStartTransfer os Request;
         return (if NT_SUCCESS status then STATUS_PENDING else status)
       }
     | SdRequestTypeOther \<Rightarrow> return STATUS_NOT_SUPPORTED
   }"

section \<open>The state machine of the last bytes, and the deferred routine\<close>

definition SdhcNonBlockSizeAlignedRequestSM :: "os \<Rightarrow> SD_RW_EXTENDED_ARGUMENT \<Rightarrow> handle \<Rightarrow> (sdhc, ntstatus) state" where
  "SdhcNonBlockSizeAlignedRequestSM os ax Request = do {
     w \<leftarrow> get;
     case UnalignedReqState w of
       UnalignedReqStateIdle \<Rightarrow> return STATUS_SUCCESS
     | UnalignedReqStateReady \<Rightarrow>
         if BlockCount (Command (requests w Request)) \<noteq> 0 then return STATUS_SUCCESS
         else do {
           update (UnalignedReqState_update (\<lambda>_. UnalignedReqStateSendCommand));
           status \<leftarrow> SdhcSendCommand os ax UnalignedRequest;
           if \<not> NT_SUCCESS status then do {
             update (UnalignedReqState_update (\<lambda>_. UnalignedReqStateIdle));
             return status
           } else return STATUS_MORE_PROCESSING_REQUIRED
         }
     | UnalignedReqStateSendCommand \<Rightarrow> do {
         update (UnalignedReqState_update (\<lambda>_. UnalignedReqStateStartTransfer));
         status \<leftarrow> SdhcStartTransfer os UnalignedRequest;
         if \<not> NT_SUCCESS status then do {
           update (UnalignedReqState_update (\<lambda>_. UnalignedReqStateIdle));
           return status
         } else if status = STATUS_PENDING then return STATUS_MORE_PROCESSING_REQUIRED
         else do {
           update (UnalignedReqState_update (\<lambda>_. UnalignedReqStateIdle));
           return STATUS_SUCCESS
         }
       }
     | UnalignedReqStateStartTransfer \<Rightarrow> do {
         update (UnalignedReqState_update (\<lambda>_. UnalignedReqStateIdle));
         return STATUS_SUCCESS
       }
   }"

definition SdhcCompleteNonBlockSizeAlignedRequest ::
  "os \<Rightarrow> SD_RW_EXTENDED_ARGUMENT \<Rightarrow> handle \<Rightarrow> ntstatus \<Rightarrow> (sdhc, ntstatus) state" where
  "SdhcCompleteNonBlockSizeAlignedRequest os ax Request CompletionStatus =
     (if \<not> NT_SUCCESS CompletionStatus \<and> CompletionStatus \<noteq> STATUS_MORE_PROCESSING_REQUIRED then do {
        update (UnalignedReqState_update (\<lambda>_. UnalignedReqStateIdle));
        return STATUS_SUCCESS
      } else SdhcNonBlockSizeAlignedRequestSM os ax Request)"

definition SdhcRequestDpc :: "os \<Rightarrow> SD_RW_EXTENDED_ARGUMENT \<Rightarrow> handle \<Rightarrow> u32 \<Rightarrow> u32 \<Rightarrow> (sdhc, unit) state" where
  "SdhcRequestDpc os ax Request events errors =
     (if events AND SDHC_IS_COMMAND_EVENT = 0 \<and> errors = 0 then return ()
      else do {
        update (CurrentEvents_update (\<lambda>e. e OR events));
        w \<leftarrow> get;
        if OutstandingRequest w = 0 then return ()
        else do {
          update_request Request (RequiredEvents_update (\<lambda>e. e AND NOT events));
          w \<leftarrow> get;
          if errors \<noteq> 0 then do {
            _ \<leftarrow> SdhcCompleteNonBlockSizeAlignedRequest os ax Request (SdhcConvertErrorToStatus (ucast errors));
            update_request Request (RequiredEvents_update (\<lambda>_. 0));
            update (CurrentEvents_update (\<lambda>_. 0));
            SdhcCompleteRequest os Request (SdhcConvertErrorToStatus (ucast errors))
          } else if RequiredEvents (requests w Request) = 0 then do {
            do_when (Status (requests w Request) \<noteq> STATUS_MORE_PROCESSING_REQUIRED)
              (update_request Request (Status_update (\<lambda>_. STATUS_SUCCESS)));
            w \<leftarrow> get;
            status \<leftarrow> SdhcCompleteNonBlockSizeAlignedRequest os ax Request (Status (requests w Request));
            if status = STATUS_MORE_PROCESSING_REQUIRED then return ()
            else do {
              w \<leftarrow> get;
              SdhcCompleteRequest os Request (Status (requests w Request))
            }
          } else return ()
        }
      })"

end
