(* ===== verification/Sdhc_Data.thy ===== *)
theory Sdhc_Data
  imports Sdhc_Request Registers
begin

text \<open>
  The data port: the bytes a transfer moves between the port and a buffer.
\<close>

section \<open>Bytes and words\<close>

lemma le32_from_le32:
  assumes "length bs = 4"
  shows "le32 (from_le32 bs) = bs"
proof -
  obtain a b c d where bs: "bs = [a, b, c, d]"
    using assms by (auto simp: numeral_eq_Suc length_Suc_conv)
  have "ucast (from_le32 bs) = a" "ucast (drop_bit 8 (from_le32 bs)) = b"
    "ucast (drop_bit 16 (from_le32 bs)) = c" "ucast (drop_bit 24 (from_le32 bs)) = d"
    unfolding bs from_le32_def list.case
    by (rule bit_word_eqI; auto simp: bit_simps dest: bit_imp_le_length)+
  then show ?thesis by (simp add: le32_def bs)
qed

definition port_bytes :: "u32 list \<Rightarrow> u8 list" where
  "port_bytes ws = concat (map le32 ws)"

lemma port_bytes_simps [simp]:
  "port_bytes [] = []" "port_bytes (w # ws) = le32 w @ port_bytes ws" "port_bytes (ws @ us) = port_bytes ws @ port_bytes us"
  by (simp_all add: port_bytes_def)

lemma length_port_bytes [simp]: "length (port_bytes ws) = 4 * length ws"
  by (induction ws) simp_all

definition port :: "bool \<Rightarrow> event list \<Rightarrow> u32 list" where
  "port rd es = (if rd then reads SDHC_DATA_PORT es else writes SDHC_DATA_PORT es)"

lemma port_append [simp]: "port rd (es @ fs) = port rd es @ port rd fs"
  by (simp add: port_def)

text \<open>The first \<open>n\<close> bytes of the words of the port are those of the buffer at \<open>a\<close>, and no word is left over.\<close>

definition moved :: "bool \<Rightarrow> nat \<Rightarrow> nat \<Rightarrow> (nat \<Rightarrow> u8) \<Rightarrow> event list \<Rightarrow> bool" where
  "moved rd a n m es \<longleftrightarrow> load_bytes a n m = take n (port_bytes (port rd es)) \<and> length (port rd es) = (n + 3) div 4"

lemma moved_0 [simp]: "moved rd a 0 m []"
  by (simp add: moved_def load_bytes_def port_def)

lemma moved_append:
  assumes "moved rd a n m es" "moved rd (a + n) k m' fs" "n mod 4 = 0"
    and "\<And>x. a \<le> x \<Longrightarrow> x < a + n \<Longrightarrow> m' x = m x"
  shows "moved rd a (n + k) m' (es @ fs)"
proof -
  obtain q where q: "n = 4 * q" using assms(3) by auto
  then have "length (port_bytes (port rd es)) = n" using assms(1) by (simp add: moved_def)
  moreover have "load_bytes a n m' = load_bytes a n m" by (rule load_bytes_cong) (use assms(4) in auto)
  ultimately show ?thesis
    using assms(1,2) by (simp add: moved_def load_bytes_append q)
qed

section \<open>Reading and writing the port\<close>

lemma mem_update_store [simp]: "mem_update (store_bytes a bs) w = w\<lparr>mem := store_bytes a bs (mem w)\<rparr>"
  by (cases w) simp

lemma read_words_run:
  "\<exists>es m. run_state (read_words os a n) w = ((), w\<lparr>trace := trace w @ es, mem := m\<rparr>)
     \<and> moved True a (4 * n) m es \<and> (\<forall>x. x < a \<or> a + 4 * n \<le> x \<longrightarrow> m x = mem w x)"
proof (induction n arbitrary: a w)
  case 0
  then show ?case by (intro exI [of _ "[]"] exI [of _ "mem w"]) (simp add: run)
next
  case (Suc n)
  let ?c = "Mm (ReadRegister SDHC_DATA_PORT)"
  let ?e = "(?c, os (trace w) ?c)"
  let ?m = "store_bytes a (le32 (r_val (snd ?e))) (mem w)"
  obtain es m where es: "run_state (read_words os (a + 4) n) (w\<lparr>trace := trace w @ [?e], mem := ?m\<rparr>)
      = ((), w\<lparr>trace := trace w @ [?e] @ es, mem := m\<rparr>)"
    "moved True (a + 4) (4 * n) m es" "\<forall>x. x < a + 4 \<or> a + 4 + 4 * n \<le> x \<longrightarrow> m x = ?m x"
    using Suc [of "a + 4" "w\<lparr>trace := trace w @ [?e], mem := ?m\<rparr>"] by auto
  have "moved True a 4 ?m [?e]" by (simp add: moved_def port_def)
  then have "moved True a (4 + 4 * n) m ([?e] @ es)"
    by (rule moved_append) (use es in auto)
  moreover have "run_state (read_words os a (Suc n)) w = ((), w\<lparr>trace := trace w @ ([?e] @ es), mem := m\<rparr>)"
    using es(1) by (simp add: run)
  moreover have "\<forall>x. x < a \<or> a + 4 * Suc n \<le> x \<longrightarrow> m x = mem w x"
    using es(3) by (auto simp: store_bytes_outside)
  ultimately show ?case by (metis mult_Suc_right)
qed

lemma write_words_run:
  "\<exists>es. run_state (write_words os a n) w = ((), w\<lparr>trace := trace w @ es\<rparr>) \<and> moved False a (4 * n) (mem w) es"
proof (induction n arbitrary: a w)
  case 0
  then show ?case by (intro exI [of _ "[]"]) (simp add: run)
next
  case (Suc n)
  let ?c = "Mm (WriteRegister SDHC_DATA_PORT (from_le32 (load_bytes a 4 (mem w))))"
  let ?e = "(?c, os (trace w) ?c)"
  obtain es where es: "run_state (write_words os (a + 4) n) (w\<lparr>trace := trace w @ [?e]\<rparr>) = ((), w\<lparr>trace := trace w @ [?e] @ es\<rparr>)"
    "moved False (a + 4) (4 * n) (mem w) es"
    using Suc [of "a + 4" "w\<lparr>trace := trace w @ [?e]\<rparr>"] by auto
  have "moved False a 4 (mem w) [?e]" by (simp add: moved_def port_def le32_from_le32)
  then have "moved False a (4 + 4 * n) (mem w) ([?e] @ es)"
    by (rule moved_append) (use es in auto)
  moreover have "run_state (write_words os a (Suc n)) w = ((), w\<lparr>trace := trace w @ ([?e] @ es)\<rparr>)"
    using es(1) by (simp add: run)
  ultimately show ?case by (metis mult_Suc_right)
qed

definition move_data :: "os \<Rightarrow> bool \<Rightarrow> nat \<Rightarrow> u32 \<Rightarrow> (sdhc, unit) state" where
  "move_data os rd a n = (if rd then SdhcReadDataPort os a n else SdhcWriteDataPort os a n)"

lemma move_data_run:
  "\<exists>es m. run_state (move_data os rd a len) w = ((), w\<lparr>trace := trace w @ es, mem := m\<rparr>)
     \<and> moved rd a (unat len) m es \<and> (\<forall>x. x < a \<or> a + unat len \<le> x \<longrightarrow> m x = mem w x) \<and> (\<not> rd \<longrightarrow> m = mem w)"
proof -
  define q where "q = unat len div 4"
  define r where "r = unat len mod 4"
  have n: "unat len = 4 * q + r" "r < 4" by (simp_all add: q_def r_def)
  have up: "(4 * q + r + 3) div 4 = (if r = 0 then q else q + 1)" using n(2) by auto
  show ?thesis
  proof (cases rd)
    case True
    obtain es m where es: "run_state (read_words os a q) w = ((), w\<lparr>trace := trace w @ es, mem := m\<rparr>)"
      "moved True a (4 * q) m es" "\<forall>x. x < a \<or> a + 4 * q \<le> x \<longrightarrow> m x = mem w x"
      using read_words_run [of os a q w] by blast
    show ?thesis
    proof (cases "r = 0")
      case True
      then show ?thesis using \<open>rd\<close> es n
        by (intro exI [of _ es] exI [of _ m]) (simp add: move_data_def SdhcReadDataPort_def run flip: q_def r_def)
    next
      case False
      let ?c = "Mm (ReadRegister SDHC_DATA_PORT)"
      let ?e = "(?c, os (trace w @ es) ?c)"
      let ?m = "store_bytes (a + 4 * q) (take r (le32 (r_val (snd ?e)))) m"
      have "moved True (a + 4 * q) r ?m [?e]" using n(2) False by (simp add: moved_def port_def)
      with es(2) have "moved True a (4 * q + r) ?m (es @ [?e])"
        by (rule moved_append) (auto simp: store_bytes_outside)
      then show ?thesis using \<open>rd\<close> es n False
        by (intro exI [of _ "es @ [?e]"] exI [of _ ?m])
          (simp add: move_data_def SdhcReadDataPort_def run store_bytes_outside flip: q_def r_def)
    qed
  next
    case False
    obtain es where es: "run_state (write_words os a q) w = ((), w\<lparr>trace := trace w @ es\<rparr>)" "moved False a (4 * q) (mem w) es"
      using write_words_run [of os a q w] by blast
    show ?thesis
    proof (cases "r = 0")
      case True
      then show ?thesis using \<open>\<not> rd\<close> es n
        by (intro exI [of _ es] exI [of _ "mem w"]) (simp add: move_data_def SdhcWriteDataPort_def run flip: q_def r_def)
    next
      case False
      let ?c = "Mm (WriteRegister SDHC_DATA_PORT (from_le32 (load_bytes (a + 4 * q) r (mem w) @ replicate (4 - r) 0)))"
      let ?e = "(?c, os (trace w @ es) ?c)"
      have "moved False (a + 4 * q) r (mem w) [?e]" using n(2) False by (simp add: moved_def port_def le32_from_le32)
      with es(2) have "moved False a (4 * q + r) (mem w) (es @ [?e])" by (rule moved_append) simp_all
      then show ?thesis using \<open>\<not> rd\<close> es n False
        by (intro exI [of _ "es @ [?e]"] exI [of _ "mem w"]) (simp add: move_data_def SdhcWriteDataPort_def run flip: q_def r_def)
    qed
  qed
qed

end
