(* ===== verification/Sdhc_Transfer.thy ===== *)
theory Sdhc_Transfer
  imports Sdhc_Data
begin

text \<open>
  A request that moves data, from its command to its completion: the operations the port driver
  calls and the deferred routine, in the order the interrupts give.
\<close>

section \<open>Operations that move no data\<close>

definition quiet :: "sdhc \<Rightarrow> sdhc \<Rightarrow> bool" where
  "quiet w w' \<longleftrightarrow> mem w' = mem w \<and> (\<exists>es. trace w' = trace w @ es \<and> (\<forall>rd. port rd es = []))"

lemma quiet_refl [simp, intro]: "quiet w w"
  by (auto simp: quiet_def port_def)

lemma quiet_trans: "quiet u v \<Longrightarrow> quiet v w \<Longrightarrow> quiet u w"
  by (fastforce simp: quiet_def)

lemma quiet_same: "mem w' = mem w \<Longrightarrow> trace w' = trace w \<Longrightarrow> quiet w w'"
  by (auto simp: quiet_def port_def)

lemma quiet_event: "mem w' = mem w \<Longrightarrow> trace w' = trace w @ es \<Longrightarrow> (\<And>rd. port rd es = []) \<Longrightarrow> quiet w w'"
  by (auto simp: quiet_def)

section \<open>The command\<close>

text \<open>What the command of a request is after it has been sent, but for the argument and the fields of the DMA.\<close>

definition sent_as :: "SDPORT_COMMAND \<Rightarrow> SDPORT_COMMAND \<Rightarrow> bool" where
  "sent_as c d \<longleftrightarrow> Index d = Index c \<and> ResponseType d = ResponseType c \<and> TransferType d = TransferType c
     \<and> TransferDirection d = TransferDirection c \<and> TransferMethod d = TransferMethod c
     \<and> BlockCount d = BlockCount (block_counts c) \<and> BlockSize d = BlockSize (block_counts c)
     \<and> Length d = Length c \<and> DataBuffer d = DataBuffer c"

definition pio_command :: "SDPORT_COMMAND \<Rightarrow> bool" where
  "pio_command c \<longleftrightarrow> TransferMethod c = SdTransferMethodPio
     \<and> TransferType c \<noteq> SdTransferTypeNone \<and> TransferType c \<noteq> SdTransferTypeUndefined
     \<and> TransferDirection c \<noteq> SdTransferDirectionUndefined \<and> response_bits (ResponseType c) \<noteq> None"

lemma block_counts_fields [simp]:
  "Index (block_counts c) = Index c" "ResponseType (block_counts c) = ResponseType c"
  "TransferType (block_counts c) = TransferType c" "TransferDirection (block_counts c) = TransferDirection c"
  "TransferMethod (block_counts c) = TransferMethod c" "Length (block_counts c) = Length c"
  "DataBuffer (block_counts c) = DataBuffer c" "Argument (block_counts c) = Argument c"
  by (simp_all add: block_counts_def Let_def)

text \<open>Only command 53 may move a number of bytes that is not a whole number of blocks.\<close>

definition needs_rest :: "handle \<Rightarrow> SDPORT_COMMAND \<Rightarrow> bool" where
  "needs_rest r c \<longleftrightarrow> r \<noteq> UnalignedRequest \<and> Index c = SDCMD_IO_RW_EXTENDED \<and> ucast (BlockCount c) * ucast (BlockSize c) < Length c"

lemma set_transfer_mode_run:
  fixes w :: sdhc and os ax r
  defines "res \<equiv> run_state (SdhcSetTransferMode os ax r) w"
  assumes c: "c = Command (requests w r)" "pio_command c" "BlockSize c \<le> 2048" "BlockSize c \<noteq> 0"
  shows "fst (fst res) = STATUS_SUCCESS" "quiet w (snd res)"
    "sent_as c (Command (requests (snd res) r))" "OutstandingRequest (snd res) = OutstandingRequest w"
    "RequestType (requests (snd res) r) = RequestType (requests w r)"
    "UnalignedReqState (snd res) = (if needs_rest r (block_counts c) then UnalignedReqStateReady
      else if Index c = SDCMD_IO_RW_EXTENDED then UnalignedReqState w else UnalignedReqStateIdle)"
    "needs_rest r (block_counts c) \<Longrightarrow>
      Command (requests (snd res) UnalignedRequest) = internal_command ax (block_counts c)"
    "q \<noteq> r \<Longrightarrow> q \<noteq> UnalignedRequest \<Longrightarrow> requests (snd res) q = requests w q"
proof -
  note defs = res_def SdhcSetTransferMode_def SdhcStartNonBlockSizeAlignedRequest_def SdhcPrepareInternalRequest_def run Let_def
    needs_rest_def pio_command_def sent_as_def not_less
  note simps = defs c [unfolded pio_command_def]
  show "fst (fst res) = STATUS_SUCCESS" using c by (auto simp: defs)
  show "quiet w (snd res)" using c by (auto simp: defs quiet_def port_def)
  show "sent_as c (Command (requests (snd res) r))" using c by (auto simp: defs)
  show "OutstandingRequest (snd res) = OutstandingRequest w" using c by (auto simp: defs)
  show "RequestType (requests (snd res) r) = RequestType (requests w r)" using c by (auto simp: defs)
  show "UnalignedReqState (snd res) = (if needs_rest r (block_counts c) then UnalignedReqStateReady
      else if Index c = SDCMD_IO_RW_EXTENDED then UnalignedReqState w else UnalignedReqStateIdle)"
    using c by (auto simp: defs)
  show "Command (requests (snd res) UnalignedRequest) = internal_command ax (block_counts c)" if "needs_rest r (block_counts c)"
    using c that by (auto simp: defs)
  show "requests (snd res) q = requests w q" if "q \<noteq> r" "q \<noteq> UnalignedRequest" using c that by (auto simp: defs)
qed

lemma send_command_run:
  fixes w :: sdhc and os ax r
  defines "res \<equiv> run_state (SdhcSendCommand os ax r) w"
  assumes c: "c = Command (requests w r)" "pio_command c" "BlockSize c \<le> 2048" "BlockSize c \<noteq> 0"
  shows "fst res = STATUS_PENDING" "quiet w (snd res)" "sent_as c (Command (requests (snd res) r))"
    "OutstandingRequest (snd res) = OutstandingRequest w"
    "UnalignedReqState (snd res) = (if needs_rest r (block_counts c) then UnalignedReqStateReady
      else if Index c = SDCMD_IO_RW_EXTENDED then UnalignedReqState w else UnalignedReqStateIdle)"
    "needs_rest r (block_counts c) \<Longrightarrow>
      Command (requests (snd res) UnalignedRequest) = internal_command ax (block_counts c)"
    "q \<noteq> r \<Longrightarrow> q \<noteq> UnalignedRequest \<Longrightarrow> requests (snd res) q = requests w q"
proof -
  note mode = set_transfer_mode_run [OF c, where os = os and ax = ax]
  define W where "W = snd (run_state (SdhcSetTransferMode os ax r) w)"
  obtain m where m: "run_state (SdhcSetTransferMode os ax r) w = ((STATUS_SUCCESS, m), W)"
    using mode(1) by (metis W_def prod.collapse)
  obtain bits where "response_bits (ResponseType c) = Some bits" using c(2) by (auto simp: pio_command_def)
  then have bits: "response_bits (ResponseType (Command (requests W r))) = Some bits"
    "TransferType (Command (requests W r)) \<noteq> SdTransferTypeNone"
    using mode(3) c(2) by (auto simp: sent_as_def pio_command_def W_def)
  have res: "res = run_state (do {
       update_command r (\<lambda>c. c\<lparr>DmaVirtualAddress := 0, ScatterGatherList := 0, ScatterGatherListSize := 0\<rparr>);
       w \<leftarrow> get;
       do_when (RequestType (requests w r) = SdRequestTypeCommandWithTransfer)
         (update_command r (Argument_update (\<lambda>a. a + WorkAroundOffset w)));
       w \<leftarrow> get;
       let c = Command (requests w r) in do {
         SdhcWriteRegisterUlong os SDHC_ARGUMENT (Argument c);
         update (CurrentEvents_update (\<lambda>_. 0));
         update_request r (\<lambda>r. r\<lparr>RequiredEvents := required_events c\<rparr>);
         SdhcWriteRegisterUlong os SDHC_TRANSFER_MODE_COMMAND
           (push_bit 24 (ucast (Index c)) OR bits OR SDHC_CMD_DATA_PRESENT OR command_type_bits (CommandType c) OR ucast m);
         return STATUS_PENDING
       } }) W"
    using m c(1,2) bits by (simp add: res_def SdhcSendCommand_def SdhcBuildTransfer_def SdhcBuildPioTransfer_def run Let_def pio_command_def)
  show "fst res = STATUS_PENDING" by (simp add: res run Let_def)
  show "quiet w (snd res)"
    using mode(2) by (rule quiet_trans) (auto simp: res run Let_def quiet_def port_def simp flip: W_def)
  show "sent_as c (Command (requests (snd res) r))"
    using mode(3) by (auto simp: res run Let_def sent_as_def simp flip: W_def)
  show "OutstandingRequest (snd res) = OutstandingRequest w" using mode(4) by (simp add: res run Let_def flip: W_def)
  show "UnalignedReqState (snd res) = (if needs_rest r (block_counts c) then UnalignedReqStateReady
      else if Index c = SDCMD_IO_RW_EXTENDED then UnalignedReqState w else UnalignedReqStateIdle)"
    using mode(6) by (simp add: res run Let_def flip: W_def)
  show "Command (requests (snd res) UnalignedRequest) = internal_command ax (block_counts c)" if "needs_rest r (block_counts c)"
    using mode(7) [OF that] that by (auto simp: res run Let_def needs_rest_def simp flip: W_def)
  show "requests (snd res) q = requests w q" if "q \<noteq> r" "q \<noteq> UnalignedRequest"
    using mode(8) [OF that] that by (auto simp: res run Let_def simp flip: W_def)
qed

section \<open>One block\<close>

definition block_moved :: "handle \<Rightarrow> sdhc \<Rightarrow> sdhc \<Rightarrow> event list \<Rightarrow> bool" where
  "block_moved r w w' es \<longleftrightarrow> (let c = Command (requests w r) in
     trace w' = trace w @ es
     \<and> moved (TransferDirection c = SdTransferDirectionRead) (DataBuffer c) (unat (BlockSize c)) (mem w') es
     \<and> (\<forall>x. x < DataBuffer c \<or> DataBuffer c + unat (BlockSize c) \<le> x \<longrightarrow> mem w' x = mem w x)
     \<and> (TransferDirection c \<noteq> SdTransferDirectionRead \<longrightarrow> mem w' = mem w)
     \<and> Command (requests w' r) = (if 1 \<le> BlockCount c - 1
       then c\<lparr>BlockCount := BlockCount c - 1, DataBuffer := DataBuffer c + unat (BlockSize c)\<rparr> else c\<lparr>BlockCount := BlockCount c - 1\<rparr>)
     \<and> (\<forall>q. q \<noteq> r \<longrightarrow> requests w' q = requests w q) \<and> UnalignedReqState w' = UnalignedReqState w
     \<and> (OutstandingRequest w' = OutstandingRequest w \<or> OutstandingRequest w' = 0 \<and> r \<noteq> UnalignedRequest
       \<and> \<not> 1 \<le> BlockCount c - 1 \<and> CurrentEvents w AND SDHC_IS_TRANSFER_COMPLETE \<noteq> 0))"

lemma start_pio_run:
  fixes w :: sdhc and os r
  defines "res \<equiv> run_state (SdhcStartPioTransfer os r) w"
  shows "fst res \<in> {STATUS_SUCCESS, STATUS_PENDING}" "\<exists>es. block_moved r w (snd res) es"
proof -
  define c where c: "c = Command (requests w r)"
  let ?rd = "TransferDirection c = SdTransferDirectionRead"
  let ?W = "w\<lparr>CurrentEvents := 0\<rparr>"
  obtain es m where es: "run_state (move_data os ?rd (DataBuffer c) (ucast (BlockSize c))) ?W
      = ((), w\<lparr>CurrentEvents := 0, trace := trace w @ es, mem := m\<rparr>)"
    "moved ?rd (DataBuffer c) (unat (ucast (BlockSize c) :: u32)) m es"
    "\<forall>x. x < DataBuffer c \<or> DataBuffer c + unat (ucast (BlockSize c) :: u32) \<le> x \<longrightarrow> m x = mem w x"
    "\<not> ?rd \<longrightarrow> m = mem w"
    using move_data_run [of os ?rd "DataBuffer c" "ucast (BlockSize c)" ?W] by auto
  have n: "unat (ucast (BlockSize c) :: u32) = unat (BlockSize c)"
    by (rule unat_widen)
  have res: "res = run_state (do {
       update_command r (BlockCount_update (\<lambda>n. n - 1));
       if 1 \<le> BlockCount c - 1 then do {
         update_request r (\<lambda>r. r\<lparr>Command := (Command r)\<lparr>DataBuffer := DataBuffer (Command r) + unat (BlockSize c)\<rparr>,
           RequiredEvents := RequiredEvents r OR (if ?rd then SDHC_IS_BUFFER_READ_READY else SDHC_IS_BUFFER_WRITE_READY),
           Status := STATUS_MORE_PROCESSING_REQUIRED\<rparr>);
         return STATUS_PENDING
       } else do {
         update_request r (\<lambda>r. r\<lparr>Status := STATUS_SUCCESS\<rparr>);
         if CurrentEvents w AND SDHC_IS_TRANSFER_COMPLETE \<noteq> 0 then do {
           SdhcCompleteRequest os r STATUS_SUCCESS;
           return STATUS_SUCCESS
         } else do {
           update_request r (\<lambda>r. r\<lparr>RequiredEvents := RequiredEvents r OR SDHC_IS_TRANSFER_COMPLETE\<rparr>);
           return STATUS_PENDING
         }
       } }) (w\<lparr>CurrentEvents := 0, trace := trace w @ es, mem := m\<rparr>)"
    using es(1) c by (simp add: res_def SdhcStartPioTransfer_def move_data_def run Let_def)
  let ?done = "\<not> 1 \<le> BlockCount c - 1 \<and> CurrentEvents w AND SDHC_IS_TRANSFER_COMPLETE \<noteq> 0 \<and> r \<noteq> UnalignedRequest"
  let ?c = "Sd (SdPortCompleteRequest r STATUS_SUCCESS)"
  let ?fs = "if ?done then [(?c, os (trace w @ es) ?c)] else []"
  have "port ?rd ?fs = []" by (simp add: port_def)
  then have "moved ?rd (DataBuffer c) (unat (BlockSize c)) m (es @ ?fs)"
    using es(2) n by (simp only: moved_def port_append append_Nil2)
  then show "\<exists>es. block_moved r w (snd res) es"
    by (intro exI [of _ "es @ ?fs"], unfold block_moved_def Let_def c [symmetric])
      (use es n c in \<open>auto simp: res run SdhcCompleteRequest_def split: if_splits\<close>)
  show "fst res \<in> {STATUS_SUCCESS, STATUS_PENDING}" by (auto simp: res run split: prod.split)
qed

section \<open>The whole request\<close>

text \<open>
  The transfer asked for: the buffer and its length, the size and number of whole blocks, and
  whether the card is read. \<open>x_rest\<close> bytes are left after the last whole block.
\<close>

record xfer =
  x_buf :: nat
  x_len :: nat
  x_blk :: nat
  x_cnt :: nat
  x_rd :: bool

definition x_rest :: "xfer \<Rightarrow> nat" where
  "x_rest x = x_len x - x_cnt x * x_blk x"

definition xfer_ok :: "xfer \<Rightarrow> bool" where
  "xfer_ok x \<longleftrightarrow> x_cnt x * x_blk x \<le> x_len x \<and> x_rest x < x_blk x \<and> x_blk x \<le> 2048
     \<and> (0 < x_rest x \<or> 1 < x_cnt x \<longrightarrow> x_blk x mod 4 = 0)"

definition direction :: "xfer \<Rightarrow> SDPORT_COMMAND \<Rightarrow> bool" where
  "direction x c \<longleftrightarrow> pio_command c \<and> (TransferDirection c = SdTransferDirectionRead \<longleftrightarrow> x_rd x)"

definition rest_command :: "xfer \<Rightarrow> SDPORT_COMMAND \<Rightarrow> bool" where
  "rest_command x d \<longleftrightarrow> direction x d \<and> Index d = SDCMD_IO_RW_EXTENDED \<and> unat (Length d) = x_rest x \<and> unat (BlockSize d) = x_rest x \<and> BlockCount d = 1
     \<and> DataBuffer d = x_buf x + x_cnt x * x_blk x"

text \<open>How many bytes have been moved, from the blocks left and the state of the machine.\<close>

definition progress :: "xfer \<Rightarrow> nat \<Rightarrow> BLOCKSIZE_UNALIGNED_REQ_STATE \<Rightarrow> nat \<Rightarrow> bool" where
  "progress x k st m \<longleftrightarrow>
     (if 0 < k then k \<le> x_cnt x \<and> m = (x_cnt x - k) * x_blk x
        \<and> st = (if x_rest x = 0 then UnalignedReqStateIdle else UnalignedReqStateReady)
      else case st of
          UnalignedReqStateIdle \<Rightarrow> m = x_len x
        | UnalignedReqStateStartTransfer \<Rightarrow> m = x_len x
        | _ \<Rightarrow> 0 < x_rest x \<and> m = x_cnt x * x_blk x)"

definition data_at :: "xfer \<Rightarrow> sdhc \<Rightarrow> sdhc \<Rightarrow> event list \<Rightarrow> nat \<Rightarrow> bool" where
  "data_at x w0 w es m \<longleftrightarrow> trace w = trace w0 @ es \<and> moved (x_rd x) (x_buf x) m (mem w) es
     \<and> (\<forall>a. a < x_buf x \<or> x_buf x + x_len x \<le> a \<longrightarrow> mem w a = mem w0 a) \<and> (\<not> x_rd x \<longrightarrow> mem w = mem w0)"

definition control_at :: "xfer \<Rightarrow> SDPORT_COMMAND \<Rightarrow> SDPORT_COMMAND \<Rightarrow> BLOCKSIZE_UNALIGNED_REQ_STATE \<Rightarrow> bool \<Rightarrow> nat \<Rightarrow> bool" where
  "control_at x c d st outstanding m \<longleftrightarrow>
     direction x c \<and> unat (BlockSize c) = x_blk x \<and> (BlockCount c \<noteq> 0 \<longrightarrow> DataBuffer c = x_buf x + m)
     \<and> progress x (unat (BlockCount c)) st m
     \<and> (\<not> outstanding \<longrightarrow> st = UnalignedReqStateIdle \<and> BlockCount c = 0)
     \<and> (st = UnalignedReqStateReady \<or> st = UnalignedReqStateSendCommand \<longrightarrow> rest_command x d)"

definition request_at :: "xfer \<Rightarrow> handle \<Rightarrow> sdhc \<Rightarrow> sdhc \<Rightarrow> bool" where
  "request_at x R w0 w \<longleftrightarrow> (\<exists>es m. data_at x w0 w es m
     \<and> control_at x (Command (requests w R)) (Command (requests w UnalignedRequest)) (UnalignedReqState w) (OutstandingRequest w \<noteq> 0) m)"

lemma data_at_quiet: "data_at x w0 w es m \<Longrightarrow> quiet w w' \<Longrightarrow> \<exists>fs. data_at x w0 w' fs m"
  by (auto simp: data_at_def quiet_def moved_def)

lemma request_at_quiet:
  assumes "request_at x R w0 w" "quiet w w'"
    "\<And>m. control_at x (Command (requests w R)) (Command (requests w UnalignedRequest)) (UnalignedReqState w) (OutstandingRequest w \<noteq> 0) m
      \<Longrightarrow> control_at x (Command (requests w' R)) (Command (requests w' UnalignedRequest)) (UnalignedReqState w') (OutstandingRequest w' \<noteq> 0) m"
  shows "request_at x R w0 w'"
  using assms data_at_quiet unfolding request_at_def by blast

lemma data_at_step:
  assumes "data_at x w0 w es m" "moved (x_rd x) (x_buf x + m) k (mem w') fs" "trace w' = trace w @ fs" "m mod 4 = 0"
    "\<And>a. a < x_buf x + m \<or> x_buf x + m + k \<le> a \<Longrightarrow> mem w' a = mem w a" "m + k \<le> x_len x"
    "\<not> x_rd x \<Longrightarrow> mem w' = mem w"
  shows "data_at x w0 w' (es @ fs) (m + k)"
proof -
  have "moved (x_rd x) (x_buf x) (m + k) (mem w') (es @ fs)"
    by (rule moved_append) (use assms in \<open>auto simp: data_at_def\<close>)
  then show ?thesis using assms by (auto simp: data_at_def)
qed

section \<open>Every step keeps it\<close>

lemma complete_request_run:
  fixes w :: sdhc and os R
  defines "w' st \<equiv> snd (run_state (SdhcCompleteRequest os R st) w)"
  shows "quiet w (w' st)" "requests (w' st) = requests w" "UnalignedReqState (w' st) = UnalignedReqState w"
    "OutstandingRequest (w' st) = (if R \<noteq> UnalignedRequest \<and> command_completed (Command (requests w R)) then 0 else OutstandingRequest w)"
  by (auto simp: w'_def SdhcCompleteRequest_def run quiet_def port_def)

lemma request_at_complete:
  assumes "request_at x R w0 w" "UnalignedReqState w = UnalignedReqStateIdle \<or> BlockCount (Command (requests w R)) \<noteq> 0"
  shows "request_at x R w0 (snd (run_state (SdhcCompleteRequest os R st) w))"
  by (rule request_at_quiet [OF assms(1)])
    (use assms(2) in \<open>auto simp: complete_request_run control_at_def command_completed_def direction_def pio_command_def split: if_splits\<close>)

lemma progress_block:
  assumes "progress x k st m" "0 < k" "xfer_ok x"
  shows "progress x (k - 1) st (m + x_blk x)" "m + x_blk x \<le> x_len x" "m mod 4 = 0"
proof -
  from assms have k: "k \<le> x_cnt x" "m = (x_cnt x - k) * x_blk x" "st = (if x_rest x = 0 then UnalignedReqStateIdle else UnalignedReqStateReady)"
    by (auto simp: progress_def)
  have next_m: "m + x_blk x = (x_cnt x - (k - 1)) * x_blk x" using k(1,2) assms(2) by (simp add: Suc_diff_le add.commute)
  also have "\<dots> \<le> x_cnt x * x_blk x" by simp
  finally show "m + x_blk x \<le> x_len x" using assms(3) by (simp add: xfer_ok_def)
  show "progress x (k - 1) st (m + x_blk x)"
  proof (cases "k = 1")
    case True
    then have "m + x_blk x = x_cnt x * x_blk x" using next_m by simp
    then show ?thesis using k(3) assms(3) True by (simp add: progress_def xfer_ok_def x_rest_def)
  next
    case False
    then show ?thesis using k assms(2) next_m by (simp add: progress_def)
  qed
  show "m mod 4 = 0"
  proof (cases "m = 0")
    case False
    then have "1 < x_cnt x" using k assms(2) by (cases "x_cnt x - k") auto
    then show ?thesis using assms(3) k(2) by (auto simp: xfer_ok_def mod_mult_right_eq intro: dvd_imp_mod_0)
  qed simp
qed

lemma unat_minus_1: "b \<noteq> 0 \<Longrightarrow> unat (b - 1 :: u16) = unat b - 1"
  by (metis unat_minus_one)

lemma request_at_start:
  assumes "request_at x R w0 w" "xfer_ok x" "BlockCount (Command (requests w R)) \<noteq> 0" "R \<noteq> 0" "R \<noteq> UnalignedRequest"
    "BlockCount (Command (requests w R)) = 1 \<Longrightarrow> UnalignedReqState w \<noteq> UnalignedReqStateIdle \<Longrightarrow>
      CurrentEvents w AND SDHC_IS_TRANSFER_COMPLETE = 0"
  shows "request_at x R w0 (snd (run_state (SdhcStartPioTransfer os R) (w\<lparr>OutstandingRequest := R\<rparr>)))"
proof -
  define c where "c = Command (requests w R)"
  let ?W = "w\<lparr>OutstandingRequest := R\<rparr>"
  define w' where "w' = snd (run_state (SdhcStartPioTransfer os R) ?W)"
  obtain es m where at: "data_at x w0 w es m"
    "control_at x c (Command (requests w UnalignedRequest)) (UnalignedReqState w) (OutstandingRequest w \<noteq> 0) m"
    using assms(1) by (auto simp: request_at_def c_def)
  have k: "0 < unat (BlockCount c)" using assms(3) by (simp add: c_def unat_gt_0)
  have pr: "progress x (unat (BlockCount c)) (UnalignedReqState w) m" using at(2) by (simp add: control_at_def)
  note pr = progress_block [OF pr k assms(2)]
  obtain fs where fs: "block_moved R ?W w' fs" using start_pio_run(2) unfolding w'_def by blast
  have "Command (requests ?W R) = c" by (simp add: c_def)
  note fs = fs [unfolded block_moved_def Let_def this]
  have "data_at x w0 w' (es @ fs) (m + x_blk x)"
    by (rule data_at_step [OF at(1)]) (use fs at(2) pr k in \<open>auto simp: control_at_def direction_def unat_gt_0\<close>)
  moreover have "control_at x (Command (requests w' R)) (Command (requests w' UnalignedRequest)) (UnalignedReqState w')
      (OutstandingRequest w' \<noteq> 0) (m + x_blk x)"
  proof -
    let ?d = "Command (requests w' R)"
    have "direction x ?d \<and> unat (BlockSize ?d) = x_blk x"
      using at(2) fs by (simp add: control_at_def direction_def pio_command_def)
    moreover have "BlockCount ?d = BlockCount c - 1" using fs by simp
    moreover have "BlockCount ?d \<noteq> 0 \<longrightarrow> DataBuffer ?d = x_buf x + (m + x_blk x)"
      using at(2) fs assms(3) by (auto simp: control_at_def word_less_1 not_le c_def)
    moreover have "OutstandingRequest w' = 0 \<longrightarrow> UnalignedReqState w = UnalignedReqStateIdle \<and> BlockCount c - 1 = 0"
    proof
      assume "OutstandingRequest w' = 0"
      then have none: "BlockCount c - 1 = 0" "CurrentEvents w AND SDHC_IS_TRANSFER_COMPLETE \<noteq> 0"
        using fs assms(4) by (auto simp: word_less_1 not_le)
      then show "UnalignedReqState w = UnalignedReqStateIdle \<and> BlockCount c - 1 = 0"
        using assms(6) by (auto simp: c_def)
    qed
    moreover have "requests w' UnalignedRequest = requests w UnalignedRequest" "UnalignedReqState w' = UnalignedReqState w"
      using fs assms(5) by auto
    moreover have "unat (BlockCount c - 1) = unat (BlockCount c) - 1" using k by (intro unat_minus_1) auto
    ultimately show ?thesis using at(2) pr(1) by (simp add: control_at_def)
  qed
  ultimately show ?thesis by (auto simp: request_at_def w'_def)
qed


lemma block_counts_rest:
  assumes "unat (Length d) = unat (BlockSize d)" "0 < unat (BlockSize d)"
  shows "block_counts d = d\<lparr>BlockCount := 1\<rparr>"
proof -
  have "Length d = ucast (BlockSize d)" using assms(1) by (simp add: word_unat_eq_iff unat_widen)
  moreover have "unat (ucast (BlockSize d) div (ucast (BlockSize d) :: u32)) = unat (1 :: u32)"
    using assms(2) by (simp add: unat_div unat_widen)
  then have "ucast (BlockSize d) div (ucast (BlockSize d) :: u32) = 1" by (simp only: word_unat_eq_iff)
  ultimately show ?thesis by (simp add: block_counts_def)
qed

lemma request_at_rest_sent:
  fixes w :: sdhc and os ax
  assumes "request_at x R w0 w" "xfer_ok x" "UnalignedReqState w = UnalignedReqStateReady" "BlockCount (Command (requests w R)) = 0"
    "R \<noteq> UnalignedRequest"
  defines "res \<equiv> run_state (SdhcSendCommand os ax UnalignedRequest) (w\<lparr>UnalignedReqState := UnalignedReqStateSendCommand\<rparr>)"
  shows "fst res = STATUS_PENDING" "request_at x R w0 (snd res)" "OutstandingRequest (snd res) = OutstandingRequest w"
proof -
  let ?W = "w\<lparr>UnalignedReqState := UnalignedReqStateSendCommand\<rparr>"
  define d where "d = Command (requests w UnalignedRequest)"
  have rest: "rest_command x d" "0 < x_rest x"
    using assms(1,3,4) by (auto simp: request_at_def control_at_def progress_def d_def)
  have small: "x_rest x < 2048" using assms(2) by (simp add: xfer_ok_def)
  have d: "d = Command (requests ?W UnalignedRequest)" "pio_command d" "BlockSize d \<le> 2048" "BlockSize d \<noteq> 0"
    using rest small by (auto simp: d_def rest_command_def direction_def word_le_nat_alt)
  note run = send_command_run [OF d, where os = os and ax = ax, folded res_def]
  have bc: "block_counts d = d\<lparr>BlockCount := 1\<rparr>"
    by (rule block_counts_rest) (use rest in \<open>auto simp: rest_command_def\<close>)
  show "fst res = STATUS_PENDING" by (rule run(1))
  show "OutstandingRequest (snd res) = OutstandingRequest w" using run(4) by simp
  have "UnalignedReqState (snd res) = UnalignedReqStateSendCommand" using run(5) rest(1) by (simp add: needs_rest_def rest_command_def)
  moreover have "requests (snd res) R = requests w R" using run(7) [of R] assms(5) by simp
  moreover have "rest_command x (Command (requests (snd res) UnalignedRequest))"
    using run(3) rest(1) by (simp add: sent_as_def bc rest_command_def direction_def pio_command_def)
  moreover have "quiet w (snd res)" using run(2) by (rule quiet_trans [rotated]) (simp add: quiet_same)
  ultimately show "request_at x R w0 (snd res)" using assms(1,3,4)
    by - (rule request_at_quiet [OF assms(1)], auto simp: control_at_def progress_def run(4))
qed

lemma request_at_rest_moved:
  fixes w :: sdhc and os
  assumes "request_at x R w0 w" "xfer_ok x" "UnalignedReqState w = UnalignedReqStateSendCommand" "R \<noteq> UnalignedRequest"
  defines "res \<equiv> run_state (SdhcStartTransfer os UnalignedRequest) (w\<lparr>UnalignedReqState := UnalignedReqStateStartTransfer\<rparr>)"
  shows "fst res \<in> {STATUS_SUCCESS, STATUS_PENDING}" "request_at x R w0 (snd res)"
    "request_at x R w0 ((snd res)\<lparr>UnalignedReqState := UnalignedReqStateIdle\<rparr>)"
    "OutstandingRequest (snd res) = OutstandingRequest w"
proof -
  let ?W = "w\<lparr>UnalignedReqState := UnalignedReqStateStartTransfer\<rparr>"
  define d where "d = Command (requests w UnalignedRequest)"
  have d': "Command (requests ?W UnalignedRequest) = d" by (simp add: d_def)
  obtain es m where at: "data_at x w0 w es m" "control_at x (Command (requests w R)) d UnalignedReqStateSendCommand (OutstandingRequest w \<noteq> 0) m"
    using assms(1,3) by (auto simp: request_at_def d_def)
  then have m: "m = x_cnt x * x_blk x" "0 < x_rest x" "BlockCount (Command (requests w R)) = 0" "rest_command x d"
    by (auto simp: control_at_def progress_def unat_gt_0 split: if_splits)
  have len: "m + x_rest x = x_len x" using assms(2) by (simp add: m(1) x_rest_def xfer_ok_def)
  have res: "res = run_state (SdhcStartPioTransfer os UnalignedRequest) ?W"
    using m(4) by (simp add: res_def SdhcStartTransfer_def run d_def rest_command_def direction_def pio_command_def)
  show "fst res \<in> {STATUS_SUCCESS, STATUS_PENDING}" unfolding res by (rule start_pio_run)
  obtain fs where "block_moved UnalignedRequest ?W (snd res) fs" using start_pio_run(2) unfolding res by blast
  note fs = this [unfolded block_moved_def Let_def d']
  have "m mod 4 = 0" using assms(2) m(1,2) by (auto simp: xfer_ok_def intro: dvd_imp_mod_0)
  then have "data_at x w0 (snd res) (es @ fs) (m + x_rest x)"
    by (intro data_at_step [OF at(1)]) (use fs m len in \<open>auto simp: rest_command_def direction_def\<close>)
  moreover from this have "data_at x w0 ((snd res)\<lparr>UnalignedReqState := UnalignedReqStateIdle\<rparr>) (es @ fs) (m + x_rest x)"
    by (simp add: data_at_def)
  moreover have out: "OutstandingRequest (snd res) = OutstandingRequest w" using fs by auto
  moreover have "control_at x (Command (requests (snd res) R)) (Command (requests (snd res) UnalignedRequest)) st
      (OutstandingRequest (snd res) \<noteq> 0) (m + x_rest x)" if "st = UnalignedReqStateStartTransfer \<or> st = UnalignedReqStateIdle" for st
    using that at(2) fs m(3) len assms(4) out by (auto simp: control_at_def progress_def)
  moreover have "UnalignedReqState (snd res) = UnalignedReqStateStartTransfer" using fs by simp
  ultimately show "request_at x R w0 (snd res)" "request_at x R w0 ((snd res)\<lparr>UnalignedReqState := UnalignedReqStateIdle\<rparr>)"
    unfolding request_at_def by (metis, simp, metis)
  show "OutstandingRequest (snd res) = OutstandingRequest w" by (rule out)
qed

end
