(* ===== verification/Sdhc_Session.thy ===== *)
theory Sdhc_Session
  imports Sdhc_Transfer
begin

text \<open>
  The run of a request: the port driver issues it, and then the transfers of its blocks; the
  deferred routine runs on the events of the controller.
\<close>

section \<open>The deferred routine\<close>

lemma request_at_update:
  assumes "request_at x R w0 w" "mem w' = mem w" "trace w' = trace w" "Command (requests w' R) = Command (requests w R)"
    "Command (requests w' UnalignedRequest) = Command (requests w UnalignedRequest)"
    "UnalignedReqState w' = UnalignedReqState w" "OutstandingRequest w' = OutstandingRequest w"
  shows "request_at x R w0 w'"
  by (rule request_at_quiet [OF assms(1) quiet_same]) (use assms in simp_all)

lemma sm_keeps:
  fixes w :: sdhc and os ax R
  assumes "request_at x R w0 w" "xfer_ok x" "OutstandingRequest w \<noteq> 0" "R \<noteq> UnalignedRequest"
  defines "res \<equiv> run_state (SdhcNonBlockSizeAlignedRequestSM os ax R) w"
  shows "request_at x R w0 (snd res) \<and> OutstandingRequest (snd res) \<noteq> 0
    \<and> (fst res = STATUS_MORE_PROCESSING_REQUIRED \<or> UnalignedReqState (snd res) = UnalignedReqStateIdle
       \<or> BlockCount (Command (requests (snd res) R)) \<noteq> 0)"
proof (cases "UnalignedReqState w")
  case UnalignedReqStateIdle
  then show ?thesis using assms by (simp add: SdhcNonBlockSizeAlignedRequestSM_def run)
next
  case UnalignedReqStateReady
  show ?thesis
  proof (cases "BlockCount (Command (requests w R)) = 0")
    case False
    then show ?thesis using assms UnalignedReqStateReady by (simp add: SdhcNonBlockSizeAlignedRequestSM_def run)
  next
    case True
    note sent = request_at_rest_sent [OF assms(1,2) UnalignedReqStateReady True assms(4), where os = os and ax = ax]
    obtain W where W: "run_state (SdhcSendCommand os ax UnalignedRequest) (w\<lparr>UnalignedReqState := UnalignedReqStateSendCommand\<rparr>)
        = (STATUS_PENDING, W)"
      using sent(1) by (metis prod.collapse)
    then show ?thesis using assms(3) sent True UnalignedReqStateReady
      by (simp add: res_def SdhcNonBlockSizeAlignedRequestSM_def run)
  qed
next
  case UnalignedReqStateSendCommand
  note rest = request_at_rest_moved [OF assms(1,2) UnalignedReqStateSendCommand assms(4), where os = os]
  obtain s W where W: "run_state (SdhcStartTransfer os UnalignedRequest) (w\<lparr>UnalignedReqState := UnalignedReqStateStartTransfer\<rparr>)
      = (s, W)" by (metis prod.exhaust)
  then show ?thesis using assms(3) rest UnalignedReqStateSendCommand
    by (auto simp: res_def SdhcNonBlockSizeAlignedRequestSM_def run)
next
  case UnalignedReqStateStartTransfer
  obtain es m where at: "data_at x w0 w es m" "control_at x (Command (requests w R)) (Command (requests w UnalignedRequest))
      UnalignedReqStateStartTransfer True m"
    using assms(1,3) UnalignedReqStateStartTransfer by (auto simp: request_at_def)
  then have "control_at x (Command (requests w R)) (Command (requests w UnalignedRequest)) UnalignedReqStateIdle True m"
    by (auto simp: control_at_def progress_def split: if_splits)
  moreover have "data_at x w0 (w\<lparr>UnalignedReqState := UnalignedReqStateIdle\<rparr>) es m" using at(1) by (simp add: data_at_def)
  ultimately show ?thesis using assms(3) UnalignedReqStateStartTransfer
    by (auto simp: res_def SdhcNonBlockSizeAlignedRequestSM_def run request_at_def)
qed

lemma dpc_keeps:
  assumes "request_at x R w0 w" "xfer_ok x" "R \<noteq> UnalignedRequest"
  shows "request_at x R w0 (snd (run_state (SdhcRequestDpc os ax R events 0) w))"
proof -
  let ?e = "CurrentEvents_update (\<lambda>e. e OR events)"
  let ?u = "RequiredEvents_update (\<lambda>e. e AND NOT events)"
  let ?W = "(?e w)\<lparr>requests := (requests w)(R := ?u (requests w R))\<rparr>"
  let ?V = "?W\<lparr>requests := (requests ?W)(R := if Status (requests w R) \<noteq> STATUS_MORE_PROCESSING_REQUIRED
    then Status_update (\<lambda>_. STATUS_SUCCESS) (requests ?W R) else requests ?W R)\<rparr>"
  consider "events AND SDHC_IS_COMMAND_EVENT = 0" | "events AND SDHC_IS_COMMAND_EVENT \<noteq> 0" "OutstandingRequest w = 0"
    | "events AND SDHC_IS_COMMAND_EVENT \<noteq> 0" "OutstandingRequest w \<noteq> 0" "RequiredEvents (requests ?W R) \<noteq> 0"
    | "events AND SDHC_IS_COMMAND_EVENT \<noteq> 0" "OutstandingRequest w \<noteq> 0" "RequiredEvents (requests ?W R) = 0"
    by blast
  then show ?thesis
  proof cases
    case 1
    with assms(1) show ?thesis by (simp add: SdhcRequestDpc_def run)
  next
    case 2
    have "request_at x R w0 (?e w)" by (rule request_at_update [OF assms(1)]) simp_all
    with 2 show ?thesis by (simp add: SdhcRequestDpc_def run)
  next
    case 3
    have "request_at x R w0 ?W" by (rule request_at_update [OF assms(1)]) simp_all
    with 3 show ?thesis by (simp add: SdhcRequestDpc_def run)
  next
    case 4
    have V: "request_at x R w0 ?V" "OutstandingRequest ?V \<noteq> 0"
      using 4(2) by (auto intro!: request_at_update [OF assms(1)])
    obtain s U where U: "run_state (SdhcNonBlockSizeAlignedRequestSM os ax R) ?V = (s, U)" by (metis prod.exhaust)
    have keep: "request_at x R w0 U" "s = STATUS_MORE_PROCESSING_REQUIRED \<or> UnalignedReqState U = UnalignedReqStateIdle
        \<or> BlockCount (Command (requests U R)) \<noteq> 0"
      using sm_keeps [OF V(1) assms(2) V(2) assms(3), where os = os and ax = ax] U by simp_all
    have "run_state (SdhcRequestDpc os ax R events 0) w = (if s = STATUS_MORE_PROCESSING_REQUIRED then ((), U)
        else run_state (SdhcCompleteRequest os R (Status (requests U R))) U)"
      using 4 U by (auto simp: SdhcRequestDpc_def run SdhcCompleteNonBlockSizeAlignedRequest_def)
    then show ?thesis using keep request_at_complete by auto
  qed
qed


section \<open>Errors\<close>

text \<open>
  The request has been completed with an error. (\<open>STATUS_MORE_PROCESSING_REQUIRED\<close> tells the port
  driver that there are more blocks.)
\<close>

definition request_failed :: "handle \<Rightarrow> event list \<Rightarrow> bool" where
  "request_failed R tr \<longleftrightarrow> (\<exists>st r. (Sd (SdPortCompleteRequest R st), r) \<in> set tr \<and>
     st \<notin> {STATUS_SUCCESS, STATUS_MORE_PROCESSING_REQUIRED})"

lemma error_status:
  "e \<noteq> 0 \<Longrightarrow> \<not> NT_SUCCESS (SdhcConvertErrorToStatus e)"
  "e \<noteq> 0 \<Longrightarrow> SdhcConvertErrorToStatus e \<notin> {STATUS_SUCCESS, STATUS_MORE_PROCESSING_REQUIRED}"
  by (simp_all add: SdhcConvertErrorToStatus_def)

lemma dpc_error:
  assumes "errors \<noteq> 0" "errors < 0x10000" "OutstandingRequest w \<noteq> 0" "R \<noteq> UnalignedRequest" "k \<le> length (trace w)"
  shows "request_failed R (drop k (trace (snd (run_state (SdhcRequestDpc os ax R events errors) w))))"
proof -
  let ?st = "SdhcConvertErrorToStatus (ucast errors)"
  have "unat (ucast errors :: u16) = unat errors"
    using assms(2) by (simp add: unsigned_ucast_eq take_bit_nat_eq_self word_less_nat_alt)
  then have "(ucast errors :: u16) \<noteq> 0" using assms(1) by (metis unat_eq_zero)
  note st = error_status [OF this]
  have "\<exists>r. (Sd (SdPortCompleteRequest R ?st), r) \<in> set (drop k (trace (snd (run_state (SdhcCompleteRequest os R ?st) v))))"
    if "k \<le> length (trace v)" for v :: sdhc
    using assms(4) that by (auto simp: SdhcCompleteRequest_def run)
  then show ?thesis
    using assms st(2) by (auto simp: request_failed_def SdhcRequestDpc_def run SdhcCompleteNonBlockSizeAlignedRequest_def st(1) split: prod.split)
      (rule exI [of _ ?st], simp)
qed

lemma failed_rules:
  "keeps (\<lambda>w. request_failed R (drop k (trace w))) (ext os c)" "keeps (\<lambda>w. request_failed R (drop k (trace w))) (update_request q f)"
  "keeps (\<lambda>w. request_failed R (drop k (trace w))) (update_command q g)" "keeps (\<lambda>w. request_failed R (drop k (trace w))) sd_undefined"
  "keeps (\<lambda>w. request_failed R (drop k (trace w))) (SdhcWriteRegisterUlong os reg v)"
  "keeps (\<lambda>w. request_failed R (drop k (trace w))) (SdhcReadRegisterUlong os reg)"
  by (auto simp: keeps_def request_failed_def run sd_undefined_def)

lemma failed_state:
  "keeps (\<lambda>w. request_failed R (drop k (trace w))) (update (OutstandingRequest_update h))"
  "keeps (\<lambda>w. request_failed R (drop k (trace w))) (update (CurrentEvents_update e))"
  "keeps (\<lambda>w. request_failed R (drop k (trace w))) (update (UnalignedReqState_update u))"
  "keeps (\<lambda>w. request_failed R (drop k (trace w))) (update (CmdCompleted_update n))"
  "keeps (\<lambda>w. request_failed R (drop k (trace w))) (update (CmdIssued_update n))"
  "keeps (\<lambda>w. request_failed R (drop k (trace w))) (update (mem_update m))"
  by (simp_all add: keeps_def)

lemma failed_words:
  "keeps (\<lambda>w. request_failed R (drop k (trace w))) (read_words os a n)" "keeps (\<lambda>w. request_failed R (drop k (trace w))) (write_words os a n)"
  by (induction n arbitrary: a) (auto intro!: keeps_bind keeps_return keeps_get failed_rules failed_state)

lemma failed_method:
  "keeps I m \<Longrightarrow> keeps I m' \<Longrightarrow> keeps I m'' \<Longrightarrow> keeps I (case t of SdTransferMethodPio \<Rightarrow> m | SdTransferMethodSgDma \<Rightarrow> m'
     | SdTransferMethodUndefined \<Rightarrow> m'')"
  by (cases t) simp_all

lemma failed_type:
  "keeps I m \<Longrightarrow> keeps I m' \<Longrightarrow> keeps I m'' \<Longrightarrow> keeps I m3 \<Longrightarrow> keeps I (case t of SdRequestTypeCommandNoTransfer \<Rightarrow> m
     | SdRequestTypeCommandWithTransfer \<Rightarrow> m' | SdRequestTypeStartTransfer \<Rightarrow> m'' | SdRequestTypeOther \<Rightarrow> m3)"
  by (cases t) simp_all

lemma failed_machine:
  "keeps I m \<Longrightarrow> keeps I m' \<Longrightarrow> keeps I m'' \<Longrightarrow> keeps I m3 \<Longrightarrow> keeps I (case t of UnalignedReqStateIdle \<Rightarrow> m
     | UnalignedReqStateReady \<Rightarrow> m' | UnalignedReqStateSendCommand \<Rightarrow> m'' | UnalignedReqStateStartTransfer \<Rightarrow> m3)"
  by (cases t) simp_all

lemmas failed_keeps = keeps_bind keeps_return keeps_get keeps_if keeps_when keeps_case_option keeps_case_prod
  failed_rules failed_state failed_words failed_method failed_type failed_machine

lemma failed_complete: "keeps (\<lambda>w. request_failed R (drop k (trace w))) (SdhcCompleteRequest os q st)"
  unfolding SdhcCompleteRequest_def by (intro failed_keeps)

lemma failed_send: "keeps (\<lambda>w. request_failed R (drop k (trace w))) (SdhcSendCommand os ax q)"
  unfolding SdhcSendCommand_def SdhcBuildTransfer_def SdhcBuildPioTransfer_def SdhcSetTransferMode_def
    SdhcStartNonBlockSizeAlignedRequest_def SdhcPrepareInternalRequest_def Let_def
  by (intro failed_keeps)

lemma failed_start: "keeps (\<lambda>w. request_failed R (drop k (trace w))) (SdhcStartTransfer os q)"
  unfolding SdhcStartTransfer_def SdhcStartPioTransfer_def SdhcStartAdmaTransfer_def SdhcReadDataPort_def SdhcWriteDataPort_def Let_def
  by (intro failed_keeps failed_complete)

lemma failed_issue: "keeps (\<lambda>w. request_failed R (drop k (trace w))) (SdhcSlotIssueRequest os ax q)"
  unfolding SdhcSlotIssueRequest_def by (intro failed_keeps failed_send failed_start)

lemma failed_dpc: "keeps (\<lambda>w. request_failed R (drop k (trace w))) (SdhcRequestDpc os ax q events errors)"
  unfolding SdhcRequestDpc_def SdhcCompleteNonBlockSizeAlignedRequest_def SdhcNonBlockSizeAlignedRequestSM_def
  by (intro failed_keeps failed_complete failed_send failed_start)

section \<open>The run\<close>

text \<open>
  What the port driver and the controller do once the command has been issued. The deferred routine
  runs on any events and errors (the interrupt reports 16 bits of them). The transfer of the next
  block is issued while there are blocks left. One case is left out: the transfer of the last whole
  block when more bytes follow it and the event for the end of the transfer is already there; the
  driver then completes the request without those bytes.
\<close>

definition start_transfer :: "os \<Rightarrow> SD_RW_EXTENDED_ARGUMENT \<Rightarrow> handle \<Rightarrow> (sdhc, ntstatus) state" where
  "start_transfer os ax R = do {
     update_request R (RequestType_update (\<lambda>_. SdRequestTypeStartTransfer));
     SdhcSlotIssueRequest os ax R
   }"

inductive sd_step :: "os \<Rightarrow> SD_RW_EXTENDED_ARGUMENT \<Rightarrow> handle \<Rightarrow> sdhc \<Rightarrow> sdhc \<Rightarrow> bool" for os ax R where
  dpc: "errors < 0x10000 \<Longrightarrow> sd_step os ax R w (snd (run_state (SdhcRequestDpc os ax R events errors) w))"
| transfer: "BlockCount (Command (requests w R)) \<noteq> 0 \<Longrightarrow>
    \<not> (BlockCount (Command (requests w R)) = 1 \<and> UnalignedReqState w \<noteq> UnalignedReqStateIdle
      \<and> CurrentEvents w AND SDHC_IS_TRANSFER_COMPLETE \<noteq> 0) \<Longrightarrow>
    sd_step os ax R w (snd (run_state (start_transfer os ax R) w))"

lemma transfer_keeps:
  assumes "request_at x R w0 w" "xfer_ok x" "BlockCount (Command (requests w R)) \<noteq> 0" "R \<noteq> 0" "R \<noteq> UnalignedRequest"
    "\<not> (BlockCount (Command (requests w R)) = 1 \<and> UnalignedReqState w \<noteq> UnalignedReqStateIdle
      \<and> CurrentEvents w AND SDHC_IS_TRANSFER_COMPLETE \<noteq> 0)"
  shows "request_at x R w0 (snd (run_state (start_transfer os ax R) w))"
proof -
  let ?W = "w\<lparr>requests := (requests w)(R := RequestType_update (\<lambda>_. SdRequestTypeStartTransfer) (requests w R)), CmdIssued := CmdIssued w + 1\<rparr>"
  have W: "request_at x R w0 ?W" by (rule request_at_update [OF assms(1)]) (use assms(5) in simp_all)
  have pio: "TransferMethod (Command (requests w R)) = SdTransferMethodPio"
    using assms(1) by (auto simp: request_at_def control_at_def direction_def pio_command_def)
  have inc: "CmdIssued_update (\<lambda>n. n + 1) v = v\<lparr>CmdIssued := CmdIssued v + 1\<rparr>" for v :: sdhc by (cases v) simp
  let ?V = "w\<lparr>requests := (requests w)(R := RequestType_update (\<lambda>_. SdRequestTypeStartTransfer) (requests w R)),
    OutstandingRequest := R, CmdIssued := CmdIssued w + 1\<rparr>"
  have eq: "?W\<lparr>OutstandingRequest := R\<rparr> = ?V" by simp
  obtain s V where V: "run_state (SdhcStartPioTransfer os R) ?V = (s, V)" by (metis prod.exhaust)
  have late: "BlockCount (Command (requests w R)) = 1 \<Longrightarrow> UnalignedReqState w \<noteq> UnalignedReqStateIdle \<Longrightarrow>
      CurrentEvents w AND SDHC_IS_TRANSFER_COMPLETE = 0"
    using assms(6) by blast
  have "request_at x R w0 V"
    using request_at_start [OF W assms(2), of os, unfolded eq] late V assms(3-5) by simp
  moreover have "snd (run_state (start_transfer os ax R) w) = V"
    using V pio by (simp add: start_transfer_def SdhcSlotIssueRequest_def SdhcStartTransfer_def run inc)
  ultimately show ?thesis by simp
qed

lemma outstanding_update: "request_at x R w0 w \<Longrightarrow> request_at x R w0 (w\<lparr>CurrentEvents := e\<rparr>)"
  by (erule request_at_update) simp_all

lemma dpc_keeps_errors:
  assumes "request_at x R w0 w" "xfer_ok x" "R \<noteq> UnalignedRequest" "errors < 0x10000" "k = length (trace w0)"
    and w': "w' = snd (run_state (SdhcRequestDpc os ax R events errors) w)"
  shows "request_at x R w0 w' \<or> request_failed R (drop k (trace w'))"
proof (cases "errors = 0")
  case True
  then show ?thesis using dpc_keeps [OF assms(1-3)] unfolding w' by simp
next
  case False
  show ?thesis
  proof (cases "OutstandingRequest w = 0")
    case True
    then have "w' = w\<lparr>CurrentEvents := CurrentEvents w OR events\<rparr>"
      using False unfolding w' by (simp add: SdhcRequestDpc_def run)
    then show ?thesis using outstanding_update [OF assms(1)] by simp
  next
    case outstanding: False
    have k: "k \<le> length (trace w)" using assms(1,5) by (auto simp: request_at_def data_at_def)
    from outstanding show ?thesis using dpc_error [OF False assms(4) outstanding assms(3) k] unfolding w' by simp
  qed
qed

lemma step_failed:
  assumes "sd_step os ax R w w'" "request_failed R (drop k (trace w))"
  shows "request_failed R (drop k (trace w'))"
proof -
  have "keeps (\<lambda>w. request_failed R (drop k (trace w))) (start_transfer os ax R)"
    unfolding start_transfer_def by (intro failed_keeps failed_issue)
  with assms show ?thesis by (auto elim!: sd_step.cases intro: keepsD [OF failed_dpc] dest: keepsD)
qed

lemma run_keeps:
  assumes "(sd_step os ax R)\<^sup>*\<^sup>* w w'" "request_at x R w0 w" "xfer_ok x" "R \<noteq> 0" "R \<noteq> UnalignedRequest" "k = length (trace w0)"
  shows "request_at x R w0 w' \<or> request_failed R (drop k (trace w'))"
  using assms(1,2)
proof (induction rule: rtranclp_induct)
  case (step u v)
  show ?case
  proof (cases "request_failed R (drop k (trace u))")
    case True
    then show ?thesis using step_failed [OF step(2)] by blast
  next
    case False
    then have u: "request_at x R w0 u" using step by blast
    from step(2) show ?thesis
    proof (cases rule: sd_step.cases)
      case dpc
      then show ?thesis using dpc_keeps_errors [OF u assms(3,5) _ assms(6)] by metis
    next
      case transfer
      then show ?thesis using transfer_keeps [OF u assms(3) _ assms(4,5)] by simp
    qed
  qed
qed simp

section \<open>The command that starts it\<close>

definition transfer_of :: "SDPORT_COMMAND \<Rightarrow> xfer" where
  "transfer_of c = (let n = unat (Length c) div unat (BlockSize c) in
     \<lparr>x_buf = DataBuffer c, x_len = unat (Length c),
      x_blk = (if n = 0 then unat (Length c) else unat (BlockSize c)), x_cnt = (if n = 0 then 1 else n),
      x_rd = (TransferDirection c = SdTransferDirectionRead)\<rparr>)"

text \<open>
  A length the counters of the driver can hold, in blocks that are whole words unless there is only one.
  Commands other than command 53 move whole blocks, or less than one.
\<close>

definition transfer_ok :: "SDPORT_COMMAND \<Rightarrow> bool" where
  "transfer_ok c \<longleftrightarrow> pio_command c \<and> 0 < BlockSize c \<and> BlockSize c \<le> 2048 \<and> 0 < Length c
     \<and> unat (Length c) div unat (BlockSize c) < 65536
     \<and> (unat (BlockSize c) < unat (Length c) \<longrightarrow> unat (BlockSize c) mod 4 = 0)
     \<and> (Index c = SDCMD_IO_RW_EXTENDED \<or> x_rest (transfer_of c) = 0)"

lemma transfer_of_ok:
  assumes "transfer_ok c"
  shows "xfer_ok (transfer_of c)"
proof (cases "unat (Length c) div unat (BlockSize c) = 0")
  case True
  then show ?thesis using assms
    by (auto simp: xfer_ok_def transfer_of_def x_rest_def transfer_ok_def word_less_nat_alt word_le_nat_alt div_eq_0_iff)
next
  case False
  let ?n = "unat (Length c) div unat (BlockSize c)"
  have b: "0 < unat (BlockSize c)" "unat (BlockSize c) \<le> 2048" using assms by (auto simp: transfer_ok_def word_less_nat_alt word_le_nat_alt)
  have le: "?n * unat (BlockSize c) \<le> unat (Length c)" by (rule div_times_less_eq_dividend)
  have rest: "unat (Length c) - ?n * unat (BlockSize c) = unat (Length c) mod unat (BlockSize c)"
    by (simp add: modulo_nat_def)
  have "unat (BlockSize c) < unat (Length c)" if "0 < unat (Length c) mod unat (BlockSize c) \<or> 1 < ?n"
  proof (rule ccontr)
    assume "\<not> ?thesis"
    then have "unat (Length c) = unat (BlockSize c)" using False b(1) by (simp add: div_eq_0_iff)
    then show False using that b(1) by simp
  qed
  then show ?thesis using assms b le False rest
    by (simp add: xfer_ok_def transfer_of_def x_rest_def transfer_ok_def Let_def)
qed

lemma block_counts_of:
  assumes "transfer_ok c"
  shows "unat (BlockCount (block_counts c)) = x_cnt (transfer_of c)" "unat (BlockSize (block_counts c)) = x_blk (transfer_of c)"
proof -
  have d: "unat (Length c div ucast (BlockSize c)) = unat (Length c) div unat (BlockSize c)"
    by (simp add: unat_div unat_widen)
  have n: "unat (ucast (Length c div ucast (BlockSize c)) :: u16) = unat (Length c) div unat (BlockSize c)"
    using assms unfolding unsigned_ucast_eq d transfer_ok_def by (simp add: take_bit_nat_eq_self)
  have z: "(ucast (Length c div ucast (BlockSize c)) :: u16) = 0 \<longleftrightarrow> unat (Length c) div unat (BlockSize c) = 0"
    by (metis n unat_eq_zero)
  have small: "unat (Length c) < 65536" if "unat (Length c) div unat (BlockSize c) = 0"
    using that assms by (auto simp: transfer_ok_def div_eq_0_iff word_less_nat_alt word_le_nat_alt)
  show "unat (BlockCount (block_counts c)) = x_cnt (transfer_of c)"
    using n z by (simp add: block_counts_def transfer_of_def Let_def)
  show "unat (BlockSize (block_counts c)) = x_blk (transfer_of c)"
    using z small by (simp add: block_counts_def transfer_of_def Let_def unsigned_ucast_eq take_bit_nat_eq_self)
qed


lemma needs_rest_iff:
  assumes "transfer_ok c" "R \<noteq> UnalignedRequest"
  shows "needs_rest R (block_counts c) \<longleftrightarrow> 0 < x_rest (transfer_of c)"
proof -
  let ?x = "transfer_of c"
  have len: "x_len ?x = unat (Length c)" by (simp add: transfer_of_def Let_def)
  have le: "x_cnt ?x * x_blk ?x \<le> x_len ?x" using transfer_of_ok [OF assms(1)] by (simp add: xfer_ok_def)
  have "unat (ucast (BlockCount (block_counts c)) * ucast (BlockSize (block_counts c)) :: u32) = x_cnt ?x * x_blk ?x"
    using le unat_u32_less [of "Length c"] by (simp add: unat_word_ariths unat_widen block_counts_of [OF assms(1)] len)
  then show ?thesis using assms(2) using assms(1) by (auto simp: needs_rest_def word_less_nat_alt x_rest_def len transfer_ok_def)
qed

lemma internal_command_rest:
  assumes "transfer_ok c" "0 < x_rest (transfer_of c)"
  shows "rest_command (transfer_of c) (internal_command ax (block_counts c))"
proof -
  let ?x = "transfer_of c" and ?b = "block_counts c"
  have n: "unat (Length c) div unat (BlockSize c) \<noteq> 0"
    using assms(2) by (auto simp: x_rest_def transfer_of_def Let_def split: if_splits)
  have blk: "x_blk ?x = unat (BlockSize c)" using n by (simp add: transfer_of_def Let_def)
  then have bs: "unat (BlockSize ?b) = unat (BlockSize c)" using block_counts_of(2) [OF assms(1)] by simp
  have "x_rest ?x = unat (Length c) mod unat (BlockSize c)"
    using n by (simp add: x_rest_def transfer_of_def Let_def modulo_nat_def)
  then have rest: "unat (Length c mod ucast (BlockSize ?b)) = x_rest ?x" by (simp add: unat_mod unat_widen bs)
  have "x_rest ?x < 65536" using transfer_of_ok [OF assms(1)] by (simp add: xfer_ok_def)
  then have small: "unat (ucast (Length c mod ucast (BlockSize ?b)) :: u16) = x_rest ?x"
    by (simp add: unsigned_ucast_eq rest take_bit_nat_eq_self)
  have "pio_command c" "Index c = SDCMD_IO_RW_EXTENDED" using assms by (auto simp: transfer_ok_def)
  then show ?thesis
    using rest small block_counts_of [OF assms(1)] bs blk
    by (simp add: rest_command_def direction_def pio_command_def internal_command_def transfer_of_def Let_def)
qed

lemma issue_establishes:
  assumes "c = Command (requests w R)" "transfer_ok c" "RequestType (requests w R) = SdRequestTypeCommandWithTransfer"
    "UnalignedReqState w = UnalignedReqStateIdle" "R \<noteq> 0" "R \<noteq> UnalignedRequest"
  shows "request_at (transfer_of c) R w (snd (run_state (SdhcSlotIssueRequest os ax R) w))"
proof -
  let ?x = "transfer_of c"
  let ?W = "w\<lparr>OutstandingRequest := R, CmdIssued := CmdIssued w + 1\<rparr>"
  define res where "res = run_state (SdhcSendCommand os ax R) ?W"
  have inc: "CmdIssued_update (\<lambda>n. n + 1) v = v\<lparr>CmdIssued := CmdIssued v + 1\<rparr>" for v :: sdhc by (cases v) simp
  have issue: "snd (run_state (SdhcSlotIssueRequest os ax R) w) = snd res"
    using assms(3) by (simp add: SdhcSlotIssueRequest_def run inc res_def)
  have c: "c = Command (requests ?W R)" "pio_command c" "BlockSize c \<le> 2048" "BlockSize c \<noteq> 0"
    using assms(1,2) by (auto simp: transfer_ok_def)
  note sent = send_command_run [OF c, where os = os and ax = ax, folded res_def]
  have q: "quiet w (snd res)" using sent(2) by (rule quiet_trans [rotated]) (simp add: quiet_same)
  have "data_at ?x w w [] 0" by (simp add: data_at_def)
  then obtain es where es: "data_at ?x w (snd res) es 0" using data_at_quiet q by blast
  have cnt: "0 < x_cnt ?x" by (simp add: transfer_of_def Let_def)
  have st: "UnalignedReqState (snd res) = (if x_rest ?x = 0 then UnalignedReqStateIdle else UnalignedReqStateReady)"
    using sent(5) assms(4) needs_rest_iff [OF assms(2,6)] by simp
  have "rest_command ?x (Command (requests (snd res) UnalignedRequest))" if "0 < x_rest ?x"
    using sent(6) that needs_rest_iff [OF assms(2,6)] internal_command_rest [OF assms(2)] by simp
  then have "control_at ?x (Command (requests (snd res) R)) (Command (requests (snd res) UnalignedRequest))
      (UnalignedReqState (snd res)) (OutstandingRequest (snd res) \<noteq> 0) 0"
    using sent(3,4) st cnt block_counts_of [OF assms(2)] assms(5) c(2)
    by (auto simp: control_at_def direction_def pio_command_def sent_as_def progress_def transfer_of_def Let_def split: if_splits)
  with es show ?thesis unfolding issue request_at_def by blast
qed

section \<open>The property\<close>

text \<open>
  C26. A request that moves data through the port: from the moment it is issued, through any sequence of
  deferred routines, on any events and errors, and of transfers of its blocks, when the driver has completed it
  (no request is outstanding) and not with an error, every byte of its buffer has gone through the data port, once,
  in order. With command 53 this includes the bytes after the last whole block, which the driver moves with a command
  of its own; other commands must ask for whole blocks, or for less than one. A request that reads writes nothing but
  its buffer, a request that writes changes no memory. Left out is the one case in which the driver loses bytes:
  the last whole block is moved when the event for the end of the transfer is already there and bytes follow it.
\<close>

theorem sd_request_moves_all:
  assumes "c = Command (requests w R)" "transfer_ok c" "RequestType (requests w R) = SdRequestTypeCommandWithTransfer"
    "UnalignedReqState w = UnalignedReqStateIdle" "R \<noteq> 0" "R \<noteq> UnalignedRequest"
    and "run_state (SdhcSlotIssueRequest os ax R) w = (status, w1)" "(sd_step os ax R)\<^sup>*\<^sup>* w1 w2" "OutstandingRequest w2 = 0"
    "\<not> request_failed R (drop (length (trace w)) (trace w2))"
  shows "\<exists>es. trace w2 = trace w @ es
    \<and> length (port (TransferDirection c = SdTransferDirectionRead) es) = (unat (Length c) + 3) div 4
    \<and> load_bytes (DataBuffer c) (unat (Length c)) (mem w2)
        = take (unat (Length c)) (port_bytes (port (TransferDirection c = SdTransferDirectionRead) es))
    \<and> (\<forall>a. a < DataBuffer c \<or> DataBuffer c + unat (Length c) \<le> a \<longrightarrow> mem w2 a = mem w a)
    \<and> (TransferDirection c \<noteq> SdTransferDirectionRead \<longrightarrow> mem w2 = mem w)"
proof -
  have "request_at (transfer_of c) R w w1"
    using issue_establishes [OF assms(1-6), of os ax] assms(7) by simp
  then have "request_at (transfer_of c) R w w2"
    using run_keeps [OF assms(8) _ transfer_of_ok [OF assms(2)] assms(5,6) refl] assms(10) by blast
  then obtain es where "data_at (transfer_of c) w w2 es (unat (Length c))"
    using assms(9) by (auto simp: request_at_def control_at_def progress_def transfer_of_def Let_def)
  then show ?thesis by (auto simp: data_at_def moved_def transfer_of_def Let_def)
qed


text \<open>One block of four bytes.\<close>

definition example_command :: SDPORT_COMMAND where
  "example_command = \<lparr>Index = 53, CommandType = SdCommandTypeOther, Argument = 0, ResponseType = SdResponseTypeR5,
     TransferType = SdTransferTypeMultiBlock, TransferDirection = SdTransferDirectionWrite,
     TransferMethod = SdTransferMethodPio, BlockCount = 1, BlockSize = 4, Length = 4, DataBuffer = 100,
     DmaVirtualAddress = 0, ScatterGatherList = 0, ScatterGatherListSize = 0\<rparr>"

definition example_sdhc :: sdhc where
  "example_sdhc = idle_sdhc\<lparr>requests := (\<lambda>_. \<lparr>RequestType = SdRequestTypeCommandWithTransfer, Command = example_command,
     RequiredEvents = 0, Status = 0\<rparr>)\<rparr>"

definition example_argument :: SD_RW_EXTENDED_ARGUMENT where
  "example_argument = \<lparr>with_Count = (\<lambda>a n. a OR n), with_BlockMode = (\<lambda>a b. a OR push_bit 27 b), OpCode = (\<lambda>a. 0),
     add_Address = (\<lambda>a n. a + n)\<rparr>"

abbreviation (input) example_dpc :: "u32 \<Rightarrow> sdhc \<Rightarrow> sdhc" where
  "example_dpc e w \<equiv> snd (run_state (SdhcRequestDpc quiet_os example_argument 2 e 0) w)"

definition example_issued :: sdhc where
  "example_issued = snd (run_state (SdhcSlotIssueRequest quiet_os example_argument 2) example_sdhc)"

definition example_ready :: sdhc where "example_ready = example_dpc 0x11 example_issued"

definition example_moved :: sdhc where
  "example_moved = snd (run_state (start_transfer quiet_os example_argument 2) example_ready)"

definition example_end :: sdhc where "example_end = example_dpc 2 example_moved"

lemma example_end_done: "OutstandingRequest example_end = 0"
  by code_simp

lemma example_end_ok: "\<not> request_failed 2 (drop (length (trace example_sdhc)) (trace example_end))"
proof -
  have "list_all (\<lambda>(c, r). case c of Sd d \<Rightarrow> (case d of SdPortCompleteRequest q st \<Rightarrow>
      st = STATUS_SUCCESS \<or> st = STATUS_MORE_PROCESSING_REQUIRED | _ \<Rightarrow> True) | _ \<Rightarrow> True) (trace example_end)"
    by code_simp
  then show ?thesis by (fastforce simp: request_failed_def list_all_iff dest: in_set_dropD)
qed

lemma example_run: "(sd_step quiet_os example_argument 2)\<^sup>*\<^sup>* example_issued example_end"
proof -
  have "BlockCount (Command (requests example_ready 2)) \<noteq> 0 \<and> CurrentEvents example_ready AND SDHC_IS_TRANSFER_COMPLETE = 0"
    by code_simp
  then have "sd_step quiet_os example_argument 2 example_ready example_moved"
    unfolding example_moved_def by (blast intro: sd_step.transfer)
  moreover have "sd_step quiet_os example_argument 2 w (example_dpc e w)" for e w by (rule sd_step.dpc) simp
  ultimately show ?thesis
    unfolding example_end_def example_ready_def by (meson converse_rtranclp_into_rtranclp rtranclp.rtrancl_refl)
qed

theorem sd_request_moves_all_witness:
  "\<exists>es. trace example_end = trace example_sdhc @ es \<and> length (port False es) = 1
     \<and> load_bytes 100 4 (mem example_end) = take 4 (port_bytes (port False es))"
proof -
  obtain st where run: "run_state (SdhcSlotIssueRequest quiet_os example_argument 2) example_sdhc = (st, example_issued)"
    by (metis example_issued_def prod.collapse)
  have cmd: "example_command = Command (requests example_sdhc 2)"
    "RequestType (requests example_sdhc 2) = SdRequestTypeCommandWithTransfer" "UnalignedReqState example_sdhc = UnalignedReqStateIdle"
    by (simp_all add: example_sdhc_def idle_sdhc_def)
  have ok: "transfer_ok example_command"
    by (simp add: transfer_ok_def pio_command_def example_command_def response_bits_def)
  have R: "(2 :: handle) \<noteq> 0" "(2 :: handle) \<noteq> UnalignedRequest" by simp_all
  have len: "unat (Length example_command) = 4" "DataBuffer example_command = 100"
    "(TransferDirection example_command = SdTransferDirectionRead) = False"
    by (simp_all add: example_command_def)
  obtain es where "trace example_end = trace example_sdhc @ es" "length (port False es) = (4 + 3) div 4"
    "load_bytes 100 4 (mem example_end) = take 4 (port_bytes (port False es))"
    using sd_request_moves_all [OF cmd(1) ok cmd(2,3) R run example_run example_end_done example_end_ok, unfolded len] by blast
  then show ?thesis by (intro exI [of _ es]) simp
qed

end
