(* ===== verification/Genet_Types.thy ===== *)
theory Genet_Types
  imports Registers
begin

text \<open>
  The Ethernet driver (\<open>bcmgenet/driver.c\<close>, \<open>registers.h\<close>): registers, descriptors, the rings the
  driver shares with the network stack, and its state.

  The rings of packets and fragments belong to the network class extension, which is not under
  \<open>src/\<close>. They are modelled by the indices and elements the driver reads and writes; the
  function that steps an index is a parameter of the definitions that use it, and \<open>ring_steps\<close> is
  its documented behaviour.
\<close>

section \<open>Registers\<close>

abbreviation (input) Sys_Rev_Ctrl :: nat where "Sys_Rev_Ctrl \<equiv> 0x0000"
abbreviation (input) Sys_Port_Ctrl :: nat where "Sys_Port_Ctrl \<equiv> 0x0004"
abbreviation (input) Sys_RBuf_Flush_Ctrl :: nat where "Sys_RBuf_Flush_Ctrl \<equiv> 0x0008"
abbreviation (input) Ext_RGMII_OOB_Ctrl :: nat where "Ext_RGMII_OOB_Ctrl \<equiv> 0x008c"
abbreviation (input) INTRL2_0_CPU_Status :: nat where "INTRL2_0_CPU_Status \<equiv> 0x0200"
abbreviation (input) INTRL2_0_CPU_Clear :: nat where "INTRL2_0_CPU_Clear \<equiv> 0x0208"
abbreviation (input) INTRL2_0_CPU_Mask_Status :: nat where "INTRL2_0_CPU_Mask_Status \<equiv> 0x020c"
abbreviation (input) INTRL2_0_CPU_Mask_Set :: nat where "INTRL2_0_CPU_Mask_Set \<equiv> 0x0210"
abbreviation (input) INTRL2_0_CPU_Mask_Clear :: nat where "INTRL2_0_CPU_Mask_Clear \<equiv> 0x0214"
abbreviation (input) RBuf_Ctrl :: nat where "RBuf_Ctrl \<equiv> 0x0300"
abbreviation (input) RBuf_TBuf_Size_Ctrl :: nat where "RBuf_TBuf_Size_Ctrl \<equiv> 0x03b4"
abbreviation (input) UMAC_Cmd :: nat where "UMAC_Cmd \<equiv> 0x0808"
abbreviation (input) UMAC_MAC0 :: nat where "UMAC_MAC0 \<equiv> 0x080c"
abbreviation (input) UMAC_MAC1 :: nat where "UMAC_MAC1 \<equiv> 0x0810"
abbreviation (input) UMAC_Max_Frame_Len :: nat where "UMAC_Max_Frame_Len \<equiv> 0x0814"
abbreviation (input) UMAC_Tx_Flush :: nat where "UMAC_Tx_Flush \<equiv> 0x0b34"
abbreviation (input) UMAC_MIB_Ctrl :: nat where "UMAC_MIB_Ctrl \<equiv> 0x0d80"
abbreviation (input) UMAC_MDIO_Cmd :: nat where "UMAC_MDIO_Cmd \<equiv> 0x0e14"
abbreviation (input) UMAC_MDF_Ctrl :: nat where "UMAC_MDF_Ctrl \<equiv> 0x0e50"

definition UMAC_MDF_Addr :: "nat \<Rightarrow> nat" where
  "UMAC_MDF_Addr i = 0x0e54 + 4 * i"

text \<open>The two DMA engines: 256 descriptors of 12 bytes, then 17 rings of 64 bytes, then the rest.\<close>

abbreviation (input) RDMA :: nat where "RDMA \<equiv> 0x2000"
abbreviation (input) TDMA :: nat where "TDMA \<equiv> 0x4000"
abbreviation (input) BG_NUM_BDS :: u32 where "BG_NUM_BDS \<equiv> 256"
abbreviation (input) BG_DEFAULT_RING :: nat where "BG_DEFAULT_RING \<equiv> 16"
abbreviation (input) Length_Status :: nat where "Length_Status \<equiv> 0"
abbreviation (input) Address_Lo :: nat where "Address_Lo \<equiv> 4"
abbreviation (input) Address_Hi :: nat where "Address_Hi \<equiv> 8"

definition BDs :: "nat \<Rightarrow> u32 \<Rightarrow> nat \<Rightarrow> nat" where
  "BDs dma d field = dma + 12 * unat d + field"

definition Rings :: "nat \<Rightarrow> nat \<Rightarrow> nat" where
  "Rings dma field = dma + 0x0c00 + 0x40 * BG_DEFAULT_RING + field"

definition Regs :: "nat \<Rightarrow> nat \<Rightarrow> nat" where
  "Regs dma field = dma + 0x1040 + field"

abbreviation (input) TDMA_Read_Ptr :: nat where "TDMA_Read_Ptr \<equiv> 0x00"
abbreviation (input) TDMA_Read_Ptr_Hi :: nat where "TDMA_Read_Ptr_Hi \<equiv> 0x04"
abbreviation (input) TDMA_Cons_Index :: nat where "TDMA_Cons_Index \<equiv> 0x08"
abbreviation (input) TDMA_Prod_Index :: nat where "TDMA_Prod_Index \<equiv> 0x0c"
abbreviation (input) DMA_Ring_Buf_Size :: nat where "DMA_Ring_Buf_Size \<equiv> 0x10"
abbreviation (input) DMA_Start_Addr :: nat where "DMA_Start_Addr \<equiv> 0x14"
abbreviation (input) DMA_Start_Addr_Hi :: nat where "DMA_Start_Addr_Hi \<equiv> 0x18"
abbreviation (input) DMA_End_Addr :: nat where "DMA_End_Addr \<equiv> 0x1c"
abbreviation (input) DMA_End_Addr_Hi :: nat where "DMA_End_Addr_Hi \<equiv> 0x20"
abbreviation (input) DMA_MBuf_Done_Thresh :: nat where "DMA_MBuf_Done_Thresh \<equiv> 0x24"
abbreviation (input) TDMA_Flow_Period :: nat where "TDMA_Flow_Period \<equiv> 0x28"
abbreviation (input) TDMA_Write_Ptr :: nat where "TDMA_Write_Ptr \<equiv> 0x2c"
abbreviation (input) TDMA_Write_Ptr_Hi :: nat where "TDMA_Write_Ptr_Hi \<equiv> 0x30"
abbreviation (input) Ring_Cfg :: nat where "Ring_Cfg \<equiv> 0x00"
abbreviation (input) DMA_Ctrl :: nat where "DMA_Ctrl \<equiv> 0x04"
abbreviation (input) SCB_Burst_Size :: nat where "SCB_Burst_Size \<equiv> 0x0c"

text \<open>Bits.\<close>

abbreviation (input) BG_MAJOR_V5 :: u32 where "BG_MAJOR_V5 \<equiv> 6"
abbreviation (input) BG_MAX_DMA_BURST :: u32 where "BG_MAX_DMA_BURST \<equiv> 8"
abbreviation (input) BG_SYS_PORT_MODE_EXT_GPHY :: u32 where "BG_SYS_PORT_MODE_EXT_GPHY \<equiv> 3"
abbreviation (input) BG_SYS_RBUF_FLUSH_RESET :: u32 where "BG_SYS_RBUF_FLUSH_RESET \<equiv> 0x2"
abbreviation (input) BG_EXT_RGMII_OOB_ID_MODE_DIS :: u32 where "BG_EXT_RGMII_OOB_ID_MODE_DIS \<equiv> 0x10000"
abbreviation (input) BG_EXT_RGMII_OOB_MODE_EN :: u32 where "BG_EXT_RGMII_OOB_MODE_EN \<equiv> 0x40"
abbreviation (input) BG_EXT_RGMII_OOB_DISABLE :: u32 where "BG_EXT_RGMII_OOB_DISABLE \<equiv> 0x20"
abbreviation (input) BG_EXT_RGMII_OOB_LINK :: u32 where "BG_EXT_RGMII_OOB_LINK \<equiv> 0x10"
abbreviation (input) BG_INTR_TXDMA_DONE :: u32 where "BG_INTR_TXDMA_DONE \<equiv> 0x10000"
abbreviation (input) BG_INTR_RXDMA_DONE :: u32 where "BG_INTR_RXDMA_DONE \<equiv> 0x2000"
abbreviation (input) BG_RBUF_ALIGN_2B :: u32 where "BG_RBUF_ALIGN_2B \<equiv> 0x2"
abbreviation (input) BG_UMAC_CMD_TX_PAUSE_IGNORE :: u32 where "BG_UMAC_CMD_TX_PAUSE_IGNORE \<equiv> 0x10000000"
abbreviation (input) BG_UMAC_CMD_LCL_LOOP_EN :: u32 where "BG_UMAC_CMD_LCL_LOOP_EN \<equiv> 0x8000"
abbreviation (input) BG_UMAC_CMD_SW_RESET :: u32 where "BG_UMAC_CMD_SW_RESET \<equiv> 0x2000"
abbreviation (input) BG_UMAC_CMD_HD_EN :: u32 where "BG_UMAC_CMD_HD_EN \<equiv> 0x400"
abbreviation (input) BG_UMAC_CMD_RX_PAUSE_IGNORE :: u32 where "BG_UMAC_CMD_RX_PAUSE_IGNORE \<equiv> 0x100"
abbreviation (input) BG_UMAC_CMD_PROMISC :: u32 where "BG_UMAC_CMD_PROMISC \<equiv> 0x10"
abbreviation (input) BG_UMAC_CMD_SPEED_1000 :: u32 where "BG_UMAC_CMD_SPEED_1000 \<equiv> 0x8"
abbreviation (input) BG_UMAC_CMD_SPEED_100 :: u32 where "BG_UMAC_CMD_SPEED_100 \<equiv> 0x4"
abbreviation (input) BG_UMAC_CMD_RX_EN :: u32 where "BG_UMAC_CMD_RX_EN \<equiv> 0x2"
abbreviation (input) BG_UMAC_CMD_TX_EN :: u32 where "BG_UMAC_CMD_TX_EN \<equiv> 0x1"
abbreviation (input) BG_UMAC_MAX_MAC_FILTERS :: nat where "BG_UMAC_MAX_MAC_FILTERS \<equiv> 17"
abbreviation (input) BG_MDIO_START_BUSY :: u32 where "BG_MDIO_START_BUSY \<equiv> 0x20000000"
abbreviation (input) BG_MDIO_READ :: u32 where "BG_MDIO_READ \<equiv> 0x8000000"
abbreviation (input) BG_MDIO_WRITE :: u32 where "BG_MDIO_WRITE \<equiv> 0x4000000"
abbreviation (input) BG_MII_BMCR :: u8 where "BG_MII_BMCR \<equiv> 0"
abbreviation (input) BG_MII_BMSR :: u8 where "BG_MII_BMSR \<equiv> 1"
abbreviation (input) BG_MII_PHYSID1 :: u8 where "BG_MII_PHYSID1 \<equiv> 2"
abbreviation (input) BG_MII_PHYSID2 :: u8 where "BG_MII_PHYSID2 \<equiv> 3"
abbreviation (input) BG_MII_BMCR_RESET :: u16 where "BG_MII_BMCR_RESET \<equiv> 0x8000"
abbreviation (input) BG_MII_BMSR_ANCOMP :: u16 where "BG_MII_BMSR_ANCOMP \<equiv> 0x20"
abbreviation (input) BG_MII_BMSR_LINK :: u16 where "BG_MII_BMSR_LINK \<equiv> 0x4"
abbreviation (input) BG_MII_BCM_AUXCTL :: u8 where "BG_MII_BCM_AUXCTL \<equiv> 0x18"
abbreviation (input) BG_MII_BCM_AUXSTS :: u8 where "BG_MII_BCM_AUXSTS \<equiv> 0x19"
abbreviation (input) BG_MII_BCM_SHD :: u8 where "BG_MII_BCM_SHD \<equiv> 0x1c"
abbreviation (input) BG_DMA_BG_STATUS_EOP :: u32 where "BG_DMA_BG_STATUS_EOP \<equiv> 0x4000"
abbreviation (input) BG_DMA_BG_STATUS_SOP :: u32 where "BG_DMA_BG_STATUS_SOP \<equiv> 0x2000"
abbreviation (input) BG_DMA_BG_STATUS_TX_QTAG :: u32 where "BG_DMA_BG_STATUS_TX_QTAG \<equiv> 0x1f80"
abbreviation (input) BG_DMA_BG_STATUS_TX_CRC :: u32 where "BG_DMA_BG_STATUS_TX_CRC \<equiv> 0x40"
abbreviation (input) BG_DMA_BG_STATUS_RX_ERRORS :: u32 where "BG_DMA_BG_STATUS_RX_ERRORS \<equiv> 0x1f"
abbreviation (input) GENET_RING_DMA_EN :: u32 where "GENET_RING_DMA_EN \<equiv> 0x20001"
abbreviation (input) GENET_RX_BUFFER_SIZE :: u32 where "GENET_RX_BUFFER_SIZE \<equiv> 2048"
abbreviation (input) GENET_MAX_MTU_SIZE :: u32 where "GENET_MAX_MTU_SIZE \<equiv> 1536"
abbreviation (input) GENET_MAX_MULTICAST_ADDRESSES :: nat where "GENET_MAX_MULTICAST_ADDRESSES \<equiv> 15"
text \<open>A pointer, the list of memory descriptors (48 bytes) with its two page numbers, an address.\<close>

abbreviation (input) sizeof_GenetRxBuffer :: nat where "sizeof_GenetRxBuffer \<equiv> 80"
abbreviation (input) GENET_MDIO_RETRY :: nat where "GENET_MDIO_RETRY \<equiv> 1000"
abbreviation (input) GENET_PHY_RESET_RETRY :: nat where "GENET_PHY_RESET_RETRY \<equiv> 25000"

section \<open>Rings of the network stack\<close>

record NET_RING =
  BeginIndex :: u32
  NextIndex :: u32
  EndIndex :: u32
  NumberOfElements :: u32

record NET_PACKET =
  Ignore :: bool
  FragmentIndex :: u32
  FragmentCount :: u16

record NET_FRAGMENT =
  Capacity :: u32
  ValidLength :: u32
  Offset :: u32

type_synonym increment = "NET_RING \<Rightarrow> u32 \<Rightarrow> u32"

text \<open>
  \<open>NetRingIncrementIndex\<close>, as documented: the next index, back to 0 after the last element; an index
  beyond the end counts modulo the number of elements. \<open>ring_next\<close> is such a function.
\<close>

definition ring_steps :: "increment \<Rightarrow> bool" where
  "ring_steps inc \<longleftrightarrow> (\<forall>r i. NumberOfElements r \<noteq> 0 \<longrightarrow> unat (inc r i) = (unat i + 1) mod unat (NumberOfElements r))"

definition ring_next :: increment where
  "ring_next r i = of_nat ((unat i + 1) mod unat (NumberOfElements r))"

lemma ring_next_steps: "ring_steps ring_next"
  unfolding ring_steps_def ring_next_def by (intro allI impI unat_of_nat_mod)

section \<open>State\<close>

record NET_ADAPTER_LINK_LAYER_ADDRESS =
  Length :: u16
  Address :: "nat \<Rightarrow> u8"

definition broadcastMacAddress :: NET_ADAPTER_LINK_LAYER_ADDRESS where
  "broadcastMacAddress = \<lparr>Length = 6, Address = (\<lambda>i. if i < 6 then 0xff else 0)\<rparr>"

record NET_PACKET_FILTER_FLAGS =
  Directed :: bool
  Multicast :: bool
  AllMulticast :: bool
  Broadcast :: bool
  Promiscuous :: bool

record GenetTxPacket =
  lastDesc :: u32
  endFragment :: u32

record GenetTxQueue =
  netTxQueue :: handle
  tx_numDescs :: u32
  packetContexts :: "u32 \<Rightarrow> GenetTxPacket"
  tx_prodIndex :: u32
  tx_consIndex :: u32
  tx_packetRing :: NET_RING
  tx_fragmentRing :: NET_RING
  tx_packets :: "u32 \<Rightarrow> NET_PACKET"
  tx_fragments :: "u32 \<Rightarrow> NET_FRAGMENT"
  tx_logicalAddress :: "u32 \<Rightarrow> u64"

record GenetRxBuffer =
  virtualAddress :: nat
  logicalAddress :: u64

text \<open>A buffer is named by its index in \<open>buffers\<close>, the memory at \<open>buffersPtr\<close>; \<open>descBuffers\<close> holds \<open>None\<close> for \<open>NULL\<close>.\<close>

record GenetRxQueue =
  netRxQueue :: handle
  rx_numDescs :: u32
  numBuffers :: u32
  buffersPtr :: handle
  buffers :: "nat \<Rightarrow> GenetRxBuffer"
  freeBuffers :: "u32 \<Rightarrow> nat"
  curFreeBuffer :: u32
  descBuffers :: "u32 \<Rightarrow> nat option"
  rx_prodIndex :: u32
  rx_consIndex :: u32
  canceled :: bool
  rx_packetRing :: NET_RING
  rx_fragmentRing :: NET_RING
  rx_packets :: "u32 \<Rightarrow> NET_PACKET"
  rx_fragments :: "u32 \<Rightarrow> NET_FRAGMENT"
  rx_virtualAddress :: "u32 \<Rightarrow> nat"
  returnContext :: "u32 \<Rightarrow> nat"

record genet = kernel +
  wdfDevice :: handle
  netAdapter :: handle
  netConfiguration :: handle
  dmaEnabler :: handle
  timer :: handle
  interrupt :: handle
  registers :: handle
  txQueue :: GenetTxQueue
  rxQueue :: GenetRxQueue
  txNotify :: bool
  rxNotify :: bool
  savedStatus :: u32
  permanentMacAddress :: NET_ADAPTER_LINK_LAYER_ADDRESS
  currentMacAddress :: NET_ADAPTER_LINK_LAYER_ADDRESS
  packetFilter :: NET_PACKET_FILTER_FLAGS
  numMulticastAddresses :: nat
  multicastAddresses :: "nat \<Rightarrow> NET_ADAPTER_LINK_LAYER_ADDRESS"
  bugcheck :: bool
  genet_ub :: bool

text \<open>A device before its hardware has been prepared, for the examples.\<close>

definition no_mac :: NET_ADAPTER_LINK_LAYER_ADDRESS where
  "no_mac = \<lparr>Length = 0, Address = (\<lambda>_. 0)\<rparr>"

definition empty_ring :: NET_RING where
  "empty_ring = \<lparr>BeginIndex = 0, NextIndex = 0, EndIndex = 0, NumberOfElements = 2\<rparr>"

definition empty_tx :: GenetTxQueue where
  "empty_tx = \<lparr>netTxQueue = 0, tx_numDescs = BG_NUM_BDS, packetContexts = (\<lambda>_. \<lparr>lastDesc = 0, endFragment = 0\<rparr>),
     tx_prodIndex = 0, tx_consIndex = 0, tx_packetRing = empty_ring, tx_fragmentRing = empty_ring,
     tx_packets = (\<lambda>_. \<lparr>Ignore = False, FragmentIndex = 0, FragmentCount = 0\<rparr>),
     tx_fragments = (\<lambda>_. \<lparr>Capacity = 0, ValidLength = 0, Offset = 0\<rparr>), tx_logicalAddress = (\<lambda>_. 0)\<rparr>"

definition empty_rx :: GenetRxQueue where
  "empty_rx = \<lparr>netRxQueue = 0, rx_numDescs = 0, numBuffers = 0, buffersPtr = 0,
     buffers = (\<lambda>_. \<lparr>virtualAddress = 0, logicalAddress = 0\<rparr>), freeBuffers = (\<lambda>_. 0), curFreeBuffer = 0,
     descBuffers = (\<lambda>_. None), rx_prodIndex = 0, rx_consIndex = 0, canceled = False,
     rx_packetRing = empty_ring, rx_fragmentRing = empty_ring,
     rx_packets = (\<lambda>_. \<lparr>Ignore = False, FragmentIndex = 0, FragmentCount = 0\<rparr>),
     rx_fragments = (\<lambda>_. \<lparr>Capacity = 0, ValidLength = 0, Offset = 0\<rparr>), rx_virtualAddress = (\<lambda>_. 0), returnContext = (\<lambda>_. 0)\<rparr>"

definition idle_genet :: genet where
  "idle_genet = \<lparr>trace = [], wdfDevice = 1, netAdapter = 1, netConfiguration = 1, dmaEnabler = 1, timer = 1, interrupt = 1,
     registers = 1, txQueue = empty_tx, rxQueue = empty_rx, txNotify = False, rxNotify = False, savedStatus = 0,
     permanentMacAddress = no_mac, currentMacAddress = no_mac,
     packetFilter = \<lparr>Directed = False, Multicast = False, AllMulticast = False, Broadcast = False, Promiscuous = False\<rparr>,
     numMulticastAddresses = 0, multicastAddresses = (\<lambda>_. no_mac), bugcheck = False, genet_ub = False\<rparr>"

definition GRD :: "os \<Rightarrow> nat \<Rightarrow> (genet, u32) state" where
  "GRD os reg = do { r \<leftarrow> ext os (Mm (ReadRegister reg)); return (r_val r) }"

definition GWR :: "os \<Rightarrow> nat \<Rightarrow> u32 \<Rightarrow> (genet, unit) state" where
  "GWR os reg v = do { _ \<leftarrow> ext os (Mm (WriteRegister reg v)); return () }"

definition stall :: "os \<Rightarrow> nat \<Rightarrow> (genet, unit) state" where
  "stall os us = do { _ \<leftarrow> ext os (Ke (KeStallExecutionProcessor us)); return () }"

text \<open>\<open>NT_FRE_ASSERT\<close> stops the system when its condition is false.\<close>

definition NT_FRE_ASSERT :: "bool \<Rightarrow> (genet, unit) state" where
  "NT_FRE_ASSERT c = do_when (\<not> c) (update (bugcheck_update (\<lambda>_. True)))"

definition update_tx :: "(GenetTxQueue \<Rightarrow> GenetTxQueue) \<Rightarrow> (genet, unit) state" where
  "update_tx f = update (txQueue_update f)"

definition update_rx :: "(GenetRxQueue \<Rightarrow> GenetRxQueue) \<Rightarrow> (genet, unit) state" where
  "update_rx f = update (rxQueue_update f)"

lemma run_genet [simp, run]:
  "run_state (GRD os reg) w =
     (r_val (os (trace w) (Mm (ReadRegister reg))), w\<lparr>trace := trace w @ [(Mm (ReadRegister reg), os (trace w) (Mm (ReadRegister reg)))]\<rparr>)"
  "run_state (GWR os reg v) w =
     ((), w\<lparr>trace := trace w @ [(Mm (WriteRegister reg v), os (trace w) (Mm (WriteRegister reg v)))]\<rparr>)"
  "run_state (stall os us) w =
     ((), w\<lparr>trace := trace w @ [(Ke (KeStallExecutionProcessor us), os (trace w) (Ke (KeStallExecutionProcessor us)))]\<rparr>)"
  "run_state (NT_FRE_ASSERT c) w = ((), if c then w else w\<lparr>bugcheck := True\<rparr>)"
  by (simp_all add: GRD_def GWR_def stall_def NT_FRE_ASSERT_def)

lemma run_update_queues [simp, run]:
  "run_state (update_tx f) w = ((), w\<lparr>txQueue := f (txQueue w)\<rparr>)"
  "run_state (update_rx g) w = ((), w\<lparr>rxQueue := g (rxQueue w)\<rparr>)"
  unfolding update_tx_def update_rx_def run_update by (cases w; simp)+

end
