(* ===== verification/Genet_Mac.thy ===== *)
theory Genet_Mac
  imports Genet_Types
begin

text \<open>
  The PHY, the MAC, its address filters and the interrupts of the Ethernet driver
  (\<open>driver.c\<close>, to \<open>GenetRxInterruptSet\<close>, and \<open>GenetInterruptIsr\<close> to \<open>GenetInterruptDisable\<close>).
\<close>

section \<open>The PHY\<close>

definition mdio_read_cmd :: "u8 \<Rightarrow> u32" where
  "mdio_read_cmd regAddr = BG_MDIO_START_BUSY OR BG_MDIO_READ OR push_bit 21 1 OR push_bit 16 (ucast regAddr AND 0x1f)"

definition mdio_write_cmd :: "u8 \<Rightarrow> u16 \<Rightarrow> u32" where
  "mdio_write_cmd regAddr regData =
     BG_MDIO_START_BUSY OR BG_MDIO_WRITE OR push_bit 21 1 OR push_bit 16 (ucast regAddr AND 0x1f) OR ucast regData"

text \<open>Polls until the controller is not busy; \<open>None\<close> when it gives up.\<close>

fun mdio_wait :: "os \<Rightarrow> nat \<Rightarrow> (genet, u32 option) state" where
  "mdio_wait os 0 = return None"
| "mdio_wait os (Suc n) = do {
     cmdReg \<leftarrow> GRD os UMAC_MDIO_Cmd;
     if cmdReg AND BG_MDIO_START_BUSY = 0 then return (Some cmdReg)
     else do {
       stall os 10;
       mdio_wait os n
     }
   }"

text \<open>The value read is left as it was when the controller stays busy.\<close>

definition GenetPhyRead :: "os \<Rightarrow> u8 \<Rightarrow> u16 \<Rightarrow> (genet, ntstatus \<times> u16) state" where
  "GenetPhyRead os regAddr regData = do {
     GWR os UMAC_MDIO_Cmd (mdio_read_cmd regAddr);
     r \<leftarrow> mdio_wait os GENET_MDIO_RETRY;
     case r of
       None \<Rightarrow> return (STATUS_TRANSACTION_TIMED_OUT, regData)
     | Some cmdReg \<Rightarrow> return (STATUS_SUCCESS, ucast cmdReg)
   }"

definition GenetPhyWrite :: "os \<Rightarrow> u8 \<Rightarrow> u16 \<Rightarrow> (genet, ntstatus) state" where
  "GenetPhyWrite os regAddr regData = do {
     GWR os UMAC_MDIO_Cmd (mdio_write_cmd regAddr regData);
     r \<leftarrow> mdio_wait os GENET_MDIO_RETRY;
     return (case r of None \<Rightarrow> STATUS_TRANSACTION_TIMED_OUT | Some _ \<Rightarrow> STATUS_SUCCESS)
   }"

text \<open>Polls until the reset of the PHY is over.\<close>

fun phy_reset_wait :: "os \<Rightarrow> nat \<Rightarrow> u16 \<Rightarrow> (genet, ntstatus \<times> u16) state" where
  "phy_reset_wait os 0 phyReg = return (STATUS_SUCCESS, phyReg)"
| "phy_reset_wait os (Suc n) phyReg = do {
     (status, phyReg) \<leftarrow> GenetPhyRead os BG_MII_BMCR phyReg;
     if \<not> NT_SUCCESS status then return (status, phyReg)
     else if phyReg AND BG_MII_BMCR_RESET = 0 then return (STATUS_SUCCESS, phyReg)
     else do {
       stall os 20;
       phy_reset_wait os n phyReg
     }
   }"

text \<open>A sequence of register accesses that stops at the first failure.\<close>

definition and_then :: "(genet, ntstatus) state \<Rightarrow> (genet, ntstatus) state \<Rightarrow> (genet, ntstatus) state" where
  "and_then m k = do { status \<leftarrow> m; if \<not> NT_SUCCESS status then return status else k }"

definition phy_read_then :: "os \<Rightarrow> u8 \<Rightarrow> u16 \<Rightarrow> (u16 \<Rightarrow> (genet, ntstatus) state) \<Rightarrow> (genet, ntstatus) state" where
  "phy_read_then os regAddr old k = do {
     (status, v) \<leftarrow> GenetPhyRead os regAddr old;
     if \<not> NT_SUCCESS status then return status else k v
   }"

definition GenetPhyInitialize :: "os \<Rightarrow> (genet, ntstatus) state" where
  "GenetPhyInitialize os =
     and_then (GenetPhyWrite os BG_MII_BMCR BG_MII_BMCR_RESET) (do {
       (status, phyReg) \<leftarrow> phy_reset_wait os GENET_PHY_RESET_RETRY 0;
       if \<not> NT_SUCCESS status then return status
       else if phyReg AND BG_MII_BMCR_RESET \<noteq> 0 then return STATUS_TRANSACTION_TIMED_OUT
       else and_then (GenetPhyWrite os BG_MII_BCM_AUXCTL 0x7007)
         (phy_read_then os BG_MII_BCM_AUXCTL phyReg (\<lambda>phyReg.
           and_then (GenetPhyWrite os BG_MII_BCM_AUXCTL (phyReg OR 0x8207))
             (and_then (GenetPhyWrite os BG_MII_BCM_SHD 0x0c00)
               (phy_read_then os BG_MII_BCM_SHD (phyReg OR 0x8207) (\<lambda>phyReg.
                 GenetPhyWrite os BG_MII_BCM_SHD ((phyReg AND (NOT 0x0200 AND 0x03ff)) OR 0x8c00))))))
     })"

datatype duplex = DuplexUnknown | DuplexHalf | DuplexFull

text \<open>What the driver reports: connected, with its speed in bit/s and its duplex state, or not.\<close>

record NET_ADAPTER_LINK_STATE =
  connected :: bool
  TxLinkSpeed :: u64
  DuplexState :: duplex

definition disconnected :: NET_ADAPTER_LINK_STATE where
  "disconnected = \<lparr>connected = False, TxLinkSpeed = 0, DuplexState = DuplexUnknown\<rparr>"

definition link_speed :: "u16 \<Rightarrow> u64 \<times> duplex" where
  "link_speed auxsts = (let r = auxsts AND 0x0700 in
     if r = 0x0700 then (1000, DuplexFull)
     else if r = 0x0600 then (1000, DuplexHalf)
     else if r = 0x0500 then (100, DuplexFull)
     else if r = 0x0400 \<or> r = 0x0300 then (100, DuplexHalf)
     else if r = 0x0200 then (10, DuplexFull)
     else if r = 0x0100 then (10, DuplexHalf)
     else (0, DuplexUnknown))"

definition GenetPhyReadLinkState :: "os \<Rightarrow> NET_ADAPTER_LINK_STATE \<Rightarrow> (genet, ntstatus \<times> NET_ADAPTER_LINK_STATE) state" where
  "GenetPhyReadLinkState os old = do {
     (status, bmsr) \<leftarrow> GenetPhyRead os BG_MII_BMSR 0;
     if \<not> NT_SUCCESS status then return (status, old)
     else if bmsr AND BG_MII_BMSR_LINK = 0 \<or> bmsr AND BG_MII_BMSR_ANCOMP = 0 then return (STATUS_SUCCESS, disconnected)
     else do {
       (status, auxsts) \<leftarrow> GenetPhyRead os BG_MII_BCM_AUXSTS 0;
       if \<not> NT_SUCCESS status then return (status, old)
       else let (speed, duplex) = link_speed auxsts
            in return (status, \<lparr>connected = True, TxLinkSpeed = speed * 1000000, DuplexState = duplex\<rparr>)
     }
   }"

section \<open>The MAC\<close>

definition mac_word0 :: "NET_ADAPTER_LINK_LAYER_ADDRESS \<Rightarrow> u32" where
  "mac_word0 a = push_bit 24 (ucast (Address a 0)) OR push_bit 16 (ucast (Address a 1)) OR push_bit 8 (ucast (Address a 2))
     OR ucast (Address a 3)"

definition mac_word1 :: "NET_ADAPTER_LINK_LAYER_ADDRESS \<Rightarrow> u32" where
  "mac_word1 a = push_bit 8 (ucast (Address a 4)) OR ucast (Address a 5)"

definition GenetMacInitialize :: "os \<Rightarrow> (genet, unit) state" where
  "GenetMacInitialize os = do {
     regData \<leftarrow> GRD os Sys_RBuf_Flush_Ctrl;
     GWR os Sys_RBuf_Flush_Ctrl (regData OR BG_SYS_RBUF_FLUSH_RESET);
     stall os 10;
     GWR os Sys_RBuf_Flush_Ctrl ((regData OR BG_SYS_RBUF_FLUSH_RESET) AND NOT BG_SYS_RBUF_FLUSH_RESET);
     stall os 10;
     GWR os Sys_RBuf_Flush_Ctrl 0;
     stall os 10;
     GWR os UMAC_Cmd 0;
     GWR os UMAC_Cmd (BG_UMAC_CMD_LCL_LOOP_EN OR BG_UMAC_CMD_SW_RESET);
     stall os 10;
     GWR os Sys_Port_Ctrl BG_SYS_PORT_MODE_EXT_GPHY;
     stall os 10;
     GWR os UMAC_Cmd 0;
     stall os 10;
     GWR os UMAC_MIB_Ctrl 0x7;
     GWR os UMAC_MIB_Ctrl 0;
     GWR os UMAC_Max_Frame_Len GENET_MAX_MTU_SIZE;
     regData \<leftarrow> GRD os RBuf_Ctrl;
     GWR os RBuf_Ctrl (regData OR BG_RBUF_ALIGN_2B);
     GWR os RBuf_TBuf_Size_Ctrl 1;
     GWR os INTRL2_0_CPU_Mask_Set 0xffffffff;
     GWR os INTRL2_0_CPU_Clear 0xffffffff;
     GWR os Sys_Port_Ctrl BG_SYS_PORT_MODE_EXT_GPHY;
     w \<leftarrow> get;
     GWR os UMAC_MAC0 (mac_word0 (currentMacAddress w));
     GWR os UMAC_MAC1 (mac_word1 (currentMacAddress w))
   }"

definition GenetMacPhyConfigure :: "os \<Rightarrow> (genet, unit) state" where
  "GenetMacPhyConfigure os = do {
     regData \<leftarrow> GRD os Ext_RGMII_OOB_Ctrl;
     GWR os Ext_RGMII_OOB_Ctrl ((regData AND NOT BG_EXT_RGMII_OOB_ID_MODE_DIS) OR BG_EXT_RGMII_OOB_MODE_EN)
   }"

definition link_state_mask :: u32 where
  "link_state_mask = BG_UMAC_CMD_SPEED_1000 OR BG_UMAC_CMD_SPEED_100 OR BG_UMAC_CMD_HD_EN OR BG_UMAC_CMD_RX_PAUSE_IGNORE
     OR BG_UMAC_CMD_TX_PAUSE_IGNORE"

definition new_link_state :: "NET_ADAPTER_LINK_STATE \<Rightarrow> u32" where
  "new_link_state s =
     (if TxLinkSpeed s = 1000 * 1000000 then BG_UMAC_CMD_SPEED_1000
      else if TxLinkSpeed s = 100 * 1000000 then BG_UMAC_CMD_SPEED_100 else 0)
     OR (if DuplexState s \<noteq> DuplexFull then BG_UMAC_CMD_HD_EN else 0)
     OR (BG_UMAC_CMD_RX_PAUSE_IGNORE OR BG_UMAC_CMD_TX_PAUSE_IGNORE)"

definition GenetMacSetLinkState :: "os \<Rightarrow> NET_ADAPTER_LINK_STATE \<Rightarrow> (genet, unit) state" where
  "GenetMacSetLinkState os linkState =
     (if \<not> connected linkState then return ()
      else do {
        cmdReg \<leftarrow> GRD os Ext_RGMII_OOB_Ctrl;
        GWR os Ext_RGMII_OOB_Ctrl ((cmdReg AND NOT BG_EXT_RGMII_OOB_DISABLE) OR BG_EXT_RGMII_OOB_LINK);
        cmdReg \<leftarrow> GRD os UMAC_Cmd;
        do_when (new_link_state linkState \<noteq> cmdReg AND link_state_mask)
          (GWR os UMAC_Cmd ((cmdReg AND NOT link_state_mask) OR new_link_state linkState))
      })"

section \<open>Address filters\<close>

text \<open>The filter number must be one of the hardware; the bit of a filter counts down from the top.\<close>

definition GenetSetOneMacAddressFilter :: "os \<Rightarrow> nat \<Rightarrow> NET_ADAPTER_LINK_LAYER_ADDRESS \<Rightarrow> u32 \<Rightarrow> (genet, u32) state" where
  "GenetSetOneMacAddressFilter os filterNum macAddress ctrlFlags = do {
     do_when (BG_UMAC_MAX_MAC_FILTERS \<le> filterNum) (update (genet_ub_update (\<lambda>_. True)));
     GWR os (UMAC_MDF_Addr (filterNum * 2)) (push_bit 8 (ucast (Address macAddress 0)) OR ucast (Address macAddress 1));
     GWR os (UMAC_MDF_Addr (filterNum * 2 + 1))
       (push_bit 24 (ucast (Address macAddress 2)) OR push_bit 16 (ucast (Address macAddress 3))
        OR push_bit 8 (ucast (Address macAddress 4)) OR ucast (Address macAddress 5));
     return (ctrlFlags OR push_bit (BG_UMAC_MAX_MAC_FILTERS - 1 - filterNum) 1)
   }"

fun set_multicast_filters :: "os \<Rightarrow> nat \<Rightarrow> nat \<Rightarrow> nat \<Rightarrow> u32 \<Rightarrow> (genet, u32) state" where
  "set_multicast_filters os curMulticast 0 curFilter mdfCtrl = return mdfCtrl"
| "set_multicast_filters os curMulticast (Suc n) curFilter mdfCtrl = do {
     w \<leftarrow> get;
     mdfCtrl \<leftarrow> GenetSetOneMacAddressFilter os curFilter (multicastAddresses w curMulticast) mdfCtrl;
     set_multicast_filters os (curMulticast + 1) n (curFilter + 1) mdfCtrl
   }"

definition GenetSetMacAddressFilters :: "os \<Rightarrow> (genet, unit) state" where
  "GenetSetMacAddressFilters os = do {
     umacCmd \<leftarrow> GRD os UMAC_Cmd;
     w \<leftarrow> get;
     let f = packetFilter w
     in if AllMulticast f \<or> Promiscuous f then do {
          GWR os UMAC_Cmd (umacCmd OR BG_UMAC_CMD_PROMISC);
          GWR os UMAC_MDF_Ctrl 0
        } else do {
          m1 \<leftarrow> (if Broadcast f then GenetSetOneMacAddressFilter os 0 broadcastMacAddress 0 else return 0);
          m2 \<leftarrow> (if Directed f then GenetSetOneMacAddressFilter os (if Broadcast f then 1 else 0) (currentMacAddress w) m1
                 else return m1);
          m3 \<leftarrow> (if Multicast f
                 then set_multicast_filters os 0 (numMulticastAddresses w)
                   ((if Broadcast f then 1 else 0) + (if Directed f then 1 else 0)) m2
                 else return m2);
          GWR os UMAC_Cmd (umacCmd AND NOT BG_UMAC_CMD_PROMISC);
          GWR os UMAC_MDF_Ctrl m3
        }
   }"

definition adapter_locked :: "os \<Rightarrow> (genet, 'a) state \<Rightarrow> (genet, 'a) state" where
  "adapter_locked os m = do {
     _ \<leftarrow> ext os (Ke (ExAcquireMutex AdapterLock));
     r \<leftarrow> m;
     _ \<leftarrow> ext os (Ke (ExReleaseMutex AdapterLock));
     return r
   }"

text \<open>More addresses than the adapter said it supports would overrun the array.\<close>

definition GenetSetReceiveFilter ::
  "os \<Rightarrow> NET_PACKET_FILTER_FLAGS \<Rightarrow> NET_ADAPTER_LINK_LAYER_ADDRESS list \<Rightarrow> (genet, unit) state" where
  "GenetSetReceiveFilter os flags addresses = adapter_locked os (do {
     update (packetFilter_update (\<lambda>_. flags));
     update (numMulticastAddresses_update (\<lambda>_. length addresses));
     do_when (GENET_MAX_MULTICAST_ADDRESSES < length addresses) (update (genet_ub_update (\<lambda>_. True)));
     update (multicastAddresses_update (\<lambda>_ i. if i < length addresses then addresses ! i else \<lparr>Length = 0, Address = (\<lambda>_. 0)\<rparr>));
     GenetSetMacAddressFilters os
   })"

text \<open>The preview interface sets the packet filter and the list on their own.\<close>

definition GenetSetPacketFilter :: "os \<Rightarrow> NET_PACKET_FILTER_FLAGS \<Rightarrow> (genet, unit) state" where
  "GenetSetPacketFilter os flags = adapter_locked os (do {
     update (packetFilter_update (\<lambda>_. flags));
     GenetSetMacAddressFilters os
   })"

definition GenetSetMulticastList :: "os \<Rightarrow> NET_ADAPTER_LINK_LAYER_ADDRESS list \<Rightarrow> (genet, unit) state" where
  "GenetSetMulticastList os addresses = adapter_locked os (do {
     update (numMulticastAddresses_update (\<lambda>_. length addresses));
     do_when (GENET_MAX_MULTICAST_ADDRESSES < length addresses) (update (genet_ub_update (\<lambda>_. True)));
     update (multicastAddresses_update (\<lambda>_ i. if i < length addresses then addresses ! i else \<lparr>Length = 0, Address = (\<lambda>_. 0)\<rparr>));
     GenetSetMacAddressFilters os
   })"

section \<open>Interrupts\<close>

definition GenetInterruptSetCommon :: "os \<Rightarrow> bool \<Rightarrow> (genet, unit) state \<Rightarrow> (genet, unit) state" where
  "GenetInterruptSetCommon os enabled exchange = do {
     exchange;
     _ \<leftarrow> ext os (Ke (ExAcquireMutex InterruptLock));
     w \<leftarrow> get;
     let armed = (if txNotify w then BG_INTR_TXDMA_DONE else 0) OR (if rxNotify w then BG_INTR_RXDMA_DONE else 0)
     in do {
       GWR os INTRL2_0_CPU_Mask_Set ((BG_INTR_TXDMA_DONE OR BG_INTR_RXDMA_DONE) AND NOT armed);
       GWR os INTRL2_0_CPU_Mask_Clear armed;
       _ \<leftarrow> ext os (Ke (ExReleaseMutex InterruptLock));
       do_when (\<not> enabled) (do { _ \<leftarrow> ext os (Ke KeFlushQueuedDpcs); return () })
     }
   }"

definition GenetTxInterruptSet :: "os \<Rightarrow> bool \<Rightarrow> (genet, unit) state" where
  "GenetTxInterruptSet os enabled = GenetInterruptSetCommon os enabled (update (txNotify_update (\<lambda>_. enabled)))"

definition GenetRxInterruptSet :: "os \<Rightarrow> bool \<Rightarrow> (genet, unit) state" where
  "GenetRxInterruptSet os enabled = GenetInterruptSetCommon os enabled (update (rxNotify_update (\<lambda>_. enabled)))"

definition GenetTxQueueSetNotificationEnabled :: "os \<Rightarrow> bool \<Rightarrow> (genet, unit) state" where
  "GenetTxQueueSetNotificationEnabled os enabled = adapter_locked os (GenetTxInterruptSet os enabled)"

definition GenetRxQueueSetNotificationEnabled :: "os \<Rightarrow> bool \<Rightarrow> (genet, unit) state" where
  "GenetRxQueueSetNotificationEnabled os enabled = adapter_locked os (GenetRxInterruptSet os enabled)"

definition GenetInterruptIsr :: "os \<Rightarrow> (genet, bool) state" where
  "GenetInterruptIsr os = do {
     s \<leftarrow> GRD os INTRL2_0_CPU_Status;
     m \<leftarrow> GRD os INTRL2_0_CPU_Mask_Status;
     let intrStatus = s AND NOT m in do {
       GWR os INTRL2_0_CPU_Clear intrStatus;
       GWR os INTRL2_0_CPU_Mask_Set intrStatus;
       update (savedStatus_update (\<lambda>v. v OR intrStatus));
       w \<leftarrow> get;
       _ \<leftarrow> ext os (Wdf (WdfInterruptQueueDpcForIsr (interrupt w)));
       return True
     }
   }"

definition GenetInterruptDpc :: "os \<Rightarrow> (genet, unit) state" where
  "GenetInterruptDpc os = do {
     w \<leftarrow> get;
     update (savedStatus_update (\<lambda>_. 0));
     do_when (savedStatus w AND BG_INTR_TXDMA_DONE \<noteq> 0) (do {
       update (txNotify_update (\<lambda>_. False));
       do_when (txNotify w)
         (do { _ \<leftarrow> ext os (Net (NetTxQueueNotifyMoreCompletedPacketsAvailable (netTxQueue (txQueue w)))); return () })
     });
     do_when (savedStatus w AND BG_INTR_RXDMA_DONE \<noteq> 0) (do {
       update (rxNotify_update (\<lambda>_. False));
       do_when (rxNotify w)
         (do { _ \<leftarrow> ext os (Net (NetRxQueueNotifyMoreReceivedPacketsAvailable (netRxQueue (rxQueue w)))); return () })
     })
   }"

definition GenetInterruptEnable :: ntstatus where "GenetInterruptEnable = STATUS_SUCCESS"

definition GenetInterruptDisable :: "os \<Rightarrow> (genet, ntstatus) state" where
  "GenetInterruptDisable os = do {
     GWR os INTRL2_0_CPU_Mask_Set 0xffffffff;
     GWR os INTRL2_0_CPU_Clear 0xffffffff;
     return STATUS_SUCCESS
   }"

end
