(* ===== verification/Genet_Queues.thy ===== *)
theory Genet_Queues
  imports Genet_Mac
begin

text \<open>
  The packet queues of the Ethernet driver (\<open>driver.c\<close>, \<open>GenetReturnRxBuffer\<close> to \<open>GenetFillRxDesc\<close> and
  \<open>GenetTxQueueAdvance\<close> to \<open>GenetRxQueueStop\<close>).

  The descriptors of a queue form a ring of \<open>numDescs\<close>; \<open>prodIndex\<close> and \<open>consIndex\<close> count modulo
  \<open>0x10000\<close>. Loops over the rings of the network stack have the number of their elements as
  fuel; running out of it gives \<open>None\<close>.
\<close>

section \<open>Transmission\<close>

definition tx_length_status :: "u32 \<Rightarrow> u16 \<Rightarrow> NET_FRAGMENT \<Rightarrow> u32" where
  "tx_length_status packetDescNum count fragment =
     push_bit 16 (ucast (ucast (ValidLength fragment) :: u16)) OR BG_DMA_BG_STATUS_TX_QTAG
     OR (if packetDescNum = 0 then BG_DMA_BG_STATUS_SOP OR BG_DMA_BG_STATUS_TX_CRC else 0)
     OR (if packetDescNum + 1 = ucast count then BG_DMA_BG_STATUS_EOP else 0)"

definition tx_address :: "GenetTxQueue \<Rightarrow> u32 \<Rightarrow> u64" where
  "tx_address q fragmentIndex = tx_logicalAddress q fragmentIndex + ucast (Offset (tx_fragments q fragmentIndex))"

definition tx_prodDesc :: "GenetTxQueue \<Rightarrow> u32" where
  "tx_prodDesc q = tx_prodIndex q mod tx_numDescs q"

text \<open>One descriptor: its three words, the last descriptor of the packet, and the next position.\<close>

definition post_fragment :: "os \<Rightarrow> u32 \<Rightarrow> u32 \<Rightarrow> u32 \<Rightarrow> (genet, unit) state" where
  "post_fragment os packetIndex packetDescNum fragmentIndex = do {
     w \<leftarrow> get;
     let q = txQueue w; d = tx_prodDesc q; a = tx_address q fragmentIndex in do {
       GWR os (BDs TDMA d Length_Status)
         (tx_length_status packetDescNum (FragmentCount (tx_packets q packetIndex)) (tx_fragments q fragmentIndex));
       GWR os (BDs TDMA d Address_Lo) (ucast a);
       GWR os (BDs TDMA d Address_Hi) (ucast (drop_bit 32 a));
       update_tx (\<lambda>q. q\<lparr>packetContexts := (packetContexts q)(packetIndex := (packetContexts q packetIndex)\<lparr>lastDesc := d\<rparr>),
                        tx_prodIndex := (tx_prodIndex q + 1) AND 0xffff\<rparr>)
     }
   }"

text \<open>The result is the index after the last fragment and the number of descriptors written.\<close>

fun post_fragments ::
  "os \<Rightarrow> increment \<Rightarrow> nat \<Rightarrow> u32 \<Rightarrow> u32 \<Rightarrow> u32 \<Rightarrow> u32 \<Rightarrow> (genet, (u32 \<times> u32) option) state" where
  "post_fragments os inc 0 packetIndex packetDescNum fragmentIndex fragmentEndIndex = return None"
| "post_fragments os inc (Suc fuel) packetIndex packetDescNum fragmentIndex fragmentEndIndex =
     (if fragmentIndex = fragmentEndIndex then return (Some (fragmentIndex, packetDescNum))
      else do {
        post_fragment os packetIndex packetDescNum fragmentIndex;
        w \<leftarrow> get;
        post_fragments os inc fuel packetIndex (packetDescNum + 1) (inc (tx_fragmentRing (txQueue w)) fragmentIndex)
          fragmentEndIndex
      })"

definition post_packet :: "os \<Rightarrow> increment \<Rightarrow> u32 \<Rightarrow> (genet, u32 option) state" where
  "post_packet os inc packetIndex = do {
     w \<leftarrow> get;
     let q = txQueue w; packet = tx_packets q packetIndex; ring = tx_fragmentRing q in do {
       r \<leftarrow> post_fragments os inc (Suc (unat (NumberOfElements ring))) packetIndex 0 (FragmentIndex packet)
              (inc ring (FragmentIndex packet + ucast (FragmentCount packet) - 1));
       case r of
         None \<Rightarrow> return None
       | Some (fragmentIndex, packetDescNum) \<Rightarrow> do {
           NT_FRE_ASSERT (packetDescNum = ucast (FragmentCount packet));
           update_tx (\<lambda>q. q\<lparr>packetContexts := (packetContexts q)
                                (packetIndex := (packetContexts q packetIndex)\<lparr>endFragment := fragmentIndex\<rparr>),
                            tx_fragmentRing := (tx_fragmentRing q)\<lparr>NextIndex := fragmentIndex\<rparr>\<rparr>);
           return (Some packetDescNum)
         }
     }
   }"

text \<open>The result is where the loop stopped and whether any descriptor has been posted.\<close>

fun post_packets :: "os \<Rightarrow> increment \<Rightarrow> nat \<Rightarrow> u32 \<Rightarrow> u32 \<Rightarrow> bool \<Rightarrow> (genet, (u32 \<times> bool) option) state" where
  "post_packets os inc 0 packetIndex freeDescs postedDescs = return None"
| "post_packets os inc (Suc fuel) packetIndex freeDescs postedDescs = do {
     w \<leftarrow> get;
     let q = txQueue w; packet = tx_packets q packetIndex; ring = tx_packetRing q in
     if packetIndex = EndIndex ring then return (Some (packetIndex, postedDescs))
     else if Ignore packet then post_packets os inc fuel (inc ring packetIndex) freeDescs postedDescs
     else if freeDescs < ucast (FragmentCount packet) then return (Some (packetIndex, postedDescs))
     else do {
       r \<leftarrow> post_packet os inc packetIndex;
       case r of
         None \<Rightarrow> return None
       | Some n \<Rightarrow> post_packets os inc fuel (inc ring packetIndex) (freeDescs - ucast (FragmentCount packet))
                     (postedDescs \<or> n \<noteq> 0)
     }
   }"

text \<open>The first packet that the controller has not finished, and where the fragments before it end.\<close>

fun reclaim_packets :: "increment \<Rightarrow> GenetTxQueue \<Rightarrow> nat \<Rightarrow> u32 \<Rightarrow> u32 \<Rightarrow> u32 \<Rightarrow> u32 \<Rightarrow> (u32 \<times> u32) option" where
  "reclaim_packets inc q 0 prodDesc hwDescs packetIndex fragmentIndex = None"
| "reclaim_packets inc q (Suc fuel) prodDesc hwDescs packetIndex fragmentIndex =
     (if packetIndex = NextIndex (tx_packetRing q) then Some (packetIndex, fragmentIndex)
      else if Ignore (tx_packets q packetIndex)
      then reclaim_packets inc q fuel prodDesc hwDescs (inc (tx_packetRing q) packetIndex) fragmentIndex
      else if (prodDesc - lastDesc (packetContexts q packetIndex)) mod tx_numDescs q \<le> hwDescs
      then Some (packetIndex, fragmentIndex)
      else reclaim_packets inc q fuel prodDesc hwDescs (inc (tx_packetRing q) packetIndex)
             (endFragment (packetContexts q packetIndex)))"

definition tx_hwDescs :: "GenetTxQueue \<Rightarrow> u32" where
  "tx_hwDescs q = (tx_prodDesc q - tx_consIndex q mod tx_numDescs q) mod tx_numDescs q"

definition tx_reclaim :: "os \<Rightarrow> increment \<Rightarrow> (genet, bool) state" where
  "tx_reclaim os inc = do {
     v \<leftarrow> GRD os (Rings TDMA TDMA_Cons_Index);
     update_tx (tx_consIndex_update (\<lambda>_. v));
     w \<leftarrow> get;
     let q = txQueue w in
     case reclaim_packets inc q (Suc (unat (NumberOfElements (tx_packetRing q)))) (tx_prodDesc q) (tx_hwDescs q)
            (BeginIndex (tx_packetRing q)) (BeginIndex (tx_fragmentRing q)) of
       None \<Rightarrow> return False
     | Some (packetIndex, fragmentIndex) \<Rightarrow> do {
         update_tx (\<lambda>q. q\<lparr>tx_packetRing := (tx_packetRing q)\<lparr>BeginIndex := packetIndex\<rparr>,
                          tx_fragmentRing := (tx_fragmentRing q)\<lparr>BeginIndex := fragmentIndex\<rparr>\<rparr>);
         return True
       }
   }"

definition tx_post :: "os \<Rightarrow> increment \<Rightarrow> (genet, bool) state" where
  "tx_post os inc = do {
     w \<leftarrow> get;
     let q = txQueue w in do {
       r \<leftarrow> post_packets os inc (Suc (unat (NumberOfElements (tx_packetRing q)))) (NextIndex (tx_packetRing q))
              (tx_numDescs q - tx_hwDescs q - 1) False;
       case r of
         None \<Rightarrow> return False
       | Some (packetIndex, postedDescs) \<Rightarrow> do {
           update_tx (\<lambda>q. q\<lparr>tx_packetRing := (tx_packetRing q)\<lparr>NextIndex := packetIndex\<rparr>\<rparr>);
           w \<leftarrow> get;
           do_when postedDescs (GWR os (Rings TDMA TDMA_Prod_Index) (tx_prodIndex (txQueue w)));
           return True
         }
     }
   }"

text \<open>\<open>False\<close> when a loop has not ended within the fuel.\<close>

definition GenetTxQueueAdvance :: "os \<Rightarrow> increment \<Rightarrow> (genet, bool) state" where
  "GenetTxQueueAdvance os inc = do {
     posted \<leftarrow> tx_post os inc;
     if \<not> posted then return False else tx_reclaim os inc
   }"

definition GenetTxQueueCancel :: "(genet, unit) state" where
  "GenetTxQueueCancel = return ()"

definition set_register :: "os \<Rightarrow> nat \<Rightarrow> u32 \<Rightarrow> (genet, unit) state" where
  "set_register os reg flags = do { regData \<leftarrow> GRD os reg; GWR os reg (regData OR flags) }"

definition clear_register :: "os \<Rightarrow> nat \<Rightarrow> u32 \<Rightarrow> (genet, unit) state" where
  "clear_register os reg flags = do { regData \<leftarrow> GRD os reg; GWR os reg (regData AND NOT flags) }"

definition tx_start_registers :: "os \<Rightarrow> (genet, unit) state" where
  "tx_start_registers os = do {
     GWR os (Regs TDMA SCB_Burst_Size) BG_MAX_DMA_BURST;
     GWR os (Rings TDMA TDMA_Read_Ptr) 0;
     GWR os (Rings TDMA TDMA_Read_Ptr_Hi) 0;
     GWR os (Rings TDMA TDMA_Cons_Index) 0;
     GWR os (Rings TDMA TDMA_Prod_Index) 0;
     GWR os (Rings TDMA DMA_Ring_Buf_Size) (push_bit 16 BG_NUM_BDS OR GENET_RX_BUFFER_SIZE);
     GWR os (Rings TDMA DMA_Start_Addr) 0;
     GWR os (Rings TDMA DMA_Start_Addr_Hi) 0;
     GWR os (Rings TDMA DMA_End_Addr) (BG_NUM_BDS * 12 div 4 - 1);
     GWR os (Rings TDMA DMA_End_Addr_Hi) 0;
     GWR os (Rings TDMA DMA_MBuf_Done_Thresh) 1;
     GWR os (Rings TDMA TDMA_Flow_Period) 0;
     GWR os (Rings TDMA TDMA_Write_Ptr) 0;
     GWR os (Rings TDMA TDMA_Write_Ptr_Hi) 0;
     GWR os (Regs TDMA Ring_Cfg) (push_bit BG_DEFAULT_RING 1);
     set_register os (Regs TDMA DMA_Ctrl) GENET_RING_DMA_EN;
     adapter_locked os (set_register os UMAC_Cmd BG_UMAC_CMD_TX_EN)
   }"

definition GenetTxQueueStart :: "os \<Rightarrow> (genet, unit) state" where
  "GenetTxQueueStart os = do {
     update_tx (\<lambda>q. q\<lparr>tx_prodIndex := 0, tx_consIndex := 0\<rparr>);
     tx_start_registers os
   }"

definition GenetTxQueueStop :: "os \<Rightarrow> (genet, unit) state" where
  "GenetTxQueueStop os = do {
     clear_register os (Regs TDMA DMA_Ctrl) GENET_RING_DMA_EN;
     GWR os UMAC_Tx_Flush 1;
     stall os 10;
     GWR os UMAC_Tx_Flush 0;
     adapter_locked os (do {
       clear_register os UMAC_Cmd BG_UMAC_CMD_TX_EN;
       GenetTxInterruptSet os False
     })
   }"

section \<open>Receive buffers\<close>

definition GenetReturnRxBuffer :: "nat option \<Rightarrow> (genet, unit) state" where
  "GenetReturnRxBuffer ctxt = (case ctxt of
      None \<Rightarrow> return ()
    | Some rxBuffer \<Rightarrow> do {
        w \<leftarrow> get;
        NT_FRE_ASSERT (curFreeBuffer (rxQueue w) < numBuffers (rxQueue w));
        update_rx (\<lambda>q. q\<lparr>freeBuffers := (freeBuffers q)(curFreeBuffer q := rxBuffer), curFreeBuffer := curFreeBuffer q + 1\<rparr>)
      })"

definition GenetGetRxBuffer :: "(genet, nat) state" where
  "GenetGetRxBuffer = do {
     w \<leftarrow> get;
     NT_FRE_ASSERT (0 < curFreeBuffer (rxQueue w));
     update_rx (\<lambda>q. q\<lparr>curFreeBuffer := curFreeBuffer q - 1\<rparr>);
     w \<leftarrow> get;
     return (freeBuffers (rxQueue w) (curFreeBuffer (rxQueue w)))
   }"

definition GenetFillRxDesc :: "os \<Rightarrow> u32 \<Rightarrow> nat \<Rightarrow> (genet, unit) state" where
  "GenetFillRxDesc os desc rxBuffer = do {
     w \<leftarrow> get;
     NT_FRE_ASSERT (desc < rx_numDescs (rxQueue w));
     GWR os (BDs RDMA desc Address_Lo) (ucast (logicalAddress (buffers (rxQueue w) rxBuffer)));
     GWR os (BDs RDMA desc Address_Hi) (ucast (drop_bit 32 (logicalAddress (buffers (rxQueue w) rxBuffer))));
     update_rx (\<lambda>q. q\<lparr>descBuffers := (descBuffers q)(desc := Some rxBuffer)\<rparr>)
   }"

section \<open>Reception\<close>

definition rx_frame_ok :: "u32 \<Rightarrow> bool" where
  "rx_frame_ok length_status \<longleftrightarrow> length_status AND BG_DMA_BG_STATUS_EOP \<noteq> 0 \<and> length_status AND BG_DMA_BG_STATUS_SOP \<noteq> 0 \<and>
     length_status AND BG_DMA_BG_STATUS_RX_ERRORS = 0"

text \<open>The packet of one fragment that the element at the two indices is going to hold.\<close>

definition rx_element :: "u32 \<Rightarrow> u32 \<Rightarrow> GenetRxQueue \<Rightarrow> GenetRxQueue" where
  "rx_element fragmentIndex packetIndex q =
     q\<lparr>rx_packets := (rx_packets q)(packetIndex :=
          (rx_packets q packetIndex)\<lparr>FragmentIndex := fragmentIndex, FragmentCount := 1\<rparr>),
       rx_fragments := (rx_fragments q)(fragmentIndex := (rx_fragments q fragmentIndex)\<lparr>Capacity := GENET_RX_BUFFER_SIZE\<rparr>)\<rparr>"

definition rx_fragment :: "u32 \<Rightarrow> u32 \<Rightarrow> u32 \<Rightarrow> GenetRxQueue \<Rightarrow> GenetRxQueue" where
  "rx_fragment fragmentIndex len offset q =
     q\<lparr>rx_fragments := (rx_fragments q)(fragmentIndex := (rx_fragments q fragmentIndex)\<lparr>ValidLength := len, Offset := offset\<rparr>)\<rparr>"

text \<open>
  The buffer for the element at \<open>fragmentIndex\<close> and whether descriptors remain; no buffer when the
  frame in the descriptor is bad, which the loop then passes over.
\<close>

definition rx_take :: "os \<Rightarrow> u32 \<Rightarrow> (genet, nat option \<times> bool \<times> u32) state" where
  "rx_take os fragmentIndex = do {
     w \<leftarrow> get;
     if canceled (rxQueue w) then do {
       update_rx (rx_fragment fragmentIndex 0 0);
       b \<leftarrow> GenetGetRxBuffer;
       return (Some b, True, 0)
     } else do {
       let fragmentDesc = rx_consIndex (rxQueue w) mod rx_numDescs (rxQueue w);
           cons = (rx_consIndex (rxQueue w) + 1) AND 0xffff;
           descsRemaining = (cons \<noteq> rx_prodIndex (rxQueue w)) in do {
         update_rx (rx_consIndex_update (\<lambda>_. cons));
         length_status \<leftarrow> GRD os (BDs RDMA fragmentDesc Length_Status);
         if \<not> rx_frame_ok length_status then return (None, descsRemaining, fragmentDesc)
         else do {
           update_rx (rx_fragment fragmentIndex (drop_bit 16 length_status - 2) 2);
           w \<leftarrow> get;
           do_when (descBuffers (rxQueue w) fragmentDesc = None) (update (genet_ub_update (\<lambda>_. True)));
           return (Some (case descBuffers (rxQueue w) fragmentDesc of None \<Rightarrow> 0 | Some b \<Rightarrow> b), descsRemaining, fragmentDesc)
         }
       }
     }
   }"

definition rx_hand_over :: "os \<Rightarrow> u32 \<Rightarrow> u32 \<Rightarrow> nat \<Rightarrow> (genet, unit) state" where
  "rx_hand_over os fragmentIndex fragmentDesc rxBuffer = do {
     update_rx (\<lambda>q. q\<lparr>rx_virtualAddress := (rx_virtualAddress q)(fragmentIndex := virtualAddress (buffers q rxBuffer)),
                      returnContext := (returnContext q)(fragmentIndex := rxBuffer)\<rparr>);
     w \<leftarrow> get;
     do_when (\<not> canceled (rxQueue w)) (do {
       _ \<leftarrow> ext os (Net (KeFlushIoBuffers rxBuffer));
       b \<leftarrow> GenetGetRxBuffer;
       GenetFillRxDesc os fragmentDesc b
     })
   }"

text \<open>One turn of the loop: whether the elements have been filled, and whether descriptors remain.\<close>

definition rx_turn :: "os \<Rightarrow> u32 \<Rightarrow> u32 \<Rightarrow> (genet, bool \<times> bool) state" where
  "rx_turn os fragmentIndex packetIndex = do {
     update_rx (rx_element fragmentIndex packetIndex);
     (taken, descsRemaining, fragmentDesc) \<leftarrow> rx_take os fragmentIndex;
     case taken of
       None \<Rightarrow> return (False, descsRemaining)
     | Some rxBuffer \<Rightarrow> do {
         rx_hand_over os fragmentIndex fragmentDesc rxBuffer;
         return (True, descsRemaining)
       }
   }"

text \<open>The result is where the loop stopped in the rings of fragments and packets, and whether it has moved \<open>consIndex\<close>.\<close>

fun rx_loop :: "os \<Rightarrow> increment \<Rightarrow> nat \<Rightarrow> bool \<Rightarrow> bool \<Rightarrow> u32 \<Rightarrow> u32 \<Rightarrow> (genet, (u32 \<times> u32 \<times> bool) option) state" where
  "rx_loop os inc 0 descsRemaining postedDescs fragmentIndex packetIndex = return None"
| "rx_loop os inc (Suc fuel) descsRemaining postedDescs fragmentIndex packetIndex = do {
     w \<leftarrow> get;
     if \<not> (descsRemaining \<and> fragmentIndex \<noteq> EndIndex (rx_fragmentRing (rxQueue w)) \<and>
            packetIndex \<noteq> EndIndex (rx_packetRing (rxQueue w)) \<and> curFreeBuffer (rxQueue w) \<noteq> 0)
     then return (Some (fragmentIndex, packetIndex, postedDescs))
     else do {
       (taken, descsRemaining) \<leftarrow> rx_turn os fragmentIndex packetIndex;
       rx_loop os inc fuel descsRemaining (postedDescs \<or> \<not> canceled (rxQueue w))
         (if taken then inc (rx_fragmentRing (rxQueue w)) fragmentIndex else fragmentIndex)
         (if taken then inc (rx_packetRing (rxQueue w)) packetIndex else packetIndex)
     }
   }"

text \<open>
  Outside of cancellation each turn of the loop consumes one of at most \<open>0xffff\<close> filled descriptors,
  afterwards one free buffer.
\<close>

definition rx_fuel :: "GenetRxQueue \<Rightarrow> nat" where
  "rx_fuel q = (if canceled q then Suc (unat (curFreeBuffer q)) else 0x10000)"

definition rx_descs :: "os \<Rightarrow> (genet, bool) state" where
  "rx_descs os = do {
     w \<leftarrow> get;
     if canceled (rxQueue w) then return True
     else do {
       v \<leftarrow> GRD os (Rings RDMA TDMA_Cons_Index);
       update_rx (rx_prodIndex_update (\<lambda>_. v AND 0xffff));
       w \<leftarrow> get;
       return (rx_consIndex (rxQueue w) \<noteq> rx_prodIndex (rxQueue w))
     }
   }"

text \<open>\<open>False\<close> when the loop has not ended within the fuel.\<close>

definition GenetRxQueueAdvance :: "os \<Rightarrow> increment \<Rightarrow> (genet, bool) state" where
  "GenetRxQueueAdvance os inc = do {
     w \<leftarrow> get;
     descsRemaining \<leftarrow> rx_descs os;
     r \<leftarrow> rx_loop os inc (rx_fuel (rxQueue w)) descsRemaining False (BeginIndex (rx_fragmentRing (rxQueue w)))
            (BeginIndex (rx_packetRing (rxQueue w)));
     case r of
       None \<Rightarrow> return False
     | Some (fragmentIndex, packetIndex, postedDescs) \<Rightarrow> do {
         update_rx (\<lambda>q. q\<lparr>rx_packetRing := (rx_packetRing q)\<lparr>BeginIndex := packetIndex\<rparr>,
                          rx_fragmentRing := (rx_fragmentRing q)\<lparr>BeginIndex := fragmentIndex\<rparr>\<rparr>);
         w \<leftarrow> get;
         do_when postedDescs (GWR os (Rings RDMA TDMA_Prod_Index) (rx_consIndex (rxQueue w)));
         return True
       }
   }"

definition GenetRxQueueCancel :: "os \<Rightarrow> (genet, unit) state" where
  "GenetRxQueueCancel os = do {
     adapter_locked os (clear_register os UMAC_Cmd BG_UMAC_CMD_RX_EN);
     clear_register os (Regs RDMA DMA_Ctrl) GENET_RING_DMA_EN;
     update_rx (canceled_update (\<lambda>_. True))
   }"

text \<open>Descriptors \<open>curDesc\<close> to \<open>curDesc + n - 1\<close> get a buffer each.\<close>

fun fill_descs :: "os \<Rightarrow> nat \<Rightarrow> u32 \<Rightarrow> (genet, unit) state" where
  "fill_descs os 0 curDesc = return ()"
| "fill_descs os (Suc n) curDesc = do {
     b \<leftarrow> GenetGetRxBuffer;
     GenetFillRxDesc os curDesc b;
     fill_descs os n (curDesc + 1)
   }"

definition rx_start_registers :: "os \<Rightarrow> (genet, unit) state" where
  "rx_start_registers os = do {
     GWR os (Regs RDMA SCB_Burst_Size) BG_MAX_DMA_BURST;
     GWR os (Rings RDMA TDMA_Read_Ptr) 0;
     GWR os (Rings RDMA TDMA_Read_Ptr_Hi) 0;
     GWR os (Rings RDMA TDMA_Cons_Index) 0;
     GWR os (Rings RDMA TDMA_Prod_Index) 0;
     GWR os (Rings RDMA DMA_Ring_Buf_Size) (push_bit 16 BG_NUM_BDS OR GENET_RX_BUFFER_SIZE);
     GWR os (Rings RDMA DMA_Start_Addr) 0;
     GWR os (Rings RDMA DMA_Start_Addr_Hi) 0;
     GWR os (Rings RDMA DMA_End_Addr) (BG_NUM_BDS * 12 div 4 - 1);
     GWR os (Rings RDMA DMA_End_Addr_Hi) 0;
     GWR os (Rings RDMA TDMA_Flow_Period) (push_bit 16 5 OR drop_bit 4 BG_NUM_BDS);
     GWR os (Rings RDMA TDMA_Write_Ptr) 0;
     GWR os (Rings RDMA TDMA_Write_Ptr_Hi) 0;
     GWR os (Regs RDMA Ring_Cfg) (push_bit BG_DEFAULT_RING 1)
   }"

definition rx_fill_ring :: "os \<Rightarrow> (genet, unit) state" where
  "rx_fill_ring os = do {
     w \<leftarrow> get;
     NT_FRE_ASSERT (rx_numDescs (rxQueue w) \<le> curFreeBuffer (rxQueue w));
     fill_descs os (unat (rx_numDescs (rxQueue w))) 0
   }"

definition GenetRxQueueStart :: "os \<Rightarrow> (genet, unit) state" where
  "GenetRxQueueStart os = do {
     update_rx (\<lambda>q. q\<lparr>rx_prodIndex := 0, rx_consIndex := 0, canceled := False\<rparr>);
     rx_start_registers os;
     rx_fill_ring os;
     set_register os (Regs RDMA DMA_Ctrl) GENET_RING_DMA_EN;
     adapter_locked os (set_register os UMAC_Cmd BG_UMAC_CMD_RX_EN)
   }"

fun return_descs :: "nat \<Rightarrow> u32 \<Rightarrow> (genet, unit) state" where
  "return_descs 0 curDesc = return ()"
| "return_descs (Suc n) curDesc = do {
     w \<leftarrow> get;
     do_when (descBuffers (rxQueue w) curDesc \<noteq> None) (do {
       GenetReturnRxBuffer (descBuffers (rxQueue w) curDesc);
       update_rx (\<lambda>q. q\<lparr>descBuffers := (descBuffers q)(curDesc := None)\<rparr>)
     });
     return_descs n (curDesc + 1)
   }"

definition GenetRxQueueStop :: "os \<Rightarrow> (genet, unit) state" where
  "GenetRxQueueStop os = do {
     adapter_locked os (GenetRxInterruptSet os False);
     w \<leftarrow> get;
     return_descs (unat (rx_numDescs (rxQueue w))) 0
   }"

text \<open>The memory of buffers \<open>i\<close> to \<open>i + n - 1\<close> is freed; the array itself may be \<open>NULL\<close>.\<close>

fun cleanup_buffers :: "os \<Rightarrow> nat \<Rightarrow> nat \<Rightarrow> (genet, unit) state" where
  "cleanup_buffers os 0 i = return ()"
| "cleanup_buffers os (Suc n) i = do {
     w \<leftarrow> get;
     do_when (virtualAddress (buffers (rxQueue w) i) \<noteq> 0)
       (do { _ \<leftarrow> ext os (Mm (MmFreeContiguousMemory (virtualAddress (buffers (rxQueue w) i)))); return () });
     update_rx (\<lambda>q. q\<lparr>buffers := (buffers q)(i := (buffers q i)\<lparr>virtualAddress := 0\<rparr>)\<rparr>);
     cleanup_buffers os n (Suc i)
   }"

definition GenetRxQueueCleanup :: "os \<Rightarrow> (genet, unit) state" where
  "GenetRxQueueCleanup os = do {
     w \<leftarrow> get;
     do_when (buffersPtr (rxQueue w) = 0 \<and> numBuffers (rxQueue w) \<noteq> 0) (update (genet_ub_update (\<lambda>_. True)));
     cleanup_buffers os (unat (numBuffers (rxQueue w))) 0
   }"

end
