(* ===== verification/Genet_Device.thy ===== *)
theory Genet_Device
  imports Genet_Queues
begin

text \<open>
  The device of the Ethernet driver (\<open>driver.c\<close>, \<open>GenetAdapterStart\<close> and \<open>GenetPrepareHardware\<close> to
  \<open>GenetDeviceAdd\<close>): hardware resources, power, the creation of the queues, the timer and the device.
  The checked assertion on the identifier of the PHY is empty in a free build and left out.
\<close>

section \<open>The adapter\<close>

text \<open>Four sets of capabilities: the link, the frame size, the data path and the receive filters.\<close>

definition GenetAdapterStart :: "os \<Rightarrow> (genet, ntstatus) state" where
  "GenetAdapterStart os = do {
     w \<leftarrow> get;
     _ \<leftarrow> ext os (Net (NetAdapterSetLinkState (netAdapter w) 0 False));
     _ \<leftarrow> ext os (Net (NetAdapterSetCapabilities (netAdapter w)));
     _ \<leftarrow> ext os (Net (NetAdapterSetCapabilities (netAdapter w)));
     _ \<leftarrow> ext os (Net (NetAdapterSetCapabilities (netAdapter w)));
     _ \<leftarrow> ext os (Net (NetAdapterSetCapabilities (netAdapter w)));
     r \<leftarrow> ext os (Net (NetAdapterStart (netAdapter w)));
     return (r_status r)
   }"

section \<open>Hardware resources\<close>

text \<open>The bytes of the two registers, most significant first, as the byte swaps leave them in memory.\<close>

definition mac_of_words :: "u32 \<Rightarrow> u32 \<Rightarrow> NET_ADAPTER_LINK_LAYER_ADDRESS" where
  "mac_of_words mac0 mac1 = \<lparr>Length = 6, Address = (\<lambda>i.
     if i = 0 then ucast (drop_bit 24 mac0) else if i = 1 then ucast (drop_bit 16 mac0)
     else if i = 2 then ucast (drop_bit 8 mac0) else if i = 3 then ucast mac0
     else if i = 4 then ucast (drop_bit 8 (mac1 AND 0xffff)) else if i = 5 then ucast (mac1 AND 0xffff) else 0)\<rparr>"

definition ETH_IS_MULTICAST :: "(nat \<Rightarrow> u8) \<Rightarrow> bool" where
  "ETH_IS_MULTICAST a \<longleftrightarrow> a 0 AND 1 \<noteq> 0"

definition ETH_IS_BROADCAST :: "(nat \<Rightarrow> u8) \<Rightarrow> bool" where
  "ETH_IS_BROADCAST a \<longleftrightarrow> a 0 = 0xff \<and> a 1 = 0xff \<and> a 2 = 0xff \<and> a 3 = 0xff \<and> a 4 = 0xff \<and> a 5 = 0xff"

definition bytes_of :: "NET_ADAPTER_LINK_LAYER_ADDRESS \<Rightarrow> u8 list" where
  "bytes_of a = map (Address a) [0 ..< 6]"

text \<open>A configured address is used when it is a proper station address, otherwise the permanent one.\<close>

definition choose_mac_address :: "os \<Rightarrow> (genet, ntstatus) state" where
  "choose_mac_address os = do {
     flush \<leftarrow> GRD os Sys_RBuf_Flush_Ctrl;
     if flush AND BG_SYS_RBUF_FLUSH_RESET \<noteq> 0 then return STATUS_NOT_FOUND
     else do {
       mac0 \<leftarrow> GRD os UMAC_MAC0;
       mac1 \<leftarrow> GRD os UMAC_MAC1;
       update (permanentMacAddress_update (\<lambda>_. mac_of_words mac0 mac1));
       w \<leftarrow> get;
       r \<leftarrow> ext os (Net (NetConfigurationQueryLinkLayerAddress (netConfiguration w)));
       let a = (\<lambda>i. if i < length (r_data r) then r_data r ! i else 0);
           usable = (NT_SUCCESS (r_status r) \<and> r_len r = 6 \<and> \<not> ETH_IS_MULTICAST a \<and> \<not> ETH_IS_BROADCAST a) in do {
         update (currentMacAddress_update (\<lambda>_. if usable then \<lparr>Length = 6, Address = a\<rparr> else permanentMacAddress w));
         w \<leftarrow> get;
         _ \<leftarrow> ext os (Net (NetAdapterSetLinkLayerAddress (netAdapter w) (bytes_of (permanentMacAddress w))));
         _ \<leftarrow> ext os (Net (NetAdapterSetLinkLayerAddress (netAdapter w) (bytes_of (currentMacAddress w))));
         return STATUS_SUCCESS
       }
     }
   }"

definition check_hardware :: "os \<Rightarrow> (genet, ntstatus) state" where
  "check_hardware os = do {
     versionReg \<leftarrow> GRD os Sys_Rev_Ctrl;
     if drop_bit 24 versionReg AND 0x0f \<noteq> BG_MAJOR_V5 then return STATUS_NOT_FOUND
     else do {
       (status, phyIdReg) \<leftarrow> GenetPhyRead os BG_MII_PHYSID1 0;
       if \<not> NT_SUCCESS status then return status
       else do {
         (status, phyIdReg) \<leftarrow> GenetPhyRead os BG_MII_PHYSID2 phyIdReg;
         return status
       }
     }
   }"

text \<open>Each resource as its raw and its translated descriptor, which are of one type.\<close>

definition GenetPrepareHardware :: "os \<Rightarrow> resource list \<Rightarrow> (genet, ntstatus) state" where
  "GenetPrepareHardware os resources = (case resources of
      ResourceMemory start len # r1 # rs \<Rightarrow>
        if len \<noteq> 0x10000 then return STATUS_INVALID_BUFFER_SIZE
        else do {
          p \<leftarrow> ext os (Mm (MmMapIoSpaceEx start 0x10000));
          update (registers_update (\<lambda>_. r_ptr p));
          if r_ptr p = 0 then return STATUS_INSUFFICIENT_RESOURCES
          else if r1 \<noteq> ResourceInterrupt then return STATUS_RESOURCE_TYPE_NOT_FOUND
          else do {
            w \<leftarrow> get;
            i \<leftarrow> ext os (Dev (WdfInterruptCreate (wdfDevice w)));
            if \<not> NT_SUCCESS (r_status i) then return (r_status i)
            else do {
              update (\<lambda>w. w\<lparr>interrupt := r_ptr i, txNotify := False, rxNotify := False, savedStatus := 0\<rparr>);
              and_then (check_hardware os) (and_then (choose_mac_address os) (GenetAdapterStart os))
            }
          }
        }
    | _ \<Rightarrow> return STATUS_RESOURCE_TYPE_NOT_FOUND)"

definition GenetReleaseHardware :: "os \<Rightarrow> (genet, ntstatus) state" where
  "GenetReleaseHardware os = do {
     w \<leftarrow> get;
     do_when (registers w \<noteq> 0) (do { _ \<leftarrow> ext os (Mm (MmUnmapIoSpace (registers w) 0x10000)); return () });
     update (registers_update (\<lambda>_. 0));
     return STATUS_SUCCESS
   }"

section \<open>Power\<close>

text \<open>The status of the PHY is not looked at.\<close>

definition GenetD0Entry :: "os \<Rightarrow> (genet, ntstatus) state" where
  "GenetD0Entry os = do {
     GenetMacInitialize os;
     GenetSetMacAddressFilters os;
     _ \<leftarrow> GenetPhyInitialize os;
     GenetMacPhyConfigure os;
     w \<leftarrow> get;
     _ \<leftarrow> ext os (Wdf (WdfTimerStart (timer w)));
     return STATUS_SUCCESS
   }"

definition GenetD0Exit :: "os \<Rightarrow> (genet, ntstatus) state" where
  "GenetD0Exit os = do {
     w \<leftarrow> get;
     _ \<leftarrow> ext os (Wdf (WdfTimerStop (timer w)));
     return STATUS_SUCCESS
   }"

section \<open>Queues\<close>

text \<open>
  \<open>rings\<close> is the context of the new queue, zeroed but for the rings and the extensions that belong to
  the network stack.
\<close>

definition GenetCreateTxQueue :: "os \<Rightarrow> GenetTxQueue \<Rightarrow> (genet, ntstatus) state" where
  "GenetCreateTxQueue os rings = do {
     r \<leftarrow> ext os (Net NetTxQueueCreate);
     if \<not> NT_SUCCESS (r_status r) then return (r_status r)
     else do {
       update_tx (\<lambda>_. rings\<lparr>netTxQueue := r_ptr r, tx_numDescs := BG_NUM_BDS\<rparr>);
       m \<leftarrow> ext os (Wdf (WdfMemoryCreate (r_ptr r) (8 * unat (NumberOfElements (tx_packetRing rings)))));
       return (if \<not> NT_SUCCESS (r_status m) then r_status m else STATUS_SUCCESS)
     }
   }"

text \<open>Buffers \<open>i\<close> to \<open>i + n - 1\<close> are allocated and put on the free list.\<close>

fun allocate_buffers :: "os \<Rightarrow> nat \<Rightarrow> nat \<Rightarrow> (genet, ntstatus) state" where
  "allocate_buffers os 0 i = return STATUS_SUCCESS"
| "allocate_buffers os (Suc n) i = do {
     p \<leftarrow> ext os (Mm (MmAllocateContiguousMemorySpecifyCache GENET_RX_BUFFER_SIZE));
     if r_ptr p = 0 then return STATUS_INSUFFICIENT_RESOURCES
     else do {
       m \<leftarrow> ext os (Mm (MmBuildMdlForNonPagedPool (r_ptr p)));
       update_rx (\<lambda>q. q\<lparr>buffers := (buffers q)(i := \<lparr>virtualAddress = r_ptr p,
                          logicalAddress = push_bit 12 (r_phys m) + of_nat (r_ptr p mod 4096)\<rparr>),
                        freeBuffers := (freeBuffers q)(of_nat i := i)\<rparr>);
       allocate_buffers os n (Suc i)
     }
   }"

definition GenetCreateRxQueue :: "os \<Rightarrow> GenetRxQueue \<Rightarrow> (genet, ntstatus) state" where
  "GenetCreateRxQueue os rings = do {
     r \<leftarrow> ext os (Net NetRxQueueCreate);
     if \<not> NT_SUCCESS (r_status r) then return (r_status r)
     else let numBuffers' = BG_NUM_BDS * 2 + NumberOfElements (rx_fragmentRing rings) in do {
       update_rx (\<lambda>_. rings\<lparr>netRxQueue := r_ptr r, rx_numDescs := BG_NUM_BDS, numBuffers := numBuffers'\<rparr>);
       b \<leftarrow> ext os (Wdf (WdfMemoryCreate (r_ptr r) (sizeof_GenetRxBuffer * unat numBuffers')));
       if \<not> NT_SUCCESS (r_status b) then return (r_status b)
       else do {
         update_rx (buffersPtr_update (\<lambda>_. r_ptr b));
         f \<leftarrow> ext os (Wdf (WdfMemoryCreate (r_ptr r) (8 * unat numBuffers')));
         if \<not> NT_SUCCESS (r_status f) then return (r_status f)
         else do {
           d \<leftarrow> ext os (Wdf (WdfMemoryCreate (r_ptr r) (8 * unat BG_NUM_BDS)));
           if \<not> NT_SUCCESS (r_status d) then return (r_status d)
           else do {
             status \<leftarrow> allocate_buffers os (unat numBuffers') 0;
             if \<not> NT_SUCCESS status then return status
             else do {
               update_rx (\<lambda>q. q\<lparr>curFreeBuffer := numBuffers q\<rparr>);
               return STATUS_SUCCESS
             }
           }
         }
       }
     }
   }"

section \<open>The timer\<close>

definition GenetTimerFunc :: "os \<Rightarrow> (genet, unit) state" where
  "GenetTimerFunc os = do {
     (status, linkState) \<leftarrow> adapter_locked os (do {
       (status, linkState) \<leftarrow> GenetPhyReadLinkState os disconnected;
       do_when (NT_SUCCESS status) (GenetMacSetLinkState os linkState);
       return (status, linkState)
     });
     w \<leftarrow> get;
     let linkState = (if \<not> NT_SUCCESS status then disconnected else linkState) in do {
       _ \<leftarrow> ext os (Net (NetAdapterSetLinkState (netAdapter w) (TxLinkSpeed linkState) (connected linkState)));
       return ()
     }
   }"

section \<open>The device\<close>

text \<open>A call of the framework whose failure ends the routine with its status.\<close>

definition step_or_fail :: "os \<Rightarrow> call \<Rightarrow> (handle \<Rightarrow> (genet, ntstatus) state) \<Rightarrow> (genet, ntstatus) state" where
  "step_or_fail os c k = do {
     r \<leftarrow> ext os c;
     if \<not> NT_SUCCESS (r_status r) then return (r_status r) else k (r_ptr r)
   }"

definition GenetDeviceAdd :: "os \<Rightarrow> (genet, ntstatus) state" where
  "GenetDeviceAdd os =
     step_or_fail os (Net NetDeviceInitConfig) (\<lambda>_.
     step_or_fail os (Dev WdfDeviceCreate) (\<lambda>device.
     step_or_fail os (Net (WdfDmaEnablerCreate device)) (\<lambda>enabler. do {
       adapterInit \<leftarrow> ext os (Net (NetAdapterInitAllocate device));
       if r_ptr adapterInit = 0 then return STATUS_INSUFFICIENT_RESOURCES
       else do {
         a \<leftarrow> ext os (Net (NetAdapterCreate (r_ptr adapterInit)));
         _ \<leftarrow> ext os (Net (NetAdapterInitFree (r_ptr adapterInit)));
         if \<not> NT_SUCCESS (r_status a) then return (r_status a)
         else do {
           update (\<lambda>w. w\<lparr>wdfDevice := device, netAdapter := r_ptr a, dmaEnabler := enabler\<rparr>);
           step_or_fail os (Net (NetAdapterOpenConfiguration (r_ptr a))) (\<lambda>conf. do {
             update (netConfiguration_update (\<lambda>_. conf));
             step_or_fail os (Wdf WdfSpinLockCreate) (\<lambda>_.
             step_or_fail os (Wdf (WdfTimerCreate 1000)) (\<lambda>t. do {
               update (timer_update (\<lambda>_. t));
               return STATUS_SUCCESS
             }))
           })
         }
       }
     })))"

end
