(* ===== verification/Genet_Rings.thy ===== *)
theory Genet_Rings
  imports Genet_Device
begin

text \<open>
  Distances around a ring, for the rings of the network stack (\<open>ring_walk\<close>) and for the indices of
  the controller, which count modulo \<open>0x10000\<close>.
\<close>

section \<open>Distances\<close>

lemma unat_and_ffff: "unat ((x :: u32) AND 0xffff) = unat x mod 0x10000"
proof -
  have "x AND 0xffff = take_bit 16 x" by (simp add: take_bit_eq_mask mask_eq_exp_minus_1)
  then show ?thesis by (simp add: take_bit_eq_mod unat_mod)
qed

lemma unat_next_index:
  "unat (x :: u32) < 0x10000 \<Longrightarrow> unat ((x + 1) AND 0xffff) = Suc (unat x) mod 0x10000"
  by (simp add: unat_and_ffff unat_word_ariths(1))

definition cyclic_dist :: "nat \<Rightarrow> nat \<Rightarrow> nat \<Rightarrow> nat" where
  "cyclic_dist n a b = (b + n - a) mod n"

lemma cyclic_dist_less: "0 < n \<Longrightarrow> cyclic_dist n a b < n"
  by (simp add: cyclic_dist_def)

lemma cyclic_dist_cases: "a < n \<Longrightarrow> b < n \<Longrightarrow> cyclic_dist n a b = (if a \<le> b then b - a else b + n - a)"
  by (simp add: cyclic_dist_def mod_if)

lemma cyclic_dist_0: "a < n \<Longrightarrow> b < n \<Longrightarrow> cyclic_dist n a b = 0 \<longleftrightarrow> a = b"
  by (auto simp: cyclic_dist_cases)

lemma cyclic_dist_step: "a < n \<Longrightarrow> b < n \<Longrightarrow> a \<noteq> b \<Longrightarrow> cyclic_dist n a b = Suc (cyclic_dist n (Suc a mod n) b)"
  by (cases "Suc a = n") (auto simp: cyclic_dist_cases)

lemma cyclic_dist_add: "a < n \<Longrightarrow> k < n \<Longrightarrow> cyclic_dist n a ((a + k) mod n) = k"
  by (auto simp: cyclic_dist_cases mod_if)

lemma cyclic_add_dist: "a < n \<Longrightarrow> b < n \<Longrightarrow> (a + cyclic_dist n a b) mod n = b"
  by (auto simp: cyclic_dist_cases mod_if)

section \<open>Rings\<close>

definition ring_at :: "NET_RING \<Rightarrow> u32 \<Rightarrow> nat \<Rightarrow> u32" where
  "ring_at r i k = of_nat ((unat i + k) mod unat (NumberOfElements r))"

definition ring_dist :: "NET_RING \<Rightarrow> u32 \<Rightarrow> u32 \<Rightarrow> nat" where
  "ring_dist r i j = cyclic_dist (unat (NumberOfElements r)) (unat i) (unat j)"

text \<open>The indices from \<open>i\<close> to \<open>j\<close>, without \<open>j\<close>.\<close>

definition ring_walk :: "NET_RING \<Rightarrow> u32 \<Rightarrow> u32 \<Rightarrow> u32 list" where
  "ring_walk r i j = map (ring_at r i) [0 ..< ring_dist r i j]"

lemma unat_ring_at: "NumberOfElements r \<noteq> 0 \<Longrightarrow> unat (ring_at r i k) = (unat i + k) mod unat (NumberOfElements r)"
  unfolding ring_at_def by (rule unat_of_nat_mod)

lemma ring_at_0 [simp]: "i < NumberOfElements r \<Longrightarrow> ring_at r i 0 = i"
  by (simp add: ring_at_def word_less_nat_alt)

lemma ring_at_less: "NumberOfElements r \<noteq> 0 \<Longrightarrow> ring_at r i k < NumberOfElements r"
  by (simp add: word_less_nat_alt unat_ring_at unat_gt_0)

lemma ring_at_step:
  "ring_steps inc \<Longrightarrow> NumberOfElements r \<noteq> 0 \<Longrightarrow> inc r (ring_at r i k) = ring_at r i (Suc k)"
  by (rule word_unat_eq_iff [THEN iffD2]) (simp add: ring_steps_def unat_ring_at mod_Suc_eq)

lemma ring_dist_less: "NumberOfElements r \<noteq> 0 \<Longrightarrow> ring_dist r i j < unat (NumberOfElements r)"
  by (simp add: ring_dist_def cyclic_dist_less unat_gt_0)

lemma ring_dist_at:
  "i < NumberOfElements r \<Longrightarrow> k < unat (NumberOfElements r) \<Longrightarrow> ring_dist r i (ring_at r i k) = k"
  by (subgoal_tac "NumberOfElements r \<noteq> 0") (auto simp: ring_dist_def unat_ring_at cyclic_dist_add word_less_nat_alt)

lemma ring_at_dist:
  "i < NumberOfElements r \<Longrightarrow> j < NumberOfElements r \<Longrightarrow> ring_at r i (ring_dist r i j) = j"
  by (subgoal_tac "NumberOfElements r \<noteq> 0")
    (auto simp: word_unat_eq_iff unat_ring_at ring_dist_def cyclic_add_dist word_less_nat_alt)

lemma ring_at_inj:
  "i < NumberOfElements r \<Longrightarrow> k < unat (NumberOfElements r) \<Longrightarrow> l < unat (NumberOfElements r) \<Longrightarrow>
   ring_at r i k = ring_at r i l \<Longrightarrow> k = l"
  by (metis ring_dist_at)

lemma ring_walk_at:
  "i < NumberOfElements r \<Longrightarrow> k < unat (NumberOfElements r) \<Longrightarrow> ring_walk r i (ring_at r i k) = map (ring_at r i) [0 ..< k]"
  by (simp add: ring_walk_def ring_dist_at)

end
