(* ===== verification/Genet_Rx.thy ===== *)
theory Genet_Rx
  imports Genet_Rings "HOL-Library.Multiset"
begin

text \<open>
  The receive buffers of the Ethernet driver. Each buffer is on the free list, in a descriptor, or
  with the network stack; the operations of the queue, in the order in which the stack may call
  them, keep this, and never run into an assertion.
\<close>

section \<open>Where the buffers are\<close>

definition free_list :: "GenetRxQueue \<Rightarrow> nat list" where
  "free_list q = map (\<lambda>i. freeBuffers q (of_nat i)) [0 ..< unat (curFreeBuffer q)]"

definition desc_buffer :: "GenetRxQueue \<Rightarrow> nat \<Rightarrow> nat multiset" where
  "desc_buffer q d = (case descBuffers q (of_nat d) of None \<Rightarrow> {#} | Some b \<Rightarrow> {#b#})"

text \<open>The buffers in the descriptors \<open>i\<close> to \<open>n - 1\<close>.\<close>

definition in_descs :: "GenetRxQueue \<Rightarrow> nat \<Rightarrow> nat \<Rightarrow> nat multiset" where
  "in_descs q i n = (\<Sum>d = i ..< n. desc_buffer q d)"

definition all_buffers :: "GenetRxQueue \<Rightarrow> nat multiset" where
  "all_buffers q = mset_set {..< unat (numBuffers q)}"

lemma free_take:
  assumes "curFreeBuffer q \<noteq> 0"
  shows "free_list q = free_list (q\<lparr>curFreeBuffer := curFreeBuffer q - 1\<rparr>) @ [freeBuffers q (curFreeBuffer q - 1)]"
proof -
  have "unat (curFreeBuffer q) = Suc (unat (curFreeBuffer q - 1))"
    using assms by (metis Suc_pred' unat_gt_0 unat_minus_one)
  then show ?thesis by (simp add: free_list_def)
qed

lemma free_put:
  assumes "curFreeBuffer q < n"
  shows "free_list (q\<lparr>freeBuffers := (freeBuffers q)(curFreeBuffer q := b), curFreeBuffer := curFreeBuffer q + 1\<rparr>) = free_list q @ [b]"
proof -
  have u: "unat (curFreeBuffer q + 1) = Suc (unat (curFreeBuffer q))"
    using assms unat_u32_less [of n] by (simp add: unat_word_ariths(1) word_less_nat_alt)
  have "of_nat i \<noteq> curFreeBuffer q" if "i < unat (curFreeBuffer q)" for i
    using that unat_of_nat_small [of i] unat_u32_less [of "curFreeBuffer q"] by auto
  then show ?thesis by (simp add: free_list_def u)
qed

text \<open>The state of a queue that is running: every descriptor has a buffer, and none is lost.\<close>

definition rx_ok :: "nat multiset \<Rightarrow> GenetRxQueue \<Rightarrow> bool" where
  "rx_ok out q \<longleftrightarrow> rx_numDescs q = BG_NUM_BDS \<and> unat (rx_consIndex q) < 0x10000 \<and> curFreeBuffer q \<le> numBuffers q \<and>
     mset (free_list q) + in_descs q 0 256 + out = all_buffers q \<and> (\<forall>d < 256. descBuffers q (of_nat d) \<noteq> None)"

lemma rx_ok_cong:
  "rx_ok out q \<Longrightarrow> rx_numDescs q' = rx_numDescs q \<Longrightarrow> unat (rx_consIndex q') < 0x10000 \<Longrightarrow>
   curFreeBuffer q' = curFreeBuffer q \<Longrightarrow> numBuffers q' = numBuffers q \<Longrightarrow>
   freeBuffers q' = freeBuffers q \<Longrightarrow> descBuffers q' = descBuffers q \<Longrightarrow> rx_ok out q'"
  by (simp add: rx_ok_def free_list_def in_descs_def desc_buffer_def all_buffers_def)

lemma in_descs_cong:
  "(\<And>d. i \<le> d \<Longrightarrow> d < n \<Longrightarrow> descBuffers q' (of_nat d) = descBuffers q (of_nat d)) \<Longrightarrow> in_descs q' i n = in_descs q i n"
  by (simp add: in_descs_def desc_buffer_def)

lemma small_256: "(256 :: nat) < 4294967296"
  by simp

lemma of_nat_inj_256: "d < 256 \<Longrightarrow> e < 256 \<Longrightarrow> (of_nat d :: u32) = of_nat e \<longleftrightarrow> d = e"
  by (metis less_trans unat_of_nat_small [of d] unat_of_nat_small [of e] small_256)

text \<open>A buffer replaces the one in its descriptor.\<close>

lemma in_descs_replace:
  assumes "d < 256" "descBuffers q (of_nat d) = Some c"
  shows "add_mset c (in_descs (q\<lparr>descBuffers := (descBuffers q)(of_nat d := Some b)\<rparr>) 0 256) = add_mset b (in_descs q 0 256)"
proof -
  let ?q = "q\<lparr>descBuffers := (descBuffers q)(of_nat d := Some b)\<rparr>"
  have rest: "(\<Sum>e \<in> {0 ..< 256} - {d}. desc_buffer ?q e) = (\<Sum>e \<in> {0 ..< 256} - {d}. desc_buffer q e)"
    by (rule sum.cong) (auto simp: desc_buffer_def of_nat_inj_256 assms(1))
  have "in_descs q' 0 256 = desc_buffer q' d + (\<Sum>e \<in> {0 ..< 256} - {d}. desc_buffer q' e)" for q'
    using assms(1) by (simp add: in_descs_def sum.remove [of _ d])
  then show ?thesis using assms(2) by (simp add: rest) (simp add: desc_buffer_def)
qed

lemma unat_mod_256: "unat (x mod (256 :: u32)) = unat x mod 256"
  by (simp add: unat_mod)

lemma rx_ok_take:
  assumes "rx_ok out q" "curFreeBuffer q \<noteq> 0"
  shows "rx_ok (add_mset (freeBuffers q (curFreeBuffer q - 1)) out) (q\<lparr>curFreeBuffer := curFreeBuffer q - 1\<rparr>)"
proof -
  let ?q = "q\<lparr>curFreeBuffer := curFreeBuffer q - 1\<rparr>"
  have "curFreeBuffer q - 1 \<le> numBuffers q"
    using assms by (auto simp: rx_ok_def word_le_nat_alt unat_gt_0 unat_minus_one)
  moreover have "in_descs ?q 0 256 = in_descs q 0 256" by (rule in_descs_cong) simp
  ultimately show ?thesis
    using assms(1) free_take [OF assms(2)] by (simp add: rx_ok_def all_buffers_def)
qed

lemma exchange_mset: "add_mset c X = add_mset b Y \<Longrightarrow> F + X + add_mset c out = F + Y + add_mset b out"
proof -
  assume eq: "add_mset c X = add_mset b Y"
  have "F + X + add_mset c out = F + add_mset c X + out" by simp
  also have "\<dots> = F + Y + add_mset b out" by (simp only: eq) simp
  finally show ?thesis .
qed

text \<open>The buffer in a descriptor goes out, and one from the free list takes its place.\<close>

lemma rx_ok_exchange:
  assumes "rx_ok out q" "curFreeBuffer q \<noteq> 0" "d < 256" "descBuffers q (of_nat d) = Some c"
  shows "rx_ok (add_mset c out) (q\<lparr>curFreeBuffer := curFreeBuffer q - 1,
           descBuffers := (descBuffers q)(of_nat d := Some (freeBuffers q (curFreeBuffer q - 1)))\<rparr>)"
proof -
  let ?b = "freeBuffers q (curFreeBuffer q - 1)" and ?q = "q\<lparr>curFreeBuffer := curFreeBuffer q - 1\<rparr>"
  let ?r = "?q\<lparr>descBuffers := (descBuffers ?q)(of_nat d := Some ?b)\<rparr>"
  have q: "rx_ok (add_mset ?b out) ?q" by (rule rx_ok_take [OF assms(1,2)])
  have "add_mset c (in_descs ?r 0 256) = add_mset ?b (in_descs ?q 0 256)"
    by (rule in_descs_replace) (use assms in simp_all)
  then have "mset (free_list ?q) + in_descs ?r 0 256 + add_mset c out = mset (free_list ?q) + in_descs ?q 0 256 + add_mset ?b out"
    by (rule exchange_mset)
  also have "\<dots> = all_buffers ?q" using q by (simp only: rx_ok_def)
  also have "\<dots> = all_buffers ?r" by (simp add: all_buffers_def)
  also have "free_list ?q = free_list ?r" by (simp add: free_list_def)
  finally have "mset (free_list ?r) + in_descs ?r 0 256 + add_mset c out = all_buffers ?r" .
  then have "rx_ok (add_mset c out) ?r"
    using q unfolding rx_ok_def by (simp del: union_mset_add_mset_left union_mset_add_mset_right)
  then show ?thesis by simp
qed

section \<open>The loop\<close>

text \<open>How many turns are left at most.\<close>

definition rx_left :: "bool \<Rightarrow> GenetRxQueue \<Rightarrow> nat" where
  "rx_left descsRemaining q =
     (if canceled q then unat (curFreeBuffer q)
      else if descsRemaining then cyclic_dist 0x10000 (unat (rx_consIndex q)) (unat (rx_prodIndex q)) else 0)"

definition rx_indices :: "bool \<Rightarrow> GenetRxQueue \<Rightarrow> bool" where
  "rx_indices descsRemaining q \<longleftrightarrow> canceled q \<and> descsRemaining \<or>
     \<not> canceled q \<and> unat (rx_consIndex q) < 0x10000 \<and> unat (rx_prodIndex q) < 0x10000 \<and>
     descsRemaining = (rx_consIndex q \<noteq> rx_prodIndex q)"

definition rx_same :: "genet \<Rightarrow> genet \<Rightarrow> bool" where
  "rx_same w w' \<longleftrightarrow> bugcheck w' = bugcheck w \<and> genet_ub w' = genet_ub w \<and> canceled (rxQueue w') = canceled (rxQueue w) \<and>
     numBuffers (rxQueue w') = numBuffers (rxQueue w) \<and> rx_fragmentRing (rxQueue w') = rx_fragmentRing (rxQueue w) \<and>
     rx_packetRing (rxQueue w') = rx_packetRing (rxQueue w)"

lemma cons_step:
  assumes "rx_indices True q" "\<not> canceled q" and q': "rx_consIndex q' = (rx_consIndex q + 1) AND 0xffff"
    "rx_prodIndex q' = rx_prodIndex q" "canceled q' = canceled q"
  shows "rx_indices (rx_consIndex q' \<noteq> rx_prodIndex q') q'" "rx_left (rx_consIndex q' \<noteq> rx_prodIndex q') q' < rx_left True q"
proof -
  have u: "unat (rx_consIndex q) < 0x10000" "unat (rx_prodIndex q) < 0x10000" "unat (rx_consIndex q) \<noteq> unat (rx_prodIndex q)"
    using assms(1,2) by (auto simp: rx_indices_def word_unat_eq_iff)
  have c: "unat (rx_consIndex q') = Suc (unat (rx_consIndex q)) mod 0x10000"
    using u(1) by (simp add: q' unat_next_index)
  show "rx_indices (rx_consIndex q' \<noteq> rx_prodIndex q') q'"
    using assms(2) u(2) c by (simp add: rx_indices_def q')
  show "rx_left (rx_consIndex q' \<noteq> rx_prodIndex q') q' < rx_left True q"
    using assms(2) cyclic_dist_step [OF u] by (simp add: rx_left_def q'(2,3) c)
qed

lemma rx_projections [simp]:
  "rx_numDescs (rx_element f p q) = rx_numDescs q" "numBuffers (rx_element f p q) = numBuffers q"
  "curFreeBuffer (rx_element f p q) = curFreeBuffer q" "freeBuffers (rx_element f p q) = freeBuffers q"
  "descBuffers (rx_element f p q) = descBuffers q" "rx_consIndex (rx_element f p q) = rx_consIndex q"
  "rx_prodIndex (rx_element f p q) = rx_prodIndex q" "canceled (rx_element f p q) = canceled q"
  "rx_fragmentRing (rx_element f p q) = rx_fragmentRing q" "rx_packetRing (rx_element f p q) = rx_packetRing q"
  "returnContext (rx_element f p q) = returnContext q" "buffers (rx_element f p q) = buffers q"
  "rx_numDescs (rx_fragment g l o' q) = rx_numDescs q" "numBuffers (rx_fragment g l o' q) = numBuffers q"
  "curFreeBuffer (rx_fragment g l o' q) = curFreeBuffer q" "freeBuffers (rx_fragment g l o' q) = freeBuffers q"
  "descBuffers (rx_fragment g l o' q) = descBuffers q" "rx_consIndex (rx_fragment g l o' q) = rx_consIndex q"
  "rx_prodIndex (rx_fragment g l o' q) = rx_prodIndex q" "canceled (rx_fragment g l o' q) = canceled q"
  "rx_fragmentRing (rx_fragment g l o' q) = rx_fragmentRing q" "rx_packetRing (rx_fragment g l o' q) = rx_packetRing q"
  "returnContext (rx_fragment g l o' q) = returnContext q" "buffers (rx_fragment g l o' q) = buffers q"
  by (simp_all add: rx_element_def rx_fragment_def)

text \<open>The operations leave the flags and all of the queue that the bookkeeping does not name alone.\<close>

lemma rx_hand_over_run:
  assumes "\<not> canceled (rxQueue w)" "curFreeBuffer (rxQueue w) \<noteq> 0" "d < rx_numDescs (rxQueue w)"
    and run: "run_state (rx_hand_over os f d b) w = (u, w')"
  shows "\<exists>tr a. w' = w\<lparr>trace := tr, rxQueue := (rxQueue w)\<lparr>rx_virtualAddress := a, returnContext := (returnContext (rxQueue w))(f := b),
    curFreeBuffer := curFreeBuffer (rxQueue w) - 1,
    descBuffers := (descBuffers (rxQueue w))(d := Some (freeBuffers (rxQueue w) (curFreeBuffer (rxQueue w) - 1)))\<rparr>\<rparr>"
  using assms by (simp add: rx_hand_over_def GenetGetRxBuffer_def GenetFillRxDesc_def word_neq_0_conv)
    (drule sym, erule ssubst, rule exI, rule exI, rule refl)

lemma rx_take_run:
  assumes "\<not> canceled (rxQueue w)" "rx_numDescs (rxQueue w) = 256" "rx_frame_ok (r_val (os (trace w)
      (Mm (ReadRegister (BDs RDMA (rx_consIndex (rxQueue w) mod 256) Length_Status)))))"
    "descBuffers (rxQueue w) (rx_consIndex (rxQueue w) mod 256) = Some c"
    and run: "run_state (rx_take os f) w = (res, w')"
  defines "cons \<equiv> (rx_consIndex (rxQueue w) + 1) AND 0xffff"
  shows "res = (Some c, cons \<noteq> rx_prodIndex (rxQueue w), rx_consIndex (rxQueue w) mod 256) \<and>
    (\<exists>tr l. w' = w\<lparr>trace := tr, rxQueue := rx_fragment f l 2 ((rxQueue w)\<lparr>rx_consIndex := cons\<rparr>)\<rparr>)"
  using assms by (auto simp: rx_take_def Let_def)

lemma rx_turn_keeps:
  assumes ok: "rx_ok out (rxQueue w)" and ix: "rx_indices True (rxQueue w)" and free: "curFreeBuffer (rxQueue w) \<noteq> 0"
    and run: "run_state (rx_turn os f p) w = ((taken, rem), w')"
  defines "b \<equiv> returnContext (rxQueue w') f"
  shows "rx_ok (if taken then add_mset b out else out) (rxQueue w')" "rx_indices rem (rxQueue w')"
    "rx_left rem (rxQueue w') < rx_left True (rxQueue w)" "rx_same w w'"
    "\<And>g. g \<noteq> f \<Longrightarrow> returnContext (rxQueue w') g = returnContext (rxQueue w) g"
proof -
  let ?q = "rxQueue w" and ?q' = "rxQueue w'"
  let ?d = "rx_consIndex ?q mod 256"
  let ?ls = "r_val (os (trace w) (Mm (ReadRegister (BDs RDMA ?d Length_Status))))"
  note defs = rx_turn_def rx_take_def rx_hand_over_def GenetGetRxBuffer_def GenetFillRxDesc_def
    Let_def
  have num: "rx_numDescs ?q = 256" using ok by (simp add: rx_ok_def)
  consider (canceled) "canceled ?q" | (bad) "\<not> canceled ?q" "\<not> rx_frame_ok ?ls" | (good) "\<not> canceled ?q" "rx_frame_ok ?ls"
    by blast
  then have "rx_ok (if taken then add_mset b out else out) ?q' \<and> rx_indices rem ?q' \<and>
    rx_left rem ?q' < rx_left True ?q \<and> rx_same w w' \<and> (\<forall>g. g \<noteq> f \<longrightarrow> returnContext ?q' g = returnContext ?q g)"
  proof cases
    case canceled
    have w': "taken" "rem" "curFreeBuffer ?q' = curFreeBuffer ?q - 1" "b = freeBuffers ?q (curFreeBuffer ?q - 1)"
        "freeBuffers ?q' = freeBuffers ?q" "descBuffers ?q' = descBuffers ?q" "rx_numDescs ?q' = rx_numDescs ?q"
        "rx_same w w'" "canceled ?q'" "rx_consIndex ?q' = rx_consIndex ?q" "\<forall>g. g \<noteq> f \<longrightarrow> returnContext ?q' g = returnContext ?q g"
      using run canceled free by (auto simp: defs b_def rx_same_def word_neq_0_conv)
    have "rx_ok (add_mset b out) ?q'"
      by (rule rx_ok_cong [OF rx_ok_take [OF ok free, folded w'(4)]]) (use w' ok in \<open>simp_all add: rx_same_def rx_ok_def\<close>)
    moreover have "unat (curFreeBuffer ?q - 1) < unat (curFreeBuffer ?q)"
      using free by (simp add: unat_minus_one unat_gt_0)
    ultimately show ?thesis using w' canceled by (simp add: rx_indices_def rx_left_def)
  next
    case bad
    have w': "\<not> taken" "rem = (rx_consIndex ?q' \<noteq> rx_prodIndex ?q')" "rx_consIndex ?q' = (rx_consIndex ?q + 1) AND 0xffff"
        "curFreeBuffer ?q' = curFreeBuffer ?q" "freeBuffers ?q' = freeBuffers ?q" "descBuffers ?q' = descBuffers ?q"
        "rx_numDescs ?q' = rx_numDescs ?q" "rx_prodIndex ?q' = rx_prodIndex ?q" "rx_same w w'"
        "\<forall>g. g \<noteq> f \<longrightarrow> returnContext ?q' g = returnContext ?q g"
      using run bad num by (auto simp: defs rx_same_def)
    have "rx_ok out ?q'" by (rule rx_ok_cong [OF ok]) (use w' in \<open>simp_all add: rx_same_def unat_and_ffff\<close>)
    then show ?thesis using w' bad cons_step [OF ix bad(1), of ?q'] by (simp add: rx_same_def)
  next
    case good
    have undo: "of_nat (unat x) = x" for x :: u32 by simp
    have d1: "unat ?d < 256" by (simp add: unat_mod_256)
    have d2: "of_nat (unat ?d) = ?d" by (rule undo)
    note d = d1 d2
    then obtain c where c: "descBuffers ?q ?d = Some c" using ok by (metis not_None_eq rx_ok_def)
    let ?w0 = "w\<lparr>rxQueue := rx_element f p ?q\<rparr>"
    obtain t w1 where take: "run_state (rx_take os f) ?w0 = (t, w1)" by (metis prod.exhaust)
    have t: "t = (Some c, (rx_consIndex ?q + 1) AND 0xffff \<noteq> rx_prodIndex ?q, ?d)"
        "\<exists>tr l. w1 = ?w0\<lparr>trace := tr, rxQueue := rx_fragment f l 2 ((rx_element f p ?q)\<lparr>rx_consIndex := (rx_consIndex ?q + 1) AND 0xffff\<rparr>)\<rparr>"
      using rx_take_run [OF _ _ _ _ take, of c] good num c by simp_all
    obtain w2 where hand: "run_state (rx_hand_over os f ?d c) w1 = ((), w2)" by (cases "run_state (rx_hand_over os f ?d c) w1") simp
    have res: "taken" "rem = ((rx_consIndex ?q + 1) AND 0xffff \<noteq> rx_prodIndex ?q)" "w' = w2"
      using run take hand by (simp_all add: rx_turn_def t(1))
    have w1: "\<not> canceled (rxQueue w1)" "curFreeBuffer (rxQueue w1) = curFreeBuffer ?q" "rx_numDescs (rxQueue w1) = 256"
      using t(2) good(1) num by auto
    have "?d < rx_numDescs (rxQueue w1)" using d(1) by (simp add: w1(3) word_less_nat_alt)
    from rx_hand_over_run [OF w1(1) _ this hand] free w1(2) obtain tr a where w2: "w2 = w1\<lparr>trace := tr, rxQueue := (rxQueue w1)\<lparr>
        rx_virtualAddress := a, returnContext := (returnContext (rxQueue w1))(f := c), curFreeBuffer := curFreeBuffer (rxQueue w1) - 1,
        descBuffers := (descBuffers (rxQueue w1))(?d := Some (freeBuffers (rxQueue w1) (curFreeBuffer (rxQueue w1) - 1)))\<rparr>\<rparr>"
      by auto
    have w': "taken" "rem = (rx_consIndex ?q' \<noteq> rx_prodIndex ?q')" "rx_consIndex ?q' = (rx_consIndex ?q + 1) AND 0xffff"
        "curFreeBuffer ?q' = curFreeBuffer ?q - 1" "freeBuffers ?q' = freeBuffers ?q" "b = c"
        "descBuffers ?q' = (descBuffers ?q)(?d := Some (freeBuffers ?q (curFreeBuffer ?q - 1)))"
        "rx_numDescs ?q' = rx_numDescs ?q" "rx_prodIndex ?q' = rx_prodIndex ?q" "rx_same w w'"
        "\<forall>g. g \<noteq> f \<longrightarrow> returnContext ?q' g = returnContext ?q g"
      using t(2) by (auto simp: res w2 b_def rx_same_def)
    have "rx_ok (add_mset b out) ?q'"
      by (rule rx_ok_cong [OF rx_ok_exchange [OF ok free d(1)]]) (use c w' d(2) in \<open>simp_all add: rx_same_def unat_and_ffff\<close>)
    then show ?thesis using w' good cons_step [OF ix good(1), of ?q'] by (simp add: rx_same_def)
  qed
  then show "rx_ok (if taken then add_mset b out else out) ?q'" "rx_indices rem ?q'"
    "rx_left rem ?q' < rx_left True ?q" "rx_same w w'" "\<And>g. g \<noteq> f \<Longrightarrow> returnContext ?q' g = returnContext ?q g"
    by simp_all
qed

text \<open>The buffers in the first \<open>k\<close> elements of the ring of fragments after \<open>i\<close>.\<close>

definition handed :: "GenetRxQueue \<Rightarrow> NET_RING \<Rightarrow> u32 \<Rightarrow> nat \<Rightarrow> nat multiset" where
  "handed q r i k = mset (map (\<lambda>l. returnContext q (ring_at r i l)) [0 ..< k])"

lemma handed_same:
  assumes "i < NumberOfElements r" "k < unat (NumberOfElements r)"
    "\<And>g. g \<noteq> ring_at r i k \<Longrightarrow> returnContext q' g = returnContext q g"
  shows "handed q' r i k = handed q r i k"
proof -
  have "returnContext q' (ring_at r i l) = returnContext q (ring_at r i l)" if "l < k" for l
    using that assms ring_at_inj [OF assms(1), of l k] by (metis less_trans nat_neq_iff)
  then have "map (\<lambda>l. returnContext q' (ring_at r i l)) [0 ..< k] = map (\<lambda>l. returnContext q (ring_at r i l)) [0 ..< k]"
    by simp
  then show ?thesis by (simp only: handed_def)
qed

lemma handed_Suc:
  assumes "i < NumberOfElements r" "k < unat (NumberOfElements r)"
    "\<And>g. g \<noteq> ring_at r i k \<Longrightarrow> returnContext q' g = returnContext q g"
  shows "handed q' r i (Suc k) = add_mset (returnContext q' (ring_at r i k)) (handed q r i k)"
  by (subst handed_same [OF assms, symmetric]) (simp_all add: handed_def)

lemma rx_loop_keeps:
  assumes inc: "ring_steps inc" and i: "i < NumberOfElements r" "EndIndex r < NumberOfElements r"
    and k: "k \<le> ring_dist r i (EndIndex r)" and r: "rx_fragmentRing (rxQueue w) = r"
    and ok: "rx_ok (handed (rxQueue w) r i k + out) (rxQueue w)"
    and ix: "rx_indices rem (rxQueue w)" and fuel: "rx_left rem (rxQueue w) < fuel"
  shows "\<exists>k' p' posted' w'. run_state (rx_loop os inc fuel rem posted (ring_at r i k) p) w = (Some (ring_at r i k', p', posted'), w') \<and>
    k' \<le> ring_dist r i (EndIndex r) \<and> rx_ok (handed (rxQueue w') r i k' + out) (rxQueue w') \<and> rx_same w w'"
  using k r ok ix fuel
proof (induction fuel arbitrary: k w rem posted p)
  case 0
  then show ?case by simp
next
  case (Suc fuel)
  let ?f = "ring_at r i k"
  have n: "NumberOfElements r \<noteq> 0" using i(1) by auto
  note le = ring_dist_less [OF n, of i "EndIndex r"]
  show ?case
  proof (cases "rem \<and> ?f \<noteq> EndIndex r \<and> p \<noteq> EndIndex (rx_packetRing (rxQueue w)) \<and> curFreeBuffer (rxQueue w) \<noteq> 0")
    case False
    then show ?thesis using Suc.prems by (auto simp: rx_same_def)
  next
    case True
    obtain taken rem' w1 where turn: "run_state (rx_turn os ?f p) w = ((taken, rem'), w1)"
      by (metis prod.exhaust)
    have k: "k < ring_dist r i (EndIndex r)"
      using True Suc.prems(1) ring_at_dist [OF i] by (metis le_neq_implies_less)
    then have kn: "k < unat (NumberOfElements r)" using le by simp
    have ix: "rx_indices True (rxQueue w)" "curFreeBuffer (rxQueue w) \<noteq> 0" using True Suc.prems by simp_all
    note t = rx_turn_keeps [OF Suc.prems(3) ix turn]
    define k1 where "k1 = (if taken then Suc k else k)"
    have "rx_ok (handed (rxQueue w1) r i k1 + out) (rxQueue w1)"
      using t(1) handed_Suc [OF i(1) kn t(5)] handed_same [OF i(1) kn t(5)] by (simp add: k1_def split: if_splits)
    moreover have r1: "rx_fragmentRing (rxQueue w1) = r" using t(4) Suc.prems(2) by (simp add: rx_same_def)
    moreover have "k1 \<le> ring_dist r i (EndIndex r)" using k by (simp add: k1_def)
    moreover have "rx_left rem' (rxQueue w1) < fuel" using t(3) Suc.prems(5) True by simp
    ultimately obtain k' p' posted' w' where
      "run_state (rx_loop os inc fuel rem' (posted \<or> \<not> canceled (rxQueue w)) (ring_at r i k1)
        (if taken then inc (rx_packetRing (rxQueue w)) p else p)) w1 = (Some (ring_at r i k', p', posted'), w')"
      "k' \<le> ring_dist r i (EndIndex r)" "rx_ok (handed (rxQueue w') r i k' + out) (rxQueue w')" "rx_same w1 w'"
      using Suc.IH [of k1 w1 rem'] t(2) by blast
    moreover have "(if taken then inc (rx_fragmentRing (rxQueue w)) ?f else ?f) = ring_at r i k1"
      using Suc.prems(2) ring_at_step [OF inc n] by (simp add: k1_def)
    ultimately show ?thesis using True turn t(4) Suc.prems(2) by (auto simp: rx_same_def)
  qed
qed

end
