(* ===== verification/Genet_RxQueue.thy ===== *)
theory Genet_RxQueue
  imports Genet_Rx
begin

text \<open>
  The life of the receive queue: created, started, advanced while buffers come back from the stack,
  cancelled and stopped, and started again.
\<close>

section \<open>Advancing\<close>

definition rings_ok :: "GenetRxQueue \<Rightarrow> bool" where
  "rings_ok q \<longleftrightarrow> BeginIndex (rx_fragmentRing q) < NumberOfElements (rx_fragmentRing q) \<and>
     EndIndex (rx_fragmentRing q) < NumberOfElements (rx_fragmentRing q)"

text \<open>The buffers handed out between two states: those in the elements the queue has moved past.\<close>

definition handed_out :: "GenetRxQueue \<Rightarrow> GenetRxQueue \<Rightarrow> nat multiset" where
  "handed_out q q' = mset (map (returnContext q')
     (ring_walk (rx_fragmentRing q) (BeginIndex (rx_fragmentRing q)) (BeginIndex (rx_fragmentRing q'))))"

lemma rx_descs_run:
  assumes "run_state (rx_descs os) w = (rem, w')" "unat (rx_consIndex (rxQueue w)) < 0x10000"
  shows "rx_indices rem (rxQueue w')" "rx_left rem (rxQueue w') < rx_fuel (rxQueue w)" "rx_same w w'"
    "rx_ok out (rxQueue w) \<Longrightarrow> rx_ok out (rxQueue w')"
proof -
  let ?q = "rxQueue w" and ?q' = "rxQueue w'"
  have q': "canceled ?q' = canceled ?q" "curFreeBuffer ?q' = curFreeBuffer ?q" "rx_consIndex ?q' = rx_consIndex ?q"
      "freeBuffers ?q' = freeBuffers ?q" "descBuffers ?q' = descBuffers ?q" "numBuffers ?q' = numBuffers ?q"
      "rx_numDescs ?q' = rx_numDescs ?q" "if canceled ?q then rem else rem = (rx_consIndex ?q' \<noteq> rx_prodIndex ?q')"
      "\<not> canceled ?q \<Longrightarrow> unat (rx_prodIndex ?q') < 0x10000"
    using assms(1) by (auto simp: rx_descs_def unat_and_ffff split: if_splits)
  show "rx_indices rem ?q'" using q' assms(2) by (simp add: rx_indices_def split: if_splits)
  show "rx_left rem ?q' < rx_fuel ?q"
    using q' cyclic_dist_less [of 65536] by (simp add: rx_left_def rx_fuel_def)
  show "rx_same w w'" using assms(1) by (auto simp: rx_descs_def rx_same_def split: if_splits)
  show "rx_ok out ?q'" if "rx_ok out ?q" by (rule rx_ok_cong [OF that]) (use q' assms(2) in simp_all)
qed

lemma advance_keeps:
  assumes inc: "ring_steps inc" and ok: "rx_ok out (rxQueue w)" and rings: "rings_ok (rxQueue w)"
    and run: "run_state (GenetRxQueueAdvance os inc) w = (done, w')"
  shows "done" "rx_ok (handed_out (rxQueue w) (rxQueue w') + out) (rxQueue w')" "rings_ok (rxQueue w')"
    "bugcheck w' = bugcheck w" "genet_ub w' = genet_ub w"
proof -
  let ?q = "rxQueue w" let ?r = "rx_fragmentRing ?q" let ?i = "BeginIndex ?r"
  obtain rem w1 where d: "run_state (rx_descs os) w = (rem, w1)" by (metis prod.exhaust)
  note d' = rx_descs_run [OF d]
  have i: "?i < NumberOfElements ?r" "EndIndex ?r < NumberOfElements ?r" using rings by (simp_all add: rings_ok_def)
  then have n: "NumberOfElements ?r \<noteq> 0" by auto
  have c: "unat (rx_consIndex ?q) < 0x10000" using ok by (simp add: rx_ok_def)
  have r1: "rx_fragmentRing (rxQueue w1) = ?r" "rx_packetRing (rxQueue w1) = rx_packetRing ?q"
    using d'(3) c by (simp_all add: rx_same_def)
  obtain k p posted w2 where loop: "run_state (rx_loop os inc (rx_fuel ?q) rem False ?i (BeginIndex (rx_packetRing ?q))) w1 =
      (Some (ring_at ?r ?i k, p, posted), w2)" "k \<le> ring_dist ?r ?i (EndIndex ?r)"
    "rx_ok (handed (rxQueue w2) ?r ?i k + out) (rxQueue w2)" "rx_same w1 w2"
    using rx_loop_keeps [OF inc i, of 0 w1 out rem "rx_fuel ?q" os False "BeginIndex (rx_packetRing ?q)"] d' ok c r1 i
    by (auto simp: handed_def)
  have k: "k < unat (NumberOfElements ?r)" using loop(2) ring_dist_less [OF n] by (meson le_less_trans)
  have res: "done" "rxQueue w' = (rxQueue w2)\<lparr>rx_packetRing := (rx_packetRing (rxQueue w2))\<lparr>BeginIndex := p\<rparr>,
      rx_fragmentRing := (rx_fragmentRing (rxQueue w2))\<lparr>BeginIndex := ring_at ?r ?i k\<rparr>\<rparr>" "bugcheck w' = bugcheck w2"
      "genet_ub w' = genet_ub w2"
    using run d loop(1) r1 by (auto simp: GenetRxQueueAdvance_def split: if_splits)
  show "done" by (rule res(1))
  have "handed_out ?q (rxQueue w') = handed (rxQueue w2) ?r ?i k"
    using k i by (simp add: handed_out_def res(2) ring_walk_at handed_def comp_def)
  moreover have "rx_ok (handed (rxQueue w2) ?r ?i k + out) (rxQueue w')"
    by (rule rx_ok_cong [OF loop(3)]) (use loop(3) in \<open>simp_all add: res(2) rx_ok_def\<close>)
  ultimately show "rx_ok (handed_out ?q (rxQueue w') + out) (rxQueue w')" by simp
  have "rx_fragmentRing (rxQueue w2) = ?r" using loop(4) r1 by (simp add: rx_same_def)
  then show "rings_ok (rxQueue w')"
    using i ring_at_less [OF n] by (simp add: rings_ok_def res(2))
  show "bugcheck w' = bugcheck w" "genet_ub w' = genet_ub w"
    using res(3,4) loop(4) d'(3) c by (simp_all add: rx_same_def)
qed

section \<open>Starting, stopping and returning\<close>

text \<open>The buffers that are not in the descriptors \<open>i\<close> to \<open>n - 1\<close> are free or out.\<close>

definition rx_part :: "nat multiset \<Rightarrow> nat \<Rightarrow> nat \<Rightarrow> GenetRxQueue \<Rightarrow> bool" where
  "rx_part out i n q \<longleftrightarrow> curFreeBuffer q \<le> numBuffers q \<and> mset (free_list q) + in_descs q i n + out = all_buffers q"

lemma rx_part_size:
  "rx_part out i n q \<Longrightarrow> unat (curFreeBuffer q) + size (in_descs q i n) + size out = unat (numBuffers q)"
proof -
  assume "rx_part out i n q"
  then have "size (mset (free_list q) + in_descs q i n + out) = size (all_buffers q)" by (simp only: rx_part_def)
  then show ?thesis by (simp add: free_list_def all_buffers_def)
qed

lemma rx_part_ok:
  "rx_ok out q \<longleftrightarrow> rx_part out 0 256 q \<and> rx_numDescs q = BG_NUM_BDS \<and> unat (rx_consIndex q) < 0x10000 \<and>
     (\<forall>d < 256. descBuffers q (of_nat d) \<noteq> None)"
  by (auto simp: rx_part_def rx_ok_def)

lemma rx_part_cong:
  "rx_part out i n q \<Longrightarrow> curFreeBuffer q' = curFreeBuffer q \<Longrightarrow> numBuffers q' = numBuffers q \<Longrightarrow>
   freeBuffers q' = freeBuffers q \<Longrightarrow> (\<And>d. i \<le> d \<Longrightarrow> d < n \<Longrightarrow> descBuffers q' (of_nat d) = descBuffers q (of_nat d)) \<Longrightarrow>
   rx_part out i n q'"
  using in_descs_cong [of i n q' q] by (simp add: rx_part_def free_list_def all_buffers_def)

lemma return_run:
  assumes "rx_part out i n (rxQueue w)" "size (in_descs (rxQueue w) i n) + size out \<noteq> 0"
  shows "run_state (GenetReturnRxBuffer (Some b)) w = ((), w\<lparr>rxQueue := (rxQueue w)\<lparr>
    freeBuffers := (freeBuffers (rxQueue w))(curFreeBuffer (rxQueue w) := b), curFreeBuffer := curFreeBuffer (rxQueue w) + 1\<rparr>\<rparr>)"
    "curFreeBuffer (rxQueue w) < numBuffers (rxQueue w)"
proof -
  show less: "curFreeBuffer (rxQueue w) < numBuffers (rxQueue w)"
    using rx_part_size [OF assms(1)] assms(2) unfolding word_less_nat_alt by linarith
  then show "run_state (GenetReturnRxBuffer (Some b)) w = ((), w\<lparr>rxQueue := (rxQueue w)\<lparr>
    freeBuffers := (freeBuffers (rxQueue w))(curFreeBuffer (rxQueue w) := b), curFreeBuffer := curFreeBuffer (rxQueue w) + 1\<rparr>\<rparr>)"
    by (simp add: GenetReturnRxBuffer_def)
qed

text \<open>A buffer that was out, or in the first of the descriptors, is put on the free list.\<close>

lemma put_back:
  assumes "mset (free_list q) + X + add_mset b out = all_buffers q" "curFreeBuffer q < numBuffers q"
  defines "q' \<equiv> q\<lparr>freeBuffers := (freeBuffers q)(curFreeBuffer q := b), curFreeBuffer := curFreeBuffer q + 1\<rparr>"
  shows "mset (free_list q') + X + out = all_buffers q'" "curFreeBuffer q' \<le> numBuffers q'"
proof -
  show "mset (free_list q') + X + out = all_buffers q'"
    using assms(1) free_put [OF assms(2), of b] by (simp add: q'_def all_buffers_def)
  show "curFreeBuffer q' \<le> numBuffers q'" using assms(2) by (simp add: q'_def inc_le)
qed

text \<open>What register accesses and locks leave alone.\<close>

definition rx_view :: "(GenetRxQueue \<Rightarrow> bool \<Rightarrow> bool \<Rightarrow> bool) \<Rightarrow> genet \<Rightarrow> bool" where
  "rx_view Q w \<longleftrightarrow> Q (rxQueue w) (bugcheck w) (genet_ub w)"

lemma rx_view_registers [keep]:
  "keeps (rx_view Q) (GRD os reg)" "keeps (rx_view Q) (GWR os reg v)" "keeps (rx_view Q) (stall os n)" "keeps (rx_view Q) (ext os c)"
  by (simp_all add: keeps_def rx_view_def)

lemma rx_view_locked [keep]: "keeps (rx_view Q) m \<Longrightarrow> keeps (rx_view Q) (adapter_locked os m)"
  unfolding adapter_locked_def by (intro keep)

lemma rx_view_set [keep]:
  "keeps (rx_view Q) (set_register os reg v)" "keeps (rx_view Q) (clear_register os reg v)"
  unfolding set_register_def clear_register_def by (intro keep)+

lemma rx_view_interrupt [keep]: "keeps (rx_view Q) (GenetRxInterruptSet os b)"
  by (simp add: keeps_def rx_view_def GenetRxInterruptSet_def GenetInterruptSetCommon_def)

text \<open>The flags, the rings and the size of the queue stay, whatever the buffers do.\<close>

definition rx_frame :: "genet \<Rightarrow> genet \<Rightarrow> bool" where
  "rx_frame w w' \<longleftrightarrow> rx_same w w' \<and> rx_numDescs (rxQueue w') = rx_numDescs (rxQueue w) \<and> rx_consIndex (rxQueue w') = rx_consIndex (rxQueue w)"

lemma rx_frame_refl [simp]: "rx_frame w w" and rx_frame_trans: "rx_frame w w1 \<Longrightarrow> rx_frame w1 w2 \<Longrightarrow> rx_frame w w2"
  by (simp_all add: rx_frame_def rx_same_def)

lemma desc_buffer_upd:
  "d < 256 \<Longrightarrow> e < 256 \<Longrightarrow> descBuffers q' = (descBuffers q)(of_nat d := x) \<Longrightarrow> e \<noteq> d \<Longrightarrow> descBuffers q' (of_nat e) = descBuffers q (of_nat e)"
  by (simp add: of_nat_inj_256)

lemma fill_step:
  assumes part: "rx_part out 0 i (rxQueue w)" and i: "i < 256" and num: "rx_numDescs (rxQueue w) = 256"
    and cur: "curFreeBuffer (rxQueue w) \<noteq> 0" and run: "run_state (GenetGetRxBuffer \<bind> GenetFillRxDesc os (of_nat i)) w = (u, w')"
  shows "rx_part out 0 (Suc i) (rxQueue w')" "curFreeBuffer (rxQueue w') = curFreeBuffer (rxQueue w) - 1" "rx_frame w w'"
    "descBuffers (rxQueue w') = (descBuffers (rxQueue w))(of_nat i := Some (freeBuffers (rxQueue w) (curFreeBuffer (rxQueue w) - 1)))"
proof -
  let ?q = "rxQueue w" let ?q' = "rxQueue w'" let ?b = "freeBuffers ?q (curFreeBuffer ?q - 1)"
  have u: "unat (of_nat i :: u32) < 256" using i by (simp add: unat_of_nat_small)
  have q': "?q' = ?q\<lparr>curFreeBuffer := curFreeBuffer ?q - 1, descBuffers := (descBuffers ?q)(of_nat i := Some ?b)\<rparr>"
      "bugcheck w' = bugcheck w" "genet_ub w' = genet_ub w"
    using run cur num u by (auto simp: GenetGetRxBuffer_def GenetFillRxDesc_def word_neq_0_conv word_less_nat_alt)
  show "curFreeBuffer ?q' = curFreeBuffer ?q - 1" "rx_frame w w'" "descBuffers ?q' = (descBuffers ?q)(of_nat i := Some ?b)"
    by (simp_all add: q' rx_frame_def rx_same_def)
  have "in_descs ?q' 0 i = in_descs ?q 0 i"
    by (rule in_descs_cong) (use i in \<open>simp add: q' of_nat_inj_256\<close>)
  then have "in_descs ?q' 0 (Suc i) = add_mset ?b (in_descs ?q 0 i)"
    by (simp add: in_descs_def) (simp add: desc_buffer_def q')
  moreover have "mset (free_list ?q) = add_mset ?b (mset (free_list ?q'))"
    using free_take [OF cur] by (simp add: q' free_list_def)
  moreover have "curFreeBuffer ?q - 1 \<le> numBuffers ?q"
    using cur part by (auto simp: rx_part_def word_le_nat_alt unat_minus_one)
  ultimately show "rx_part out 0 (Suc i) ?q'"
    using part by (simp add: rx_part_def q'(1) all_buffers_def)
qed

lemma fill_descs_run:
  "rx_part out 0 i (rxQueue w) \<Longrightarrow> i + n = 256 \<Longrightarrow> rx_numDescs (rxQueue w) = 256 \<Longrightarrow> n \<le> unat (curFreeBuffer (rxQueue w)) \<Longrightarrow>
   \<forall>d < i. descBuffers (rxQueue w) (of_nat d) \<noteq> None \<Longrightarrow> run_state (fill_descs os n (of_nat i)) w = (u, w') \<Longrightarrow>
   rx_part out 0 256 (rxQueue w') \<and> rx_frame w w' \<and> (\<forall>d < 256. descBuffers (rxQueue w') (of_nat d) \<noteq> None)"
proof (induction n arbitrary: i w)
  case 0
  then show ?case by simp
next
  case (Suc n)
  obtain w1 where s: "run_state (GenetGetRxBuffer \<bind> GenetFillRxDesc os (of_nat i)) w = ((), w1)"
    by (metis old.unit.exhaust prod.exhaust)
  have i: "i < 256" and cur: "curFreeBuffer (rxQueue w) \<noteq> 0" using Suc.prems(2,4) by auto
  note f = fill_step [OF Suc.prems(1) i Suc.prems(3) cur s]
  have rest: "run_state (fill_descs os n (of_nat (Suc i))) w1 = (u, w')"
    using Suc.prems(6) s by (simp add: case_prod_unfold add.commute)
  have "\<forall>d < Suc i. descBuffers (rxQueue w1) (of_nat d) \<noteq> None"
    using Suc.prems(5) i by (auto simp: f(4) of_nat_inj_256 less_Suc_eq)
  moreover have "n \<le> unat (curFreeBuffer (rxQueue w1))"
    using Suc.prems(4) cur by (simp add: f(2) unat_minus_one)
  ultimately have "rx_part out 0 256 (rxQueue w') \<and> rx_frame w1 w' \<and> (\<forall>d < 256. descBuffers (rxQueue w') (of_nat d) \<noteq> None)"
    using Suc.IH [OF f(1) _ _ _ _ rest] Suc.prems(2,3) f(3) by (simp add: rx_frame_def)
  then show ?case using f(3) rx_frame_trans by blast
qed

text \<open>A stopped queue: every buffer is free or out.\<close>

definition rx_idle :: "nat multiset \<Rightarrow> GenetRxQueue \<Rightarrow> bool" where
  "rx_idle out q \<longleftrightarrow> rx_part out 0 0 q \<and> rx_numDescs q = BG_NUM_BDS"

definition rx_started :: "genet \<Rightarrow> nat multiset \<Rightarrow> genet \<Rightarrow> bool" where
  "rx_started w out = rx_view (\<lambda>q b u. rx_ok out q \<and> b = bugcheck w \<and> u = genet_ub w \<and>
     numBuffers q = numBuffers (rxQueue w) \<and> rx_fragmentRing q = rx_fragmentRing (rxQueue w))"

lemma fill_ring_run:
  assumes idle: "rx_idle out (rxQueue w)" and enough: "size out + 256 \<le> unat (numBuffers (rxQueue w))"
    and c: "rx_consIndex (rxQueue w) = 0" and run: "run_state (rx_fill_ring os) w = (u, w')"
  shows "rx_started w out w'"
proof -
  have part: "rx_part out 0 0 (rxQueue w)" "rx_numDescs (rxQueue w) = 256" using idle by (simp_all add: rx_idle_def)
  have n: "256 \<le> unat (curFreeBuffer (rxQueue w))"
    using rx_part_size [OF part(1)] enough by (simp add: in_descs_def)
  then have r: "run_state (fill_descs os 256 (of_nat 0)) w = (u, w')"
    using run part(2) by (simp add: rx_fill_ring_def word_le_nat_alt)
  have "rx_part out 0 256 (rxQueue w') \<and> rx_frame w w' \<and> (\<forall>d < 256. descBuffers (rxQueue w') (of_nat d) \<noteq> None)"
    by (rule fill_descs_run [OF part(1) _ part(2) n _ r]) simp_all
  then show ?thesis using part(2) c by (simp add: rx_started_def rx_view_def rx_part_ok rx_frame_def rx_same_def)
qed

lemma start_keeps:
  assumes idle: "rx_idle out (rxQueue w)" and enough: "size out + 256 \<le> unat (numBuffers (rxQueue w))"
    and run: "run_state (GenetRxQueueStart os) w = (u, w')"
  shows "rx_started w out w'"
proof -
  define w0 where "w0 = w\<lparr>rxQueue := (rxQueue w)\<lparr>rx_prodIndex := 0, rx_consIndex := 0, canceled := False\<rparr>\<rparr>"
  let ?I = "rx_view (\<lambda>q b v. q = rxQueue w0 \<and> b = bugcheck w0 \<and> v = genet_ub w0)"
  have reg: "keeps ?I (rx_start_registers os)" unfolding rx_start_registers_def by (intro keep)
  have fill: "triple ?I (rx_fill_ring os) (\<lambda>_. rx_started w out)"
  proof (rule tripleI)
    fix v u v' assume v: "?I v" and r: "run_state (rx_fill_ring os) v = (u, v')"
    have q: "rxQueue v = rxQueue w0" "bugcheck v = bugcheck w0" "genet_ub v = genet_ub w0" using v by (simp_all add: rx_view_def)
    have "rx_part out 0 0 (rxQueue v)"
      by (rule rx_part_cong [of out 0 0 "rxQueue w"]) (use idle in \<open>simp_all add: q w0_def rx_idle_def\<close>)
    then have "rx_started v out v'"
      using fill_ring_run [OF _ _ _ r, of out] idle enough by (simp add: q w0_def rx_idle_def)
    then show "rx_started w out v'" by (simp add: rx_started_def q w0_def)
  qed
  have rest: "keeps (rx_started w out) (do { set_register os (Regs RDMA DMA_Ctrl) GENET_RING_DMA_EN;
      adapter_locked os (set_register os UMAC_Cmd BG_UMAC_CMD_RX_EN) })"
    unfolding rx_started_def by (intro keep)
  have tr: "triple ?I (do { rx_start_registers os; rx_fill_ring os; set_register os (Regs RDMA DMA_Ctrl) GENET_RING_DMA_EN;
      adapter_locked os (set_register os UMAC_Cmd BG_UMAC_CMD_RX_EN) }) (\<lambda>_. rx_started w out)"
    by (rule keeps_then [OF reg], rule step_then [OF fill], rule triple_keeps [OF rest])
  have "run_state (do { rx_start_registers os; rx_fill_ring os; set_register os (Regs RDMA DMA_Ctrl) GENET_RING_DMA_EN;
      adapter_locked os (set_register os UMAC_Cmd BG_UMAC_CMD_RX_EN) }) w0 = (u, w')"
    using run by (simp add: GenetRxQueueStart_def w0_def)
  then show ?thesis by (rule tripleD [OF tr, rotated]) (simp add: rx_view_def)
qed

section \<open>Stopping\<close>

lemma return_desc_step:
  assumes part: "rx_part out i 256 (rxQueue w)" and i: "i < 256" and b: "descBuffers (rxQueue w) (of_nat i) = Some b"
    and run: "run_state (do { GenetReturnRxBuffer (Some b); update_rx (\<lambda>q. q\<lparr>descBuffers := (descBuffers q)(of_nat i := None)\<rparr>) }) w = (u, w')"
  shows "rx_part out (Suc i) 256 (rxQueue w')" "rx_frame w w'"
    "descBuffers (rxQueue w') = (descBuffers (rxQueue w))(of_nat i := None)"
proof -
  let ?q = "rxQueue w" let ?q' = "rxQueue w'" let ?X = "in_descs ?q (Suc i) 256"
  have d: "in_descs ?q i 256 = add_mset b ?X"
    using i by (simp add: in_descs_def sum.atLeast_Suc_lessThan) (simp add: desc_buffer_def b)
  note r = return_run [OF part]
  have less: "curFreeBuffer ?q < numBuffers ?q" using r(2) by (simp add: d)
  have w': "w' = w\<lparr>rxQueue := ?q\<lparr>freeBuffers := (freeBuffers ?q)(curFreeBuffer ?q := b), curFreeBuffer := curFreeBuffer ?q + 1,
      descBuffers := (descBuffers ?q)(of_nat i := None)\<rparr>\<rparr>"
    using run r(1) by (simp add: d)
  show "rx_frame w w'" "descBuffers ?q' = (descBuffers ?q)(of_nat i := None)"
    by (simp_all add: w' rx_frame_def rx_same_def)
  define q1 where "q1 = ?q\<lparr>freeBuffers := (freeBuffers ?q)(curFreeBuffer ?q := b), curFreeBuffer := curFreeBuffer ?q + 1\<rparr>"
  have q1: "mset (free_list q1) + ?X + out = all_buffers q1" "curFreeBuffer q1 \<le> numBuffers q1"
    using put_back [OF _ less, of ?X b out] part by (simp_all add: rx_part_def d q1_def)
  have "in_descs ?q' (Suc i) 256 = ?X"
    by (rule in_descs_cong) (use i in \<open>simp add: w' of_nat_inj_256\<close>)
  moreover have "free_list ?q' = free_list q1" "all_buffers ?q' = all_buffers q1" "curFreeBuffer ?q' = curFreeBuffer q1"
      "numBuffers ?q' = numBuffers q1"
    by (simp_all add: w' q1_def free_list_def all_buffers_def)
  ultimately show "rx_part out (Suc i) 256 ?q'" using q1 by (simp add: rx_part_def)
qed

lemma return_descs_Suc:
  assumes "descBuffers (rxQueue w) c = Some b"
    "run_state (do { GenetReturnRxBuffer (Some b); update_rx (\<lambda>q. q\<lparr>descBuffers := (descBuffers q)(c := None)\<rparr>) }) w = ((), w1)"
  shows "run_state (return_descs (Suc n) c) w = run_state (return_descs n (c + 1)) w1"
  using assms by (cases "run_state (GenetReturnRxBuffer (Some b)) w") auto

lemma return_descs_run:
  "rx_part out i 256 (rxQueue w) \<Longrightarrow> i + n = 256 \<Longrightarrow> \<forall>d. i \<le> d \<and> d < 256 \<longrightarrow> descBuffers (rxQueue w) (of_nat d) \<noteq> None \<Longrightarrow>
   run_state (return_descs n (of_nat i)) w = (u, w') \<Longrightarrow> rx_part out 256 256 (rxQueue w') \<and> rx_frame w w'"
proof (induction n arbitrary: i w)
  case 0
  then show ?case by simp
next
  case (Suc n)
  have i: "i < 256" using Suc.prems(2) by simp
  then obtain b where b: "descBuffers (rxQueue w) (of_nat i) = Some b" using Suc.prems(3) by auto
  define m where "m = (do { GenetReturnRxBuffer (Some b);
      update_rx (\<lambda>q. q\<lparr>descBuffers := (descBuffers q)(of_nat i := None)\<rparr>) })"
  obtain w1 where "run_state m w = ((), w1)" by (cases "run_state m w") simp
  note s = this [unfolded m_def]
  note t = return_desc_step [OF Suc.prems(1) i b s]
  have rest: "run_state (return_descs n (of_nat (Suc i))) w1 = (u, w')"
    using Suc.prems(4) unfolding return_descs_Suc [OF b s] by (simp add: add.commute)
  have "\<forall>d. Suc i \<le> d \<and> d < 256 \<longrightarrow> descBuffers (rxQueue w1) (of_nat d) \<noteq> None"
    using Suc.prems(3) i by (simp add: t(3) of_nat_inj_256)
  then have "rx_part out 256 256 (rxQueue w') \<and> rx_frame w1 w'"
    using Suc.IH [OF t(1) _ _ rest] Suc.prems(2) by simp
  then show ?case using t(2) rx_frame_trans by blast
qed

lemma stop_keeps:
  assumes ok: "rx_ok out (rxQueue w)" and run: "run_state (GenetRxQueueStop os) w = (u, w')"
  shows "rx_idle out (rxQueue w')" "rx_same w w'"
proof -
  obtain w1 where l: "run_state (adapter_locked os (GenetRxInterruptSet os False)) w = ((), w1)"
    by (metis old.unit.exhaust prod.exhaust)
  have w1: "rxQueue w1 = rxQueue w" "bugcheck w1 = bugcheck w" "genet_ub w1 = genet_ub w"
    using keeps_run [OF rx_view_locked [OF rx_view_interrupt] l, of "\<lambda>q b v. q = rxQueue w \<and> b = bugcheck w \<and> v = genet_ub w"]
    by (simp_all add: rx_view_def)
  have r: "run_state (return_descs 256 (of_nat 0)) w1 = (u, w')"
    using run l ok by (simp add: GenetRxQueueStop_def w1 rx_ok_def)
  have "rx_part out 256 256 (rxQueue w') \<and> rx_frame w1 w'"
    by (rule return_descs_run [OF _ _ _ r]) (use ok in \<open>simp_all add: w1 rx_part_ok\<close>)
  then show "rx_idle out (rxQueue w')" "rx_same w w'"
    using ok w1 by (auto simp: rx_idle_def rx_part_def in_descs_def rx_frame_def rx_same_def rx_ok_def)
qed

section \<open>Creation\<close>

lemma of_nat_u32_inj: "i < 4294967296 \<Longrightarrow> j < 4294967296 \<Longrightarrow> (of_nat i :: u32) = of_nat j \<longleftrightarrow> i = j"
  by (metis unat_of_nat_small)

lemma allocate_run:
  "run_state (allocate_buffers os n i) w = (st, w') \<Longrightarrow> i + n \<le> 4294967296 \<Longrightarrow> NT_SUCCESS st \<Longrightarrow>
   \<forall>j < i. freeBuffers (rxQueue w) (of_nat j) = j \<Longrightarrow>
   (\<forall>j < i + n. freeBuffers (rxQueue w') (of_nat j) = j) \<and> rx_frame w w'"
proof (induction n arbitrary: i w)
  case 0
  then show ?case by simp
next
  case (Suc n)
  let ?c = "Mm (MmAllocateContiguousMemorySpecifyCache GENET_RX_BUFFER_SIZE)"
  let ?p = "os (trace w) ?c"
  have p: "r_ptr ?p \<noteq> 0" using Suc.prems(1,3) by (auto split: if_splits)
  obtain w1 where w1: "run_state (allocate_buffers os n (Suc i)) w1 = (st, w')"
      "freeBuffers (rxQueue w1) = (freeBuffers (rxQueue w))(of_nat i := i)" "rx_frame w w1"
    using Suc.prems(1) p by (simp add: rx_frame_def rx_same_def)
  have "\<forall>j < Suc i. freeBuffers (rxQueue w1) (of_nat j) = j"
    using Suc.prems(2,4) by (simp add: w1(2) of_nat_u32_inj less_Suc_eq)
  then show ?case using Suc.IH [OF w1(1)] Suc.prems(2,3) w1(3) rx_frame_trans by auto
qed

lemma create_establishes:
  assumes run: "run_state (GenetCreateRxQueue os rings) w = (st, w')" and st: "NT_SUCCESS st"
  shows "rx_idle {#} (rxQueue w')" "bugcheck w' = bugcheck w" "genet_ub w' = genet_ub w"
    "rx_fragmentRing (rxQueue w') = rx_fragmentRing rings"
    "numBuffers (rxQueue w') = 512 + NumberOfElements (rx_fragmentRing rings)"
proof -
  let ?n = "512 + NumberOfElements (rx_fragmentRing rings)"
  let ?P = "\<lambda>w1 w2 st1. run_state (allocate_buffers os (unat ?n) 0) w1 = (st1, w2) \<and> NT_SUCCESS st1 \<and>
    rx_numDescs (rxQueue w1) = 256 \<and> numBuffers (rxQueue w1) = ?n \<and> rx_fragmentRing (rxQueue w1) = rx_fragmentRing rings \<and>
    bugcheck w1 = bugcheck w \<and> genet_ub w1 = genet_ub w \<and>
    w' = w2\<lparr>rxQueue := (rxQueue w2)\<lparr>curFreeBuffer := numBuffers (rxQueue w2)\<rparr>\<rparr>"
  have "\<exists>w1 w2 st1. ?P w1 w2 st1"
    using run st by (auto simp: GenetCreateRxQueue_def Let_def split: if_splits prod.splits) (rule exI, rule exI, rule exI, auto)
  then obtain w1 w2 st1 where w1: "?P w1 w2 st1" by blast
  have w2: "\<forall>j < unat ?n. freeBuffers (rxQueue w2) (of_nat j) = j" "rx_frame w1 w2"
    using allocate_run [of os "unat ?n" 0 w1 st1 w2] w1 unat_u32_less [of ?n] by simp_all
  then have n: "numBuffers (rxQueue w2) = ?n" using w1 by (simp add: rx_frame_def rx_same_def)
  have "map (\<lambda>i. freeBuffers (rxQueue w2) (of_nat i)) [0 ..< unat ?n] = [0 ..< unat ?n]"
    by (rule map_idI) (use w2(1) in simp)
  then have "free_list (rxQueue w') = [0 ..< unat ?n]" using w1 n by (simp add: free_list_def)
  then show "rx_idle {#} (rxQueue w')"
    using w1 w2(2) n by (simp add: rx_frame_def rx_same_def rx_idle_def rx_part_def in_descs_def all_buffers_def atLeast0LessThan)
  show "bugcheck w' = bugcheck w" "genet_ub w' = genet_ub w"
    "rx_fragmentRing (rxQueue w') = rx_fragmentRing rings" "numBuffers (rxQueue w') = ?n"
    using w1 w2(2) n by (simp_all add: rx_frame_def rx_same_def)
qed

section \<open>The life of the queue\<close>

text \<open>
  A state is whether the queue is running, the buffers the network stack holds, and the state of
  the driver. The stack starts a stopped queue, of which it holds back few enough buffers; advances
  it, after adding elements to the rings; returns buffers it holds; and cancels and stops the queue.
\<close>

type_synonym rx_state = "bool \<times> nat multiset \<times> genet"

inductive rx_step :: "os \<Rightarrow> increment \<Rightarrow> rx_state \<Rightarrow> rx_state \<Rightarrow> bool" for os inc where
  start: "size out + 256 \<le> unat (numBuffers (rxQueue w)) \<Longrightarrow> run_state (GenetRxQueueStart os) w = (u, w') \<Longrightarrow>
    rx_step os inc (False, out, w) (True, out, w')"
| stack: "e < NumberOfElements (rx_fragmentRing (rxQueue w)) \<Longrightarrow>
    rx_step os inc (r, out, w) (r, out, w\<lparr>rxQueue := (rxQueue w)\<lparr>rx_packetRing := ring,
      rx_fragmentRing := (rx_fragmentRing (rxQueue w))\<lparr>EndIndex := e\<rparr>\<rparr>\<rparr>)"
| advance: "run_state (GenetRxQueueAdvance os inc) w = (done, w') \<Longrightarrow>
    rx_step os inc (True, out, w) (True, handed_out (rxQueue w) (rxQueue w') + out, w')"
| give_back: "b \<in># out \<Longrightarrow> run_state (GenetReturnRxBuffer (Some b)) w = (u, w') \<Longrightarrow>
    rx_step os inc (r, out, w) (r, out - {#b#}, w')"
| cancel: "run_state (GenetRxQueueCancel os) w = (u, w') \<Longrightarrow> rx_step os inc (True, out, w) (True, out, w')"
| stop: "run_state (GenetRxQueueStop os) w = (u, w') \<Longrightarrow> rx_step os inc (True, out, w) (False, out, w')"

text \<open>Where the buffers are: free, in descriptors while the queue runs, and with the stack; nothing has gone wrong.\<close>

definition rx_conserved :: "rx_state \<Rightarrow> bool" where
  "rx_conserved s = (case s of (running, out, w) \<Rightarrow>
     mset (free_list (rxQueue w)) + (if running then in_descs (rxQueue w) 0 256 else {#}) + out = all_buffers (rxQueue w) \<and>
     \<not> bugcheck w \<and> \<not> genet_ub w)"

definition rx_inv :: "rx_state \<Rightarrow> bool" where
  "rx_inv s = (case s of (running, out, w) \<Rightarrow> (if running then rx_ok out (rxQueue w) else rx_idle out (rxQueue w)) \<and>
     rings_ok (rxQueue w) \<and> \<not> bugcheck w \<and> \<not> genet_ub w)"

lemma give_back_keeps:
  assumes "rx_part out 0 n (rxQueue w)" "b \<in># out" "run_state (GenetReturnRxBuffer (Some b)) w = (u, w')"
  shows "rx_part (out - {#b#}) 0 n (rxQueue w')" "rx_frame w w'" "descBuffers (rxQueue w') = descBuffers (rxQueue w)"
proof -
  let ?q = "rxQueue w" and ?q' = "rxQueue w'"
  have out: "out = add_mset b (out - {#b#})" using assms(2) by simp
  then have "size out \<noteq> 0" by auto
  note r = return_run [OF assms(1)]
  have less: "curFreeBuffer ?q < numBuffers ?q" using r(2) \<open>size out \<noteq> 0\<close> by simp
  have w': "w' = w\<lparr>rxQueue := ?q\<lparr>freeBuffers := (freeBuffers ?q)(curFreeBuffer ?q := b), curFreeBuffer := curFreeBuffer ?q + 1\<rparr>\<rparr>"
    using assms(3) r(1) \<open>size out \<noteq> 0\<close> by simp
  show "rx_frame w w'" "descBuffers ?q' = descBuffers ?q" by (simp_all add: w' rx_frame_def rx_same_def)
  have "in_descs ?q' 0 n = in_descs ?q 0 n" by (rule in_descs_cong) (simp add: w')
  moreover have "mset (free_list ?q) + in_descs ?q 0 n + add_mset b (out - {#b#}) = all_buffers ?q"
    using assms(1) out by (simp add: rx_part_def)
  ultimately show "rx_part (out - {#b#}) 0 n ?q'"
    using put_back [OF _ less] by (simp add: rx_part_def w' del: union_mset_add_mset_left union_mset_add_mset_right)
qed

lemma cancel_keeps:
  assumes "run_state (GenetRxQueueCancel os) w = (u, w')"
  shows "rxQueue w' = (rxQueue w)\<lparr>canceled := True\<rparr>" "bugcheck w' = bugcheck w" "genet_ub w' = genet_ub w"
  using assms by (auto simp: GenetRxQueueCancel_def adapter_locked_def clear_register_def)

lemma rx_step_keeps:
  assumes inc: "ring_steps inc" and step: "rx_step os inc s s'" and inv: "rx_inv s"
  shows "rx_inv s'"
  using step
proof cases
  case (start out w u w')
  then have "rx_started w out w'" using start_keeps inv by (simp add: rx_inv_def)
  then show ?thesis using start inv by (simp add: rx_inv_def rx_started_def rx_view_def rings_ok_def)
next
  case (stack e w r out ring)
  let ?q = "(rxQueue w)\<lparr>rx_packetRing := ring, rx_fragmentRing := (rx_fragmentRing (rxQueue w))\<lparr>EndIndex := e\<rparr>\<rparr>"
  have "rx_ok out ?q" if "rx_ok out (rxQueue w)" by (rule rx_ok_cong [OF that]) (use that in \<open>simp_all add: rx_ok_def\<close>)
  moreover have "rx_idle out ?q" if "rx_idle out (rxQueue w)"
    using that rx_part_cong [of out 0 0 "rxQueue w" ?q] by (simp add: rx_idle_def)
  ultimately show ?thesis using stack inv by (simp add: rx_inv_def rings_ok_def)
next
  case (advance w d w' out)
  then have "rx_ok out (rxQueue w)" "rings_ok (rxQueue w)" using inv by (simp_all add: rx_inv_def)
  from advance_keeps [OF inc this advance(3)] show ?thesis using advance inv by (simp add: rx_inv_def)
next
  case (give_back b out w u w' r)
  show ?thesis
  proof (cases r)
    case True
    then show ?thesis
      using give_back_keeps [OF _ give_back(3,4), of 256] inv give_back
      by (simp add: rx_inv_def rx_part_ok rx_frame_def rx_same_def rings_ok_def)
  next
    case False
    then show ?thesis
      using give_back_keeps [OF _ give_back(3,4), of 0] inv give_back
      by (simp add: rx_inv_def rx_idle_def rx_frame_def rx_same_def rings_ok_def)
  qed
next
  case (cancel w u w' out)
  have "rx_ok out (rxQueue w')" if "rx_ok out (rxQueue w)"
    by (rule rx_ok_cong [OF that]) (use that in \<open>simp_all add: rx_ok_def cancel_keeps [OF cancel(3)]\<close>)
  then show ?thesis using cancel inv cancel_keeps [OF cancel(3)] by (simp add: rx_inv_def rings_ok_def)
next
  case (stop w u w' out)
  then have "rx_ok out (rxQueue w)" using inv by (simp add: rx_inv_def)
  from stop_keeps [OF this stop(3)] show ?thesis using stop inv by (simp add: rx_inv_def rx_same_def rings_ok_def)
qed

lemma rx_run_keeps:
  "ring_steps inc \<Longrightarrow> (rx_step os inc)\<^sup>*\<^sup>* s s' \<Longrightarrow> rx_inv s \<Longrightarrow> rx_inv s'"
  by (rotate_tac 1, induction rule: rtranclp_induct) (auto intro: rx_step_keeps)

lemma reached_inv:
  assumes "ring_steps inc" "run_state (GenetCreateRxQueue os rings) w = (st, w0)" "NT_SUCCESS st" "\<not> bugcheck w" "\<not> genet_ub w"
    "rings_ok rings" "(rx_step os inc)\<^sup>*\<^sup>* (False, {#}, w0) s"
  shows "rx_inv s"
proof -
  have "rx_inv (False, {#}, w0)"
    using create_establishes [OF assms(2,3)] assms(4-6) by (simp add: rx_inv_def rings_ok_def)
  then show ?thesis using rx_run_keeps assms(1,7) by blast
qed

text \<open>
  C7. From its creation on, through any sequence of starts, advances, returned buffers,
  cancellations and stops, every buffer of the receive queue is in exactly one place: on the
  free list, in a descriptor, or with the network stack. No assertion of the driver fails (a buffer is
  always there when one is taken, and room when one is returned), and no \<open>NULL\<close> buffer is used.
\<close>
theorem rx_buffers_conserved:
  assumes "ring_steps inc" "run_state (GenetCreateRxQueue os rings) w = (st, w0)" "NT_SUCCESS st" "\<not> bugcheck w" "\<not> genet_ub w"
    "rings_ok rings" "(rx_step os inc)\<^sup>*\<^sup>* (False, {#}, w0) s"
  shows "rx_conserved s"
proof -
  obtain r out w' where s: "s = (r, out, w')" by (cases s) auto
  have "rx_inv (r, out, w')" using reached_inv [OF assms] by (simp add: s)
  then show ?thesis
    by (auto simp: s rx_inv_def rx_conserved_def rx_ok_def rx_idle_def rx_part_def in_descs_def split: if_splits)
qed

text \<open>
  C18. Each advance of a running queue returns: outside of cancellation after at most \<open>0xffff\<close> turns,
  whatever index the controller reports, afterwards after as many turns as there are free buffers.
\<close>
theorem rx_advance_returns:
  assumes "ring_steps inc" "run_state (GenetCreateRxQueue os rings) w = (st, w0)" "NT_SUCCESS st" "\<not> bugcheck w" "\<not> genet_ub w"
    "rings_ok rings" "(rx_step os inc)\<^sup>*\<^sup>* (False, {#}, w0) (True, out, w')"
  shows "fst (run_state (GenetRxQueueAdvance os inc) w')"
proof -
  have "rx_ok out (rxQueue w')" "rings_ok (rxQueue w')" using reached_inv [OF assms] by (simp_all add: rx_inv_def)
  from advance_keeps(1) [OF assms(1) this] show ?thesis by (metis prod.collapse)
qed

section \<open>Witnesses\<close>

text \<open>A controller that has received one frame of 62 bytes.\<close>

definition frame_os :: os where
  "frame_os tr c = ok_reply\<lparr>r_val := (if c = Mm (ReadRegister (Rings RDMA TDMA_Cons_Index)) then 1
     else if c = Mm (ReadRegister (BDs RDMA 0 Length_Status)) then 0x406000 else 0)\<rparr>"

lemma frame_os_replies: "r_status (frame_os tr c) = 0" "r_ptr (frame_os tr c) = 1"
  by (simp_all add: frame_os_def ok_reply_def)

lemma frame_os_allocates: "run_state (allocate_buffers frame_os n i) w = (st, w') \<Longrightarrow> st = STATUS_SUCCESS"
  by (induction n arbitrary: i w) (auto simp: frame_os_replies)

text \<open>The queue is created, started, offered an element of its ring and advanced.\<close>

definition example_created :: genet where
  "example_created = snd (run_state (GenetCreateRxQueue frame_os empty_rx) idle_genet)"

definition example_started :: genet where
  "example_started = snd (run_state (GenetRxQueueStart frame_os) example_created)"

definition example_offered :: genet where
  "example_offered = example_started\<lparr>rxQueue := (rxQueue example_started)\<lparr>
     rx_packetRing := \<lparr>BeginIndex = 0, NextIndex = 0, EndIndex = 1, NumberOfElements = 2\<rparr>,
     rx_fragmentRing := (rx_fragmentRing (rxQueue example_started))\<lparr>EndIndex := 1\<rparr>\<rparr>\<rparr>"

definition example_advanced :: genet where
  "example_advanced = snd (run_state (GenetRxQueueAdvance frame_os ring_next) example_offered)"

lemma example_creation:
  obtains st where "run_state (GenetCreateRxQueue frame_os empty_rx) idle_genet = (st, example_created)" "NT_SUCCESS st"
proof -
  obtain st w where run: "run_state (GenetCreateRxQueue frame_os empty_rx) idle_genet = (st, w)" by (metis prod.exhaust)
  have "NT_SUCCESS st"
    using run by (auto simp: GenetCreateRxQueue_def Let_def frame_os_replies dest: frame_os_allocates split: prod.splits if_splits)
  then show thesis using run that by (simp add: example_created_def)
qed

lemma example_start: "rx_step frame_os ring_next (False, {#}, example_created) (True, {#}, example_started)"
proof -
  obtain st where "run_state (GenetCreateRxQueue frame_os empty_rx) idle_genet = (st, example_created)" "NT_SUCCESS st"
    by (rule example_creation)
  from create_establishes(5) [OF this] have "numBuffers (rxQueue example_created) = 514"
    by (simp add: empty_rx_def empty_ring_def)
  then show ?thesis by (intro rx_step.start [where u = "()"]) (simp_all add: example_started_def prod_eq_iff)
qed

lemma example_offer: "rx_step frame_os ring_next (True, {#}, example_started) (True, {#}, example_offered)"
proof -
  have "rx_fragmentRing (rxQueue example_started) = empty_ring"
    using example_start
  proof cases
    case start
    obtain st where c: "run_state (GenetCreateRxQueue frame_os empty_rx) idle_genet = (st, example_created)" "NT_SUCCESS st"
      by (rule example_creation)
    note e = create_establishes [OF c]
    show ?thesis
      using start_keeps [OF e(1) start] e(4) by (simp add: rx_started_def rx_view_def empty_rx_def)
  qed simp_all
  then show ?thesis unfolding example_offered_def by (intro rx_step.stack) (simp add: empty_ring_def)
qed

lemma example_advance:
  "rx_step frame_os ring_next (True, {#}, example_offered)
     (True, handed_out (rxQueue example_offered) (rxQueue example_advanced) + {#}, example_advanced)"
  by (rule rx_step.advance) (simp add: example_advanced_def prod_eq_iff)

theorem rx_buffers_conserved_witness:
  "rx_conserved (True, handed_out (rxQueue example_offered) (rxQueue example_advanced), example_advanced)"
proof -
  obtain st where c: "run_state (GenetCreateRxQueue frame_os empty_rx) idle_genet = (st, example_created)" "NT_SUCCESS st"
    by (rule example_creation)
  have "(rx_step frame_os ring_next)\<^sup>*\<^sup>* (False, {#}, example_created)
      (True, handed_out (rxQueue example_offered) (rxQueue example_advanced) + {#}, example_advanced)"
    using example_start example_offer example_advance by (meson converse_rtranclp_into_rtranclp rtranclp.rtrancl_refl)
  from rx_buffers_conserved [OF ring_next_steps c _ _ _ this] show ?thesis
    by (simp add: idle_genet_def rings_ok_def empty_rx_def empty_ring_def)
qed

theorem rx_advance_returns_witness: "fst (run_state (GenetRxQueueAdvance frame_os ring_next) example_offered)"
proof -
  obtain st where c: "run_state (GenetCreateRxQueue frame_os empty_rx) idle_genet = (st, example_created)" "NT_SUCCESS st"
    by (rule example_creation)
  have "(rx_step frame_os ring_next)\<^sup>*\<^sup>* (False, {#}, example_created) (True, {#}, example_offered)"
    using example_start example_offer by (meson converse_rtranclp_into_rtranclp rtranclp.rtrancl_refl)
  from rx_advance_returns [OF ring_next_steps c _ _ _ this] show ?thesis
    by (simp add: idle_genet_def rings_ok_def empty_rx_def empty_ring_def)
qed

end
