(* ===== verification/Genet_Tx.thy ===== *)
theory Genet_Tx
  imports Genet_Rings
begin

text \<open>
  The transmit queue of the Ethernet driver. An advance posts the packets that fit, one descriptor for
  each fragment, and gives back to the network stack exactly those packets whose descriptors the
  controller has all consumed.
\<close>

section \<open>What is to be posted\<close>

definition packet_count :: "GenetTxQueue \<Rightarrow> u32 \<Rightarrow> nat" where
  "packet_count q p = (if Ignore (tx_packets q p) then 0 else unat (FragmentCount (tx_packets q p)))"

definition fragment_at :: "GenetTxQueue \<Rightarrow> u32 \<Rightarrow> nat \<Rightarrow> u32" where
  "fragment_at q p k = ring_at (tx_fragmentRing q) (FragmentIndex (tx_packets q p)) k"

text \<open>The descriptors of a packet: length and flags, and the address, of each fragment.\<close>

definition packet_descs :: "GenetTxQueue \<Rightarrow> u32 \<Rightarrow> (u32 \<times> u64) list" where
  "packet_descs q p = map (\<lambda>k. (tx_length_status (of_nat k) (FragmentCount (tx_packets q p)) (tx_fragments q (fragment_at q p k)),
     tx_address q (fragment_at q p k))) [0 ..< packet_count q p]"

lemma packet_count_small: "packet_count q p < 4294967296"
  using unat_u16_less [of "FragmentCount (tx_packets q p)"] by (simp add: packet_count_def)

text \<open>The packets taken from the ring: up to the first one that does not fit.\<close>

fun accepted :: "GenetTxQueue \<Rightarrow> nat \<Rightarrow> u32 list \<Rightarrow> u32 list" where
  "accepted q free [] = []"
| "accepted q free (p # ps) = (if packet_count q p \<le> free then p # accepted q (free - packet_count q p) ps else [])"

text \<open>The writes that put descriptors into consecutive places from position \<open>n\<close>.\<close>

definition desc_calls :: "nat \<Rightarrow> u32 \<times> u64 \<Rightarrow> call list" where
  "desc_calls n d = [Mm (WriteRegister (BDs TDMA (of_nat (n mod 256)) Length_Status) (fst d)),
     Mm (WriteRegister (BDs TDMA (of_nat (n mod 256)) Address_Lo) (ucast (snd d))),
     Mm (WriteRegister (BDs TDMA (of_nat (n mod 256)) Address_Hi) (ucast (drop_bit 32 (snd d))))]"

fun ring_calls :: "nat \<Rightarrow> (u32 \<times> u64) list \<Rightarrow> call list" where
  "ring_calls n [] = []"
| "ring_calls n (d # ds) = desc_calls n d @ ring_calls (Suc n) ds"

lemma ring_calls_append: "ring_calls n (ds @ es) = ring_calls n ds @ ring_calls (n + length ds) es"
  by (induction ds arbitrary: n) simp_all

lemma ring_calls_mod: "n mod 256 = m mod 256 \<Longrightarrow> ring_calls n ds = ring_calls m ds"
proof (induction ds arbitrary: n m)
  case (Cons d ds)
  have "Suc n mod 256 = Suc m mod 256" using Cons.prems by (metis mod_Suc_eq)
  then have "ring_calls (Suc n) ds = ring_calls (Suc m) ds" by (rule Cons.IH)
  then show ?case by (simp only: ring_calls.simps desc_calls_def Cons.prems)
qed simp

lemma length_packet_descs [simp]: "length (packet_descs q p) = packet_count q p"
  by (simp add: packet_descs_def)

section \<open>Frames\<close>

text \<open>All of the queue but \<open>prodIndex\<close>, what is noted of the packets, and the rings' indices.\<close>

definition tx_static :: "GenetTxQueue \<Rightarrow> GenetTxQueue \<Rightarrow> bool" where
  "tx_static q q' \<longleftrightarrow> netTxQueue q' = netTxQueue q \<and> tx_numDescs q' = tx_numDescs q \<and> tx_consIndex q' = tx_consIndex q \<and> tx_packetRing q' = tx_packetRing q \<and>
     BeginIndex (tx_fragmentRing q') = BeginIndex (tx_fragmentRing q) \<and>
     EndIndex (tx_fragmentRing q') = EndIndex (tx_fragmentRing q) \<and>
     NumberOfElements (tx_fragmentRing q') = NumberOfElements (tx_fragmentRing q) \<and>
     tx_packets q' = tx_packets q \<and> tx_fragments q' = tx_fragments q \<and> tx_logicalAddress q' = tx_logicalAddress q"

lemma tx_static_refl [simp]: "tx_static q q" and tx_static_trans: "tx_static q q1 \<Longrightarrow> tx_static q1 q2 \<Longrightarrow> tx_static q q2"
  by (simp_all add: tx_static_def)

lemma ring_at_static: "NumberOfElements r' = NumberOfElements r \<Longrightarrow> ring_at r' i k = ring_at r i k"
  by (simp add: ring_at_def)

lemma tx_static_descs:
  assumes "tx_static q q'"
  shows "packet_count q' = packet_count q" "packet_descs q' = packet_descs q" "accepted q' = accepted q"
proof -
  show count: "packet_count q' = packet_count q" using assms by (simp add: fun_eq_iff packet_count_def tx_static_def)
  have "fragment_at q' = fragment_at q"
    using assms by (simp add: fun_eq_iff fragment_at_def tx_static_def ring_at_static [of "tx_fragmentRing q'" "tx_fragmentRing q"])
  then show "packet_descs q' = packet_descs q"
    using assms count by (simp add: fun_eq_iff packet_descs_def tx_address_def tx_static_def)
  have "accepted q' free ps = accepted q free ps" for free ps by (induction ps arbitrary: free) (simp_all add: count)
  then show "accepted q' = accepted q" by (simp add: fun_eq_iff)
qed

text \<open>A program that makes exactly the calls \<open>cs\<close> and touches only the transmit queue.\<close>

definition tx_calls :: "call list \<Rightarrow> genet \<Rightarrow> genet \<Rightarrow> bool" where
  "tx_calls cs w w' \<longleftrightarrow> (\<exists>es. trace w' = trace w @ es \<and> map fst es = cs) \<and> bugcheck w' = bugcheck w \<and> genet_ub w' = genet_ub w"

lemma tx_calls_Nil [simp]: "tx_calls [] w w"
  by (simp add: tx_calls_def)

lemma tx_calls_append: "tx_calls cs w w1 \<Longrightarrow> tx_calls ds w1 w2 \<Longrightarrow> tx_calls (cs @ ds) w w2"
  by (fastforce simp: tx_calls_def)

lemma tx_calls_intro:
  "trace w' = trace w @ es \<Longrightarrow> map fst es = cs \<Longrightarrow> bugcheck w' = bugcheck w \<Longrightarrow> genet_ub w' = genet_ub w \<Longrightarrow> tx_calls cs w w'"
  by (auto simp: tx_calls_def)

section \<open>Posting a packet\<close>

lemma tx_desc_position:
  assumes "tx_numDescs q = BG_NUM_BDS"
  shows "tx_prodDesc q = of_nat (unat (tx_prodIndex q) mod 256)"
  by (rule word_unat_eq_iff [THEN iffD2]) (simp add: tx_prodDesc_def assms unat_mod unat_of_nat_small)

definition with_lastDesc :: "GenetTxQueue \<Rightarrow> u32 \<Rightarrow> nat \<Rightarrow> u32 \<Rightarrow> GenetTxPacket" where
  "with_lastDesc q p n = (packetContexts q)(p := (packetContexts q p)\<lparr>lastDesc := of_nat (n mod 256)\<rparr>)"

lemma post_fragment_run:
  assumes num: "tx_numDescs (txQueue w) = BG_NUM_BDS" and prod: "unat (tx_prodIndex (txQueue w)) < 0x10000"
    and run: "run_state (post_fragment os p k f) w = (u, w')"
  shows "tx_calls (desc_calls (unat (tx_prodIndex (txQueue w)))
      (tx_length_status k (FragmentCount (tx_packets (txQueue w) p)) (tx_fragments (txQueue w) f), tx_address (txQueue w) f)) w w'"
    "unat (tx_prodIndex (txQueue w')) = Suc (unat (tx_prodIndex (txQueue w))) mod 0x10000"
    "packetContexts (txQueue w') = with_lastDesc (txQueue w) p (unat (tx_prodIndex (txQueue w)))"
    "tx_static (txQueue w) (txQueue w')" "tx_fragmentRing (txQueue w') = tx_fragmentRing (txQueue w)"
  using run unat_next_index [OF prod]
  by (auto simp: post_fragment_def Let_def tx_calls_def desc_calls_def tx_desc_position [OF num] with_lastDesc_def tx_static_def)

definition frag_desc :: "GenetTxQueue \<Rightarrow> u32 \<Rightarrow> nat \<Rightarrow> u32 \<times> u64" where
  "frag_desc q p k = (tx_length_status (of_nat k) (FragmentCount (tx_packets q p)) (tx_fragments q (fragment_at q p k)),
     tx_address q (fragment_at q p k))"

lemma frag_desc_static: "tx_static q q' \<Longrightarrow> frag_desc q' p = frag_desc q p"
  by (simp add: fun_eq_iff frag_desc_def fragment_at_def tx_address_def tx_static_def
    ring_at_static [of "tx_fragmentRing q'" "tx_fragmentRing q"])

lemma packet_descs_eq: "packet_descs q p = map (frag_desc q p) [0 ..< packet_count q p]"
  by (simp add: packet_descs_def frag_desc_def)

lemma with_lastDesc_twice:
  "packetContexts q' = with_lastDesc q p m \<Longrightarrow> with_lastDesc q' p n = with_lastDesc q p n"
  by (simp add: with_lastDesc_def)

lemma with_lastDesc_mod: "n mod 256 = m mod 256 \<Longrightarrow> with_lastDesc q p n = with_lastDesc q p m"
  by (simp only: with_lastDesc_def)

text \<open>
  What the network stack promises of a packet it offers: fragments that lie in the ring and do not
  fill it, whose size is at most \<open>2 ^ 31\<close>.
\<close>

definition packet_ok :: "GenetTxQueue \<Rightarrow> u32 \<Rightarrow> bool" where
  "packet_ok q p \<longleftrightarrow> Ignore (tx_packets q p) \<or>
     FragmentIndex (tx_packets q p) < NumberOfElements (tx_fragmentRing q) \<and> 0 < FragmentCount (tx_packets q p) \<and>
     unat (FragmentCount (tx_packets q p)) < unat (NumberOfElements (tx_fragmentRing q)) \<and>
     unat (NumberOfElements (tx_fragmentRing q)) \<le> 0x80000000"

lemma pow_dvd: "(256 :: nat) dvd 0x10000"
  by simp

lemma post_fragments_run:
  assumes inc: "ring_steps inc" and ok: "packet_ok (txQueue w) p" "\<not> Ignore (tx_packets (txQueue w) p)"
    and num: "tx_numDescs (txQueue w) = BG_NUM_BDS" and prod: "unat (tx_prodIndex (txQueue w)) < 0x10000"
    and n: "n = unat (FragmentCount (tx_packets (txQueue w) p))"
    and fuel: "k \<le> n" "n - k < fuel"
    and run: "run_state (post_fragments os inc fuel p (of_nat k) (fragment_at (txQueue w) p k) (fragment_at (txQueue w) p n)) w = (res, w')"
  shows "res = Some (fragment_at (txQueue w) p n, of_nat n) \<and>
    tx_calls (ring_calls (unat (tx_prodIndex (txQueue w))) (map (frag_desc (txQueue w) p) [k ..< n])) w w' \<and>
    unat (tx_prodIndex (txQueue w')) = (unat (tx_prodIndex (txQueue w)) + (n - k)) mod 0x10000 \<and>
    tx_static (txQueue w) (txQueue w') \<and> tx_fragmentRing (txQueue w') = tx_fragmentRing (txQueue w) \<and>
    packetContexts (txQueue w') = (if k = n then packetContexts (txQueue w)
      else with_lastDesc (txQueue w) p (unat (tx_prodIndex (txQueue w)) + (n - k) - 1))"
  using ok num prod n fuel run
proof (induction fuel arbitrary: k w)
  case 0
  then show ?case by simp
next
  case (Suc fuel)
  let ?q = "txQueue w" let ?r = "tx_fragmentRing ?q" let ?i = "FragmentIndex (tx_packets ?q p)"
  have i: "?i < NumberOfElements ?r" and nn: "n < unat (NumberOfElements ?r)" using Suc.prems(1,2,5) by (simp_all add: packet_ok_def)
  then have r: "NumberOfElements ?r \<noteq> 0" by auto
  show ?case
  proof (cases "k = n")
    case True
    then show ?thesis using Suc.prems by auto
  next
    case False
    then have k: "k < n" using Suc.prems(6) by simp
    have ne: "fragment_at ?q p k \<noteq> fragment_at ?q p n"
      using ring_at_inj [OF i, of k n] k nn by (auto simp: fragment_at_def)
    obtain w1 where s: "run_state (post_fragment os p (of_nat k) (fragment_at ?q p k)) w = ((), w1)"
      by (cases "run_state (post_fragment os p (of_nat k) (fragment_at ?q p k)) w") simp
    note t = post_fragment_run [OF Suc.prems(3,4) s]
    let ?q1 = "txQueue w1"
    have p1: "tx_packets ?q1 = tx_packets ?q" using t(4) by (simp add: tx_static_def)
    have f: "fragment_at ?q1 p l = fragment_at ?q p l" for l by (simp add: fragment_at_def t(5) p1)
    have nxt: "inc ?r (fragment_at ?q p k) = fragment_at ?q p (Suc k)"
      using ring_at_step [OF inc r] by (simp add: fragment_at_def)
    have run1: "run_state (post_fragments os inc fuel p (of_nat (Suc k)) (fragment_at ?q1 p (Suc k)) (fragment_at ?q1 p n)) w1 = (res, w')"
      using Suc.prems(8) ne s nxt by (simp add: f t(5) add.commute)
    have ih: "res = Some (fragment_at ?q1 p n, of_nat n) \<and>
      tx_calls (ring_calls (unat (tx_prodIndex ?q1)) (map (frag_desc ?q1 p) [Suc k ..< n])) w1 w' \<and>
      unat (tx_prodIndex (txQueue w')) = (unat (tx_prodIndex ?q1) + (n - Suc k)) mod 0x10000 \<and>
      tx_static ?q1 (txQueue w') \<and> tx_fragmentRing (txQueue w') = tx_fragmentRing ?q1 \<and>
      packetContexts (txQueue w') = (if Suc k = n then packetContexts ?q1
        else with_lastDesc ?q1 p (unat (tx_prodIndex ?q1) + (n - Suc k) - 1))"
      by (rule Suc.IH [OF _ _ _ _ _ _ _ run1])
        (use Suc.prems k t in \<open>simp_all add: p1 packet_ok_def tx_static_def\<close>)
    let ?n = "unat (tx_prodIndex ?q)"
    have up: "[k ..< n] = k # [Suc k ..< n]" using k by (simp add: upt_conv_Cons)
    have "ring_calls (unat (tx_prodIndex ?q1)) ds = ring_calls (Suc ?n) ds" for ds
      by (rule ring_calls_mod) (simp add: t(2) mod_mod_cancel)
    then have calls: "ring_calls ?n (map (frag_desc ?q p) [k ..< n]) =
        desc_calls ?n (frag_desc ?q p k) @ ring_calls (unat (tx_prodIndex ?q1)) (map (frag_desc ?q1 p) [Suc k ..< n])"
      by (simp add: up frag_desc_static [OF t(4)])
    have c: "tx_calls (ring_calls ?n (map (frag_desc ?q p) [k ..< n])) w w'"
      unfolding calls by (rule tx_calls_append [of _ _ w1]) (use t(1) ih in \<open>simp_all add: frag_desc_def\<close>)
    have pr: "unat (tx_prodIndex (txQueue w')) = (?n + (n - k)) mod 0x10000"
    proof -
      have "unat (tx_prodIndex (txQueue w')) = (Suc ?n mod 0x10000 + (n - Suc k)) mod 0x10000" using ih t(2) by simp
      also have "\<dots> = (Suc ?n + (n - Suc k)) mod 0x10000" by (simp only: mod_add_left_eq)
      also have "Suc ?n + (n - Suc k) = ?n + (n - k)" using k by linarith
      finally show ?thesis .
    qed
    have "with_lastDesc ?q1 p (unat (tx_prodIndex ?q1) + (n - Suc k) - 1) = with_lastDesc ?q p (?n + (n - k) - 1)" if "Suc k \<noteq> n"
    proof -
      define m where "m = n - k - 2"
      have m: "n - Suc k = Suc m" "n - k = Suc (Suc m)" using that k by (simp_all add: m_def)
      have "(Suc ?n mod 0x10000 + m) mod 256 = (Suc ?n + m) mod 256"
        by (metis mod_add_left_eq mod_mod_cancel pow_dvd)
      then show ?thesis
        using with_lastDesc_twice [OF t(3)] with_lastDesc_mod [of "Suc ?n mod 0x10000 + m" "Suc ?n + m" ?q p] by (simp add: m t(2))
    qed
    then have "packetContexts (txQueue w') = with_lastDesc ?q p (?n + (n - k) - 1)"
      using ih t(3) k by (cases "Suc k = n") (auto simp: Suc_diff_le)
    then show ?thesis using ih c pr False tx_static_trans [OF t(4)] f t(5) by simp
  qed
qed

text \<open>The queue after a packet has been posted, as a function.\<close>

definition post_one :: "GenetTxQueue \<Rightarrow> u32 \<Rightarrow> GenetTxQueue" where
  "post_one q p = (if Ignore (tx_packets q p) then q else
     let n = packet_count q p; e = fragment_at q p n in
     q\<lparr>packetContexts := (packetContexts q)(p := (packetContexts q p)\<lparr>lastDesc := of_nat ((unat (tx_prodIndex q) + n - 1) mod 256), endFragment := e\<rparr>),
       tx_prodIndex := of_nat ((unat (tx_prodIndex q) + n) mod 0x10000),
       tx_fragmentRing := (tx_fragmentRing q)\<lparr>NextIndex := e\<rparr>\<rparr>)"

lemma post_one_static: "tx_static q (post_one q p)"
  by (simp add: post_one_def Let_def tx_static_def)

lemma packet_ok_static: "tx_static q q' \<Longrightarrow> packet_ok q' = packet_ok q"
  by (simp add: fun_eq_iff packet_ok_def tx_static_def)

lemma end_fragment:
  assumes inc: "ring_steps inc" and ok: "packet_ok q p" "\<not> Ignore (tx_packets q p)"
  shows "inc (tx_fragmentRing q) (FragmentIndex (tx_packets q p) + ucast (FragmentCount (tx_packets q p)) - 1) =
    fragment_at q p (unat (FragmentCount (tx_packets q p)))"
proof -
  let ?i = "FragmentIndex (tx_packets q p)" let ?c = "FragmentCount (tx_packets q p)" let ?r = "tx_fragmentRing q"
  have i: "unat ?i < unat (NumberOfElements ?r)" "0 < unat ?c" "unat ?c < unat (NumberOfElements ?r)"
      "unat (NumberOfElements ?r) \<le> 0x80000000"
    using ok by (simp_all add: packet_ok_def word_less_nat_alt)
  then have r: "NumberOfElements ?r \<noteq> 0" by auto
  have c: "unat (ucast ?c :: u32) = unat ?c" by (rule unat_widen)
  have "unat (?i + ucast ?c) = unat ?i + unat ?c" using i by (subst unat_add_lem [THEN iffD1]) (simp_all add: c)
  then have "unat (?i + ucast ?c - 1) = unat ?i + unat ?c - 1"
    using i by (subst unat_minus_one) (auto simp: word_unat_eq_iff)
  then have "unat (inc ?r (?i + ucast ?c - 1)) = (unat ?i + unat ?c) mod unat (NumberOfElements ?r)"
    using inc r i by (simp add: ring_steps_def)
  then show ?thesis by (simp add: word_unat_eq_iff fragment_at_def unat_ring_at [OF r])
qed

lemma post_packet_run:
  assumes inc: "ring_steps inc" and ok: "packet_ok (txQueue w) p" "\<not> Ignore (tx_packets (txQueue w) p)"
    and num: "tx_numDescs (txQueue w) = BG_NUM_BDS" and prod: "unat (tx_prodIndex (txQueue w)) < 0x10000"
    and run: "run_state (post_packet os inc p) w = (res, w')"
  shows "res = Some (of_nat (packet_count (txQueue w) p))" "txQueue w' = post_one (txQueue w) p"
    "tx_calls (ring_calls (unat (tx_prodIndex (txQueue w))) (packet_descs (txQueue w) p)) w w'"
proof -
  let ?q = "txQueue w" let ?r = "tx_fragmentRing ?q" let ?n = "unat (FragmentCount (tx_packets ?q p))"
  have n: "packet_count ?q p = ?n" "0 < ?n" "?n < unat (NumberOfElements ?r)"
    using ok by (simp_all add: packet_count_def packet_ok_def word_less_nat_alt)
  have "FragmentIndex (tx_packets ?q p) < NumberOfElements ?r" using ok by (simp add: packet_ok_def)
  then have first: "fragment_at ?q p 0 = FragmentIndex (tx_packets ?q p)" by (simp add: fragment_at_def)
  obtain fr w1 where run1: "run_state (post_fragments os inc (Suc (unat (NumberOfElements ?r))) p (of_nat 0)
      (fragment_at ?q p 0) (fragment_at ?q p ?n)) w = (fr, w1)" by (metis prod.exhaust)
  note t = post_fragments_run [OF inc ok num prod refl _ _ run1]
  have t: "fr = Some (fragment_at ?q p ?n, of_nat ?n)" "tx_calls (ring_calls (unat (tx_prodIndex ?q)) (packet_descs ?q p)) w w1"
    "unat (tx_prodIndex (txQueue w1)) = (unat (tx_prodIndex ?q) + ?n) mod 0x10000" "tx_static ?q (txQueue w1)"
    "tx_fragmentRing (txQueue w1) = ?r" "packetContexts (txQueue w1) = with_lastDesc ?q p (unat (tx_prodIndex ?q) + ?n - 1)"
    using t n by (simp_all add: packet_descs_eq)
  have "(of_nat ?n :: u32) = ucast (FragmentCount (tx_packets ?q p))"
    by (simp add: word_unat_eq_iff unat_widen)
  then have res: "res = Some (of_nat ?n)" "w' = w1\<lparr>txQueue := (txQueue w1)\<lparr>packetContexts := (packetContexts (txQueue w1))
      (p := (packetContexts (txQueue w1) p)\<lparr>endFragment := fragment_at ?q p ?n\<rparr>),
      tx_fragmentRing := (tx_fragmentRing (txQueue w1))\<lparr>NextIndex := fragment_at ?q p ?n\<rparr>\<rparr>\<rparr>"
    using run run1 first end_fragment [OF inc ok] by (auto simp: post_packet_def Let_def t(1) simp del: post_fragments.simps)
  show "res = Some (of_nat (packet_count ?q p))" using res(1) n(1) by simp
  show "tx_calls (ring_calls (unat (tx_prodIndex ?q)) (packet_descs ?q p)) w w'"
    using t(2) by (simp add: res(2) tx_calls_def)
  have "tx_prodIndex (txQueue w1) = of_nat ((unat (tx_prodIndex ?q) + ?n) mod 0x10000)"
    by (simp add: word_unat_eq_iff t(3) unat_of_nat_small)
  then show "txQueue w' = post_one ?q p"
    using t(4-6) ok(2) n(1) by (intro GenetTxQueue.equality) (simp_all add: res(2) post_one_def Let_def tx_static_def with_lastDesc_def)
qed

section \<open>Posting the packets of the ring\<close>

lemma post_one_index:
  assumes "unat (tx_prodIndex q) < 0x10000"
  shows "unat (tx_prodIndex (post_one q p)) = (unat (tx_prodIndex q) + packet_count q p) mod 0x10000"
  using assms by (simp add: post_one_def Let_def packet_count_def unat_of_nat_small)

lemma post_packets_run:
  assumes inc: "ring_steps inc" and b: "b < NumberOfElements r" "EndIndex r < NumberOfElements r"
    and ok: "\<forall>l. k \<le> l \<and> l < ring_dist r b (EndIndex r) \<longrightarrow> packet_ok (txQueue w) (ring_at r b l)" and r: "tx_packetRing (txQueue w) = r"
    and num: "tx_numDescs (txQueue w) = BG_NUM_BDS" and prod: "unat (tx_prodIndex (txQueue w)) < 0x10000"
    and k: "k \<le> ring_dist r b (EndIndex r)" and fuel: "ring_dist r b (EndIndex r) - k < fuel"
    and run: "run_state (post_packets os inc fuel (ring_at r b k) free posted) w = (res, w')"
  defines "ps \<equiv> accepted (txQueue w) (unat free) (map (ring_at r b) [k ..< ring_dist r b (EndIndex r)])"
  shows "res = Some (ring_at r b (k + length ps), posted \<or> (\<exists>p \<in> set ps. packet_count (txQueue w) p \<noteq> 0)) \<and>
    txQueue w' = foldl post_one (txQueue w) ps \<and>
    tx_calls (ring_calls (unat (tx_prodIndex (txQueue w))) (concat (map (packet_descs (txQueue w)) ps))) w w'"
  using ok r num prod k fuel run unfolding ps_def
proof (induction fuel arbitrary: k free posted w)
  case 0
  then show ?case by simp
next
  case (Suc fuel)
  let ?q = "txQueue w" let ?p = "ring_at r b k" let ?d = "ring_dist r b (EndIndex r)"
  have n: "NumberOfElements r \<noteq> 0" using b(1) by auto
  show ?case
  proof (cases "k = ?d")
    case True
    then show ?thesis using Suc.prems ring_at_dist [OF b] by auto
  next
    case False
    then have k: "k < ?d" using Suc.prems(5) by simp
    have up: "[k ..< ?d] = k # [Suc k ..< ?d]" using k by (simp add: upt_conv_Cons)
    have ne: "?p \<noteq> EndIndex r"
      using ring_dist_at [OF b(1), of k] k ring_dist_less [OF n, of b "EndIndex r"] by (metis False less_trans)
    have nxt: "inc r ?p = ring_at r b (Suc k)" by (rule ring_at_step [OF inc n])
    show ?thesis
    proof (cases "Ignore (tx_packets ?q ?p)")
      case True
      have c: "packet_count ?q ?p = 0" "packet_descs ?q ?p = []" "post_one ?q ?p = ?q"
        using True by (simp_all add: packet_count_def packet_descs_def post_one_def)
      have "run_state (post_packets os inc fuel (ring_at r b (Suc k)) free posted) w = (res, w')"
        using Suc.prems(7) ne True nxt by (simp add: Suc.prems(2) Let_def)
      from Suc.IH [OF _ Suc.prems(2-4) _ _ this] show ?thesis using k Suc.prems(1,6) by (simp add: up c)
    next
      case ign: False
      show ?thesis
      proof (cases "free < ucast (FragmentCount (tx_packets ?q ?p))")
        case True
        then have "\<not> packet_count ?q ?p \<le> unat free" using ign by (simp add: packet_count_def word_less_nat_alt unat_widen)
        then show ?thesis using Suc.prems(7) ne ign True by (auto simp: up Suc.prems(2) Let_def)
      next
        case fit: False
        then have c: "packet_count ?q ?p \<le> unat free" "unat (free - ucast (FragmentCount (tx_packets ?q ?p))) = unat free - packet_count ?q ?p"
          using ign by (simp_all add: packet_count_def word_less_nat_alt unat_widen unat_sub word_le_nat_alt)
        obtain one w1 where run1: "run_state (post_packet os inc ?p) w = (one, w1)" by (metis prod.exhaust)
        have okp: "packet_ok ?q ?p" using Suc.prems(1) k by simp
        note t = post_packet_run [OF inc okp ign Suc.prems(3,4) run1]
        let ?q1 = "txQueue w1"
        have st: "tx_static ?q ?q1" using post_one_static by (simp add: t(2))
        have p1: "unat (tx_prodIndex ?q1) = (unat (tx_prodIndex ?q) + packet_count ?q ?p) mod 0x10000"
          using post_one_index [OF Suc.prems(4)] by (simp add: t(2))
        have nz: "(of_nat (packet_count ?q ?p) :: u32) \<noteq> 0 \<longleftrightarrow> packet_count ?q ?p \<noteq> 0"
          by (simp only: word_unat_eq_iff unat_of_nat_small [OF packet_count_small] unat_0)
        have run2: "run_state (post_packets os inc fuel (ring_at r b (Suc k)) (free - ucast (FragmentCount (tx_packets ?q ?p)))
            (posted \<or> packet_count ?q ?p \<noteq> 0)) w1 = (res, w')"
          using Suc.prems(7) ne ign fit run1 nxt nz by (simp add: Suc.prems(2) Let_def t(1))
        define acc where "acc = accepted ?q (unat free - packet_count ?q ?p) (map (ring_at r b) [Suc k ..< ?d])"
        have acc: "accepted ?q1 (unat (free - ucast (FragmentCount (tx_packets ?q ?p)))) (map (ring_at r b) [Suc k ..< ?d]) = acc"
          by (simp only: acc_def c(2) tx_static_descs [OF st])
        have ih: "res = Some (ring_at r b (Suc k + length acc), (posted \<or> packet_count ?q ?p \<noteq> 0) \<or> (\<exists>p \<in> set acc. packet_count ?q1 p \<noteq> 0)) \<and>
            txQueue w' = foldl post_one ?q1 acc \<and>
            tx_calls (ring_calls (unat (tx_prodIndex ?q1)) (concat (map (packet_descs ?q1) acc))) w1 w'"
          unfolding acc [symmetric] by (rule Suc.IH [OF _ _ _ _ _ _ run2])
            (use Suc.prems k st p1 in \<open>simp_all add: packet_ok_static [OF st] tx_static_def\<close>)
        have calls: "ring_calls (unat (tx_prodIndex ?q1)) ds = ring_calls (unat (tx_prodIndex ?q) + packet_count ?q ?p) ds" for ds
          by (rule ring_calls_mod) (simp add: p1 mod_mod_cancel)
        have ps: "accepted ?q (unat free) (map (ring_at r b) [k ..< ?d]) = ?p # acc"
          using c(1) by (simp add: up acc_def)
        have "tx_calls (ring_calls (unat (tx_prodIndex ?q)) (packet_descs ?q ?p @ concat (map (packet_descs ?q) acc))) w w'"
          unfolding ring_calls_append length_packet_descs
          by (rule tx_calls_append [OF t(3)]) (use ih in \<open>simp add: calls tx_static_descs [OF st]\<close>)
        then show ?thesis using ih by (simp add: ps t(2) tx_static_descs [OF post_one_static])
      qed
    qed
  qed
qed

section \<open>An advance posts what fits\<close>

definition tx_ring_ok :: "GenetTxQueue \<Rightarrow> bool" where
  "tx_ring_ok q \<longleftrightarrow> tx_numDescs q = BG_NUM_BDS \<and> unat (tx_prodIndex q) < 0x10000 \<and>
     (let r = tx_packetRing q in BeginIndex r < NumberOfElements r \<and> NextIndex r < NumberOfElements r \<and> EndIndex r < NumberOfElements r \<and>
        ring_dist r (BeginIndex r) (NextIndex r) \<le> ring_dist r (BeginIndex r) (EndIndex r))"

text \<open>The packets offered to the driver, and the descriptors that are not in use, of which one stays empty.\<close>

definition offered :: "GenetTxQueue \<Rightarrow> u32 list" where
  "offered q = ring_walk (tx_packetRing q) (NextIndex (tx_packetRing q)) (EndIndex (tx_packetRing q))"

definition tx_free :: "GenetTxQueue \<Rightarrow> nat" where
  "tx_free q = 255 - unat (tx_hwDescs q)"

definition posting :: "GenetTxQueue \<Rightarrow> u32 list" where
  "posting q = accepted q (tx_free q) (offered q)"

definition posting_descs :: "GenetTxQueue \<Rightarrow> (u32 \<times> u64) list" where
  "posting_descs q = concat (map (packet_descs q) (posting q))"

lemma hwDescs_less: "tx_numDescs q = BG_NUM_BDS \<Longrightarrow> unat (tx_hwDescs q) < 256"
  by (simp add: tx_hwDescs_def unat_mod)

definition all_counts :: "GenetTxQueue \<Rightarrow> u32 list \<Rightarrow> nat" where
  "all_counts q ps = sum_list (map (packet_count q) ps)"

lemma all_counts_simps [simp]:
  "all_counts q [] = 0" "all_counts q (p # ps) = packet_count q p + all_counts q ps"
  "all_counts q (ps @ ps') = all_counts q ps + all_counts q ps'"
  by (simp_all add: all_counts_def)

lemma length_concat_descs: "length (concat (map (packet_descs q) ps)) = all_counts q ps"
  by (induction ps) simp_all

lemma accepted_fits: "all_counts q (accepted q free ps) \<le> free"
proof (induction ps arbitrary: free)
  case (Cons p ps)
  have "all_counts q (accepted q (free - packet_count q p) ps) \<le> free - packet_count q p" by (rule Cons.IH)
  then show ?case by auto
qed simp

lemma accepted_prefix: "\<exists>k \<le> length ps. accepted q free ps = take k ps"
proof (induction ps arbitrary: free)
  case (Cons p ps)
  obtain k where "k \<le> length ps" "accepted q (free - packet_count q p) ps = take k ps" using Cons by blast
  then show ?case by (cases "packet_count q p \<le> free") (auto intro: exI [of _ "Suc k"] exI [of _ 0])
qed simp

lemma descs_nonempty: "concat (map (packet_descs q) ps) \<noteq> [] \<longleftrightarrow> (\<exists>p \<in> set ps. packet_count q p \<noteq> 0)"
  by (induction ps) (simp_all add: packet_descs_def)

lemma foldl_static: "tx_static q (foldl post_one q ps)"
  by (induction ps arbitrary: q) (simp_all, metis post_one_static tx_static_trans)

lemma foldl_index:
  "unat (tx_prodIndex q) < 0x10000 \<Longrightarrow> unat (tx_prodIndex (foldl post_one q ps)) = (unat (tx_prodIndex q) + all_counts q ps) mod 0x10000"
proof (induction ps arbitrary: q)
  case (Cons p ps)
  have i: "unat (tx_prodIndex (post_one q p)) = (unat (tx_prodIndex q) + packet_count q p) mod 0x10000"
    by (rule post_one_index [OF Cons.prems])
  then have "unat (tx_prodIndex (foldl post_one (post_one q p) ps)) =
      ((unat (tx_prodIndex q) + packet_count q p) mod 0x10000 + all_counts (post_one q p) ps) mod 0x10000"
    using Cons.IH [of "post_one q p"] by simp
  also have "\<dots> = (unat (tx_prodIndex q) + packet_count q p + all_counts (post_one q p) ps) mod 0x10000"
    by (simp only: mod_add_left_eq)
  also have "all_counts (post_one q p) ps = all_counts q ps"
    by (simp add: all_counts_def tx_static_descs [OF post_one_static])
  finally show ?case by (simp add: add.assoc)
qed simp

lemma tx_post_run:
  assumes inc: "ring_steps inc" and ok: "tx_ring_ok (txQueue w)" "\<forall>p \<in> set (offered (txQueue w)). packet_ok (txQueue w) p"
    and run: "run_state (tx_post os inc) w = (res, w')"
  defines "q1 \<equiv> foldl post_one (txQueue w) (posting (txQueue w))"
  defines "r \<equiv> tx_packetRing (txQueue w)"
  shows "res" "txQueue w' = q1\<lparr>tx_packetRing := r\<lparr>NextIndex := ring_at r (NextIndex r) (length (posting (txQueue w)))\<rparr>\<rparr>"
    "tx_calls (ring_calls (unat (tx_prodIndex (txQueue w))) (posting_descs (txQueue w)) @
       (if posting_descs (txQueue w) = [] then [] else [Mm (WriteRegister (Rings TDMA TDMA_Prod_Index) (tx_prodIndex q1))])) w w'"
proof -
  let ?q = "txQueue w" let ?b = "NextIndex r"
  have b: "?b < NumberOfElements r" "EndIndex r < NumberOfElements r" and num: "tx_numDescs ?q = 256"
    and prod: "unat (tx_prodIndex ?q) < 0x10000"
    using ok(1) by (simp_all add: tx_ring_ok_def Let_def r_def)
  then have n: "NumberOfElements r \<noteq> 0" by auto
  have "unat (tx_hwDescs ?q) < 256" by (rule hwDescs_less) (simp add: num)
  then have free: "unat (tx_numDescs ?q - tx_hwDescs ?q - 1) = tx_free ?q"
    by (simp add: num tx_free_def unat_sub_if' unat_arith_simps)
  have o: "offered ?q = map (ring_at r ?b) [0 ..< ring_dist r ?b (EndIndex r)]"
    by (simp add: offered_def ring_walk_def r_def)
  obtain one w1 where run1: "run_state (post_packets os inc (Suc (unat (NumberOfElements r))) (ring_at r ?b 0)
      (tx_numDescs ?q - tx_hwDescs ?q - 1) False) w = (one, w1)" by (metis prod.exhaust)
  have rr: "tx_packetRing ?q = r" by (simp add: r_def)
  have ok0: "\<forall>l. 0 \<le> l \<and> l < ring_dist r ?b (EndIndex r) \<longrightarrow> packet_ok ?q (ring_at r ?b l)" using ok(2) by (simp add: o)
  have fuel: "ring_dist r ?b (EndIndex r) - 0 < Suc (unat (NumberOfElements r))"
    using ring_dist_less [OF n, of ?b "EndIndex r"] by simp
  have po: "accepted ?q (unat (tx_numDescs ?q - tx_hwDescs ?q - 1)) (map (ring_at r ?b) [0 ..< ring_dist r ?b (EndIndex r)]) = posting ?q"
    by (simp only: free posting_def o)
  note t = post_packets_run [OF inc b ok0 rr num prod le0 fuel run1, unfolded po]
  have t: "one = Some (ring_at r ?b (length (posting ?q)), \<exists>p \<in> set (posting ?q). packet_count ?q p \<noteq> 0)"
    "txQueue w1 = q1" "tx_calls (ring_calls (unat (tx_prodIndex ?q)) (posting_descs ?q)) w w1"
    using t by (simp_all add: q1_def posting_descs_def)
  have "tx_packetRing q1 = r" using foldl_static [of ?q "posting ?q"] by (simp add: q1_def r_def tx_static_def)
  moreover have "run_state (post_packets os inc (Suc (unat (NumberOfElements r))) ?b (tx_numDescs ?q - tx_hwDescs ?q - 1) False) w = (one, w1)"
    using run1 b(1) by (simp del: post_packets.simps)
  ultimately have w': "res" "w' = (let w2 = w1\<lparr>txQueue := q1\<lparr>tx_packetRing := r\<lparr>NextIndex := ring_at r ?b (length (posting ?q))\<rparr>\<rparr>\<rparr> in
      if \<exists>p \<in> set (posting ?q). packet_count ?q p \<noteq> 0
      then w2\<lparr>trace := trace w2 @ [(Mm (WriteRegister (Rings TDMA TDMA_Prod_Index) (tx_prodIndex q1)),
        os (trace w2) (Mm (WriteRegister (Rings TDMA TDMA_Prod_Index) (tx_prodIndex q1))))]\<rparr> else w2)"
    using run t(1,2)
    by (cases "\<exists>p \<in> set (posting ?q). packet_count ?q p \<noteq> 0"; simp add: tx_post_def Let_def rr bex_simps del: post_packets.simps)+
  show "res" by (rule w'(1))
  show "txQueue w' = q1\<lparr>tx_packetRing := r\<lparr>NextIndex := ring_at r ?b (length (posting ?q))\<rparr>\<rparr>"
    by (simp add: w'(2) Let_def)
  have "posting_descs ?q = [] \<longleftrightarrow> \<not> (\<exists>p \<in> set (posting ?q). packet_count ?q p \<noteq> 0)"
    using descs_nonempty by (simp only: posting_descs_def) blast
  then show "tx_calls (ring_calls (unat (tx_prodIndex ?q)) (posting_descs ?q) @
       (if posting_descs ?q = [] then [] else [Mm (WriteRegister (Rings TDMA TDMA_Prod_Index) (tx_prodIndex q1))])) w w'"
    using t(3) by (auto simp: w'(2) Let_def tx_calls_def)
qed

end
