(* ===== verification/Genet_TxQueue.thy ===== *)
theory Genet_TxQueue
  imports Genet_Tx
begin

text \<open>
  The life of the transmit queue: what an advance gives back to the network stack, and the invariant
  that the notes kept for each outstanding packet satisfy.
\<close>

section \<open>Notes on outstanding packets\<close>

text \<open>
  The controller still owns the last \<open>hw\<close> descriptors posted. The last descriptor of a packet is
  followed by those of the packets posted after it, so it is the controller's when these are fewer
  than \<open>hw\<close>.
\<close>

fun reclaimed :: "GenetTxQueue \<Rightarrow> nat \<Rightarrow> u32 list \<Rightarrow> u32 list" where
  "reclaimed q hw [] = []"
| "reclaimed q hw (p # ps) = (if Ignore (tx_packets q p) \<or> hw \<le> all_counts q ps then p # reclaimed q hw ps else [])"

text \<open>Where the fragments of the packets end, from \<open>f\<close> on.\<close>

fun fragments_end :: "GenetTxQueue \<Rightarrow> u32 \<Rightarrow> u32 list \<Rightarrow> u32" where
  "fragments_end q f [] = f"
| "fragments_end q f (p # ps) = fragments_end q (if Ignore (tx_packets q p) then f else fragment_at q p (packet_count q p)) ps"

text \<open>\<open>lastDesc\<close> and \<open>endFragment\<close> say where each packet ends, and a packet is outstanding.\<close>

fun noted :: "GenetTxQueue \<Rightarrow> nat \<Rightarrow> u32 list \<Rightarrow> bool" where
  "noted q hw [] = True"
| "noted q hw (p # ps) = (noted q hw ps \<and> (Ignore (tx_packets q p) \<or>
     unat (lastDesc (packetContexts q p)) < 256 \<and>
     (unat (lastDesc (packetContexts q p)) + 1 + all_counts q ps) mod 256 = unat (tx_prodIndex q) mod 256 \<and>
     endFragment (packetContexts q p) = fragment_at q p (packet_count q p) \<and> all_counts q ps < hw))"

definition outstanding :: "GenetTxQueue \<Rightarrow> u32 list" where
  "outstanding q = ring_walk (tx_packetRing q) (BeginIndex (tx_packetRing q)) (NextIndex (tx_packetRing q))"

lemma sub_mod_256:
  fixes x y :: u32
  assumes "unat x < 256" "unat y < 256"
  shows "unat (x - y) mod 256 = (unat x + 256 - unat y) mod 256"
proof (cases "unat y \<le> unat x")
  case True
  then show ?thesis using assms by (auto simp: unat_sub_if' mod_if)
next
  case False
  then have "unat (x - y) = (unat x + 256 - unat y) + 256 * 16777215" using assms by (simp add: unat_sub_if')
  then show ?thesis by (simp only: mod_mult_self2)
qed

text \<open>
  How many of the descriptors posted so far the controller has not consumed, by its consumer index.
\<close>

definition descs_in_use :: "u32 \<Rightarrow> u32 \<Rightarrow> nat" where
  "descs_in_use posted consumed = (unat posted mod 256 + 256 - unat consumed mod 256) mod 256"

lemma unat_hwDescs:
  assumes "tx_numDescs q = BG_NUM_BDS"
  shows "unat (tx_hwDescs q) = cyclic_dist 256 (unat (tx_consIndex q) mod 256) (unat (tx_prodIndex q) mod 256)"
proof -
  let ?p = "tx_prodIndex q mod 256" let ?c = "tx_consIndex q mod 256"
  have "unat (?p - ?c) mod 256 = (unat ?p + 256 - unat ?c) mod 256" by (rule sub_mod_256) (simp_all add: unat_mod)
  then show ?thesis by (simp add: tx_hwDescs_def tx_prodDesc_def assms cyclic_dist_def unat_mod)
qed

lemma unat_hwDescs_in_use:
  "tx_numDescs q = BG_NUM_BDS \<Longrightarrow> unat (tx_hwDescs q) = descs_in_use (tx_prodIndex q) (tx_consIndex q)"
  by (simp add: unat_hwDescs descs_in_use_def cyclic_dist_def)

lemma last_desc_test:
  assumes num: "tx_numDescs q = BG_NUM_BDS" and L: "unat L < 256" "(unat L + 1 + rest) mod 256 = unat (tx_prodIndex q) mod 256"
    and rest: "rest < 255"
  shows "unat ((tx_prodDesc q - L) mod tx_numDescs q) = rest + 1"
proof -
  have p: "unat (tx_prodDesc q) = (unat L + 1 + rest) mod 256" using L(2) by (simp add: tx_prodDesc_def num unat_mod)
  have "unat (tx_prodDesc q - L) mod 256 = (unat (tx_prodDesc q) + 256 - unat L) mod 256"
    by (rule sub_mod_256) (simp_all add: p L(1))
  also have "\<dots> = rest + 1" using L(1) rest by (auto simp: p mod_if)
  finally show ?thesis by (simp add: num unat_mod)
qed

lemma noted_tail: "noted q hw (ps @ qs) \<Longrightarrow> noted q hw qs"
  by (induction ps) auto

lemma reclaim_run:
  fixes h :: u32
  assumes inc: "ring_steps inc" and b: "b < NumberOfElements r" "NextIndex r < NumberOfElements r"
    and r: "tx_packetRing q = r" and num: "tx_numDescs q = BG_NUM_BDS" and hw: "hw \<le> 255"
    and noted: "noted q hw (map (ring_at r b) [k ..< ring_dist r b (NextIndex r)])"
    and k: "k \<le> ring_dist r b (NextIndex r)" and fuel: "ring_dist r b (NextIndex r) - k < fuel"
  defines "ps \<equiv> reclaimed q (unat h) (map (ring_at r b) [k ..< ring_dist r b (NextIndex r)])"
  shows "reclaim_packets inc q fuel (tx_prodDesc q) h (ring_at r b k) f = Some (ring_at r b (k + length ps), fragments_end q f ps)"
  using noted k fuel unfolding ps_def
proof (induction fuel arbitrary: k f)
  case 0
  then show ?case by simp
next
  case (Suc fuel)
  let ?d = "ring_dist r b (NextIndex r)" let ?p = "ring_at r b k"
  have n: "NumberOfElements r \<noteq> 0" using b(1) by auto
  show ?case
  proof (cases "k = ?d")
    case True
    then show ?thesis using ring_at_dist [OF b] by (simp add: r)
  next
    case False
    then have k: "k < ?d" using Suc.prems(2) by simp
    have up: "[k ..< ?d] = k # [Suc k ..< ?d]" using k by (simp add: upt_conv_Cons)
    define ps where "ps = map (ring_at r b) [Suc k ..< ?d]"
    have ne: "?p \<noteq> NextIndex r"
      using ring_dist_at [OF b(1), of k] k ring_dist_less [OF n, of b "NextIndex r"] by (metis False less_trans)
    have nxt: "inc r ?p = ring_at r b (Suc k)" by (rule ring_at_step [OF inc n])
    have noted: "noted q hw (?p # ps)" using Suc.prems(1) by (simp add: up ps_def)
    have ih: "reclaim_packets inc q fuel (tx_prodDesc q) h (ring_at r b (Suc k)) f' =
        Some (ring_at r b (Suc k + length (reclaimed q (unat h) ps)), fragments_end q f' (reclaimed q (unat h) ps))" for f'
      unfolding ps_def by (rule Suc.IH) (use noted Suc.prems k in \<open>simp_all add: ps_def\<close>)
    show ?thesis
    proof (cases "Ignore (tx_packets q ?p)")
      case True
      then show ?thesis using ne by (simp add: r nxt ih up ps_def [symmetric])
    next
      case ign: False
      then have nt: "unat (lastDesc (packetContexts q ?p)) < 256"
        "(unat (lastDesc (packetContexts q ?p)) + 1 + all_counts q ps) mod 256 = unat (tx_prodIndex q) mod 256"
        "endFragment (packetContexts q ?p) = fragment_at q ?p (packet_count q ?p)" "all_counts q ps < hw"
        using noted by simp_all
      have "(tx_prodDesc q - lastDesc (packetContexts q ?p)) mod tx_numDescs q \<le> h \<longleftrightarrow> all_counts q ps + 1 \<le> unat h"
        using last_desc_test [OF num nt(1,2)] nt(4) hw by (simp add: word_le_nat_alt)
      then show ?thesis using ne ign nt(3) by (simp add: r nxt ih up ps_def [symmetric] not_le Suc_le_eq)
    qed
  qed
qed

section \<open>How the notes are kept\<close>

lemma noted_cong:
  assumes "\<forall>p \<in> set ps. tx_packets q' p = tx_packets q p \<and> packetContexts q' p = packetContexts q p"
    and "tx_prodIndex q' = tx_prodIndex q" "NumberOfElements (tx_fragmentRing q') = NumberOfElements (tx_fragmentRing q)"
  shows "all_counts q' ps = all_counts q ps" "noted q' hw ps = noted q hw ps"
proof -
  have "\<forall>p \<in> set ps. packet_count q' p = packet_count q p" using assms(1) by (simp add: packet_count_def)
  then have all: "set xs \<subseteq> set ps \<Longrightarrow> all_counts q' xs = all_counts q xs" for xs by (induction xs) simp_all
  show "all_counts q' ps = all_counts q ps" by (rule all) simp
  have "\<forall>p \<in> set ps. fragment_at q' p k = fragment_at q p k" for k
    using assms(1,3) by (simp add: fragment_at_def ring_at_static [of "tx_fragmentRing q'" "tx_fragmentRing q"])
  then have "set xs \<subseteq> set ps \<Longrightarrow> noted q' hw xs = noted q hw xs" for xs
    by (induction xs) (use assms(1,2) all in \<open>simp_all add: packet_count_def\<close>)
  then show "noted q' hw ps = noted q hw ps" by simp
qed

lemma noted_Cons: "noted q hw0 (p # ps) \<Longrightarrow> all_counts q ps < hw \<Longrightarrow> noted q hw (p # ps)"
  by (induction ps arbitrary: p) auto

lemma noted_kept: "noted q hw0 ps \<Longrightarrow> noted q hw (drop (length (reclaimed q hw ps)) ps)"
proof (induction ps)
  case (Cons p ps)
  show ?case
  proof (cases "Ignore (tx_packets q p) \<or> hw \<le> all_counts q ps")
    case True
    then show ?thesis using Cons by simp
  next
    case False
    then have "noted q hw (p # ps)" by (intro noted_Cons [OF Cons.prems]) simp
    then show ?thesis using False by (simp only: reclaimed.simps if_False list.size drop_0)
  qed
qed simp

lemma noted_post:
  assumes "noted q hw xs" "p \<notin> set xs" "packet_ok q p" "unat (tx_prodIndex q) < 0x10000"
  shows "noted (post_one q p) (hw + packet_count q p) (xs @ [p])"
proof (cases "Ignore (tx_packets q p)")
  case True
  then have c: "packet_count q p = 0" "post_one q p = q" by (simp_all add: packet_count_def post_one_def)
  show ?thesis using assms(1) True unfolding c by (induction xs) (simp_all add: c)
next
  case False
  let ?q = "post_one q p" let ?n = "packet_count q p"
  have st: "tx_static q ?q" by (rule post_one_static)
  have n: "0 < ?n" using assms(3) False by (simp add: packet_ok_def packet_count_def word_less_nat_alt)
  have prod: "unat (tx_prodIndex ?q) mod 256 = (unat (tx_prodIndex q) + ?n) mod 256"
    using post_one_index [OF assms(4)] by (simp add: mod_mod_cancel)
  have c: "packet_count ?q = packet_count q" "all_counts ?q xs' = all_counts q xs'" for xs'
    by (simp_all add: tx_static_descs [OF st] all_counts_def)
  have pk: "tx_packets ?q = tx_packets q" using st by (simp add: tx_static_def)
  have f: "fragment_at ?q = fragment_at q"
    using st by (simp add: fun_eq_iff fragment_at_def tx_static_def ring_at_static [of "tx_fragmentRing ?q" "tx_fragmentRing q"])
  have ctx: "packetContexts ?q = (packetContexts q)(p := (packetContexts q p)
      \<lparr>lastDesc := of_nat ((unat (tx_prodIndex q) + ?n - 1) mod 256), endFragment := fragment_at q p ?n\<rparr>)"
    using False by (simp add: post_one_def Let_def)
  have "((unat (tx_prodIndex q) + ?n - 1) mod 256 + 1) mod 256 = (unat (tx_prodIndex q) + ?n) mod 256"
    using n by (cases ?n) (simp_all add: mod_Suc_eq)
  then have last: "noted ?q (hw + ?n) [p]"
    using n by (simp add: ctx prod pk f c unat_of_nat_small)
  from assms(1,2) show ?thesis
  proof (induction xs)
    case Nil
    then show ?case using last by simp
  next
    case (Cons x xs)
    have "(unat (lastDesc (packetContexts q x)) + 1 + (all_counts q xs + ?n)) mod 256 = (unat (tx_prodIndex q) + ?n) mod 256"
      if "\<not> Ignore (tx_packets q x)"
      using that Cons.prems(1) mod_add_cong [of "unat (lastDesc (packetContexts q x)) + 1 + all_counts q xs" 256 "unat (tx_prodIndex q)" ?n ?n]
      by (simp add: ac_simps)
    then show ?case using Cons by (auto simp: ctx prod pk f c add.assoc)
  qed
qed

lemma noted_posts:
  assumes "noted q hw xs" "\<forall>p \<in> set ps. packet_ok q p" "distinct (xs @ ps)" "unat (tx_prodIndex q) < 0x10000"
  shows "noted (foldl post_one q ps) (hw + all_counts q ps) (xs @ ps)"
  using assms
proof (induction ps arbitrary: q hw xs)
  case (Cons p ps)
  have st: "tx_static q (post_one q p)" by (rule post_one_static)
  have "noted (post_one q p) (hw + packet_count q p) (xs @ [p])" by (rule noted_post) (use Cons.prems in simp_all)
  then have "noted (foldl post_one (post_one q p) ps) (hw + packet_count q p + all_counts (post_one q p) ps) ((xs @ [p]) @ ps)"
    by (rule Cons.IH) (use Cons.prems post_one_index [of q p] in \<open>auto simp: packet_ok_static [OF st]\<close>)
  then show ?case by (simp add: all_counts_def tx_static_descs [OF st] add.assoc)
qed simp

lemma cyclic_dist_extend:
  assumes "c < n" "p < n" "cyclic_dist n c p + k < n"
  shows "cyclic_dist n c ((p + k) mod n) = cyclic_dist n c p + k"
proof -
  have "(p + k) mod n = ((c + cyclic_dist n c p) mod n + k) mod n" by (simp only: cyclic_add_dist [OF assms(1,2)])
  also have "\<dots> = (c + (cyclic_dist n c p + k)) mod n" by (simp only: mod_add_left_eq add.assoc)
  finally show ?thesis by (simp only: cyclic_dist_add [OF assms(1,3)])
qed

lemma posts_hwDescs:
  assumes num: "tx_numDescs q = BG_NUM_BDS" and prod: "unat (tx_prodIndex q) < 0x10000"
    and fits: "unat (tx_hwDescs q) + all_counts q ps \<le> 255"
  shows "unat (tx_hwDescs (foldl post_one q ps)) = unat (tx_hwDescs q) + all_counts q ps"
proof -
  let ?q = "foldl post_one q ps" let ?c = "unat (tx_consIndex q) mod 256" let ?p = "unat (tx_prodIndex q) mod 256"
  have st: "tx_numDescs ?q = BG_NUM_BDS" "tx_consIndex ?q = tx_consIndex q"
    using foldl_static [of q ps] num by (simp_all add: tx_static_def)
  have "unat (tx_prodIndex ?q) mod 256 = (?p + all_counts q ps) mod 256"
    using foldl_index [OF prod, of ps] by (simp add: mod_mod_cancel mod_add_left_eq)
  then have "unat (tx_hwDescs ?q) = cyclic_dist 256 ?c ((?p + all_counts q ps) mod 256)" by (simp add: unat_hwDescs st)
  also have "\<dots> = cyclic_dist 256 ?c ?p + all_counts q ps"
    by (rule cyclic_dist_extend) (use fits in \<open>simp_all add: unat_hwDescs [OF num]\<close>)
  finally show ?thesis by (simp add: unat_hwDescs num)
qed

section \<open>An advance\<close>

lemma walk_append:
  assumes "ring_dist r a b \<le> ring_dist r a c" "a < NumberOfElements r" "b < NumberOfElements r" "c < NumberOfElements r"
  shows "ring_walk r a c = ring_walk r a b @ ring_walk r b c" "ring_dist r b c = ring_dist r a c - ring_dist r a b"
    "ring_at r b k = ring_at r a (ring_dist r a b + k)"
proof -
  have n: "NumberOfElements r \<noteq> 0" using assms(2) by auto
  let ?d = "ring_dist r a b"
  have at: "ring_at r b k = ring_at r a (?d + k)" for k
  proof -
    have "unat b = (unat a + ?d) mod unat (NumberOfElements r)" using ring_at_dist [OF assms(2,3)] unat_ring_at [OF n] by metis
    then show ?thesis by (simp add: word_unat_eq_iff unat_ring_at [OF n] mod_add_left_eq add.assoc)
  qed
  show "ring_at r b k = ring_at r a (?d + k)" by (rule at)
  show dist: "ring_dist r b c = ring_dist r a c - ?d"
    using assms unfolding ring_dist_def word_less_nat_alt by (simp add: cyclic_dist_cases split: if_splits)
  have "[0 ..< ring_dist r a c] = [0 ..< ?d] @ [?d ..< ring_dist r a c]" using assms(1) by (metis le0 upt_add_eq_append le_add_diff_inverse add_0)
  moreover have "[?d ..< ring_dist r a c] = map (\<lambda>k. ?d + k) [0 ..< ring_dist r b c]" using assms(1) by (simp add: dist map_add_upt add.commute)
  ultimately show "ring_walk r a c = ring_walk r a b @ ring_walk r b c" by (simp add: ring_walk_def at comp_def)
qed

lemma distinct_walk: "a < NumberOfElements r \<Longrightarrow> distinct (ring_walk r a b)"
proof -
  assume a: "a < NumberOfElements r"
  then have "NumberOfElements r \<noteq> 0" by auto
  from ring_dist_less [OF this] have less: "ring_dist r a b < unat (NumberOfElements r)" .
  have "inj_on (ring_at r a) (set [0 ..< ring_dist r a b])"
    by (rule inj_onI) (use ring_at_inj [OF a] less in \<open>auto dest: less_trans\<close>)
  then show ?thesis by (simp add: ring_walk_def distinct_map)
qed

lemma take_walk:
  assumes "k \<le> ring_dist r a b" "a < NumberOfElements r" "b < NumberOfElements r"
  shows "ring_walk r a (ring_at r a k) = take k (ring_walk r a b)" "ring_walk r (ring_at r a k) b = drop k (ring_walk r a b)"
    "ring_dist r a (ring_at r a k) = k" "ring_at r a k < NumberOfElements r"
proof -
  have n: "NumberOfElements r \<noteq> 0" using assms(2) by auto
  have k: "k < unat (NumberOfElements r)" using ring_dist_less [OF n, of a b] assms(1) by simp
  show d: "ring_dist r a (ring_at r a k) = k" by (rule ring_dist_at [OF assms(2) k])
  show l: "ring_at r a k < NumberOfElements r" by (rule ring_at_less [OF n])
  show t: "ring_walk r a (ring_at r a k) = take k (ring_walk r a b)"
    using assms(1) d by (simp add: ring_walk_def take_map)
  have "ring_walk r a b = ring_walk r a (ring_at r a k) @ ring_walk r (ring_at r a k) b"
    by (rule walk_append) (use assms d l in simp_all)
  then show "ring_walk r (ring_at r a k) b = drop k (ring_walk r a b)"
    using assms(1) by (metis t append_take_drop_id same_append_eq)
qed

definition tx_inv :: "GenetTxQueue \<Rightarrow> bool" where
  "tx_inv q \<longleftrightarrow> tx_ring_ok q \<and> noted q (unat (tx_hwDescs q)) (outstanding q)"

lemma ring_at_updates [simp]:
  "ring_at (r\<lparr>NextIndex := x\<rparr>) = ring_at r" "ring_at (r\<lparr>BeginIndex := x\<rparr>) = ring_at r" "ring_at (r\<lparr>EndIndex := x\<rparr>) = ring_at r"
  by (simp_all add: fun_eq_iff ring_at_def)

lemma ring_dist_updates [simp]:
  "ring_dist (r\<lparr>NextIndex := x\<rparr>) = ring_dist r" "ring_dist (r\<lparr>BeginIndex := x\<rparr>) = ring_dist r" "ring_dist (r\<lparr>EndIndex := x\<rparr>) = ring_dist r"
  by (simp_all add: fun_eq_iff ring_dist_def)

lemma ring_walk_updates [simp]:
  "ring_walk (r\<lparr>NextIndex := x\<rparr>) = ring_walk r" "ring_walk (r\<lparr>BeginIndex := x\<rparr>) = ring_walk r" "ring_walk (r\<lparr>EndIndex := x\<rparr>) = ring_walk r"
  by (simp_all add: fun_eq_iff ring_walk_def)

text \<open>What has been posted is outstanding, and the notes hold of it.\<close>

lemma post_keeps:
  assumes inv: "tx_inv q" and ok: "\<forall>p \<in> set (offered q). packet_ok q p"
  defines "r \<equiv> tx_packetRing q"
  defines "q2 \<equiv> (foldl post_one q (posting q))\<lparr>tx_packetRing := r\<lparr>NextIndex := ring_at r (NextIndex r) (length (posting q))\<rparr>\<rparr>"
  shows "tx_inv q2" "outstanding q2 = outstanding q @ posting q" "tx_static q (foldl post_one q (posting q))"
proof -
  let ?q1 = "foldl post_one q (posting q)" let ?k = "length (posting q)"
  have ring: "BeginIndex r < NumberOfElements r" "NextIndex r < NumberOfElements r" "EndIndex r < NumberOfElements r"
      "ring_dist r (BeginIndex r) (NextIndex r) \<le> ring_dist r (BeginIndex r) (EndIndex r)"
    and num: "tx_numDescs q = BG_NUM_BDS" and prod: "unat (tx_prodIndex q) < 0x10000"
    and noted: "noted q (unat (tx_hwDescs q)) (outstanding q)"
    using inv by (simp_all add: tx_inv_def tx_ring_ok_def Let_def r_def)
  show st: "tx_static q ?q1" by (rule foldl_static)
  obtain k where "k \<le> length (offered q)" "posting q = take k (offered q)"
    using accepted_prefix [of "offered q" q "tx_free q"] by (auto simp: posting_def)
  then have k: "?k \<le> length (offered q)" "posting q = take ?k (offered q)" by simp_all
  have off: "offered q = ring_walk r (NextIndex r) (EndIndex r)" by (simp add: offered_def r_def)
  then have kd: "?k \<le> ring_dist r (NextIndex r) (EndIndex r)" using k(1) by (simp add: ring_walk_def)
  note tw = take_walk [OF kd ring(2,3)]
  have post: "posting q = ring_walk r (NextIndex r) (ring_at r (NextIndex r) ?k)" using k(2) tw(1) off by simp
  note wa = walk_append [OF ring(4,1,2,3)]
  have d: "ring_dist r (BeginIndex r) (NextIndex r) + ?k \<le> ring_dist r (BeginIndex r) (EndIndex r)"
    using kd wa(2) ring(4) by simp
  have nx: "ring_at r (NextIndex r) ?k = ring_at r (BeginIndex r) (ring_dist r (BeginIndex r) (NextIndex r) + ?k)" by (rule wa(3))
  note tb = take_walk [OF d ring(1,3), folded nx]
  have outs: "ring_walk r (BeginIndex r) (ring_at r (NextIndex r) ?k) = outstanding q @ posting q"
    using walk_append(1) [of r "BeginIndex r" "NextIndex r" "ring_at r (NextIndex r) ?k"] tb(3,4) ring(1,2) post [symmetric]
    by (simp add: outstanding_def r_def [symmetric])
  show o2: "outstanding q2 = outstanding q @ posting q" by (simp add: q2_def outstanding_def [of "_\<lparr>tx_packetRing := _\<rparr>"] outs)
  have fits: "unat (tx_hwDescs q) + all_counts q (posting q) \<le> 255"
    using accepted_fits [of q "tx_free q" "offered q"] hwDescs_less [OF num] by (simp add: posting_def tx_free_def)
  have "\<forall>p \<in> set (posting q). packet_ok q p" using ok k(2) by (metis in_set_takeD)
  moreover have "distinct (outstanding q @ posting q)" unfolding outs [symmetric] by (rule distinct_walk [OF ring(1)])
  ultimately have "noted ?q1 (unat (tx_hwDescs q) + all_counts q (posting q)) (outstanding q @ posting q)"
    using noted_posts [OF noted] prod by blast
  then have n1: "noted ?q1 (unat (tx_hwDescs ?q1)) (outstanding q @ posting q)" by (simp add: posts_hwDescs [OF num prod fits])
  have "noted q2 (unat (tx_hwDescs q2)) (outstanding q2)"
    using n1 noted_cong(2) [of "outstanding q @ posting q" q2 ?q1] unfolding o2 by (simp add: q2_def tx_hwDescs_def tx_prodDesc_def)
  moreover have "tx_ring_ok q2"
    using st ring tb(3,4) d num foldl_index [OF prod, of "posting q"]
    by (simp add: tx_ring_ok_def Let_def q2_def tx_static_def)
  ultimately show "tx_inv q2" by (simp add: tx_inv_def)
qed

text \<open>What the end of an advance, which has read \<open>v\<close> for what the controller has consumed, does to the queue.\<close>

definition reclaim_queue :: "u32 \<Rightarrow> GenetTxQueue \<Rightarrow> GenetTxQueue" where
  "reclaim_queue v q = (let q1 = q\<lparr>tx_consIndex := v\<rparr>; ps = reclaimed q (unat (tx_hwDescs q1)) (outstanding q) in
     q1\<lparr>tx_packetRing := (tx_packetRing q)\<lparr>BeginIndex := ring_at (tx_packetRing q) (BeginIndex (tx_packetRing q)) (length ps)\<rparr>,
        tx_fragmentRing := (tx_fragmentRing q)\<lparr>BeginIndex := fragments_end q (BeginIndex (tx_fragmentRing q)) ps\<rparr>\<rparr>)"

lemma counts_cons [simp]:
  "packet_count (q\<lparr>tx_consIndex := v\<rparr>) = packet_count q" "all_counts (q\<lparr>tx_consIndex := v\<rparr>) = all_counts q"
proof -
  show c: "packet_count (q\<lparr>tx_consIndex := v\<rparr>) = packet_count q" by (simp add: fun_eq_iff packet_count_def)
  show "all_counts (q\<lparr>tx_consIndex := v\<rparr>) = all_counts q" by (simp add: fun_eq_iff all_counts_def c)
qed

lemma reclaimed_cons [simp]: "reclaimed (q\<lparr>tx_consIndex := v\<rparr>) = reclaimed q"
proof -
  have "reclaimed (q\<lparr>tx_consIndex := v\<rparr>) hw ps = reclaimed q hw ps" for hw ps
    by (induction ps) simp_all
  then show ?thesis by (simp add: fun_eq_iff)
qed

lemma fragments_cons [simp]: "fragments_end (q\<lparr>tx_consIndex := v\<rparr>) = fragments_end q"
proof -
  have "fragments_end (q\<lparr>tx_consIndex := v\<rparr>) f ps = fragments_end q f ps" for f ps
    by (induction ps arbitrary: f) (simp_all add: fragment_at_def)
  then show ?thesis by (simp add: fun_eq_iff)
qed

lemma reclaimed_prefix: "reclaimed q hw ps = take (length (reclaimed q hw ps)) ps" "length (reclaimed q hw ps) \<le> length ps"
  by (induction ps) simp_all

lemma tx_reclaim_run:
  assumes inc: "ring_steps inc" and inv: "tx_inv (txQueue w)" and run: "run_state (tx_reclaim os inc) w = (res, w')"
  defines "c \<equiv> Mm (ReadRegister (Rings TDMA TDMA_Cons_Index))"
  shows "res" "txQueue w' = reclaim_queue (r_val (os (trace w) c)) (txQueue w)" "tx_calls [c] w w'"
    "trace w' = trace w @ [(c, os (trace w) c)]"
proof -
  let ?q = "txQueue w" let ?v = "r_val (os (trace w) c)" let ?q1 = "?q\<lparr>tx_consIndex := ?v\<rparr>" let ?r = "tx_packetRing ?q"
  let ?ps = "reclaimed ?q (unat (tx_hwDescs ?q1)) (outstanding ?q)"
  have ring: "BeginIndex ?r < NumberOfElements ?r" "NextIndex ?r < NumberOfElements ?r"
    and num: "tx_numDescs ?q1 = BG_NUM_BDS" and noted: "noted ?q (unat (tx_hwDescs ?q)) (outstanding ?q)"
    and num0: "tx_numDescs ?q = BG_NUM_BDS"
    using inv by (simp_all add: tx_inv_def tx_ring_ok_def Let_def)
  then have n: "NumberOfElements ?r \<noteq> 0" by auto
  have hw: "unat (tx_hwDescs ?q) \<le> 255" using hwDescs_less [OF num0] by simp
  have o: "outstanding ?q = map (ring_at ?r (BeginIndex ?r)) [0 ..< ring_dist ?r (BeginIndex ?r) (NextIndex ?r)]"
    by (simp add: outstanding_def ring_walk_def)
  have noted1: "noted ?q1 (unat (tx_hwDescs ?q)) (map (ring_at ?r (BeginIndex ?r)) [0 ..< ring_dist ?r (BeginIndex ?r) (NextIndex ?r)])"
    using noted noted_cong(2) [of "outstanding ?q" ?q1 ?q] unfolding o [symmetric] by simp
  have r1: "tx_packetRing ?q1 = ?r" by simp
  have fuel: "ring_dist ?r (BeginIndex ?r) (NextIndex ?r) - 0 < Suc (unat (NumberOfElements ?r))"
    using ring_dist_less [OF n, of "BeginIndex ?r" "NextIndex ?r"] by simp
  have rec: "reclaim_packets inc ?q1 (Suc (unat (NumberOfElements ?r))) (tx_prodDesc ?q1) (tx_hwDescs ?q1) (BeginIndex ?r)
      (BeginIndex (tx_fragmentRing ?q)) = Some (ring_at ?r (BeginIndex ?r) (length ?ps), fragments_end ?q (BeginIndex (tx_fragmentRing ?q)) ?ps)"
    using reclaim_run [OF inc ring r1 num hw noted1 le0 fuel, of "tx_hwDescs ?q1" "BeginIndex (tx_fragmentRing ?q)", folded o] ring(1)
    by (simp del: reclaim_packets.simps)
  have r: "res" "w' = w\<lparr>trace := trace w @ [(c, os (trace w) c)], txQueue := reclaim_queue ?v ?q\<rparr>"
    using run rec by (auto simp: tx_reclaim_def Let_def reclaim_queue_def c_def simp del: reclaim_packets.simps)
  show "res" by (rule r(1))
  show "txQueue w' = reclaim_queue ?v ?q" "tx_calls [c] w w'" "trace w' = trace w @ [(c, os (trace w) c)]"
    by (simp_all add: r(2) tx_calls_def)
qed

lemma reclaim_keeps:
  assumes inv: "tx_inv q"
  shows "tx_inv (reclaim_queue v q)"
    "outstanding (reclaim_queue v q) = drop (length (reclaimed q (unat (tx_hwDescs (reclaim_queue v q))) (outstanding q))) (outstanding q)"
proof -
  let ?q = "reclaim_queue v q" let ?r = "tx_packetRing q"
  have hw: "tx_hwDescs ?q = tx_hwDescs (q\<lparr>tx_consIndex := v\<rparr>)"
    by (simp add: reclaim_queue_def Let_def tx_hwDescs_def tx_prodDesc_def)
  define ps where "ps = reclaimed q (unat (tx_hwDescs ?q)) (outstanding q)"
  have q': "?q = q\<lparr>tx_consIndex := v, tx_packetRing := ?r\<lparr>BeginIndex := ring_at ?r (BeginIndex ?r) (length ps)\<rparr>,
      tx_fragmentRing := (tx_fragmentRing q)\<lparr>BeginIndex := fragments_end q (BeginIndex (tx_fragmentRing q)) ps\<rparr>\<rparr>"
    unfolding ps_def hw by (simp add: reclaim_queue_def Let_def)
  have ring: "BeginIndex ?r < NumberOfElements ?r" "NextIndex ?r < NumberOfElements ?r" "EndIndex ?r < NumberOfElements ?r"
      "ring_dist ?r (BeginIndex ?r) (NextIndex ?r) \<le> ring_dist ?r (BeginIndex ?r) (EndIndex ?r)"
    using inv by (simp_all add: tx_inv_def tx_ring_ok_def Let_def)
  have k: "length ps \<le> ring_dist ?r (BeginIndex ?r) (NextIndex ?r)"
    using reclaimed_prefix(2) [of q "unat (tx_hwDescs ?q)" "outstanding q"] by (simp add: ps_def outstanding_def ring_walk_def)
  note tw = take_walk [OF k ring(1,2)]
  have d: "ring_dist ?r (ring_at ?r (BeginIndex ?r) (length ps)) x = ring_dist ?r (BeginIndex ?r) x - length ps"
    if "length ps \<le> ring_dist ?r (BeginIndex ?r) x" "x < NumberOfElements ?r" for x
    using walk_append(2) [of ?r "BeginIndex ?r" "ring_at ?r (BeginIndex ?r) (length ps)" x] that ring(1) tw(3,4) by simp
  have out: "outstanding ?q = drop (length ps) (outstanding q)" unfolding q' by (simp add: outstanding_def tw(2))
  then show "outstanding ?q = drop (length (reclaimed q (unat (tx_hwDescs ?q)) (outstanding q))) (outstanding q)" by (simp add: ps_def)
  have "noted q (unat (tx_hwDescs ?q)) (outstanding ?q)"
    unfolding out ps_def by (rule noted_kept [of q "unat (tx_hwDescs q)"]) (use inv in \<open>simp add: tx_inv_def\<close>)
  then have "noted ?q (unat (tx_hwDescs ?q)) (outstanding ?q)"
    using noted_cong(2) [of "outstanding ?q" ?q q] by (simp add: q')
  moreover have "tx_ring_ok ?q"
    using inv tw(4) d [of "NextIndex ?r"] d [of "EndIndex ?r"] k ring unfolding q' by (simp add: tx_inv_def tx_ring_ok_def Let_def)
  ultimately show "tx_inv ?q" by (simp add: tx_inv_def)
qed

text \<open>A queue in use: the notes hold, and the packets still offered are well formed.\<close>

definition tx_live :: "GenetTxQueue \<Rightarrow> bool" where
  "tx_live q \<longleftrightarrow> tx_inv q \<and> (\<forall>p \<in> set (offered q). packet_ok q p)"

definition posted_queue :: "GenetTxQueue \<Rightarrow> GenetTxQueue" where
  "posted_queue q = (let r = tx_packetRing q in
     (foldl post_one q (posting q))\<lparr>tx_packetRing := r\<lparr>NextIndex := ring_at r (NextIndex r) (length (posting q))\<rparr>\<rparr>)"

lemma posted_queue_fields:
  "tx_packets (posted_queue q) = tx_packets q" "NumberOfElements (tx_fragmentRing (posted_queue q)) = NumberOfElements (tx_fragmentRing q)"
  "BeginIndex (tx_fragmentRing (posted_queue q)) = BeginIndex (tx_fragmentRing q)"
  "tx_packetRing (posted_queue q) = (tx_packetRing q)\<lparr>NextIndex := ring_at (tx_packetRing q) (NextIndex (tx_packetRing q)) (length (posting q))\<rparr>"
  using foldl_static [of q "posting q"] by (simp_all add: posted_queue_def Let_def tx_static_def)

lemma posting_take: "posting q = take (length (posting q)) (offered q)" "length (posting q) \<le> length (offered q)"
proof -
  obtain k where "k \<le> length (offered q)" "posting q = take k (offered q)"
    using accepted_prefix [of "offered q" q "tx_free q"] by (auto simp: posting_def)
  then show "posting q = take (length (posting q)) (offered q)" "length (posting q) \<le> length (offered q)" by simp_all
qed

lemma posted_offers:
  assumes "tx_inv q"
  shows "offered (posted_queue q) = drop (length (posting q)) (offered q)"
proof -
  let ?r = "tx_packetRing q"
  have ring: "NextIndex ?r < NumberOfElements ?r" "EndIndex ?r < NumberOfElements ?r"
    using assms by (simp_all add: tx_inv_def tx_ring_ok_def Let_def)
  have "length (posting q) \<le> ring_dist ?r (NextIndex ?r) (EndIndex ?r)"
    using posting_take(2) [of q] by (simp add: offered_def ring_walk_def)
  from take_walk(2) [OF this ring] show ?thesis by (simp add: offered_def posted_queue_fields)
qed

lemma packet_ok_cong:
  "tx_packets q' = tx_packets q \<Longrightarrow> NumberOfElements (tx_fragmentRing q') = NumberOfElements (tx_fragmentRing q) \<Longrightarrow> packet_ok q' = packet_ok q"
  by (simp add: fun_eq_iff packet_ok_def)

lemma advance_run:
  assumes inc: "ring_steps inc" and live: "tx_live (txQueue w)" and run: "run_state (GenetTxQueueAdvance os inc) w = (res, w')"
  defines "q \<equiv> txQueue w" and "c \<equiv> Mm (ReadRegister (Rings TDMA TDMA_Cons_Index))"
  shows "res" "\<exists>es. trace w' = trace w @ es @ [(c, os (trace w @ es) c)] \<and>
      txQueue w' = reclaim_queue (r_val (os (trace w @ es) c)) (posted_queue q)"
    "tx_live (txQueue w')"
    "tx_calls (ring_calls (unat (tx_prodIndex q)) (posting_descs q) @ (if posting_descs q = [] then []
       else [Mm (WriteRegister (Rings TDMA TDMA_Prod_Index) (tx_prodIndex (txQueue w')))]) @ [c]) w w'"
proof -
  have inv: "tx_inv q" and ok: "\<forall>p \<in> set (offered q). packet_ok q p" using live by (simp_all add: tx_live_def q_def)
  obtain one w1 where post: "run_state (tx_post os inc) w = (one, w1)" by (metis prod.exhaust)
  have ring_ok: "tx_ring_ok (txQueue w)" using inv by (simp add: tx_inv_def q_def)
  note p = tx_post_run [OF inc ring_ok ok [unfolded q_def] post, folded q_def]
  have q1: "txQueue w1 = posted_queue q" using p(2) by (simp add: posted_queue_def Let_def)
  have inv1: "tx_inv (txQueue w1)" using post_keeps(1) [OF inv ok] unfolding q1 by (simp add: posted_queue_def Let_def)
  have rec: "run_state (tx_reclaim os inc) w1 = (res, w')" using run post p(1) by (simp add: GenetTxQueueAdvance_def)
  note t = tx_reclaim_run [OF inc inv1 rec, unfolded q1]
  show "res" by (rule t(1))
  show "\<exists>es. trace w' = trace w @ es @ [(c, os (trace w @ es) c)] \<and>
      txQueue w' = reclaim_queue (r_val (os (trace w @ es) c)) (posted_queue q)"
    using t(2,4) p(3) by (auto simp: tx_calls_def c_def)
  have prod: "tx_prodIndex (txQueue w') = tx_prodIndex (foldl post_one q (posting q))"
    by (simp add: t(2) reclaim_queue_def posted_queue_def Let_def)
  show "tx_calls (ring_calls (unat (tx_prodIndex q)) (posting_descs q) @ (if posting_descs q = [] then []
       else [Mm (WriteRegister (Rings TDMA TDMA_Prod_Index) (tx_prodIndex (txQueue w')))]) @ [c]) w w'"
    using tx_calls_append [OF p(3) t(3)] unfolding prod by (simp add: c_def)
  have "offered (txQueue w') = offered (posted_queue q)" by (simp add: t(2) reclaim_queue_def Let_def offered_def)
  moreover have "packet_ok (txQueue w') = packet_ok q"
    by (rule packet_ok_cong) (simp_all add: t(2) reclaim_queue_def Let_def posted_queue_fields)
  ultimately have "\<forall>p \<in> set (offered (txQueue w')). packet_ok (txQueue w') p"
    using ok by (simp add: posted_offers [OF inv]) (meson in_set_dropD)
  then show "tx_live (txQueue w')" using reclaim_keeps(1) [OF inv1] by (simp add: tx_live_def t(2) q1)
qed

section \<open>The life of the queue\<close>

text \<open>
  The stack starts a stopped queue on an empty ring. To offer packets it moves the end of the
  ring on; the elements that the driver already owns stay as they are.
\<close>

definition empty_packets :: "NET_RING \<Rightarrow> bool" where
  "empty_packets r \<longleftrightarrow> BeginIndex r < NumberOfElements r \<and> NextIndex r = BeginIndex r \<and> EndIndex r = BeginIndex r"

definition offers :: "GenetTxQueue \<Rightarrow> GenetTxQueue \<Rightarrow> bool" where
  "offers q q' \<longleftrightarrow> (\<exists>e f pk fr la. q' = q\<lparr>tx_packetRing := (tx_packetRing q)\<lparr>EndIndex := e\<rparr>,
       tx_fragmentRing := (tx_fragmentRing q)\<lparr>EndIndex := f\<rparr>, tx_packets := pk, tx_fragments := fr, tx_logicalAddress := la\<rparr> \<and>
     e < NumberOfElements (tx_packetRing q) \<and> (\<forall>p \<in> set (outstanding q). pk p = tx_packets q p)) \<and>
   (let r = tx_packetRing q in ring_dist r (BeginIndex r) (NextIndex r) \<le> ring_dist r (BeginIndex r) (EndIndex (tx_packetRing q'))) \<and>
   (\<forall>p \<in> set (offered q'). packet_ok q' p)"

type_synonym tx_state = "bool \<times> genet"

inductive tx_step :: "os \<Rightarrow> increment \<Rightarrow> tx_state \<Rightarrow> tx_state \<Rightarrow> bool" for os inc where
  start: "empty_packets r \<Longrightarrow> run_state (GenetTxQueueStart os) (w\<lparr>txQueue := (txQueue w)\<lparr>tx_packetRing := r\<rparr>\<rparr>) = (u, w') \<Longrightarrow>
    tx_step os inc (False, w) (True, w')"
| offer: "offers (txQueue w) q \<Longrightarrow> tx_step os inc (True, w) (True, w\<lparr>txQueue := q\<rparr>)"
| advance: "run_state (GenetTxQueueAdvance os inc) w = (res, w') \<Longrightarrow> tx_step os inc (True, w) (True, w')"
| cancel: "run_state GenetTxQueueCancel w = (u, w') \<Longrightarrow> tx_step os inc (True, w) (True, w')"
| stop: "run_state (GenetTxQueueStop os) w = (u, w') \<Longrightarrow> tx_step os inc (True, w) (False, w')"

definition tx_reached :: "tx_state \<Rightarrow> bool" where
  "tx_reached s = (case s of (running, w) \<Rightarrow> tx_numDescs (txQueue w) = BG_NUM_BDS \<and> (running \<longrightarrow> tx_live (txQueue w)))"

definition tx_view :: "GenetTxQueue \<Rightarrow> genet \<Rightarrow> bool" where
  "tx_view q w \<longleftrightarrow> txQueue w = q"

lemma tx_view_registers [keep]:
  "keeps (tx_view q) (GRD os reg)" "keeps (tx_view q) (GWR os reg v)" "keeps (tx_view q) (stall os n)" "keeps (tx_view q) (ext os c)"
  by (simp_all add: keeps_def tx_view_def)

lemma tx_view_locked [keep]: "keeps (tx_view q) m \<Longrightarrow> keeps (tx_view q) (adapter_locked os m)"
  unfolding adapter_locked_def by (intro keep)

lemma tx_view_set [keep]:
  "keeps (tx_view q) (set_register os reg v)" "keeps (tx_view q) (clear_register os reg v)"
  unfolding set_register_def clear_register_def by (intro keep)+

lemma tx_view_interrupt [keep]: "keeps (tx_view q) (GenetTxInterruptSet os b)"
  by (simp add: keeps_def tx_view_def GenetTxInterruptSet_def GenetInterruptSetCommon_def)

lemma tx_start_run:
  assumes "run_state (GenetTxQueueStart os) w = (u, w')"
  shows "txQueue w' = (txQueue w)\<lparr>tx_prodIndex := 0, tx_consIndex := 0\<rparr>"
proof -
  let ?q = "(txQueue w)\<lparr>tx_prodIndex := 0, tx_consIndex := 0\<rparr>"
  have k: "keeps (tx_view ?q) (tx_start_registers os)" unfolding tx_start_registers_def by (intro keep)
  have "run_state (tx_start_registers os) (w\<lparr>txQueue := ?q\<rparr>) = (u, w')" using assms by (simp add: GenetTxQueueStart_def)
  from keeps_run [OF k this] show ?thesis by (simp add: tx_view_def)
qed

lemma tx_stop_run: "run_state (GenetTxQueueStop os) w = (u, w') \<Longrightarrow> txQueue w' = txQueue w"
proof -
  assume run: "run_state (GenetTxQueueStop os) w = (u, w')"
  have "keeps (tx_view (txQueue w)) (GenetTxQueueStop os)" unfolding GenetTxQueueStop_def by (intro keep)
  from keeps_run [OF this run] show ?thesis by (simp add: tx_view_def)
qed

lemma started_live:
  assumes "tx_numDescs q = BG_NUM_BDS" "empty_packets (tx_packetRing q)"
  shows "tx_live (q\<lparr>tx_prodIndex := 0, tx_consIndex := 0\<rparr>)"
proof -
  let ?r = "tx_packetRing q"
  have d: "ring_dist ?r (BeginIndex ?r) (BeginIndex ?r) = 0"
    using assms(2) by (simp add: empty_packets_def ring_dist_def cyclic_dist_0 word_less_nat_alt)
  then show ?thesis
    using assms by (simp add: tx_live_def tx_inv_def tx_ring_ok_def Let_def empty_packets_def outstanding_def offered_def ring_walk_def)
qed

lemma offer_live:
  assumes live: "tx_live q" and off: "offers q q'"
  shows "tx_live q'" "tx_numDescs q' = tx_numDescs q"
proof -
  obtain e f pk fr la where q': "q' = q\<lparr>tx_packetRing := (tx_packetRing q)\<lparr>EndIndex := e\<rparr>,
      tx_fragmentRing := (tx_fragmentRing q)\<lparr>EndIndex := f\<rparr>, tx_packets := pk, tx_fragments := fr, tx_logicalAddress := la\<rparr>"
    "e < NumberOfElements (tx_packetRing q)" "\<forall>p \<in> set (outstanding q). pk p = tx_packets q p"
    using off by (auto simp: offers_def)
  have o: "outstanding q' = outstanding q" by (simp add: q'(1) outstanding_def)
  have hw: "tx_hwDescs q' = tx_hwDescs q" by (simp add: q'(1) tx_hwDescs_def tx_prodDesc_def)
  have "noted q' (unat (tx_hwDescs q')) (outstanding q')"
    using live q'(3) noted_cong(2) [of "outstanding q" q' q] unfolding o hw by (simp add: tx_live_def tx_inv_def q'(1))
  moreover have "tx_ring_ok q'" using live off q'(2) by (simp add: tx_live_def tx_inv_def tx_ring_ok_def Let_def offers_def q'(1))
  ultimately show "tx_live q'" using off by (simp add: tx_live_def tx_inv_def offers_def)
  show "tx_numDescs q' = tx_numDescs q" by (simp add: q'(1))
qed

lemma tx_step_keeps:
  assumes "ring_steps inc" "tx_step os inc s s'" "tx_reached s"
  shows "tx_reached s'"
  using assms(2)
proof cases
  case (start r w u w')
  have "txQueue w' = ((txQueue w)\<lparr>tx_packetRing := r\<rparr>)\<lparr>tx_prodIndex := 0, tx_consIndex := 0\<rparr>"
    using tx_start_run [OF start(4)] by simp
  then show ?thesis
    using start assms(3) started_live [of "(txQueue w)\<lparr>tx_packetRing := r\<rparr>"] by (simp add: tx_reached_def)
next
  case (offer w q)
  then show ?thesis using assms(3) offer_live [of "txQueue w" q] by (simp add: tx_reached_def)
next
  case (advance w res w')
  then have "tx_live (txQueue w)" using assms(3) by (simp add: tx_reached_def)
  from advance_run(3) [OF assms(1) this advance(3)] have "tx_live (txQueue w')" .
  then show ?thesis using advance by (simp add: tx_reached_def tx_live_def tx_inv_def tx_ring_ok_def)
next
  case (cancel w u w')
  then show ?thesis using assms(3) by (simp add: GenetTxQueueCancel_def)
next
  case (stop w u w')
  then show ?thesis using assms(3) tx_stop_run [OF stop(3)] by (simp add: tx_reached_def)
qed

lemma tx_reached:
  assumes "ring_steps inc" "run_state (GenetCreateTxQueue os rings) w = (st, w0)" "NT_SUCCESS st"
    "(tx_step os inc)\<^sup>*\<^sup>* (False, w0) s"
  shows "tx_reached s"
  using assms(4)
proof (induction rule: rtranclp_induct)
  case base
  show ?case using assms(2,3) by (auto simp: tx_reached_def GenetCreateTxQueue_def split: if_splits)
next
  case (step s s')
  then show ?case using tx_step_keeps [OF assms(1)] by blast
qed

text \<open>
  C9. Posting. Whatever the network stack has offered since the queue was created, an advance writes, for
  the longest prefix of the offered packets whose fragments fit into the free descriptors and in
  this order, one descriptor for each fragment into consecutive places of the controller's ring, then
  publishes the new end of the ring if anything was written, and reads what has been consumed;
  it leaves one descriptor empty, and returns.
\<close>
theorem tx_advance_posts:
  assumes "ring_steps inc" "run_state (GenetCreateTxQueue os rings) w = (st, w0)" "NT_SUCCESS st"
    "(tx_step os inc)\<^sup>*\<^sup>* (False, w0) (True, w1)" "run_state (GenetTxQueueAdvance os inc) w1 = (res, w')"
  shows "res \<and> length (posting_descs (txQueue w1)) \<le> tx_free (txQueue w1) \<and>
    tx_calls (ring_calls (unat (tx_prodIndex (txQueue w1))) (posting_descs (txQueue w1)) @
      (if posting_descs (txQueue w1) = [] then []
       else [Mm (WriteRegister (Rings TDMA TDMA_Prod_Index) (tx_prodIndex (txQueue w')))]) @
      [Mm (ReadRegister (Rings TDMA TDMA_Cons_Index))]) w1 w'"
proof -
  have live: "tx_live (txQueue w1)" using tx_reached [OF assms(1-4)] by (simp add: tx_reached_def)
  have "length (posting_descs (txQueue w1)) \<le> tx_free (txQueue w1)"
    unfolding posting_descs_def length_concat_descs posting_def by (rule accepted_fits)
  then show ?thesis using advance_run(1,4) [OF assms(1) live assms(5)] by simp
qed

lemma reclaimed_all:
  "reclaimed q hw ps = xs @ p # rest \<Longrightarrow> ps = reclaimed q hw ps @ tail \<Longrightarrow>
   Ignore (tx_packets q p) \<or> hw \<le> all_counts q (rest @ tail)"
proof (induction ps arbitrary: xs)
  case (Cons x ps)
  let ?t = "Ignore (tx_packets q x) \<or> hw \<le> all_counts q ps"
  have t: "?t" using Cons.prems(1) by (auto split: if_splits)
  then have ps: "ps = reclaimed q hw ps @ tail" using Cons.prems(2) by simp
  show ?case
  proof (cases xs)
    case Nil
    then have "x = p" "reclaimed q hw ps = rest" using Cons.prems(1) t by simp_all
    then show ?thesis using t ps by simp
  next
    case (Cons y ys)
    then have "reclaimed q hw ps = ys @ p # rest" using Cons.prems(1) t by simp
    then show ?thesis by (rule Cons.IH [OF _ ps])
  qed
qed simp

lemma reclaimed_next:
  "drop (length (reclaimed q hw ps)) ps = p # rest \<Longrightarrow> \<not> Ignore (tx_packets q p) \<and> all_counts q rest < hw"
  by (induction ps) (auto split: if_splits)

text \<open>
  C8. Reclaiming. An advance ends with a read of the controller's consumer index, and takes back
  from the outstanding packets exactly those at the front whose descriptors the controller has all
  consumed by that index (or that are to be ignored): the descriptors still in use are those
  between the answer of the controller and the end of what has been posted, and a packet is given
  back when no fewer descriptors follow it than are in use. The first packet left has a descriptor
  in use. The fragments given back end where those of the last such packet do.
\<close>
theorem tx_reclaims_consumed:
  assumes "ring_steps inc" "run_state (GenetCreateTxQueue os rings) w = (st, w0)" "NT_SUCCESS st"
    "(tx_step os inc)\<^sup>*\<^sup>* (False, w0) (True, w1)" "run_state (GenetTxQueueAdvance os inc) w1 = (res, w')"
  defines "q \<equiv> txQueue w1" and "q' \<equiv> txQueue w'"
  defines "c \<equiv> Mm (ReadRegister (Rings TDMA TDMA_Cons_Index))"
  shows "\<exists>es r given_back. trace w' = trace w1 @ es @ [(c, r)] \<and> r = os (trace w1 @ es) c \<and>
    unat (tx_prodIndex q') = (unat (tx_prodIndex q) + length (posting_descs q)) mod 0x10000 \<and>
    outstanding q @ posting q = given_back @ outstanding q' \<and>
    (\<forall>xs p rest. given_back = xs @ p # rest \<longrightarrow>
       Ignore (tx_packets q p) \<or> descs_in_use (tx_prodIndex q') (r_val r) \<le> all_counts q (rest @ outstanding q')) \<and>
    (\<forall>p rest. outstanding q' = p # rest \<longrightarrow>
       \<not> Ignore (tx_packets q p) \<and> all_counts q rest < descs_in_use (tx_prodIndex q') (r_val r)) \<and>
    BeginIndex (tx_fragmentRing q') = fragments_end q (BeginIndex (tx_fragmentRing q)) given_back"
proof -
  have live: "tx_live q" using tx_reached [OF assms(1-4)] by (simp add: tx_reached_def q_def)
  then have inv: "tx_inv q" "\<forall>p \<in> set (offered q). packet_ok q p" by (simp_all add: tx_live_def)
  obtain es r where read: "trace w' = trace w1 @ es @ [(c, r)]" "r = os (trace w1 @ es) c"
    and q': "q' = reclaim_queue (r_val r) (posted_queue q)"
    using advance_run(2) [OF assms(1) live [unfolded q_def] assms(5)] by (auto simp: q_def q'_def c_def)
  have num: "tx_numDescs q = BG_NUM_BDS" and small: "unat (tx_prodIndex q) < 0x10000"
    using inv(1) by (simp_all add: tx_inv_def tx_ring_ok_def Let_def)
  have prod: "unat (tx_prodIndex q') = (unat (tx_prodIndex q) + length (posting_descs q)) mod 0x10000"
    using foldl_index [OF small, of "posting q"]
    by (simp add: q' reclaim_queue_def Let_def posted_queue_def posting_descs_def length_concat_descs)
  have "tx_numDescs q' = BG_NUM_BDS"
    using num foldl_static [of q "posting q"] by (simp add: q' reclaim_queue_def Let_def posted_queue_def tx_static_def)
  moreover have "tx_consIndex q' = r_val r" by (simp add: q' reclaim_queue_def Let_def)
  ultimately have used: "descs_in_use (tx_prodIndex q') (r_val r) = unat (tx_hwDescs q')"
    using unat_hwDescs_in_use [of q'] by simp
  note p = post_keeps [OF inv, folded posted_queue_def [unfolded Let_def, of q]]
  let ?h = "unat (tx_hwDescs q')" let ?ps = "reclaimed (posted_queue q) ?h (outstanding q @ posting q)"
  have cnt: "packet_count (posted_queue q) = packet_count q" by (simp add: fun_eq_iff packet_count_def posted_queue_fields)
  have f: "fragment_at (posted_queue q) = fragment_at q"
    by (simp add: fun_eq_iff fragment_at_def posted_queue_fields ring_at_static [of "tx_fragmentRing (posted_queue q)" "tx_fragmentRing q"])
  have rec: "?ps = reclaimed q ?h (outstanding q @ posting q)"
  proof -
    have "reclaimed (posted_queue q) ?h ps = reclaimed q ?h ps" for ps
      by (induction ps) (simp_all add: cnt all_counts_def posted_queue_fields)
    then show ?thesis by simp
  qed
  have e: "fragments_end (posted_queue q) x ps = fragments_end q x ps" for x ps
    by (induction ps arbitrary: x) (simp_all add: cnt f posted_queue_fields)
  have out: "outstanding q' = drop (length ?ps) (outstanding q @ posting q)"
    using reclaim_keeps(2) [OF p(1)] by (simp only: q' p(2))
  define given_back where "given_back = ?ps"
  have split: "outstanding q @ posting q = given_back @ outstanding q'"
    unfolding given_back_def out by (metis append_take_drop_id reclaimed_prefix(1))
  have ends: "BeginIndex (tx_fragmentRing q') = fragments_end q (BeginIndex (tx_fragmentRing q)) given_back"
  proof -
    have "tx_hwDescs q' = tx_hwDescs ((posted_queue q)\<lparr>tx_consIndex := r_val r\<rparr>)"
      by (simp add: q' reclaim_queue_def Let_def tx_hwDescs_def tx_prodDesc_def)
    then show ?thesis by (simp add: given_back_def q' reclaim_queue_def Let_def e p(2) posted_queue_fields)
  qed
  have gb: "given_back = reclaimed q ?h (outstanding q @ posting q)" by (simp only: given_back_def rec)
  have all: "\<forall>xs p rest. given_back = xs @ p # rest \<longrightarrow>
      Ignore (tx_packets q p) \<or> descs_in_use (tx_prodIndex q') (r_val r) \<le> all_counts q (rest @ outstanding q')"
    using reclaimed_all split unfolding gb used by blast
  have left: "\<forall>p rest. outstanding q' = p # rest \<longrightarrow> \<not> Ignore (tx_packets q p) \<and>
      all_counts q rest < descs_in_use (tx_prodIndex q') (r_val r)"
    using reclaimed_next out [unfolded rec] unfolding used by metis
  show ?thesis
    by (rule exI [of _ es], rule exI [of _ r], rule exI [of _ given_back], intro conjI) (fact read prod split all left ends)+
qed

section \<open>Witnesses\<close>

text \<open>A controller that has sent the one fragment of 60 bytes that it is offered.\<close>

definition sent_os :: os where
  "sent_os tr c = ok_reply\<lparr>r_val := (if c = Mm (ReadRegister (Rings TDMA TDMA_Cons_Index)) then 1 else 0)\<rparr>"

definition tx_example_created :: genet where
  "tx_example_created = snd (run_state (GenetCreateTxQueue sent_os empty_tx) idle_genet)"

definition tx_example_started :: genet where
  "tx_example_started = snd (run_state (GenetTxQueueStart sent_os)
     (tx_example_created\<lparr>txQueue := (txQueue tx_example_created)\<lparr>tx_packetRing := empty_ring\<rparr>\<rparr>))"

definition tx_example_queue :: GenetTxQueue where
  "tx_example_queue = empty_tx\<lparr>netTxQueue := 1, tx_packetRing := empty_ring\<lparr>EndIndex := 1\<rparr>, tx_fragmentRing := empty_ring\<lparr>EndIndex := 1\<rparr>,
     tx_packets := (\<lambda>_. \<lparr>Ignore = False, FragmentIndex = 0, FragmentCount = 1\<rparr>),
     tx_fragments := (\<lambda>_. \<lparr>Capacity = 64, ValidLength = 60, Offset = 4\<rparr>), tx_logicalAddress := (\<lambda>_. 0x1000)\<rparr>"

definition tx_example_offered :: genet where
  "tx_example_offered = tx_example_started\<lparr>txQueue := tx_example_queue\<rparr>"

lemma sent_os_replies: "r_status (sent_os tr c) = 0" "r_ptr (sent_os tr c) = 1"
  by (simp_all add: sent_os_def ok_reply_def)

lemma tx_example_creation:
  "run_state (GenetCreateTxQueue sent_os empty_tx) idle_genet = (STATUS_SUCCESS, tx_example_created)"
  "txQueue tx_example_created = empty_tx\<lparr>netTxQueue := 1\<rparr>"
  by (simp_all add: tx_example_created_def GenetCreateTxQueue_def sent_os_replies empty_tx_def)

lemma tx_example_start_queue: "txQueue tx_example_started = empty_tx\<lparr>netTxQueue := 1\<rparr>"
proof -
  have "run_state (GenetTxQueueStart sent_os) (tx_example_created\<lparr>txQueue := (txQueue tx_example_created)\<lparr>tx_packetRing := empty_ring\<rparr>\<rparr>) =
      ((), tx_example_started)"
    by (simp add: tx_example_started_def prod_eq_iff)
  from tx_start_run [OF this] show ?thesis by (simp add: tx_example_creation(2) empty_tx_def)
qed

lemma tx_example_offers:
  "offered tx_example_queue = [0]" "packet_count tx_example_queue 0 = 1" "unat (tx_hwDescs tx_example_queue) = 0"
  by (simp_all add: offered_def tx_example_queue_def empty_ring_def empty_tx_def ring_walk_def ring_dist_def cyclic_dist_def
    packet_count_def unat_hwDescs ring_at_def)

lemma tx_example_reached: "(tx_step sent_os ring_next)\<^sup>*\<^sup>* (False, tx_example_created) (True, tx_example_offered)"
proof -
  have "tx_step sent_os ring_next (False, tx_example_created) (True, tx_example_started)"
    by (rule tx_step.start [where r = empty_ring]) (simp_all add: empty_packets_def empty_ring_def tx_example_started_def prod_eq_iff)
  moreover have "offers (txQueue tx_example_started) tx_example_queue"
    unfolding tx_example_start_queue offers_def tx_example_offers
    by (intro conjI exI, simp_all add: tx_example_queue_def empty_tx_def empty_ring_def packet_ok_def ring_dist_def cyclic_dist_def
      outstanding_def ring_walk_def, simp)
  from tx_step.offer [OF this] have "tx_step sent_os ring_next (True, tx_example_started) (True, tx_example_offered)"
    by (simp only: tx_example_offered_def)
  ultimately show ?thesis by (meson converse_rtranclp_into_rtranclp rtranclp.rtrancl_refl)
qed

lemma tx_example_posting:
  "posting tx_example_queue = [0]" "posting_descs tx_example_queue = [(0x3c7fc0, 0x1004)]" "outstanding tx_example_queue = []"
proof -
  show p: "posting tx_example_queue = [0]"
    unfolding posting_def tx_example_offers tx_free_def by (simp add: tx_example_offers)
  show "posting_descs tx_example_queue = [(0x3c7fc0, 0x1004)]"
    unfolding posting_descs_def p by (simp add: packet_descs_def tx_example_offers)
      (simp add: tx_length_status_def tx_address_def tx_example_queue_def fragment_at_def ring_at_def empty_ring_def empty_tx_def)
  show "outstanding tx_example_queue = []"
    by (simp add: outstanding_def tx_example_queue_def empty_ring_def empty_tx_def ring_walk_def ring_dist_def cyclic_dist_def)
qed

theorem tx_advance_posts_witness:
  "tx_calls [Mm (WriteRegister (BDs TDMA 0 Length_Status) 0x3c7fc0), Mm (WriteRegister (BDs TDMA 0 Address_Lo) 0x1004),
       Mm (WriteRegister (BDs TDMA 0 Address_Hi) 0), Mm (WriteRegister (Rings TDMA TDMA_Prod_Index)
         (tx_prodIndex (txQueue (snd (run_state (GenetTxQueueAdvance sent_os ring_next) tx_example_offered))))),
       Mm (ReadRegister (Rings TDMA TDMA_Cons_Index))]
     tx_example_offered (snd (run_state (GenetTxQueueAdvance sent_os ring_next) tx_example_offered))"
proof -
  have q: "txQueue tx_example_offered = tx_example_queue" "unat (tx_prodIndex tx_example_queue) = 0"
    by (simp_all add: tx_example_offered_def tx_example_queue_def empty_tx_def)
  have "NT_SUCCESS STATUS_SUCCESS" by simp
  from tx_advance_posts [OF ring_next_steps tx_example_creation(1) this tx_example_reached prod.collapse [symmetric]]
  show ?thesis by (simp add: q tx_example_posting desc_calls_def)
qed

theorem tx_reclaims_consumed_witness:
  "outstanding (txQueue (snd (run_state (GenetTxQueueAdvance sent_os ring_next) tx_example_offered))) = []"
proof -
  let ?w' = "snd (run_state (GenetTxQueueAdvance sent_os ring_next) tx_example_offered)"
  have q: "txQueue tx_example_offered = tx_example_queue" "unat (tx_prodIndex tx_example_queue) = 0"
    by (simp_all add: tx_example_offered_def tx_example_queue_def empty_tx_def)
  have val: "r_val (sent_os tr (Mm (ReadRegister (Rings TDMA TDMA_Cons_Index)))) = 1" for tr
    by (simp add: sent_os_def)
  have "NT_SUCCESS STATUS_SUCCESS" by simp
  from tx_reclaims_consumed [OF ring_next_steps tx_example_creation(1) this tx_example_reached prod.collapse [symmetric]]
  have "unat (tx_prodIndex (txQueue ?w')) = 1"
    and rest: "\<forall>p rest. outstanding (txQueue ?w') = p # rest \<longrightarrow> all_counts tx_example_queue rest < descs_in_use (tx_prodIndex (txQueue ?w')) 1"
    unfolding q tx_example_posting by (auto simp: val q)
  then have "descs_in_use (tx_prodIndex (txQueue ?w')) 1 = 0" by (simp add: descs_in_use_def)
  with rest show ?thesis by (cases "outstanding (txQueue ?w')") auto
qed

end
