(* ===== verification/Genet_Frames.thy ===== *)
theory Genet_Frames
  imports Genet_TxQueue
begin

text \<open>
  What the transmit queue writes is a sequence of well-formed frames, one for each packet.
\<close>

lemma high_and_low:
  fixes x m :: u32
  assumes "take_bit 16 m = m"
  shows "push_bit 16 x AND m = 0"
proof (rule bit_word_eqI)
  fix n
  have "bit m n \<Longrightarrow> n < 16" using bit_take_bit_iff [of 16 m n] assms by simp
  then show "bit (push_bit 16 x AND m) n = bit (0 :: u32) n" by (auto simp: bit_simps)
qed

lemma frame_bits:
  "tx_length_status k n f AND BG_DMA_BG_STATUS_SOP \<noteq> 0 \<longleftrightarrow> k = 0"
  "tx_length_status k n f AND BG_DMA_BG_STATUS_EOP \<noteq> 0 \<longleftrightarrow> k + 1 = ucast n"
  "drop_bit 16 (tx_length_status k n f) = ucast (ucast (ValidLength f) :: u16)"
proof -
  have s: "push_bit 16 x AND 0x2000 = (0 :: u32)" "push_bit 16 x AND 0x4000 = (0 :: u32)" for x
    by (rule high_and_low; simp)+
  show "tx_length_status k n f AND BG_DMA_BG_STATUS_SOP \<noteq> 0 \<longleftrightarrow> k = 0"
    by (simp add: tx_length_status_def bit.conj_disj_distrib2 s)
  show "tx_length_status k n f AND BG_DMA_BG_STATUS_EOP \<noteq> 0 \<longleftrightarrow> k + 1 = ucast n"
    by (simp add: tx_length_status_def bit.conj_disj_distrib2 s)
  have "drop_bit 16 (push_bit 16 (ucast x :: u32)) = ucast x" for x :: u16
    by (rule bit_word_eqI) (auto simp: bit_simps dest: bit_imp_le_length)
  then show "drop_bit 16 (tx_length_status k n f) = ucast (ucast (ValidLength f) :: u16)"
    by (simp add: tx_length_status_def drop_bit_or)
qed

text \<open>One descriptor for each fragment: the first starts the frame, the last ends it, and the lengths are those of the fragments.\<close>

definition frame_ok :: "NET_FRAGMENT list \<Rightarrow> (u32 \<times> u64) list \<Rightarrow> bool" where
  "frame_ok fs ds \<longleftrightarrow> ds \<noteq> [] \<and> length ds = length fs \<and>
     (\<forall>k < length ds. (fst (ds ! k) AND BG_DMA_BG_STATUS_SOP \<noteq> 0 \<longleftrightarrow> k = 0) \<and>
        (fst (ds ! k) AND BG_DMA_BG_STATUS_EOP \<noteq> 0 \<longleftrightarrow> Suc k = length ds) \<and>
        unat (drop_bit 16 (fst (ds ! k))) = unat (ValidLength (fs ! k)) mod 0x10000)"

definition packet_fragments :: "GenetTxQueue \<Rightarrow> u32 \<Rightarrow> NET_FRAGMENT list" where
  "packet_fragments q p = map (\<lambda>k. tx_fragments q (fragment_at q p k)) [0 ..< packet_count q p]"

lemma packet_frame:
  assumes "packet_ok q p" "\<not> Ignore (tx_packets q p)"
  shows "frame_ok (packet_fragments q p) (packet_descs q p)"
proof -
  let ?n = "packet_count q p"
  have n: "?n = unat (FragmentCount (tx_packets q p))" "0 < ?n" "?n < 65536"
    using assms unat_u16_less [of "FragmentCount (tx_packets q p)"] by (simp_all add: packet_count_def packet_ok_def word_less_nat_alt)
  have first: "(of_nat k :: u32) = 0 \<longleftrightarrow> k = 0" if "k < ?n" for k
    using that n(3) by (simp add: word_unat_eq_iff unat_of_nat_small)
  have last: "(of_nat k :: u32) + 1 = ucast (FragmentCount (tx_packets q p)) \<longleftrightarrow> Suc k = ?n" if "k < ?n" for k
  proof -
    have "(of_nat k :: u32) + 1 = of_nat (Suc k)" by simp
    then have "unat ((of_nat k :: u32) + 1) = Suc k" using that n(3) by (simp only: unat_of_nat_small)
    then show ?thesis by (simp add: word_unat_eq_iff unat_widen n(1))
  qed
  have l: "unat (ucast (ucast x :: u16) :: u32) = unat x mod 0x10000" for x :: u32
    by (simp add: unat_widen unsigned_ucast_eq take_bit_eq_mod unat_mod)
  show ?thesis
    using n(2) first last unfolding frame_ok_def
    by (simp add: packet_descs_def packet_fragments_def frame_bits l)
qed

lemma descs_of_filter: "concat (map (packet_descs q) ps) = concat (map (packet_descs q) (filter (\<lambda>p. \<not> Ignore (tx_packets q p)) ps))"
  by (induction ps) (simp_all add: packet_descs_def packet_count_def)

text \<open>
  C20. An advance writes a sequence of frames, one for each packet it posts that is not to be ignored
  and in their order. Each frame has a descriptor for every fragment, with the length of the fragment;
  its first descriptor, and no other, is marked as its start, its last, and no other, as its end.
\<close>
theorem tx_frames_well_formed:
  assumes "ring_steps inc" "run_state (GenetCreateTxQueue os rings) w = (st, w0)" "NT_SUCCESS st"
    "(tx_step os inc)\<^sup>*\<^sup>* (False, w0) (True, w1)" "run_state (GenetTxQueueAdvance os inc) w1 = (res, w')"
  defines "q \<equiv> txQueue w1"
  shows "\<exists>frames. list_all2 (\<lambda>p. frame_ok (packet_fragments q p)) (filter (\<lambda>p. \<not> Ignore (tx_packets q p)) (posting q)) frames \<and>
    tx_calls (ring_calls (unat (tx_prodIndex q)) (concat frames) @
      (if frames = [] then [] else [Mm (WriteRegister (Rings TDMA TDMA_Prod_Index) (tx_prodIndex (txQueue w')))]) @
      [Mm (ReadRegister (Rings TDMA TDMA_Cons_Index))]) w1 w'"
proof -
  have live: "tx_live q" using tx_reached [OF assms(1-4)] by (simp add: tx_reached_def q_def)
  let ?ps = "filter (\<lambda>p. \<not> Ignore (tx_packets q p)) (posting q)"
  have ok: "packet_ok q p" if "p \<in> set (posting q)" for p
    using that live posting_take(1) [of q] by (metis in_set_takeD tx_live_def)
  define frames where "frames = map (packet_descs q) ?ps"
  have each: "list_all2 (\<lambda>p. frame_ok (packet_fragments q p)) ?ps frames"
    unfolding frames_def list_all2_map2 by (rule list.rel_refl_strong) (simp add: ok packet_frame)
  have descs: "posting_descs q = concat frames" unfolding posting_descs_def frames_def by (rule descs_of_filter)
  have none: "concat frames = [] \<longleftrightarrow> frames = []"
    using ok packet_frame by (auto simp: frames_def frame_ok_def filter_empty_conv)
  have "tx_calls (ring_calls (unat (tx_prodIndex q)) (concat frames) @
      (if frames = [] then [] else [Mm (WriteRegister (Rings TDMA TDMA_Prod_Index) (tx_prodIndex (txQueue w')))]) @
      [Mm (ReadRegister (Rings TDMA TDMA_Cons_Index))]) w1 w'"
    using advance_run(4) [OF assms(1) live [unfolded q_def] assms(5)] by (simp only: q_def [symmetric] descs none)
  then show ?thesis using each by blast
qed

theorem tx_frames_well_formed_witness:
  "\<exists>frames. length frames = 1 \<and> list_all2 (\<lambda>p. frame_ok (packet_fragments tx_example_queue p)) [0] frames"
proof -
  have q: "txQueue tx_example_offered = tx_example_queue" by (simp add: tx_example_offered_def)
  have i: "\<not> Ignore (tx_packets tx_example_queue 0)" by (simp add: tx_example_queue_def)
  have "NT_SUCCESS STATUS_SUCCESS" by simp
  from tx_frames_well_formed [OF ring_next_steps tx_example_creation(1) this tx_example_reached prod.collapse [symmetric]]
  obtain frames where "list_all2 (\<lambda>p. frame_ok (packet_fragments tx_example_queue p)) [0] frames"
    unfolding q tx_example_posting using i by auto
  then show ?thesis using list_all2_lengthD by fastforce
qed

end
