(* ===== verification/Uxflt_Dma.thy ===== *)
theory Uxflt_Dma
  imports Kernel
begin

text \<open>
  The DMA filter of the USB host controller (\<open>rpiuxflt\<close>): \<open>dma.c\<close>, the adapter that transfers through
  bounce buffers below 3 GB.

  The state is one \<open>FILTER_DMA_ADAPTER\<close> and the memory of the system. A pointer to a bounce buffer is its
  index in the array; \<open>NULL\<close> is \<open>None\<close>, and \<open>0\<close> for the other pointers. \<open>NT_FRE_ASSERT\<close>
  sets \<open>flt_bugcheck\<close>; copying from or to \<open>NULL\<close> sets \<open>flt_ub\<close>.
\<close>

section \<open>Constants and data\<close>

abbreviation (input) PAGE_SIZE_4K :: u32 where "PAGE_SIZE_4K \<equiv> 0x1000"
abbreviation (input) FILTER_ADAPTER_MAX_PAGES :: u32 where "FILTER_ADAPTER_MAX_PAGES \<equiv> 128"
abbreviation (input) FILTER_SCATTER_GATHER_MAX_SIZE :: u32 where "FILTER_SCATTER_GATHER_MAX_SIZE \<equiv> 0x80000"
abbreviation (input) FILTER_NUM_BOUNCE_BUFFERS :: u32 where "FILTER_NUM_BOUNCE_BUFFERS \<equiv> 32"
abbreviation (input) FILTER_MAX_DMA_PHYSICAL_ADDRESS :: u64 where "FILTER_MAX_DMA_PHYSICAL_ADDRESS \<equiv> 0xbfffffff"

text \<open>\<open>sizeof(SCATTER_GATHER_LIST) + sizeof(SCATTER_GATHER_ELEMENT)\<close> on a 64-bit system.\<close>

abbreviation (input) SCATTER_GATHER_LIST_MIN_SIZE :: u32 where "SCATTER_GATHER_LIST_MIN_SIZE \<equiv> 40"

text \<open>\<open>sizeof(FILTER_DMA_ADAPTER)\<close>, which only the allocation sees.\<close>

abbreviation (input) sizeof_FILTER_DMA_ADAPTER :: nat where "sizeof_FILTER_DMA_ADAPTER \<equiv> 2088"

record FILTER_BOUNCE_BUFFER =
  bb_VirtualAddress :: nat
  bb_Mdl :: handle
  bb_NumberOfElements :: u32
  sge_Address :: u64
  sge_Length :: u32

record FILTER_DMA_ADAPTER =
  fa_Version :: u16
  fa_Operations :: bool
  AttachedAdapter :: handle
  BounceBuffers :: "nat \<Rightarrow> FILTER_BOUNCE_BUFFER"
  FreeBounceBuffers :: "nat \<Rightarrow> nat option"
  CurrentFreeBounceBuffer :: u32

definition zero_bounce_buffer :: FILTER_BOUNCE_BUFFER where
  "zero_bounce_buffer = \<lparr>bb_VirtualAddress = 0, bb_Mdl = 0, bb_NumberOfElements = 0, sge_Address = 0, sge_Length = 0\<rparr>"

definition zero_adapter :: FILTER_DMA_ADAPTER where
  "zero_adapter = \<lparr>fa_Version = 0, fa_Operations = False, AttachedAdapter = 0, BounceBuffers = (\<lambda>_. zero_bounce_buffer),
     FreeBounceBuffers = (\<lambda>_. None), CurrentFreeBounceBuffer = 0\<rparr>"

text \<open>The routines of a bus interface: those of the driver that filled it in, or those of the filter.\<close>

datatype bus_routines = BusRoutines handle | FilterRoutines

record BUS_INTERFACE_STANDARD =
  bi_Size :: u16
  bi_Version :: u16
  bi_Context :: handle
  bi_Routines :: bus_routines

text \<open>
  The device of the filter, its adapter, and the memory; \<open>mdlNext\<close> is the field \<open>Next\<close> of each MDL
  of the system.
\<close>

record uxflt = kernel +
  Self :: handle
  deviceFlags :: u32
  TopOfStack :: handle
  AttachedBusInterface :: BUS_INTERFACE_STANDARD
  adapter :: FILTER_DMA_ADAPTER
  memory :: "nat \<Rightarrow> u8"
  mdlNext :: "handle \<Rightarrow> handle"
  flt_bugcheck :: bool
  flt_ub :: bool

definition update_adapter :: "(FILTER_DMA_ADAPTER \<Rightarrow> FILTER_DMA_ADAPTER) \<Rightarrow> (uxflt, unit) state" where
  "update_adapter f = update (adapter_update f)"

definition update_buffer :: "nat \<Rightarrow> (FILTER_BOUNCE_BUFFER \<Rightarrow> FILTER_BOUNCE_BUFFER) \<Rightarrow> (uxflt, unit) state" where
  "update_buffer i f = update_adapter (\<lambda>a. a\<lparr>BounceBuffers := (BounceBuffers a)(i := f (BounceBuffers a i))\<rparr>)"

definition FLT_ASSERT :: "bool \<Rightarrow> (uxflt, unit) state" where
  "FLT_ASSERT c = do_when (\<not> c) (update (flt_bugcheck_update (\<lambda>_. True)))"

definition RtlCopyMemory :: "nat \<Rightarrow> nat \<Rightarrow> nat \<Rightarrow> (uxflt, unit) state" where
  "RtlCopyMemory dst src n = update (\<lambda>w. if n \<noteq> 0 \<and> (dst = 0 \<or> src = 0) then w\<lparr>flt_ub := True\<rparr>
     else w\<lparr>memory := store_bytes dst (load_bytes src n (memory w)) (memory w)\<rparr>)"

lemma run_uxflt [simp, run]:
  "run_state (update_adapter f) w = ((), w\<lparr>adapter := f (adapter w)\<rparr>)"
  "run_state (update_buffer i g) w = ((), w\<lparr>adapter := (adapter w)\<lparr>BounceBuffers := (BounceBuffers (adapter w))
     (i := g (BounceBuffers (adapter w) i))\<rparr>\<rparr>)"
  "run_state (FLT_ASSERT c) w = ((), if c then w else w\<lparr>flt_bugcheck := True\<rparr>)"
  by (simp_all add: update_adapter_def update_buffer_def FLT_ASSERT_def)

section \<open>Common buffers\<close>

definition Dma_AllocateCommonBuffer :: "os \<Rightarrow> u32 \<Rightarrow> bool \<Rightarrow> (uxflt, nat \<times> u64) state" where
  "Dma_AllocateCommonBuffer os Length CacheEnabled = do {
     w \<leftarrow> get;
     r \<leftarrow> ext os (Flt (AllocateCommonBufferEx (AttachedAdapter (adapter w)) FILTER_MAX_DMA_PHYSICAL_ADDRESS Length));
     return (r_ptr r, r_phys r)
   }"

definition Dma_FreeCommonBuffer :: "os \<Rightarrow> u32 \<Rightarrow> u64 \<Rightarrow> nat \<Rightarrow> bool \<Rightarrow> (uxflt, unit) state" where
  "Dma_FreeCommonBuffer os Length LogicalAddress VirtualAddress CacheEnabled = do {
     w \<leftarrow> get;
     _ \<leftarrow> ext os (Flt (FreeCommonBuffer (AttachedAdapter (adapter w)) Length LogicalAddress VirtualAddress CacheEnabled));
     return ()
   }"

section \<open>Queries\<close>

definition Dma_GetDmaAlignment :: "(uxflt, u32) state" where
  "Dma_GetDmaAlignment = return 1"

text \<open>The size of the list and the number of map registers.\<close>

definition Dma_CalculateScatterGatherList :: "u32 \<Rightarrow> (uxflt, ntstatus \<times> u32 \<times> u32) state" where
  "Dma_CalculateScatterGatherList Length =
     return (STATUS_SUCCESS, SCATTER_GATHER_LIST_MIN_SIZE, Length div PAGE_SIZE_4K)"

text \<open>The map registers, the elements of the list and its size; the version is \<open>None\<close> for a \<open>NULL\<close> pointer.\<close>

definition Dma_GetDmaTransferInfo :: "u32 option \<Rightarrow> u32 \<Rightarrow> (uxflt, ntstatus \<times> (u32 \<times> u32 \<times> u32) option) state" where
  "Dma_GetDmaTransferInfo TransferInfo_Version Length = return (case TransferInfo_Version of
      None \<Rightarrow> (STATUS_INVALID_PARAMETER, None)
    | Some v \<Rightarrow> if v \<noteq> 1 then (STATUS_NOT_SUPPORTED, None)
        else (STATUS_SUCCESS, Some ((Length + PAGE_SIZE_4K - 1) div PAGE_SIZE_4K, 1, SCATTER_GATHER_LIST_MIN_SIZE)))"

section \<open>Transfers\<close>

definition get_bounce_buffer :: "os \<Rightarrow> (uxflt, nat option) state" where
  "get_bounce_buffer os = do {
     _ \<leftarrow> ext os (Ke (ExAcquireMutex BounceBufferLock));
     w \<leftarrow> get;
     let cur = CurrentFreeBounceBuffer (adapter w) in do {
       do_when (cur \<noteq> 0) (update_adapter (CurrentFreeBounceBuffer_update (\<lambda>n. n - 1)));
       _ \<leftarrow> ext os (Ke (ExReleaseMutex BounceBufferLock));
       return (if cur \<noteq> 0 then FreeBounceBuffers (adapter w) (unat (cur - 1)) else None)
     }
   }"

text \<open>The part of a transfer with its bounce buffer: the data to the device, and the call of the client.\<close>

definition start_transfer :: "os \<Rightarrow> nat \<Rightarrow> handle \<Rightarrow> u32 \<Rightarrow> handle \<Rightarrow> bool \<Rightarrow> (uxflt, unit) state" where
  "start_transfer os i Mdl Length Context WriteToDevice = do {
     do_when WriteToDevice (do {
       w \<leftarrow> get;
       r \<leftarrow> ext os (Flt (MmGetSystemAddressForMdlSafe Mdl));
       RtlCopyMemory (bb_VirtualAddress (BounceBuffers (adapter w) i)) (r_ptr r) (unat Length)
     });
     update_buffer i (\<lambda>b. b\<lparr>bb_Mdl := Mdl, sge_Length := Length\<rparr>);
     w \<leftarrow> get;
     _ \<leftarrow> ext os (Flt (ExecutionRoutine i (sge_Address (BounceBuffers (adapter w) i)) (sge_Length (BounceBuffers (adapter w) i)) Context));
     return ()
   }"

definition Dma_GetScatterGatherList :: "os \<Rightarrow> handle \<Rightarrow> u32 \<Rightarrow> handle \<Rightarrow> bool \<Rightarrow> (uxflt, ntstatus) state" where
  "Dma_GetScatterGatherList os Mdl Length Context WriteToDevice = do {
     w \<leftarrow> get;
     if Mdl = 0 then return STATUS_INVALID_PARAMETER
     else if mdlNext w Mdl \<noteq> 0 then return STATUS_NOT_SUPPORTED
     else if FILTER_SCATTER_GATHER_MAX_SIZE < Length then return STATUS_BUFFER_OVERFLOW
     else do {
       b \<leftarrow> get_bounce_buffer os;
       case b of
         None \<Rightarrow> return STATUS_UNSUCCESSFUL
       | Some i \<Rightarrow> do {
           start_transfer os i Mdl Length Context WriteToDevice;
           return STATUS_SUCCESS
         }
     }
   }"

definition Dma_PutScatterGatherList :: "os \<Rightarrow> nat \<Rightarrow> bool \<Rightarrow> (uxflt, unit) state" where
  "Dma_PutScatterGatherList os i WriteToDevice = do {
     do_when (\<not> WriteToDevice) (do {
       w \<leftarrow> get;
       let b = BounceBuffers (adapter w) i in do {
         r \<leftarrow> ext os (Flt (MmGetSystemAddressForMdlSafe (bb_Mdl b)));
         RtlCopyMemory (r_ptr r) (bb_VirtualAddress b) (unat (sge_Length b))
       }
     });
     w \<leftarrow> get;
     FLT_ASSERT (CurrentFreeBounceBuffer (adapter w) < FILTER_NUM_BOUNCE_BUFFERS);
     _ \<leftarrow> ext os (Ke (ExAcquireMutex BounceBufferLock));
     update_adapter (\<lambda>a. a\<lparr>FreeBounceBuffers := (FreeBounceBuffers a)(unat (CurrentFreeBounceBuffer a) := Some i),
                         CurrentFreeBounceBuffer := CurrentFreeBounceBuffer a + 1\<rparr>);
     _ \<leftarrow> ext os (Ke (ExReleaseMutex BounceBufferLock));
     return ()
   }"

section \<open>The life of an adapter\<close>

text \<open>The bounce buffers \<open>i\<close> to \<open>i + n - 1\<close> are freed.\<close>

fun free_bounce_buffers :: "os \<Rightarrow> nat \<Rightarrow> nat \<Rightarrow> (uxflt, unit) state" where
  "free_bounce_buffers os 0 i = return ()"
| "free_bounce_buffers os (Suc n) i = do {
     w \<leftarrow> get;
     let b = BounceBuffers (adapter w) i in do {
       do_when (bb_VirtualAddress b \<noteq> 0)
         (Dma_FreeCommonBuffer os FILTER_SCATTER_GATHER_MAX_SIZE (sge_Address b) (bb_VirtualAddress b) False);
       free_bounce_buffers os n (Suc i)
     }
   }"

definition Dma_PutDmaAdapter :: "os \<Rightarrow> handle \<Rightarrow> (uxflt, unit) state" where
  "Dma_PutDmaAdapter os DmaAdapter = do {
     w \<leftarrow> get;
     FLT_ASSERT (CurrentFreeBounceBuffer (adapter w) = FILTER_NUM_BOUNCE_BUFFERS);
     free_bounce_buffers os (unat FILTER_NUM_BOUNCE_BUFFERS) 0;
     w \<leftarrow> get;
     do_when (AttachedAdapter (adapter w) \<noteq> 0)
       (do { _ \<leftarrow> ext os (Flt (PutDmaAdapter (AttachedAdapter (adapter w)))); return () });
     _ \<leftarrow> ext os (Flt (ExFreePoolWithTag DmaAdapter));
     return ()
   }"

text \<open>The bounce buffers \<open>i\<close> to \<open>i + n - 1\<close> are allocated; \<open>False\<close> when one of them cannot be.\<close>

fun allocate_bounce_buffers :: "os \<Rightarrow> nat \<Rightarrow> nat \<Rightarrow> (uxflt, bool) state" where
  "allocate_bounce_buffers os 0 i = return True"
| "allocate_bounce_buffers os (Suc n) i = do {
     update_buffer i (bb_NumberOfElements_update (\<lambda>_. 1));
     (virtualAddress, address) \<leftarrow> Dma_AllocateCommonBuffer os FILTER_SCATTER_GATHER_MAX_SIZE False;
     update_buffer i (\<lambda>b. b\<lparr>bb_VirtualAddress := virtualAddress, sge_Address := address\<rparr>);
     if virtualAddress = 0 then return False
     else do {
       update_adapter (\<lambda>a. a\<lparr>FreeBounceBuffers := (FreeBounceBuffers a)(i := Some i)\<rparr>);
       allocate_bounce_buffers os n (Suc i)
     }
   }"

text \<open>The new adapter, and what is written to \<open>NumberOfMapRegisters\<close>.\<close>

definition Dma_CreateDmaAdapter :: "os \<Rightarrow> (uxflt, handle \<times> u32 option) state" where
  "Dma_CreateDmaAdapter os = do {
     p \<leftarrow> ext os (Flt (ExAllocatePoolWithTag sizeof_FILTER_DMA_ADAPTER));
     if r_ptr p = 0 then return (0, None)
     else do {
       update_adapter (\<lambda>_. zero_adapter);
       w \<leftarrow> get;
       a \<leftarrow> ext os (Flt (AttachedGetDmaAdapter (bi_Context (AttachedBusInterface w))));
       if r_ptr a = 0 then do {
         Dma_PutDmaAdapter os (r_ptr p);
         return (0, Some (r_val a))
       } else do {
         update_adapter (\<lambda>d. d\<lparr>fa_Version := 1, fa_Operations := True, AttachedAdapter := r_ptr a\<rparr>);
         ok \<leftarrow> allocate_bounce_buffers os (unat FILTER_NUM_BOUNCE_BUFFERS) 0;
         if \<not> ok then do {
           Dma_PutDmaAdapter os (r_ptr p);
           return (0, Some (FILTER_ADAPTER_MAX_PAGES + 2))
         } else do {
           update_adapter (CurrentFreeBounceBuffer_update (\<lambda>_. FILTER_NUM_BOUNCE_BUFFERS));
           return (r_ptr p, Some (FILTER_ADAPTER_MAX_PAGES + 2))
         }
       }
     }
   }"

section \<open>Operations that are not supported\<close>

text \<open>
  The client of the filter uses none of the other operations of a DMA adapter: each one stops the
  system, but for the counter.
\<close>

definition not_supported :: "'a \<Rightarrow> (uxflt, 'a) state" where
  "not_supported r = do { FLT_ASSERT False; return r }"

definition Dma_AllocateAdapterChannel :: "(uxflt, ntstatus) state" where
  "Dma_AllocateAdapterChannel = not_supported STATUS_NOT_IMPLEMENTED"

definition Dma_FlushAdapterBuffers :: "(uxflt, bool) state" where
  "Dma_FlushAdapterBuffers = not_supported False"

definition Dma_FreeAdapterChannel :: "(uxflt, unit) state" where
  "Dma_FreeAdapterChannel = not_supported ()"

definition Dma_FreeMapRegisters :: "(uxflt, unit) state" where
  "Dma_FreeMapRegisters = not_supported ()"

definition Dma_MapTransfer :: "(uxflt, u64) state" where
  "Dma_MapTransfer = not_supported 0"

definition Dma_ReadDmaCounter :: "(uxflt, u32) state" where
  "Dma_ReadDmaCounter = return 0"

definition Dma_BuildScatterGatherList :: "(uxflt, ntstatus) state" where
  "Dma_BuildScatterGatherList = not_supported STATUS_NOT_IMPLEMENTED"

definition Dma_BuildMdlFromScatterGatherList :: "(uxflt, ntstatus) state" where
  "Dma_BuildMdlFromScatterGatherList = not_supported STATUS_NOT_IMPLEMENTED"

definition Dma_GetDmaAdapterInfo :: "(uxflt, ntstatus) state" where
  "Dma_GetDmaAdapterInfo = not_supported STATUS_NOT_IMPLEMENTED"

definition Dma_InitializeDmaTransferContext :: "(uxflt, ntstatus) state" where
  "Dma_InitializeDmaTransferContext = not_supported STATUS_NOT_IMPLEMENTED"

definition Dma_AllocateCommonBufferEx :: "(uxflt, handle) state" where
  "Dma_AllocateCommonBufferEx = not_supported 0"

definition Dma_AllocateAdapterChannelEx :: "(uxflt, ntstatus) state" where
  "Dma_AllocateAdapterChannelEx = not_supported STATUS_NOT_IMPLEMENTED"

definition Dma_ConfigureAdapterChannel :: "(uxflt, ntstatus) state" where
  "Dma_ConfigureAdapterChannel = not_supported STATUS_NOT_IMPLEMENTED"

definition Dma_CancelAdapterChannel :: "(uxflt, bool) state" where
  "Dma_CancelAdapterChannel = not_supported False"

definition Dma_MapTransferEx :: "(uxflt, ntstatus) state" where
  "Dma_MapTransferEx = not_supported STATUS_NOT_IMPLEMENTED"

definition Dma_GetScatterGatherListEx :: "(uxflt, ntstatus) state" where
  "Dma_GetScatterGatherListEx = not_supported STATUS_NOT_IMPLEMENTED"

definition Dma_BuildScatterGatherListEx :: "(uxflt, ntstatus) state" where
  "Dma_BuildScatterGatherListEx = not_supported STATUS_NOT_IMPLEMENTED"

definition Dma_FlushAdapterBuffersEx :: "(uxflt, ntstatus) state" where
  "Dma_FlushAdapterBuffersEx = not_supported STATUS_NOT_IMPLEMENTED"

definition Dma_FreeAdapterObject :: "(uxflt, unit) state" where
  "Dma_FreeAdapterObject = not_supported ()"

definition Dma_CancelMappedTransfer :: "(uxflt, ntstatus) state" where
  "Dma_CancelMappedTransfer = not_supported STATUS_NOT_IMPLEMENTED"

definition Dma_AllocateDomainCommonBuffer :: "(uxflt, ntstatus) state" where
  "Dma_AllocateDomainCommonBuffer = not_supported STATUS_NOT_IMPLEMENTED"

definition Dma_FlushDmaBuffer :: "(uxflt, ntstatus) state" where
  "Dma_FlushDmaBuffer = not_supported STATUS_NOT_IMPLEMENTED"

definition Dma_JoinDmaDomain :: "(uxflt, ntstatus) state" where
  "Dma_JoinDmaDomain = not_supported STATUS_NOT_IMPLEMENTED"

definition Dma_LeaveDmaDomain :: "(uxflt, ntstatus) state" where
  "Dma_LeaveDmaDomain = not_supported STATUS_NOT_IMPLEMENTED"

definition Dma_GetDmaDomain :: "(uxflt, handle) state" where
  "Dma_GetDmaDomain = not_supported 0"

definition Dma_AllocateCommonBufferWithBounds :: "(uxflt, handle) state" where
  "Dma_AllocateCommonBufferWithBounds = not_supported 0"

definition Dma_AllocateCommonBufferVector :: "(uxflt, ntstatus) state" where
  "Dma_AllocateCommonBufferVector = not_supported STATUS_NOT_IMPLEMENTED"

definition Dma_GetCommonBufferFromVectorByIndex :: "(uxflt, unit) state" where
  "Dma_GetCommonBufferFromVectorByIndex = not_supported ()"

definition Dma_FreeCommonBufferFromVector :: "(uxflt, unit) state" where
  "Dma_FreeCommonBufferFromVector = not_supported ()"

definition Dma_FreeCommonBufferVector :: "(uxflt, unit) state" where
  "Dma_FreeCommonBufferVector = not_supported ()"

end
