(* ===== verification/Uxflt_Bus.thy ===== *)
theory Uxflt_Bus
  imports Uxflt_Dma
begin

text \<open>
  The place of the DMA filter in the stack of the host controller: \<open>bus.c\<close>, the bus interface that it
  hands up with its own routines, and \<open>driver.c\<close>, its device and the requests that pass through it.
\<close>

section \<open>The bus interface\<close>

definition Bus_InterfaceReferenceNop :: "(uxflt, unit) state" where
  "Bus_InterfaceReferenceNop = return ()"

definition Bus_InterfaceDereferenceNop :: "(uxflt, unit) state" where
  "Bus_InterfaceDereferenceNop = return ()"

text \<open>Whether the address could be translated, its space and the translated address.\<close>

definition Bus_TranslateBusAddress :: "os \<Rightarrow> u64 \<Rightarrow> u32 \<Rightarrow> (uxflt, bool \<times> nat \<times> u64) state" where
  "Bus_TranslateBusAddress os BusAddress Length = do {
     w \<leftarrow> get;
     r \<leftarrow> ext os (Flt (AttachedTranslateBusAddress (bi_Context (AttachedBusInterface w)) BusAddress Length));
     return (r_val r \<noteq> 0, r_len r, r_phys r)
   }"

definition Bus_GetDmaAdapter :: "os \<Rightarrow> (uxflt, handle \<times> u32 option) state" where
  "Bus_GetDmaAdapter os = Dma_CreateDmaAdapter os"

definition Bus_SetBusData :: "os \<Rightarrow> u32 \<Rightarrow> u32 \<Rightarrow> u32 \<Rightarrow> (uxflt, u32) state" where
  "Bus_SetBusData os DataType Offset Length = do {
     w \<leftarrow> get;
     r \<leftarrow> ext os (Flt (AttachedSetBusData (bi_Context (AttachedBusInterface w)) DataType Offset Length));
     return (r_val r)
   }"

text \<open>The number of bytes and what has been read.\<close>

definition Bus_GetBusData :: "os \<Rightarrow> u32 \<Rightarrow> u32 \<Rightarrow> u32 \<Rightarrow> (uxflt, u32 \<times> u8 list) state" where
  "Bus_GetBusData os DataType Offset Length = do {
     w \<leftarrow> get;
     r \<leftarrow> ext os (Flt (AttachedGetBusData (bi_Context (AttachedBusInterface w)) DataType Offset Length));
     return (r_val r, r_data r)
   }"

text \<open>The interface as it is handed up. The one below is kept the first time.\<close>

definition Bus_WrapBusInterface :: "BUS_INTERFACE_STANDARD \<Rightarrow> (uxflt, BUS_INTERFACE_STANDARD) state" where
  "Bus_WrapBusInterface BusInterface = do {
     w \<leftarrow> get;
     do_when (bi_Size (AttachedBusInterface w) = 0) (update (AttachedBusInterface_update (\<lambda>_. BusInterface)));
     return (BusInterface\<lparr>bi_Context := Self w, bi_Routines := FilterRoutines\<rparr>)
   }"

section \<open>The device\<close>

abbreviation (input) DO_BUFFERED_IO :: u32 where "DO_BUFFERED_IO \<equiv> 0x4"
abbreviation (input) DO_DIRECT_IO :: u32 where "DO_DIRECT_IO \<equiv> 0x10"
abbreviation (input) DO_DEVICE_INITIALIZING :: u32 where "DO_DEVICE_INITIALIZING \<equiv> 0x80"

definition no_interface :: BUS_INTERFACE_STANDARD where
  "no_interface = \<lparr>bi_Size = 0, bi_Version = 0, bi_Context = 0, bi_Routines = BusRoutines 0\<rparr>"

text \<open>The flags of the new device are \<open>r_val\<close> of its creation, those of the device below \<open>r_val\<close> of the attachment.\<close>

definition Driver_AddDevice :: "os \<Rightarrow> handle \<Rightarrow> (uxflt, ntstatus) state" where
  "Driver_AddDevice os PhysicalDeviceObject = do {
     d \<leftarrow> ext os (Flt IoCreateDevice);
     if NT_SUCCESS (r_status d) then do {
       update (\<lambda>w. w\<lparr>Self := r_ptr d, deviceFlags := r_val d, TopOfStack := 0, AttachedBusInterface := no_interface\<rparr>);
       t \<leftarrow> ext os (Flt (IoAttachDeviceToDeviceStack (r_ptr d) PhysicalDeviceObject));
       update (TopOfStack_update (\<lambda>_. r_ptr t));
       if r_ptr t = 0 then do {
         _ \<leftarrow> ext os (Flt (IoDeleteDevice (r_ptr d)));
         return STATUS_UNSUCCESSFUL
       } else do {
         update (deviceFlags_update (\<lambda>f.
           if r_val t AND DO_BUFFERED_IO \<noteq> 0 then f OR DO_BUFFERED_IO
           else if r_val t AND DO_DIRECT_IO \<noteq> 0 then f OR DO_DIRECT_IO else f));
         update (deviceFlags_update (\<lambda>f. f AND NOT DO_DEVICE_INITIALIZING));
         return (r_status d)
       }
     } else return (r_status d)
   }"

definition Driver_Unload :: "(uxflt, unit) state" where
  "Driver_Unload = return ()"

section \<open>Requests\<close>

abbreviation (input) IRP_MN_QUERY_INTERFACE :: nat where "IRP_MN_QUERY_INTERFACE \<equiv> 8"
abbreviation (input) IRP_MJ_MAXIMUM_FUNCTION :: nat where "IRP_MJ_MAXIMUM_FUNCTION \<equiv> 0x1b"
abbreviation (input) IRP_MJ_PNP :: nat where "IRP_MJ_PNP \<equiv> 0x1b"
abbreviation (input) STATUS_CONTINUE_COMPLETION :: ntstatus where "STATUS_CONTINUE_COMPLETION \<equiv> 0"
abbreviation (input) sizeof_BUS_INTERFACE_STANDARD :: u16 where "sizeof_BUS_INTERFACE_STANDARD \<equiv> 64"
abbreviation (input) BUS_INTERFACE_STANDARD_VERSION :: u16 where "BUS_INTERFACE_STANDARD_VERSION \<equiv> 1"

definition GUID_BUS_INTERFACE_STANDARD :: "u8 list" where
  "GUID_BUS_INTERFACE_STANDARD =
     [0x80, 0x82, 0x6B, 0x49, 0x25, 0x6F, 0xD0, 0x11, 0xBE, 0xAF, 0x08, 0x00, 0x2B, 0xE2, 0x09, 0x2F]"

record irp_stack =
  MinorFunction :: nat
  qi_InterfaceType :: "u8 list"
  qi_Size :: u16
  qi_Version :: u16

definition Driver_DispatchPassthrough :: "os \<Rightarrow> handle \<Rightarrow> (uxflt, ntstatus) state" where
  "Driver_DispatchPassthrough os Irp = do {
     _ \<leftarrow> ext os (Flt (IoSkipCurrentIrpStackLocation Irp));
     w \<leftarrow> get;
     r \<leftarrow> ext os (Flt (IoCallDriver (TopOfStack w) Irp));
     return (r_status r)
   }"

text \<open>The completion routine: the status, and the interface as it goes up.\<close>

definition Driver_QueryInterfaceBusCompletion ::
  "os \<Rightarrow> handle \<Rightarrow> bool \<Rightarrow> BUS_INTERFACE_STANDARD \<Rightarrow> (uxflt, ntstatus \<times> BUS_INTERFACE_STANDARD) state" where
  "Driver_QueryInterfaceBusCompletion os Irp PendingReturned BusInterface = do {
     do_when PendingReturned (do { _ \<leftarrow> ext os (Flt (IoMarkIrpPending Irp)); return () });
     bi \<leftarrow> Bus_WrapBusInterface BusInterface;
     return (STATUS_CONTINUE_COMPLETION, bi)
   }"

definition Driver_DispatchPnP :: "os \<Rightarrow> handle \<Rightarrow> irp_stack \<Rightarrow> (uxflt, ntstatus) state" where
  "Driver_DispatchPnP os Irp irpStack = do {
     (if MinorFunction irpStack = IRP_MN_QUERY_INTERFACE \<and> qi_InterfaceType irpStack = GUID_BUS_INTERFACE_STANDARD \<and>
        qi_Size irpStack = sizeof_BUS_INTERFACE_STANDARD \<and> qi_Version irpStack = BUS_INTERFACE_STANDARD_VERSION
     then do {
       _ \<leftarrow> ext os (Flt (IoCopyCurrentIrpStackLocationToNext Irp));
       _ \<leftarrow> ext os (Flt (IoSetCompletionRoutine Irp));
       return ()
     } else do { _ \<leftarrow> ext os (Flt (IoSkipCurrentIrpStackLocation Irp)); return () });
     w \<leftarrow> get;
     r \<leftarrow> ext os (Flt (IoCallDriver (TopOfStack w) Irp));
     return (r_status r)
   }"

datatype dispatch_routine = DispatchPassthrough | DispatchPnP

text \<open>The table of routines that \<open>DriverEntry\<close> fills in.\<close>

definition DriverEntry_MajorFunction :: "nat \<Rightarrow> dispatch_routine option" where
  "DriverEntry_MajorFunction mj = (if mj = IRP_MJ_PNP then Some DispatchPnP
     else if mj < IRP_MJ_MAXIMUM_FUNCTION then Some DispatchPassthrough else None)"

end
