(* ===== verification/Uxflt_Bounce.thy ===== *)
theory Uxflt_Bounce
  imports Uxflt_Bus
begin

text \<open>
  Transfers through the bounce buffers of the DMA filter: each buffer serves one transfer at a time, holds
  the data of the client or of the device for as long as the transfer lasts, and creating the
  adapter gives all of them or stops the system.
\<close>

section \<open>What the filter relies on\<close>

definition region :: "nat \<Rightarrow> nat \<Rightarrow> nat set" where
  "region p n = {p ..< p + n}"

text \<open>The common buffers allocated and not yet freed, with their sizes.\<close>

definition live_step :: "(nat \<times> nat) set \<Rightarrow> event \<Rightarrow> (nat \<times> nat) set" where
  "live_step bs e = (case fst e of
      Flt c \<Rightarrow> (case c of
          AllocateCommonBufferEx _ _ n \<Rightarrow> if r_ptr (snd e) = 0 then bs else insert (r_ptr (snd e), unat n) bs
        | FreeCommonBuffer _ _ _ p _ \<Rightarrow> {b \<in> bs. fst b \<noteq> p}
        | _ \<Rightarrow> bs)
    | _ \<Rightarrow> bs)"

definition live :: "event list \<Rightarrow> (nat \<times> nat) set" where
  "live tr = foldl live_step {} tr"

lemma live_snoc [simp]: "live (tr @ [e]) = live_step (live tr) e"
  by (simp add: live_def)

text \<open>
  Documented behaviour of the allocation of common buffers: a new one lies in the part \<open>C\<close> of the
  address space and apart from all that are live.
\<close>

definition common_buffers :: "nat set \<Rightarrow> os \<Rightarrow> bool" where
  "common_buffers C os \<longleftrightarrow> (\<forall>tr a m n. let p = r_ptr (os tr (Flt (AllocateCommonBufferEx a m n))) in
     p \<noteq> 0 \<longrightarrow> region p (unat n) \<subseteq> C \<and> (\<forall>(q, k) \<in> live tr. region p (unat n) \<inter> region q k = {}))"

text \<open>
  The memory of the clients is mapped elsewhere, when it can be mapped at all; \<open>mlen\<close> is the size of
  each MDL.
\<close>

definition client_mappings :: "nat set \<Rightarrow> (handle \<Rightarrow> nat) \<Rightarrow> os \<Rightarrow> bool" where
  "client_mappings C mlen os \<longleftrightarrow> (\<forall>tr mdl. mdl \<noteq> 0 \<longrightarrow>
     (let p = r_ptr (os tr (Flt (MmGetSystemAddressForMdlSafe mdl))) in p \<noteq> 0 \<longrightarrow> region p (mlen mdl) \<inter> C = {}))"

text \<open>
  \<open>MmGetSystemAddressForMdlSafe\<close> may return \<open>NULL\<close>, which the filter does not look for: it has done so,
  for an MDL of the client.
\<close>

definition mapping_failed :: "event list \<Rightarrow> bool" where
  "mapping_failed tr \<longleftrightarrow> (\<exists>mdl r. (Flt (MmGetSystemAddressForMdlSafe mdl), r) \<in> set tr \<and> r_ptr r = 0)"

text \<open>Everything the filter does only adds to the trace.\<close>

definition trace_only :: "(event list \<Rightarrow> bool) \<Rightarrow> os \<Rightarrow> bool" where
  "trace_only Q os \<longleftrightarrow> (\<forall>tr c. Q tr \<longrightarrow> Q (tr @ [(c, os tr c)]))"

lemma mapping_failed_stays: "trace_only mapping_failed os"
  by (auto simp: trace_only_def mapping_failed_def)

lemma trace_rules:
  "trace_only Q os \<Longrightarrow> keeps (\<lambda>w. Q (trace w)) (ext os c)" "keeps (\<lambda>w. Q (trace w)) (update_adapter f)"
  "keeps (\<lambda>w. Q (trace w)) (update_buffer i b)" "keeps (\<lambda>w. Q (trace w)) (FLT_ASSERT a)"
  "keeps (\<lambda>w. Q (trace w)) (RtlCopyMemory d s n)"
  by (simp_all add: keeps_def trace_only_def RtlCopyMemory_def)

lemma trace_kept:
  assumes "trace_only Q os"
  shows "keeps (\<lambda>w. Q (trace w)) (Dma_GetScatterGatherList os mdl len ctx wr)"
    "keeps (\<lambda>w. Q (trace w)) (Dma_PutScatterGatherList os i wr)"
    "keeps (\<lambda>w. Q (trace w)) (Dma_CreateDmaAdapter os)"
proof -
  have free: "keeps (\<lambda>w. Q (trace w)) (free_bounce_buffers os n i)" for n i
    by (induction n arbitrary: i)
      (auto simp: Dma_FreeCommonBuffer_def Let_def intro!: keeps_bind keeps_return keeps_get keeps_when trace_rules assms)
  have put: "keeps (\<lambda>w. Q (trace w)) (Dma_PutDmaAdapter os p)" for p
    unfolding Dma_PutDmaAdapter_def by (intro keeps_bind keeps_return keeps_get keeps_when trace_rules free assms)
  have alloc: "keeps (\<lambda>w. Q (trace w)) (allocate_bounce_buffers os n i)" for n i
    by (induction n arbitrary: i)
      (auto simp: Dma_AllocateCommonBuffer_def intro!: keeps_bind keeps_return keeps_get keeps_if trace_rules assms)
  show "keeps (\<lambda>w. Q (trace w)) (Dma_GetScatterGatherList os mdl len ctx wr)"
    unfolding Dma_GetScatterGatherList_def get_bounce_buffer_def start_transfer_def Let_def
    by (intro keeps_bind keeps_return keeps_get keeps_if keeps_when keeps_case_option trace_rules assms)
  show "keeps (\<lambda>w. Q (trace w)) (Dma_PutScatterGatherList os i wr)"
    unfolding Dma_PutScatterGatherList_def Let_def
    by (intro keeps_bind keeps_return keeps_get keeps_when trace_rules assms)
  show "keeps (\<lambda>w. Q (trace w)) (Dma_CreateDmaAdapter os)"
    unfolding Dma_CreateDmaAdapter_def
    by (intro keeps_bind keeps_return keeps_get keeps_if trace_rules put alloc assms)
qed

section \<open>Bytes of disjoint regions\<close>

lemma load_store_apart:
  "region a n \<inter> region b (length bs) = {} \<Longrightarrow> load_bytes a n (store_bytes b bs m) = load_bytes a n m"
  by (rule load_bytes_cong) (auto simp: store_bytes_def region_def disjoint_iff)

lemma load_store_within:
  assumes "off + length bs \<le> n"
  shows "load_bytes a n (store_bytes (a + off) bs m) = take off (load_bytes a n m) @ bs @ drop (off + length bs) (load_bytes a n m)"
  by (rule nth_equalityI) (use assms in \<open>auto simp: load_bytes_def store_bytes_def nth_append\<close>)

lemma region_mono: "n \<le> k \<Longrightarrow> region p n \<subseteq> region p k"
  by (auto simp: region_def)

section \<open>Transfers\<close>

record transfer =
  t_write :: bool
  t_mdl :: handle
  t_data :: "u8 list"

text \<open>The transfers under way, by bounce buffer, and the state of the filter.\<close>

type_synonym flt_state = "(nat \<Rightarrow> transfer option) \<times> uxflt"

definition bounce :: "uxflt \<Rightarrow> nat \<Rightarrow> FILTER_BOUNCE_BUFFER" where
  "bounce w = BounceBuffers (adapter w)"

definition free_bufs :: "uxflt \<Rightarrow> nat option list" where
  "free_bufs w = map (FreeBounceBuffers (adapter w)) [0 ..< unat (CurrentFreeBounceBuffer (adapter w))]"

definition placed :: "nat set \<Rightarrow> uxflt \<Rightarrow> bool" where
  "placed C w \<longleftrightarrow> (\<forall>i < 32. bb_VirtualAddress (bounce w i) \<noteq> 0 \<and> region (bb_VirtualAddress (bounce w i)) 0x80000 \<subseteq> C) \<and>
     (\<forall>i < 32. \<forall>j < 32. i \<noteq> j \<longrightarrow>
        region (bb_VirtualAddress (bounce w i)) 0x80000 \<inter> region (bb_VirtualAddress (bounce w j)) 0x80000 = {})"

text \<open>A transfer has its buffer, and the buffer its data.\<close>

definition transfer_ok :: "(handle \<Rightarrow> nat) \<Rightarrow> uxflt \<Rightarrow> nat \<Rightarrow> transfer \<Rightarrow> bool" where
  "transfer_ok mlen w i t \<longleftrightarrow> i < 32 \<and> t_mdl t \<noteq> 0 \<and> length (t_data t) \<le> mlen (t_mdl t) \<and> length (t_data t) \<le> 0x80000 \<and>
     bb_Mdl (bounce w i) = t_mdl t \<and> unat (sge_Length (bounce w i)) = length (t_data t) \<and>
     load_bytes (bb_VirtualAddress (bounce w i)) (length (t_data t)) (memory w) = t_data t"

text \<open>Every buffer is free, once, or has a transfer; nothing has gone wrong.\<close>

definition transfers_intact :: "(handle \<Rightarrow> nat) \<Rightarrow> flt_state \<Rightarrow> bool" where
  "transfers_intact mlen s = (case s of (fl, w) \<Rightarrow>
     distinct (free_bufs w) \<and> set (free_bufs w) = Some ` {i. i < 32 \<and> fl i = None} \<and>
     (\<forall>i t. fl i = Some t \<longrightarrow> transfer_ok mlen w i t) \<and> \<not> flt_bugcheck w \<and> \<not> flt_ub w)"

text \<open>The address the system has given for the memory of the client.\<close>

fun client_address :: "event list \<Rightarrow> nat" where
  "client_address [] = 0"
| "client_address ((c, r) # es) = (case c of Flt (MmGetSystemAddressForMdlSafe _) \<Rightarrow> r_ptr r | _ \<Rightarrow> client_address es)"

text \<open>
  The client gets a list and puts it back, with the direction it got it for; the device writes into the
  buffer of a transfer from it; everything else writes outside of the common buffers.
\<close>

inductive flt_step :: "nat set \<Rightarrow> (handle \<Rightarrow> nat) \<Rightarrow> os \<Rightarrow> flt_state \<Rightarrow> flt_state \<Rightarrow> bool" for C mlen os where
  get: "run_state (Dma_GetScatterGatherList os mdl len ctx wr) w = (STATUS_SUCCESS, w') \<Longrightarrow> unat len \<le> mlen mdl \<Longrightarrow>
    trace w' = trace w @ es @ [(Flt (ExecutionRoutine i a n ctx), r)] \<Longrightarrow>
    data = (if wr then load_bytes (client_address es) (unat len) (memory w)
            else load_bytes (bb_VirtualAddress (bounce w' i)) (unat len) (memory w')) \<Longrightarrow>
    flt_step C mlen os (fl, w) (fl(i \<mapsto> \<lparr>t_write = wr, t_mdl = mdl, t_data = data\<rparr>), w')"
| refused: "run_state (Dma_GetScatterGatherList os mdl len ctx wr) w = (st, w') \<Longrightarrow> st \<noteq> STATUS_SUCCESS \<Longrightarrow>
    flt_step C mlen os (fl, w) (fl, w')"
| put: "fl i = Some t \<Longrightarrow> run_state (Dma_PutScatterGatherList os i (t_write t)) w = (u, w') \<Longrightarrow>
    flt_step C mlen os (fl, w) (fl(i := None), w')"
| device: "fl i = Some t \<Longrightarrow> \<not> t_write t \<Longrightarrow> off + length bs \<le> length (t_data t) \<Longrightarrow>
    flt_step C mlen os (fl, w)
      (fl(i \<mapsto> t\<lparr>t_data := take off (t_data t) @ bs @ drop (off + length bs) (t_data t)\<rparr>),
       w\<lparr>memory := store_bytes (bb_VirtualAddress (bounce w i) + off) bs (memory w)\<rparr>)"
| others: "\<forall>x \<in> C. m x = memory w x \<Longrightarrow> flt_step C mlen os (fl, w) (fl, w\<lparr>memory := m, mdlNext := nx\<rparr>)"

definition flt_inv :: "nat set \<Rightarrow> (handle \<Rightarrow> nat) \<Rightarrow> flt_state \<Rightarrow> bool" where
  "flt_inv C mlen s \<longleftrightarrow> transfers_intact mlen s \<and> placed C (snd s) \<and> CurrentFreeBounceBuffer (adapter (snd s)) \<le> 32"

section \<open>Getting and putting a list\<close>

lemma mutex_events [simp]:
  "client_address ((Ke k, r) # es) = client_address es"
  "client_address ((Flt (MmGetSystemAddressForMdlSafe m), r) # es) = r_ptr r"
  by simp_all

text \<open>What a successful request does: it takes the last of the free buffers.\<close>

definition granted :: "bool \<Rightarrow> handle \<Rightarrow> u32 \<Rightarrow> nat \<Rightarrow> nat \<Rightarrow> uxflt \<Rightarrow> uxflt \<Rightarrow> bool" where
  "granted wr mdl len i p w w' \<longleftrightarrow> mdl \<noteq> 0 \<and> len \<le> 0x80000 \<and> CurrentFreeBounceBuffer (adapter w) \<noteq> 0 \<and>
     FreeBounceBuffers (adapter w) (unat (CurrentFreeBounceBuffer (adapter w) - 1)) = Some i \<and>
     CurrentFreeBounceBuffer (adapter w') = CurrentFreeBounceBuffer (adapter w) - 1 \<and>
     FreeBounceBuffers (adapter w') = FreeBounceBuffers (adapter w) \<and>
     bounce w' = (bounce w)(i := (bounce w i)\<lparr>bb_Mdl := mdl, sge_Length := len\<rparr>) \<and>
     memory w' = (if wr \<and> len \<noteq> 0 then store_bytes (bb_VirtualAddress (bounce w i)) (load_bytes p (unat len) (memory w)) (memory w) else memory w) \<and>
     flt_bugcheck w' = flt_bugcheck w \<and> flt_ub w' = flt_ub w"

lemma start_transfer_run:
  assumes "client_mappings C mlen os" "mdl \<noteq> 0" "bb_VirtualAddress (bounce w i) \<noteq> 0" "\<not> mapping_failed (trace w')"
    and run: "run_state (start_transfer os i mdl len ctx wr) w = (u, w')"
  obtains es r p where "trace w' = trace w @ es @ [(Flt (ExecutionRoutine i (sge_Address (bounce w i)) len ctx), r)]"
    "wr \<longrightarrow> client_address es = p \<and> p \<noteq> 0 \<and> region p (mlen mdl) \<inter> C = {}" "\<not> wr \<longrightarrow> client_address es = 0"
    "adapter w' = (adapter w)\<lparr>BounceBuffers := (bounce w)(i := (bounce w i)\<lparr>bb_Mdl := mdl, sge_Length := len\<rparr>)\<rparr>"
    "memory w' = (if wr \<and> len \<noteq> 0 then store_bytes (bb_VirtualAddress (bounce w i)) (load_bytes p (unat len) (memory w)) (memory w) else memory w)"
    "flt_bugcheck w' = flt_bugcheck w" "flt_ub w' = flt_ub w"
proof (cases wr)
  case True
  let ?c = "Flt (MmGetSystemAddressForMdlSafe mdl)" let ?r = "os (trace w) ?c"
  have "(?c, ?r) \<in> set (trace w')"
    using run True by (auto simp: start_transfer_def RtlCopyMemory_def split: if_splits)
  then have "r_ptr ?r \<noteq> 0" using assms(4) by (auto simp: mapping_failed_def)
  then have p: "r_ptr ?r \<noteq> 0" "region (r_ptr ?r) (mlen mdl) \<inter> C = {}"
    using assms(1,2) by (simp_all add: client_mappings_def Let_def)
  have z: "store_bytes x (load_bytes y 0 m) m = m" for x y m by (simp add: load_bytes_def)
  show thesis
    by (rule that [of "[(?c, ?r)]" _ "r_ptr ?r"])
      (use run True p assms(3) z in \<open>auto simp: start_transfer_def RtlCopyMemory_def bounce_def split: if_splits\<close>)
next
  case False
  show thesis
    by (rule that [of "[]" _ 0]) (use run False in \<open>auto simp: start_transfer_def bounce_def\<close>)
qed

lemma unat_pred: "(x :: u32) \<noteq> 0 \<Longrightarrow> unat x = Suc (unat (x - 1))"
  by (simp add: unat_minus_one unat_gt_0)

lemma free_bufs_last:
  assumes "CurrentFreeBounceBuffer (adapter w) \<noteq> 0"
  shows "free_bufs w = map (FreeBounceBuffers (adapter w)) [0 ..< unat (CurrentFreeBounceBuffer (adapter w) - 1)] @
    [FreeBounceBuffers (adapter w) (unat (CurrentFreeBounceBuffer (adapter w) - 1))]"
  unfolding free_bufs_def unat_pred [OF assms] by simp

lemma get_run:
  assumes inv: "flt_inv C mlen (fl, w)" and maps: "client_mappings C mlen os" and mapped: "\<not> mapping_failed (trace w')"
    and run: "run_state (Dma_GetScatterGatherList os mdl len ctx wr) w = (STATUS_SUCCESS, w')"
  obtains i es r p where "trace w' = trace w @ es @ [(Flt (ExecutionRoutine i (sge_Address (bounce w i)) len ctx), r)]"
    "wr \<longrightarrow> client_address es = p \<and> p \<noteq> 0 \<and> region p (mlen mdl) \<inter> C = {}" "granted wr mdl len i p w w'" "i < 32" "fl i = None"
proof -
  let ?cur = "CurrentFreeBounceBuffer (adapter w)"
  define i where "i = the (FreeBounceBuffers (adapter w) (unat (?cur - 1)))"
  define w1 where "w1 = snd (run_state (get_bounce_buffer os) w)"
  obtain b where g: "run_state (get_bounce_buffer os) w = (b, w1)" by (simp add: w1_def prod_eq_iff)
  have c: "mdl \<noteq> 0" "len \<le> 0x80000" "b \<noteq> None"
    using run g by (auto simp: Dma_GetScatterGatherList_def split: if_splits option.splits)
  have cur: "?cur \<noteq> 0" "b = FreeBounceBuffers (adapter w) (unat (?cur - 1))" and
    w1: "adapter w1 = (adapter w)\<lparr>CurrentFreeBounceBuffer := ?cur - 1\<rparr>" "memory w1 = memory w" "flt_bugcheck w1 = flt_bugcheck w"
      "flt_ub w1 = flt_ub w"
    using g c(3) by (auto simp: get_bounce_buffer_def Let_def split: if_splits)
  have b: "b = Some i" using c(3) by (simp add: i_def cur(2))
  obtain es0 where es0: "trace w1 = trace w @ es0" "\<And>es. client_address (es0 @ es) = client_address es"
    using g by (auto simp: get_bounce_buffer_def Let_def split: if_splits)
  have "Some i \<in> set (free_bufs w)"
    using cur b by (simp add: free_bufs_last)
  then have i: "i < 32" "fl i = None" using inv by (auto simp: flt_inv_def transfers_intact_def)
  have st: "run_state (start_transfer os i mdl len ctx wr) w1 = ((), w')"
    using run g c b by (auto simp: Dma_GetScatterGatherList_def split: if_splits prod.splits)
  have bw: "bounce w1 = bounce w" by (simp add: bounce_def w1)
  have va: "bb_VirtualAddress (bounce w1 i) \<noteq> 0" using inv i(1) by (simp add: flt_inv_def placed_def bw)
  obtain es r p where t: "trace w' = trace w1 @ es @ [(Flt (ExecutionRoutine i (sge_Address (bounce w1 i)) len ctx), r)]"
    "wr \<longrightarrow> client_address es = p \<and> p \<noteq> 0 \<and> region p (mlen mdl) \<inter> C = {}"
    "adapter w' = (adapter w1)\<lparr>BounceBuffers := (bounce w1)(i := (bounce w1 i)\<lparr>bb_Mdl := mdl, sge_Length := len\<rparr>)\<rparr>"
    "memory w' = (if wr \<and> len \<noteq> 0 then store_bytes (bb_VirtualAddress (bounce w1 i)) (load_bytes p (unat len) (memory w1)) (memory w1) else memory w1)"
    "flt_bugcheck w' = flt_bugcheck w1" "flt_ub w' = flt_ub w1"
    by (rule start_transfer_run [OF maps c(1) va mapped st])
  show thesis
    by (rule that [of "es0 @ es" i r p])
      (use t es0 c cur b i in \<open>simp_all add: granted_def w1 bounce_def\<close>)
qed

lemma transfer_frame:
  assumes "transfer_ok mlen w i t" "bounce w' i = bounce w i"
    "load_bytes (bb_VirtualAddress (bounce w i)) (length (t_data t)) (memory w') = load_bytes (bb_VirtualAddress (bounce w i)) (length (t_data t)) (memory w)"
  shows "transfer_ok mlen w' i t"
  using assms by (simp add: transfer_ok_def)

lemma placed_cong:
  "placed C w \<Longrightarrow> (\<And>i. bb_VirtualAddress (bounce w' i) = bb_VirtualAddress (bounce w i)) \<Longrightarrow> placed C w'"
  by (simp add: placed_def)

text \<open>Bytes stored into one buffer leave the data of the other transfers alone.\<close>

lemma store_elsewhere:
  assumes "placed C w" "transfer_ok mlen w j t" "i < 32" "i \<noteq> j" "off + length bs \<le> 0x80000"
  shows "load_bytes (bb_VirtualAddress (bounce w j)) (length (t_data t)) (store_bytes (bb_VirtualAddress (bounce w i) + off) bs m) =
    load_bytes (bb_VirtualAddress (bounce w j)) (length (t_data t)) m"
proof -
  have "region (bb_VirtualAddress (bounce w i)) 0x80000 \<inter> region (bb_VirtualAddress (bounce w j)) 0x80000 = {}" "length (t_data t) \<le> 0x80000"
    using assms by (simp_all add: placed_def transfer_ok_def)
  then have "region (bb_VirtualAddress (bounce w j)) (length (t_data t)) \<inter> region (bb_VirtualAddress (bounce w i) + off) (length bs) = {}"
    using assms(5) by (fastforce simp: region_def disjoint_iff)
  then show ?thesis by (rule load_store_apart)
qed

lemma get_keeps:
  assumes inv: "flt_inv C mlen (fl, w)" and maps: "client_mappings C mlen os" and mapped: "\<not> mapping_failed (trace w')"
    and run: "run_state (Dma_GetScatterGatherList os mdl len ctx wr) w = (STATUS_SUCCESS, w')" and len: "unat len \<le> mlen mdl"
    and tr: "trace w' = trace w @ es @ [(Flt (ExecutionRoutine i a n ctx), r)]"
    and data: "data = (if wr then load_bytes (client_address es) (unat len) (memory w)
            else load_bytes (bb_VirtualAddress (bounce w' i)) (unat len) (memory w'))"
  shows "flt_inv C mlen (fl(i \<mapsto> \<lparr>t_write = wr, t_mdl = mdl, t_data = data\<rparr>), w')"
proof -
  obtain j es' r' p where t: "trace w' = trace w @ es' @ [(Flt (ExecutionRoutine j (sge_Address (bounce w j)) len ctx), r')]"
    "wr \<longrightarrow> client_address es' = p \<and> p \<noteq> 0 \<and> region p (mlen mdl) \<inter> C = {}" "granted wr mdl len j p w w'" "j < 32" "fl j = None"
    by (rule get_run [OF inv maps mapped run])
  have [simp]: "j = i" "es' = es" using t(1) tr by simp_all
  note g = t(3) [unfolded granted_def \<open>j = i\<close>]
  have d: "length data = unat len" by (simp add: data)
  have max: "unat len \<le> 0x80000" using g by (simp add: word_le_nat_alt)
  have va: "bb_VirtualAddress (bounce w' k) = bb_VirtualAddress (bounce w k)" for k using g by simp
  have pl: "placed C w" "placed C w'" using inv va placed_cong [of C w w'] by (simp_all add: flt_inv_def)
  have cur: "CurrentFreeBounceBuffer (adapter w) \<noteq> 0" using g by simp
  have free: "free_bufs w = free_bufs w' @ [Some i]"
    using g unfolding free_bufs_last [OF cur] by (simp add: free_bufs_def)
  have "load_bytes (bb_VirtualAddress (bounce w i)) (unat len) (memory w') = data"
  proof -
    have m: "memory w' = (if wr \<and> len \<noteq> 0 then store_bytes (bb_VirtualAddress (bounce w i)) (load_bytes p (unat len) (memory w)) (memory w)
        else memory w)" using g by blast
    have "load_bytes x 0 m' = []" for x m' by (simp add: load_bytes_def)
    then show ?thesis using t(2) by (cases wr; cases "len = 0") (simp_all add: data va m)
  qed
  then have new: "transfer_ok mlen w' i \<lparr>t_write = wr, t_mdl = mdl, t_data = data\<rparr>"
    using g d len max t(4) va by (simp add: transfer_ok_def)
  have old: "transfer_ok mlen w' k u" if "fl k = Some u" for k u
  proof -
    have "k \<noteq> i" using that t(5) by auto
    have ok: "transfer_ok mlen w k u" using inv that by (simp add: flt_inv_def transfers_intact_def)
    show ?thesis
      by (rule transfer_frame [OF ok])
        (use g \<open>k \<noteq> i\<close> max t(4) store_elsewhere [OF pl(1) ok, of i 0] in simp_all)
  qed
  have "set (free_bufs w') = Some ` {k. k < 32 \<and> (fl(i \<mapsto> x)) k = None}" for x
  proof -
    have "set (free_bufs w') = set (free_bufs w) - {Some i}"
      using inv free by (auto simp: flt_inv_def transfers_intact_def)
    also have "\<dots> = Some ` {k. k < 32 \<and> fl k = None} - {Some i}" using inv by (simp add: flt_inv_def transfers_intact_def)
    finally show ?thesis by auto
  qed
  moreover have "distinct (free_bufs w')" using inv free by (simp add: flt_inv_def transfers_intact_def)
  moreover have "CurrentFreeBounceBuffer (adapter w') \<le> 32"
  proof -
    have "unat (CurrentFreeBounceBuffer (adapter w)) \<le> 32" using inv by (simp add: flt_inv_def word_le_nat_alt)
    moreover have "CurrentFreeBounceBuffer (adapter w') = CurrentFreeBounceBuffer (adapter w) - 1" using g by blast
    ultimately show ?thesis using unat_pred [OF cur] by (simp add: word_le_nat_alt)
  qed
  ultimately show ?thesis
    using new old pl(2) g inv by (simp add: flt_inv_def transfers_intact_def)
qed

lemma refused_run:
  assumes inv: "flt_inv C mlen (fl, w)" and st: "st \<noteq> STATUS_SUCCESS"
    and run: "run_state (Dma_GetScatterGatherList os mdl len ctx wr) w = (st, w')"
  shows "adapter w' = adapter w" "memory w' = memory w" "flt_bugcheck w' = flt_bugcheck w" "flt_ub w' = flt_ub w"
proof -
  have "FreeBounceBuffers (adapter w) (unat (CurrentFreeBounceBuffer (adapter w) - 1)) \<noteq> None"
    if "CurrentFreeBounceBuffer (adapter w) \<noteq> 0"
  proof -
    have "FreeBounceBuffers (adapter w) (unat (CurrentFreeBounceBuffer (adapter w) - 1)) \<in> set (free_bufs w)"
      using free_bufs_last [OF that] by simp
    then show ?thesis using inv by (auto simp: flt_inv_def transfers_intact_def)
  qed
  note some = this
  obtain b w1 where g: "run_state (get_bounce_buffer os) w = (b, w1)" by (metis prod.exhaust)
  then have w1: "b = (if CurrentFreeBounceBuffer (adapter w) \<noteq> 0
        then FreeBounceBuffers (adapter w) (unat (CurrentFreeBounceBuffer (adapter w) - 1)) else None)"
      "memory w1 = memory w" "flt_bugcheck w1 = flt_bugcheck w" "flt_ub w1 = flt_ub w"
      "CurrentFreeBounceBuffer (adapter w) = 0 \<Longrightarrow> adapter w1 = adapter w"
    by (auto simp: get_bounce_buffer_def Let_def split: if_splits)
  have "w' = w \<or> b = None \<and> w' = w1"
    using run g st by (auto simp: Dma_GetScatterGatherList_def split: if_splits option.splits prod.splits)
  then have "adapter w' = adapter w \<and> memory w' = memory w \<and> flt_bugcheck w' = flt_bugcheck w \<and> flt_ub w' = flt_ub w"
    using w1 some by (cases "CurrentFreeBounceBuffer (adapter w) = 0") auto
  then show "adapter w' = adapter w" "memory w' = memory w" "flt_bugcheck w' = flt_bugcheck w" "flt_ub w' = flt_ub w" by simp_all
qed

lemma flt_inv_cong:
  assumes "flt_inv C mlen (fl, w)" "adapter w' = adapter w" "\<forall>x \<in> C. memory w' x = memory w x" "flt_bugcheck w' = flt_bugcheck w" "flt_ub w' = flt_ub w"
  shows "flt_inv C mlen (fl, w')"
proof -
  have b: "bounce w' = bounce w" "free_bufs w' = free_bufs w" using assms(2) by (simp_all add: bounce_def free_bufs_def)
  have pl: "placed C w" using assms(1) by (simp add: flt_inv_def)
  have "transfer_ok mlen w' i t" if "fl i = Some t" for i t
  proof -
    have ok: "transfer_ok mlen w i t" using assms(1) that by (simp add: flt_inv_def transfers_intact_def)
    then have i: "i < 32" "length (t_data t) \<le> 0x80000" by (simp_all add: transfer_ok_def)
    have "region (bb_VirtualAddress (bounce w i)) (length (t_data t)) \<subseteq> region (bb_VirtualAddress (bounce w i)) 0x80000"
      by (rule region_mono [OF i(2)])
    also have "\<dots> \<subseteq> C" using pl i(1) by (simp add: placed_def)
    finally have "region (bb_VirtualAddress (bounce w i)) (length (t_data t)) \<subseteq> C" .
    then have "load_bytes (bb_VirtualAddress (bounce w i)) (length (t_data t)) (memory w') =
        load_bytes (bb_VirtualAddress (bounce w i)) (length (t_data t)) (memory w)"
      using assms(3) by (intro load_bytes_cong) (auto simp: region_def)
    then show ?thesis using ok b by (simp add: transfer_ok_def)
  qed
  then show ?thesis using assms b by (simp add: flt_inv_def transfers_intact_def placed_def)
qed

text \<open>Putting a list back: the data from the device goes to the client, and the buffer is free again.\<close>

lemma put_run:
  assumes inv: "flt_inv C mlen (fl, w)" and maps: "client_mappings C mlen os" and mapped: "\<not> mapping_failed (trace w')"
    and t: "fl i = Some t"
    and run: "run_state (Dma_PutScatterGatherList os i (t_write t)) w = (u, w')"
  obtains p where "adapter w' = (adapter w)\<lparr>FreeBounceBuffers := (FreeBounceBuffers (adapter w))
      (unat (CurrentFreeBounceBuffer (adapter w)) := Some i), CurrentFreeBounceBuffer := CurrentFreeBounceBuffer (adapter w) + 1\<rparr>"
    "CurrentFreeBounceBuffer (adapter w) < 32"
    "memory w' = (if t_write t then memory w else store_bytes p (t_data t) (memory w))"
    "\<not> t_write t \<longrightarrow> region p (mlen (t_mdl t)) \<inter> C = {} \<and>
       p = r_ptr (os (trace w) (Flt (MmGetSystemAddressForMdlSafe (t_mdl t)))) \<and> p \<noteq> 0"
    "\<not> flt_bugcheck w'" "\<not> flt_ub w'"
proof -
  let ?c = "Flt (MmGetSystemAddressForMdlSafe (t_mdl t))" let ?p = "r_ptr (os (trace w) ?c)"
  have ok: "transfer_ok mlen w i t" "\<not> flt_bugcheck w" "\<not> flt_ub w" and pl: "placed C w"
    and free: "distinct (free_bufs w)" "set (free_bufs w) = Some ` {k. k < 32 \<and> fl k = None}"
    using inv t by (simp_all add: flt_inv_def transfers_intact_def)
  have "unat (CurrentFreeBounceBuffer (adapter w)) = length (free_bufs w)" by (simp add: free_bufs_def)
  also have "\<dots> = card (set (free_bufs w))" using free(1) by (simp add: distinct_card)
  also have "\<dots> \<le> card {k. k < 32 \<and> fl k = None}" unfolding free(2) by (rule card_image_le) simp
  also have "\<dots> \<le> card ({..< 32} - {i})" by (rule card_mono) (use t in auto)
  also have "\<dots> = 31" using ok(1) by (simp add: transfer_ok_def)
  finally have cur: "CurrentFreeBounceBuffer (adapter w) < 32" by (simp add: word_less_nat_alt)
  have mdl: "bb_Mdl (BounceBuffers (adapter w) i) = t_mdl t" using ok(1) by (simp add: transfer_ok_def bounce_def)
  have p: "?p \<noteq> 0" "region ?p (mlen (t_mdl t)) \<inter> C = {}" if "\<not> t_write t"
  proof -
    have "(?c, os (trace w) ?c) \<in> set (trace w')"
      using run that by (auto simp: Dma_PutScatterGatherList_def RtlCopyMemory_def Let_def mdl split: if_splits)
    then show "?p \<noteq> 0" using mapped by (auto simp: mapping_failed_def)
    then show "region ?p (mlen (t_mdl t)) \<inter> C = {}"
      using maps ok(1) by (simp add: client_mappings_def transfer_ok_def Let_def)
  qed
  have b: "bb_Mdl (BounceBuffers (adapter w) i) = t_mdl t" "bb_VirtualAddress (BounceBuffers (adapter w) i) \<noteq> 0"
    "load_bytes (bb_VirtualAddress (BounceBuffers (adapter w) i)) (unat (sge_Length (BounceBuffers (adapter w) i))) (memory w) = t_data t"
    using ok(1) pl by (simp_all add: transfer_ok_def placed_def bounce_def)
  show thesis
    by (rule that [of ?p])
      (use run cur p b ok(2,3) in \<open>auto simp: Dma_PutScatterGatherList_def RtlCopyMemory_def Let_def split: if_splits\<close>)
qed

lemma put_keeps:
  assumes inv: "flt_inv C mlen (fl, w)" and maps: "client_mappings C mlen os" and mapped: "\<not> mapping_failed (trace w')"
    and t: "fl i = Some t"
    and run: "run_state (Dma_PutScatterGatherList os i (t_write t)) w = (u, w')"
  shows "flt_inv C mlen (fl(i := None), w')"
proof -
  obtain p where r: "adapter w' = (adapter w)\<lparr>FreeBounceBuffers := (FreeBounceBuffers (adapter w))
      (unat (CurrentFreeBounceBuffer (adapter w)) := Some i), CurrentFreeBounceBuffer := CurrentFreeBounceBuffer (adapter w) + 1\<rparr>"
    "CurrentFreeBounceBuffer (adapter w) < 32"
    "memory w' = (if t_write t then memory w else store_bytes p (t_data t) (memory w))"
    "\<not> t_write t \<longrightarrow> region p (mlen (t_mdl t)) \<inter> C = {} \<and>
       p = r_ptr (os (trace w) (Flt (MmGetSystemAddressForMdlSafe (t_mdl t)))) \<and> p \<noteq> 0"
    "\<not> flt_bugcheck w'" "\<not> flt_ub w'"
    by (rule put_run [OF inv maps mapped t run])
  have ok: "transfer_ok mlen w i t" and old: "\<not> flt_bugcheck w" "\<not> flt_ub w"
    and free: "distinct (free_bufs w)" "set (free_bufs w) = Some ` {k. k < 32 \<and> fl k = None}"
    using inv t by (simp_all add: flt_inv_def transfers_intact_def)
  define w1 where "w1 = w\<lparr>memory := memory w'\<rparr>"
  have "\<forall>x \<in> C. memory w' x = memory w x"
  proof
    fix x assume "x \<in> C"
    then show "memory w' x = memory w x"
      using r(3,4) ok region_mono [of "length (t_data t)" "mlen (t_mdl t)" p]
      by (cases "t_write t") (auto simp: transfer_ok_def store_bytes_def region_def disjoint_iff)
  qed
  then have "flt_inv C mlen (fl, w1)" by (intro flt_inv_cong [OF inv]) (simp_all add: w1_def)
  moreover have b: "bounce w' = bounce w1" by (simp add: bounce_def r(1) w1_def)
  moreover have m: "memory w' = memory w1" by (simp add: w1_def)
  ultimately have tr: "transfer_ok mlen w' k v" if "(fl(i := None)) k = Some v" for k v
    using that by (auto simp: flt_inv_def transfers_intact_def transfer_ok_def split: if_splits)
  have n: "unat (CurrentFreeBounceBuffer (adapter w) + 1) = Suc (unat (CurrentFreeBounceBuffer (adapter w)))"
    using r(2) by (simp add: word_less_nat_alt unat_word_ariths(1))
  have f: "free_bufs w' = free_bufs w @ [Some i]" by (simp add: free_bufs_def r(1) n)
  have i: "i < 32" using ok by (simp add: transfer_ok_def)
  have "distinct (free_bufs w')" using free t by (auto simp: f)
  moreover have "set (free_bufs w') = Some ` {k. k < 32 \<and> (fl(i := None)) k = None}" using free(2) i by (auto simp: f)
  moreover have "placed C w'" using inv b by (simp add: flt_inv_def placed_def bounce_def w1_def)
  moreover have "CurrentFreeBounceBuffer (adapter w') \<le> 32" using r(2) n by (simp add: r(1) word_le_nat_alt word_less_nat_alt)
  ultimately show ?thesis using tr r(5,6) by (simp add: flt_inv_def transfers_intact_def)
qed

lemma device_keeps:
  assumes inv: "flt_inv C mlen (fl, w)" and t: "fl i = Some t" and off: "off + length bs \<le> length (t_data t)"
  shows "flt_inv C mlen (fl(i \<mapsto> t\<lparr>t_data := take off (t_data t) @ bs @ drop (off + length bs) (t_data t)\<rparr>),
       w\<lparr>memory := store_bytes (bb_VirtualAddress (bounce w i) + off) bs (memory w)\<rparr>)"
proof -
  let ?w = "w\<lparr>memory := store_bytes (bb_VirtualAddress (bounce w i) + off) bs (memory w)\<rparr>"
  let ?t = "t\<lparr>t_data := take off (t_data t) @ bs @ drop (off + length bs) (t_data t)\<rparr>"
  have pl: "placed C w" and ok: "transfer_ok mlen w i t" using inv t by (simp_all add: flt_inv_def transfers_intact_def)
  have b: "bounce ?w = bounce w" "free_bufs ?w = free_bufs w" by (simp_all add: bounce_def free_bufs_def)
  have l: "length (t_data ?t) = length (t_data t)" using off by simp
  have new: "transfer_ok mlen ?w i ?t"
    using ok off load_store_within [OF off, of "bb_VirtualAddress (bounce w i)" "memory w"] l by (simp add: transfer_ok_def b)
  have "transfer_ok mlen ?w k v" if "fl k = Some v" "k \<noteq> i" for k v
  proof -
    have o: "transfer_ok mlen w k v" using inv that by (simp add: flt_inv_def transfers_intact_def)
    have "i < 32" "off + length bs \<le> 0x80000" using ok off by (simp_all add: transfer_ok_def)
    then show ?thesis
      using store_elsewhere [OF pl o, of i off bs] that(2) by (intro transfer_frame [OF o]) (simp_all add: b)
  qed
  moreover have "{k. k < 32 \<and> (fl(i \<mapsto> ?t)) k = None} = {k. k < 32 \<and> fl k = None}" using t by auto
  moreover have "placed C ?w" using pl by (simp add: placed_def b)
  ultimately show ?thesis using inv new by (simp add: flt_inv_def transfers_intact_def b)
qed

lemma flt_step_failed:
  assumes "flt_step C mlen os s s'" "mapping_failed (trace (snd s))"
  shows "mapping_failed (trace (snd s'))"
  using assms
proof cases
  case (get mdl len ctx wr w w' es i a n r data fl)
  then show ?thesis using keeps_run [OF trace_kept(1) [OF mapping_failed_stays] get(3)] assms(2) by simp
next
  case (refused mdl len ctx wr w st w' fl)
  then show ?thesis using keeps_run [OF trace_kept(1) [OF mapping_failed_stays] refused(3)] assms(2) by simp
next
  case (put fl i t w u w')
  then show ?thesis using keeps_run [OF trace_kept(2) [OF mapping_failed_stays] put(4)] assms(2) by simp
qed (use assms(2) in simp_all)

lemma flt_step_keeps:
  assumes maps: "client_mappings C mlen os" and step: "flt_step C mlen os s s'" and inv: "flt_inv C mlen s"
    and mapped: "\<not> mapping_failed (trace (snd s'))"
  shows "flt_inv C mlen s'"
  using step
proof cases
  case (get mdl len ctx wr w w' es i a n r data fl)
  then show ?thesis using get_keeps [of C mlen fl w os w' mdl len ctx wr es i a n r data] inv maps mapped by simp
next
  case (refused mdl len ctx wr w st w' fl)
  have i: "flt_inv C mlen (fl, w)" using inv refused by simp
  from refused_run [OF i refused(4,3)] show ?thesis unfolding refused(2) by (intro flt_inv_cong [OF i]) simp_all
next
  case (put fl i t w u w')
  then show ?thesis using put_keeps [of C mlen fl w os w' i t u] inv maps mapped by simp
next
  case (device fl i t off bs w)
  then show ?thesis using device_keeps [of C mlen fl w i t off bs] inv by simp
next
  case (others m w fl nx)
  have "flt_inv C mlen (fl, w)" using inv others by simp
  then show ?thesis unfolding others(2) by (rule flt_inv_cong) (use others in simp_all)
qed

section \<open>Creation\<close>

text \<open>The first \<open>i\<close> buffers have been allocated and are on the free list.\<close>

definition allocated :: "nat set \<Rightarrow> uxflt \<Rightarrow> nat \<Rightarrow> bool" where
  "allocated C w i \<longleftrightarrow> (\<forall>j < i. bb_VirtualAddress (bounce w j) \<noteq> 0 \<and> region (bb_VirtualAddress (bounce w j)) 0x80000 \<subseteq> C \<and>
       (bb_VirtualAddress (bounce w j), 0x80000) \<in> live (trace w) \<and> FreeBounceBuffers (adapter w) j = Some j \<and>
       bb_NumberOfElements (bounce w j) = 1) \<and>
     (\<forall>j < i. \<forall>k < i. j \<noteq> k \<longrightarrow> region (bb_VirtualAddress (bounce w j)) 0x80000 \<inter> region (bb_VirtualAddress (bounce w k)) 0x80000 = {})"

definition same_flags :: "uxflt \<Rightarrow> uxflt \<Rightarrow> bool" where
  "same_flags w w' \<longleftrightarrow> CurrentFreeBounceBuffer (adapter w') = CurrentFreeBounceBuffer (adapter w) \<and>
     flt_bugcheck w' = flt_bugcheck w \<and> flt_ub w' = flt_ub w \<and> mdlNext w' = mdlNext w"

lemma allocate_one:
  assumes apart: "common_buffers C os" and all: "allocated C w i"
  defines "c \<equiv> Flt (AllocateCommonBufferEx (AttachedAdapter (adapter w)) FILTER_MAX_DMA_PHYSICAL_ADDRESS 0x80000)"
  defines "r \<equiv> os (trace w) c"
  defines "b \<equiv> (bounce w i)\<lparr>bb_NumberOfElements := 1, bb_VirtualAddress := r_ptr r, sge_Address := r_phys r\<rparr>"
  defines "w1 \<equiv> w\<lparr>trace := trace w @ [(c, r)], adapter := (adapter w)\<lparr>BounceBuffers := (bounce w)(i := b)\<rparr>\<rparr>"
  defines "w2 \<equiv> w1\<lparr>adapter := (adapter w1)\<lparr>FreeBounceBuffers := (FreeBounceBuffers (adapter w1))(i := Some i)\<rparr>\<rparr>"
  shows "run_state (allocate_bounce_buffers os (Suc n) i) w =
      (if r_ptr r = 0 then (False, w1) else run_state (allocate_bounce_buffers os n (Suc i)) w2)"
    "same_flags w w1" "same_flags w w2" "r_ptr r \<noteq> 0 \<Longrightarrow> allocated C w2 (Suc i)"
proof -
  show "run_state (allocate_bounce_buffers os (Suc n) i) w =
      (if r_ptr r = 0 then (False, w1) else run_state (allocate_bounce_buffers os n (Suc i)) w2)"
    by (simp add: Dma_AllocateCommonBuffer_def c_def r_def b_def w1_def w2_def bounce_def)
  show "same_flags w w1" "same_flags w w2" by (simp_all add: same_flags_def w1_def w2_def)
  assume p: "r_ptr r \<noteq> 0"
  have new: "region (r_ptr r) 0x80000 \<subseteq> C" "\<And>q k. (q, k) \<in> live (trace w) \<Longrightarrow> region (r_ptr r) 0x80000 \<inter> region q k = {}"
    using spec [OF spec [OF spec [OF spec [OF apart [unfolded common_buffers_def Let_def], of "trace w"], of "AttachedAdapter (adapter w)"],
      of FILTER_MAX_DMA_PHYSICAL_ADDRESS], of "0x80000"] p by (fastforce simp: r_def c_def)+
  have live: "live (trace w2) = insert (r_ptr r, 0x80000) (live (trace w))"
    using p by (simp add: w2_def w1_def live_step_def c_def)
  have b2: "bounce w2 = (bounce w)(i := b)" "FreeBounceBuffers (adapter w2) = (FreeBounceBuffers (adapter w))(i := Some i)"
    by (simp_all add: w2_def w1_def bounce_def)
  have va: "bb_VirtualAddress b = r_ptr r" "bb_NumberOfElements b = 1" by (simp_all add: b_def)
  have old: "region (r_ptr r) 0x80000 \<inter> region (bb_VirtualAddress (bounce w j)) 0x80000 = {}"
    "region (bb_VirtualAddress (bounce w j)) 0x80000 \<inter> region (r_ptr r) 0x80000 = {}" if "j < i" for j
    using new(2) all that unfolding allocated_def by blast+
  show "allocated C w2 (Suc i)"
    unfolding allocated_def b2 live
  proof (intro conjI allI impI)
    fix j assume "j < Suc i"
    then show "bb_VirtualAddress (((bounce w)(i := b)) j) \<noteq> 0" "region (bb_VirtualAddress (((bounce w)(i := b)) j)) 0x80000 \<subseteq> C"
      "(bb_VirtualAddress (((bounce w)(i := b)) j), 0x80000) \<in> insert (r_ptr r, 0x80000) (live (trace w))"
      "((FreeBounceBuffers (adapter w))(i := Some i)) j = Some j" "bb_NumberOfElements (((bounce w)(i := b)) j) = 1"
      using p all new(1) by (cases "j = i"; simp add: va allocated_def less_Suc_eq)+
  next
    fix j k assume "j < Suc i" "k < Suc i" "j \<noteq> k"
    then show "region (bb_VirtualAddress (((bounce w)(i := b)) j)) 0x80000 \<inter> region (bb_VirtualAddress (((bounce w)(i := b)) k)) 0x80000 = {}"
      using all old [of j] old [of k] by (cases "j = i"; cases "k = i"; simp add: va allocated_def less_Suc_eq)
  qed
qed

lemma flt_allocate_run:
  "common_buffers C os \<Longrightarrow> allocated C w i \<Longrightarrow> run_state (allocate_bounce_buffers os n i) w = (ok, w') \<Longrightarrow>
   same_flags w w' \<and> (ok \<longrightarrow> allocated C w' (i + n))"
proof (induction n arbitrary: i w)
  case 0
  then show ?case by (simp add: same_flags_def)
next
  case (Suc n)
  note s = allocate_one [OF Suc.prems(1,2)]
  define r where "r = os (trace w) (Flt (AllocateCommonBufferEx (AttachedAdapter (adapter w)) FILTER_MAX_DMA_PHYSICAL_ADDRESS 0x80000))"
  show ?case
  proof (cases "r_ptr r = 0")
    case True
    then show ?thesis using s(1) [of n] s(2) Suc.prems(3) by (simp add: r_def del: allocate_bounce_buffers.simps)
  next
    case False
    obtain w2 where w2: "run_state (allocate_bounce_buffers os n (Suc i)) w2 = (ok, w')" "same_flags w w2" "allocated C w2 (Suc i)"
      using s(1) [of n] s(3,4) False Suc.prems(3) by (simp add: r_def del: allocate_bounce_buffers.simps)
    from Suc.IH [OF Suc.prems(1) w2(3,1)] show ?thesis using w2(2) by (simp add: same_flags_def)
  qed
qed

lemma put_adapter_stops:
  assumes "CurrentFreeBounceBuffer (adapter w) \<noteq> 32" "run_state (Dma_PutDmaAdapter os p) w = (u, w')"
  shows "flt_bugcheck w'"
proof -
  have k: "keeps flt_bugcheck (free_bounce_buffers os n i)" for n i
  proof (induction n arbitrary: i)
    case (Suc n)
    then show ?case by (auto simp: keeps_def Dma_FreeCommonBuffer_def Let_def)
  qed (simp add: keeps_def)
  obtain w1 where w1: "run_state (free_bounce_buffers os 32 0) (w\<lparr>flt_bugcheck := True\<rparr>) = ((), w1)" by (metis old.unit.exhaust prod.exhaust)
  have "flt_bugcheck w1" by (rule keeps_run [OF k w1]) simp
  then show ?thesis using assms w1 by (auto simp: Dma_PutDmaAdapter_def split: if_splits)
qed

lemma create_run:
  assumes "common_buffers C os" "\<not> flt_bugcheck w" "\<not> flt_ub w" and run: "run_state (Dma_CreateDmaAdapter os) w = ((p, regs), w')"
  shows "p = 0 \<Longrightarrow> r_ptr (os (trace w) (Flt (ExAllocatePoolWithTag sizeof_FILTER_DMA_ADAPTER))) \<noteq> 0 \<Longrightarrow> flt_bugcheck w'"
    "p \<noteq> 0 \<Longrightarrow> flt_inv C mlen (\<lambda>_. None, w')" "p \<noteq> 0 \<Longrightarrow> regs = Some 130 \<and> (\<forall>i < 32. bb_NumberOfElements (bounce w' i) = 1)"
    "p \<noteq> 0 \<Longrightarrow> CurrentFreeBounceBuffer (adapter w') = 32 \<and> mdlNext w' = mdlNext w"
proof -
  let ?pool = "Flt (ExAllocatePoolWithTag sizeof_FILTER_DMA_ADAPTER)"
  let ?w1 = "w\<lparr>trace := trace w @ [(?pool, os (trace w) ?pool)], adapter := zero_adapter\<rparr>"
  let ?get = "Flt (AttachedGetDmaAdapter (bi_Context (AttachedBusInterface w)))" let ?a = "os (trace ?w1) ?get"
  let ?w2 = "?w1\<lparr>trace := trace ?w1 @ [(?get, ?a)]\<rparr>"
  let ?w3 = "?w2\<lparr>adapter := zero_adapter\<lparr>fa_Version := 1, fa_Operations := True, AttachedAdapter := r_ptr ?a\<rparr>\<rparr>"
  obtain ok w4 where al: "run_state (allocate_bounce_buffers os 32 0) ?w3 = (ok, w4)" by (rule prod.exhaust)
  have w4: "same_flags ?w3 w4 \<and> (ok \<longrightarrow> allocated C w4 (0 + 32))"
    by (rule flt_allocate_run [OF assms(1) _ al]) (simp add: allocated_def)
  obtain w5 where p2: "run_state (Dma_PutDmaAdapter os (r_ptr (os (trace w) ?pool))) ?w2 = ((), w5)"
    by (cases "run_state (Dma_PutDmaAdapter os (r_ptr (os (trace w) ?pool))) ?w2") simp
  obtain w6 where p4: "run_state (Dma_PutDmaAdapter os (r_ptr (os (trace w) ?pool))) w4 = ((), w6)"
    by (cases "run_state (Dma_PutDmaAdapter os (r_ptr (os (trace w) ?pool))) w4") simp
  have "CurrentFreeBounceBuffer (adapter ?w2) \<noteq> 32" by (simp add: zero_adapter_def)
  from put_adapter_stops [OF this p2] have b5: "flt_bugcheck w5" .
  have "CurrentFreeBounceBuffer (adapter w4) \<noteq> 32" using w4 by (simp add: zero_adapter_def same_flags_def)
  from put_adapter_stops [OF this p4] have b6: "flt_bugcheck w6" .
  have r: "r_ptr (os (trace w) ?pool) = 0 \<Longrightarrow> p = 0"
    "r_ptr (os (trace w) ?pool) \<noteq> 0 \<Longrightarrow> r_ptr ?a = 0 \<Longrightarrow> p = 0 \<and> w' = w5"
    "r_ptr (os (trace w) ?pool) \<noteq> 0 \<Longrightarrow> r_ptr ?a \<noteq> 0 \<Longrightarrow> \<not> ok \<Longrightarrow> p = 0 \<and> w' = w6"
    "r_ptr (os (trace w) ?pool) \<noteq> 0 \<Longrightarrow> r_ptr ?a \<noteq> 0 \<Longrightarrow> ok \<Longrightarrow>
       p \<noteq> 0 \<and> regs = Some 130 \<and> w' = w4\<lparr>adapter := (adapter w4)\<lparr>CurrentFreeBounceBuffer := 32\<rparr>\<rparr>"
    using run al p2 p4 by (simp_all add: Dma_CreateDmaAdapter_def del: allocate_bounce_buffers.simps)
  show "p = 0 \<Longrightarrow> r_ptr (os (trace w) ?pool) \<noteq> 0 \<Longrightarrow> flt_bugcheck w'"
    using b5 b6 r by blast
  assume "p \<noteq> 0"
  with r have ok: "ok" "regs = Some 130" and w': "w' = w4\<lparr>adapter := (adapter w4)\<lparr>CurrentFreeBounceBuffer := 32\<rparr>\<rparr>" by blast+
  have a: "allocated C w4 32" and fl: "\<not> flt_bugcheck w4" "\<not> flt_ub w4" using w4 ok assms(2,3) by (simp_all add: same_flags_def)
  have b: "bounce w' = bounce w4" by (simp add: w' bounce_def)
  then show "regs = Some 130 \<and> (\<forall>i < 32. bb_NumberOfElements (bounce w' i) = 1)" using a ok by (simp add: allocated_def)
  show "CurrentFreeBounceBuffer (adapter w') = 32 \<and> mdlNext w' = mdlNext w"
    using w4 by (simp add: w' same_flags_def)
  have "free_bufs w' = map Some [0 ..< 32]"
    using a by (simp add: free_bufs_def w' allocated_def)
  then have "distinct (free_bufs w')" "set (free_bufs w') = Some ` {i. i < 32 \<and> None = None}"
    by (auto simp: distinct_map)
  moreover have "placed C w'" using a b by (simp add: placed_def allocated_def)
  ultimately show "flt_inv C mlen (\<lambda>_. None, w')" using fl by (simp add: flt_inv_def transfers_intact_def w')
qed

section \<open>The life of an adapter\<close>

lemma flt_reached:
  assumes "common_buffers C os" "client_mappings C mlen os" "\<not> flt_bugcheck w" "\<not> flt_ub w"
    "run_state (Dma_CreateDmaAdapter os) w = ((p, regs), w0)" "p \<noteq> 0" "(flt_step C mlen os)\<^sup>*\<^sup>* (\<lambda>_. None, w0) s"
  shows "flt_inv C mlen s \<or> mapping_failed (trace (snd s))"
  using assms(7)
proof (induction rule: rtranclp_induct)
  case base
  show ?case using create_run(2) [OF assms(1,3,4,5,6)] by blast
next
  case (step s s')
  then show ?case using flt_step_keeps [OF assms(2)] flt_step_failed by blast
qed

text \<open>
  C10. From the creation of the adapter on, through any sequence of transfers that are started, refused, filled in by the
  device and put back, while others write elsewhere: each bounce buffer is free, once, or serves one transfer; the
  buffer of a transfer to the device holds what the client gave, from the beginning of its MDL, that of a transfer from
  the device what the device has written; no assertion fails and no \<open>NULL\<close> is copied from or to. This holds as long as
  the system has mapped the memory of the client whenever it was asked to: the filter does not check for the \<open>NULL\<close> of
  \<open>MmGetSystemAddressForMdlSafe\<close>, and once there has been one, which the trace shows, nothing is claimed.
\<close>
theorem bounce_transfers_intact:
  assumes "common_buffers C os" "client_mappings C mlen os" "\<not> flt_bugcheck w" "\<not> flt_ub w"
    "run_state (Dma_CreateDmaAdapter os) w = ((p, regs), w0)" "p \<noteq> 0" "(flt_step C mlen os)\<^sup>*\<^sup>* (\<lambda>_. None, w0) s"
  shows "transfers_intact mlen s \<or> mapping_failed (trace (snd s))"
  using flt_reached [OF assms] by (auto simp: flt_inv_def)

text \<open>
  C19. When the client puts back the list of a transfer from the device, and the system could map its memory, this time
  and before, then the memory that its MDL describes holds, from its beginning, what the device has written, and no
  other byte of the memory has changed. So the client has its data when its transfer starts where its MDL does; the
  filter ignores \<open>CurrentVa\<close>, and for a transfer that starts further on this is the wrong place.
\<close>
theorem bounce_read_returns:
  assumes "common_buffers C os" "client_mappings C mlen os" "\<not> flt_bugcheck w" "\<not> flt_ub w"
    "run_state (Dma_CreateDmaAdapter os) w = ((p, regs), w0)" "p \<noteq> 0" "(flt_step C mlen os)\<^sup>*\<^sup>* (\<lambda>_. None, w0) (fl, w1)"
    "fl i = Some t" "\<not> t_write t" "run_state (Dma_PutScatterGatherList os i False) w1 = (u, w')"
    "\<not> mapping_failed (trace w')"
  defines "a \<equiv> r_ptr (os (trace w1) (Flt (MmGetSystemAddressForMdlSafe (t_mdl t))))"
  shows "a \<noteq> 0 \<and> load_bytes a (length (t_data t)) (memory w') = t_data t \<and>
    (\<forall>x. x \<notin> region a (length (t_data t)) \<longrightarrow> memory w' x = memory w1 x)"
proof -
  have "\<not> mapping_failed (trace w1)"
    using assms(11) keeps_run [OF trace_kept(2) [OF mapping_failed_stays] assms(10)] by blast
  then have inv: "flt_inv C mlen (fl, w1)" using flt_reached [OF assms(1-7)] by simp
  have run: "run_state (Dma_PutScatterGatherList os i (t_write t)) w1 = (u, w')" using assms(9,10) by simp
  obtain a' where "memory w' = (if t_write t then memory w1 else store_bytes a' (t_data t) (memory w1))"
    "\<not> t_write t \<longrightarrow> region a' (mlen (t_mdl t)) \<inter> C = {} \<and> a' = a \<and> a' \<noteq> 0"
    unfolding a_def by (rule put_run [OF inv assms(2,11,8) run])
  then have "a \<noteq> 0" "memory w' = store_bytes a (t_data t) (memory w1)" using assms(9) by simp_all
  then show ?thesis by (auto simp: region_def store_bytes_outside)
qed

text \<open>
  C21. Creating the adapter either gives one whose 32 bounce buffers are all free, apart from each other and within
  reach of the controller, or gives \<open>NULL\<close>; it gives \<open>NULL\<close> without stopping the system only when the
  adapter itself could not be allocated.
\<close>
theorem create_all_or_stops:
  assumes "common_buffers C os" "\<not> flt_bugcheck w" "\<not> flt_ub w" "run_state (Dma_CreateDmaAdapter os) w = ((p, regs), w')"
  shows "(if p = 0 then flt_bugcheck w' \<or> r_ptr (os (trace w) (Flt (ExAllocatePoolWithTag sizeof_FILTER_DMA_ADAPTER))) = 0
    else transfers_intact mlen (\<lambda>_. None, w') \<and> placed C w' \<and> regs = Some 130 \<and> (\<forall>i < 32. bb_NumberOfElements (bounce w' i) = 1))"
  using create_run [OF assms] by (auto simp: flt_inv_def)

section \<open>Witnesses\<close>

text \<open>A system that puts each new common buffer above all the others, and the memory of the client below.\<close>

definition top_step :: "nat \<Rightarrow> event \<Rightarrow> nat" where
  "top_step t e = (case fst e of
      Flt c \<Rightarrow> (case c of AllocateCommonBufferEx _ _ n \<Rightarrow> max t (r_ptr (snd e) + unat n) | _ \<Rightarrow> t)
    | _ \<Rightarrow> t)"

definition top_of :: "event list \<Rightarrow> nat" where
  "top_of tr = foldl top_step 0x1000000 tr"

definition stacking_os :: os where
  "stacking_os tr c = ok_reply\<lparr>r_ptr := (case c of
      Flt d \<Rightarrow> (case d of AllocateCommonBufferEx _ _ _ \<Rightarrow> top_of tr | MmGetSystemAddressForMdlSafe _ \<Rightarrow> 0x1000 | _ \<Rightarrow> 1)
    | _ \<Rightarrow> 1)\<rparr>"

lemma top_ge: "0x1000000 \<le> top_of tr"
proof (induction tr rule: rev_induct)
  case (snoc e tr)
  then show ?case by (auto simp: top_of_def top_step_def split: call.splits flt_call.splits)
qed (simp add: top_of_def)

lemma top_live: "(q, k) \<in> live tr \<Longrightarrow> q + k \<le> top_of tr"
proof (induction tr rule: rev_induct)
  case (snoc e tr)
  then show ?case
    by (auto simp: top_of_def top_step_def live_step_def split: call.splits flt_call.splits if_splits)
qed (simp add: live_def)

lemma stacking_common: "common_buffers {0x1000000 ..} stacking_os"
  unfolding common_buffers_def Let_def
proof (intro allI impI conjI)
  fix tr a m n
  show "region (r_ptr (stacking_os tr (Flt (AllocateCommonBufferEx a m n)))) (unat n) \<subseteq> {0x1000000 ..}"
    using top_ge [of tr] by (auto simp: stacking_os_def region_def)
  show "\<forall>(q, k) \<in> live tr. region (r_ptr (stacking_os tr (Flt (AllocateCommonBufferEx a m n)))) (unat n) \<inter> region q k = {}"
    using top_live [of _ _ tr] by (force simp: stacking_os_def region_def)
qed

lemma stacking_client: "client_mappings {0x1000000 ..} (\<lambda>_. 0x1000) stacking_os"
  by (auto simp: client_mappings_def stacking_os_def region_def Let_def)

definition idle_uxflt :: uxflt where
  "idle_uxflt = \<lparr>trace = [], Self = 1, deviceFlags = 0, TopOfStack = 1, AttachedBusInterface = no_interface, adapter = zero_adapter,
     memory = (\<lambda>_. 0), mdlNext = (\<lambda>_. 0), flt_bugcheck = False, flt_ub = False\<rparr>"

text \<open>This system maps every MDL.\<close>

lemma stacking_maps: "trace_only (\<lambda>tr. \<not> mapping_failed tr) stacking_os"
  by (auto simp: trace_only_def mapping_failed_def stacking_os_def)

definition flt_created :: uxflt where
  "flt_created = snd (run_state (Dma_CreateDmaAdapter stacking_os) idle_uxflt)"

lemma stacking_allocates: "run_state (allocate_bounce_buffers stacking_os n i) w = (ok, w') \<Longrightarrow> ok"
proof (induction n arbitrary: i w)
  case (Suc n)
  have p: "r_ptr (stacking_os tr (Flt (AllocateCommonBufferEx a m k))) = 0 \<longleftrightarrow> False" for tr a m k
    using top_ge [of tr] by (simp add: stacking_os_def)
  show ?case using Suc by (auto simp: Dma_AllocateCommonBuffer_def p)
qed simp

lemma flt_creation: "run_state (Dma_CreateDmaAdapter stacking_os) idle_uxflt = ((1, Some 130), flt_created)"
proof -
  have r: "r_ptr (stacking_os tr (Flt (ExAllocatePoolWithTag n))) = 1" "r_ptr (stacking_os tr (Flt (AttachedGetDmaAdapter c))) = 1" for tr n c
    by (simp_all add: stacking_os_def)
  show ?thesis
    by (auto simp: flt_created_def Dma_CreateDmaAdapter_def r simp del: allocate_bounce_buffers.simps
        dest: stacking_allocates split: prod.splits)
qed

theorem create_all_or_stops_witness:
  "placed {0x1000000 ..} flt_created \<and> transfers_intact (\<lambda>_. 0x1000) (\<lambda>_. None, flt_created)"
  using create_all_or_stops [OF stacking_common _ _ flt_creation, of "\<lambda>_. 0x1000"] by (simp add: idle_uxflt_def)

lemma flt_created_mapped: "\<not> mapping_failed (trace flt_created)"
  by (rule keeps_run [OF trace_kept(3) [OF stacking_maps] flt_creation]) (simp add: idle_uxflt_def mapping_failed_def)

text \<open>A transfer of four bytes from the device, which the device fills in and the client puts back.\<close>

definition flt_got :: uxflt where
  "flt_got = snd (run_state (Dma_GetScatterGatherList stacking_os 1 4 7 False) flt_created)"

definition got_index :: nat where
  "got_index = the (FreeBounceBuffers (adapter flt_created) 31)"

lemma flt_created_inv: "flt_inv {0x1000000 ..} (\<lambda>_. 0x1000) (\<lambda>_. None, flt_created)"
  by (rule create_run(2) [OF stacking_common _ _ flt_creation]) (simp_all add: idle_uxflt_def)

lemma flt_created_fields: "CurrentFreeBounceBuffer (adapter flt_created) = 32" "mdlNext flt_created = (\<lambda>_. 0)"
  using create_run(4) [OF stacking_common _ _ flt_creation] by (simp_all add: idle_uxflt_def)

lemma flt_get: "run_state (Dma_GetScatterGatherList stacking_os 1 4 7 False) flt_created = (STATUS_SUCCESS, flt_got)"
proof -
  have "FreeBounceBuffers (adapter flt_created) 31 \<in> set (free_bufs flt_created)"
    by (simp add: free_bufs_last flt_created_fields)
  then obtain i where i: "FreeBounceBuffers (adapter flt_created) 31 = Some i"
    using flt_created_inv by (auto simp: flt_inv_def transfers_intact_def)
  show ?thesis
    by (simp add: flt_got_def Dma_GetScatterGatherList_def get_bounce_buffer_def Let_def flt_created_fields i split: prod.split)
qed

lemma flt_got_mapped: "\<not> mapping_failed (trace flt_got)"
  by (rule keeps_run [OF trace_kept(1) [OF stacking_maps] flt_get flt_created_mapped])

definition got_data :: "u8 list" where
  "got_data = load_bytes (bb_VirtualAddress (bounce flt_got got_index)) 4 (memory flt_got)"

definition flt_filled :: flt_state where
  "flt_filled = ((\<lambda>_. None)(got_index \<mapsto> \<lparr>t_write = False, t_mdl = 1, t_data = [1, 2, 3, 4]\<rparr>),
     flt_got\<lparr>memory := store_bytes (bb_VirtualAddress (bounce flt_got got_index)) [1, 2, 3, 4] (memory flt_got)\<rparr>)"

lemma flt_filled_reached: "(flt_step {0x1000000 ..} (\<lambda>_. 0x1000) stacking_os)\<^sup>*\<^sup>* (\<lambda>_. None, flt_created) flt_filled"
proof -
  obtain i es r p where t: "trace flt_got = trace flt_created @ es @ [(Flt (ExecutionRoutine i (sge_Address (bounce flt_created i)) 4 7), r)]"
    "granted False 1 4 i p flt_created flt_got"
    using get_run [OF flt_created_inv stacking_client flt_got_mapped flt_get] by metis
  have i: "i = got_index" using t(2) by (simp add: granted_def got_index_def flt_created_fields)
  let ?fl = "(\<lambda>_. None)(got_index \<mapsto> \<lparr>t_write = False, t_mdl = 1, t_data = got_data\<rparr>)"
  have "flt_step {0x1000000 ..} (\<lambda>_. 0x1000) stacking_os (\<lambda>_. None, flt_created) (?fl, flt_got)"
    by (rule flt_step.get [OF flt_get _ t(1) [unfolded i]]) (simp_all add: got_data_def)
  moreover have "flt_step {0x1000000 ..} (\<lambda>_. 0x1000) stacking_os (?fl, flt_got) flt_filled"
  proof -
    let ?t = "\<lparr>t_write = False, t_mdl = 1, t_data = got_data\<rparr>"
    have l: "length got_data = 4" by (simp add: got_data_def)
    have "flt_step {0x1000000 ..} (\<lambda>_. 0x1000) stacking_os (?fl, flt_got)
        (?fl(got_index \<mapsto> ?t\<lparr>t_data := take 0 (t_data ?t) @ [1, 2, 3, 4] @ drop (0 + length [1, 2, 3, 4 :: u8]) (t_data ?t)\<rparr>),
         flt_got\<lparr>memory := store_bytes (bb_VirtualAddress (bounce flt_got got_index) + 0) [1, 2, 3, 4] (memory flt_got)\<rparr>)"
      by (rule flt_step.device) (simp_all add: l)
    then show ?thesis using l by (simp add: flt_filled_def)
  qed
  ultimately show ?thesis by (meson converse_rtranclp_into_rtranclp rtranclp.rtrancl_refl)
qed

theorem bounce_transfers_intact_witness: "transfers_intact (\<lambda>_. 0x1000) flt_filled"
proof -
  have "transfers_intact (\<lambda>_. 0x1000) flt_filled \<or> mapping_failed (trace (snd flt_filled))"
    by (rule bounce_transfers_intact [OF stacking_common stacking_client _ _ flt_creation _ flt_filled_reached]) (simp_all add: idle_uxflt_def)
  then show ?thesis using flt_got_mapped by (simp add: flt_filled_def)
qed

theorem bounce_read_returns_witness:
  "load_bytes 0x1000 4 (memory (snd (run_state (Dma_PutScatterGatherList stacking_os got_index False) (snd flt_filled)))) = [1, 2, 3, 4]"
proof -
  have r: "(flt_step {0x1000000 ..} (\<lambda>_. 0x1000) stacking_os)\<^sup>*\<^sup>* (\<lambda>_. None, flt_created) (fst flt_filled, snd flt_filled)"
    using flt_filled_reached by simp
  have t: "fst flt_filled got_index = Some \<lparr>t_write = False, t_mdl = 1, t_data = [1, 2, 3, 4]\<rparr>" by (simp add: flt_filled_def)
  have a: "r_ptr (stacking_os tr (Flt (MmGetSystemAddressForMdlSafe m))) = 0x1000" for tr m by (simp add: stacking_os_def)
  have n: "(4 :: nat) = Suc (Suc (Suc (Suc 0)))" by simp
  have "\<not> mapping_failed (trace (snd flt_filled))" using flt_got_mapped by (simp add: flt_filled_def)
  then have m: "\<not> mapping_failed (trace (snd (run_state (Dma_PutScatterGatherList stacking_os got_index False) (snd flt_filled))))"
    using keeps_run [OF trace_kept(2) [OF stacking_maps] prod.collapse [symmetric]] by blast
  show ?thesis
    unfolding n using bounce_read_returns [OF stacking_common stacking_client _ _ flt_creation _ r t _ prod.collapse [symmetric] m]
    by (simp add: idle_uxflt_def a)
qed

end
